(* ===== verification/Prelude.thy ===== *)
theory Prelude
  imports Main "HOL-Library.Word"
begin

text \<open>
  Shared vocabulary of the development.

  \<^item> results: fallible code returns \<open>'e + 'a\<close>, with the raised exception on the left;
    \<open>bindE\<close> sequences two fallible steps, \<open>mapE\<close> and \<open>foldE\<close> run one over a list, stopping at
    the first error;
  \<^item> text: a Python \<open>str\<close> is the list of its Unicode code points (\<open>pystr\<close>), with the
    operations of \<open>str\<close> and \<open>re\<close> the program calls;
  \<^item> values of unchecked run-time type (\<open>pyobj\<close>), instants with or without a time zone
    (\<open>datetime\<close>) and UUIDs (\<open>uuid\<close>, 128 bit words) with their canonical text;
  \<^item> the generic list lemmas the components use: joins, decimal and hexadecimal printing,
    key-based lookups in tables.
\<close>

section \<open>Results\<close>

named_theorems res_simps \<open>rewrites that push equations through the result type\<close>

definition bindE :: "'e + 'a \<Rightarrow> ('a \<Rightarrow> 'e + 'b) \<Rightarrow> 'e + 'b" where
  "bindE m f = (case m of Inl e \<Rightarrow> Inl e | Inr x \<Rightarrow> f x)"

lemma bindE_Inl [simp]: "bindE (Inl e) f = Inl e"
  by (simp add: bindE_def)

lemma bindE_Inr [simp]: "bindE (Inr x) f = f x"
  by (simp add: bindE_def)

lemma bindE_eq_Inr [res_simps]: "bindE m f = Inr y \<longleftrightarrow> (\<exists>x. m = Inr x \<and> f x = Inr y)"
  by (cases m) auto

lemma bindE_eq_Inl [res_simps]:
  "bindE m f = Inl e \<longleftrightarrow> m = Inl e \<or> (\<exists>x. m = Inr x \<and> f x = Inl e)"
  by (cases m) auto

lemma bindE_assoc: "bindE (bindE m f) g = bindE m (\<lambda>x. bindE (f x) g)"
  by (cases m) auto

lemma bindE_cong [fundef_cong]:
  "\<lbrakk>m = m'; \<And>x. m' = Inr x \<Longrightarrow> f x = f' x\<rbrakk> \<Longrightarrow> bindE m f = bindE m' f'"
  by (cases m') auto

definition requireE :: "bool \<Rightarrow> 'e \<Rightarrow> 'e + unit" where
  "requireE b e = (if b then Inr () else Inl e)"

lemma requireE_simps [simp]:
  "requireE True e = Inr ()" "requireE False e = Inl e"
  by (simp_all add: requireE_def)

lemma requireE_eq [res_simps]:
  "requireE b e = Inr u \<longleftrightarrow> b" "requireE b e = Inl e' \<longleftrightarrow> \<not> b \<and> e' = e"
  by (auto simp: requireE_def)

primrec mapE :: "('a \<Rightarrow> 'e + 'b) \<Rightarrow> 'a list \<Rightarrow> 'e + 'b list" where
  "mapE f [] = Inr []"
| "mapE f (x # xs) = bindE (f x) (\<lambda>y. bindE (mapE f xs) (\<lambda>ys. Inr (y # ys)))"

lemma mapE_cong [fundef_cong]:
  "\<lbrakk>xs = ys; \<And>x. x \<in> set ys \<Longrightarrow> f x = g x\<rbrakk> \<Longrightarrow> mapE f xs = mapE g ys"
  by (induction ys arbitrary: xs) auto

lemma mapE_eq_Inr [res_simps]:
  "mapE f xs = Inr ys \<longleftrightarrow> list_all2 (\<lambda>x y. f x = Inr y) xs ys"
  by (induction xs arbitrary: ys) (auto simp: bindE_eq_Inr list_all2_Cons1)

lemma mapE_Inr_all: "(\<And>x. x \<in> set xs \<Longrightarrow> f x = Inr (g x)) \<Longrightarrow> mapE f xs = Inr (map g xs)"
  by (induction xs) auto

lemma mapE_succeeds:
  assumes "\<And>x. x \<in> set xs \<Longrightarrow> \<exists>y. f x = Inr y"
  shows "\<exists>ys. mapE f xs = Inr ys"
  using assms by (metis mapE_Inr_all)

text \<open>A loop whose body may raise.\<close>

primrec foldE :: "('a \<Rightarrow> 's \<Rightarrow> 'e + 's) \<Rightarrow> 'a list \<Rightarrow> 's \<Rightarrow> 'e + 's" where
  "foldE f [] s = Inr s"
| "foldE f (x # xs) s = bindE (f x s) (foldE f xs)"

lemma foldE_cong [fundef_cong]:
  "\<lbrakk>xs = ys; s = s'; \<And>x t. x \<in> set ys \<Longrightarrow> f x t = g x t\<rbrakk> \<Longrightarrow> foldE f xs s = foldE g ys s'"
proof (induction ys arbitrary: xs s s')
  case (Cons y ys)
  then show ?case by (cases "g y s'") auto
qed simp

lemma foldE_invariant:
  assumes "foldE f xs s = Inr s'" "P s" "\<And>x t t'. \<lbrakk>x \<in> set xs; P t; f x t = Inr t'\<rbrakk> \<Longrightarrow> P t'"
  shows "P s'"
  using assms by (induction xs arbitrary: s) (auto simp: bindE_eq_Inr)

definition is_ok :: "'e + 'a \<Rightarrow> bool" where
  "is_ok r = (case r of Inl _ \<Rightarrow> False | Inr _ \<Rightarrow> True)"

lemma is_ok_simps [simp]: "is_ok (Inr x)" "\<not> is_ok (Inl e)"
  by (simp_all add: is_ok_def)

lemma is_ok_iff: "is_ok r \<longleftrightarrow> (\<exists>x. r = Inr x)"
  by (cases r) auto


section \<open>Python values\<close>

type_synonym pystr = "nat list"

definition lit :: "string \<Rightarrow> pystr" where
  "lit s = map of_char s"

text \<open>
  An object whose run-time type the code inspects with \<open>type(x) is ...\<close> or
  \<open>isinstance\<close>. \<open>PyOther\<close> stands for an object of any other class.
\<close>

datatype pyobj =
    PyNone
  | PyBool bool
  | PyInt int
  | PyStr pystr
  | PyOther

text \<open>A parsed JSON text; \<open>PReal\<close> is a number with a fraction or an exponent, kept as its text.\<close>

datatype jvalue = PNull | PBool bool | PInt int | PReal pystr | PStr pystr | PArr "jvalue list" | PObj "(pystr \<times> jvalue) list"

text \<open>
  A \<open>datetime\<close>: \<open>Aware\<close> carries the instant (microseconds in UTC), which is what Python
  compares for values that have an offset; \<open>Naive\<close> is a value whose \<open>utcoffset()\<close> is \<open>None\<close>.
  The code compares two values only after it has rejected naive ones.
\<close>

datatype datetime = Aware int | Naive int

fun is_aware :: "datetime \<Rightarrow> bool" where
  "is_aware (Aware _) = True"
| "is_aware (Naive _) = False"

fun instant :: "datetime \<Rightarrow> int" where
  "instant (Aware t) = t"
| "instant (Naive t) = t"

lemma aware_eq_iff:
  "\<lbrakk>is_aware a; is_aware b\<rbrakk> \<Longrightarrow> a = b \<longleftrightarrow> instant a = instant b"
  by (cases a; cases b) auto

lemma Aware_instant [simp]: "is_aware t \<Longrightarrow> Aware (instant t) = t"
  by (cases t) auto

type_synonym uuid = "128 word"


section \<open>Lists\<close>

definition is_alnum :: "nat \<Rightarrow> bool" where
  "is_alnum c \<longleftrightarrow> (48 \<le> c \<and> c \<le> 57) \<or> (65 \<le> c \<and> c \<le> 90)"

definition strip_ch :: "nat \<Rightarrow> pystr \<Rightarrow> pystr" where
  "strip_ch c s = rev (dropWhile ((=) c) (rev (dropWhile ((=) c) s)))"

lemma last_dropWhile_ne: "dropWhile P xs \<noteq> [] \<Longrightarrow> last (dropWhile P xs) = last xs"
  by (induction xs) (auto split: if_splits)

lemma strip_ch_id:
  assumes "s = [] \<or> (hd s \<noteq> c \<and> last s \<noteq> c)"
  shows "strip_ch c s = s"
proof (cases s)
  case Nil
  then show ?thesis by (simp add: strip_ch_def)
next
  case (Cons x xs)
  then have "s \<noteq> []" by simp
  with assms have "hd s \<noteq> c" and r: "hd (rev s) \<noteq> c" "rev s \<noteq> []"
    by (auto simp: hd_rev)
  then have "dropWhile ((=) c) s = s"
    by (cases s) auto
  moreover from r have "dropWhile ((=) c) (rev s) = rev s"
    by (cases "rev s") auto
  ultimately show ?thesis by (simp add: strip_ch_def)
qed

lemma hd_dropWhile_eq: "dropWhile ((=) c) xs = [] \<or> hd (dropWhile ((=) c) xs) \<noteq> c"
  by (induction xs) auto

lemma strip_ch_edges:
  "strip_ch c s = [] \<or> (hd (strip_ch c s) \<noteq> c \<and> last (strip_ch c s) \<noteq> c)"
proof -
  define d where "d = dropWhile ((=) c) s"
  define e where "e = dropWhile ((=) c) (rev d)"
  have d: "d = [] \<or> hd d \<noteq> c" and e: "e = [] \<or> hd e \<noteq> c"
    unfolding d_def e_def by (rule hd_dropWhile_eq)+
  have "e \<noteq> [] \<Longrightarrow> last e = last (rev d)"
    unfolding e_def by (rule last_dropWhile_ne)
  moreover have "d = [] \<Longrightarrow> e = []"
    by (simp add: e_def)
  moreover have "strip_ch c s = rev e"
    by (simp add: strip_ch_def d_def e_def)
  ultimately show ?thesis using d e by (auto simp: hd_rev last_rev)
qed

lemma strip_ch_strip [simp]: "strip_ch c (strip_ch c s) = strip_ch c s"
  by (rule strip_ch_id) (rule strip_ch_edges)

lemma set_strip_ch: "set (strip_ch c s) \<subseteq> set s"
  unfolding strip_ch_def by (auto dest!: set_dropWhileD)

text \<open>\<open>re.sub(r"c+", "d", s)\<close>: every maximal run of \<open>c\<close> becomes one \<open>d\<close>.\<close>

function sub_runs :: "nat \<Rightarrow> nat \<Rightarrow> pystr \<Rightarrow> pystr" where
  "sub_runs c d [] = []"
| "sub_runs c d (x # xs) =
     (if x = c then d # sub_runs c d (dropWhile ((=) c) xs) else x # sub_runs c d xs)"
  by pat_completeness auto
termination
  by (relation "measure (\<lambda>(c, d, s). length s)") (auto simp: le_imp_less_Suc length_dropWhile_le)

lemma sub_runs_id: "c \<notin> set s \<Longrightarrow> sub_runs c d s = s"
  by (induction c d s rule: sub_runs.induct) auto

lemma set_sub_runs: "set (sub_runs c d s) \<subseteq> insert d (set s - {c})"
proof (induction c d s rule: sub_runs.induct)
  case (2 c d x xs)
  have "set (dropWhile ((=) c) xs) \<subseteq> set xs"
    by (auto dest: set_dropWhileD)
  with 2 show ?case by (cases "x = c") auto
qed simp

text \<open>\<open>"c".join(parts)\<close> and the facts that make it injective.\<close>

primrec joined :: "'a \<Rightarrow> 'a list list \<Rightarrow> 'a list" where
  "joined c [] = []"
| "joined c (p # ps) = (case ps of [] \<Rightarrow> p | _ \<Rightarrow> p @ c # joined c ps)"

lemma append_Cons_sep_inject:
  assumes "p @ c # r = q @ c # s" "c \<notin> set p" "c \<notin> set q"
  shows "p = q \<and> r = s"
  using assms
proof (induction p arbitrary: q)
  case Nil
  then show ?case by (cases q) auto
next
  case (Cons a p)
  then show ?case by (cases q) auto
qed

lemma joined_Cons: "ps \<noteq> [] \<Longrightarrow> joined c (p # ps) = p @ c # joined c ps"
  by (cases ps) simp_all

lemma joined_inject:
  assumes "joined c ps = joined c qs" "length ps = length qs"
    and "\<forall>p \<in> set ps. c \<notin> set p" "\<forall>q \<in> set qs. c \<notin> set q"
  shows "ps = qs"
  using assms(2,1,3,4)
proof (induction ps qs rule: list_induct2)
  case (Cons p ps q qs)
  show ?case
  proof (cases "ps = []")
    case True
    with Cons.prems Cons.hyps show ?thesis by simp
  next
    case False
    moreover from False Cons.hyps have "qs \<noteq> []" by auto
    ultimately have "p @ c # joined c ps = q @ c # joined c qs"
      using Cons.prems(1) by (metis joined_Cons)
    moreover have "c \<notin> set p" "c \<notin> set q"
      using Cons.prems(2,3) by simp_all
    ultimately have "p = q \<and> joined c ps = joined c qs"
      by (rule append_Cons_sep_inject)
    moreover have "\<forall>p\<in>set ps. c \<notin> set p" "\<forall>q\<in>set qs. c \<notin> set q"
      using Cons.prems(2,3) by simp_all
    ultimately show ?thesis using Cons.IH by blast
  qed
qed simp

lemma length_joined:
  "ps \<noteq> [] \<Longrightarrow> length (joined c ps) = sum_list (map length ps) + (length ps - 1)"
proof (induction ps)
  case (Cons p ps)
  then show ?case by (cases ps) auto
qed simp

lemma distinct_map_filter_unique:
  assumes "distinct (map k xs)" "x \<in> set xs" "y \<in> set xs" "k x = k y"
  shows "x = y"
  using assms by (metis distinct_map inj_onD)

lemma find_eq_Some_distinct:
  assumes "distinct (map k xs)" "x \<in> set xs"
  shows "find (\<lambda>y. k y = k x) xs = Some x"
  using assms
proof (induction xs)
  case (Cons a xs)
  then show ?case by (cases "a = x") (auto simp: rev_image_eqI)
qed simp

end
