(* ===== verification/Text.thy ===== *)
theory Text
  imports Prelude
begin

text \<open>
  The operations of Python's \<open>str\<close>, \<open>re\<close>, \<open>int\<close> and \<open>uuid.UUID\<close> that the domain code
  calls, on code point lists: \<open>isascii\<close>, \<open>upper\<close>, the control-character pattern, decimal
  and hexadecimal printing, the canonical text of a UUID, and the JSON fragments of
  \<open>json.dumps(..., separators=(",", ":"))\<close>.
\<close>

section \<open>Character classes\<close>

definition isascii :: "pystr \<Rightarrow> bool" where
  "isascii s \<longleftrightarrow> (\<forall>c \<in> set s. c < 128)"

text \<open>\<open>_CONTROL_PATTERN.search\<close>: a code point of \<open>[\x00-\x1f\x7f]\<close> occurs.\<close>

definition has_control :: "pystr \<Rightarrow> bool" where
  "has_control s \<longleftrightarrow> (\<exists>c \<in> set s. c < 32 \<or> c = 127)"

text \<open>\<open>any(unicodedata.category(c) == "Cc" for c in s)\<close>.\<close>

definition has_cc :: "pystr \<Rightarrow> bool" where
  "has_cc s \<longleftrightarrow> (\<exists>c \<in> set s. c < 32 \<or> (127 \<le> c \<and> c < 160))"

text \<open>
  \<open>str.upper\<close> of one code point. The listed non-ASCII code points are all those whose
  upper case is ASCII text; any other non-ASCII code point has an upper case that still
  contains a non-ASCII character and is kept as it is here. The program compares an
  upper-cased text only with ASCII literals or after it has rejected non-ASCII text, so
  nothing it does depends on the difference.
\<close>

definition upper_cp :: "nat \<Rightarrow> nat list" where
  "upper_cp c =
     (if 97 \<le> c \<and> c \<le> 122 then [c - 32]
      else if c = 0x131 then [73]
      else if c = 0x17F then [83]
      else if c = 0xDF then [83, 83]
      else if c = 0xFB00 then [70, 70]
      else if c = 0xFB01 then [70, 73]
      else if c = 0xFB02 then [70, 76]
      else if c = 0xFB03 then [70, 70, 73]
      else if c = 0xFB04 then [70, 70, 76]
      else if c = 0xFB05 \<or> c = 0xFB06 then [83, 84]
      else [c])"

definition upper :: "pystr \<Rightarrow> pystr" where
  "upper s = concat (map upper_cp s)"

lemma upper_Nil [simp]: "upper [] = []"
  by (simp add: upper_def)

lemma upper_Cons: "upper (c # s) = upper_cp c @ upper s"
  by (simp add: upper_def)

lemma upper_cp_ascii: "c < 128 \<Longrightarrow> upper_cp c = [if 97 \<le> c \<and> c \<le> 122 then c - 32 else c]"
  by (simp add: upper_cp_def)

lemma upper_alnum: "\<forall>c \<in> set s. is_alnum c \<or> c = 95 \<Longrightarrow> upper s = s"
proof (induction s)
  case (Cons c s)
  then have "c < 128" "\<not> (97 \<le> c \<and> c \<le> 122)" by (auto simp: is_alnum_def)
  then have "upper_cp c = [c]" using upper_cp_ascii [of c] by (simp only: if_False)
  with Cons show ?case by (simp add: upper_Cons)
qed simp

lemma length_upper_ascii: "isascii s \<Longrightarrow> length (upper s) = length s"
  by (induction s) (auto simp: upper_Cons upper_cp_ascii isascii_def)

lemma isascii_upper: "isascii s \<Longrightarrow> isascii (upper s)"
  by (induction s) (auto simp: upper_Cons upper_cp_ascii isascii_def)


section \<open>Numbers as text\<close>

text \<open>The last \<open>n\<close> digits of \<open>k\<close> in base \<open>b\<close>, most significant first.\<close>

primrec digits_n :: "nat \<Rightarrow> nat \<Rightarrow> nat \<Rightarrow> nat list" where
  "digits_n b 0 k = []"
| "digits_n b (Suc n) k = digits_n b n (k div b) @ [k mod b]"

lemma length_digits_n [simp]: "length (digits_n b n k) = n"
  by (induction n arbitrary: k) auto

lemma set_digits_n: "0 < b \<Longrightarrow> set (digits_n b n k) \<subseteq> {..<b}"
  by (induction n arbitrary: k) (auto simp: subset_iff)

lemma digits_n_inject:
  assumes "0 < b" "j < b ^ n" "k < b ^ n" "digits_n b n j = digits_n b n k"
  shows "j = k"
  using assms
proof (induction n arbitrary: j k)
  case (Suc n)
  then have "digits_n b n (j div b) = digits_n b n (k div b)" "j mod b = k mod b"
    by simp_all
  moreover have "j div b < b ^ n" "k div b < b ^ n"
    using Suc.prems by (simp_all add: less_mult_imp_div_less mult.commute)
  ultimately have "j div b = k div b"
    using Suc.IH Suc.prems(1) by blast
  with \<open>j mod b = k mod b\<close> show ?case
    by (metis div_mult_mod_eq)
qed simp

text \<open>\<open>str(n)\<close> for a natural number and for an \<open>int\<close>.\<close>

fun str_nat :: "nat \<Rightarrow> pystr" where
  "str_nat n = (if n < 10 then [48 + n] else str_nat (n div 10) @ [48 + n mod 10])"

declare str_nat.simps [simp del]

definition str_int :: "int \<Rightarrow> pystr" where
  "str_int i = (if i < 0 then 45 # str_nat (nat (- i)) else str_nat (nat i))"

lemma str_nat_digits: "set (str_nat n) \<subseteq> {48..57}"
proof (induction n rule: str_nat.induct)
  case (1 n)
  show ?case
  proof (cases "n < 10")
    case True
    then show ?thesis by (subst str_nat.simps) auto
  next
    case False
    have "n mod 10 < 10" by simp
    then have "48 + n mod 10 \<in> {48..57}" by simp
    with False 1 show ?thesis by (subst str_nat.simps) auto
  qed
qed

lemma str_nat_nonempty [simp]: "str_nat n \<noteq> []"
  by (subst str_nat.simps) simp

lemma str_nat_inject: "str_nat m = str_nat n \<Longrightarrow> m = n"
proof (induction m arbitrary: n rule: str_nat.induct)
  case (1 m)
  consider "m < 10" "n < 10" | "m < 10" "\<not> n < 10" | "\<not> m < 10" "n < 10"
    | "\<not> m < 10" "\<not> n < 10" by blast
  then show ?case
  proof cases
    case 1
    with "1.prems" show ?thesis by (simp add: str_nat.simps [of m] str_nat.simps [of n])
  next
    case 2
    with "1.prems" have "[] = str_nat (n div 10)"
      by (simp add: str_nat.simps [of m] str_nat.simps [of n])
    then show ?thesis using str_nat_nonempty by metis
  next
    case 3
    with "1.prems" show ?thesis by (simp add: str_nat.simps [of m] str_nat.simps [of n])
  next
    case 4
    with "1.prems" have "str_nat (m div 10) = str_nat (n div 10)" "m mod 10 = n mod 10"
      by (simp_all add: str_nat.simps [of m] str_nat.simps [of n])
    with "1.IH" [OF 4(1)] show ?thesis by (metis div_mult_mod_eq)
  qed
qed

lemma str_int_chars: "set (str_int i) \<subseteq> insert 45 {48..57}"
  using str_nat_digits by (auto simp: str_int_def)

lemma str_int_nonempty [simp]: "str_int i \<noteq> []"
  by (simp add: str_int_def)

lemma str_int_inject: "str_int i = str_int j \<Longrightarrow> i = j"
proof -
  assume eq: "str_int i = str_int j"
  have "45 \<notin> set (str_nat n)" for n
    using str_nat_digits [of n] by auto
  then have neq: "str_nat m \<noteq> 45 # str_nat n" for m n
    by (metis list.set_intros(1))
  show ?thesis
  proof (cases "i < 0"; cases "j < 0")
  qed (use eq neq in \<open>auto simp: str_int_def dest!: str_nat_inject\<close>,
       use neq in metis)
qed

text \<open>Lower-case hexadecimal, and the canonical text of a UUID (8-4-4-4-12).\<close>

definition hex_digit :: "nat \<Rightarrow> nat" where
  "hex_digit d = (if d < 10 then 48 + d else 87 + d)"

definition uuid_hex :: "uuid \<Rightarrow> pystr" where
  "uuid_hex u = map hex_digit (digits_n 16 32 (unat u))"

primrec chunks :: "nat list \<Rightarrow> 'a list \<Rightarrow> 'a list list" where
  "chunks [] h = []"
| "chunks (n # ns) h = take n h # chunks ns (drop n h)"

definition str_uuid :: "uuid \<Rightarrow> pystr" where
  "str_uuid u = joined 45 (chunks [8, 4, 4, 4, 12] (uuid_hex u))"

lemma length_uuid_hex [simp]: "length (uuid_hex u) = 32"
  by (simp add: uuid_hex_def)

lemma hex_digit_inj: "\<lbrakk>hex_digit a = hex_digit b; a < 16; b < 16\<rbrakk> \<Longrightarrow> a = b"
  by (simp add: hex_digit_def split: if_splits)

lemma hex_digit_range: "d < 16 \<Longrightarrow> hex_digit d \<in> {48..57} \<union> {97..102}"
  by (auto simp: hex_digit_def)

lemma set_uuid_hex: "set (uuid_hex u) \<subseteq> {48..57} \<union> {97..102}"
  using set_digits_n [of 16 32 "unat u"] hex_digit_range
  by (fastforce simp: uuid_hex_def subset_iff)

lemma uuid_hex_inject: "uuid_hex u = uuid_hex v \<Longrightarrow> u = v"
proof -
  assume eq: "uuid_hex u = uuid_hex v"
  have "inj_on hex_digit {..<16}"
    by (auto intro!: inj_onI hex_digit_inj)
  moreover have "set (digits_n 16 32 (unat u)) \<union> set (digits_n 16 32 (unat v)) \<subseteq> {..<16}"
    using set_digits_n [of 16 32 "unat u"] set_digits_n [of 16 32 "unat v"] by simp
  ultimately have "inj_on hex_digit (set (digits_n 16 32 (unat u)) \<union> set (digits_n 16 32 (unat v)))"
    by (rule inj_on_subset)
  then have "digits_n 16 32 (unat u) = digits_n 16 32 (unat v)"
    using eq unfolding uuid_hex_def by (metis map_inj_on)
  moreover have "unat w < 16 ^ 32" for w :: uuid
  proof -
    have "unat w < 2 ^ LENGTH(128)" by (rule unsigned_less)
    then show ?thesis by simp
  qed
  ultimately have "unat u = unat v"
    by (meson digits_n_inject zero_less_numeral)
  then show "u = v" by (simp add: word_unat_eq_iff)
qed

lemma length_chunks [simp]: "length (chunks ns h) = length ns"
  by (induction ns arbitrary: h) auto

lemma concat_chunks: "sum_list ns = length h \<Longrightarrow> concat (chunks ns h) = h"
  by (induction ns arbitrary: h) auto

lemma set_chunks: "c \<in> set (chunks ns h) \<Longrightarrow> set c \<subseteq> set h"
  by (induction ns arbitrary: h) (auto dest!: in_set_takeD, blast dest: in_set_dropD)

lemma str_uuid_inject: "str_uuid u = str_uuid v \<Longrightarrow> u = v"
proof -
  assume eq: "str_uuid u = str_uuid v"
  have no_dash: "\<forall>c \<in> set (chunks ns (uuid_hex w)). 45 \<notin> set c" for ns w
    using set_chunks [of _ ns "uuid_hex w"] set_uuid_hex [of w] by fastforce
  have "chunks [8, 4, 4, 4, 12] (uuid_hex u) = chunks [8, 4, 4, 4, 12] (uuid_hex v)"
    by (rule joined_inject [where c = 45]) (use eq no_dash in \<open>simp_all only: str_uuid_def length_chunks\<close>)
  then have "concat (chunks [8, 4, 4, 4, 12] (uuid_hex u))
      = concat (chunks [8, 4, 4, 4, 12] (uuid_hex v))" by simp
  then have "uuid_hex u = uuid_hex v"
    by (simp add: concat_chunks del: chunks.simps)
  then show "u = v" by (rule uuid_hex_inject)
qed

lemma set_joined: "set (joined c ps) \<subseteq> insert c (\<Union>p \<in> set ps. set p)"
proof (induction ps)
  case (Cons p ps)
  then show ?case by (cases ps) auto
qed simp

lemma set_str_uuid: "set (str_uuid u) \<subseteq> insert 45 ({48..57} \<union> {97..102})"
proof -
  have "(\<Union>p \<in> set (chunks ns (uuid_hex u)). set p) \<subseteq> {48..57} \<union> {97..102}" for ns
    using set_chunks [of _ ns "uuid_hex u"] set_uuid_hex [of u] by (meson UN_least subset_trans)
  then show ?thesis
    using set_joined [of 45 "chunks [8, 4, 4, 4, 12] (uuid_hex u)"]
    unfolding str_uuid_def by (meson insert_mono subset_trans)
qed

end
