(* ===== verification/Slots.thy ===== *)
theory Slots
  imports Text
begin

text \<open>
  The eight typed slots of \<open>MasterCodeDimensions\<close> (\<open>src/mdm/domain/master_codes.py\<close>) in
  canonical order, their attribute and type names, and the names of the tables that hold
  the Dimensions of each slot.
\<close>

datatype slot = Company | Brand | Model | Category | Year | Memory | Network | Country

definition ORDER :: "slot list" where
  "ORDER = [Company, Brand, Model, Category, Year, Memory, Network, Country]"

instantiation slot :: enum
begin

definition enum_slot :: "slot list" where
  "enum_slot = [Company, Brand, Model, Category, Year, Memory, Network, Country]"

definition enum_all_slot :: "(slot \<Rightarrow> bool) \<Rightarrow> bool" where
  "enum_all_slot P \<longleftrightarrow> P Company \<and> P Brand \<and> P Model \<and> P Category \<and> P Year \<and> P Memory
     \<and> P Network \<and> P Country"

definition enum_ex_slot :: "(slot \<Rightarrow> bool) \<Rightarrow> bool" where
  "enum_ex_slot P \<longleftrightarrow> P Company \<or> P Brand \<or> P Model \<or> P Category \<or> P Year \<or> P Memory
     \<or> P Network \<or> P Country"

instance
proof (standard, goal_cases)
  case 1
  have "s \<in> set enum_class.enum" for s :: slot
    by (cases s) (simp_all add: enum_slot_def)
  then show ?case by blast
next
  case 2
  then show ?case by (simp add: enum_slot_def)
next
  case (3 P)
  have "Ball UNIV P \<longleftrightarrow> (\<forall>s. P s)" by simp
  then show ?case unfolding enum_all_slot_def by (metis slot.exhaust)
next
  case (4 P)
  have "Bex UNIV P \<longleftrightarrow> (\<exists>s. P s)" by simp
  then show ?case unfolding enum_ex_slot_def by (metis slot.exhaust)
qed

end

lemma in_ORDER: "s \<in> set ORDER"
  by (cases s) (simp_all add: ORDER_def)

lemma set_ORDER [simp]: "set ORDER = UNIV"
  using in_ORDER by blast

lemma distinct_ORDER [simp]: "distinct ORDER"
  by (simp add: ORDER_def)

lemma length_ORDER [simp]: "length ORDER = 8"
  by (simp add: ORDER_def)

fun slot_name :: "slot \<Rightarrow> string" where
  "slot_name Company = ''company''"
| "slot_name Brand = ''brand''"
| "slot_name Model = ''model''"
| "slot_name Category = ''category''"
| "slot_name Year = ''year''"
| "slot_name Memory = ''memory''"
| "slot_name Network = ''network''"
| "slot_name Country = ''country''"

fun type_name :: "slot \<Rightarrow> string" where
  "type_name Company = ''COMPANY''"
| "type_name Brand = ''BRAND''"
| "type_name Model = ''MODEL''"
| "type_name Category = ''CATEGORY''"
| "type_name Year = ''YEAR''"
| "type_name Memory = ''MEMORY''"
| "type_name Network = ''NETWORK''"
| "type_name Country = ''COUNTRY''"

fun table_name :: "slot \<Rightarrow> string" where
  "table_name Company = ''dimension_companies''"
| "table_name Brand = ''dimension_brands''"
| "table_name Model = ''dimension_models''"
| "table_name Category = ''dimension_categories''"
| "table_name Year = ''dimension_years''"
| "table_name Memory = ''dimension_memories''"
| "table_name Network = ''dimension_networks''"
| "table_name Country = ''dimension_countries''"

text \<open>The unique constraints of a Dimension table, and of the MasterCode table.\<close>

definition uq_code :: "slot \<Rightarrow> string" where
  "uq_code s = ''uq_'' @ table_name s @ ''_code''"

definition uq_value :: "slot \<Rightarrow> string" where
  "uq_value s = ''uq_'' @ table_name s @ (if s = Memory then ''_capacity_mb'' else ''_value'')"

definition uq_master_codes_code :: string where
  "uq_master_codes_code = ''uq_master_codes_code''"

definition uq_master_codes_references :: string where
  "uq_master_codes_references = ''uq_master_codes_references''"

lemmas constraint_name_defs =
  uq_code_def uq_value_def uq_master_codes_code_def uq_master_codes_references_def

lemma uq_names_distinct [simp]:
  "uq_code s \<noteq> uq_value s'" "uq_value s \<noteq> uq_code s'"
  "uq_code s \<noteq> uq_master_codes_code" "uq_code s \<noteq> uq_master_codes_references"
  "uq_value s \<noteq> uq_master_codes_code" "uq_value s \<noteq> uq_master_codes_references"
  "uq_master_codes_code \<noteq> uq_code s" "uq_master_codes_references \<noteq> uq_code s"
  "uq_master_codes_code \<noteq> uq_value s" "uq_master_codes_references \<noteq> uq_value s"
  "uq_master_codes_code \<noteq> uq_master_codes_references"
  "uq_master_codes_references \<noteq> uq_master_codes_code"
  by (cases s; cases s'; simp add: constraint_name_defs)+

end
