(* ===== verification/Errors.thy ===== *)
theory Errors
  imports Slots
begin

text \<open>
  The exceptions the modelled code raises, as one datatype. A validation error keeps the
  public field it names; the (Korean) message texts are named by the English constructors
  of \<open>vmsg\<close>, one per distinct text. The four Dimension repositories raise one class per
  Dimension family (\<open>CompanyNotFound\<close>, \<open>StringDimensionNotFound("model")\<close>, ...); here one
  constructor with the slot stands for them. \<open>IntegrityError\<close> is the driver's error with the
  name of the violated constraint, which is absent for an exception raised by a trigger;
  \<open>DataError\<close> is its error for a number out of the range of the column.
\<close>

datatype vmsg =
    MustBeString
  | CodePattern
  | CodeNoSpaces
  | CodeReserved
  | NoControlCharacters
  | StringValuePattern
  | YearRange
  | NetworkRange
  | AmountRange
  | UnitChoice
  | VersionPositive
  | TimezoneRequired
  | NotBeforeCreated
  | EqualsCreation
  | WithinStateTimes
  | AlreadyDeleted
  | NotDeleted
  | NotBeforeUpdated
  | InvalidReason
  | AmountUnitRequired
  | NulCharacter
  | UtcRange
  | RangeOrder
  | PageSize
  | CursorMismatch
  | CursorInvalid
  | CursorUnbound

datatype mcmsg =
    SlotMustContain string
  | SlotMustBeActive string
  | CodeMismatch
  | McVersionPositive
  | McTimestampsAware
  | McUpdatedBeforeCreated
  | McInitialTimestamps
  | McDeletedAware
  | McDeletedRange
  | McPreserveReferences
  | McChangedAware
  | McChangedEarly
  | McDeletedReferences
  | McAlreadyDeleted
  | McNotDeleted

datatype crmsg =
    PayloadMustBeObject
  | MessageInvalid
  | MessageEmpty
  | CreateWithTarget
  | TargetRequired
  | DeleteWithPayload
  | PayloadRequired
  | RestoreNotSubmittable
  | CreatedTimezone
  | PendingWithReview
  | ReviewTimes
  | RejectionShape
  | ApprovalShape
  | ApprovalStatusMismatch
  | OperationChanged
  | ModifiedNeedsMessage
  | ReasonInvalid
  | EtagFormat
  | DimensionsRequired
  | SlotsRequired
  | AllSlotsRequired
  | SlotObjectRequired
  | ReferenceIdRequired
  | RestoreNoCreate
  | MemoryShape
  | ModeFields
  | LimitRange
  | RestoreFilter
  | InvalidCursor

text \<open>The exceptions of the credential and user components.\<close>

datatype account_error =
    InvalidOpaqueToken
  | OpaqueTokenCollision
  | InvalidCredentials
  | InvalidSession
  | RefreshConflict
  | SessionUnavailable
  | InvalidPasswordResetToken
  | InvalidCurrentPassword
  | PasswordLifecycleUnavailable
  | InvalidRegistrationToken
  | EmailDomainNotAllowed
  | RegistrationUnavailable
  | DuplicateUserEmail
  | UserPersistenceError
  | UserNotFound
  | UserManagementUnavailable
  | BootstrapStateConflict
  | BootstrapPersistenceError
  | InvalidAccessToken
  | RefreshDigestConflict
  | ResetDigestConflict
  | RegistrationDigestConflict
  | PasswordHashUnavailable
  | InvalidStoredPasswordHash
  | JwtKeyConfigurationError
  | OriginNotAllowed
  | CsrfValidationFailed
  | RateLimitExceeded int
  | UserQueryValidationError string

datatype exn =
    DimensionValidationError string vmsg
  | MasterCodeValidationError mcmsg
  | AuthInvariantError
  | AuditInvariantError
  | AuthorizationDenied
  | ValueError
  | AssertionError
  | IndexError
  | AttributeError
  | DimensionNotFound slot
  | DimensionCodeConflict slot
  | DimensionValueConflict slot
  | DimensionMultipleConflicts slot
  | DimensionLifecycleNotFound
  | DimensionNotDeleted
  | DimensionInUse
  | PreconditionFailed
  | MasterCodeNotFound
  | MasterCodeNotDeleted
  | MasterCodeConflict
  | MasterCodeReferenceInactive "string list"
  | InvalidDimensionReference "string list"
  | InlineDimensionConflict slot bool bool
  | ChangeRequestValidationError crmsg
  | ChangeRequestAlreadyReviewed
  | ChangeRequestNotFound
  | ChangeRequestNoEffect
  | ChangeRequestStaleTarget
  | ChangeRequestRestoreMismatch
  | AccountError account_error
  | IntegrityError "string option"
  | DataError

type_synonym 'a res = "exn + 'a"

end
