(* ===== verification/Http.thy ===== *)
theory Http
  imports Text Errors "HOL-Library.AList"
begin

text \<open>
  The vocabulary of the HTTP layer (\<open>src/mdm/api\<close>): requests, responses, problem details
  (\<open>schemas.py\<close>, RFC 9457) and the exceptions that leave an endpoint. The Korean texts for
  people (titles and details) are given in English; the messages of violations are named by
  constructors, one per distinct text.
  Header names are in lower case, as the server delivers and compares them.

  The second part is \<open>preconditions.py\<close>: the strong entity tag of a Dimension version and the
  parser of \<open>If-Match\<close>. The parser accepts exactly the texts that the printer writes for the
  versions a row can have.
\<close>

section \<open>Requests and responses\<close>

record request =
  hr_method :: string
  hr_path :: pystr
  hr_headers :: "(string \<times> pystr) list"

text \<open>\<open>request.headers.getlist(name)\<close> and \<open>name in request.headers\<close>.\<close>

definition getlist :: "string \<Rightarrow> request \<Rightarrow> pystr list" where
  "getlist name r = map snd (filter (\<lambda>h. fst h = name) (hr_headers r))"

definition has_header :: "string \<Rightarrow> request \<Rightarrow> bool" where
  "has_header name r \<longleftrightarrow> getlist name r \<noteq> []"

record cookie =
  ck_name :: string
  ck_value :: pystr
  ck_max_age :: int
  ck_expires :: "int option"
  ck_path :: string
  ck_secure :: bool
  ck_httponly :: bool
  ck_samesite :: string

text \<open>A detail is a fixed text, or the message of a refused change request.\<close>

datatype detail = Detail string | RequestInvalid crmsg

datatype message =
    DomainMessage vmsg | AlreadyUsed | MustReferenceActive | ReferenceDeleted
  | RequiredField | TooShort | TooLong | InvalidValue | QueryMessage string

record problem =
  pb_type :: string
  pb_title :: string
  pb_status :: int
  pb_detail :: detail
  pb_code :: string
  pb_instance :: "pystr option"
  pb_violations :: "(string \<times> message) list option"

text \<open>The body of a response: none, a problem, or the JSON of a response model.\<close>

datatype 'b body = NoBody | ProblemBody problem | JsonBody 'b

record 'b response =
  rs_status :: int
  rs_headers :: "(string \<times> pystr) list"
  rs_cookies :: "cookie list"
  rs_media :: string
  rs_body :: "'b body"

definition problem_response :: "problem \<Rightarrow> (string \<times> pystr) list \<Rightarrow> 'b response" where
  "problem_response problem headers =
     \<lparr>rs_status = pb_status problem, rs_headers = headers, rs_cookies = [],
      rs_media = ''application/problem+json'', rs_body = ProblemBody problem\<rparr>"

text \<open>\<open>response.headers[name] = value\<close>.\<close>

definition set_header :: "string \<Rightarrow> pystr \<Rightarrow> 'b response \<Rightarrow> 'b response" where
  "set_header name v r = r\<lparr>rs_headers := AList.update name v (rs_headers r)\<rparr>"

text \<open>What the framework sends for a returned model, with the status of the route.\<close>

definition json_response :: "int \<Rightarrow> (string \<times> pystr) list \<Rightarrow> 'b \<Rightarrow> 'b response" where
  "json_response status headers b =
     \<lparr>rs_status = status, rs_headers = headers, rs_cookies = [], rs_media = ''application/json'', rs_body = JsonBody b\<rparr>"

definition empty_response :: "int \<Rightarrow> 'b response" where
  "empty_response status = \<lparr>rs_status = status, rs_headers = [], rs_cookies = [], rs_media = '''', rs_body = NoBody\<rparr>"

definition header :: "string \<Rightarrow> 'b response \<Rightarrow> pystr option" where
  "header name r = map_of (rs_headers r) name"

definition no_store :: "(string \<times> pystr) list" where
  "no_store = [(''cache-control'', lit ''no-store'')]"

text \<open>\<open>code.lower().replace("_", "-")\<close>, the last part of a problem type.\<close>

definition slug_char :: "char \<Rightarrow> char" where
  "slug_char c = (if c = CHR ''_'' then CHR ''-'' else if 65 \<le> (of_char c :: nat) \<and> (of_char c :: nat) \<le> 90
     then char_of (of_char c + 32 :: nat) else c)"

definition problem_type :: "string \<Rightarrow> string" where
  "problem_type code = ''/problems/'' @ map slug_char code"


section \<open>Exceptions of the API\<close>

text \<open>One error of a \<open>RequestValidationError\<close>: its type and its location.\<close>

datatype error_type = Missing | StringTooShort | StringTooLong | OtherError

record request_error =
  er_type :: error_type
  er_loc :: "string list"

text \<open>The exceptions of the inner layers, those of the API, and the failures to reach the database.\<close>

datatype api_exn =
    Raised exn
  | PreconditionRequired
  | InvalidIfMatch
  | RequestValidationError "request_error list"
  | RepositoryUnavailable slot
  | MasterCodeRepositoryUnavailable
  | DimensionLifecycleUnavailable
  | ReadinessUnavailable
  | UserQueryUnavailable
  | AuditLogRepositoryUnavailable

type_synonym 'a api = "api_exn + 'a"

definition raises :: "'a res \<Rightarrow> 'a api" where
  "raises r = (case r of Inl e \<Rightarrow> Inl (Raised e) | Inr x \<Rightarrow> Inr x)"

lemma raises_simps [simp]: "raises (Inl e) = Inl (Raised e)" "raises (Inr x) = Inr x"
  by (simp_all add: raises_def)

lemma raises_eq [res_simps]:
  "raises r = Inr x \<longleftrightarrow> r = Inr x" "raises r = Inl e \<longleftrightarrow> (\<exists>e'. r = Inl e' \<and> e = Raised e')"
  by (cases r; auto)+

text \<open>\<open>except DimensionValidationError as error\<close>: the field of a use case is a field of the body.\<close>

definition body_error :: "'a res \<Rightarrow> 'a res" where
  "body_error r =
     (case r of
        Inl (DimensionValidationError field msg) \<Rightarrow> Inl (DimensionValidationError (''body.'' @ field) msg)
      | _ \<Rightarrow> r)"

lemma body_error_Inr [simp]: "body_error (Inr x) = Inr x"
  by (simp add: body_error_def)

lemma body_error_eq_Inr [res_simps]: "body_error r = Inr x \<longleftrightarrow> r = Inr x"
  by (auto simp: body_error_def split: sum.splits exn.splits)


section \<open>Entity tags and \<open>If-Match\<close>\<close>

definition etag_text :: "int \<Rightarrow> pystr" where
  "etag_text version = lit [CHR 0x22] @ str_int version @ lit [CHR 0x22]"

text \<open>\<open>re.fullmatch\<close> of a quoted number without leading zeros: the digits it captures.\<close>

definition etag_digits :: "pystr \<Rightarrow> pystr option" where
  "etag_digits v =
     (let digits = butlast (tl v) in
      if 3 \<le> length v \<and> hd v = 34 \<and> last v = 34 \<and> 49 \<le> hd digits \<and> hd digits \<le> 57
         \<and> list_all (\<lambda>c. 48 \<le> c \<and> c \<le> 57) digits
      then Some digits else None)"

text \<open>\<open>int(digits)\<close> of decimal digits.\<close>

definition int_of_digits :: "pystr \<Rightarrow> int" where
  "int_of_digits ds = foldl (\<lambda>n c. n * 10 + (int c - 48)) 0 ds"

definition parse_dimension_if_match :: "pystr option \<Rightarrow> int api" where
  "parse_dimension_if_match v =
     (case v of
        None \<Rightarrow> Inl PreconditionRequired
      | Some v \<Rightarrow>
          (case etag_digits v of
             None \<Rightarrow> Inl InvalidIfMatch
           | Some digits \<Rightarrow>
               if 10 < length digits then Inl InvalidIfMatch
               else (let version = int_of_digits digits in
                 if 2147483647 < version then Inl InvalidIfMatch else Inr version)))"

definition parse_dimension_if_match_values :: "pystr list \<Rightarrow> int api" where
  "parse_dimension_if_match_values vs =
     (if vs = [] then Inl PreconditionRequired
      else if length vs \<noteq> 1 then Inl InvalidIfMatch
      else parse_dimension_if_match (Some (vs ! 0)))"


subsection \<open>The parser inverts the printer\<close>

lemma int_of_digits_snoc [simp]: "int_of_digits (ds @ [c]) = int_of_digits ds * 10 + (int c - 48)"
  by (simp add: int_of_digits_def)

lemma int_of_digits_single [simp]: "int_of_digits [c] = int c - 48"
  by (simp add: int_of_digits_def)

lemma int_of_str_nat: "int_of_digits (str_nat n) = int n"
proof (induction n rule: str_nat.induct)
  case (1 n)
  then show ?case by (cases "n < 10") (simp_all add: str_nat.simps [of n] zdiv_int zmod_int)
qed

lemma hd_str_nat: "1 \<le> n \<Longrightarrow> 49 \<le> hd (str_nat n)"
proof (induction n rule: str_nat.induct)
  case (1 n)
  then show ?case by (cases "n < 10") (simp_all add: str_nat.simps [of n] hd_append)
qed

lemma length_str_nat: "\<lbrakk>n < 10 ^ k; 1 \<le> k\<rbrakk> \<Longrightarrow> length (str_nat n) \<le> k"
proof (induction n arbitrary: k rule: str_nat.induct)
  case (1 n)
  show ?case
  proof (cases "n < 10")
    case False
    with 1(2,3) obtain j where k: "k = Suc j" "1 \<le> j" by (cases k; cases "k - 1") auto
    with 1(2) have "n div 10 < 10 ^ j" by (simp add: less_mult_imp_div_less mult.commute)
    with 1(1) [OF False] k False show ?thesis by (simp add: str_nat.simps [of n])
  qed (use 1(3) in \<open>simp add: str_nat.simps [of n]\<close>)
qed

lemma str_nat_of_digits:
  "\<lbrakk>ds \<noteq> []; 49 \<le> hd ds; list_all (\<lambda>c. 48 \<le> c \<and> c \<le> 57) ds\<rbrakk>
    \<Longrightarrow> 1 \<le> int_of_digits ds \<and> str_nat (nat (int_of_digits ds)) = ds"
proof (induction ds rule: rev_induct)
  case (snoc c ds)
  show ?case
  proof (cases "ds = []")
    case True
    with snoc.prems show ?thesis by (auto simp: str_nat.simps nat_diff_distrib)
  next
    case False
    let ?n = "int_of_digits ds"
    from False snoc have ih: "1 \<le> ?n" "str_nat (nat ?n) = ds" and c: "48 \<le> c" "c \<le> 57" by simp_all
    define d where "d = c - 48"
    from c have d: "d < 10" "48 + d = c" by (simp_all add: d_def)
    have n: "nat (?n * 10 + (int c - 48)) = nat ?n * 10 + d"
      using ih(1) c by (simp add: d_def nat_eq_iff of_nat_diff)
    have "\<not> nat ?n * 10 + d < 10" using ih(1) by auto
    moreover have "(nat ?n * 10 + d) div 10 = nat ?n" "(nat ?n * 10 + d) mod 10 = d"
      using d by simp_all
    ultimately have "str_nat (nat ?n * 10 + d) = ds @ [c]"
      using ih(2) d by (simp add: str_nat.simps [of "nat ?n * 10 + d"])
    with n ih(1) c show ?thesis by simp
  qed
qed simp

lemma etag_digits_eq:
  "etag_digits v = Some ds \<longleftrightarrow> v = 34 # ds @ [34] \<and> ds \<noteq> [] \<and> 49 \<le> hd ds \<and> list_all (\<lambda>c. 48 \<le> c \<and> c \<le> 57) ds"
proof -
  have "v = 34 # butlast (tl v) @ [34]" if "3 \<le> length v" "hd v = 34" "last v = 34"
    using that by (cases v; cases "tl v" rule: rev_cases) auto
  moreover have "butlast (tl v) \<noteq> []" if "3 \<le> length v"
    using that by (cases v; cases "tl v" rule: rev_cases) auto
  ultimately show ?thesis
    by (auto simp: etag_digits_def Let_def list_all_iff hd_in_set Suc_le_eq)
qed

lemma etag_text_eq: "1 \<le> n \<Longrightarrow> etag_text n = 34 # str_nat (nat n) @ [34]"
  by (simp add: etag_text_def lit_def str_int_def)

lemma etag_digits_text: "1 \<le> n \<Longrightarrow> etag_digits (etag_text n) = Some (str_nat (nat n))"
  using str_nat_digits [of "nat n"] hd_str_nat [of "nat n"]
  by (auto simp: etag_digits_eq etag_text_eq list_all_iff)

lemma etag_digits_SomeD: "etag_digits v = Some ds \<Longrightarrow> 1 \<le> int_of_digits ds \<and> v = etag_text (int_of_digits ds)"
  using str_nat_of_digits [of ds] by (auto simp: etag_digits_eq etag_text_eq)

lemma parse_if_match_Inr:
  "parse_dimension_if_match_values vs = Inr n \<longleftrightarrow> vs = [etag_text n] \<and> 1 \<le> n \<and> n \<le> 2147483647"
proof
  assume "parse_dimension_if_match_values vs = Inr n"
  then obtain v ds where "vs = [v]" "etag_digits v = Some ds" "n = int_of_digits ds" "n \<le> 2147483647"
    by (cases vs) (auto simp: parse_dimension_if_match_values_def parse_dimension_if_match_def Let_def
        split: option.splits if_splits)
  then show "vs = [etag_text n] \<and> 1 \<le> n \<and> n \<le> 2147483647" using etag_digits_SomeD by blast
next
  assume n: "vs = [etag_text n] \<and> 1 \<le> n \<and> n \<le> 2147483647"
  then have "length (str_nat (nat n)) \<le> 10" by (intro length_str_nat) auto
  with n show "parse_dimension_if_match_values vs = Inr n"
    by (simp add: parse_dimension_if_match_values_def parse_dimension_if_match_def etag_digits_text int_of_str_nat)
qed

text \<open>C36. \<open>If-Match\<close> is parsed exactly: the parser returns a version if and only if the request has a
  single field line and that is the entity tag the service prints for this version, between 1 and the
  largest value of the version column; no field line at all is the error that asks for a
  precondition, and everything else (weak or unquoted tags, lists, leading zeros, larger numbers,
  repeated lines) is an invalid \<open>If-Match\<close>.\<close>

theorem if_match_exact:
  "(\<forall>n. parse_dimension_if_match_values vs = Inr n \<longleftrightarrow> vs = [etag_text n] \<and> 1 \<le> n \<and> n \<le> 2147483647)
    \<and> (is_ok (parse_dimension_if_match_values vs)
       \<or> parse_dimension_if_match_values vs = Inl (if vs = [] then PreconditionRequired else InvalidIfMatch))"
proof
  show "\<forall>n. parse_dimension_if_match_values vs = Inr n \<longleftrightarrow> vs = [etag_text n] \<and> 1 \<le> n \<and> n \<le> 2147483647"
    by (simp add: parse_if_match_Inr)
  show "is_ok (parse_dimension_if_match_values vs)
      \<or> parse_dimension_if_match_values vs = Inl (if vs = [] then PreconditionRequired else InvalidIfMatch)"
    by (auto simp: parse_dimension_if_match_values_def parse_dimension_if_match_def Let_def split: option.splits)
qed

end
