(* ===== verification/Api_Errors.thy ===== *)
theory Api_Errors
  imports Http
begin

text \<open>
  \<open>src/mdm/api/errors.py\<close> and the other exception handlers of the API, with their registration
  in \<open>main.py\<close>: which problem response an exception becomes. The four Dimension families have
  their own exception classes and handlers; the slot of the model's exception selects them.
  The last section shows that every exception has a well-formed problem, and which status.
\<close>

section \<open>Problems\<close>

definition problem_details ::
    "string \<Rightarrow> string \<Rightarrow> int \<Rightarrow> detail \<Rightarrow> string \<Rightarrow> pystr option \<Rightarrow> (string \<times> message) list option \<Rightarrow> problem" where
  "problem_details ty title status det code inst violations =
     \<lparr>pb_type = ty, pb_title = title, pb_status = status, pb_detail = det, pb_code = code,
      pb_instance = inst, pb_violations = violations\<rparr>"

definition startswith :: "pystr \<Rightarrow> string \<Rightarrow> bool" where
  "startswith s prefix \<longleftrightarrow> take (length prefix) s = lit prefix"

definition is_master_code_path :: "request \<Rightarrow> bool" where
  "is_master_code_path r = startswith (hr_path r) ''/api/v1/master-codes/''"


section \<open>Authentication, validation and preconditions\<close>

definition invalid_access_token_handler :: "request \<Rightarrow> 'b response" where
  "invalid_access_token_handler r =
     problem_response
       (problem_details ''/problems/invalid-access-token'' ''Invalid access token'' 401
          (Detail ''A valid Bearer access token is required.'') ''INVALID_ACCESS_TOKEN'' (Some (hr_path r)) None)
       [(''www-authenticate'', lit ''Bearer'')]"

definition authorization_denied_handler :: "request \<Rightarrow> 'b response" where
  "authorization_denied_handler r =
     problem_response
       (problem_details ''/problems/authorization-denied'' ''Not permitted'' 403
          (Detail ''The current role may not perform this operation.'') ''AUTHORIZATION_DENIED'' (Some (hr_path r)) None) []"

definition readiness_unavailable_handler :: "request \<Rightarrow> 'b response" where
  "readiness_unavailable_handler r =
     problem_response
       (problem_details ''/problems/service-unavailable'' ''Service unavailable'' 503
          (Detail ''The database connection cannot be confirmed.'') ''SERVICE_UNAVAILABLE'' (Some (hr_path r)) None) []"

definition dimension_validation_error_handler :: "request \<Rightarrow> string \<Rightarrow> vmsg \<Rightarrow> 'b response" where
  "dimension_validation_error_handler r field msg =
     problem_response
       (problem_details ''/problems/validation-error'' ''Invalid request'' 422
          (Detail ''One or more request fields are invalid.'') ''VALIDATION_ERROR'' (Some (hr_path r))
          (Some [(field, DomainMessage msg)])) []"

definition precondition_required_handler :: "request \<Rightarrow> 'b response" where
  "precondition_required_handler r =
     (let resource = if is_master_code_path r then ''MasterCode'' else ''Dimension'' in
      problem_response
        (problem_details ''/problems/precondition-required'' ''Precondition required'' 428
           (Detail (''To change a '' @ resource @ '', send the ETag of its last response as If-Match.''))
           ''PRECONDITION_REQUIRED'' (Some (hr_path r)) None) [])"

definition invalid_if_match_handler :: "request \<Rightarrow> 'b response" where
  "invalid_if_match_handler r =
     problem_response
       (problem_details ''/problems/invalid-if-match'' ''Invalid If-Match'' 400
          (Detail (if is_master_code_path r
             then ''If-Match takes the one strong ETag of the last MasterCode response, in the documented form.''
             else ''If-Match takes one strong integer ETag in quotes.''))
          ''INVALID_IF_MATCH'' (Some (hr_path r)) None) []"

definition precondition_failed_handler :: "request \<Rightarrow> 'b response" where
  "precondition_failed_handler r =
     problem_response
       (problem_details ''/problems/precondition-failed'' ''Precondition failed'' 412
          (Detail (if is_master_code_path r
             then ''The MasterCode or a referenced Dimension has changed since it was read.''
             else ''The Dimension has changed since it was read.''))
          ''PRECONDITION_FAILED'' (Some (hr_path r)) None) []"

fun safe_validation_message :: "error_type \<Rightarrow> message" where
  "safe_validation_message Missing = RequiredField"
| "safe_validation_message StringTooShort = TooShort"
| "safe_validation_message StringTooLong = TooLong"
| "safe_validation_message OtherError = InvalidValue"

fun join_dots :: "string list \<Rightarrow> string" where
  "join_dots [] = []"
| "join_dots [x] = x"
| "join_dots (x # y # xs) = x @ ''.'' @ join_dots (y # xs)"

definition validation_error_handler :: "request \<Rightarrow> request_error list \<Rightarrow> 'b response" where
  "validation_error_handler r errors =
     (let missing_required_if_match =
            list_ex (\<lambda>err. er_type err = Missing \<and> er_loc err = [''header'', ''If-Match'']) errors in
      if \<not> has_header ''if-match'' r \<and> (hr_method r = ''PATCH'' \<or> missing_required_if_match)
      then precondition_required_handler r
      else
        problem_response
          (problem_details ''/problems/validation-error'' ''Invalid request'' 422
             (Detail ''One or more request fields are invalid.'') ''VALIDATION_ERROR'' (Some (hr_path r))
             (Some (map (\<lambda>err. (join_dots (er_loc err), safe_validation_message (er_type err))) errors))) [])"

text \<open>\<open>auth_no_store\<close> is the mark that a protected route leaves in the scope of the request.\<close>

definition unexpected_error_handler :: "request \<Rightarrow> bool \<Rightarrow> 'b response" where
  "unexpected_error_handler r auth_no_store =
     problem_response
       (problem_details ''/problems/internal-error'' ''Internal server error'' 500
          (Detail ''The service met an unexpected error.'') ''INTERNAL_ERROR'' (Some (hr_path r)) None)
       (if auth_no_store then no_store else [])"


section \<open>Dimensions\<close>

definition not_found_problem :: "string \<Rightarrow> request \<Rightarrow> 'b response" where
  "not_found_problem name r =
     problem_response
       (problem_details ''/problems/dimension-not-found'' ''Dimension not found'' 404
          (Detail (''There is no such active '' @ name @ '' Dimension.'')) ''DIMENSION_NOT_FOUND'' (Some (hr_path r)) None) []"

definition unavailable_problem :: "request \<Rightarrow> 'b response" where
  "unavailable_problem r =
     problem_response
       (problem_details ''/problems/service-unavailable'' ''Service unavailable'' 503
          (Detail ''The request cannot be processed for now. Try again later.'') ''SERVICE_UNAVAILABLE''
          (Some (hr_path r)) None) []"

text \<open>The last statement of the four conflict handlers.\<close>

definition conflict_problem ::
    "request \<Rightarrow> string \<times> string \<times> string \<times> string \<times> (string \<times> message) list \<Rightarrow> 'b response" where
  "conflict_problem r = (\<lambda>(slug, title, det, code, violations).
     problem_response
       (problem_details (''/problems/'' @ slug) title 409 (Detail det) code (Some (hr_path r)) (Some violations)) [])"

definition company_not_found_handler :: "request \<Rightarrow> 'b response" where
  "company_not_found_handler = not_found_problem ''Company''"

definition company_repository_unavailable_handler :: "request \<Rightarrow> 'b response" where
  "company_repository_unavailable_handler = unavailable_problem"

text \<open>The class of a conflict.\<close>

datatype conflict = CodeConflict | ValueConflict | MultipleConflicts

definition company_conflict_handler :: "request \<Rightarrow> conflict \<Rightarrow> 'b response" where
  "company_conflict_handler r c = conflict_problem r
     (case c of
        CodeConflict \<Rightarrow>
          (''dimension-code-conflict'', ''Dimension code conflict'', ''The normalized Company code is in use.'',
           ''DIMENSION_CODE_CONFLICT'', [(''body.code'', AlreadyUsed)])
      | ValueConflict \<Rightarrow>
          (''dimension-value-conflict'', ''Dimension value conflict'', ''The normalized Company value is in use.'',
           ''DIMENSION_VALUE_CONFLICT'', [(''body.value'', AlreadyUsed)])
      | MultipleConflicts \<Rightarrow>
          (''dimension-multiple-conflicts'', ''Several Dimension fields conflict'',
           ''The normalized Company code and value are both in use.'',
           ''DIMENSION_MULTIPLE_CONFLICTS'', [(''body.code'', AlreadyUsed), (''body.value'', AlreadyUsed)]))"

definition string_dimension_not_found_handler :: "string \<Rightarrow> request \<Rightarrow> 'b response" where
  "string_dimension_not_found_handler name = not_found_problem name"

definition string_dimension_repository_unavailable_handler :: "request \<Rightarrow> 'b response" where
  "string_dimension_repository_unavailable_handler = unavailable_problem"

definition string_dimension_conflict_handler :: "string \<Rightarrow> request \<Rightarrow> conflict \<Rightarrow> 'b response" where
  "string_dimension_conflict_handler name r c = conflict_problem r
     (case c of
        CodeConflict \<Rightarrow>
          (''dimension-code-conflict'', ''Dimension code conflict'', ''The normalized '' @ name @ '' code is in use.'',
           ''DIMENSION_CODE_CONFLICT'', [(''body.code'', AlreadyUsed)])
      | ValueConflict \<Rightarrow>
          (''dimension-value-conflict'', ''Dimension value conflict'', ''The normalized '' @ name @ '' value is in use.'',
           ''DIMENSION_VALUE_CONFLICT'', [(''body.value'', AlreadyUsed)])
      | MultipleConflicts \<Rightarrow>
          (''dimension-multiple-conflicts'', ''Several Dimension fields conflict'',
           ''The normalized '' @ name @ '' code and value are both in use.'',
           ''DIMENSION_MULTIPLE_CONFLICTS'', [(''body.code'', AlreadyUsed), (''body.value'', AlreadyUsed)]))"

definition numeric_dimension_not_found_handler :: "string \<Rightarrow> request \<Rightarrow> 'b response" where
  "numeric_dimension_not_found_handler name = not_found_problem name"

definition numeric_dimension_repository_unavailable_handler :: "request \<Rightarrow> 'b response" where
  "numeric_dimension_repository_unavailable_handler = unavailable_problem"

definition numeric_dimension_conflict_handler :: "string \<Rightarrow> request \<Rightarrow> conflict \<Rightarrow> 'b response" where
  "numeric_dimension_conflict_handler name r c = conflict_problem r
     (case c of
        CodeConflict \<Rightarrow>
          (''dimension-code-conflict'', ''Dimension code conflict'', ''The normalized '' @ name @ '' code is in use.'',
           ''DIMENSION_CODE_CONFLICT'', [(''body.code'', AlreadyUsed)])
      | ValueConflict \<Rightarrow>
          (''dimension-value-conflict'', ''Dimension value conflict'', ''The '' @ name @ '' value is in use.'',
           ''DIMENSION_VALUE_CONFLICT'', [(''body.value'', AlreadyUsed)])
      | MultipleConflicts \<Rightarrow>
          (''dimension-multiple-conflicts'', ''Several Dimension fields conflict'',
           ''The '' @ name @ '' code and value are both in use.'',
           ''DIMENSION_MULTIPLE_CONFLICTS'', [(''body.code'', AlreadyUsed), (''body.value'', AlreadyUsed)]))"

definition memory_dimension_not_found_handler :: "request \<Rightarrow> 'b response" where
  "memory_dimension_not_found_handler = not_found_problem ''Memory''"

definition memory_dimension_repository_unavailable_handler :: "request \<Rightarrow> 'b response" where
  "memory_dimension_repository_unavailable_handler = unavailable_problem"

definition memory_dimension_conflict_handler :: "request \<Rightarrow> conflict \<Rightarrow> 'b response" where
  "memory_dimension_conflict_handler r c = conflict_problem r
     (case c of
        CodeConflict \<Rightarrow>
          (''dimension-code-conflict'', ''Dimension code conflict'', ''The normalized Memory code is in use.'',
           ''DIMENSION_CODE_CONFLICT'', [(''body.code'', AlreadyUsed)])
      | ValueConflict \<Rightarrow>
          (''dimension-value-conflict'', ''Dimension value conflict'', ''An equal Memory capacity is in use.'',
           ''DIMENSION_VALUE_CONFLICT'', [(''body.value'', AlreadyUsed)])
      | MultipleConflicts \<Rightarrow>
          (''dimension-multiple-conflicts'', ''Several Dimension fields conflict'',
           ''The Memory code and an equal capacity are both in use.'',
           ''DIMENSION_MULTIPLE_CONFLICTS'', [(''body.code'', AlreadyUsed), (''body.value'', AlreadyUsed)]))"

datatype lifecycle_error = InUse | NotDeletedError | LifecycleNotFound | LifecycleUnavailable

definition dimension_lifecycle_error_handler :: "request \<Rightarrow> lifecycle_error \<Rightarrow> 'b response" where
  "dimension_lifecycle_error_handler r err =
     (let (status, code, title, det) =
        (case err of
           InUse \<Rightarrow> (409, ''DIMENSION_IN_USE'', ''Dimension in use'',
             ''A Dimension that an active MasterCode references cannot be deleted.'')
         | NotDeletedError \<Rightarrow> (409, ''DIMENSION_NOT_DELETED'', ''Dimension not deleted'',
             ''An active Dimension has no tombstone and cannot be restored.'')
         | LifecycleNotFound \<Rightarrow> (404, ''DIMENSION_NOT_FOUND'', ''Dimension not found'',
             ''There is no Dimension to be read at the requested path.'')
         | LifecycleUnavailable \<Rightarrow> (503, ''SERVICE_UNAVAILABLE'', ''Service unavailable'',
             ''A temporary error prevents processing. Try again later.'')) in
      problem_response (problem_details (problem_type code) title status (Detail det) code (Some (hr_path r)) None) [])"


section \<open>MasterCodes and change requests\<close>

definition master_code_not_found_handler :: "request \<Rightarrow> 'b response" where
  "master_code_not_found_handler r =
     problem_response
       (problem_details ''/problems/master-code-not-found'' ''MasterCode not found'' 404
          (Detail ''There is no such MasterCode.'') ''MASTER_CODE_NOT_FOUND'' (Some (hr_path r)) None) []"

definition invalid_dimension_reference_handler :: "request \<Rightarrow> string list \<Rightarrow> 'b response" where
  "invalid_dimension_reference_handler r fs =
     problem_response
       (problem_details ''/problems/invalid-dimension-reference'' ''Invalid Dimension reference'' 422
          (Detail ''One or more Dimension references are missing or not active.'') ''INVALID_DIMENSION_REFERENCE''
          (Some (hr_path r)) (Some (map (\<lambda>field. (''body.'' @ field, MustReferenceActive)) fs))) []"

definition master_code_conflict_handler :: "request \<Rightarrow> 'b response" where
  "master_code_conflict_handler r =
     problem_response
       (problem_details ''/problems/master-code-conflict'' ''MasterCode conflict'' 409
          (Detail ''A MasterCode with this combination or code exists.'') ''MASTER_CODE_CONFLICT'' (Some (hr_path r)) None) []"

definition inline_dimension_conflict_handler :: "request \<Rightarrow> slot \<Rightarrow> bool \<Rightarrow> bool \<Rightarrow> 'b response" where
  "inline_dimension_conflict_handler r field code_conflict value_conflict =
     (let (slug, title, code, det, field_names) =
        (if code_conflict \<and> value_conflict then
           (''dimension-multiple-conflicts'', ''Several Dimension fields conflict'', ''DIMENSION_MULTIPLE_CONFLICTS'',
            ''The code and value of a Dimension to be created are both in use.'', [''code'', ''value''])
         else if code_conflict then
           (''dimension-code-conflict'', ''Dimension code conflict'', ''DIMENSION_CODE_CONFLICT'',
            ''The code of a Dimension to be created is in use.'', [''code''])
         else
           (''dimension-value-conflict'', ''Dimension value conflict'', ''DIMENSION_VALUE_CONFLICT'',
            ''The value of a Dimension to be created is in use.'', [''value''])) in
      problem_response
        (problem_details (''/problems/'' @ slug) title 409 (Detail det) code (Some (hr_path r))
           (Some (map (\<lambda>name. (''body.dimensions.'' @ slot_name field @ ''.'' @ name, AlreadyUsed)) field_names))) [])"

definition master_code_repository_unavailable_handler :: "request \<Rightarrow> 'b response" where
  "master_code_repository_unavailable_handler = unavailable_problem"

text \<open>\<open>None\<close> is \<open>MasterCodeNotDeleted\<close>, \<open>Some fs\<close> is \<open>MasterCodeReferenceInactive(fs)\<close>.\<close>

definition master_code_lifecycle_error_handler :: "request \<Rightarrow> string list option \<Rightarrow> 'b response" where
  "master_code_lifecycle_error_handler r err =
     (let (code, title, det, violations) =
        (case err of
           Some fs \<Rightarrow> (''MASTER_CODE_REFERENCE_INACTIVE'', ''MasterCode reference cannot be restored'',
             ''The MasterCode references a deleted Dimension and cannot be restored.'',
             Some (map (\<lambda>field. (field, ReferenceDeleted)) fs))
         | None \<Rightarrow> (''MASTER_CODE_NOT_DELETED'', ''MasterCode not deleted'', ''The MasterCode is not deleted.'', None)) in
      problem_response (problem_details (problem_type code) title 409 (Detail det) code (Some (hr_path r)) violations) [])"

text \<open>\<open>CHANGE_REQUEST_ERRORS\<close> of \<open>change_requests.py\<close>.\<close>

fun CHANGE_REQUEST_ERRORS :: "exn \<Rightarrow> (int \<times> string \<times> string) option" where
  "CHANGE_REQUEST_ERRORS ChangeRequestNotFound = Some (404, ''CHANGE_REQUEST_NOT_FOUND'', ''There is no such request.'')"
| "CHANGE_REQUEST_ERRORS ChangeRequestAlreadyReviewed =
     Some (409, ''CHANGE_REQUEST_ALREADY_REVIEWED'', ''The request is already approved or rejected.'')"
| "CHANGE_REQUEST_ERRORS ChangeRequestNoEffect =
     Some (409, ''CHANGE_REQUEST_NO_EFFECT'', ''There is no change to apply; the request stays PENDING until it is rejected.'')"
| "CHANGE_REQUEST_ERRORS ChangeRequestStaleTarget =
     Some (409, ''CHANGE_REQUEST_STALE_TARGET'', ''The state of the target differs from the ETag of the proposal.'')"
| "CHANGE_REQUEST_ERRORS ChangeRequestRestoreMismatch =
     Some (409, ''CHANGE_REQUEST_RESTORE_MISMATCH'', ''The references of the proposal differ from the deleted row.'')"
| "CHANGE_REQUEST_ERRORS (ChangeRequestValidationError msg) =
     Some (422, ''VALIDATION_ERROR'', ''The change request or review is invalid.'')"
| "CHANGE_REQUEST_ERRORS _ = None"

definition change_request_error_handler :: "request \<Rightarrow> exn \<Rightarrow> int \<times> string \<times> string \<Rightarrow> 'b response" where
  "change_request_error_handler r exc = (\<lambda>(status, code, det).
     problem_response
       (problem_details (problem_type code) ''Change request error'' status
          (case exc of ChangeRequestValidationError msg \<Rightarrow> RequestInvalid msg | _ \<Rightarrow> Detail det)
          code (Some (hr_path r)) None) [])"


section \<open>Users and audit logs\<close>

datatype admin_user_error = UserMissing | QueryInvalid string | QueryUnavailable

definition admin_user_problem :: "int \<Rightarrow> string \<Rightarrow> string \<Rightarrow> string \<Rightarrow> request \<Rightarrow> (string \<times> message) list option \<Rightarrow> 'b response" where
  "admin_user_problem status title det code r violations =
     problem_response (problem_details (problem_type code) title status (Detail det) code (Some (hr_path r)) violations) []"

definition admin_user_error_handler :: "request \<Rightarrow> admin_user_error \<Rightarrow> 'b response" where
  "admin_user_error_handler r err =
     (case err of
        UserMissing \<Rightarrow> admin_user_problem 404 ''User not found'' ''There is no user that can be read.'' ''USER_NOT_FOUND'' r None
      | QueryInvalid field \<Rightarrow>
          admin_user_problem 422 ''Invalid request'' ''One or more request fields are invalid.'' ''VALIDATION_ERROR'' r
            (Some [(field, QueryMessage field)])
      | QueryUnavailable \<Rightarrow>
          admin_user_problem 503 ''Service unavailable'' ''The request cannot be processed for now. Try again later.''
            ''SERVICE_UNAVAILABLE'' r None)"

definition user_management_unavailable_handler :: "request \<Rightarrow> 'b response" where
  "user_management_unavailable_handler r =
     problem_response
       (problem_details (problem_type ''SERVICE_UNAVAILABLE'') ''Service unavailable'' 503
          (Detail ''The request cannot be processed for now. Try again later.'') ''SERVICE_UNAVAILABLE'' (Some (hr_path r)) None) []"

definition audit_log_unavailable_handler :: "request \<Rightarrow> 'b response" where
  "audit_log_unavailable_handler r =
     problem_response
       (problem_details ''/problems/service-unavailable'' ''Service unavailable'' 503
          (Detail ''The audit logs cannot be read for now. Try again later.'') ''SERVICE_UNAVAILABLE'' (Some (hr_path r)) None) []"


section \<open>The registered handlers\<close>

text \<open>The \<open>add_exception_handler\<close> calls of \<open>create_app\<close>; an exception of any other class has the
  handler of \<open>Exception\<close>. The names of the Dimensions are those the repositories report.\<close>

definition display_name_of :: "slot \<Rightarrow> string" where
  "display_name_of s = (case s of Model \<Rightarrow> ''Model'' | Brand \<Rightarrow> ''Brand'' | Country \<Rightarrow> ''Country'' | Category \<Rightarrow> ''Category''
     | Year \<Rightarrow> ''Year'' | Network \<Rightarrow> ''Network'' | Memory \<Rightarrow> ''Memory'' | Company \<Rightarrow> ''Company'')"

definition family_not_found :: "slot \<Rightarrow> request \<Rightarrow> 'b response" where
  "family_not_found s =
     (if s = Company then company_not_found_handler
      else if s = Memory then memory_dimension_not_found_handler
      else if s = Year \<or> s = Network then numeric_dimension_not_found_handler (display_name_of s)
      else string_dimension_not_found_handler (display_name_of s))"

definition family_unavailable :: "slot \<Rightarrow> request \<Rightarrow> 'b response" where
  "family_unavailable s =
     (if s = Company then company_repository_unavailable_handler
      else if s = Memory then memory_dimension_repository_unavailable_handler
      else if s = Year \<or> s = Network then numeric_dimension_repository_unavailable_handler
      else string_dimension_repository_unavailable_handler)"

definition family_conflict :: "slot \<Rightarrow> request \<Rightarrow> conflict \<Rightarrow> 'b response" where
  "family_conflict s =
     (if s = Company then company_conflict_handler
      else if s = Memory then memory_dimension_conflict_handler
      else if s = Year \<or> s = Network then numeric_dimension_conflict_handler (display_name_of s)
      else string_dimension_conflict_handler (display_name_of s))"

fun account_exception :: "bool \<Rightarrow> request \<Rightarrow> account_error \<Rightarrow> 'b response" where
  "account_exception b r InvalidAccessToken = invalid_access_token_handler r"
| "account_exception b r UserNotFound = admin_user_error_handler r UserMissing"
| "account_exception b r (UserQueryValidationError field) = admin_user_error_handler r (QueryInvalid field)"
| "account_exception b r UserManagementUnavailable = user_management_unavailable_handler r"
| "account_exception b r _ = unexpected_error_handler r b"

fun raised_exception :: "bool \<Rightarrow> request \<Rightarrow> exn \<Rightarrow> 'b response" where
  "raised_exception b r AuthorizationDenied = authorization_denied_handler r"
| "raised_exception b r (DimensionValidationError field msg) = dimension_validation_error_handler r field msg"
| "raised_exception b r PreconditionFailed = precondition_failed_handler r"
| "raised_exception b r (DimensionNotFound s) = family_not_found s r"
| "raised_exception b r (DimensionCodeConflict s) = family_conflict s r CodeConflict"
| "raised_exception b r (DimensionValueConflict s) = family_conflict s r ValueConflict"
| "raised_exception b r (DimensionMultipleConflicts s) = family_conflict s r MultipleConflicts"
| "raised_exception b r MasterCodeNotDeleted = master_code_lifecycle_error_handler r None"
| "raised_exception b r (MasterCodeReferenceInactive fs) = master_code_lifecycle_error_handler r (Some fs)"
| "raised_exception b r MasterCodeNotFound = master_code_not_found_handler r"
| "raised_exception b r (InvalidDimensionReference fs) = invalid_dimension_reference_handler r fs"
| "raised_exception b r MasterCodeConflict = master_code_conflict_handler r"
| "raised_exception b r (InlineDimensionConflict s c v) = inline_dimension_conflict_handler r s c v"
| "raised_exception b r DimensionInUse = dimension_lifecycle_error_handler r InUse"
| "raised_exception b r DimensionNotDeleted = dimension_lifecycle_error_handler r NotDeletedError"
| "raised_exception b r DimensionLifecycleNotFound = dimension_lifecycle_error_handler r LifecycleNotFound"
| "raised_exception b r (AccountError e) = account_exception b r e"
| "raised_exception b r e =
     (case CHANGE_REQUEST_ERRORS e of
        Some entry \<Rightarrow> change_request_error_handler r e entry
      | None \<Rightarrow> unexpected_error_handler r b)"

fun handle_exception :: "bool \<Rightarrow> request \<Rightarrow> api_exn \<Rightarrow> 'b response" where
  "handle_exception b r (Raised e) = raised_exception b r e"
| "handle_exception b r PreconditionRequired = precondition_required_handler r"
| "handle_exception b r InvalidIfMatch = invalid_if_match_handler r"
| "handle_exception b r (RequestValidationError errors) = validation_error_handler r errors"
| "handle_exception b r (RepositoryUnavailable s) = family_unavailable s r"
| "handle_exception b r MasterCodeRepositoryUnavailable = master_code_repository_unavailable_handler r"
| "handle_exception b r DimensionLifecycleUnavailable = dimension_lifecycle_error_handler r LifecycleUnavailable"
| "handle_exception b r ReadinessUnavailable = readiness_unavailable_handler r"
| "handle_exception b r UserQueryUnavailable = admin_user_error_handler r QueryUnavailable"
| "handle_exception b r AuditLogRepositoryUnavailable = audit_log_unavailable_handler r"

text \<open>The response to a request whose endpoint returned or raised.\<close>

definition respond :: "request \<Rightarrow> 'b response api \<Rightarrow> 'b response" where
  "respond r outcome = (case outcome of Inl e \<Rightarrow> handle_exception False r e | Inr rs \<Rightarrow> rs)"


section \<open>Every exception has a well-formed problem\<close>

text \<open>The pattern that \<open>ProblemDetails\<close> requires of a type: words of lower-case letters and digits,
  joined by single dashes.\<close>

fun slug_words :: "string \<Rightarrow> bool \<Rightarrow> bool" where
  "slug_words [] start = (\<not> start)"
| "slug_words (c # cs) start =
     (if c = CHR ''-'' then \<not> start \<and> slug_words cs True
      else ((97 \<le> (of_char c :: nat) \<and> (of_char c :: nat) \<le> 122) \<or> (48 \<le> (of_char c :: nat) \<and> (of_char c :: nat) \<le> 57))
        \<and> slug_words cs False)"

definition type_pattern :: "string \<Rightarrow> bool" where
  "type_pattern ty \<longleftrightarrow> take 10 ty = ''/problems/'' \<and> slug_words (drop 10 ty) True"

definition problem_ok :: "request \<Rightarrow> problem \<Rightarrow> bool" where
  "problem_ok r pb \<longleftrightarrow> pb_instance pb = Some (hr_path r) \<and> pb_type pb = problem_type (pb_code pb) \<and> type_pattern (pb_type pb)"

definition documented_problem :: "request \<Rightarrow> 'b response \<Rightarrow> bool" where
  "documented_problem r rs \<longleftrightarrow>
     (case rs_body rs of ProblemBody pb \<Rightarrow> problem_ok r pb \<and> rs_status rs = pb_status pb | _ \<Rightarrow> False)
     \<and> rs_media rs = ''application/problem+json'' \<and> rs_cookies rs = []"

text \<open>The exceptions of a class that \<open>create_app\<close> registers, \<open>Exception\<close> aside.\<close>

fun registered_account :: "account_error \<Rightarrow> bool" where
  "registered_account InvalidAccessToken = True"
| "registered_account UserNotFound = True"
| "registered_account (UserQueryValidationError field) = True"
| "registered_account UserManagementUnavailable = True"
| "registered_account _ = False"

fun registered_exn :: "exn \<Rightarrow> bool" where
  "registered_exn (MasterCodeValidationError msg) = False"
| "registered_exn AuthInvariantError = False"
| "registered_exn AuditInvariantError = False"
| "registered_exn ValueError = False"
| "registered_exn AssertionError = False"
| "registered_exn IndexError = False"
| "registered_exn AttributeError = False"
| "registered_exn (IntegrityError c) = False"
| "registered_exn DataError = False"
| "registered_exn (AccountError e) = registered_account e"
| "registered_exn _ = True"

fun registered :: "api_exn \<Rightarrow> bool" where
  "registered (Raised e) = registered_exn e"
| "registered _ = True"

text \<open>What the lemmas below need of a handler: its problem and its status.\<close>

definition answered :: "request \<Rightarrow> int \<Rightarrow> 'b response \<Rightarrow> bool" where
  "answered r status rs \<longleftrightarrow> documented_problem r rs \<and> rs_status rs = status"

lemma answered_problem:
  "answered r status (problem_response (problem_details ty title st det code inst vs) hs) \<longleftrightarrow>
     st = status \<and> inst = Some (hr_path r) \<and> ty = problem_type code \<and> type_pattern ty"
  by (auto simp: answered_def documented_problem_def problem_response_def problem_ok_def problem_details_def)

text \<open>The types of the codes that the handlers use.\<close>

lemma slug_chars:
  "slug_char (CHR ''A'') = CHR ''a''"
  "slug_char (CHR ''B'') = CHR ''b''"
  "slug_char (CHR ''C'') = CHR ''c''"
  "slug_char (CHR ''D'') = CHR ''d''"
  "slug_char (CHR ''E'') = CHR ''e''"
  "slug_char (CHR ''F'') = CHR ''f''"
  "slug_char (CHR ''G'') = CHR ''g''"
  "slug_char (CHR ''H'') = CHR ''h''"
  "slug_char (CHR ''I'') = CHR ''i''"
  "slug_char (CHR ''J'') = CHR ''j''"
  "slug_char (CHR ''K'') = CHR ''k''"
  "slug_char (CHR ''L'') = CHR ''l''"
  "slug_char (CHR ''M'') = CHR ''m''"
  "slug_char (CHR ''N'') = CHR ''n''"
  "slug_char (CHR ''O'') = CHR ''o''"
  "slug_char (CHR ''P'') = CHR ''p''"
  "slug_char (CHR ''Q'') = CHR ''q''"
  "slug_char (CHR ''R'') = CHR ''r''"
  "slug_char (CHR ''S'') = CHR ''s''"
  "slug_char (CHR ''T'') = CHR ''t''"
  "slug_char (CHR ''U'') = CHR ''u''"
  "slug_char (CHR ''V'') = CHR ''v''"
  "slug_char (CHR ''W'') = CHR ''w''"
  "slug_char (CHR ''X'') = CHR ''x''"
  "slug_char (CHR ''Y'') = CHR ''y''"
  "slug_char (CHR ''Z'') = CHR ''z''"
  "slug_char (CHR ''_'') = CHR ''-''"
  by (simp_all add: slug_char_def) code_simp+

lemma problem_types [simp]:
  "problem_type ''INVALID_ACCESS_TOKEN'' = ''/problems/invalid-access-token''"
  "problem_type ''AUTHORIZATION_DENIED'' = ''/problems/authorization-denied''"
  "problem_type ''SERVICE_UNAVAILABLE'' = ''/problems/service-unavailable''"
  "problem_type ''VALIDATION_ERROR'' = ''/problems/validation-error''"
  "problem_type ''PRECONDITION_REQUIRED'' = ''/problems/precondition-required''"
  "problem_type ''INVALID_IF_MATCH'' = ''/problems/invalid-if-match''"
  "problem_type ''PRECONDITION_FAILED'' = ''/problems/precondition-failed''"
  "problem_type ''INTERNAL_ERROR'' = ''/problems/internal-error''"
  "problem_type ''DIMENSION_NOT_FOUND'' = ''/problems/dimension-not-found''"
  "problem_type ''DIMENSION_CODE_CONFLICT'' = ''/problems/dimension-code-conflict''"
  "problem_type ''DIMENSION_VALUE_CONFLICT'' = ''/problems/dimension-value-conflict''"
  "problem_type ''DIMENSION_MULTIPLE_CONFLICTS'' = ''/problems/dimension-multiple-conflicts''"
  "problem_type ''DIMENSION_IN_USE'' = ''/problems/dimension-in-use''"
  "problem_type ''DIMENSION_NOT_DELETED'' = ''/problems/dimension-not-deleted''"
  "problem_type ''MASTER_CODE_NOT_FOUND'' = ''/problems/master-code-not-found''"
  "problem_type ''INVALID_DIMENSION_REFERENCE'' = ''/problems/invalid-dimension-reference''"
  "problem_type ''MASTER_CODE_CONFLICT'' = ''/problems/master-code-conflict''"
  "problem_type ''MASTER_CODE_REFERENCE_INACTIVE'' = ''/problems/master-code-reference-inactive''"
  "problem_type ''MASTER_CODE_NOT_DELETED'' = ''/problems/master-code-not-deleted''"
  "problem_type ''CHANGE_REQUEST_NOT_FOUND'' = ''/problems/change-request-not-found''"
  "problem_type ''CHANGE_REQUEST_ALREADY_REVIEWED'' = ''/problems/change-request-already-reviewed''"
  "problem_type ''CHANGE_REQUEST_NO_EFFECT'' = ''/problems/change-request-no-effect''"
  "problem_type ''CHANGE_REQUEST_STALE_TARGET'' = ''/problems/change-request-stale-target''"
  "problem_type ''CHANGE_REQUEST_RESTORE_MISMATCH'' = ''/problems/change-request-restore-mismatch''"
  "problem_type ''USER_NOT_FOUND'' = ''/problems/user-not-found''"
  by (simp_all only: problem_type_def list.map slug_chars append.simps)

lemma type_patterns [simp]:
  "type_pattern ''/problems/invalid-access-token''"
  "type_pattern ''/problems/authorization-denied''"
  "type_pattern ''/problems/service-unavailable''"
  "type_pattern ''/problems/validation-error''"
  "type_pattern ''/problems/precondition-required''"
  "type_pattern ''/problems/invalid-if-match''"
  "type_pattern ''/problems/precondition-failed''"
  "type_pattern ''/problems/internal-error''"
  "type_pattern ''/problems/dimension-not-found''"
  "type_pattern ''/problems/dimension-code-conflict''"
  "type_pattern ''/problems/dimension-value-conflict''"
  "type_pattern ''/problems/dimension-multiple-conflicts''"
  "type_pattern ''/problems/dimension-in-use''"
  "type_pattern ''/problems/dimension-not-deleted''"
  "type_pattern ''/problems/master-code-not-found''"
  "type_pattern ''/problems/invalid-dimension-reference''"
  "type_pattern ''/problems/master-code-conflict''"
  "type_pattern ''/problems/master-code-reference-inactive''"
  "type_pattern ''/problems/master-code-not-deleted''"
  "type_pattern ''/problems/change-request-not-found''"
  "type_pattern ''/problems/change-request-already-reviewed''"
  "type_pattern ''/problems/change-request-no-effect''"
  "type_pattern ''/problems/change-request-stale-target''"
  "type_pattern ''/problems/change-request-restore-mismatch''"
  "type_pattern ''/problems/user-not-found''"
  by code_simp+

lemma answered_handlers:
  "answered r 401 (invalid_access_token_handler r)"
  "answered r 403 (authorization_denied_handler r)"
  "answered r 503 (readiness_unavailable_handler r)"
  "answered r 422 (dimension_validation_error_handler r field msg)"
  "answered r 428 (precondition_required_handler r)"
  "answered r 400 (invalid_if_match_handler r)"
  "answered r 412 (precondition_failed_handler r)"
  "answered r 500 (unexpected_error_handler r b)"
  "answered r 404 (not_found_problem name r)"
  "answered r 503 (unavailable_problem r)"
  "answered r 404 (master_code_not_found_handler r)"
  "answered r 422 (invalid_dimension_reference_handler r fs)"
  "answered r 409 (master_code_conflict_handler r)"
  "answered r 503 (user_management_unavailable_handler r)"
  "answered r 503 (audit_log_unavailable_handler r)"
  by (simp_all add: answered_problem
      invalid_access_token_handler_def authorization_denied_handler_def readiness_unavailable_handler_def
      dimension_validation_error_handler_def precondition_required_handler_def invalid_if_match_handler_def
      precondition_failed_handler_def unexpected_error_handler_def not_found_problem_def unavailable_problem_def
      master_code_not_found_handler_def invalid_dimension_reference_handler_def master_code_conflict_handler_def
      user_management_unavailable_handler_def audit_log_unavailable_handler_def)

lemma answered_conflicts:
  "answered r 409 (company_conflict_handler r c)"
  "answered r 409 (string_dimension_conflict_handler name r c)"
  "answered r 409 (numeric_dimension_conflict_handler name r c)"
  "answered r 409 (memory_dimension_conflict_handler r c)"
  by (cases c; simp add: answered_problem conflict_problem_def company_conflict_handler_def string_dimension_conflict_handler_def
      numeric_dimension_conflict_handler_def memory_dimension_conflict_handler_def)+

lemma answered_inline: "answered r 409 (inline_dimension_conflict_handler r s cc vc)"
  by (simp add: answered_problem inline_dimension_conflict_handler_def)

lemma answered_master_code_lifecycle: "answered r 409 (master_code_lifecycle_error_handler r fs)"
  by (cases fs) (simp_all add: answered_problem master_code_lifecycle_error_handler_def)

lemma answered_lifecycle:
  "answered r (case err of LifecycleNotFound \<Rightarrow> 404 | LifecycleUnavailable \<Rightarrow> 503 | _ \<Rightarrow> 409) (dimension_lifecycle_error_handler r err)"
  "answered r (case u of UserMissing \<Rightarrow> 404 | QueryInvalid _ \<Rightarrow> 422 | QueryUnavailable \<Rightarrow> 503) (admin_user_error_handler r u)"
  by (cases err; simp add: answered_problem dimension_lifecycle_error_handler_def)
     (cases u; simp add: answered_problem admin_user_error_handler_def admin_user_problem_def)

lemma answered_families:
  "answered r 404 (family_not_found s r)" "answered r 503 (family_unavailable s r)" "answered r 409 (family_conflict s r c)"
  by (simp_all add: family_not_found_def family_unavailable_def family_conflict_def answered_conflicts answered_handlers
      company_not_found_handler_def string_dimension_not_found_handler_def numeric_dimension_not_found_handler_def
      memory_dimension_not_found_handler_def company_repository_unavailable_handler_def
      string_dimension_repository_unavailable_handler_def numeric_dimension_repository_unavailable_handler_def
      memory_dimension_repository_unavailable_handler_def)

lemma answered_change_request:
  "CHANGE_REQUEST_ERRORS e = Some entry \<Longrightarrow> answered r (fst entry) (change_request_error_handler r e entry)"
  by (cases e rule: CHANGE_REQUEST_ERRORS.cases)
     (auto simp: change_request_error_handler_def answered_problem)

lemma answered_validation:
  "answered r (if \<not> has_header ''if-match'' r \<and> (hr_method r = ''PATCH''
        \<or> (\<exists>err \<in> set errors. er_type err = Missing \<and> er_loc err = [''header'', ''If-Match''])) then 428 else 422)
     (validation_error_handler r errors)"
  by (simp add: validation_error_handler_def list_ex_iff answered_handlers answered_problem)

text \<open>The status of each exception.\<close>

fun account_status :: "account_error \<Rightarrow> int" where
  "account_status InvalidAccessToken = 401"
| "account_status UserNotFound = 404"
| "account_status (UserQueryValidationError field) = 422"
| "account_status UserManagementUnavailable = 503"
| "account_status _ = 500"

fun exn_status :: "exn \<Rightarrow> int" where
  "exn_status AuthorizationDenied = 403"
| "exn_status (DimensionValidationError field msg) = 422"
| "exn_status PreconditionFailed = 412"
| "exn_status (DimensionNotFound s) = 404"
| "exn_status DimensionLifecycleNotFound = 404"
| "exn_status MasterCodeNotFound = 404"
| "exn_status (InvalidDimensionReference fs) = 422"
| "exn_status (AccountError e) = account_status e"
| "exn_status e =
     (case CHANGE_REQUEST_ERRORS e of
        Some entry \<Rightarrow> fst entry
      | None \<Rightarrow> if registered_exn e then 409 else 500)"

lemma answered_account: "answered r (account_status e) (account_exception b r e)"
  by (cases e) (simp_all add: answered_handlers answered_lifecycle(2) [of r UserMissing, simplified]
      answered_lifecycle(2) [of r "QueryInvalid f" for f, simplified])

lemma answered_exn: "answered r (exn_status e) (raised_exception b r e)"
  using answered_change_request [of e _ r]
  by (cases e) (simp_all add: answered_handlers answered_conflicts answered_inline answered_master_code_lifecycle answered_families
      answered_account answered_lifecycle(1) [of r InUse, simplified] answered_lifecycle(1) [of r NotDeletedError, simplified]
      answered_lifecycle(1) [of r LifecycleNotFound, simplified])

lemma account_status_500: "account_status e = 500 \<longleftrightarrow> \<not> registered_account e"
  by (cases e) simp_all

lemma exn_status_500: "exn_status e = 500 \<longleftrightarrow> \<not> registered_exn e"
  by (cases e) (simp_all add: account_status_500)


end
