(* ===== verification/Calendar.thy ===== *)
theory Calendar
  imports Http
begin

text \<open>
  The text of an instant: \<open>datetime.isoformat\<close> of an aware value in UTC, and
  \<open>datetime.fromisoformat\<close> on texts of this form. Instants count microseconds from the start of
  1970; dates are those of the proleptic Gregorian calendar, years 1 to 9999.
\<close>

section \<open>Dates\<close>

definition leap_year :: "int \<Rightarrow> bool" where
  "leap_year y \<longleftrightarrow> y mod 4 = 0 \<and> (y mod 100 \<noteq> 0 \<or> y mod 400 = 0)"

definition month_lengths :: "int \<Rightarrow> int list" where
  "month_lengths y = [31, if leap_year y then 29 else 28, 31, 30, 31, 30, 31, 31, 30, 31, 30, 31]"

definition days_before_year :: "int \<Rightarrow> int" where
  "days_before_year y = (let p = y - 1 in p * 365 + p div 4 - p div 100 + p div 400)"

text \<open>Days from the first day of year 1, which is day 0.\<close>

definition day_number :: "int \<Rightarrow> nat \<Rightarrow> int \<Rightarrow> int" where
  "day_number y m d = days_before_year y + sum_list (take (m - 1) (month_lengths y)) + d - 1"

fun month_day :: "int list \<Rightarrow> int \<Rightarrow> nat \<Rightarrow> nat \<times> int" where
  "month_day [] n m = (m, n + 1)"
| "month_day (l # ls) n m = (if n < l then (m, n + 1) else month_day ls (n - l) (m + 1))"

definition date_of :: "int \<Rightarrow> int \<times> nat \<times> int" where
  "date_of n =
     (let a = n div 146097; r = n mod 146097;
          b = min 3 (r div 36524); r = r - 36524 * b;
          c = r div 1461; r = r mod 1461;
          e = min 3 (r div 365); r = r - 365 * e;
          y = 400 * a + 100 * b + 4 * c + e + 1;
          (m, d) = month_day (month_lengths y) r 1
      in (y, m, d))"

definition valid_date :: "int \<Rightarrow> nat \<Rightarrow> int \<Rightarrow> bool" where
  "valid_date y m d \<longleftrightarrow> 1 \<le> y \<and> 1 \<le> m \<and> m \<le> 12 \<and> 1 \<le> d \<and> d \<le> month_lengths y ! (m - 1)"

lemma month_day_correct:
  assumes "0 \<le> n" "n < sum_list ls" "month_day ls n m = (k, d)"
  shows "m \<le> k \<and> k < m + length ls \<and> 1 \<le> d \<and> d \<le> ls ! (k - m) \<and> n = sum_list (take (k - m) ls) + d - 1"
  using assms
proof (induction ls arbitrary: n m)
  case (Cons l ls)
  show ?case
  proof (cases "n < l")
    case False
    with Cons.prems have "m + 1 \<le> k \<and> k < m + 1 + length ls \<and> 1 \<le> d \<and> d \<le> ls ! (k - (m + 1))
        \<and> n - l = sum_list (take (k - (m + 1)) ls) + d - 1"
      by (intro Cons.IH) auto
    moreover from this have "k - m = Suc (k - (m + 1))" by auto
    ultimately show ?thesis by auto
  qed (use Cons.prems in auto)
qed simp

lemma days_before_cycle:
  assumes "0 \<le> b" "b \<le> 3" "0 \<le> c" "c \<le> 24" "0 \<le> e" "e \<le> 3"
  shows "days_before_year (400 * a + 100 * b + 4 * c + e + 1) = 146097 * a + 36524 * b + 1461 * c + 365 * e"
    and "leap_year (400 * a + 100 * b + 4 * c + e + 1) \<longleftrightarrow> e = 3 \<and> (c \<noteq> 24 \<or> b = 3)"
proof -
  let ?p = "400 * a + 100 * b + 4 * c + e"
  have "?p div 4 = 100 * a + 25 * b + c"
    by (rule int_div_pos_eq [where r = e]) (use assms in auto)
  moreover have "?p div 100 = 4 * a + b"
    by (rule int_div_pos_eq [where r = "4 * c + e"]) (use assms in auto)
  moreover have "?p div 400 = a"
    by (rule int_div_pos_eq [where r = "100 * b + 4 * c + e"]) (use assms in auto)
  ultimately show "days_before_year (400 * a + 100 * b + 4 * c + e + 1) = 146097 * a + 36524 * b + 1461 * c + 365 * e"
    by (simp add: days_before_year_def Let_def)
  have split: "?p + 1 = (e + 1) + (100 * a + 25 * b + c) * 4" "?p + 1 = (4 * c + e + 1) + (4 * a + b) * 100"
    "?p + 1 = (100 * b + 4 * c + e + 1) + a * 400" by simp_all
  have m4: "(?p + 1) mod 4 = (e + 1) mod 4" unfolding split(1) by (rule mod_mult_self1)
  have m100: "(?p + 1) mod 100 = (4 * c + e + 1) mod 100" unfolding split(2) by (rule mod_mult_self1)
  have m400: "(?p + 1) mod 400 = (100 * b + 4 * c + e + 1) mod 400" unfolding split(3) by (rule mod_mult_self1)
  have e: "e \<in> {0, 1, 2, 3}" and b: "b \<in> {0, 1, 2, 3}" using assms by auto
  show "leap_year (400 * a + 100 * b + 4 * c + e + 1) \<longleftrightarrow> e = 3 \<and> (c \<noteq> 24 \<or> b = 3)"
  proof (cases "e = 3")
    case False
    with e have "(e + 1) mod 4 \<noteq> 0" by auto
    with m4 False show ?thesis unfolding leap_year_def by simp
  next
    case True
    show ?thesis
    proof (cases "c = 24")
      case c: True
      have "(100 * b + 100) mod 400 = 0 \<longleftrightarrow> b = 3" using b by auto
      with m4 m100 m400 True c show ?thesis unfolding leap_year_def by (simp add: add.commute)
    next
      case False
      with assms(3,4) have "(4 * c + 4) mod 100 = 4 * c + 4" by (intro mod_pos_pos_trivial) auto
      then have "(?p + 1) mod 100 \<noteq> 0" using m100 True assms(3) by simp
      with m4 True False show ?thesis unfolding leap_year_def by simp
    qed
  qed
qed

lemma length_month_lengths [simp]: "length (month_lengths y) = 12"
  by (simp add: month_lengths_def)

lemma sum_month_lengths: "sum_list (month_lengths y) = (if leap_year y then 366 else 365)"
  by (simp add: month_lengths_def)

text \<open>The date of a day number is a date of the calendar, and this day is its number.\<close>

lemma day_number_date_of:
  assumes "0 \<le> n" "date_of n = (y, m, d)"
  shows "valid_date y m d \<and> day_number y m d = n"
proof -
  define a r1 where ar: "a = n div 146097" "r1 = n mod 146097"
  define b where b: "b = min 3 (r1 div 36524)"
  define r2 where r2: "r2 = r1 - 36524 * b"
  define c r3 where cr: "c = r2 div 1461" "r3 = r2 mod 1461"
  define e where e: "e = min 3 (r3 div 365)"
  define f where f: "f = r3 - 365 * e"
  let ?y = "400 * a + 100 * b + 4 * c + e + 1"
  have r1: "0 \<le> r1" "r1 < 146097" "n = 146097 * a + r1" by (simp_all add: ar)
  have b3: "0 \<le> b" "b \<le> 3" "0 \<le> r2" "b < 3 \<Longrightarrow> r2 < 36524" "b = 3 \<Longrightarrow> r2 \<le> 36524"
    using r1 unfolding b r2 by (auto simp: min_def split: if_splits)
  have "r2 \<le> 36524" using b3 by fastforce
  then have "r2 div 1461 \<le> 36524 div 1461" by (rule zdiv_mono1) simp
  then have c24: "0 \<le> c" "0 \<le> r3" "r3 < 1461" "r2 = 1461 * c + r3" "c \<le> 24"
    using b3(3) unfolding cr by (simp_all add: pos_imp_zdiv_nonneg_iff)
  have e3: "0 \<le> e" "e \<le> 3" "0 \<le> f" "e < 3 \<Longrightarrow> f < 365" "e = 3 \<Longrightarrow> f \<le> 365"
    using c24 unfolding e f by (auto simp: min_def split: if_splits)
  note cyc = days_before_cycle [OF b3(1,2) c24(1,5) e3(1,2), of a]
  have "f < 365 + (if leap_year ?y then 1 else 0)"
    unfolding cyc(2) using b3 c24 e3 f by (cases "e = 3") auto
  then have sum: "f < sum_list (month_lengths ?y)" by (simp add: sum_month_lengths split: if_splits)
  obtain k g where md: "month_day (month_lengths ?y) f 1 = (k, g)" by fastforce
  have "date_of n = (?y, k, g)"
    by (simp only: date_of_def Let_def ar [symmetric] b [symmetric] r2 [symmetric] cr [symmetric] e [symmetric] f [symmetric]
        md prod.case)
  then have eqs: "y = ?y" "m = k" "d = g" using assms(2) by auto
  have "n = days_before_year ?y + f"
    unfolding cyc(1) using r1(3) r2 c24(4) f by simp
  moreover note mdc = month_day_correct [OF e3(3) sum md]
  ultimately have "day_number ?y k g = n" by (simp add: day_number_def)
  moreover have "0 \<le> a" using assms(1) by (simp add: ar pos_imp_zdiv_nonneg_iff)
  then have "1 \<le> ?y" using b3(1) c24(1) e3(1) by linarith
  ultimately show ?thesis using mdc unfolding eqs valid_date_def by simp
qed


section \<open>Instants\<close>

definition EPOCH_DAY :: int where
  "EPOCH_DAY = 719162"

text \<open>The instants of years 1 to 9999, which are those of a \<open>datetime\<close>.\<close>

definition datetime_range :: "int \<Rightarrow> bool" where
  "datetime_range t \<longleftrightarrow> - 62135596800000000 \<le> t \<and> t < 253402300800000000"

definition padded :: "nat \<Rightarrow> int \<Rightarrow> pystr" where
  "padded n k = map (\<lambda>d. 48 + d) (digits_n 10 n (nat k))"

text \<open>\<open>value.astimezone(UTC).isoformat()\<close>: the fraction is left out when it is zero.\<close>

definition isoformat :: "int \<Rightarrow> pystr" where
  "isoformat t =
     (let (y, m, d) = date_of (t div 86400000000 + EPOCH_DAY);
          us = t mod 86400000000; s = us div 1000000; f = us mod 1000000 in
      padded 4 y @ [45] @ padded 2 (int m) @ [45] @ padded 2 d @ [84]
      @ padded 2 (s div 3600) @ [58] @ padded 2 (s div 60 mod 60) @ [58] @ padded 2 (s mod 60)
      @ (if f = 0 then [] else 46 # padded 6 f) @ lit ''+00:00'')"

definition all_digits :: "pystr \<Rightarrow> bool" where
  "all_digits s \<longleftrightarrow> list_all (\<lambda>c. 48 \<le> c \<and> c \<le> 57) s"

text \<open>The microseconds and offset of the printed form.\<close>

definition parse_fraction :: "pystr \<Rightarrow> int option" where
  "parse_fraction s =
     (if s = lit ''+00:00'' then Some 0
      else if length s = 13 \<and> hd s = 46 \<and> all_digits (take 6 (tl s)) \<and> drop 7 s = lit ''+00:00''
      then Some (int_of_digits (take 6 (tl s)))
      else None)"

text \<open>\<open>datetime.fromisoformat\<close> of a text in the printed form (\<open>None\<close>: the text has another form);
  the inner \<open>None\<close> is the \<open>ValueError\<close> for a date or time that does not exist.\<close>

definition parse_isoformat :: "pystr \<Rightarrow> datetime option option" where
  "parse_isoformat text =
     (case (chunks [4, 1, 2, 1, 2, 1, 2, 1, 2, 1, 2] text, parse_fraction (drop 19 text)) of
        ([Y, s1, M, s2, D, s3, H, s4, N, s5, S], Some f) \<Rightarrow>
          if [s1, s2, s3, s4, s5] = [[45], [45], [84], [58], [58]] \<and> list_all all_digits [Y, M, D, H, N, S]
             \<and> length text \<ge> 19
          then
            (let y = int_of_digits Y; m = nat (int_of_digits M); d = int_of_digits D;
                 h = int_of_digits H; n = int_of_digits N; s = int_of_digits S in
             Some (if valid_date y m d \<and> h < 24 \<and> n < 60 \<and> s < 60
               then Some (Aware ((day_number y m d - EPOCH_DAY) * 86400000000 + (h * 3600 + n * 60 + s) * 1000000 + f))
               else None))
          else None
      | _ \<Rightarrow> None)"


section \<open>Parsing inverts printing\<close>

lemma length_padded [simp]: "length (padded n k) = n"
  by (simp add: padded_def)

lemma all_digits_padded [simp]: "all_digits (padded n k)"
  using set_digits_n [of 10 n "nat k"] by (fastforce simp: padded_def all_digits_def list_all_iff)

lemma int_of_padded: "\<lbrakk>0 \<le> k; k < 10 ^ n\<rbrakk> \<Longrightarrow> int_of_digits (padded n k) = k"
proof (induction n arbitrary: k)
  case 0
  then show ?case by (simp add: padded_def int_of_digits_def)
next
  case (Suc n)
  have "padded (Suc n) k = padded n (k div 10) @ [48 + nat k mod 10]"
    using Suc.prems by (simp add: padded_def nat_div_distrib)
  moreover have "int_of_digits (padded n (k div 10)) = k div 10"
    using Suc.prems by (intro Suc.IH) (auto simp: pos_imp_zdiv_nonneg_iff)
  moreover have "int (nat k mod 10) = k mod 10" using Suc.prems by (simp add: zmod_int)
  ultimately show ?case by simp
qed

lemma year_bound:
  assumes "days_before_year y < 3652059"
  shows "y \<le> 9999"
proof (rule ccontr)
  assume "\<not> y \<le> 9999"
  then consider "y = 10000" | "10000 \<le> y - 1" by linarith
  then show False
  proof cases
    case 2
    define p where "p = y - 1"
    have "4 * (p div 4) = p - p mod 4" "100 * (p div 100) = p - p mod 100" "400 * (p div 400) = p - p mod 400"
      by (simp_all add: minus_mod_eq_mult_div)
    moreover have "p mod 4 < 4" "0 \<le> p mod 100" "p mod 400 < 400" by simp_all
    ultimately show False using assms 2 by (simp add: days_before_year_def Let_def flip: p_def)
  qed (use assms in \<open>simp add: days_before_year_def\<close>)
qed

lemma parse_fraction_text:
  "\<lbrakk>0 \<le> f; f < 1000000\<rbrakk> \<Longrightarrow> parse_fraction ((if f = 0 then [] else 46 # padded 6 f) @ lit ''+00:00'') = Some f"
  using int_of_padded [of f 6] by (simp add: parse_fraction_def lit_def)

lemma month_lengths_range: "l \<in> set (month_lengths y) \<Longrightarrow> 28 \<le> l \<and> l \<le> 31"
  by (auto simp: month_lengths_def split: if_splits)

lemma valid_date_bounds:
  assumes "valid_date y m d"
  shows "days_before_year y \<le> day_number y m d" "d \<le> 31"
proof -
  have "0 \<le> sum_list (take k (month_lengths y))" for k
    by (rule sum_list_nonneg) (meson in_set_takeD month_lengths_range order_trans zero_le_numeral)
  from this [of "m - 1"] show "days_before_year y \<le> day_number y m d"
    using assms unfolding valid_date_def day_number_def by linarith
  have "month_lengths y ! (m - 1) \<in> set (month_lengths y)" using assms by (intro nth_mem) (auto simp: valid_date_def)
  then show "d \<le> 31" using assms month_lengths_range by (fastforce simp: valid_date_def)
qed

lemma parse_isoformat_parts:
  assumes "length Y = 4" "length M = 2" "length D = 2" "length H = 2" "length N = 2" "length S = 2"
    and "list_all all_digits [Y, M, D, H, N, S]" "parse_fraction rest = Some f"
    and "valid_date (int_of_digits Y) (nat (int_of_digits M)) (int_of_digits D)"
    and "int_of_digits H < 24" "int_of_digits N < 60" "int_of_digits S < 60"
  shows "parse_isoformat (Y @ [45] @ M @ [45] @ D @ [84] @ H @ [58] @ N @ [58] @ S @ rest) =
    Some (Some (Aware ((day_number (int_of_digits Y) (nat (int_of_digits M)) (int_of_digits D) - EPOCH_DAY) * 86400000000
      + (int_of_digits H * 3600 + int_of_digits N * 60 + int_of_digits S) * 1000000 + f)))"
  using assms by (simp add: parse_isoformat_def Let_def)

lemma isoformat_round_trip:
  assumes "datetime_range t"
  shows "parse_isoformat (isoformat t) = Some (Some (Aware t))"
proof -
  let ?n = "t div 86400000000 + EPOCH_DAY"
  let ?us = "t mod 86400000000"
  let ?s = "?us div 1000000" and ?f = "?us mod 1000000"
  obtain y m d where date: "date_of ?n = (y, m, d)" by (cases "date_of ?n") auto
  have "- 719162 \<le> t div 86400000000" "t div 86400000000 \<le> 2932896"
    using assms zdiv_mono1 [of "- 62135596800000000" t 86400000000] zdiv_mono1 [of t 253402300799999999 86400000000]
    by (simp_all add: datetime_range_def)
  then have n: "0 \<le> ?n" "?n < 3652059" by (simp_all add: EPOCH_DAY_def)
  note vd = day_number_date_of [OF n(1) date]
  then have bounds: "days_before_year y \<le> ?n" "d \<le> 31" using valid_date_bounds by metis+
  then have y: "1 \<le> y" "y \<le> 9999" using vd n year_bound [of y] by (simp_all add: valid_date_def)
  have us: "0 \<le> ?us" "?us < 86400000000" "t = (t div 86400000000) * 86400000000 + ?us" by simp_all
  have f: "0 \<le> ?f" "?f < 1000000" "?us = ?s * 1000000 + ?f" by simp_all
  have "?s \<le> 86399999999 div 1000000" using us(2) by (intro zdiv_mono1) simp_all
  then have s: "0 \<le> ?s" "?s < 86400" using us(1) by (simp_all add: pos_imp_zdiv_nonneg_iff)
  define h n where hn: "h = ?s div 3600" "n = ?s div 60 mod 60"
  have "?s div 60 = h * 60 + n"
    unfolding hn by (simp add: zdiv_zmult2_eq [of 60 ?s 60, simplified] div_mult_mod_eq)
  then have hms: "?s = h * 3600 + n * 60 + ?s mod 60" using div_mult_mod_eq [of ?s 60] by linarith
  have "h \<le> 86399 div 3600" unfolding hn using s(2) by (intro zdiv_mono1) simp_all
  then have h: "0 \<le> h" "h < 24" unfolding hn using s(1) by (simp_all add: pos_imp_zdiv_nonneg_iff)
  have n60: "0 \<le> n" "n < 60" unfolding hn by simp_all
  have nums: "int_of_digits (padded 4 y) = y" "int_of_digits (padded 2 (int m)) = int m" "int_of_digits (padded 2 d) = d"
    "int_of_digits (padded 2 h) = h" "int_of_digits (padded 2 n) = n" "int_of_digits (padded 2 (?s mod 60)) = ?s mod 60"
  proof -
    have "1 \<le> m" "m \<le> 12" "1 \<le> d" using vd by (simp_all add: valid_date_def)
    with y bounds(2) h n60 show "int_of_digits (padded 4 y) = y" "int_of_digits (padded 2 (int m)) = int m"
      "int_of_digits (padded 2 d) = d" "int_of_digits (padded 2 h) = h" "int_of_digits (padded 2 n) = n"
      by (simp_all add: int_of_padded)
    have "0 \<le> ?s mod 60" "?s mod 60 < 60" by simp_all
    then show "int_of_digits (padded 2 (?s mod 60)) = ?s mod 60" by (intro int_of_padded) (linarith, simp)
  qed
  have t: "(day_number y m d - EPOCH_DAY) * 86400000000 + (h * 3600 + n * 60 + ?s mod 60) * 1000000 + ?f = t"
    using vd us(3) f(3) hms by simp
  have printed: "isoformat t = padded 4 y @ [45] @ padded 2 (int m) @ [45] @ padded 2 d @ [84] @ padded 2 h @ [58] @ padded 2 n
      @ [58] @ padded 2 (?s mod 60) @ (if ?f = 0 then [] else 46 # padded 6 ?f) @ lit ''+00:00''"
    unfolding isoformat_def date Let_def prod.case hn by (rule refl)
  have "?s mod 60 < 60" by simp
  then show ?thesis
    unfolding printed using conjunct1 [OF vd] h n60
    by (subst parse_isoformat_parts) (simp_all only: nums length_padded parse_fraction_text [OF f(1,2)] list.pred_inject
        all_digits_padded nat_int simp_thms option.inject datetime.inject, rule t)
qed

end
