(* ===== verification/Sha256.thy ===== *)
theory Sha256
  imports Text
begin

text \<open>
  \<open>hashlib.sha256(payload).hexdigest()\<close> of the standard library (FIPS 180-4) on byte
  lists, with 32 bit words for the working variables.
\<close>

unbundle bit_operations_syntax

type_synonym w32 = "32 word"

definition rotr :: "nat \<Rightarrow> w32 \<Rightarrow> w32" where
  "rotr n x = drop_bit n x OR push_bit (32 - n) x"

text \<open>The 64 round constants, eight to a 256 bit number.\<close>

definition sha_k :: "w32 list" where
  "sha_k = concat (map (\<lambda>row. map (\<lambda>n. word_of_int (drop_bit n row)) [224, 192, 160, 128, 96, 64, 32, 0]) [
     0x428a2f9871374491b5c0fbcfe9b5dba53956c25b59f111f1923f82a4ab1c5ed5,
     0xd807aa9812835b01243185be550c7dc372be5d7480deb1fe9bdc06a7c19bf174,
     0xe49b69c1efbe47860fc19dc6240ca1cc2de92c6f4a7484aa5cb0a9dc76f988da,
     0x983e5152a831c66db00327c8bf597fc7c6e00bf3d5a7914706ca635114292967,
     0x27b70a852e1b21384d2c6dfc53380d13650a7354766a0abb81c2c92e92722c85,
     0xa2bfe8a1a81a664bc24b8b70c76c51a3d192e819d6990624f40e3585106aa070,
     0x19a4c1161e376c082748774c34b0bcb5391c0cb34ed8aa4a5b9cca4f682e6ff3,
     0x748f82ee78a5636f84c878148cc7020890befffaa4506cebbef9a3f7c67178f2])"

definition sha_init :: "w32 list" where
  "sha_init = [0x6a09e667, 0xbb67ae85, 0x3c6ef372, 0xa54ff53a,
               0x510e527f, 0x9b05688c, 0x1f83d9ab, 0x5be0cd19]"

text \<open>One round on the eight working variables, for one round constant and schedule word.\<close>

fun sha_round :: "w32 list \<Rightarrow> w32 \<times> w32 \<Rightarrow> w32 list" where
  "sha_round [a, b, c, d, e, f, g, h] (k, w) =
     (let s1 = rotr 6 e XOR rotr 11 e XOR rotr 25 e;
          ch = (e AND f) XOR (NOT e AND g);
          t1 = h + s1 + ch + k + w;
          s0 = rotr 2 a XOR rotr 13 a XOR rotr 22 a;
          maj = (a AND b) XOR (a AND c) XOR (b AND c);
          t2 = s0 + maj
      in [t1 + t2, a, b, c, d + t1, e, f, g])"
| "sha_round st _ = st"

text \<open>The message schedule, latest word first, extended \<open>n\<close> times.\<close>

primrec sha_extend :: "nat \<Rightarrow> w32 list \<Rightarrow> w32 list" where
  "sha_extend 0 ws = ws"
| "sha_extend (Suc n) ws =
     (let w15 = ws ! 14; w2 = ws ! 1;
          s0 = rotr 7 w15 XOR rotr 18 w15 XOR drop_bit 3 w15;
          s1 = rotr 17 w2 XOR rotr 19 w2 XOR drop_bit 10 w2
      in sha_extend n ((ws ! 15 + s0 + ws ! 6 + s1) # ws))"

definition sha_compress :: "w32 list \<Rightarrow> w32 list \<Rightarrow> w32 list" where
  "sha_compress st block =
     map2 (+) st (foldl sha_round st (zip sha_k (rev (sha_extend 48 (rev block)))))"

fun be_words :: "nat list \<Rightarrow> w32 list" where
  "be_words (a # b # c # d # bs) =
     of_nat (((a * 256 + b) * 256 + c) * 256 + d) # be_words bs"
| "be_words _ = []"

fun sha_blocks :: "w32 list \<Rightarrow> w32 list \<Rightarrow> w32 list" where
  "sha_blocks st ws = (if length ws < 16 then st
     else sha_blocks (sha_compress st (take 16 ws)) (drop 16 ws))"

declare sha_blocks.simps [simp del]

definition sha_pad :: "nat list \<Rightarrow> nat list" where
  "sha_pad m = m @ 128 # replicate ((119 - length m mod 64) mod 64) 0
     @ digits_n 256 8 (8 * length m)"

definition sha256 :: "nat list \<Rightarrow> w32 list" where
  "sha256 m = sha_blocks sha_init (be_words (sha_pad m))"

definition hexdigest :: "w32 list \<Rightarrow> pystr" where
  "hexdigest ws = concat (map (\<lambda>w. map hex_digit (digits_n 16 8 (unat w))) ws)"

definition sha256_hex :: "nat list \<Rightarrow> pystr" where
  "sha256_hex m = hexdigest (sha256 m)"

lemma length_sha_round [simp]: "length (sha_round st kw) = length st"
  by (induction st kw rule: sha_round.induct) (simp_all add: Let_def)

lemma length_sha_foldl [simp]: "length (foldl sha_round st kws) = length st"
  by (induction kws arbitrary: st) simp_all

lemma length_sha_compress [simp]: "length (sha_compress st block) = length st"
  by (simp add: sha_compress_def)

lemma length_sha_blocks [simp]: "length (sha_blocks st ws) = length st"
proof (induction st ws rule: sha_blocks.induct)
  case (1 st ws)
  then show ?case by (subst sha_blocks.simps) simp
qed

lemma length_hexdigest: "length (hexdigest ws) = 8 * length ws"
  by (induction ws) (simp_all add: hexdigest_def)

lemma set_hexdigest: "set (hexdigest ws) \<subseteq> {48..57} \<union> {97..102}"
proof -
  have "hex_digit d \<in> {48..57} \<union> {97..102}" if "d \<in> set (digits_n 16 8 k)" for d k
    using that set_digits_n [of 16 8 k] by (intro hex_digit_range) auto
  then show ?thesis by (fastforce simp: hexdigest_def)
qed

lemma length_sha256_hex [simp]: "length (sha256_hex m) = 64"
  by (simp add: sha256_hex_def sha256_def length_hexdigest sha_init_def)

lemma set_sha256_hex: "set (sha256_hex m) \<subseteq> {48..57} \<union> {97..102}"
  by (simp add: sha256_hex_def set_hexdigest)

end
