(* ===== verification/Credentials.thy ===== *)
theory Credentials
  imports Errors Sha256
begin

text \<open>
  \<open>src/mdm/domain/credentials.py\<close>: opaque credentials, the unpadded base64url text of 32 random
  bytes, and the SHA-256 digest under which they are stored. The four purposes (refresh,
  registration, password reset, CSRF) are kept in different tables and cookies.
\<close>

section \<open>Base64url\<close>

definition b64_char :: "nat \<Rightarrow> nat" where
  "b64_char n = (if n < 26 then 65 + n else if n < 52 then 71 + n else if n < 62 then n - 4 else if n = 62 then 45 else 95)"

definition b64_value :: "nat \<Rightarrow> nat" where
  "b64_value c = (if 65 \<le> c \<and> c \<le> 90 then c - 65 else if 97 \<le> c \<and> c \<le> 122 then c - 71
     else if 48 \<le> c \<and> c \<le> 57 then c + 4 else if c = 45 then 62 else 63)"

text \<open>\<open>base64.urlsafe_b64encode(raw).rstrip(b"=")\<close>.\<close>

fun b64_encode :: "nat list \<Rightarrow> pystr" where
  "b64_encode [] = []"
| "b64_encode [a] = map b64_char [a div 4, a mod 4 * 16]"
| "b64_encode [a, b] = map b64_char [a div 4, a mod 4 * 16 + b div 16, b mod 16 * 4]"
| "b64_encode (a # b # c # rest) =
     map b64_char [a div 4, a mod 4 * 16 + b div 16, b mod 16 * 4 + c div 64, c mod 64] @ b64_encode rest"

text \<open>\<open>base64.urlsafe_b64decode\<close> of padded text over the alphabet: the bits below a whole byte are dropped.\<close>

fun b64_decode :: "pystr \<Rightarrow> nat list" where
  "b64_decode (w # x # y # z # rest) =
     [b64_value w * 4 + b64_value x div 16, b64_value x mod 16 * 16 + b64_value y div 4, b64_value y mod 4 * 64 + b64_value z]
     @ b64_decode rest"
| "b64_decode [w, x, y] = [b64_value w * 4 + b64_value x div 16, b64_value x mod 16 * 16 + b64_value y div 4]"
| "b64_decode [w, x] = [b64_value w * 4 + b64_value x div 16]"
| "b64_decode _ = []"


section \<open>Opaque tokens\<close>

definition token_char :: "nat \<Rightarrow> bool" where
  "token_char c \<longleftrightarrow> (65 \<le> c \<and> c \<le> 90) \<or> (97 \<le> c \<and> c \<le> 122) \<or> (48 \<le> c \<and> c \<le> 57) \<or> c = 95 \<or> c = 45"

definition opaque_token_init :: "pystr \<Rightarrow> pystr res" where
  "opaque_token_init v =
     (if \<not> (length v = 43 \<and> list_all token_char v) then Inl (AccountError InvalidOpaqueToken)
      else let raw = b64_decode v; canonical = b64_encode raw in
        if length raw \<noteq> 32 \<or> canonical \<noteq> v then Inl (AccountError InvalidOpaqueToken) else Inr v)"

text \<open>The digest is kept as its eight 32-bit words.\<close>

type_synonym digest = "w32 list"

definition token_digest :: "pystr \<Rightarrow> digest" where
  "token_digest v = sha256 (b64_decode v)"

definition generate_opaque_token :: "nat list \<Rightarrow> pystr res" where
  "generate_opaque_token raw =
     (if length raw \<noteq> 32 then Inl ValueError else opaque_token_init (b64_encode raw))"

definition csrf_tokens_match :: "pystr \<Rightarrow> pystr \<Rightarrow> bool" where
  "csrf_tokens_match cookie_token header_token \<longleftrightarrow> cookie_token = header_token"


section \<open>Lemmas\<close>

lemma b64_value_char: "n < 64 \<Longrightarrow> b64_value (b64_char n) = n"
  by (auto simp: b64_value_def b64_char_def)

lemma token_char_b64: "n < 64 \<Longrightarrow> token_char (b64_char n)"
  by (auto simp: token_char_def b64_char_def)

lemma b64_char_value: "token_char c \<Longrightarrow> b64_char (b64_value c) = c \<and> b64_value c < 64"
  unfolding token_char_def by (elim disjE) (simp_all add: b64_char_def b64_value_def, auto)

lemma sextets:
  fixes a b c :: nat
  assumes "a < 256" "b < 256" "c < 256"
  shows "a div 4 < 64" "a mod 4 * 16 + b div 16 < 64" "b mod 16 * 4 + c div 64 < 64"
    "b div 16 < 16" "c div 64 < 4"
proof -
  have less: "a mod 4 < 4" "b div 16 < 16" "b mod 16 < 16" "c div 64 < 4" using assms by auto
  then show "a mod 4 * 16 + b div 16 < 64" "b mod 16 * 4 + c div 64 < 64" by linarith+
  show "a div 4 < 64" using assms(1) by simp
  show "b div 16 < 16" "c div 64 < 4" by (fact less)+
qed

lemma octets:
  assumes "list_all token_char [w, x, y, z]"
  shows "b64_value w * 4 + b64_value x div 16 < 256" "b64_value x mod 16 * 16 + b64_value y div 4 < 256"
    "b64_value y mod 4 * 64 + b64_value z < 256"
proof -
  have "b64_value w < 64" "b64_value x div 16 < 4" "b64_value x mod 16 < 16" "b64_value y div 4 < 16" "b64_value y mod 4 < 4" "b64_value z < 64"
    using assms b64_char_value by fastforce+
  then show "b64_value w * 4 + b64_value x div 16 < 256" "b64_value x mod 16 * 16 + b64_value y div 4 < 256"
    "b64_value y mod 4 * 64 + b64_value z < 256" by linarith+
qed

definition byte_list :: "nat list \<Rightarrow> bool" where
  "byte_list bs \<longleftrightarrow> list_all (\<lambda>b. b < 256) bs"

lemma b64_decode_encode: "byte_list bs \<Longrightarrow> b64_decode (b64_encode bs) = bs"
proof (induction bs rule: b64_encode.induct)
  case (2 a)
  then show ?case using sextets(1) [of a 0 0] by (simp add: byte_list_def b64_value_char)
next
  case (3 a b)
  then show ?case using sextets(1,2,4) [of a b 0] by (simp add: byte_list_def b64_value_char)
next
  case (4 a b c rest)
  then show ?case using sextets [of a b c] by (simp add: byte_list_def b64_value_char)
qed simp

lemma b64_encode_chars: "byte_list bs \<Longrightarrow> list_all token_char (b64_encode bs)"
proof (induction bs rule: b64_encode.induct)
  case (2 a)
  then show ?case using sextets(1) [of a 0 0] by (simp add: byte_list_def token_char_b64)
next
  case (3 a b)
  then show ?case using sextets(1,2) [of a b 0] by (simp add: byte_list_def token_char_b64)
next
  case (4 a b c rest)
  then show ?case using sextets(1,2,3) [of a b c] by (simp add: byte_list_def token_char_b64)
qed simp

lemma length_b64_encode: "length (b64_encode bs) = length bs + (length bs + 2) div 3"
  by (induction bs rule: b64_encode.induct) auto

lemma byte_list_decode: "list_all token_char v \<Longrightarrow> byte_list (b64_decode v)"
proof (induction v rule: b64_decode.induct)
  case (1 w x y z rest)
  then show ?case using octets [of w x y z] by (simp add: byte_list_def)
next
  case (2 w x y)
  then show ?case using octets(1,2) [of w x y 45] by (simp add: byte_list_def token_char_def)
next
  case (3 w x)
  then show ?case using octets(1) [of w x 45 45] by (simp add: byte_list_def token_char_def)
qed (simp_all add: byte_list_def)

lemma generate_ok:
  assumes "byte_list raw" "length raw = 32"
  shows "generate_opaque_token raw = Inr (b64_encode raw)" "b64_decode (b64_encode raw) = raw"
  using assms b64_decode_encode [OF assms(1)] b64_encode_chars [OF assms(1)]
  by (simp_all add: generate_opaque_token_def opaque_token_init_def length_b64_encode)

lemma generate_encodes: "generate_opaque_token raw = Inr v \<Longrightarrow> v = b64_encode raw \<and> opaque_token_init v = Inr v"
  by (auto simp: generate_opaque_token_def opaque_token_init_def Let_def split: if_splits)


lemma length_token_digest [simp]: "length (token_digest v) = 8"
  by (simp add: token_digest_def sha256_def sha_init_def)

end
