(* ===== verification/Dimensions.thy ===== *)
theory Dimensions
  imports Errors
begin

text \<open>
  \<open>src/mdm/domain/dimensions.py\<close>: the normalised codes and values of the eight Dimension
  types and the immutable Dimension state with its deletion life cycle.

  The constructors \<open>DimensionCode(...)\<close>, \<open>CompanyValue(...)\<close> and so on take an object of
  any run-time type (\<open>pyobj\<close>) and return the normalised value or raise. A Dimension is
  a record; \<open>dimension_init\<close> is its \<open>__post_init__\<close>, run by every operation that builds
  a Dimension. Fields whose type the record fixes (\<open>id\<close>, \<open>code\<close>, \<open>version\<close>) need no
  \<open>isinstance\<close> branch.
\<close>

section \<open>Codes and values\<close>

text \<open>\<open>_CODE_PATTERN.fullmatch\<close>: one to thirty-two characters of \<open>[A-Z0-9]\<close>.\<close>

definition code_pattern :: "pystr \<Rightarrow> bool" where
  "code_pattern s \<longleftrightarrow> 1 \<le> length s \<and> length s \<le> 32 \<and> (\<forall>c \<in> set s. is_alnum c)"

text \<open>
  \<open>_STRING_VALUE_PATTERN.fullmatch\<close>: non-empty runs of \<open>[A-Z0-9]\<close> separated by single
  underscores, read from left to right.
\<close>

fun value_pattern :: "pystr \<Rightarrow> bool" and value_pattern_rest :: "pystr \<Rightarrow> bool" where
  "value_pattern [] = False"
| "value_pattern (c # s) = (is_alnum c \<and> value_pattern_rest s)"
| "value_pattern_rest [] = True"
| "value_pattern_rest (c # s) = (if c = 95 then value_pattern s else is_alnum c \<and> value_pattern_rest s)"

definition dimension_code :: "pyobj \<Rightarrow> pystr res" where
  "dimension_code obj =
     (case obj of
        PyStr s \<Rightarrow>
          if \<not> isascii s then Inl (DimensionValidationError ''code'' CodePattern)
          else if strip_ch 32 s \<noteq> s \<or> 32 \<in> set s
          then Inl (DimensionValidationError ''code'' CodeNoSpaces)
          else let normalized = upper s in
            if \<not> code_pattern normalized then Inl (DimensionValidationError ''code'' CodePattern)
            else if set normalized = {78} then Inl (DimensionValidationError ''code'' CodeReserved)
            else Inr normalized
      | _ \<Rightarrow> Inl (DimensionValidationError ''code'' MustBeString))"

definition normalize_string_value :: "pyobj \<Rightarrow> pystr res" where
  "normalize_string_value obj =
     (case obj of
        PyStr s \<Rightarrow>
          if has_control s then Inl (DimensionValidationError ''value'' NoControlCharacters)
          else if \<not> isascii s then Inl (DimensionValidationError ''value'' StringValuePattern)
          else
            let normalized = upper (strip_ch 32 s);
                normalized = sub_runs 32 95 normalized;
                normalized = strip_ch 95 (sub_runs 95 95 normalized)
            in if \<not> (1 \<le> length normalized \<and> length normalized \<le> 128)
                 \<or> \<not> value_pattern normalized
               then Inl (DimensionValidationError ''value'' StringValuePattern)
               else Inr normalized
      | _ \<Rightarrow> Inl (DimensionValidationError ''value'' MustBeString))"

definition year_value :: "pyobj \<Rightarrow> int res" where
  "year_value obj =
     (case obj of
        PyInt n \<Rightarrow> if 2000 \<le> n \<and> n \<le> 2999 then Inr n
                   else Inl (DimensionValidationError ''value'' YearRange)
      | _ \<Rightarrow> Inl (DimensionValidationError ''value'' YearRange))"

datatype network_generation =
  GENERATION_1 | GENERATION_2 | GENERATION_3 | GENERATION_4 | GENERATION_5

fun generation_value :: "network_generation \<Rightarrow> int" where
  "generation_value GENERATION_1 = 1"
| "generation_value GENERATION_2 = 2"
| "generation_value GENERATION_3 = 3"
| "generation_value GENERATION_4 = 4"
| "generation_value GENERATION_5 = 5"

definition generations :: "network_generation list" where
  "generations = [GENERATION_1, GENERATION_2, GENERATION_3, GENERATION_4, GENERATION_5]"

text \<open>
  \<open>NetworkGeneration(value)\<close> through \<open>_StrictIntegerEnumType.__call__\<close>: only an object of
  type \<open>int\<close> itself is looked up among the members.
\<close>

definition network_generation :: "pyobj \<Rightarrow> network_generation res" where
  "network_generation obj =
     (case obj of
        PyInt n \<Rightarrow> (case find (\<lambda>g. generation_value g = n) generations of
            Some g \<Rightarrow> Inr g
          | None \<Rightarrow> Inl (DimensionValidationError ''value'' NetworkRange))
      | _ \<Rightarrow> Inl (DimensionValidationError ''value'' NetworkRange))"

datatype memory_unit = MB | GB | TB | PB

fun unit_text :: "memory_unit \<Rightarrow> pystr" where
  "unit_text MB = lit ''MB''"
| "unit_text GB = lit ''GB''"
| "unit_text TB = lit ''TB''"
| "unit_text PB = lit ''PB''"

definition memory_units :: "memory_unit list" where
  "memory_units = [MB, GB, TB, PB]"

fun unit_multiplier :: "memory_unit \<Rightarrow> int" where
  "unit_multiplier MB = 1"
| "unit_multiplier GB = 1000"
| "unit_multiplier TB = 1000000"
| "unit_multiplier PB = 1000000000"

record memory_value =
  amount :: int
  unit :: memory_unit

text \<open>\<open>MemoryValue.__post_init__\<close>, on an amount of any type and a \<open>MemoryUnit\<close>.\<close>

definition memory_value_init :: "pyobj \<Rightarrow> memory_unit \<Rightarrow> memory_value res" where
  "memory_value_init amt u =
     (case amt of
        PyInt n \<Rightarrow> if 1 \<le> n \<and> n \<le> 2147483647 then Inr \<lparr>amount = n, unit = u\<rparr>
                   else Inl (DimensionValidationError ''value.amount'' AmountRange)
      | _ \<Rightarrow> Inl (DimensionValidationError ''value.amount'' AmountRange))"

definition memory_value_create :: "pyobj \<Rightarrow> pyobj \<Rightarrow> memory_value res" where
  "memory_value_create amt unit_obj =
     (case unit_obj of
        PyStr s \<Rightarrow>
          if has_control s then Inl (DimensionValidationError ''value.unit'' UnitChoice)
          else (case find (\<lambda>u. unit_text u = upper (strip_ch 32 s)) memory_units of
              None \<Rightarrow> Inl (DimensionValidationError ''value.unit'' UnitChoice)
            | Some u \<Rightarrow> memory_value_init amt u)
      | _ \<Rightarrow> Inl (DimensionValidationError ''value.unit'' UnitChoice))"

definition capacity_mb :: "memory_value \<Rightarrow> int" where
  "capacity_mb m = amount m * unit_multiplier (unit m)"

text \<open>The value classes of the eight Dimension types.\<close>

datatype dim_value =
    CompanyValue pystr
  | BrandValue pystr
  | ModelValue pystr
  | CategoryValue pystr
  | YearValue int
  | MemoryValue memory_value
  | NetworkValue network_generation
  | CountryValue pystr

fun dimension_values_equal :: "dim_value \<Rightarrow> dim_value \<Rightarrow> bool" where
  "dimension_values_equal (MemoryValue a) (MemoryValue b) = (capacity_mb a = capacity_mb b)"
| "dimension_values_equal current proposed = (current = proposed)"


section \<open>Dimension state\<close>

record dimension =
  dim_id :: uuid
  dim_code :: pystr
  dim_val :: dim_value
  dim_version :: int
  dim_created_at :: datetime
  dim_updated_at :: datetime
  dim_deleted_at :: "datetime option"

text \<open>\<open>Dimension.__post_init__\<close>.\<close>

definition dimension_init :: "dimension \<Rightarrow> dimension res" where
  "dimension_init d =
     (if dim_version d < 1 then Inl (DimensionValidationError ''version'' VersionPositive)
      else if \<not> is_aware (dim_created_at d) \<or> \<not> is_aware (dim_updated_at d)
      then Inl (DimensionValidationError ''timestamp'' TimezoneRequired)
      else if instant (dim_updated_at d) < instant (dim_created_at d)
      then Inl (DimensionValidationError ''updated_at'' NotBeforeCreated)
      else if dim_version d = 1 \<and> instant (dim_updated_at d) \<noteq> instant (dim_created_at d)
      then Inl (DimensionValidationError ''updated_at'' EqualsCreation)
      else (case dim_deleted_at d of
          None \<Rightarrow> Inr d
        | Some t \<Rightarrow>
            if \<not> is_aware t then Inl (DimensionValidationError ''deleted_at'' TimezoneRequired)
            else if \<not> (instant (dim_created_at d) \<le> instant t \<and> instant t \<le> instant (dim_updated_at d))
            then Inl (DimensionValidationError ''deleted_at'' WithinStateTimes)
            else Inr d))"

definition is_deleted :: "dimension \<Rightarrow> bool" where
  "is_deleted d \<longleftrightarrow> dim_deleted_at d \<noteq> None"

definition transition_deletion :: "dimension \<Rightarrow> bool \<Rightarrow> datetime \<Rightarrow> dimension res" where
  "transition_deletion d deleted changed_at =
     (if \<not> is_aware changed_at then Inl (DimensionValidationError ''updated_at'' TimezoneRequired)
      else if instant changed_at < instant (dim_updated_at d)
      then Inl (DimensionValidationError ''updated_at'' NotBeforeUpdated)
      else dimension_init (d\<lparr>dim_version := dim_version d + 1, dim_updated_at := changed_at,
             dim_deleted_at := (if deleted then Some changed_at else None)\<rparr>))"

definition dimension_delete :: "dimension \<Rightarrow> datetime \<Rightarrow> dimension res" where
  "dimension_delete d changed_at =
     (if is_deleted d then Inl (DimensionValidationError ''deleted_at'' AlreadyDeleted)
      else transition_deletion d True changed_at)"

definition dimension_restore :: "dimension \<Rightarrow> datetime \<Rightarrow> dimension res" where
  "dimension_restore d changed_at =
     (if \<not> is_deleted d then Inl (DimensionValidationError ''deleted_at'' NotDeleted)
      else transition_deletion d False changed_at)"

definition dimension_change ::
    "dimension \<Rightarrow> pystr option \<Rightarrow> dim_value option \<Rightarrow> datetime \<Rightarrow> dimension res" where
  "dimension_change d code val changed_at =
     (let next_code = (case code of None \<Rightarrow> dim_code d | Some c \<Rightarrow> c);
          next_value = (case val of None \<Rightarrow> dim_val d
            | Some v \<Rightarrow> if dimension_values_equal (dim_val d) v then dim_val d else v)
      in if next_code = dim_code d \<and> dimension_values_equal (dim_val d) next_value then Inr d
         else if \<not> is_aware changed_at
         then Inl (DimensionValidationError ''updated_at'' TimezoneRequired)
         else if instant changed_at < instant (dim_updated_at d)
         then Inl (DimensionValidationError ''updated_at'' NotBeforeUpdated)
         else dimension_init (d\<lparr>dim_code := next_code, dim_val := next_value,
                dim_version := dim_version d + 1, dim_updated_at := changed_at\<rparr>))"

definition dimension_change_value :: "dimension \<Rightarrow> dim_value \<Rightarrow> datetime \<Rightarrow> dimension res" where
  "dimension_change_value d v changed_at = dimension_change d None (Some v) changed_at"

end
