(* ===== verification/Normalization.thy ===== *)
theory Normalization
  imports Dimensions
begin

text \<open>
  What \<open>_normalize_string_value\<close> and \<open>DimensionCode\<close> compute. The chain of regular
  expression substitutions is compared with a reference definition: cut the upper-cased
  text into words at blanks and underscores and join the words with single underscores.
\<close>

section \<open>Reference definition\<close>

definition value_sep :: "nat \<Rightarrow> bool" where
  "value_sep c \<longleftrightarrow> c = 32 \<or> c = 95"

text \<open>The maximal non-empty runs of characters that are not separators.\<close>

function words_of :: "(nat \<Rightarrow> bool) \<Rightarrow> pystr \<Rightarrow> pystr list" where
  "words_of sep [] = []"
| "words_of sep (c # s) =
     (if sep c then words_of sep s
      else (c # takeWhile (\<lambda>x. \<not> sep x) s) # words_of sep (dropWhile (\<lambda>x. \<not> sep x) s))"
  by pat_completeness auto
termination
  by (relation "measure (\<lambda>(sep, s). length s)") (auto simp: le_imp_less_Suc length_dropWhile_le)

definition normalize_spec :: "pystr \<Rightarrow> pystr option" where
  "normalize_spec s =
     (let ws = words_of value_sep (upper s); v = joined 95 ws
      in if ws \<noteq> [] \<and> (\<forall>w \<in> set ws. \<forall>c \<in> set w. is_alnum c) \<and> length v \<le> 128
         then Some v else None)"

definition valid_code :: "pystr \<Rightarrow> bool" where
  "valid_code c \<longleftrightarrow> code_pattern c \<and> set c \<noteq> {78}"

definition valid_string_value :: "pystr \<Rightarrow> bool" where
  "valid_string_value v \<longleftrightarrow> value_pattern v \<and> length v \<le> 128"


section \<open>Words\<close>

lemma words_of_seps: "\<forall>x \<in> set a. sep x \<Longrightarrow> words_of sep (a @ s) = words_of sep s"
  by (induction a) auto

lemma words_of_Cons_word:
  assumes "\<not> sep c"
  shows "words_of sep (c # s) =
    (if s = [] \<or> sep (hd s) then [c] # words_of sep s
     else (case words_of sep s of w # ws \<Rightarrow> (c # w) # ws | [] \<Rightarrow> [[c]]))"
  using assms by (cases s) auto

lemma words_of_append_seps:
  "\<forall>x \<in> set b. sep x \<Longrightarrow> words_of sep (s @ b) = words_of sep s"
proof (induction s)
  case Nil
  then show ?case using words_of_seps [of b sep "[]"] by simp
next
  case (Cons c s)
  show ?case
  proof (cases "sep c")
    case True
    with Cons show ?thesis by simp
  next
    case False
    have "(s @ b = [] \<or> sep (hd (s @ b))) \<longleftrightarrow> (s = [] \<or> sep (hd s))"
      using Cons.prems by (cases s; cases b) auto
    with Cons False show ?thesis
      by (simp add: words_of_Cons_word del: words_of.simps)
  qed
qed

lemma sub_runs_Nil_iff: "sub_runs c d s = [] \<longleftrightarrow> s = []"
  by (cases s) auto

lemma hd_sub_runs: "s \<noteq> [] \<Longrightarrow> hd (sub_runs c d s) = (if hd s = c then d else hd s)"
  by (cases s) auto

lemma words_of_sub_runs:
  assumes "sep c" "sep d"
  shows "words_of sep (sub_runs c d s) = words_of sep s"
  using assms
proof (induction c d s rule: sub_runs.induct)
  case (2 c d x xs)
  show ?case
  proof (cases "x = c")
    case True
    have "words_of sep xs = words_of sep (takeWhile ((=) c) xs @ dropWhile ((=) c) xs)"
      by simp
    also have "\<dots> = words_of sep (dropWhile ((=) c) xs)"
      by (rule words_of_seps) (use 2 in \<open>auto dest: set_takeWhileD\<close>)
    finally show ?thesis using True 2 by simp
  next
    case False
    moreover have "(sub_runs c d xs = [] \<or> sep (hd (sub_runs c d xs))) \<longleftrightarrow> (xs = [] \<or> sep (hd xs))"
      using "2.prems" by (cases "xs = []") (simp_all add: sub_runs_Nil_iff hd_sub_runs)
    ultimately show ?thesis
      using 2 by (cases "sep x") (simp, simp add: words_of_Cons_word del: words_of.simps(2))
  qed
qed simp

lemma strip_decomp: "\<exists>a b. s = a @ strip_ch c s @ b \<and> (\<forall>x \<in> set a \<union> set b. x = c)"
proof -
  let ?d = "dropWhile ((=) c) s"
  have "s = takeWhile ((=) c) s @ ?d" by simp
  moreover have "?d = strip_ch c s @ rev (takeWhile ((=) c) (rev ?d))"
    unfolding strip_ch_def by (metis rev_append rev_rev_ident takeWhile_dropWhile_id)
  moreover have "\<forall>x \<in> set (takeWhile ((=) c) s) \<union> set (rev (takeWhile ((=) c) (rev ?d))). x = c"
    by (auto dest: set_takeWhileD)
  ultimately show ?thesis by (metis (no_types, lifting))
qed

lemma words_of_strip: "sep c \<Longrightarrow> words_of sep (strip_ch c s) = words_of sep s"
proof -
  assume "sep c"
  moreover obtain a b where "s = a @ strip_ch c s @ b" "\<forall>x \<in> set a \<union> set b. x = c"
    using strip_decomp by blast
  ultimately show ?thesis
    by (metis Un_iff words_of_append_seps words_of_seps)
qed

lemma set_words_of: "w \<in> set (words_of sep s) \<Longrightarrow> w \<noteq> [] \<and> set w \<subseteq> {c \<in> set s. \<not> sep c}"
proof (induction sep s rule: words_of.induct)
  case (2 sep c s)
  then show ?case
    by (auto split: if_splits dest: set_takeWhileD set_dropWhileD)
qed simp


section \<open>Collapsed text\<close>

fun no_double :: "nat \<Rightarrow> pystr \<Rightarrow> bool" where
  "no_double c (x # y # s) = (\<not> (x = c \<and> y = c) \<and> no_double c (y # s))"
| "no_double c s = True"

lemma no_double_Cons: "no_double c (x # s) \<longleftrightarrow> (s = [] \<or> \<not> (x = c \<and> hd s = c)) \<and> no_double c s"
  by (cases s) auto

lemma no_double_append: "no_double c (a @ b) \<Longrightarrow> no_double c a \<and> no_double c b"
  by (induction a) (auto simp: no_double_Cons hd_append split: if_splits)

lemma no_double_sub_runs: "no_double c (sub_runs c c s)"
proof (induction "length s" arbitrary: s rule: less_induct)
  case less
  show ?case
  proof (cases s)
    case (Cons x xs)
    have len: "length xs < length s" "length (dropWhile ((=) c) xs) < length s"
      using Cons length_dropWhile_le [of "(=) c" xs] by auto
    define z where z: "z = dropWhile ((=) c) xs"
    have hd: "z = [] \<or> hd z \<noteq> c"
      unfolding z by (rule hd_dropWhile_eq)
    have "no_double c (sub_runs c c z)" "no_double c (sub_runs c c xs)"
      using less [OF len(1)] less [OF len(2)] z by simp_all
    moreover have "sub_runs c c z = [] \<or> hd (sub_runs c c z) \<noteq> c"
      using hd by (cases z) auto
    ultimately show ?thesis using Cons z
      by (cases "x = c") (simp_all add: no_double_Cons)
  qed simp
qed

lemma no_double_strip: "no_double c s \<Longrightarrow> no_double c (strip_ch d s)"
  using strip_decomp [of s d] by (metis no_double_append)

lemma joined_words_of:
  assumes "no_double c v" "v = [] \<or> hd v \<noteq> c \<and> last v \<noteq> c" "\<And>x. x \<in> set v \<Longrightarrow> sep x \<longleftrightarrow> x = c"
  shows "joined c (words_of sep v) = v"
  using assms
proof (induction "length v" arbitrary: v rule: less_induct)
  case less
  show ?case
  proof (cases v)
    case (Cons x s)
    define p q where "p = takeWhile (\<lambda>x. \<not> sep x) s" and "q = dropWhile (\<lambda>x. \<not> sep x) s"
    have v: "v = x # p @ q" by (simp add: Cons p_def q_def)
    have x: "\<not> sep x" using less.prems Cons by auto
    have w: "words_of sep v = (x # p) # words_of sep q"
      using x Cons by (simp add: p_def q_def)
    show ?thesis
    proof (cases q)
      case Nil
      with w v show ?thesis by simp
    next
      case (Cons y r)
      have "sep y" using Cons hd_dropWhile [of "\<lambda>x. \<not> sep x" s] unfolding q_def by auto
      then have y: "y = c" using less.prems(3) v Cons by auto
      have nd: "no_double c (y # r)"
        using less.prems(1) no_double_append [of c "x # p" q] v Cons by simp
      have r: "r \<noteq> []" using less.prems(2) v Cons y by auto
      have "joined c (words_of sep r) = r"
      proof (rule less.hyps)
        show "length r < length v" using v Cons by simp
        show "no_double c r" using nd by (simp add: no_double_Cons)
        show "r = [] \<or> hd r \<noteq> c \<and> last r \<noteq> c"
          using nd y r less.prems(2) v Cons by (auto simp: no_double_Cons)
        show "sep z \<longleftrightarrow> z = c" if "z \<in> set r" for z
          using less.prems(3) that v Cons by simp
      qed
      moreover have "words_of sep r \<noteq> []"
        using calculation r by auto
      moreover have "words_of sep q = words_of sep r"
        using Cons \<open>sep y\<close> by simp
      ultimately have "joined c (words_of sep v) = (x # p) @ c # r"
        unfolding w by (simp add: joined_Cons del: joined.simps)
      then show ?thesis using v Cons y by simp
    qed
  qed simp
qed


section \<open>String values\<close>

lemma value_pattern_chars:
  "value_pattern v \<Longrightarrow> \<forall>c \<in> set v. is_alnum c \<or> c = 95"
  "value_pattern_rest v \<Longrightarrow> \<forall>c \<in> set v. is_alnum c \<or> c = 95"
  by (induction v rule: value_pattern_value_pattern_rest.induct) (auto split: if_splits)

lemma value_pattern_rest_word:
  "\<forall>c \<in> set w. is_alnum c \<Longrightarrow> value_pattern_rest (w @ s) = value_pattern_rest s"
  by (induction w) (auto simp: is_alnum_def)

lemma value_pattern_word:
  "\<lbrakk>w \<noteq> []; \<forall>c \<in> set w. is_alnum c\<rbrakk> \<Longrightarrow> value_pattern (w @ s) = value_pattern_rest s"
  by (cases w) (auto simp: value_pattern_rest_word)

lemma value_pattern_joined:
  assumes "ws \<noteq> []" "\<forall>w \<in> set ws. w \<noteq> [] \<and> (\<forall>c \<in> set w. is_alnum c)"
  shows "value_pattern (joined 95 ws)"
  using assms
proof (induction ws)
  case (Cons w ws)
  show ?case
  proof (cases "ws = []")
    case True
    with Cons.prems show ?thesis using value_pattern_word [of w "[]"] by simp
  next
    case False
    with Cons have "value_pattern (joined 95 ws)" by simp
    with False Cons.prems show ?thesis
      by (simp add: joined_Cons value_pattern_word del: joined.simps)
  qed
qed simp

lemma value_pattern_shape:
  assumes "value_pattern v"
  shows "v \<noteq> []" "hd v \<noteq> 95" "last v \<noteq> 95" "no_double 95 v" "32 \<notin> set v"
proof -
  have 1: "value_pattern v \<Longrightarrow> v \<noteq> [] \<and> hd v \<noteq> 95 \<and> last v \<noteq> 95 \<and> no_double 95 v"
    and 2: "value_pattern_rest v \<Longrightarrow> v = [] \<or> last v \<noteq> 95 \<and> no_double 95 v" for v
    by (induction v rule: value_pattern_value_pattern_rest.induct)
       (auto simp: no_double_Cons is_alnum_def split: if_splits)
  from 1 [OF assms] show "v \<noteq> []" "hd v \<noteq> 95" "last v \<noteq> 95" "no_double 95 v" by auto
  show "32 \<notin> set v" using value_pattern_chars(1) [OF assms] by (auto simp: is_alnum_def)
qed

lemma value_pattern_iff_joined:
  "value_pattern v \<longleftrightarrow>
     (\<exists>ws. ws \<noteq> [] \<and> (\<forall>w \<in> set ws. w \<noteq> [] \<and> (\<forall>c \<in> set w. is_alnum c)) \<and> v = joined 95 ws)"
proof
  assume v: "value_pattern v"
  have "v = joined 95 (words_of value_sep v)"
    by (rule joined_words_of [symmetric])
       (use value_pattern_shape [OF v] in \<open>auto simp: value_sep_def\<close>)
  moreover from this have "words_of value_sep v \<noteq> []"
    using value_pattern_shape(1) [OF v] by auto
  moreover have "\<forall>w \<in> set (words_of value_sep v). w \<noteq> [] \<and> (\<forall>c \<in> set w. is_alnum c)"
    using value_pattern_chars(1) [OF v] set_words_of [of _ value_sep v]
    by (fastforce simp: value_sep_def)
  ultimately show "\<exists>ws. ws \<noteq> [] \<and> (\<forall>w \<in> set ws. w \<noteq> [] \<and> (\<forall>c \<in> set w. is_alnum c)) \<and> v = joined 95 ws"
    by blast
qed (use value_pattern_joined in blast)

text \<open>The text the code builds before it tests the pattern is the joined words.\<close>

lemma upper_append: "upper (a @ b) = upper a @ upper b"
  by (simp add: upper_def)

lemma upper_blanks: "\<forall>x \<in> set a. x = 32 \<Longrightarrow> upper a = a"
  by (induction a) (auto simp: upper_Cons upper_cp_def)

lemma words_of_upper_strip: "words_of value_sep (upper (strip_ch 32 s)) = words_of value_sep (upper s)"
proof -
  obtain a b where ab: "s = a @ strip_ch 32 s @ b" "\<forall>x \<in> set a \<union> set b. x = 32"
    using strip_decomp by blast
  then have "upper s = a @ upper (strip_ch 32 s) @ b"
    by (metis Un_iff upper_append upper_blanks)
  with ab(2) show ?thesis
    by (simp add: words_of_seps words_of_append_seps value_sep_def)
qed

lemma collapsed_text:
  "strip_ch 95 (sub_runs 95 95 (sub_runs 32 95 (upper (strip_ch 32 s))))
     = joined 95 (words_of value_sep (upper s))" (is "?v = _")
proof -
  have "words_of value_sep ?v = words_of value_sep (upper s)"
    by (simp add: words_of_strip words_of_sub_runs words_of_upper_strip value_sep_def)
  moreover have "joined 95 (words_of value_sep ?v) = ?v"
  proof (rule joined_words_of)
    show "no_double 95 ?v" by (intro no_double_strip no_double_sub_runs)
    show "?v = [] \<or> hd ?v \<noteq> 95 \<and> last ?v \<noteq> 95" by (rule strip_ch_edges)
    have "32 \<notin> set ?v"
      using set_strip_ch set_sub_runs [of 95 95] set_sub_runs [of 32 95] by fastforce
    then show "value_sep x \<longleftrightarrow> x = 95" if "x \<in> set ?v" for x
      using that by (auto simp: value_sep_def)
  qed
  ultimately show ?thesis by simp
qed

lemma normalize_string_value_eq:
  "normalize_string_value (PyStr s) =
     (if has_control s then Inl (DimensionValidationError ''value'' NoControlCharacters)
      else if \<not> isascii s then Inl (DimensionValidationError ''value'' StringValuePattern)
      else (case normalize_spec s of
          None \<Rightarrow> Inl (DimensionValidationError ''value'' StringValuePattern)
        | Some v \<Rightarrow> Inr v))"
proof -
  let ?ws = "words_of value_sep (upper s)"
  let ?v = "joined 95 ?ws"
  have nonempty: "\<forall>w \<in> set ?ws. w \<noteq> []"
    using set_words_of by blast
  have "value_pattern ?v \<longleftrightarrow> ?ws \<noteq> [] \<and> (\<forall>w \<in> set ?ws. \<forall>c \<in> set w. is_alnum c)"
  proof
    assume v: "value_pattern ?v"
    then have "?ws \<noteq> []" using value_pattern_shape(1) by fastforce
    moreover have "set w \<subseteq> set ?v" if "w \<in> set ?ws" for w
    proof -
      have "w \<in> set ws \<Longrightarrow> set w \<subseteq> set (joined c ws)" for c :: nat and ws
      proof (induction ws)
        case (Cons a ws)
        then show ?case by (cases ws) auto
      qed simp
      with that show ?thesis by blast
    qed
    moreover have "\<forall>w \<in> set ?ws. 95 \<notin> set w"
      using set_words_of by (fastforce simp: value_sep_def)
    ultimately show "?ws \<noteq> [] \<and> (\<forall>w \<in> set ?ws. \<forall>c \<in> set w. is_alnum c)"
      using value_pattern_chars(1) [OF v] by blast
  qed (use nonempty value_pattern_joined in blast)
  moreover have "value_pattern ?v \<Longrightarrow> 1 \<le> length ?v"
    using value_pattern_shape(1) by (metis One_nat_def Suc_leI length_greater_0_conv)
  ultimately show ?thesis
    unfolding normalize_string_value_def normalize_spec_def
    by (simp add: collapsed_text Let_def)
qed


section \<open>Properties\<close>

lemma strip_ch_no_ch: "c \<notin> set s \<Longrightarrow> strip_ch c s = s"
  by (rule strip_ch_id) (metis hd_in_set last_in_set)

lemma valid_string_value_fixed:
  assumes "valid_string_value v"
  shows "normalize_string_value (PyStr v) = Inr v"
proof -
  have v: "value_pattern v" and len: "length v \<le> 128"
    using assms by (auto simp: valid_string_value_def)
  note shape = value_pattern_shape [OF v]
  have chars: "\<forall>c \<in> set v. is_alnum c \<or> c = 95"
    by (rule value_pattern_chars(1) [OF v])
  then have "\<not> has_control v" "isascii v"
    by (auto simp: has_control_def isascii_def is_alnum_def)
  moreover have "strip_ch 32 v = v" "upper v = v" "sub_runs 32 95 v = v"
    using shape chars by (auto intro!: strip_ch_no_ch upper_alnum sub_runs_id)
  moreover have "sub_runs 95 95 s = s" if "no_double 95 s" for s
    using that
  proof (induction s)
    case (Cons x s)
    then show ?case
      by (cases s) (auto simp: no_double_Cons)
  qed simp
  moreover have "strip_ch 95 v = v"
    using shape by (intro strip_ch_id) simp
  moreover have "1 \<le> length v"
    using shape(1) by (simp add: Suc_leI)
  ultimately show ?thesis
    using v len shape(4) by (simp add: normalize_string_value_def)
qed

lemma normalize_string_value_valid:
  "normalize_string_value obj = Inr v \<Longrightarrow> valid_string_value v"
  by (auto simp: normalize_string_value_def valid_string_value_def Let_def
      split: pyobj.splits if_splits)

text \<open>For every text, \<open>_normalize_string_value\<close> returns exactly what the reference
  definition gives (the words of the upper-cased text, cut at blanks and underscores and joined
  by single underscores), after it has rejected control characters and non-ASCII text with
  their own errors.\<close>

theorem normalize_string_value_reference:
  "normalize_string_value (PyStr s) =
     (if has_control s then Inl (DimensionValidationError ''value'' NoControlCharacters)
      else if \<not> isascii s then Inl (DimensionValidationError ''value'' StringValuePattern)
      else (case normalize_spec s of
          None \<Rightarrow> Inl (DimensionValidationError ''value'' StringValuePattern)
        | Some v \<Rightarrow> Inr v))"
  by (rule normalize_string_value_eq)

text \<open>The result of \<open>_normalize_string_value\<close> is a valid stored value (it matches the
  pattern and has at most 128 characters), and normalising it again changes nothing.\<close>

theorem normalize_string_value_idempotent:
  assumes "normalize_string_value obj = Inr v"
  shows "valid_string_value v \<and> normalize_string_value (PyStr v) = Inr v"
  using normalize_string_value_valid [OF assms] valid_string_value_fixed by blast

theorem normalize_string_value_idempotent_witness:
  "normalize_string_value (PyStr (lit ''  ab __ c1 '')) = Inr (lit ''AB_C1'')
   \<and> normalize_string_value (PyStr (lit ''AB_C1'')) = Inr (lit ''AB_C1'')"
proof -
  have "normalize_string_value (PyStr (lit ''  ab __ c1 '')) = Inr (lit ''AB_C1'')"
    by (simp add: normalize_string_value_def lit_def has_control_def isascii_def strip_ch_def
        upper_def upper_cp_def is_alnum_def)
  with normalize_string_value_idempotent [OF this] show ?thesis by blast
qed

lemma valid_code_upper:
  assumes "isascii s" "valid_code (upper s)"
  shows "32 \<notin> set s"
proof
  assume "32 \<in> set s"
  then have "32 \<in> set (upper s)"
    using assms(1) by (induction s) (auto simp: upper_Cons upper_cp_ascii isascii_def)
  with assms(2) show False by (auto simp: valid_code_def code_pattern_def is_alnum_def)
qed

lemma dimension_code_eq_Inr:
  "dimension_code obj = Inr c \<longleftrightarrow>
     (\<exists>s. obj = PyStr s \<and> isascii s \<and> c = upper s \<and> valid_code c)"
proof
  assume "dimension_code obj = Inr c"
  then show "\<exists>s. obj = PyStr s \<and> isascii s \<and> c = upper s \<and> valid_code c"
    by (cases obj) (simp_all add: dimension_code_def valid_code_def Let_def split: if_splits)
next
  assume "\<exists>s. obj = PyStr s \<and> isascii s \<and> c = upper s \<and> valid_code c"
  then obtain s where s: "obj = PyStr s" "isascii s" "c = upper s" "valid_code (upper s)"
    by blast
  then have "32 \<notin> set s" by (intro valid_code_upper)
  with s show "dimension_code obj = Inr c"
    by (simp add: dimension_code_def strip_ch_no_ch valid_code_def)
qed

lemma valid_code_fixed: "valid_code c \<Longrightarrow> dimension_code (PyStr c) = Inr c"
  unfolding dimension_code_eq_Inr
  by (auto simp: valid_code_def code_pattern_def isascii_def upper_alnum is_alnum_def)

lemma valid_code_no_dash: "valid_code c \<Longrightarrow> 45 \<notin> set c"
  by (auto simp: valid_code_def code_pattern_def is_alnum_def)

text \<open>\<open>DimensionCode\<close> accepts exactly the ASCII texts whose upper case is one to 32
  characters of \<open>[A-Z0-9]\<close> and not only the letter N; the stored code is that upper case, and
  it is accepted unchanged when it is read back.\<close>

theorem dimension_code_accepts:
  "(dimension_code obj = Inr c \<longleftrightarrow>
     (\<exists>s. obj = PyStr s \<and> isascii s \<and> c = upper s \<and> valid_code c))
   \<and> (valid_code c = (dimension_code (PyStr c) = Inr c))"
  using valid_code_fixed dimension_code_eq_Inr by blast

end
