(* ===== verification/Lifecycle.thy ===== *)
theory Lifecycle
  imports Errors
begin

text \<open>
  The life cycle that Dimensions and MasterCodes share: a state with a version, three
  timestamps and business facts, which is deleted and restored. The locale \<open>lifecycle\<close>
  states what \<open>delete\<close> and \<open>restore\<close> promise; its lemmas give the round trip and the
  behaviour of any sequence of the two operations. It is interpreted on the Dimension
  operations in \<open>Dimension_Laws\<close> and on the MasterCode operations in \<open>MasterCode_Laws\<close>.
\<close>

text \<open>The timestamp rules both \<open>__post_init__\<close> methods enforce.\<close>

definition state_times :: "int \<Rightarrow> datetime \<Rightarrow> datetime \<Rightarrow> datetime option \<Rightarrow> bool" where
  "state_times ver created updated deleted \<longleftrightarrow>
     1 \<le> ver \<and> is_aware created \<and> is_aware updated
     \<and> instant created \<le> instant updated \<and> (ver = 1 \<longrightarrow> updated = created)
     \<and> (case deleted of None \<Rightarrow> True
        | Some t \<Rightarrow> is_aware t \<and> instant created \<le> instant t \<and> instant t \<le> instant updated)"

lemma state_times_next:
  assumes "state_times v c u d" "is_aware t" "instant u \<le> instant t"
  shows "state_times (v + 1) c t (Some t)" "state_times (v + 1) c t None"
    "state_times (v + 1) c t d"
  using assms by (auto simp: state_times_def split: option.splits)

datatype lifecycle_op = Delete datetime | Restore datetime

fun op_time :: "lifecycle_op \<Rightarrow> datetime" where
  "op_time (Delete t) = t"
| "op_time (Restore t) = t"

text \<open>A sequence of life-cycle requests, each of which must succeed.\<close>

fun lifecycle_run ::
    "('a \<Rightarrow> datetime \<Rightarrow> 'e + 'a) \<Rightarrow> ('a \<Rightarrow> datetime \<Rightarrow> 'e + 'a) \<Rightarrow> 'a \<Rightarrow> lifecycle_op list \<Rightarrow> 'e + 'a" where
  "lifecycle_run del res a [] = Inr a"
| "lifecycle_run del res a (Delete t # ops) = bindE (del a t) (\<lambda>b. lifecycle_run del res b ops)"
| "lifecycle_run del res a (Restore t # ops) = bindE (res a t) (\<lambda>b. lifecycle_run del res b ops)"

locale lifecycle =
  fixes version :: "'a \<Rightarrow> int"
    and created :: "'a \<Rightarrow> datetime"
    and updated :: "'a \<Rightarrow> datetime"
    and deleted :: "'a \<Rightarrow> datetime option"
    and facts :: "'a \<Rightarrow> 'b"
    and restorable :: "'b \<Rightarrow> bool"
    and wf :: "'a \<Rightarrow> bool"
    and delete :: "'a \<Rightarrow> datetime \<Rightarrow> 'e + 'a"
    and restore :: "'a \<Rightarrow> datetime \<Rightarrow> 'e + 'a"
  assumes wf_times: "wf a \<Longrightarrow> state_times (version a) (created a) (updated a) (deleted a)"
    and wf_active: "\<lbrakk>wf a; deleted a = None\<rbrakk> \<Longrightarrow> restorable (facts a)"
    and delete_succeeds: "wf a \<Longrightarrow>
      is_ok (delete a t) \<longleftrightarrow> deleted a = None \<and> is_aware t \<and> instant (updated a) \<le> instant t"
    and delete_state: "\<lbrakk>wf a; delete a t = Inr b\<rbrakk> \<Longrightarrow>
      wf b \<and> version b = version a + 1 \<and> created b = created a \<and> updated b = t
      \<and> deleted b = Some t \<and> facts b = facts a"
    and restore_succeeds: "wf a \<Longrightarrow>
      is_ok (restore a t) \<longleftrightarrow>
        deleted a \<noteq> None \<and> restorable (facts a) \<and> is_aware t \<and> instant (updated a) \<le> instant t"
    and restore_state: "\<lbrakk>wf a; restore a t = Inr b\<rbrakk> \<Longrightarrow>
      wf b \<and> version b = version a + 1 \<and> created b = created a \<and> updated b = t
      \<and> deleted b = None \<and> facts b = facts a"
begin

lemma delete_restore_round_trip:
  assumes "wf a" "delete a t = Inr b" "is_aware u" "instant t \<le> instant u"
  shows "\<exists>c. restore b u = Inr c \<and> wf c \<and> facts c = facts a \<and> deleted c = None
    \<and> version c = version a + 2 \<and> created c = created a \<and> updated c = u"
proof -
  have "deleted a = None"
    using delete_succeeds [OF assms(1), of t] assms(2) by simp
  then have "restorable (facts a)" by (rule wf_active [OF assms(1)])
  moreover note b = delete_state [OF assms(1,2)]
  ultimately have "is_ok (restore b u)"
    using restore_succeeds [of b u] assms(3,4) by simp
  then obtain c where "restore b u = Inr c" by (auto simp: is_ok_iff)
  with restore_state [of b u c] b show ?thesis by auto
qed

lemma delete_once: "\<lbrakk>wf a; delete a t = Inr b\<rbrakk> \<Longrightarrow> \<not> is_ok (delete b u)"
  using delete_state delete_succeeds by fastforce

lemma restore_once: "\<lbrakk>wf a; restore a t = Inr b\<rbrakk> \<Longrightarrow> \<not> is_ok (restore b u)"
  using restore_state restore_succeeds by fastforce

lemma run_state:
  assumes "wf a" "lifecycle_run delete restore a ops = Inr b"
  shows "wf b \<and> version b = version a + int (length ops) \<and> facts b = facts a
    \<and> created b = created a
    \<and> (deleted b = None \<longleftrightarrow> (deleted a = None) = even (length ops))
    \<and> updated b = (if ops = [] then updated a else op_time (last ops))
    \<and> instant (updated a) \<le> instant (updated b)"
  using assms
proof (induction ops arbitrary: a)
  case (Cons op ops)
  then obtain c where c: "lifecycle_run delete restore c ops = Inr b"
    and step: "case op of Delete t \<Rightarrow> delete a t = Inr c | Restore t \<Rightarrow> restore a t = Inr c"
    by (cases op) (auto simp: res_simps)
  have "wf c \<and> version c = version a + 1 \<and> facts c = facts a \<and> created c = created a
    \<and> (deleted c = None \<longleftrightarrow> deleted a \<noteq> None) \<and> updated c = op_time op
    \<and> instant (updated a) \<le> instant (updated c)"
  proof (cases op)
    case (Delete t)
    with step have "delete a t = Inr c" by simp
    with Delete show ?thesis
      using delete_state [OF Cons.prems(1)] delete_succeeds [OF Cons.prems(1), of t] by simp
  next
    case (Restore t)
    with step have "restore a t = Inr c" by simp
    with Restore show ?thesis
      using restore_state [OF Cons.prems(1)] restore_succeeds [OF Cons.prems(1), of t] by simp
  qed
  with Cons.IH [OF _ c] show ?case by (auto split: if_splits)
qed simp

end

end
