(* ===== verification/Dimension_Laws.thy ===== *)
theory Dimension_Laws
  imports Normalization Lifecycle
begin

text \<open>
  The Dimension state: its invariant \<open>dimension_wf\<close>, what each operation of
  \<open>src/mdm/domain/dimensions.py\<close> does to it, and the \<open>lifecycle\<close> contract.
\<close>

section \<open>Values\<close>

definition valid_memory :: "memory_value \<Rightarrow> bool" where
  "valid_memory m \<longleftrightarrow> 1 \<le> amount m \<and> amount m \<le> 2147483647"

fun valid_value :: "dim_value \<Rightarrow> bool" where
  "valid_value (CompanyValue s) = valid_string_value s"
| "valid_value (BrandValue s) = valid_string_value s"
| "valid_value (ModelValue s) = valid_string_value s"
| "valid_value (CategoryValue s) = valid_string_value s"
| "valid_value (CountryValue s) = valid_string_value s"
| "valid_value (YearValue n) = (2000 \<le> n \<and> n \<le> 2999)"
| "valid_value (NetworkValue g) = True"
| "valid_value (MemoryValue m) = valid_memory m"

lemma values_equal_refl [simp]: "dimension_values_equal v v"
  by (cases v) auto

lemma values_equal_sym: "dimension_values_equal v w \<Longrightarrow> dimension_values_equal w v"
  by (cases v; cases w) auto

lemma values_equal_trans:
  "\<lbrakk>dimension_values_equal u v; dimension_values_equal v w\<rbrakk> \<Longrightarrow> dimension_values_equal u w"
  by (cases u; cases v; cases w) auto

lemma memory_value_init_eq_Inr [res_simps]:
  "memory_value_init amt u = Inr m \<longleftrightarrow>
     (\<exists>n. amt = PyInt n \<and> 1 \<le> n \<and> n \<le> 2147483647 \<and> m = \<lparr>amount = n, unit = u\<rparr>)"
  by (auto simp: memory_value_init_def split: pyobj.splits)

lemma memory_value_create_valid: "memory_value_create amt u = Inr m \<Longrightarrow> valid_memory m"
  by (auto simp: memory_value_create_def valid_memory_def res_simps
      split: pyobj.splits if_splits option.splits)

lemma capacity_mb_range: "valid_memory m \<Longrightarrow> 1 \<le> capacity_mb m \<and> capacity_mb m \<le> 2147483647000000000"
  by (cases "unit m") (auto simp: capacity_mb_def valid_memory_def)

lemma unit_text_inject: "unit_text u = unit_text v \<Longrightarrow> u = v"
  by (cases u; cases v) (simp_all add: lit_def)

lemma find_unit: "find (\<lambda>v. unit_text v = unit_text u) memory_units = Some u"
  by (cases u) (simp_all add: memory_units_def lit_def)

lemma unit_text_plain: "\<not> has_control (unit_text u) \<and> upper (strip_ch 32 (unit_text u)) = unit_text u"
  by (cases u) (simp_all add: has_control_def lit_def strip_ch_def upper_def upper_cp_def)

text \<open>A memory value is accepted only with an amount from 1 to 2147483647; its capacity in
  MB then fits the signed 64-bit column it is stored in, and creating the value again from its
  amount and the text of its unit returns the same value.\<close>

theorem memory_value_capacity:
  assumes "memory_value_create amt u = Inr m"
  shows "1 \<le> capacity_mb m \<and> capacity_mb m < 2 ^ 63
    \<and> memory_value_create (PyInt (amount m)) (PyStr (unit_text (unit m))) = Inr m"
  using capacity_mb_range [OF memory_value_create_valid [OF assms]]
    memory_value_create_valid [OF assms]
  by (auto simp: memory_value_create_def unit_text_plain find_unit res_simps valid_memory_def)

theorem memory_value_capacity_witness:
  "capacity_mb \<lparr>amount = 16, unit = GB\<rparr> = 16000
   \<and> memory_value_create (PyInt 16) (PyStr (unit_text GB)) = Inr \<lparr>amount = 16, unit = GB\<rparr>"
proof -
  have "memory_value_create (PyInt 16) (PyStr (lit '' gb '')) = Inr \<lparr>amount = 16, unit = GB\<rparr>"
    by code_simp
  from memory_value_capacity [OF this] show ?thesis by (simp add: capacity_mb_def)
qed


section \<open>State\<close>

definition dimension_times :: "dimension \<Rightarrow> bool" where
  "dimension_times d \<longleftrightarrow>
     state_times (dim_version d) (dim_created_at d) (dim_updated_at d) (dim_deleted_at d)"

definition dimension_wf :: "dimension \<Rightarrow> bool" where
  "dimension_wf d \<longleftrightarrow> dimension_times d \<and> valid_code (dim_code d) \<and> valid_value (dim_val d)"

definition dimension_facts :: "dimension \<Rightarrow> uuid \<times> pystr \<times> dim_value" where
  "dimension_facts d = (dim_id d, dim_code d, dim_val d)"

lemma dimension_init_eq_Inr [res_simps]: "dimension_init d = Inr e \<longleftrightarrow> e = d \<and> dimension_times d"
  by (auto simp: dimension_init_def dimension_times_def state_times_def aware_eq_iff
      split: option.splits)

lemma dimension_wf_init: "dimension_wf d \<Longrightarrow> dimension_init d = Inr d"
  by (simp add: res_simps dimension_wf_def)

lemma transition_deletion_eq_Inr:
  assumes "dimension_times d"
  shows "transition_deletion d del t = Inr e \<longleftrightarrow>
    is_aware t \<and> instant (dim_updated_at d) \<le> instant t
    \<and> e = d\<lparr>dim_version := dim_version d + 1, dim_updated_at := t,
           dim_deleted_at := (if del then Some t else None)\<rparr>"
  using assms state_times_next [of "dim_version d" "dim_created_at d" "dim_updated_at d" "dim_deleted_at d" t]
  by (auto simp: transition_deletion_def res_simps dimension_times_def)

lemma dimension_delete_eq_Inr:
  assumes "dimension_times d"
  shows "dimension_delete d t = Inr e \<longleftrightarrow>
    dim_deleted_at d = None \<and> is_aware t \<and> instant (dim_updated_at d) \<le> instant t
    \<and> e = d\<lparr>dim_version := dim_version d + 1, dim_updated_at := t, dim_deleted_at := Some t\<rparr>"
  using transition_deletion_eq_Inr [OF assms] by (auto simp: dimension_delete_def is_deleted_def)

lemma dimension_restore_eq_Inr:
  assumes "dimension_times d"
  shows "dimension_restore d t = Inr e \<longleftrightarrow>
    dim_deleted_at d \<noteq> None \<and> is_aware t \<and> instant (dim_updated_at d) \<le> instant t
    \<and> e = d\<lparr>dim_version := dim_version d + 1, dim_updated_at := t, dim_deleted_at := None\<rparr>"
  using transition_deletion_eq_Inr [OF assms] by (auto simp: dimension_restore_def is_deleted_def)

text \<open>The code and value a change request leads to: equal values keep the stored one.\<close>

definition next_code :: "dimension \<Rightarrow> pystr option \<Rightarrow> pystr" where
  "next_code d code = (case code of None \<Rightarrow> dim_code d | Some c \<Rightarrow> c)"

definition next_value :: "dimension \<Rightarrow> dim_value option \<Rightarrow> dim_value" where
  "next_value d val = (case val of None \<Rightarrow> dim_val d
     | Some v \<Rightarrow> if dimension_values_equal (dim_val d) v then dim_val d else v)"

lemma next_value_equal_iff:
  "dimension_values_equal (dim_val d) (next_value d val) \<longleftrightarrow> next_value d val = dim_val d"
  by (auto simp: next_value_def split: option.splits)

lemma dimension_change_eq_Inr:
  assumes "dimension_times d"
  shows "dimension_change d code val t = Inr e \<longleftrightarrow>
    (if next_code d code = dim_code d \<and> next_value d val = dim_val d then e = d
     else is_aware t \<and> instant (dim_updated_at d) \<le> instant t
       \<and> e = d\<lparr>dim_code := next_code d code, dim_val := next_value d val,
              dim_version := dim_version d + 1, dim_updated_at := t\<rparr>)"
proof -
  have "is_aware t \<Longrightarrow> instant (dim_updated_at d) \<le> instant t \<Longrightarrow>
    dimension_times (d\<lparr>dim_code := c, dim_val := v, dim_version := dim_version d + 1, dim_updated_at := t\<rparr>)"
    for c v
    using assms state_times_next by (simp add: dimension_times_def)
  then show ?thesis
    by (auto simp: dimension_change_def Let_def res_simps next_code_def [symmetric]
        next_value_def [symmetric] next_value_equal_iff)
qed

lemma next_valid:
  assumes "dimension_wf d" "\<And>c. code = Some c \<Longrightarrow> valid_code c" "\<And>v. val = Some v \<Longrightarrow> valid_value v"
  shows "valid_code (next_code d code)" "valid_value (next_value d val)"
  using assms by (auto simp: next_code_def next_value_def dimension_wf_def split: option.splits)

interpretation dim_lc: lifecycle dim_version dim_created_at dim_updated_at dim_deleted_at
  dimension_facts "\<lambda>_. True" dimension_wf dimension_delete dimension_restore
proof (unfold_locales, goal_cases)
  case (1 a)
  then show ?case by (simp add: dimension_wf_def dimension_times_def)
next
  case (3 a t)
  then show ?case by (auto simp: is_ok_iff dimension_wf_def dimension_delete_eq_Inr)
next
  case (4 a t b)
  then show ?case
    using state_times_next [of "dim_version a" "dim_created_at a" "dim_updated_at a" "dim_deleted_at a" t]
    by (auto simp: dimension_wf_def dimension_delete_eq_Inr dimension_facts_def dimension_times_def)
next
  case (5 a t)
  then show ?case by (auto simp: is_ok_iff dimension_wf_def dimension_restore_eq_Inr)
next
  case (6 a t b)
  then show ?case
    using state_times_next [of "dim_version a" "dim_created_at a" "dim_updated_at a" "dim_deleted_at a" t]
    by (auto simp: dimension_wf_def dimension_restore_eq_Inr dimension_facts_def dimension_times_def)
qed simp


section \<open>Properties\<close>

text \<open>\<open>Dimension.change\<close> with valid inputs and a later time always succeeds. The new
  state is well formed, keeps the identity, the creation time and the deletion mark, has the
  requested code and a value equal to the requested one, and its version grows by one exactly
  when the code or the value really changes; otherwise the state is returned as it is, and an
  equal memory capacity keeps the stored amount and unit.\<close>

theorem dimension_change_correct:
  assumes "dimension_wf d" "valid_code c" "valid_value v"
    and "is_aware t" "instant (dim_updated_at d) \<le> instant t"
  shows "\<exists>e. dimension_change d (Some c) (Some v) t = Inr e \<and> dimension_wf e
    \<and> dim_id e = dim_id d \<and> dim_created_at e = dim_created_at d
    \<and> dim_deleted_at e = dim_deleted_at d
    \<and> dim_code e = c \<and> dimension_values_equal (dim_val e) v
    \<and> (if c = dim_code d \<and> dimension_values_equal (dim_val d) v then e = d
       else dim_version e = dim_version d + 1 \<and> dim_updated_at e = t
         \<and> (dimension_values_equal (dim_val d) v \<longrightarrow> dim_val e = dim_val d))"
proof -
  have times: "dimension_times d" using assms(1) by (simp add: dimension_wf_def)
  define e where "e = (if c = dim_code d \<and> next_value d (Some v) = dim_val d then d
    else d\<lparr>dim_code := c, dim_val := next_value d (Some v),
            dim_version := dim_version d + 1, dim_updated_at := t\<rparr>)"
  have "dimension_change d (Some c) (Some v) t = Inr e"
    using assms(4,5) by (simp add: dimension_change_eq_Inr [OF times] e_def next_code_def)
  moreover have "dimension_wf e"
    using assms(1,2,4,5) next_valid(2) [OF assms(1), of None "Some v"] assms(3)
      state_times_next(3) [of "dim_version d" "dim_created_at d" "dim_updated_at d" "dim_deleted_at d" t]
    by (simp add: e_def dimension_wf_def dimension_times_def)
  moreover have "next_value d (Some v) = dim_val d \<longleftrightarrow> dimension_values_equal (dim_val d) v"
    by (auto simp: next_value_def)
  ultimately show ?thesis
    by (auto simp: e_def next_value_def)
qed

definition sample_dimension :: dimension where
  "sample_dimension = \<lparr>dim_id = 7, dim_code = lit ''M16'', dim_val = MemoryValue \<lparr>amount = 16, unit = GB\<rparr>,
     dim_version = 1, dim_created_at = Aware 5, dim_updated_at = Aware 5, dim_deleted_at = None\<rparr>"

lemma sample_dimension_wf: "dimension_wf sample_dimension"
  by (simp add: sample_dimension_def dimension_wf_def dimension_times_def state_times_def
      valid_code_def code_pattern_def lit_def is_alnum_def valid_memory_def)

theorem dimension_change_correct_witness:
  "\<exists>e. dimension_change sample_dimension (Some (lit ''MEM'')) (Some (MemoryValue \<lparr>amount = 16000, unit = MB\<rparr>))
      (Aware 9) = Inr e \<and> dim_version e = 2 \<and> dim_val e = MemoryValue \<lparr>amount = 16, unit = GB\<rparr>"
proof -
  have "valid_code (lit ''MEM'')"
    by (simp add: valid_code_def code_pattern_def lit_def is_alnum_def)
  from dimension_change_correct [OF sample_dimension_wf this, of "MemoryValue \<lparr>amount = 16000, unit = MB\<rparr>" "Aware 9"]
  show ?thesis
    by (auto simp: sample_dimension_def valid_memory_def capacity_mb_def lit_def)
qed

text \<open>Any successful sequence of deletions and restorations of a well-formed Dimension
  alternates between the two, keeps its identity, code, value and creation time, advances its
  version by one per step, never moves its update time backwards, and leaves a well-formed
  state whose update time is that of the last step.\<close>

theorem dimension_lifecycle_run:
  assumes "dimension_wf d" "lifecycle_run dimension_delete dimension_restore d ops = Inr e"
  shows "dimension_wf e \<and> dim_version e = dim_version d + int (length ops)
    \<and> dimension_facts e = dimension_facts d \<and> dim_created_at e = dim_created_at d
    \<and> (dim_deleted_at e = None \<longleftrightarrow> (dim_deleted_at d = None) = even (length ops))
    \<and> dim_updated_at e = (if ops = [] then dim_updated_at d else op_time (last ops))
    \<and> instant (dim_updated_at d) \<le> instant (dim_updated_at e)"
  by (rule dim_lc.run_state [OF assms])

theorem dimension_lifecycle_run_witness:
  "\<exists>e. lifecycle_run dimension_delete dimension_restore sample_dimension
         [Delete (Aware 6), Restore (Aware 6), Delete (Aware 8)] = Inr e
     \<and> dim_version e = 4 \<and> dim_deleted_at e \<noteq> None"
proof -
  obtain e where "lifecycle_run dimension_delete dimension_restore sample_dimension
      [Delete (Aware 6), Restore (Aware 6), Delete (Aware 8)] = Inr e"
    by (simp add: sample_dimension_def dimension_delete_def dimension_restore_def
        transition_deletion_def is_deleted_def dimension_init_def)
  with dimension_lifecycle_run [OF sample_dimension_wf this] show ?thesis
    by (simp add: sample_dimension_def)
qed

end
