(* ===== verification/MasterCodes.thy ===== *)
theory MasterCodes
  imports Dimension_Laws Sha256
begin

text \<open>
  \<open>src/mdm/domain/master_codes.py\<close>: the eight typed slots, the composed code and the
  immutable MasterCode state with its aggregate ETag. \<open>MasterCodeDimensions\<close> is the
  function from a slot to what \<open>getattr(self, slot)\<close> returns.
\<close>

section \<open>Slots\<close>

text \<open>\<open>_VALUE_TYPES\<close>: the slot whose value class a value belongs to.\<close>

fun value_slot :: "dim_value \<Rightarrow> slot" where
  "value_slot (CompanyValue _) = Company"
| "value_slot (BrandValue _) = Brand"
| "value_slot (ModelValue _) = Model"
| "value_slot (CategoryValue _) = Category"
| "value_slot (YearValue _) = Year"
| "value_slot (MemoryValue _) = Memory"
| "value_slot (NetworkValue _) = Network"
| "value_slot (CountryValue _) = Country"

type_synonym master_code_dimensions = "slot \<Rightarrow> dimension option"

fun dimensions_check :: "master_code_dimensions \<Rightarrow> slot list \<Rightarrow> unit res" where
  "dimensions_check dims [] = Inr ()"
| "dimensions_check dims (s # ss) =
     (case dims s of
        None \<Rightarrow> dimensions_check dims ss
      | Some d \<Rightarrow>
          if value_slot (dim_val d) \<noteq> s
          then Inl (MasterCodeValidationError (SlotMustContain (slot_name s)))
          else dimensions_check dims ss)"

text \<open>\<open>MasterCodeDimensions.__post_init__\<close>.\<close>

definition master_code_dimensions_init :: "master_code_dimensions \<Rightarrow> master_code_dimensions res" where
  "master_code_dimensions_init dims = bindE (dimensions_check dims ORDER) (\<lambda>_. Inr dims)"

definition ordered :: "master_code_dimensions \<Rightarrow> dimension option list" where
  "ordered dims = map dims ORDER"


section \<open>MasterCode state\<close>

record master_code =
  mc_id :: uuid
  mc_dims :: master_code_dimensions
  mc_code :: pystr
  mc_version :: int
  mc_created_at :: datetime
  mc_updated_at :: datetime
  mc_deleted_at :: "datetime option"

definition NOT_APPLICABLE_CODE :: pystr where
  "NOT_APPLICABLE_CODE = lit ''NNN''"

fun slot_code :: "dimension option \<Rightarrow> pystr" where
  "slot_code None = NOT_APPLICABLE_CODE"
| "slot_code (Some d) = dim_code d"

definition compose :: "master_code_dimensions \<Rightarrow> pystr" where
  "compose dims = joined 45 (map slot_code (ordered dims))"

text \<open>The first deleted Dimension in slot order, if any.\<close>

fun first_deleted :: "master_code_dimensions \<Rightarrow> slot list \<Rightarrow> slot option" where
  "first_deleted dims [] = None"
| "first_deleted dims (s # ss) =
     (case dims s of
        Some d \<Rightarrow> if is_deleted d then Some s else first_deleted dims ss
      | None \<Rightarrow> first_deleted dims ss)"

text \<open>\<open>MasterCode.__post_init__\<close>.\<close>

definition master_code_init :: "master_code \<Rightarrow> master_code res" where
  "master_code_init mc =
     (case (if mc_deleted_at mc = None then first_deleted (mc_dims mc) ORDER else None) of
        Some s \<Rightarrow> Inl (MasterCodeValidationError (SlotMustBeActive (slot_name s)))
      | None \<Rightarrow>
          if mc_code mc \<noteq> compose (mc_dims mc) then Inl (MasterCodeValidationError CodeMismatch)
          else if mc_version mc < 1 then Inl (MasterCodeValidationError McVersionPositive)
          else if \<not> is_aware (mc_created_at mc) \<or> \<not> is_aware (mc_updated_at mc)
          then Inl (MasterCodeValidationError McTimestampsAware)
          else if instant (mc_updated_at mc) < instant (mc_created_at mc)
          then Inl (MasterCodeValidationError McUpdatedBeforeCreated)
          else if mc_version mc = 1 \<and> instant (mc_updated_at mc) \<noteq> instant (mc_created_at mc)
          then Inl (MasterCodeValidationError McInitialTimestamps)
          else (case mc_deleted_at mc of
              None \<Rightarrow> Inr mc
            | Some t \<Rightarrow>
                if \<not> is_aware t then Inl (MasterCodeValidationError McDeletedAware)
                else if \<not> (instant (mc_created_at mc) \<le> instant t \<and> instant t \<le> instant (mc_updated_at mc))
                then Inl (MasterCodeValidationError McDeletedRange)
                else Inr mc))"

definition master_code_create ::
    "uuid \<Rightarrow> master_code_dimensions \<Rightarrow> datetime \<Rightarrow> master_code res" where
  "master_code_create i dims created_at =
     master_code_init \<lparr>mc_id = i, mc_dims = dims, mc_code = compose dims, mc_version = 1,
       mc_created_at = created_at, mc_updated_at = created_at, mc_deleted_at = None\<rparr>"

text \<open>\<open>json.dumps\<close> without blanks, of arrays, texts without special characters and null.\<close>

definition json_array :: "pystr list \<Rightarrow> pystr" where
  "json_array xs = 91 # joined 44 xs @ [93]"

definition json_string :: "pystr \<Rightarrow> pystr" where
  "json_string s = 34 # s @ [34]"

definition json_null :: pystr where
  "json_null = lit ''null''"

definition etag_entry :: "slot \<Rightarrow> dimension option \<Rightarrow> pystr" where
  "etag_entry s d = json_array
     [json_string (lit (type_name s)),
      (case d of None \<Rightarrow> json_null | Some d \<Rightarrow> json_string (str_uuid (dim_id d))),
      (case d of None \<Rightarrow> json_null | Some d \<Rightarrow> str_int (dim_version d))]"

definition etag_payload :: "master_code \<Rightarrow> pystr" where
  "etag_payload mc = json_array
     [str_int 1, str_int (mc_version mc), json_array (map2 etag_entry ORDER (ordered (mc_dims mc)))]"

definition etag :: "master_code \<Rightarrow> pystr" where
  "etag mc = lit ''\"mc-1-'' @ sha256_hex (etag_payload mc) @ lit ''\"''"

definition dimension_ids :: "master_code_dimensions \<Rightarrow> uuid option list" where
  "dimension_ids dims = map (map_option dim_id) (ordered dims)"

definition recompose :: "master_code \<Rightarrow> master_code_dimensions \<Rightarrow> datetime \<Rightarrow> master_code res" where
  "recompose mc dims changed_at =
     (if dimension_ids dims \<noteq> dimension_ids (mc_dims mc)
      then Inl (MasterCodeValidationError McPreserveReferences)
      else let code = compose dims in
        if code = mc_code mc then Inr mc
        else if \<not> is_aware changed_at then Inl (MasterCodeValidationError McChangedAware)
        else if instant changed_at < instant (mc_updated_at mc)
        then Inl (MasterCodeValidationError McChangedEarly)
        else master_code_init (mc\<lparr>mc_dims := dims, mc_code := code,
               mc_version := mc_version mc + 1, mc_updated_at := changed_at\<rparr>))"

definition update_references ::
    "master_code \<Rightarrow> master_code_dimensions \<Rightarrow> datetime \<Rightarrow> master_code res" where
  "update_references mc dims changed_at =
     (if mc_deleted_at mc \<noteq> None then Inl (MasterCodeValidationError McDeletedReferences)
      else if dimension_ids dims = dimension_ids (mc_dims mc) then Inr mc
      else if \<not> is_aware changed_at then Inl (MasterCodeValidationError McChangedAware)
      else if instant changed_at < instant (mc_updated_at mc)
      then Inl (MasterCodeValidationError McChangedEarly)
      else master_code_init (mc\<lparr>mc_dims := dims, mc_code := compose dims,
             mc_version := mc_version mc + 1, mc_updated_at := changed_at, mc_deleted_at := None\<rparr>))"

definition validate_lifecycle_timestamp :: "master_code \<Rightarrow> datetime \<Rightarrow> unit res" where
  "validate_lifecycle_timestamp mc changed_at =
     (if \<not> is_aware changed_at then Inl (MasterCodeValidationError McChangedAware)
      else if instant changed_at < instant (mc_updated_at mc)
      then Inl (MasterCodeValidationError McChangedEarly)
      else Inr ())"

definition master_code_delete :: "master_code \<Rightarrow> datetime \<Rightarrow> master_code res" where
  "master_code_delete mc changed_at =
     (if mc_deleted_at mc \<noteq> None then Inl (MasterCodeValidationError McAlreadyDeleted)
      else bindE (validate_lifecycle_timestamp mc changed_at) (\<lambda>_.
        master_code_init (mc\<lparr>mc_deleted_at := Some changed_at, mc_updated_at := changed_at,
          mc_version := mc_version mc + 1\<rparr>)))"

definition master_code_restore :: "master_code \<Rightarrow> datetime \<Rightarrow> master_code res" where
  "master_code_restore mc changed_at =
     (if mc_deleted_at mc = None then Inl (MasterCodeValidationError McNotDeleted)
      else bindE (validate_lifecycle_timestamp mc changed_at) (\<lambda>_.
        master_code_init (mc\<lparr>mc_code := compose (mc_dims mc), mc_deleted_at := None,
          mc_updated_at := changed_at, mc_version := mc_version mc + 1\<rparr>)))"

end
