(* ===== verification/MasterCode_Laws.thy ===== *)
theory MasterCode_Laws
  imports MasterCodes
begin

text \<open>
  The MasterCode state: its invariant \<open>master_code_wf\<close>, what each operation of
  \<open>src/mdm/domain/master_codes.py\<close> does to it, the injectivity of the composed code and
  of the ETag payload, and the \<open>lifecycle\<close> contract.
\<close>

section \<open>Composition\<close>

definition dims_wf :: "master_code_dimensions \<Rightarrow> bool" where
  "dims_wf dims \<longleftrightarrow> (\<forall>s d. dims s = Some d \<longrightarrow> dimension_wf d \<and> value_slot (dim_val d) = s)"

definition all_active :: "master_code_dimensions \<Rightarrow> bool" where
  "all_active dims \<longleftrightarrow> (\<forall>s d. dims s = Some d \<longrightarrow> dim_deleted_at d = None)"

lemma dimensions_check_eq_Inr:
  "dimensions_check dims ss = Inr u \<longleftrightarrow>
     (\<forall>s \<in> set ss. \<forall>d. dims s = Some d \<longrightarrow> value_slot (dim_val d) = s)"
  by (induction dims ss rule: dimensions_check.induct) (auto split: option.splits)

lemma master_code_dimensions_init_eq_Inr [res_simps]:
  "master_code_dimensions_init dims = Inr e \<longleftrightarrow>
     e = dims \<and> (\<forall>s d. dims s = Some d \<longrightarrow> value_slot (dim_val d) = s)"
  by (auto simp: master_code_dimensions_init_def res_simps dimensions_check_eq_Inr)

lemma first_deleted_eq_None:
  "first_deleted dims ss = None \<longleftrightarrow> (\<forall>s \<in> set ss. \<forall>d. dims s = Some d \<longrightarrow> dim_deleted_at d = None)"
  by (induction dims ss rule: first_deleted.induct) (auto simp: is_deleted_def split: option.splits)

lemma first_deleted_ORDER: "first_deleted dims ORDER = None \<longleftrightarrow> all_active dims"
  by (simp add: first_deleted_eq_None all_active_def)

lemma map_ORDER_eq: "map f ORDER = map g ORDER \<longleftrightarrow> f = g"
  by (auto intro!: ext dest!: map_eq_conv [THEN iffD1])

lemma slot_code_no_dash: "(\<And>d. x = Some d \<Longrightarrow> valid_code (dim_code d)) \<Longrightarrow> 45 \<notin> set (slot_code x)"
  by (cases x) (auto simp: NOT_APPLICABLE_CODE_def lit_def valid_code_no_dash)

lemma slot_code_inject:
  assumes "slot_code x = slot_code y"
    and "\<And>d. x = Some d \<Longrightarrow> valid_code (dim_code d)" "\<And>d. y = Some d \<Longrightarrow> valid_code (dim_code d)"
  shows "map_option dim_code x = map_option dim_code y"
proof -
  have "\<not> valid_code NOT_APPLICABLE_CODE"
    by (simp add: valid_code_def NOT_APPLICABLE_CODE_def lit_def)
  with assms show ?thesis by (cases x; cases y) auto
qed

lemma compose_inject:
  assumes "compose a = compose b" "dims_wf a" "dims_wf b"
  shows "map_option dim_code \<circ> a = map_option dim_code \<circ> b"
proof -
  have code: "\<And>s d. a s = Some d \<Longrightarrow> valid_code (dim_code d)" "\<And>s d. b s = Some d \<Longrightarrow> valid_code (dim_code d)"
    using assms(2,3) by (auto simp: dims_wf_def dimension_wf_def)
  have "map (slot_code \<circ> a) ORDER = map (slot_code \<circ> b) ORDER"
    by (rule joined_inject [where c = 45])
       (use assms(1) code slot_code_no_dash in \<open>auto simp: compose_def ordered_def comp_def\<close>)
  then have "slot_code (a s) = slot_code (b s)" for s
    unfolding map_ORDER_eq by (metis comp_apply)
  then show ?thesis
    using slot_code_inject code by (intro ext) (metis comp_apply)
qed

lemma compose_cong: "map_option dim_code \<circ> a = map_option dim_code \<circ> b \<Longrightarrow> compose a = compose b"
proof -
  assume eq: "map_option dim_code \<circ> a = map_option dim_code \<circ> b"
  have "slot_code (a s) = slot_code (b s)" for s
    using fun_cong [OF eq, of s] by (cases "a s"; cases "b s") auto
  then show ?thesis by (simp add: compose_def ordered_def comp_def)
qed

lemma dimension_ids_eq: "dimension_ids a = dimension_ids b \<longleftrightarrow> map_option dim_id \<circ> a = map_option dim_id \<circ> b"
  using map_ORDER_eq [of "map_option dim_id \<circ> a" "map_option dim_id \<circ> b"]
  by (simp add: dimension_ids_def ordered_def)

text \<open>C40. Composed codes are unambiguous: two slot assignments of well-formed Dimensions have
  the same composed code exactly when every slot has the same Dimension code or is empty in
  both. In particular an empty slot (NNN) is never confused with a Dimension.\<close>

theorem compose_unambiguous:
  assumes "dims_wf a" "dims_wf b"
  shows "compose a = compose b \<longleftrightarrow> (\<forall>s. map_option dim_code (a s) = map_option dim_code (b s))"
  using compose_inject [OF _ assms] compose_cong by (metis comp_apply ext)

theorem compose_unambiguous_witness:
  "compose ((\<lambda>_. None)(Memory := Some sample_dimension)) \<noteq> compose (\<lambda>_. None)"
proof -
  have "dims_wf ((\<lambda>_. None)(Memory := Some sample_dimension))" "dims_wf (\<lambda>_. None)"
    using sample_dimension_wf by (auto simp: dims_wf_def sample_dimension_def)
  from compose_unambiguous [OF this] show ?thesis
    by (metis fun_upd_same map_option_is_None option.distinct(1))
qed


section \<open>ETag\<close>

lemma joined_inject_terminated:
  assumes "joined c (map f xs) = joined c (map g xs)"
    and "\<And>x. x \<in> set xs \<Longrightarrow> \<exists>p q. f x = p @ [e] \<and> e \<notin> set p \<and> g x = q @ [e] \<and> e \<notin> set q"
  shows "map f xs = map g xs"
  using assms
proof (induction xs)
  case (Cons x xs)
  obtain p q where pq: "f x = p @ [e]" "e \<notin> set p" "g x = q @ [e]" "e \<notin> set q"
    using Cons.prems(2) by fastforce
  show ?case
  proof (cases "xs = []")
    case True
    with Cons.prems show ?thesis by simp
  next
    case False
    with Cons.prems(1) have "f x @ c # joined c (map f xs) = g x @ c # joined c (map g xs)"
      by (simp add: joined_Cons del: joined.simps)
    then have "p = q \<and> c # joined c (map f xs) = c # joined c (map g xs)"
      using append_Cons_sep_inject [of p e "c # joined c (map f xs)" q] pq by simp
    with Cons pq show ?thesis by simp
  qed
qed simp

lemma lit_type_name: "set (lit (type_name s)) \<subseteq> {65..90}"
  by (cases s) (simp_all add: lit_def)

lemma etag_entry_parts:
  "etag_entry s d = (91 # joined 44 [json_string (lit (type_name s)),
      (case d of None \<Rightarrow> json_null | Some d \<Rightarrow> json_string (str_uuid (dim_id d))),
      (case d of None \<Rightarrow> json_null | Some d \<Rightarrow> str_int (dim_version d))]) @ [93]"
  by (simp add: etag_entry_def json_array_def)

definition plain_char :: "nat \<Rightarrow> bool" where
  "plain_char c \<longleftrightarrow> c \<noteq> 44 \<and> c \<noteq> 93"

lemma plain_parts:
  "c \<in> set (json_string (lit (type_name s))) \<Longrightarrow> plain_char c"
  "c \<in> set json_null \<Longrightarrow> plain_char c"
  "c \<in> set (json_string (str_uuid u)) \<Longrightarrow> plain_char c"
  "c \<in> set (str_int i) \<Longrightarrow> plain_char c"
proof -
  show "c \<in> set (json_string (lit (type_name s))) \<Longrightarrow> plain_char c"
    using lit_type_name [of s] by (auto simp: json_string_def plain_char_def)
  show "c \<in> set json_null \<Longrightarrow> plain_char c"
    by (auto simp: json_null_def lit_def plain_char_def)
  show "c \<in> set (json_string (str_uuid u)) \<Longrightarrow> plain_char c"
    using set_str_uuid [of u] by (auto simp: json_string_def plain_char_def)
  show "c \<in> set (str_int i) \<Longrightarrow> plain_char c"
    using str_int_chars [of i] by (auto simp: plain_char_def)
qed

lemma entry_fields_plain:
  "x \<in> set [json_string (lit (type_name s)),
      (case d of None \<Rightarrow> json_null | Some d \<Rightarrow> json_string (str_uuid (dim_id d))),
      (case d of None \<Rightarrow> json_null | Some d \<Rightarrow> str_int (dim_version d))] \<Longrightarrow> c \<in> set x \<Longrightarrow> plain_char c"
  using plain_parts by (auto split: option.splits)

lemma etag_entry_terminated: "\<exists>p. etag_entry s d = p @ [93] \<and> 93 \<notin> set p"
proof -
  let ?fs = "[json_string (lit (type_name s)),
      (case d of None \<Rightarrow> json_null | Some d \<Rightarrow> json_string (str_uuid (dim_id d))),
      (case d of None \<Rightarrow> json_null | Some d \<Rightarrow> str_int (dim_version d))]"
  have "93 \<notin> set (joined 44 ?fs)"
  proof
    assume "93 \<in> set (joined 44 ?fs)"
    then obtain x where "x \<in> set ?fs" "93 \<in> set x"
      using set_joined [of 44 ?fs] by fastforce
    with entry_fields_plain [of x s d 93] show False by (simp add: plain_char_def)
  qed
  then show ?thesis unfolding etag_entry_parts
    by (intro exI [of _ "91 # joined 44 ?fs"]) (simp del: joined.simps)
qed

lemma etag_entry_inject:
  assumes "etag_entry s a = etag_entry s b"
  shows "map_option (\<lambda>d. (dim_id d, dim_version d)) a = map_option (\<lambda>d. (dim_id d, dim_version d)) b"
proof -
  let ?fs = "\<lambda>d. [json_string (lit (type_name s)),
      (case d of None \<Rightarrow> json_null | Some d \<Rightarrow> json_string (str_uuid (dim_id d))),
      (case d of None \<Rightarrow> json_null | Some d \<Rightarrow> str_int (dim_version d))]"
  have "joined 44 (?fs a) = joined 44 (?fs b)"
    using assms unfolding etag_entry_parts by (simp del: joined.simps)
  then have "?fs a = ?fs b"
    by (rule joined_inject) (use entry_fields_plain in \<open>auto simp: plain_char_def simp del: joined.simps\<close>)
  then show ?thesis
    by (cases a; cases b)
       (auto simp: json_null_def json_string_def lit_def dest!: str_uuid_inject str_int_inject)
qed

lemma etag_vector:
  "map2 etag_entry ORDER (ordered dims) = map (\<lambda>s. etag_entry s (dims s)) ORDER"
  by (simp add: ordered_def map2_map_map [where f = "\<lambda>x. x", simplified])

lemma etag_payload_inject:
  assumes "etag_payload a = etag_payload b"
  shows "mc_version a = mc_version b
    \<and> (\<forall>s. map_option (\<lambda>d. (dim_id d, dim_version d)) (mc_dims a s)
         = map_option (\<lambda>d. (dim_id d, dim_version d)) (mc_dims b s))"
proof -
  let ?r = "\<lambda>m. json_array (map2 etag_entry ORDER (ordered (mc_dims m)))"
  have "str_int 1 @ 44 # (str_int (mc_version a) @ 44 # ?r a)
      = str_int 1 @ 44 # (str_int (mc_version b) @ 44 # ?r b)"
    using assms by (simp add: etag_payload_def json_array_def)
  then have "str_int (mc_version a) @ 44 # ?r a = str_int (mc_version b) @ 44 # ?r b"
    by simp
  moreover have "44 \<notin> set (str_int i)" for i
    using plain_parts(4) [of 44 i] by (auto simp: plain_char_def)
  ultimately have v: "str_int (mc_version a) = str_int (mc_version b) \<and> ?r a = ?r b"
    by (intro append_Cons_sep_inject)
  have "map (\<lambda>s. etag_entry s (mc_dims a s)) ORDER = map (\<lambda>s. etag_entry s (mc_dims b s)) ORDER"
  proof (rule joined_inject_terminated [where c = 44 and e = 93])
    show "joined 44 (map (\<lambda>s. etag_entry s (mc_dims a s)) ORDER)
        = joined 44 (map (\<lambda>s. etag_entry s (mc_dims b s)) ORDER)"
      using v by (simp add: json_array_def etag_vector)
  qed (use etag_entry_terminated in blast)
  then have "\<forall>s. etag_entry s (mc_dims a s) = etag_entry s (mc_dims b s)"
    by (metis in_ORDER map_eq_conv)
  with v show ?thesis using etag_entry_inject str_int_inject by blast
qed

text \<open>The ETag names the whole representation: two MasterCodes have the same hashed
  payload exactly when their versions agree and every slot refers to the same Dimension at the
  same version (or is empty in both); equal ETags then mean the same, provided SHA-256 does not
  collide on the two payloads. An ETag always has 71 characters.\<close>

theorem etag_identifies_representation:
  assumes "sha256_hex (etag_payload a) = sha256_hex (etag_payload b) \<longrightarrow> etag_payload a = etag_payload b"
  shows "length (etag a) = 71
    \<and> (etag a = etag b \<longleftrightarrow> mc_version a = mc_version b
       \<and> (\<forall>s. map_option (\<lambda>d. (dim_id d, dim_version d)) (mc_dims a s)
            = map_option (\<lambda>d. (dim_id d, dim_version d)) (mc_dims b s)))"
proof -
  have "etag a = etag b \<longleftrightarrow> etag_payload a = etag_payload b"
    using assms by (auto simp: etag_def)
  moreover have "etag_payload a = etag_payload b"
    if "mc_version a = mc_version b" "\<forall>s. map_option (\<lambda>d. (dim_id d, dim_version d)) (mc_dims a s)
         = map_option (\<lambda>d. (dim_id d, dim_version d)) (mc_dims b s)"
  proof -
    have "etag_entry s (mc_dims a s) = etag_entry s (mc_dims b s)" for s
      using that(2) [THEN spec, of s]
      by (cases "mc_dims a s"; cases "mc_dims b s") (simp_all add: etag_entry_def)
    then show ?thesis using that(1) by (simp add: etag_payload_def etag_vector)
  qed
  ultimately show ?thesis
    using etag_payload_inject [of a b] by (auto simp: etag_def lit_def)
qed

theorem etag_identifies_representation_witness:
  "let a = \<lparr>mc_id = 1, mc_dims = \<lambda>_. None, mc_code = compose (\<lambda>_. None), mc_version = 1,
            mc_created_at = Aware 0, mc_updated_at = Aware 0, mc_deleted_at = None\<rparr>
   in etag a = etag (a\<lparr>mc_id := 2\<rparr>) \<and> length (etag a) = 71"
  unfolding Let_def
  by (subst etag_identifies_representation; simp add: etag_payload_def)
     (simp add: etag_def lit_def)


section \<open>State\<close>

definition master_code_times :: "master_code \<Rightarrow> bool" where
  "master_code_times m \<longleftrightarrow>
     state_times (mc_version m) (mc_created_at m) (mc_updated_at m) (mc_deleted_at m)"

definition master_code_wf :: "master_code \<Rightarrow> bool" where
  "master_code_wf m \<longleftrightarrow> master_code_times m \<and> dims_wf (mc_dims m) \<and> mc_code m = compose (mc_dims m)
     \<and> (mc_deleted_at m = None \<longrightarrow> all_active (mc_dims m))"

definition master_code_facts :: "master_code \<Rightarrow> uuid \<times> master_code_dimensions \<times> pystr" where
  "master_code_facts m = (mc_id m, mc_dims m, mc_code m)"

lemma master_code_init_eq_Inr [res_simps]:
  "master_code_init m = Inr e \<longleftrightarrow> e = m \<and> master_code_times m \<and> mc_code m = compose (mc_dims m)
     \<and> (mc_deleted_at m = None \<longrightarrow> all_active (mc_dims m))"
proof (cases "mc_deleted_at m = None \<and> \<not> all_active (mc_dims m)")
  case True
  then obtain s where "first_deleted (mc_dims m) ORDER = Some s"
    using first_deleted_ORDER [of "mc_dims m"] by auto
  with True show ?thesis by (simp add: master_code_init_def)
next
  case False
  then have "(if mc_deleted_at m = None then first_deleted (mc_dims m) ORDER else None) = None"
    using first_deleted_ORDER [of "mc_dims m"] by auto
  moreover note False
  ultimately show ?thesis
    by (auto simp: master_code_init_def master_code_times_def state_times_def aware_eq_iff
        split: option.splits)
qed

lemma master_code_wf_init: "master_code_wf m \<Longrightarrow> master_code_init m = Inr m"
  by (simp add: res_simps master_code_wf_def)

lemma validate_lifecycle_timestamp_eq [res_simps]:
  "validate_lifecycle_timestamp m t = Inr u \<longleftrightarrow> is_aware t \<and> instant (mc_updated_at m) \<le> instant t"
  by (auto simp: validate_lifecycle_timestamp_def)

lemma master_code_times_next:
  assumes "master_code_times m" "is_aware t" "instant (mc_updated_at m) \<le> instant t"
  shows "master_code_times (m\<lparr>mc_deleted_at := Some t, mc_updated_at := t, mc_version := mc_version m + 1\<rparr>)"
    and "master_code_times (m\<lparr>mc_code := c, mc_deleted_at := None, mc_updated_at := t, mc_version := mc_version m + 1\<rparr>)"
    and "master_code_times (m\<lparr>mc_dims := ds, mc_code := c, mc_version := mc_version m + 1, mc_updated_at := t\<rparr>)"
  using assms state_times_next [of "mc_version m" "mc_created_at m" "mc_updated_at m" "mc_deleted_at m" t]
  by (auto simp: master_code_times_def)

lemma master_code_delete_eq_Inr:
  assumes "master_code_wf m"
  shows "master_code_delete m t = Inr e \<longleftrightarrow>
    mc_deleted_at m = None \<and> is_aware t \<and> instant (mc_updated_at m) \<le> instant t
    \<and> e = m\<lparr>mc_deleted_at := Some t, mc_updated_at := t, mc_version := mc_version m + 1\<rparr>"
  using assms master_code_times_next(1) [of m t]
  by (auto simp: master_code_delete_def res_simps master_code_wf_def)

lemma master_code_restore_eq_Inr:
  assumes "master_code_wf m"
  shows "master_code_restore m t = Inr e \<longleftrightarrow>
    mc_deleted_at m \<noteq> None \<and> all_active (mc_dims m) \<and> is_aware t \<and> instant (mc_updated_at m) \<le> instant t
    \<and> e = m\<lparr>mc_deleted_at := None, mc_updated_at := t, mc_version := mc_version m + 1\<rparr>"
  using assms master_code_times_next(2) [of m t "compose (mc_dims m)"]
  by (auto simp: master_code_restore_def res_simps master_code_wf_def)

interpretation mc_lc: lifecycle mc_version mc_created_at mc_updated_at mc_deleted_at
  master_code_facts "\<lambda>(i, dims, code). all_active dims" master_code_wf master_code_delete
  master_code_restore
proof (unfold_locales, goal_cases)
  case (1 a)
  then show ?case by (simp add: master_code_wf_def master_code_times_def)
next
  case (2 a)
  then show ?case by (simp add: master_code_wf_def master_code_facts_def)
next
  case (3 a t)
  then show ?case by (auto simp: is_ok_iff master_code_delete_eq_Inr)
next
  case (4 a t b)
  then show ?case
    using master_code_times_next(1) [of a t]
    by (auto simp: master_code_delete_eq_Inr master_code_facts_def) (simp add: master_code_wf_def)
next
  case (5 a t)
  then show ?case by (auto simp: is_ok_iff master_code_restore_eq_Inr master_code_facts_def)
next
  case (6 a t b)
  then show ?case
    using master_code_times_next(2) [of a t "mc_code a"]
    by (auto simp: master_code_restore_eq_Inr master_code_facts_def) (simp add: master_code_wf_def)
qed


lemma recompose_eq_Inr:
  assumes "master_code_wf m"
  shows "recompose m dims t = Inr e \<longleftrightarrow>
    dimension_ids dims = dimension_ids (mc_dims m)
    \<and> (if compose dims = mc_code m then e = m
       else is_aware t \<and> instant (mc_updated_at m) \<le> instant t
         \<and> (mc_deleted_at m = None \<longrightarrow> all_active dims)
         \<and> e = m\<lparr>mc_dims := dims, mc_code := compose dims, mc_version := mc_version m + 1,
                mc_updated_at := t\<rparr>)"
  using assms master_code_times_next(3) [of m t "compose dims" dims]
  by (auto simp: recompose_def res_simps master_code_wf_def Let_def)

lemma update_references_eq_Inr:
  assumes "master_code_wf m"
  shows "update_references m dims t = Inr e \<longleftrightarrow>
    mc_deleted_at m = None
    \<and> (if dimension_ids dims = dimension_ids (mc_dims m) then e = m
       else is_aware t \<and> instant (mc_updated_at m) \<le> instant t \<and> all_active dims
         \<and> e = m\<lparr>mc_dims := dims, mc_code := compose dims, mc_version := mc_version m + 1,
                mc_updated_at := t\<rparr>)"
proof (cases "mc_deleted_at m")
  case None
  then have "m\<lparr>mc_dims := dims, mc_code := c, mc_version := v, mc_updated_at := t, mc_deleted_at := None\<rparr>
    = m\<lparr>mc_dims := dims, mc_code := c, mc_version := v, mc_updated_at := t\<rparr>" for c v
    by (cases m) simp
  with None assms master_code_times_next(3) [of m t "compose dims" dims] show ?thesis
    by (auto simp: update_references_def res_simps master_code_wf_def master_code_times_def)
qed (simp add: update_references_def)


section \<open>Properties\<close>

text \<open>Recomposition after Dimension changes: given well-formed Dimensions with the same
  identities (all active if the MasterCode is) and a later time, \<open>recompose\<close> succeeds with a
  well-formed MasterCode that keeps its identity, creation time and deletion mark, whose code is
  the composition of the given Dimensions, and whose version grows by one exactly when the code
  changes. With other identities it raises the reference error and nothing else.\<close>

theorem recompose_correct:
  assumes "master_code_wf m" "dims_wf dims" "is_aware t" "instant (mc_updated_at m) \<le> instant t"
    and "mc_deleted_at m = None \<longrightarrow> all_active dims"
  shows "if dimension_ids dims = dimension_ids (mc_dims m)
    then \<exists>e. recompose m dims t = Inr e \<and> master_code_wf e \<and> mc_id e = mc_id m
      \<and> mc_created_at e = mc_created_at m \<and> mc_deleted_at e = mc_deleted_at m
      \<and> mc_code e = compose dims \<and> dimension_ids (mc_dims e) = dimension_ids (mc_dims m)
      \<and> mc_version e = mc_version m + (if compose dims = mc_code m then 0 else 1)
    else recompose m dims t = Inl (MasterCodeValidationError McPreserveReferences)"
proof (cases "dimension_ids dims = dimension_ids (mc_dims m)")
  case True
  define e where "e = (if compose dims = mc_code m then m
    else m\<lparr>mc_dims := dims, mc_code := compose dims, mc_version := mc_version m + 1, mc_updated_at := t\<rparr>)"
  have "recompose m dims t = Inr e"
    using True assms(3-5) by (simp add: recompose_eq_Inr [OF assms(1)] e_def)
  moreover have "master_code_wf e"
    using assms master_code_times_next(3) [of m t "compose dims" dims]
    by (simp add: e_def master_code_wf_def)
  ultimately show ?thesis using True by (auto simp: e_def)
qed (simp add: recompose_def)

definition sample_master_code :: master_code where
  "sample_master_code = \<lparr>mc_id = 1, mc_dims = (\<lambda>_. None)(Memory := Some sample_dimension),
     mc_code = lit ''NNN-NNN-NNN-NNN-NNN-M16-NNN-NNN'', mc_version = 1,
     mc_created_at = Aware 6, mc_updated_at = Aware 6, mc_deleted_at = None\<rparr>"

lemma sample_compose:
  "compose ((\<lambda>_. None)(Memory := Some d)) =
     lit ''NNN-NNN-NNN-NNN-NNN-'' @ dim_code d @ lit ''-NNN-NNN''"
  by (simp add: compose_def ordered_def ORDER_def NOT_APPLICABLE_CODE_def lit_def)

lemma sample_master_code_wf: "master_code_wf sample_master_code"
  using sample_dimension_wf
  by (auto simp: sample_master_code_def master_code_wf_def master_code_times_def state_times_def
      dims_wf_def all_active_def sample_compose)
     (auto simp: sample_dimension_def lit_def)

lemma sample_renamed_wf: "dims_wf ((\<lambda>_. None)(Memory := Some (sample_dimension\<lparr>dim_code := lit ''MEM''\<rparr>)))"
  using sample_dimension_wf
  by (auto simp: dims_wf_def dimension_wf_def dimension_times_def sample_dimension_def valid_code_def
      code_pattern_def lit_def is_alnum_def)

theorem recompose_correct_witness:
  "\<exists>e. recompose sample_master_code
      ((\<lambda>_. None)(Memory := Some (sample_dimension\<lparr>dim_code := lit ''MEM''\<rparr>))) (Aware 7) = Inr e
    \<and> mc_code e = lit ''NNN-NNN-NNN-NNN-NNN-MEM-NNN-NNN'' \<and> mc_version e = 2"
proof -
  let ?dims = "(\<lambda>_. None)(Memory := Some (sample_dimension\<lparr>dim_code := lit ''MEM''\<rparr>))"
  have "dimension_ids ?dims = dimension_ids (mc_dims sample_master_code)"
    by (simp add: dimension_ids_eq sample_master_code_def fun_eq_iff)
  moreover have "all_active ?dims"
    by (simp add: all_active_def sample_dimension_def)
  ultimately show ?thesis
    using recompose_correct [OF sample_master_code_wf sample_renamed_wf, of "Aware 7"]
    by (auto simp: sample_compose sample_master_code_def lit_def)
qed

text \<open>Reference replacement on a well-formed MasterCode: a deleted MasterCode is refused;
  with the identities it already has it is returned unchanged; otherwise, for well-formed active
  Dimensions and a later time, it succeeds with a well-formed MasterCode whose slots are exactly
  the given ones, whose code is their composition and whose version has grown by one.\<close>

theorem update_references_correct:
  assumes "master_code_wf m" "dims_wf dims" "all_active dims"
    and "is_aware t" "instant (mc_updated_at m) \<le> instant t"
  shows "if mc_deleted_at m \<noteq> None
    then update_references m dims t = Inl (MasterCodeValidationError McDeletedReferences)
    else if dimension_ids dims = dimension_ids (mc_dims m) then update_references m dims t = Inr m
    else \<exists>e. update_references m dims t = Inr e \<and> master_code_wf e \<and> mc_id e = mc_id m
      \<and> mc_dims e = dims \<and> mc_code e = compose dims \<and> mc_version e = mc_version m + 1
      \<and> mc_created_at e = mc_created_at m \<and> mc_updated_at e = t \<and> mc_deleted_at e = None"
proof -
  have "master_code_wf (m\<lparr>mc_dims := dims, mc_code := compose dims, mc_version := mc_version m + 1,
      mc_updated_at := t\<rparr>)"
    using assms master_code_times_next(3) [of m t "compose dims" dims]
    by (simp add: master_code_wf_def)
  then show ?thesis
    using assms(3-5) by (auto simp: update_references_eq_Inr [OF assms(1)]) (simp add: update_references_def)
qed

theorem update_references_correct_witness:
  "\<exists>e. update_references sample_master_code (\<lambda>_. None) (Aware 8) = Inr e
     \<and> mc_code e = lit ''NNN-NNN-NNN-NNN-NNN-NNN-NNN-NNN'' \<and> mc_version e = 2"
proof -
  have "dims_wf (\<lambda>_. None)" "all_active (\<lambda>_. None)" by (simp_all add: dims_wf_def all_active_def)
  moreover have "dimension_ids (\<lambda>_. None) \<noteq> dimension_ids (mc_dims sample_master_code)"
    by (simp add: dimension_ids_eq sample_master_code_def fun_eq_iff)
  moreover have "compose (\<lambda>_. None) = lit ''NNN-NNN-NNN-NNN-NNN-NNN-NNN-NNN''"
    by (simp add: compose_def ordered_def ORDER_def NOT_APPLICABLE_CODE_def lit_def)
  ultimately show ?thesis
    using update_references_correct [OF sample_master_code_wf, of "\<lambda>_. None" "Aware 8"]
    by (auto simp: sample_master_code_def)
qed

text \<open>Deleting a well-formed MasterCode at a time not before its last update succeeds, a
  second deletion does not, and restoring it at any later time gives back the same identity,
  references and code, active, two versions later.\<close>

theorem master_code_delete_restore:
  assumes "master_code_wf m" "mc_deleted_at m = None"
    and "is_aware t" "instant (mc_updated_at m) \<le> instant t" "is_aware u" "instant t \<le> instant u"
  shows "\<exists>d r. master_code_delete m t = Inr d \<and> mc_deleted_at d = Some t \<and> \<not> is_ok (master_code_delete d u)
    \<and> master_code_restore d u = Inr r \<and> master_code_wf r \<and> master_code_facts r = master_code_facts m
    \<and> mc_deleted_at r = None \<and> mc_version r = mc_version m + 2"
proof -
  obtain d where d: "master_code_delete m t = Inr d"
    using mc_lc.delete_succeeds [OF assms(1), of t] assms(2-4) by (auto simp: is_ok_iff)
  from mc_lc.delete_restore_round_trip [OF assms(1) d assms(5,6)] mc_lc.delete_state [OF assms(1) d]
    mc_lc.delete_once [OF assms(1) d] d
  show ?thesis by blast
qed

theorem master_code_delete_restore_witness:
  "\<exists>d r. master_code_delete sample_master_code (Aware 7) = Inr d
     \<and> master_code_restore d (Aware 9) = Inr r \<and> mc_version r = 3"
  using master_code_delete_restore [OF sample_master_code_wf, of "Aware 7" "Aware 9"]
  by (auto simp: sample_master_code_def)

end
