(* ===== verification/Auth.thy ===== *)
theory Auth
  imports Errors
begin

text \<open>
  \<open>src/mdm/domain/auth.py\<close> (roles, status, user snapshot, security events) and
  \<open>src/mdm/application/authorization.py\<close> (the closed role matrix and the role-change rule).
  Unicode normalisation (NFC), case folding and the \<open>email_validator\<close> package are
  parameters of the operations that call them.
\<close>

section \<open>Domain values\<close>

datatype user_role = USER | ADMIN | SUPER_ADMIN

datatype user_status = ACTIVE | DISABLED

datatype security_event_type =
    INITIAL_SUPER_ADMIN_BOOTSTRAPPED
  | USER_ROLE_CHANGED
  | USER_DISABLED
  | USER_ENABLED
  | PASSWORD_CHANGED
  | PASSWORD_RESET

datatype initiator_type = AUTHENTICATED_USER | RESET_TOKEN | BOOTSTRAP_CLI

text \<open>\<open>str.strip()\<close>: the code points Python treats as white space.\<close>

definition is_space :: "nat \<Rightarrow> bool" where
  "is_space c \<longleftrightarrow> (9 \<le> c \<and> c \<le> 13) \<or> (28 \<le> c \<and> c \<le> 32) \<or> c = 0x85 \<or> c = 0xA0 \<or> c = 0x1680
     \<or> (0x2000 \<le> c \<and> c \<le> 0x200A) \<or> c = 0x2028 \<or> c = 0x2029 \<or> c = 0x202F \<or> c = 0x205F \<or> c = 0x3000"

definition strip_ws :: "pystr \<Rightarrow> pystr" where
  "strip_ws s = rev (dropWhile is_space (rev (dropWhile is_space s)))"

text \<open>
  \<open>normalize_email\<close>: \<open>validate\<close> is \<open>validate_email\<close>, which returns the local part and the
  optional ASCII domain, or nothing for \<open>EmailNotValidError\<close>; \<open>lower\<close> is applied to ASCII.
\<close>

definition lower_ascii :: "pystr \<Rightarrow> pystr" where
  "lower_ascii s = map (\<lambda>c. if 65 \<le> c \<and> c \<le> 90 then c + 32 else c) s"

definition normalize_email ::
    "(pystr \<Rightarrow> pystr) \<Rightarrow> (pystr \<Rightarrow> pystr) \<Rightarrow> (pystr \<Rightarrow> (pystr \<times> pystr option) option) \<Rightarrow> pystr \<Rightarrow> pystr res" where
  "normalize_email nfc casefold validate v =
     (case validate (nfc (strip_ws v)) of
        None \<Rightarrow> Inl AuthInvariantError
      | Some (local_part, None) \<Rightarrow> Inl AuthInvariantError
      | Some (local_part, Some ascii_domain) \<Rightarrow>
          let normalized = casefold (nfc local_part) @ 64 # lower_ascii ascii_domain
          in if length normalized > 254 then Inl AuthInvariantError else Inr normalized)"

definition display_name :: "(pystr \<Rightarrow> pystr) \<Rightarrow> pystr \<Rightarrow> pystr res" where
  "display_name nfc v =
     (let normalized = strip_ws (nfc v) in
      if \<not> (1 \<le> length normalized \<and> length normalized \<le> 100) then Inl AuthInvariantError
      else if has_cc normalized then Inl AuthInvariantError
      else Inr normalized)"

definition plain_password :: "(pystr \<Rightarrow> pystr) \<Rightarrow> pystr \<Rightarrow> pystr res" where
  "plain_password nfc v =
     (let normalized = nfc v in
      if \<not> (15 \<le> length normalized \<and> length normalized \<le> 128) then Inl AuthInvariantError
      else Inr normalized)"

record user =
  user_id :: uuid
  user_email :: pystr
  user_name :: pystr
  user_password_hash :: pystr
  user_role :: user_role
  user_status :: user_status
  user_created_at :: datetime
  user_updated_at :: datetime

definition user_init :: "user \<Rightarrow> user res" where
  "user_init u =
     (if user_password_hash u = [] then Inl AuthInvariantError
      else if \<not> is_aware (user_created_at u) \<or> \<not> is_aware (user_updated_at u)
      then Inl AuthInvariantError
      else if instant (user_updated_at u) < instant (user_created_at u) then Inl AuthInvariantError
      else Inr u)"

record security_event =
  ev_id :: uuid
  ev_type :: security_event_type
  ev_subject :: uuid
  ev_occurred_at :: datetime
  ev_initiator :: initiator_type
  ev_initiator_user :: "uuid option"
  ev_initiator_role :: "user_role option"
  ev_previous_role :: "user_role option"
  ev_new_role :: "user_role option"
  ev_previous_status :: "user_status option"
  ev_new_status :: "user_status option"

definition validate_security_event_contract :: "security_event \<Rightarrow> unit res" where
  "validate_security_event_contract e =
     (let authenticated = (ev_initiator e = AUTHENTICATED_USER);
          has_identity = (ev_initiator_user e \<noteq> None \<and> ev_initiator_role e \<noteq> None);
          lacks_identity = (ev_initiator_user e = None \<and> ev_initiator_role e = None);
          role_transition = (ev_previous_role e, ev_new_role e);
          status_transition = (ev_previous_status e, ev_new_status e)
      in if (authenticated \<and> \<not> has_identity) \<or> (\<not> authenticated \<and> \<not> lacks_identity)
         then Inl AuthInvariantError
         else let valid =
           (case ev_type e of
              INITIAL_SUPER_ADMIN_BOOTSTRAPPED \<Rightarrow>
                ev_initiator e = BOOTSTRAP_CLI \<and> role_transition = (None, Some SUPER_ADMIN)
                \<and> status_transition = (None, Some ACTIVE)
            | USER_ROLE_CHANGED \<Rightarrow>
                authenticated \<and> ev_previous_role e \<noteq> None \<and> ev_new_role e \<noteq> None
                \<and> ev_previous_role e \<noteq> ev_new_role e \<and> status_transition = (None, None)
            | USER_DISABLED \<Rightarrow>
                authenticated \<and> role_transition = (None, None)
                \<and> status_transition = (Some ACTIVE, Some DISABLED)
            | USER_ENABLED \<Rightarrow>
                authenticated \<and> role_transition = (None, None)
                \<and> status_transition = (Some DISABLED, Some ACTIVE)
            | PASSWORD_CHANGED \<Rightarrow>
                authenticated \<and> role_transition = (None, None) \<and> status_transition = (None, None)
            | PASSWORD_RESET \<Rightarrow>
                ev_initiator e = RESET_TOKEN \<and> role_transition = (None, None)
                \<and> status_transition = (None, None))
         in if \<not> valid then Inl AuthInvariantError else Inr ())"

definition security_event_init :: "security_event \<Rightarrow> security_event res" where
  "security_event_init e =
     (if \<not> is_aware (ev_occurred_at e) then Inl AuthInvariantError
      else bindE (validate_security_event_contract e) (\<lambda>_. Inr e))"


section \<open>Authorization\<close>

record human_principal =
  principal_user_id :: uuid
  principal_role :: user_role

datatype authorization_action =
    READ_DATA
  | SUBMIT_CREATE_REQUEST
  | SUBMIT_REFERENCE_UPDATE_REQUEST
  | SUBMIT_DELETE_REQUEST
  | MUTATE_DATA
  | REVIEW_CHANGE_REQUEST
  | READ_TOMBSTONE
  | READ_AUDIT_LOG
  | READ_USERS
  | MANAGE_USER_ROLES
  | MANAGE_USER_STATUS

definition USER_ACTIONS :: "authorization_action list" where
  "USER_ACTIONS = [READ_DATA, SUBMIT_CREATE_REQUEST, SUBMIT_REFERENCE_UPDATE_REQUEST, SUBMIT_DELETE_REQUEST]"

definition ADMIN_ACTIONS :: "authorization_action list" where
  "ADMIN_ACTIONS = [READ_DATA, MUTATE_DATA, REVIEW_CHANGE_REQUEST, READ_TOMBSTONE, READ_AUDIT_LOG,
     READ_USERS, MANAGE_USER_ROLES]"

fun ALLOWED_ACTIONS :: "user_role \<Rightarrow> authorization_action list" where
  "ALLOWED_ACTIONS USER = USER_ACTIONS"
| "ALLOWED_ACTIONS ADMIN = ADMIN_ACTIONS"
| "ALLOWED_ACTIONS SUPER_ADMIN = ADMIN_ACTIONS @ [MANAGE_USER_STATUS]"

fun ROLE_RANK :: "user_role \<Rightarrow> nat" where
  "ROLE_RANK USER = 0"
| "ROLE_RANK ADMIN = 1"
| "ROLE_RANK SUPER_ADMIN = 2"

definition authorize :: "human_principal \<Rightarrow> authorization_action \<Rightarrow> human_principal res" where
  "authorize p action =
     (if action \<notin> set (ALLOWED_ACTIONS (principal_role p)) then Inl AuthorizationDenied else Inr p)"

definition authorize_role_change ::
    "human_principal \<Rightarrow> uuid \<Rightarrow> user_role \<Rightarrow> user_role \<Rightarrow> human_principal res" where
  "authorize_role_change p target_user_id target_role new_role =
     bindE (authorize p MANAGE_USER_ROLES) (\<lambda>_.
       if target_user_id = principal_user_id p then Inl AuthorizationDenied
       else if principal_role p = SUPER_ADMIN then Inr p
       else let actor_rank = ROLE_RANK (principal_role p) in
         if ROLE_RANK target_role \<ge> actor_rank \<or> ROLE_RANK new_role > actor_rank
         then Inl AuthorizationDenied
         else Inr p)"

lemmas authorization_defs =
  authorize_def authorize_role_change_def USER_ACTIONS_def ADMIN_ACTIONS_def

lemma authorize_eq_Inr [res_simps]:
  "authorize p a = Inr q \<longleftrightarrow> q = p \<and> a \<in> set (ALLOWED_ACTIONS (principal_role p))"
  by (auto simp: authorize_def)

text \<open>Role changes never escalate: whoever is allowed to change a role is an administrator
  and not the target; an ADMIN only changes users strictly below ADMIN and grants at most ADMIN;
  only a SUPER_ADMIN can touch an ADMIN or SUPER_ADMIN or create a SUPER_ADMIN. Conversely every
  such change is allowed, and the returned principal is the given one.\<close>

theorem authorize_role_change_sound:
  "authorize_role_change p target old new = Inr q \<longleftrightarrow>
     q = p \<and> target \<noteq> principal_user_id p
     \<and> (principal_role p = SUPER_ADMIN
        \<or> (principal_role p = ADMIN \<and> old = USER \<and> new \<noteq> SUPER_ADMIN))"
  by (cases "principal_role p"; cases old; cases new)
     (auto simp: authorization_defs Let_def)

text \<open>The role matrix: administrators never submit change requests and plain users never
  mutate data, review requests, read tombstones, logs or accounts; every role reads data; only a
  SUPER_ADMIN changes account status, and it may do everything an ADMIN may.\<close>

theorem authorization_matrix:
  "is_ok (authorize p a) \<longleftrightarrow>
     (case a of
        READ_DATA \<Rightarrow> True
      | SUBMIT_CREATE_REQUEST \<Rightarrow> principal_role p = USER
      | SUBMIT_REFERENCE_UPDATE_REQUEST \<Rightarrow> principal_role p = USER
      | SUBMIT_DELETE_REQUEST \<Rightarrow> principal_role p = USER
      | MANAGE_USER_STATUS \<Rightarrow> principal_role p = SUPER_ADMIN
      | _ \<Rightarrow> principal_role p \<noteq> USER)"
  by (cases "principal_role p"; cases a) (auto simp: is_ok_iff res_simps authorization_defs)

lemma security_event_role_change:
  assumes "security_event_init e = Inr e'" "ev_type e = USER_ROLE_CHANGED"
  shows "ev_initiator e = AUTHENTICATED_USER \<and> ev_initiator_user e \<noteq> None
    \<and> ev_previous_role e \<noteq> ev_new_role e \<and> ev_new_role e \<noteq> None"
  using assms by (auto simp: security_event_init_def validate_security_event_contract_def Let_def
      res_simps split: if_splits)

end
