(* ===== verification/Audit_Metadata.thy ===== *)
theory Audit_Metadata
  imports Auth
begin

text \<open>
  \<open>src/mdm/domain/audit.py\<close> and \<open>src/mdm/application/audit.py\<close>: the metadata of one
  mutation, and \<open>src/mdm/infrastructure/uuid7.py\<close>, which generates its change-set id.
\<close>

unbundle bit_operations_syntax

section \<open>UUID versions\<close>

text \<open>\<open>UUID.version\<close>: the four version bits of an RFC 4122 variant UUID.\<close>

definition uuid_version :: "uuid \<Rightarrow> nat option" where
  "uuid_version u = (if bit u 63 \<and> \<not> bit u 62 then Some (unat (drop_bit 76 u AND 15)) else None)"

definition uuid7_new :: "int \<Rightarrow> int \<Rightarrow> int \<Rightarrow> uuid res" where
  "uuid7_new timestamp random_a random_b =
     (if \<not> (0 \<le> timestamp \<and> timestamp < 2 ^ 48) then Inl ValueError
      else if \<not> (0 \<le> random_a \<and> random_a < 2 ^ 12) \<or> \<not> (0 \<le> random_b \<and> random_b < 2 ^ 62)
      then Inl ValueError
      else Inr (word_of_int (push_bit 80 timestamp OR push_bit 76 7 OR push_bit 64 random_a
                  OR push_bit 62 2 OR random_b)))"

section \<open>Actors and metadata\<close>

datatype actor_kind = HUMAN | SYSTEM

datatype dimension_operation = DIM_CREATE | DIM_UPDATE | DIM_DELETE | DIM_RESTORE

datatype master_code_operation = MC_CREATE | MC_REFERENCE_UPDATE | MC_RECOMPOSE | MC_DELETE | MC_RESTORE

record audit_actor =
  actor_kind :: actor_kind
  actor_id :: pystr
  actor_role :: "user_role option"

definition of_digits :: "nat \<Rightarrow> nat list \<Rightarrow> nat" where
  "of_digits b ds = foldl (\<lambda>n d. n * b + d) 0 ds"

definition hex_value :: "nat \<Rightarrow> nat" where
  "hex_value c = (if c \<le> 57 then c - 48 else c - 87)"

text \<open>
  \<open>UUID(text)\<close> followed by the comparison with \<open>str(user_id)\<close>: the text is accepted when it is
  the canonical text of the UUID its hexadecimal digits denote.
\<close>

definition canonical_uuid :: "pystr \<Rightarrow> uuid option" where
  "canonical_uuid s =
     (let u = of_nat (of_digits 16 (map hex_value (filter (\<lambda>c. c \<noteq> 45) s)))
      in if str_uuid u = s then Some u else None)"

definition audit_actor_init :: "audit_actor \<Rightarrow> audit_actor res" where
  "audit_actor_init a =
     (if \<not> (1 \<le> length (actor_id a) \<and> length (actor_id a) \<le> 255) then Inl AuditInvariantError
      else if strip_ch 32 (actor_id a) \<noteq> actor_id a then Inl AuditInvariantError
      else if actor_kind a = HUMAN then
        (if actor_role a = None then Inl AuditInvariantError
         else if canonical_uuid (actor_id a) = None then Inl AuditInvariantError
         else Inr a)
      else if actor_role a \<noteq> None then Inl AuditInvariantError
      else Inr a)"

definition audit_actor_human :: "uuid \<Rightarrow> user_role \<Rightarrow> audit_actor res" where
  "audit_actor_human uid role =
     audit_actor_init \<lparr>actor_kind = HUMAN, actor_id = str_uuid uid, actor_role = Some role\<rparr>"

record mutation_operations =
  op_dimension :: "dimension_operation option"
  op_master_code :: "master_code_operation option"

definition mutation_operations_init :: "mutation_operations \<Rightarrow> mutation_operations res" where
  "mutation_operations_init ops =
     (if op_dimension ops = None \<and> op_master_code ops = None then Inl AuditInvariantError else Inr ops)"

definition normalize_reason :: "pystr option \<Rightarrow> pystr option res" where
  "normalize_reason v =
     (case v of
        None \<Rightarrow> Inr None
      | Some s \<Rightarrow>
          let normalized = strip_ch 32 s in
          if normalized = [] then Inr None
          else if length normalized > 500 then Inl AuditInvariantError
          else if has_cc normalized then Inl AuditInvariantError
          else Inr (Some normalized))"

record audit_metadata =
  change_set_id :: uuid
  audit_actor :: audit_actor
  operations :: mutation_operations
  reason :: "pystr option"

definition audit_metadata_init :: "audit_metadata \<Rightarrow> audit_metadata res" where
  "audit_metadata_init m =
     (if uuid_version (change_set_id m) \<noteq> Some 7 then Inl AuditInvariantError
      else bindE (normalize_reason (reason m)) (\<lambda>r. Inr (m\<lparr>reason := r\<rparr>)))"

text \<open>\<open>HumanMutationAuditFactory.create\<close>, given the next change-set id.\<close>

definition audit_factory_create ::
    "uuid \<Rightarrow> human_principal \<Rightarrow> dimension_operation option \<Rightarrow> master_code_operation option
       \<Rightarrow> pystr option \<Rightarrow> audit_metadata res" where
  "audit_factory_create next_change_set_id p dim_op mc_op r =
     bindE (audit_actor_human (principal_user_id p) (principal_role p)) (\<lambda>actor.
     bindE (mutation_operations_init \<lparr>op_dimension = dim_op, op_master_code = mc_op\<rparr>) (\<lambda>ops.
       audit_metadata_init \<lparr>change_set_id = next_change_set_id, audit_actor = actor,
         operations = ops, reason = r\<rparr>))"


section \<open>Lemmas\<close>

lemma of_digits_snoc: "of_digits b (ds @ [d]) = of_digits b ds * b + d"
  by (simp add: of_digits_def)

lemma of_digits_digits_n: "0 < b \<Longrightarrow> of_digits b (digits_n b n k) = k mod b ^ n"
proof (induction n arbitrary: k)
  case 0
  then show ?case by (simp add: of_digits_def)
next
  case (Suc n)
  then have "of_digits b (digits_n b (Suc n) k) = (k div b mod b ^ n) * b + k mod b"
    by (simp add: of_digits_snoc)
  also have "\<dots> = k mod b ^ Suc n"
    by (simp add: mod_mult2_eq mult.commute)
  finally show ?case .
qed

lemma hex_value_digit: "d < 16 \<Longrightarrow> hex_value (hex_digit d) = d"
  by (simp add: hex_value_def hex_digit_def)

lemma filter_joined:
  "\<forall>p \<in> set ps. c \<notin> set p \<Longrightarrow> filter (\<lambda>x. x \<noteq> c) (joined c ps) = concat ps"
proof (induction ps)
  case (Cons p ps)
  moreover have "filter (\<lambda>x. x \<noteq> c) p = p"
    using Cons.prems by (simp add: filter_id_conv) metis
  ultimately show ?case by (cases ps) auto
qed simp

lemma filter_str_uuid: "filter (\<lambda>c. c \<noteq> 45) (str_uuid u) = uuid_hex u"
proof -
  have "45 \<notin> set (uuid_hex u)" using set_uuid_hex [of u] by auto
  then have "\<forall>p \<in> set (chunks [8, 4, 4, 4, 12] (uuid_hex u)). 45 \<notin> set p"
    using set_chunks by (metis subsetD)
  then show ?thesis
    unfolding str_uuid_def by (simp add: filter_joined concat_chunks del: chunks.simps joined.simps)
qed

lemma canonical_uuid_str_uuid [simp]: "canonical_uuid (str_uuid u) = Some u"
proof -
  have "map hex_value (uuid_hex u) = digits_n 16 32 (unat u)"
    using set_digits_n [of 16 32 "unat u"]
    by (auto simp: uuid_hex_def hex_value_digit intro!: map_idI)
  moreover have "unat u < 16 ^ 32"
  proof -
    have "unat u < 2 ^ LENGTH(128)" by (rule unsigned_less)
    then show ?thesis by simp
  qed
  ultimately have "of_nat (of_digits 16 (map hex_value (uuid_hex u))) = u"
    by (simp add: of_digits_digits_n)
  then show ?thesis by (simp add: canonical_uuid_def filter_str_uuid)
qed

lemma canonical_uuid_eq_Some: "canonical_uuid s = Some u \<longleftrightarrow> s = str_uuid u"
proof
  assume "canonical_uuid s = Some u"
  then show "s = str_uuid u" by (simp add: canonical_uuid_def Let_def split: if_splits)
qed simp

lemma length_str_uuid: "length (str_uuid u) = 36"
  by (simp add: str_uuid_def length_joined del: joined.simps)

lemma audit_actor_human_ok: "\<exists>a. audit_actor_human uid role = Inr a \<and> actor_id a = str_uuid uid
    \<and> actor_kind a = HUMAN \<and> actor_role a = Some role"
proof -
  have "32 \<notin> set (str_uuid uid)" using set_str_uuid [of uid] by auto
  then have "str_uuid uid = [] \<or> (hd (str_uuid uid) \<noteq> 32 \<and> last (str_uuid uid) \<noteq> 32)"
    by (metis hd_in_set last_in_set)
  then have "strip_ch 32 (str_uuid uid) = str_uuid uid" by (rule strip_ch_id)
  then show ?thesis by (simp add: audit_actor_human_def audit_actor_init_def length_str_uuid)
qed


lemma push_bit_or_eq_add:
  fixes a b :: int
  assumes "0 \<le> b" "b < 2 ^ n"
  shows "push_bit n a OR b = a * 2 ^ n + b"
proof -
  have "push_bit n a AND b = 0"
  proof (rule bit_eqI)
    fix m
    have "take_bit n b = b" using assms by (simp add: take_bit_int_eq_self)
    then have "bit b m \<Longrightarrow> m < n" by (metis bit_take_bit_iff)
    then show "bit (push_bit n a AND b) m = bit 0 m"
      by (auto simp: bit_simps)
  qed
  then show ?thesis by (metis disjunctive_add_eq_or push_bit_eq_mult)
qed

lemma uuid7_new_value:
  assumes "uuid7_new ts a b = Inr u"
  shows "uint u = ts * 2 ^ 80 + 7 * 2 ^ 76 + a * 2 ^ 64 + 2 ^ 63 + b"
    and "0 \<le> ts" "ts < 2 ^ 48" "0 \<le> a" "a < 2 ^ 12" "0 \<le> b" "b < 2 ^ 62"
proof -
  show r: "0 \<le> ts" "ts < 2 ^ 48" "0 \<le> a" "a < 2 ^ 12" "0 \<le> b" "b < 2 ^ 62"
    using assms by (auto simp: uuid7_new_def split: if_splits)
  have "push_bit 62 2 OR b = 2 * 2 ^ 62 + b"
    using r by (intro push_bit_or_eq_add)
  then have 1: "push_bit 64 a OR (push_bit 62 2 OR b) = a * 2 ^ 64 + (2 * 2 ^ 62 + b)"
    using r push_bit_or_eq_add [of "2 * 2 ^ 62 + b" 64 a] by simp
  have 2: "push_bit 76 7 OR (a * 2 ^ 64 + (2 * 2 ^ 62 + b)) = 7 * 2 ^ 76 + (a * 2 ^ 64 + (2 * 2 ^ 62 + b))"
    by (rule push_bit_or_eq_add) (use r in simp_all)
  have 3: "push_bit 80 ts OR (7 * 2 ^ 76 + (a * 2 ^ 64 + (2 * 2 ^ 62 + b)))
      = ts * 2 ^ 80 + (7 * 2 ^ 76 + (a * 2 ^ 64 + (2 * 2 ^ 62 + b)))"
    by (rule push_bit_or_eq_add) (use r in simp_all)
  define v where "v = ts * 2 ^ 80 + (7 * 2 ^ 76 + (a * 2 ^ 64 + (2 * 2 ^ 62 + b)))"
  have v: "push_bit 80 ts OR push_bit 76 7 OR push_bit 64 a OR push_bit 62 2 OR b = v"
    by (simp only: or.assoc 1 2 3 v_def)
  have "u = word_of_int v"
    using assms r unfolding uuid7_new_def v by simp
  moreover have "0 \<le> v" "v < 2 ^ 128" using r by (simp_all add: v_def)
  ultimately have "uint u = v" by (simp add: take_bit_int_eq_self unsigned_of_int)
  then show "uint u = ts * 2 ^ 80 + 7 * 2 ^ 76 + a * 2 ^ 64 + 2 ^ 63 + b"
    by (simp add: v_def)
qed

lemma uuid7_new_version:
  assumes "uuid7_new ts a b = Inr u"
  shows "uuid_version u = Some 7"
proof -
  note v = uuid7_new_value [OF assms]
  define w where "w = ts * 2 ^ 80 + 7 * 2 ^ 76 + a * 2 ^ 64 + 2 ^ 63 + b"
  have "w div 2 ^ 63 = 2 * (ts * 2 ^ 16 + 7 * 2 ^ 12 + a) + 1"
    by (rule int_div_pos_eq [where r = b]) (use v(2-7) in \<open>simp_all add: w_def\<close>)
  moreover have "w div 2 ^ 62 = 2 * (2 * (ts * 2 ^ 16 + 7 * 2 ^ 12 + a) + 1)"
    by (rule int_div_pos_eq [where r = b]) (use v(2-7) in \<open>simp_all add: w_def\<close>)
  ultimately have odd: "odd (w div 2 ^ 63)" "even (w div 2 ^ 62)" by simp_all
  have bit: "bit u n \<longleftrightarrow> odd (w div 2 ^ n)" if "n < 128" for n
    using that bit_uint_iff [of u n] v(1) unfolding w_def by (simp add: bit_iff_odd)
  have "w div 2 ^ 76 = ts * 16 + 7"
    by (rule int_div_pos_eq [where r = "a * 2 ^ 64 + 2 ^ 63 + b"]) (use v(2-7) in \<open>simp_all add: w_def\<close>)
  then have "uint (drop_bit 76 u) = ts * 16 + 7"
    using v(1) by (simp add: drop_bit_eq_div uint_div w_def)
  moreover have "x AND 15 = x mod 16" for x :: int
    using take_bit_eq_mask [of 4 x] by (simp add: take_bit_eq_mod mask_eq_exp_minus_1)
  ultimately have "uint (drop_bit 76 u AND 15) = 7"
    by (simp add: uint_and)
  then have "unat (drop_bit 76 u AND 15) = 7"
    by (simp add: unat_eq_nat_uint)
  then show ?thesis using bit [of 63] bit [of 62] odd by (simp add: uuid_version_def)
qed


lemma uuid7_new_time:
  assumes "uuid7_new ts a b = Inr u"
  shows "uint u div 2 ^ 80 = ts"
  by (rule int_div_pos_eq [where r = "7 * 2 ^ 76 + a * 2 ^ 64 + 2 ^ 63 + b"])
     (use uuid7_new_value [OF assms] in simp_all)

lemma normalize_reason_fixed:
  "normalize_reason r = Inr r' \<Longrightarrow> normalize_reason r' = Inr r'"
  by (auto simp: normalize_reason_def Let_def split: option.splits if_splits)

lemma audit_factory_create_eq:
  assumes "uuid_version cs = Some 7" "dim_op \<noteq> None \<or> mc_op \<noteq> None"
  shows "audit_factory_create cs p dim_op mc_op r =
    bindE (normalize_reason r) (\<lambda>r'. Inr \<lparr>change_set_id = cs,
      audit_actor = \<lparr>actor_kind = HUMAN, actor_id = str_uuid (principal_user_id p),
                     actor_role = Some (principal_role p)\<rparr>,
      operations = \<lparr>op_dimension = dim_op, op_master_code = mc_op\<rparr>, reason = r'\<rparr>)"
proof -
  obtain a where "audit_actor_human (principal_user_id p) (principal_role p) = Inr a"
    and "a = \<lparr>actor_kind = HUMAN, actor_id = str_uuid (principal_user_id p),
                     actor_role = Some (principal_role p)\<rparr>"
    using audit_actor_human_ok [of "principal_user_id p" "principal_role p"] by auto
  with assms show ?thesis
    by (auto simp: audit_factory_create_def mutation_operations_init_def audit_metadata_init_def
        intro: bindE_cong)
qed

section \<open>Properties\<close>

text \<open>A generated change-set id is always a UUID of version 7 that carries its
  millisecond timestamp in the upper 48 bits, ids generated in a later millisecond are
  greater, and the audit factory accepts it: for a mutation with at least one operation and an
  admissible reason it returns metadata naming the acting user, the role and the operations.\<close>

theorem uuid7_change_set:
  assumes "uuid7_new ts a b = Inr u" "uuid7_new ts' a' b' = Inr u'"
    and "dim_op \<noteq> None \<or> mc_op \<noteq> None" "normalize_reason r = Inr r'"
  shows "uuid_version u = Some 7 \<and> uint u div 2 ^ 80 = ts \<and> (ts < ts' \<longrightarrow> u < u')
    \<and> (\<exists>m. audit_factory_create u p dim_op mc_op r = Inr m
         \<and> canonical_uuid (actor_id (audit_actor m)) = Some (principal_user_id p)
         \<and> actor_role (audit_actor m) = Some (principal_role p)
         \<and> operations m = \<lparr>op_dimension = dim_op, op_master_code = mc_op\<rparr>
         \<and> reason m = r' \<and> change_set_id m = u)"
proof -
  have "ts < ts' \<Longrightarrow> uint u < uint u'"
    using uuid7_new_time [OF assms(1)] uuid7_new_time [OF assms(2)]
    by (metis linorder_not_less zdiv_mono1 zero_less_numeral zero_less_power)
  then show ?thesis
    using uuid7_new_time [OF assms(1)] uuid7_new_version [OF assms(1)] assms(3,4)
    by (simp add: audit_factory_create_eq word_less_def)
qed

theorem uuid7_change_set_witness:
  "\<exists>u u'. uuid7_new 5 1 1 = Inr u \<and> uuid7_new 6 0 0 = Inr u' \<and> u < u'
    \<and> is_ok (audit_factory_create u \<lparr>principal_user_id = 3, principal_role = ADMIN\<rparr>
              (Some DIM_CREATE) None (Some (lit '' why '')))"
proof -
  obtain u u' where u: "uuid7_new 5 1 1 = Inr u" and u': "uuid7_new 6 0 0 = Inr u'"
    by (simp add: uuid7_new_def)
  moreover have "normalize_reason (Some (lit '' why '')) = Inr (Some (lit ''why''))"
    by (simp add: normalize_reason_def lit_def strip_ch_def has_cc_def)
  ultimately show ?thesis
    using uuid7_change_set [OF u u', of "Some DIM_CREATE" None "Some (lit '' why '')" "Some (lit ''why'')"
      "\<lparr>principal_user_id = 3, principal_role = ADMIN\<rparr>"]
    by (auto simp: is_ok_iff)
qed

end
