(* ===== verification/Store.thy ===== *)
theory Store
  imports MasterCode_Laws Audit_Metadata "HOL-Library.Product_Lexorder"
begin

text \<open>
  The PostgreSQL tables the Dimension and MasterCode repositories use, as lists of rows,
  with the constraints of \<open>src/mdm/infrastructure/models.py\<close> and the triggers the
  migrations under \<open>alembic/versions\<close> install (the definitions in force after the last
  migration): the guards that run before a row is written and the log rows written after
  it. The mutation context a transaction installs (\<open>audit_context.py\<close>) is an explicit
  argument of every write.

  A write returns the new database or the driver's error; a transaction is a function of
  the database whose error leaves the caller's database unchanged. Timestamps of rows are
  instants (\<open>TIMESTAMPTZ\<close>, microseconds).
\<close>

section \<open>Rows\<close>

text \<open>The value columns: \<open>value\<close> of a text or numeric table, \<open>amount\<close> and \<open>unit\<close> of the memory table.\<close>

datatype raw_value = RText pystr | RInt int | RMem int pystr

record dim_row =
  r_id :: uuid
  r_code :: pystr
  r_value :: raw_value
  r_version :: int
  r_created :: int
  r_updated :: int
  r_deleted :: "int option"

record mc_row =
  m_id :: uuid
  m_refs :: "slot \<Rightarrow> uuid option"
  m_code :: pystr
  m_version :: int
  m_created :: int
  m_updated :: int
  m_deleted :: "int option"

definition unit_of_text :: "pystr \<Rightarrow> memory_unit option" where
  "unit_of_text s = find (\<lambda>u. unit_text u = s) memory_units"

text \<open>The unique value column: the computed \<open>capacity_mb\<close> for memory, else the value itself.\<close>

fun value_key :: "raw_value \<Rightarrow> raw_value" where
  "value_key (RMem a u) = (case unit_of_text u of Some mu \<Rightarrow> RInt (a * unit_multiplier mu) | None \<Rightarrow> RMem a u)"
| "value_key v = v"

text \<open>The column values of a domain value (\<open>record_values\<close>).\<close>

fun record_value :: "dim_value \<Rightarrow> raw_value" where
  "record_value (CompanyValue s) = RText s"
| "record_value (BrandValue s) = RText s"
| "record_value (ModelValue s) = RText s"
| "record_value (CategoryValue s) = RText s"
| "record_value (CountryValue s) = RText s"
| "record_value (YearValue n) = RInt n"
| "record_value (NetworkValue g) = RInt (generation_value g)"
| "record_value (MemoryValue m) = RMem (amount m) (unit_text (unit m))"


section \<open>Logs\<close>

datatype json = JText pystr | JInt int | JMemory int pystr int | JBool bool

datatype log_field = CODE_FIELD | VALUE_FIELD | DELETED_FIELD

record dim_log =
  dl_dimension :: uuid
  dl_change_set :: uuid
  dl_version :: int
  dl_operation :: dimension_operation
  dl_field :: log_field
  dl_old :: "json option"
  dl_new :: "json option"
  dl_reason :: "pystr option"
  dl_actor :: audit_actor
  dl_changed_at :: int

record mc_log_state =
  ls_refs :: "slot \<Rightarrow> uuid option"
  ls_code :: pystr
  ls_deleted :: bool

record mc_log =
  ml_master_code :: uuid
  ml_change_set :: uuid
  ml_version :: int
  ml_operation :: master_code_operation
  ml_old :: "mc_log_state option"
  ml_new :: mc_log_state
  ml_reason :: "pystr option"
  ml_actor :: audit_actor
  ml_changed_at :: int

record db =
  dim_rows :: "slot \<Rightarrow> dim_row list"
  mc_rows :: "mc_row list"
  dim_logs :: "slot \<Rightarrow> dim_log list"
  mc_logs :: "mc_log list"

fun value_json :: "raw_value \<Rightarrow> json" where
  "value_json (RText s) = JText s"
| "value_json (RInt n) = JInt n"
| "value_json (RMem a u) = JMemory a u (case unit_of_text u of Some mu \<Rightarrow> a * unit_multiplier mu | None \<Rightarrow> 0)"


section \<open>The mutation context\<close>

record mutation_ctx =
  ctx_meta :: audit_metadata
  ctx_time :: int

text \<open>
  \<open>set_context\<close>: the transaction-local settings hold the metadata and the mutation time, which
  is the clock or the minimum timestamp, whichever is later.
\<close>

definition set_context :: "audit_metadata \<Rightarrow> int \<Rightarrow> datetime option \<Rightarrow> mutation_ctx res" where
  "set_context meta clock minimum =
     (case minimum of
        None \<Rightarrow> Inr \<lparr>ctx_meta = meta, ctx_time = clock\<rparr>
      | Some t \<Rightarrow> if \<not> is_aware t then Inl ValueError
                  else Inr \<lparr>ctx_meta = meta, ctx_time = max clock (instant t)\<rparr>)"

definition violation :: "'a res" where
  "violation = Inl (IntegrityError None)"

text \<open>
  \<open>mdm_current_mutation_audit_context()\<close>: the checks the database makes of the context.
  Position 15 and 20 of the text of the change-set id are its version and variant digits.
\<close>

definition current_mutation_audit_context :: "mutation_ctx \<Rightarrow> mutation_ctx res" where
  "current_mutation_audit_context ctx =
     (let m = ctx_meta ctx; a = audit_actor m; cs = str_uuid (change_set_id m) in
      if actor_id a = [] \<or> length (actor_id a) > 255 \<or> strip_ch 32 (actor_id a) \<noteq> actor_id a then violation
      else if actor_kind a = HUMAN \<and> (actor_role a = None \<or> canonical_uuid (actor_id a) = None) then violation
      else if actor_kind a = SYSTEM \<and> actor_role a \<noteq> None then violation
      else if cs ! 14 \<noteq> of_char (CHR ''7'')
        \<or> cs ! 19 \<notin> {of_char (CHR ''8''), of_char (CHR ''9''), of_char (CHR ''a''), of_char (CHR ''b'')} then violation
      else if (case reason m of None \<Rightarrow> False
          | Some r \<Rightarrow> length r > 500 \<or> strip_ch 32 r \<noteq> r \<or> has_cc r) then violation
      else if op_dimension (operations m) = None \<and> op_master_code (operations m) = None then violation
      else Inr ctx)"


section \<open>Lookup and update by key\<close>

definition dim_by_id :: "uuid \<Rightarrow> dim_row list \<Rightarrow> dim_row option" where
  "dim_by_id i rows = find (\<lambda>r. r_id r = i) rows"

definition mc_by_id :: "uuid \<Rightarrow> mc_row list \<Rightarrow> mc_row option" where
  "mc_by_id i rows = find (\<lambda>m. m_id m = i) rows"

definition put_dim :: "dim_row \<Rightarrow> dim_row list \<Rightarrow> dim_row list" where
  "put_dim r rows = map (\<lambda>x. if r_id x = r_id r then r else x) rows"

definition put_mc :: "mc_row \<Rightarrow> mc_row list \<Rightarrow> mc_row list" where
  "put_mc m rows = map (\<lambda>x. if m_id x = m_id m then m else x) rows"


section \<open>Constraints\<close>

fun value_check :: "slot \<Rightarrow> raw_value \<Rightarrow> bool" where
  "value_check Year (RInt n) = (2000 \<le> n \<and> n \<le> 2999)"
| "value_check Network (RInt n) = (1 \<le> n \<and> n \<le> 5)"
| "value_check Memory (RMem a u) = (0 < a \<and> a \<le> 2147483647 \<and> unit_of_text u \<noteq> None)"
| "value_check s (RText v) = (s \<notin> {Year, Network, Memory} \<and> value_pattern v \<and> length v \<le> 128)"
| "value_check s v = False"

definition times_check :: "int \<Rightarrow> int \<Rightarrow> int option \<Rightarrow> bool" where
  "times_check created updated deleted \<longleftrightarrow> created \<le> updated
     \<and> (case deleted of None \<Rightarrow> True | Some t \<Rightarrow> created \<le> t \<and> t \<le> updated)"

definition dim_row_check :: "slot \<Rightarrow> dim_row \<Rightarrow> bool" where
  "dim_row_check s r \<longleftrightarrow> code_pattern (r_code r) \<and> \<not> (\<forall>c \<in> set (r_code r). c = 78)
     \<and> value_check s (r_value r) \<and> 1 \<le> r_version r
     \<and> times_check (r_created r) (r_updated r) (r_deleted r)"

definition code_parts_check :: "pystr \<Rightarrow> bool" where
  "code_parts_check c \<longleftrightarrow>
     (let parts = words_of (\<lambda>x. x = 45) c
      in length parts = 8 \<and> (\<forall>p \<in> set parts. code_pattern p) \<and> joined 45 parts = c)"

definition mc_row_check :: "mc_row \<Rightarrow> bool" where
  "mc_row_check m \<longleftrightarrow> code_parts_check (m_code m) \<and> 1 \<le> m_version m
     \<and> times_check (m_created m) (m_updated m) (m_deleted m)"

text \<open>Version columns are signed 32-bit integers.\<close>

definition int4 :: "int \<Rightarrow> bool" where
  "int4 n \<longleftrightarrow> n \<le> 2147483647"

text \<open>Unique columns of a row against the other rows; the primary key first.\<close>

definition dim_unique_check :: "slot \<Rightarrow> dim_row \<Rightarrow> dim_row list \<Rightarrow> unit res" where
  "dim_unique_check s r others =
     (if r_id r \<in> set (map r_id others) then Inl (IntegrityError (Some (table_name s @ ''_pkey'')))
      else if r_code r \<in> set (map r_code others) then Inl (IntegrityError (Some (uq_code s)))
      else if value_key (r_value r) \<in> set (map (value_key \<circ> r_value) others)
      then Inl (IntegrityError (Some (uq_value s)))
      else Inr ())"

definition mc_unique_check :: "mc_row \<Rightarrow> mc_row list \<Rightarrow> unit res" where
  "mc_unique_check m others =
     (if m_id m \<in> set (map m_id others) then Inl (IntegrityError (Some ''master_codes_pkey''))
      else if m_code m \<in> set (map m_code others) then Inl (IntegrityError (Some uq_master_codes_code))
      else if m_refs m \<in> set (map m_refs others) then Inl (IntegrityError (Some uq_master_codes_references))
      else Inr ())"

text \<open>Foreign keys of the reference columns.\<close>

definition mc_references_check :: "db \<Rightarrow> mc_row \<Rightarrow> bool" where
  "mc_references_check d m \<longleftrightarrow>
     (\<forall>s \<in> set ORDER. case m_refs m s of None \<Rightarrow> True | Some i \<Rightarrow> dim_by_id i (dim_rows d s) \<noteq> None)"


section \<open>Log rows\<close>

definition log_key :: "dim_log \<Rightarrow> uuid \<times> uuid \<times> log_field" where
  "log_key l = (dl_dimension l, dl_change_set l, dl_field l)"

definition insert_dim_logs :: "slot \<Rightarrow> dim_log list \<Rightarrow> db \<Rightarrow> db res" where
  "insert_dim_logs s ls d =
     (if distinct (map log_key (dim_logs d s @ ls))
      then Inr (d\<lparr>dim_logs := (dim_logs d)(s := dim_logs d s @ ls)\<rparr>)
      else Inl (IntegrityError (Some ''uq_dimension_logs_change_field'')))"

definition insert_mc_log :: "mc_log \<Rightarrow> db \<Rightarrow> db res" where
  "insert_mc_log l d =
     (if (ml_master_code l, ml_version l) \<in> set (map (\<lambda>x. (ml_master_code x, ml_version x)) (mc_logs d))
      then Inl (IntegrityError (Some ''uq_master_code_logs_master_version''))
      else Inr (d\<lparr>mc_logs := mc_logs d @ [l]\<rparr>))"

definition dim_log_row ::
    "mutation_ctx \<Rightarrow> dim_row \<Rightarrow> dimension_operation \<Rightarrow> log_field \<Rightarrow> json option \<Rightarrow> json option \<Rightarrow> dim_log" where
  "dim_log_row ctx r op f old new =
     \<lparr>dl_dimension = r_id r, dl_change_set = change_set_id (ctx_meta ctx), dl_version = r_version r,
      dl_operation = op, dl_field = f, dl_old = old, dl_new = new, dl_reason = reason (ctx_meta ctx),
      dl_actor = audit_actor (ctx_meta ctx), dl_changed_at = r_updated r\<rparr>"

definition mc_state :: "mc_row \<Rightarrow> mc_log_state" where
  "mc_state m = \<lparr>ls_refs = m_refs m, ls_code = m_code m, ls_deleted = (m_deleted m \<noteq> None)\<rparr>"

definition mc_log_row ::
    "mutation_ctx \<Rightarrow> mc_row \<Rightarrow> master_code_operation \<Rightarrow> mc_log_state option \<Rightarrow> mc_log" where
  "mc_log_row ctx m op old =
     \<lparr>ml_master_code = m_id m, ml_change_set = change_set_id (ctx_meta ctx), ml_version = m_version m,
      ml_operation = op, ml_old = old, ml_new = mc_state m, ml_reason = reason (ctx_meta ctx),
      ml_actor = audit_actor (ctx_meta ctx), ml_changed_at = m_updated m\<rparr>"


section \<open>Dimension writes\<close>

text \<open>\<open>mdm_dimension_..._before_write()\<close> for an insert.\<close>

definition dim_before_insert :: "mutation_ctx \<Rightarrow> dim_row \<Rightarrow> unit res" where
  "dim_before_insert ctx r =
     bindE (current_mutation_audit_context ctx) (\<lambda>_.
       if op_dimension (operations (ctx_meta ctx)) \<noteq> Some DIM_CREATE then violation
       else if r_version r \<noteq> 1 \<or> r_created r \<noteq> r_updated r \<or> r_deleted r \<noteq> None then violation
       else Inr ())"

text \<open>\<open>mdm_dimension_..._before_write()\<close> for an update of \<open>old\<close> to \<open>r\<close>.\<close>

definition dim_before_update :: "mutation_ctx \<Rightarrow> slot \<Rightarrow> db \<Rightarrow> dim_row \<Rightarrow> dim_row \<Rightarrow> unit res" where
  "dim_before_update ctx s d old r =
     bindE (current_mutation_audit_context ctx) (\<lambda>_.
       let op = op_dimension (operations (ctx_meta ctx));
           raw_value_changed = (r_value r \<noteq> r_value old);
           code_changed = (r_code r \<noteq> r_code old);
           value_changed = (value_key (r_value r) \<noteq> value_key (r_value old));
           technical_ok = (r_version r = r_version old + 1 \<and> r_updated r = ctx_time ctx
                           \<and> \<not> r_updated r < r_updated old)
       in if op = Some DIM_DELETE \<or> op = Some DIM_RESTORE then
            (if r_id r \<noteq> r_id old \<or> r_created r \<noteq> r_created old \<or> code_changed \<or> raw_value_changed
             then violation
             else if op = Some DIM_DELETE \<and> (r_deleted old \<noteq> None \<or> r_deleted r \<noteq> Some (ctx_time ctx))
             then violation
             else if op = Some DIM_DELETE
               \<and> (\<exists>m \<in> set (mc_rows d). m_refs m s = Some (r_id old) \<and> m_deleted m = None)
             then violation
             else if op = Some DIM_RESTORE \<and> (r_deleted old = None \<or> r_deleted r \<noteq> None) then violation
             else if \<not> technical_ok then violation
             else Inr ())
          else if r_deleted old \<noteq> None then violation
          else if op \<noteq> Some DIM_UPDATE then violation
          else if r_id r \<noteq> r_id old \<or> r_created r \<noteq> r_created old \<or> r_deleted r \<noteq> r_deleted old
          then violation
          else if \<not> value_changed \<and> raw_value_changed then violation
          else if code_changed \<and> op_master_code (operations (ctx_meta ctx)) \<noteq> Some MC_RECOMPOSE
          then violation
          else if code_changed \<or> value_changed then (if \<not> technical_ok then violation else Inr ())
          else if r_version r \<noteq> r_version old \<or> r_updated r \<noteq> r_updated old then violation
          else Inr ())"

text \<open>The log rows of \<open>mdm_dimension_..._after_update()\<close>.\<close>

definition dim_update_logs :: "mutation_ctx \<Rightarrow> dim_row \<Rightarrow> dim_row \<Rightarrow> dim_log list" where
  "dim_update_logs ctx old r =
     (if (r_deleted r = None) \<noteq> (r_deleted old = None)
      then [dim_log_row ctx r (if r_deleted r = None then DIM_RESTORE else DIM_DELETE) DELETED_FIELD
              (Some (JBool (r_deleted old \<noteq> None))) (Some (JBool (r_deleted r \<noteq> None)))]
      else [])
     @ (if r_code r \<noteq> r_code old
        then [dim_log_row ctx r DIM_UPDATE CODE_FIELD (Some (JText (r_code old))) (Some (JText (r_code r)))]
        else [])
     @ (if value_key (r_value r) \<noteq> value_key (r_value old)
        then [dim_log_row ctx r DIM_UPDATE VALUE_FIELD (Some (value_json (r_value old))) (Some (value_json (r_value r)))]
        else [])"

definition dim_insert :: "mutation_ctx \<Rightarrow> slot \<Rightarrow> dim_row \<Rightarrow> db \<Rightarrow> db res" where
  "dim_insert ctx s r d =
     bindE (dim_before_insert ctx r) (\<lambda>_.
     bindE (requireE (dim_row_check s r) (IntegrityError (Some ''ck_dimension''))) (\<lambda>_.
     bindE (dim_unique_check s r (dim_rows d s)) (\<lambda>_.
       insert_dim_logs s
         [dim_log_row ctx r DIM_CREATE CODE_FIELD None (Some (JText (r_code r))),
          dim_log_row ctx r DIM_CREATE VALUE_FIELD None (Some (value_json (r_value r)))]
         (d\<lparr>dim_rows := (dim_rows d)(s := dim_rows d s @ [r])\<rparr>))))"

text \<open>An \<open>UPDATE\<close> of the row with the id of \<open>r\<close>; nothing happens when there is none.\<close>

definition dim_update :: "mutation_ctx \<Rightarrow> slot \<Rightarrow> dim_row \<Rightarrow> db \<Rightarrow> db res" where
  "dim_update ctx s r d =
     (case dim_by_id (r_id r) (dim_rows d s) of
        None \<Rightarrow> Inr d
      | Some old \<Rightarrow>
          if \<not> int4 (r_version r) then Inl DataError
          else
          bindE (dim_before_update ctx s d old r) (\<lambda>_.
          bindE (requireE (dim_row_check s r) (IntegrityError (Some ''ck_dimension''))) (\<lambda>_.
          bindE (dim_unique_check s r (filter (\<lambda>x. r_id x \<noteq> r_id r) (dim_rows d s))) (\<lambda>_.
            insert_dim_logs s (dim_update_logs ctx old r)
              (d\<lparr>dim_rows := (dim_rows d)(s := put_dim r (dim_rows d s))\<rparr>)))))"


section \<open>MasterCode writes\<close>

text \<open>\<open>mdm_master_code_before_write()\<close>.\<close>

definition mc_before_insert :: "mutation_ctx \<Rightarrow> mc_row \<Rightarrow> unit res" where
  "mc_before_insert ctx m =
     bindE (current_mutation_audit_context ctx) (\<lambda>_.
       if op_master_code (operations (ctx_meta ctx)) \<noteq> Some MC_CREATE then violation
       else if m_version m \<noteq> 1 \<or> m_created m \<noteq> m_updated m \<or> m_created m \<noteq> ctx_time ctx
         \<or> m_deleted m \<noteq> None then violation
       else Inr ())"

definition mc_before_update :: "mutation_ctx \<Rightarrow> mc_row \<Rightarrow> mc_row \<Rightarrow> unit res" where
  "mc_before_update ctx old m =
     bindE (current_mutation_audit_context ctx) (\<lambda>_.
       let references_changed = (m_refs m \<noteq> m_refs old) in
       if (case op_master_code (operations (ctx_meta ctx)) of
             Some MC_RECOMPOSE \<Rightarrow>
               references_changed \<or> m_code m = m_code old \<or> m_deleted m \<noteq> m_deleted old
           | Some MC_REFERENCE_UPDATE \<Rightarrow>
               \<not> references_changed \<or> m_code m = m_code old \<or> m_deleted old \<noteq> None \<or> m_deleted m \<noteq> None
           | Some MC_DELETE \<Rightarrow>
               references_changed \<or> m_code m \<noteq> m_code old \<or> m_deleted old \<noteq> None
               \<or> m_deleted m \<noteq> Some (ctx_time ctx)
           | Some MC_RESTORE \<Rightarrow>
               references_changed \<or> m_deleted old = None \<or> m_deleted m \<noteq> None
           | _ \<Rightarrow> True)
       then violation
       else if m_id m \<noteq> m_id old \<or> m_created m \<noteq> m_created old \<or> m_version m \<noteq> m_version old + 1
         \<or> m_updated m \<noteq> ctx_time ctx \<or> m_updated m < m_updated old then violation
       else Inr ())"

definition mc_insert :: "mutation_ctx \<Rightarrow> mc_row \<Rightarrow> db \<Rightarrow> db res" where
  "mc_insert ctx m d =
     bindE (mc_before_insert ctx m) (\<lambda>_.
     bindE (requireE (mc_row_check m) (IntegrityError (Some ''ck_master_codes''))) (\<lambda>_.
     bindE (mc_unique_check m (mc_rows d)) (\<lambda>_.
     bindE (requireE (mc_references_check d m) (IntegrityError (Some ''master_codes_fkey''))) (\<lambda>_.
       insert_mc_log (mc_log_row ctx m MC_CREATE None) (d\<lparr>mc_rows := mc_rows d @ [m]\<rparr>)))))"

definition mc_update :: "mutation_ctx \<Rightarrow> mc_row \<Rightarrow> db \<Rightarrow> db res" where
  "mc_update ctx m d =
     (case mc_by_id (m_id m) (mc_rows d) of
        None \<Rightarrow> Inr d
      | Some old \<Rightarrow>
          if \<not> int4 (m_version m) then Inl DataError
          else
          bindE (mc_before_update ctx old m) (\<lambda>_.
          bindE (requireE (mc_row_check m) (IntegrityError (Some ''ck_master_codes''))) (\<lambda>_.
          bindE (mc_unique_check m (filter (\<lambda>x. m_id x \<noteq> m_id m) (mc_rows d))) (\<lambda>_.
          bindE (requireE (mc_references_check d m) (IntegrityError (Some ''master_codes_fkey''))) (\<lambda>_.
            (case op_master_code (operations (ctx_meta ctx)) of
               None \<Rightarrow> violation
             | Some op \<Rightarrow> insert_mc_log (mc_log_row ctx m op (Some (mc_state old)))
                            (d\<lparr>mc_rows := put_mc m (mc_rows d)\<rparr>)))))))"

end
