(* ===== verification/Dimension_Repo.thy ===== *)
theory Dimension_Repo
  imports Store
begin

text \<open>
  The Dimension repositories of \<open>src/mdm/infrastructure/repositories\<close>: \<open>companies.py\<close>,
  \<open>string_dimensions.py\<close>, \<open>numeric_dimensions.py\<close>, \<open>memory_dimensions.py\<close> and
  \<open>dimension_lifecycle.py\<close>, with the parts of \<open>master_codes.py\<close> that read, lock and
  recompose the MasterCodes that refer to a Dimension.

  The four repositories have the same body up to the table, the value column and the
  conversion of a record; \<open>repo_create\<close>, \<open>repo_get_active\<close>, \<open>repo_update_value\<close> and
  \<open>repo_list_active\<close> take the slot and the conversion as arguments, and each repository is
  an instance of them. What the environment supplies (identifiers from \<open>uuidv7()\<close>, the clock
  and the time of the statement) is the record \<open>env\<close>.
\<close>

record env =
  env_new_id :: uuid
  env_clock :: int
  env_statement_time :: int

section \<open>Records as domain values\<close>

fun raw_obj :: "raw_value \<Rightarrow> pyobj" where
  "raw_obj (RText s) = PyStr s"
| "raw_obj (RInt n) = PyInt n"
| "raw_obj (RMem a u) = PyOther"

definition memory_from_record :: "raw_value \<Rightarrow> memory_value res" where
  "memory_from_record v =
     (case v of
        RMem a u \<Rightarrow> (case unit_of_text u of
            None \<Rightarrow> Inl ValueError
          | Some mu \<Rightarrow> memory_value_init (PyInt a) mu)
      | _ \<Rightarrow> Inl ValueError)"

definition value_from_record :: "slot \<Rightarrow> raw_value \<Rightarrow> dim_value res" where
  "value_from_record s v =
     (case s of
        Company \<Rightarrow> bindE (normalize_string_value (raw_obj v)) (\<lambda>x. Inr (CompanyValue x))
      | Brand \<Rightarrow> bindE (normalize_string_value (raw_obj v)) (\<lambda>x. Inr (BrandValue x))
      | Model \<Rightarrow> bindE (normalize_string_value (raw_obj v)) (\<lambda>x. Inr (ModelValue x))
      | Category \<Rightarrow> bindE (normalize_string_value (raw_obj v)) (\<lambda>x. Inr (CategoryValue x))
      | Year \<Rightarrow> bindE (year_value (raw_obj v)) (\<lambda>x. Inr (YearValue x))
      | Memory \<Rightarrow> bindE (memory_from_record v) (\<lambda>x. Inr (MemoryValue x))
      | Network \<Rightarrow> bindE (network_generation (raw_obj v)) (\<lambda>x. Inr (NetworkValue x))
      | Country \<Rightarrow> bindE (normalize_string_value (raw_obj v)) (\<lambda>x. Inr (CountryValue x)))"

definition dimension_of :: "dim_row \<Rightarrow> pystr \<Rightarrow> dim_value \<Rightarrow> dimension" where
  "dimension_of r c v =
     \<lparr>dim_id = r_id r, dim_code = c, dim_val = v, dim_version = r_version r,
      dim_created_at = Aware (r_created r), dim_updated_at = Aware (r_updated r),
      dim_deleted_at = map_option Aware (r_deleted r)\<rparr>"

text \<open>\<open>_common_dimension\<close>: the code first, then the value, then \<open>__post_init__\<close>.\<close>

definition row_to_domain :: "slot \<Rightarrow> dim_row \<Rightarrow> dimension res" where
  "row_to_domain s r =
     bindE (dimension_code (PyStr (r_code r))) (\<lambda>c.
     bindE (value_from_record s (r_value r)) (\<lambda>v.
       dimension_init (dimension_of r c v)))"

definition company_to_domain :: "dim_row \<Rightarrow> dimension res" where
  "company_to_domain r = row_to_domain Company r"

definition string_to_domain :: "slot \<Rightarrow> dim_row \<Rightarrow> dimension res" where
  "string_to_domain s r = row_to_domain s r"

definition numeric_to_domain :: "slot \<Rightarrow> dim_row \<Rightarrow> dimension res" where
  "numeric_to_domain s r = row_to_domain s r"

definition memory_to_domain :: "dim_row \<Rightarrow> dimension res" where
  "memory_to_domain r =
     bindE (memory_from_record (r_value r)) (\<lambda>m.
       if value_key (r_value r) \<noteq> RInt (capacity_mb m) then Inl ValueError
       else bindE (dimension_code (PyStr (r_code r))) (\<lambda>c.
         dimension_init (dimension_of r c (MemoryValue m))))"


section \<open>MasterCodes with their Dimensions\<close>

text \<open>\<open>_joined_statement\<close>: the Dimension rows an outer join finds for a MasterCode row.\<close>

definition joined_row :: "db \<Rightarrow> mc_row \<Rightarrow> slot \<Rightarrow> dim_row option" where
  "joined_row d m s = (case m_refs m s of None \<Rightarrow> None | Some i \<Rightarrow> dim_by_id i (dim_rows d s))"

fun domain_slots :: "(slot \<Rightarrow> dim_row option) \<Rightarrow> slot list \<Rightarrow> master_code_dimensions res" where
  "domain_slots f [] = Inr (\<lambda>_. None)"
| "domain_slots f (s # ss) =
     (case f s of
        None \<Rightarrow> domain_slots f ss
      | Some r \<Rightarrow> bindE (row_to_domain s r) (\<lambda>x.
                   bindE (domain_slots f ss) (\<lambda>g. Inr (g(s := Some x)))))"

definition master_code_of :: "mc_row \<Rightarrow> master_code_dimensions \<Rightarrow> master_code" where
  "master_code_of m dims =
     \<lparr>mc_id = m_id m, mc_dims = dims, mc_code = m_code m, mc_version = m_version m,
      mc_created_at = Aware (m_created m), mc_updated_at = Aware (m_updated m),
      mc_deleted_at = map_option Aware (m_deleted m)\<rparr>"

definition row_master_code :: "mc_row \<Rightarrow> master_code_dimensions \<Rightarrow> master_code res" where
  "row_master_code m dims = master_code_init (master_code_of m dims)"

definition joined_to_domain :: "db \<Rightarrow> mc_row \<Rightarrow> master_code res" where
  "joined_to_domain d m =
     bindE (domain_slots (joined_row d m) ORDER) (\<lambda>dims.
     bindE (master_code_dimensions_init dims) (\<lambda>dims. row_master_code m dims))"

definition lock_referencing_master_codes :: "db \<Rightarrow> slot \<Rightarrow> uuid \<Rightarrow> (mc_row \<times> master_code) list res" where
  "lock_referencing_master_codes d s i =
     (let records = sort_key m_id (filter (\<lambda>m. m_refs m s = Some i) (mc_rows d)) in
      if records = [] then Inr []
      else
        let rows = sort_key m_id (filter (\<lambda>m. m_id m \<in> set (map m_id records)) (mc_rows d)) in
        if length rows \<noteq> length records then Inl ValueError
        else mapE (\<lambda>m. bindE (joined_to_domain d m) (\<lambda>c. Inr (m, c))) rows)"

text \<open>The MasterCode records whose attributes \<open>recompose_locked_master_codes\<close> assigns.\<close>

fun recompose_locked_master_codes ::
    "(mc_row \<times> master_code) list \<Rightarrow> slot \<Rightarrow> dimension \<Rightarrow> datetime \<Rightarrow> mc_row list res" where
  "recompose_locked_master_codes [] s x t = Inr []"
| "recompose_locked_master_codes ((m, current) # rest) s x t =
     bindE (master_code_dimensions_init ((mc_dims current)(s := Some x))) (\<lambda>dims.
     bindE (recompose current dims t) (\<lambda>recomposed.
     bindE (recompose_locked_master_codes rest s x t) (\<lambda>ms.
       if recomposed = current then Inr ms
       else Inr (m\<lparr>m_code := mc_code recomposed, m_version := mc_version recomposed,
                   m_updated := instant (mc_updated_at recomposed)\<rparr> # ms))))"

fun flush_master_codes :: "mutation_ctx \<Rightarrow> mc_row list \<Rightarrow> db \<Rightarrow> db res" where
  "flush_master_codes ctx [] d = Inr d"
| "flush_master_codes ctx (m # ms) d = bindE (mc_update ctx m d) (\<lambda>d'. flush_master_codes ctx ms d')"


section \<open>The repository operations\<close>

definition raise_conflict :: "slot \<Rightarrow> bool \<Rightarrow> bool \<Rightarrow> unit res" where
  "raise_conflict s code_conflict value_conflict =
     (if code_conflict \<and> value_conflict then Inl (DimensionMultipleConflicts s)
      else if code_conflict then Inl (DimensionCodeConflict s)
      else if value_conflict then Inl (DimensionValueConflict s)
      else Inr ())"

text \<open>The \<open>except IntegrityError\<close> clauses of \<open>create\<close> and of \<open>update_value\<close>.\<close>

definition translate_create_error :: "slot \<Rightarrow> 'a res \<Rightarrow> 'a res" where
  "translate_create_error s r =
     (case r of
        Inl (IntegrityError (Some n)) \<Rightarrow>
          if n = uq_code s then Inl (DimensionCodeConflict s)
          else if n = uq_value s then Inl (DimensionValueConflict s)
          else r
      | _ \<Rightarrow> r)"

definition translate_update_error :: "slot \<Rightarrow> 'a res \<Rightarrow> 'a res" where
  "translate_update_error s r =
     (case r of
        Inl (IntegrityError (Some n)) \<Rightarrow>
          if n = uq_code s then Inl (DimensionCodeConflict s)
          else if n = uq_value s then Inl (DimensionValueConflict s)
          else if n = uq_master_codes_code \<or> n = uq_master_codes_references then Inl MasterCodeConflict
          else r
      | _ \<Rightarrow> r)"

definition repo_create ::
    "(dim_row \<Rightarrow> dimension res) \<Rightarrow> slot \<Rightarrow> pystr \<Rightarrow> dim_value \<Rightarrow> audit_metadata \<Rightarrow> env \<Rightarrow> db
       \<Rightarrow> (dimension \<times> db) res" where
  "repo_create to_domain s code v audit e d =
     translate_create_error s
      (let conflicts = filter (\<lambda>r. r_code r = code \<or> value_key (r_value r) = value_key (record_value v)) (dim_rows d s);
           code_conflict = (\<exists>r \<in> set conflicts. r_code r = code);
           value_conflict = (\<exists>r \<in> set conflicts. value_key (r_value r) = value_key (record_value v))
       in bindE (raise_conflict s code_conflict value_conflict) (\<lambda>_.
          bindE (set_context audit (env_clock e) None) (\<lambda>ctx.
            let r = \<lparr>r_id = env_new_id e, r_code = code, r_value = record_value v, r_version = 1,
                     r_created = env_statement_time e, r_updated = env_statement_time e, r_deleted = None\<rparr>
            in bindE (dim_insert ctx s r d) (\<lambda>d'.
               bindE (to_domain r) (\<lambda>x. Inr (x, d'))))))"

definition repo_get_active :: "(dim_row \<Rightarrow> dimension res) \<Rightarrow> slot \<Rightarrow> uuid \<Rightarrow> db \<Rightarrow> dimension res" where
  "repo_get_active to_domain s i d =
     (case find (\<lambda>r. r_id r = i \<and> r_deleted r = None) (dim_rows d s) of
        None \<Rightarrow> Inl (DimensionNotFound s)
      | Some r \<Rightarrow> to_domain r)"

text \<open>
  The second half of \<open>update_value\<close>, from the locking of the MasterCodes on: the new state of
  the Dimension, the recomposed MasterCodes, and the flush of both.
\<close>

definition repo_apply_change ::
    "(dim_row \<Rightarrow> dimension res) \<Rightarrow> slot \<Rightarrow> dim_row \<Rightarrow> dimension \<Rightarrow> pystr option \<Rightarrow> dim_value option
       \<Rightarrow> bool \<Rightarrow> bool \<Rightarrow> audit_metadata \<Rightarrow> env \<Rightarrow> db \<Rightarrow> (dimension \<times> db) res" where
  "repo_apply_change to_domain s r current code val code_changed value_changed audit e d =
     bindE (if code_changed then lock_referencing_master_codes d s (r_id r) else Inr []) (\<lambda>locked.
     let minimum = fold max (map (\<lambda>(m, c). instant (mc_updated_at c)) locked)
                     (instant (dim_updated_at current))
     in bindE (set_context audit (env_clock e) (Some (Aware minimum))) (\<lambda>ctx.
        let changed_at = Aware (ctx_time ctx) in
        bindE (dimension_change current code val changed_at) (\<lambda>changed.
        bindE (if code_changed then recompose_locked_master_codes locked s changed changed_at
               else Inr []) (\<lambda>ms.
          let r' = r\<lparr>r_code := (if code_changed then dim_code changed else r_code r),
                     r_value := (if value_changed then record_value (dim_val changed) else r_value r),
                     r_version := dim_version changed,
                     r_updated := instant (dim_updated_at changed)\<rparr>
          in bindE (dim_update ctx s r' d) (\<lambda>d1.
             bindE (flush_master_codes ctx ms d1) (\<lambda>d2.
             bindE (to_domain r') (\<lambda>x. Inr (x, d2))))))))"

definition repo_update_value ::
    "(dim_row \<Rightarrow> dimension res) \<Rightarrow> slot \<Rightarrow> uuid \<Rightarrow> int \<Rightarrow> dim_value option \<Rightarrow> audit_metadata
       \<Rightarrow> pystr option \<Rightarrow> env \<Rightarrow> db \<Rightarrow> (dimension \<times> db) res" where
  "repo_update_value to_domain s i expected_version val audit code e d =
     translate_update_error s
      (case find (\<lambda>r. r_id r = i \<and> r_deleted r = None) (dim_rows d s) of
         None \<Rightarrow> Inl (DimensionNotFound s)
       | Some r \<Rightarrow>
          bindE (to_domain r) (\<lambda>current.
            if dim_version current \<noteq> expected_version then Inl PreconditionFailed
            else
              let code_changed = (case code of None \<Rightarrow> False | Some c \<Rightarrow> c \<noteq> dim_code current);
                  value_changed = (case val of None \<Rightarrow> False
                    | Some v \<Rightarrow> \<not> dimension_values_equal (dim_val current) v)
              in if \<not> code_changed \<and> \<not> value_changed then Inr (current, d)
              else
                let same_code = (\<lambda>x. Some (r_code x) = code);
                    same_value = (\<lambda>x. Some (value_key (r_value x)) = map_option (value_key \<circ> record_value) val);
                    conflicts = filter (\<lambda>x. r_id x \<noteq> i
                      \<and> ((code_changed \<and> same_code x) \<or> (value_changed \<and> same_value x))) (dim_rows d s)
                in bindE (raise_conflict s (code_changed \<and> (\<exists>x \<in> set conflicts. same_code x))
                     (value_changed \<and> (\<exists>x \<in> set conflicts. same_value x))) (\<lambda>_.
                   repo_apply_change to_domain s r current code val code_changed value_changed audit e d)))"

text \<open>A keyset page in descending \<open>(created_at, id)\<close> order.\<close>

definition page_order :: "dim_row list \<Rightarrow> dim_row list" where
  "page_order rows = rev (sort_key (\<lambda>r. (r_created r, r_id r)) rows)"

definition repo_list_active ::
    "(dim_row \<Rightarrow> dimension res) \<Rightarrow> slot \<Rightarrow> (int \<times> uuid) option \<Rightarrow> nat \<Rightarrow> db \<Rightarrow> (dimension list \<times> bool) res" where
  "repo_list_active to_domain s after limit d =
     (let active = filter (\<lambda>r. r_deleted r = None) (dim_rows d s);
          selected = (case after of None \<Rightarrow> active
            | Some (created, i) \<Rightarrow> filter (\<lambda>r. r_created r < created \<or> (r_created r = created \<and> r_id r < i)) active);
          records = take (limit + 1) (page_order selected)
      in bindE (mapE to_domain (take limit records)) (\<lambda>items. Inr (items, limit < length records)))"


section \<open>The four repositories\<close>

definition company_create where
  "company_create = repo_create company_to_domain Company"

definition company_get_active where
  "company_get_active = repo_get_active company_to_domain Company"

definition company_update_value where
  "company_update_value = repo_update_value company_to_domain Company"

definition company_list_active where
  "company_list_active = repo_list_active company_to_domain Company"

text \<open>Model, Brand, Country and Category.\<close>

definition string_create where
  "string_create s = repo_create (string_to_domain s) s"

definition string_get_active where
  "string_get_active s = repo_get_active (string_to_domain s) s"

definition string_update_value where
  "string_update_value s = repo_update_value (string_to_domain s) s"

definition string_list_active where
  "string_list_active s = repo_list_active (string_to_domain s) s"

text \<open>Year and Network.\<close>

definition numeric_create where
  "numeric_create s = repo_create (numeric_to_domain s) s"

definition numeric_get_active where
  "numeric_get_active s = repo_get_active (numeric_to_domain s) s"

definition numeric_update_value where
  "numeric_update_value s = repo_update_value (numeric_to_domain s) s"

definition numeric_list_active where
  "numeric_list_active s = repo_list_active (numeric_to_domain s) s"

definition memory_create where
  "memory_create = repo_create memory_to_domain Memory"

definition memory_get_active where
  "memory_get_active = repo_get_active memory_to_domain Memory"

definition memory_update_value where
  "memory_update_value = repo_update_value memory_to_domain Memory"

definition memory_list_active where
  "memory_list_active = repo_list_active memory_to_domain Memory"


section \<open>Deletion and restoration\<close>

definition lifecycle_get_tombstone :: "slot \<Rightarrow> uuid \<Rightarrow> db \<Rightarrow> dimension res" where
  "lifecycle_get_tombstone s i d =
     (case dim_by_id i (dim_rows d s) of
        None \<Rightarrow> Inl DimensionLifecycleNotFound
      | Some r \<Rightarrow> if r_deleted r = None then Inl DimensionNotDeleted else row_to_domain s r)"

definition lifecycle_mutate ::
    "slot \<Rightarrow> uuid \<Rightarrow> int \<Rightarrow> audit_metadata \<Rightarrow> bool \<Rightarrow> env \<Rightarrow> db \<Rightarrow> (dimension \<times> db) res" where
  "lifecycle_mutate s i expected_version audit deleting e d =
     (case dim_by_id i (dim_rows d s) of
        None \<Rightarrow> Inl DimensionLifecycleNotFound
      | Some r \<Rightarrow>
          if deleting \<and> r_deleted r \<noteq> None then Inl DimensionLifecycleNotFound
          else if \<not> deleting \<and> r_deleted r = None then Inl DimensionNotDeleted
          else bindE (row_to_domain s r) (\<lambda>current.
            if dim_version current \<noteq> expected_version then Inl PreconditionFailed
            else if deleting \<and> (\<exists>m \<in> set (mc_rows d). m_refs m s = Some i \<and> m_deleted m = None)
            then Inl DimensionInUse
            else bindE (set_context audit (env_clock e) (Some (dim_updated_at current))) (\<lambda>ctx.
              let changed_at = Aware (ctx_time ctx) in
              bindE (if deleting then dimension_delete current changed_at
                     else dimension_restore current changed_at) (\<lambda>changed.
                let r' = r\<lparr>r_version := dim_version changed, r_updated := instant (dim_updated_at changed),
                           r_deleted := map_option instant (dim_deleted_at changed)\<rparr>
                in if r_version r \<noteq> expected_version then Inl PreconditionFailed
                   else bindE (dim_update ctx s r' d) (\<lambda>d'.
                        bindE (row_to_domain s r') (\<lambda>x. Inr (x, d')))))))"

definition lifecycle_delete where
  "lifecycle_delete s i expected_version audit = lifecycle_mutate s i expected_version audit True"

definition lifecycle_restore where
  "lifecycle_restore s i expected_version audit = lifecycle_mutate s i expected_version audit False"

end
