(* ===== verification/Dimension_UseCases.thy ===== *)
theory Dimension_UseCases
  imports Dimension_Repo
begin

text \<open>
  The use cases of \<open>src/mdm/application\<close> for Dimensions (\<open>dimensions.py\<close>,
  \<open>string_dimensions.py\<close>, \<open>numeric_dimensions.py\<close>, \<open>memory_dimensions.py\<close>,
  \<open>dimension_lifecycle.py\<close>): authorization, normalization of the untrusted input, the audit
  metadata and the repository call, in this order. The change-set id the audit factory
  draws is the argument \<open>cs\<close>. The slot-indexed operations at the end are the wiring of
  \<open>main.py\<close>: which use case and repository serve which Dimension type.
\<close>

section \<open>Inputs\<close>

datatype value_input = PlainValue pyobj | MemoryCreateValue pyobj pyobj

fun plain_obj :: "value_input \<Rightarrow> pyobj" where
  "plain_obj (PlainValue v) = v"
| "plain_obj (MemoryCreateValue a u) = PyOther"

text \<open>The value constructors \<open>ModelValue(value)\<close>, \<open>YearValue(value)\<close>, ... of the slots.\<close>

fun string_value_type :: "slot \<Rightarrow> pyobj \<Rightarrow> dim_value res" where
  "string_value_type Company v = bindE (normalize_string_value v) (\<lambda>x. Inr (CompanyValue x))"
| "string_value_type Brand v = bindE (normalize_string_value v) (\<lambda>x. Inr (BrandValue x))"
| "string_value_type Model v = bindE (normalize_string_value v) (\<lambda>x. Inr (ModelValue x))"
| "string_value_type Category v = bindE (normalize_string_value v) (\<lambda>x. Inr (CategoryValue x))"
| "string_value_type Country v = bindE (normalize_string_value v) (\<lambda>x. Inr (CountryValue x))"
| "string_value_type _ v = Inl ValueError"

fun numeric_value_type :: "slot \<Rightarrow> pyobj \<Rightarrow> dim_value res" where
  "numeric_value_type Year v = bindE (year_value v) (\<lambda>x. Inr (YearValue x))"
| "numeric_value_type Network v = bindE (network_generation v) (\<lambda>x. Inr (NetworkValue x))"
| "numeric_value_type _ v = Inl ValueError"

definition memory_value_type :: "pyobj \<Rightarrow> pyobj \<Rightarrow> dim_value res" where
  "memory_value_type amt u = bindE (memory_value_create amt u) (\<lambda>m. Inr (MemoryValue m))"

text \<open>\<open>_normalize_inline_value\<close>: the same constructors for the inline values of a MasterCode.\<close>

definition normalize_inline_value :: "slot \<Rightarrow> value_input \<Rightarrow> dim_value res" where
  "normalize_inline_value s v =
     (if s \<in> {Company, Brand, Model, Category, Country} then string_value_type s (plain_obj v)
      else if s = Year then numeric_value_type Year (plain_obj v)
      else if s = Network then numeric_value_type Network (plain_obj v)
      else (case v of
          MemoryCreateValue amt u \<Rightarrow> memory_value_type amt u
        | PlainValue _ \<Rightarrow> Inl (DimensionValidationError ''value'' AmountUnitRequired)))"

text \<open>\<open>except AuditInvariantError\<close>: a refused reason is reported as a validation error.\<close>

definition reason_error :: "'a res \<Rightarrow> 'a res" where
  "reason_error r = (case r of Inl AuditInvariantError \<Rightarrow> Inl (DimensionValidationError ''reason'' InvalidReason) | _ \<Rightarrow> r)"

definition positive_version :: "pyobj \<Rightarrow> int res" where
  "positive_version v = (case v of PyInt n \<Rightarrow> if n < 1 then Inl ValueError else Inr n | _ \<Rightarrow> Inl ValueError)"

definition page_limit :: "pyobj \<Rightarrow> nat res" where
  "page_limit v = (case v of PyInt n \<Rightarrow> if 1 \<le> n \<and> n \<le> 100 then Inr (nat n) else Inl ValueError | _ \<Rightarrow> Inl ValueError)"

text \<open>A request that names a code may recompose MasterCodes, and says so in its metadata.\<close>

definition recompose_operation :: "pystr option \<Rightarrow> master_code_operation option" where
  "recompose_operation code = (if code \<noteq> None then Some MC_RECOMPOSE else None)"

definition optional_input :: "('a \<Rightarrow> 'b res) \<Rightarrow> 'a option \<Rightarrow> 'b option res" where
  "optional_input f v = (case v of None \<Rightarrow> Inr None | Some x \<Rightarrow> bindE (f x) (\<lambda>y. Inr (Some y)))"


section \<open>Bodies shared by the use cases of the Dimension types\<close>

text \<open>
  \<open>_CreateStringDimension.execute\<close> and its counterparts, over the value constructor and the
  repository's \<open>create\<close>.
\<close>

definition create_execute ::
    "('v \<Rightarrow> dim_value res) \<Rightarrow> (pystr \<Rightarrow> dim_value \<Rightarrow> audit_metadata \<Rightarrow> env \<Rightarrow> db \<Rightarrow> (dimension \<times> db) res)
       \<Rightarrow> human_principal \<Rightarrow> uuid \<Rightarrow> pyobj \<Rightarrow> 'v \<Rightarrow> pystr option \<Rightarrow> env \<Rightarrow> db \<Rightarrow> (dimension \<times> db) res" where
  "create_execute value_type repository p cs code v r e d =
     bindE (authorize p MUTATE_DATA) (\<lambda>_.
     bindE (dimension_code code) (\<lambda>normalized_code.
     bindE (value_type v) (\<lambda>normalized_value.
     bindE (reason_error (audit_factory_create cs p (Some DIM_CREATE) None r)) (\<lambda>audit.
       repository normalized_code normalized_value audit e d))))"

text \<open>
  \<open>_UpdateStringDimensionValue.execute\<close> and its counterparts from the version check on;
  \<open>given\<close> tells that the request has a code or a value.
\<close>

definition update_execute ::
    "('v \<Rightarrow> dim_value res)
       \<Rightarrow> (uuid \<Rightarrow> int \<Rightarrow> dim_value option \<Rightarrow> audit_metadata \<Rightarrow> pystr option \<Rightarrow> env \<Rightarrow> db \<Rightarrow> (dimension \<times> db) res)
       \<Rightarrow> human_principal \<Rightarrow> uuid \<Rightarrow> uuid \<Rightarrow> pyobj \<Rightarrow> 'v option \<Rightarrow> pyobj option \<Rightarrow> pystr option \<Rightarrow> env \<Rightarrow> db
       \<Rightarrow> (dimension \<times> db) res" where
  "update_execute value_type repository p cs i expected_version v code r e d =
     bindE (authorize p MUTATE_DATA) (\<lambda>_.
     bindE (positive_version expected_version) (\<lambda>version.
       if code = None \<and> v = None then Inl ValueError
       else
         bindE (optional_input dimension_code code) (\<lambda>normalized_code.
         bindE (optional_input value_type v) (\<lambda>normalized_value.
         bindE (reason_error (audit_factory_create cs p (Some DIM_UPDATE)
                  (recompose_operation normalized_code) r)) (\<lambda>audit.
           repository i version normalized_value audit normalized_code e d)))))"

definition get_execute :: "(uuid \<Rightarrow> db \<Rightarrow> 'a res) \<Rightarrow> human_principal \<Rightarrow> uuid \<Rightarrow> db \<Rightarrow> 'a res" where
  "get_execute repository p i d = bindE (authorize p READ_DATA) (\<lambda>_. repository i d)"

definition list_execute ::
    "((int \<times> uuid) option \<Rightarrow> nat \<Rightarrow> db \<Rightarrow> 'a res) \<Rightarrow> human_principal \<Rightarrow> (int \<times> uuid) option \<Rightarrow> pyobj \<Rightarrow> db \<Rightarrow> 'a res" where
  "list_execute repository p after limit d =
     bindE (authorize p READ_DATA) (\<lambda>_. bindE (page_limit limit) (\<lambda>n. repository after n d))"


section \<open>The use cases\<close>

definition create_company where
  "create_company = create_execute (string_value_type Company) company_create"

definition update_company where
  "update_company = update_execute (string_value_type Company) company_update_value"

definition get_company where
  "get_company = get_execute company_get_active"

definition list_companies where
  "list_companies = list_execute company_list_active"

definition create_string_dimension where
  "create_string_dimension s = create_execute (string_value_type s) (string_create s)"

definition update_string_dimension where
  "update_string_dimension s = update_execute (string_value_type s) (string_update_value s)"

definition get_string_dimension where
  "get_string_dimension s = get_execute (string_get_active s)"

definition list_string_dimensions where
  "list_string_dimensions s = list_execute (string_list_active s)"

definition create_numeric_dimension where
  "create_numeric_dimension s = create_execute (numeric_value_type s) (numeric_create s)"

definition update_numeric_dimension where
  "update_numeric_dimension s = update_execute (numeric_value_type s) (numeric_update_value s)"

definition get_numeric_dimension where
  "get_numeric_dimension s = get_execute (numeric_get_active s)"

definition list_numeric_dimensions where
  "list_numeric_dimensions s = list_execute (numeric_list_active s)"

definition create_memory where
  "create_memory = create_execute (\<lambda>(amt, u). memory_value_type amt u) memory_create"

text \<open>The amount and the unit of a memory update are optional, and given together or not at all.\<close>

definition update_memory ::
    "human_principal \<Rightarrow> uuid \<Rightarrow> uuid \<Rightarrow> pyobj \<Rightarrow> pyobj option \<Rightarrow> pyobj option \<Rightarrow> pyobj option \<Rightarrow> pystr option
       \<Rightarrow> env \<Rightarrow> db \<Rightarrow> (dimension \<times> db) res" where
  "update_memory p cs i expected_version amt u code r e d =
     bindE (authorize p MUTATE_DATA) (\<lambda>_.
     bindE (positive_version expected_version) (\<lambda>version.
       if code = None \<and> amt = None \<and> u = None then Inl ValueError
       else if (amt = None) \<noteq> (u = None) then Inl ValueError
       else
         bindE (optional_input dimension_code code) (\<lambda>normalized_code.
         bindE (case (amt, u) of (Some a, Some w) \<Rightarrow> bindE (memory_value_type a w) (\<lambda>x. Inr (Some x)) | _ \<Rightarrow> Inr None)
           (\<lambda>normalized_value.
         bindE (reason_error (audit_factory_create cs p (Some DIM_UPDATE)
                  (recompose_operation normalized_code) r)) (\<lambda>audit.
           memory_update_value i version normalized_value audit normalized_code e d)))))"

definition get_memory where
  "get_memory = get_execute memory_get_active"

definition list_memories where
  "list_memories = list_execute memory_list_active"

definition get_dimension_tombstone :: "slot \<Rightarrow> human_principal \<Rightarrow> uuid \<Rightarrow> db \<Rightarrow> dimension res" where
  "get_dimension_tombstone s p i d = bindE (authorize p READ_TOMBSTONE) (\<lambda>_. lifecycle_get_tombstone s i d)"

definition mutate_dimension_lifecycle ::
    "slot \<Rightarrow> dimension_operation \<Rightarrow> human_principal \<Rightarrow> uuid \<Rightarrow> uuid \<Rightarrow> pyobj \<Rightarrow> pystr option \<Rightarrow> env \<Rightarrow> db
       \<Rightarrow> (dimension \<times> db) res" where
  "mutate_dimension_lifecycle s operation p cs i expected_version r e d =
     bindE (authorize p MUTATE_DATA) (\<lambda>_.
     bindE (positive_version expected_version) (\<lambda>version.
     bindE (reason_error (audit_factory_create cs p (Some operation) None r)) (\<lambda>audit.
       if operation = DIM_DELETE then lifecycle_delete s i version audit e d
       else lifecycle_restore s i version audit e d)))"

definition delete_dimension where
  "delete_dimension s = mutate_dimension_lifecycle s DIM_DELETE"

definition restore_dimension where
  "restore_dimension s = mutate_dimension_lifecycle s DIM_RESTORE"


section \<open>The use case of each Dimension type\<close>

text \<open>A memory request has an amount and a unit, every other request a value; the request
  schemas refuse a body of the other shape.\<close>

definition serve_create ::
    "slot \<Rightarrow> human_principal \<Rightarrow> uuid \<Rightarrow> pyobj \<Rightarrow> value_input \<Rightarrow> pystr option \<Rightarrow> env \<Rightarrow> db \<Rightarrow> (dimension \<times> db) res" where
  "serve_create s p cs code v r e d =
     (case s of
        Company \<Rightarrow> create_company p cs code (plain_obj v) r e d
      | Year \<Rightarrow> create_numeric_dimension Year p cs code (plain_obj v) r e d
      | Network \<Rightarrow> create_numeric_dimension Network p cs code (plain_obj v) r e d
      | Memory \<Rightarrow> (case v of
            MemoryCreateValue amt u \<Rightarrow> create_memory p cs code (amt, u) r e d
          | PlainValue _ \<Rightarrow> Inl ValueError)
      | _ \<Rightarrow> create_string_dimension s p cs code (plain_obj v) r e d)"

definition serve_update ::
    "slot \<Rightarrow> human_principal \<Rightarrow> uuid \<Rightarrow> uuid \<Rightarrow> pyobj \<Rightarrow> value_input option \<Rightarrow> pyobj option \<Rightarrow> pystr option
       \<Rightarrow> env \<Rightarrow> db \<Rightarrow> (dimension \<times> db) res" where
  "serve_update s p cs i version v code r e d =
     (case s of
        Company \<Rightarrow> update_company p cs i version (map_option plain_obj v) code r e d
      | Year \<Rightarrow> update_numeric_dimension Year p cs i version (map_option plain_obj v) code r e d
      | Network \<Rightarrow> update_numeric_dimension Network p cs i version (map_option plain_obj v) code r e d
      | Memory \<Rightarrow> (case v of
            None \<Rightarrow> update_memory p cs i version None None code r e d
          | Some (MemoryCreateValue amt u) \<Rightarrow> update_memory p cs i version (Some amt) (Some u) code r e d
          | Some (PlainValue _) \<Rightarrow> Inl ValueError)
      | _ \<Rightarrow> update_string_dimension s p cs i version (map_option plain_obj v) code r e d)"

definition serve_get :: "slot \<Rightarrow> human_principal \<Rightarrow> uuid \<Rightarrow> db \<Rightarrow> dimension res" where
  "serve_get s p i d =
     (case s of
        Company \<Rightarrow> get_company p i d
      | Year \<Rightarrow> get_numeric_dimension Year p i d
      | Network \<Rightarrow> get_numeric_dimension Network p i d
      | Memory \<Rightarrow> get_memory p i d
      | _ \<Rightarrow> get_string_dimension s p i d)"

definition serve_list ::
    "slot \<Rightarrow> human_principal \<Rightarrow> (int \<times> uuid) option \<Rightarrow> pyobj \<Rightarrow> db \<Rightarrow> (dimension list \<times> bool) res" where
  "serve_list s p after limit d =
     (case s of
        Company \<Rightarrow> list_companies p after limit d
      | Year \<Rightarrow> list_numeric_dimensions Year p after limit d
      | Network \<Rightarrow> list_numeric_dimensions Network p after limit d
      | Memory \<Rightarrow> list_memories p after limit d
      | _ \<Rightarrow> list_string_dimensions s p after limit d)"

end
