(* ===== verification/MasterCode_Repo.thy ===== *)
theory MasterCode_Repo
  imports Dimension_UseCases
begin

text \<open>
  \<open>src/mdm/infrastructure/repositories/master_codes.py\<close>: creation with ordered resolution of
  the eight slots, reads, reference updates, deletion and restoration.

  The operations that lock rows read the MasterCode once before the locks and again under
  them. Other transactions may commit in between, so these operations take two databases:
  \<open>d0\<close>, which the first read sees, and \<open>d\<close>, the state once the locks are held (a locked row
  does not change until the transaction ends).
\<close>

section \<open>Plans\<close>

datatype ('c, 'v) selection = ExistingDimension uuid | InlineDimension 'c 'v | NotApplicable

type_synonym create_input = "slot \<Rightarrow> (pyobj, value_input) selection"
type_synonym create_plan = "slot \<Rightarrow> (pystr, dim_value) selection"

datatype reference_selection = RefExisting uuid | RefNotApplicable

type_synonym reference_update = "slot \<Rightarrow> reference_selection option"

definition reference_update_init :: "reference_update \<Rightarrow> reference_update res" where
  "reference_update_init changes =
     (if \<forall>s \<in> set ORDER. changes s = None then Inl ValueError else Inr changes)"

record mc_env = env +
  env_dim_id :: "slot \<Rightarrow> uuid"


section \<open>Creation\<close>

definition find_inline_conflicts :: "db \<Rightarrow> slot \<Rightarrow> pystr \<Rightarrow> dim_value \<Rightarrow> bool \<times> bool" where
  "find_inline_conflicts d s code v =
     (let conflicts = filter (\<lambda>r. r_code r = code \<or> value_key (r_value r) = value_key (record_value v)) (dim_rows d s)
      in (\<exists>r \<in> set conflicts. r_code r = code,
          \<exists>r \<in> set conflicts. value_key (r_value r) = value_key (record_value v)))"

definition create_inline ::
    "mutation_ctx \<Rightarrow> slot \<Rightarrow> pystr \<Rightarrow> dim_value \<Rightarrow> uuid \<Rightarrow> db \<Rightarrow> (dimension \<times> db) res" where
  "create_inline ctx s code v i d =
     (case find_inline_conflicts d s code v of (code_conflict, value_conflict) \<Rightarrow>
        if code_conflict \<or> value_conflict then Inl (InlineDimensionConflict s code_conflict value_conflict)
        else
          let r = \<lparr>r_id = i, r_code = code, r_value = record_value v, r_version = 1,
                   r_created = ctx_time ctx, r_updated = ctx_time ctx, r_deleted = None\<rparr>
          in bindE (dim_insert ctx s r d) (\<lambda>d'.
             bindE (row_to_domain s r) (\<lambda>x. Inr (x, d'))))"

definition lock_reference :: "db \<Rightarrow> slot \<Rightarrow> uuid \<Rightarrow> dimension option res" where
  "lock_reference d s i =
     (case find (\<lambda>r. r_id r = i \<and> r_deleted r = None) (dim_rows d s) of
        None \<Rightarrow> Inr None
      | Some r \<Rightarrow> bindE (row_to_domain s r) (\<lambda>x. Inr (Some x)))"

text \<open>The loop over the slots: the resolved Dimensions, the invalid fields and the database.\<close>

fun resolve_slots ::
    "mutation_ctx \<Rightarrow> create_plan \<Rightarrow> mc_env \<Rightarrow> slot list \<Rightarrow> master_code_dimensions \<Rightarrow> string list \<Rightarrow> db
       \<Rightarrow> (master_code_dimensions \<times> string list \<times> db) res" where
  "resolve_slots ctx plan e [] resolved invalid d = Inr (resolved, invalid, d)"
| "resolve_slots ctx plan e (s # ss) resolved invalid d =
     (case plan s of
        NotApplicable \<Rightarrow> resolve_slots ctx plan e ss (resolved(s := None)) invalid d
      | ExistingDimension i \<Rightarrow>
          bindE (lock_reference d s i) (\<lambda>found.
            case found of
              None \<Rightarrow> resolve_slots ctx plan e ss resolved (invalid @ [''dimensions.'' @ slot_name s @ ''.id'']) d
            | Some x \<Rightarrow> resolve_slots ctx plan e ss (resolved(s := Some x)) invalid d)
      | InlineDimension code v \<Rightarrow>
          bindE (create_inline ctx s code v (env_dim_id e s) d) (\<lambda>(x, d').
            resolve_slots ctx plan e ss (resolved(s := Some x)) invalid d'))"

definition new_mc_row :: "mc_env \<Rightarrow> int \<Rightarrow> master_code_dimensions \<Rightarrow> mc_row" where
  "new_mc_row e t dims =
     \<lparr>m_id = env_new_id e, m_refs = (\<lambda>s. map_option dim_id (dims s)), m_code = compose dims, m_version = 1,
      m_created = t, m_updated = t, m_deleted = None\<rparr>"

text \<open>\<open>_translate_integrity_error\<close>, with the conflicts it reads after the rollback.\<close>

fun translate_slots :: "create_plan \<Rightarrow> string \<Rightarrow> db \<Rightarrow> slot list \<Rightarrow> exn \<Rightarrow> exn" where
  "translate_slots plan n d [] err = err"
| "translate_slots plan n d (s # ss) err =
     (if n \<noteq> uq_code s \<and> n \<noteq> uq_value s then translate_slots plan n d ss err
      else
        let by_name = InlineDimensionConflict s (n = uq_code s) (n = uq_value s)
        in case plan s of
             InlineDimension code v \<Rightarrow>
               (case find_inline_conflicts d s code v of (cc, vc) \<Rightarrow>
                  if cc \<or> vc then InlineDimensionConflict s cc vc else by_name)
           | _ \<Rightarrow> by_name)"

definition translate_integrity_error :: "create_plan \<Rightarrow> db \<Rightarrow> 'a res \<Rightarrow> 'a res" where
  "translate_integrity_error plan d r =
     (case r of
        Inl (IntegrityError (Some n)) \<Rightarrow>
          if n = uq_master_codes_code \<or> n = uq_master_codes_references then Inl MasterCodeConflict
          else Inl (translate_slots plan n d ORDER (IntegrityError (Some n)))
      | _ \<Rightarrow> r)"

definition mc_create :: "create_plan \<Rightarrow> audit_metadata \<Rightarrow> mc_env \<Rightarrow> db \<Rightarrow> (master_code \<times> db) res" where
  "mc_create plan audit e d =
     translate_integrity_error plan d
      (bindE (set_context audit (env_clock e) None) (\<lambda>ctx.
       bindE (resolve_slots ctx plan e ORDER (\<lambda>_. None) [] d) (\<lambda>(resolved, invalid, d1).
         if invalid \<noteq> [] then Inl (InvalidDimensionReference invalid)
         else bindE (master_code_dimensions_init resolved) (\<lambda>dims.
           let m = new_mc_row e (ctx_time ctx) dims
           in bindE (mc_insert ctx m d1) (\<lambda>d2.
              bindE (row_master_code m dims) (\<lambda>x. Inr (x, d2)))))))"


section \<open>Reads\<close>

definition mc_get_active :: "uuid \<Rightarrow> db \<Rightarrow> master_code res" where
  "mc_get_active i d =
     (case find (\<lambda>m. m_id m = i \<and> m_deleted m = None) (mc_rows d) of
        None \<Rightarrow> Inl MasterCodeNotFound
      | Some m \<Rightarrow> joined_to_domain d m)"

definition mc_get_tombstone :: "uuid \<Rightarrow> db \<Rightarrow> master_code res" where
  "mc_get_tombstone i d =
     (case mc_by_id i (mc_rows d) of
        None \<Rightarrow> Inl MasterCodeNotFound
      | Some m \<Rightarrow> bindE (joined_to_domain d m) (\<lambda>current.
          if mc_deleted_at current = None then Inl MasterCodeNotDeleted else Inr current))"

definition mc_page_order :: "mc_row list \<Rightarrow> mc_row list" where
  "mc_page_order rows = rev (sort_key (\<lambda>m. (m_created m, m_id m)) rows)"

definition mc_list_active :: "(int \<times> uuid) option \<Rightarrow> nat \<Rightarrow> db \<Rightarrow> (master_code list \<times> bool) res" where
  "mc_list_active after limit d =
     (let active = filter (\<lambda>m. m_deleted m = None) (mc_rows d);
          selected = (case after of None \<Rightarrow> active
            | Some (created, i) \<Rightarrow> filter (\<lambda>m. m_created m < created \<or> (m_created m = created \<and> m_id m < i)) active);
          rows = take (limit + 1) (mc_page_order selected)
      in bindE (mapE (joined_to_domain d) (take limit rows)) (\<lambda>items. Inr (items, limit < length rows)))"


section \<open>Deletion and restoration\<close>

definition same_persisted_state :: "mc_row \<Rightarrow> master_code \<Rightarrow> bool" where
  "same_persisted_state m initial \<longleftrightarrow>
     m_version m = mc_version initial \<and> map (m_refs m) ORDER = dimension_ids (mc_dims initial)"

text \<open>The Dimensions of the initial read, deleted ones included, read again under a share lock.\<close>

fun lock_references :: "db \<Rightarrow> master_code_dimensions \<Rightarrow> slot list \<Rightarrow> master_code_dimensions res" where
  "lock_references d refs [] = Inr (\<lambda>_. None)"
| "lock_references d refs (s # ss) =
     (case refs s of
        None \<Rightarrow> lock_references d refs ss
      | Some x \<Rightarrow>
          (case dim_by_id (dim_id x) (dim_rows d s) of
             None \<Rightarrow> Inl PreconditionFailed
           | Some r \<Rightarrow> bindE (row_to_domain s r) (\<lambda>y.
               bindE (lock_references d refs ss) (\<lambda>g. Inr (g(s := Some y))))))"

definition inactive_fields :: "master_code_dimensions \<Rightarrow> string list" where
  "inactive_fields dims =
     map (\<lambda>s. slot_name s @ ''_id'')
       (filter (\<lambda>s. case dims s of None \<Rightarrow> False | Some x \<Rightarrow> is_deleted x) ORDER)"

definition mc_change_lifecycle ::
    "uuid \<Rightarrow> pystr \<Rightarrow> audit_metadata \<Rightarrow> bool \<Rightarrow> mc_env \<Rightarrow> db \<Rightarrow> db \<Rightarrow> (master_code \<times> db) res" where
  "mc_change_lifecycle i expected_etag audit restore e d0 d =
     (case mc_by_id i (mc_rows d0) of
        None \<Rightarrow> Inl MasterCodeNotFound
      | Some m0 \<Rightarrow>
          bindE (joined_to_domain d0 m0) (\<lambda>initial.
            if restore \<and> mc_deleted_at initial = None then Inl MasterCodeNotDeleted
            else if \<not> restore \<and> mc_deleted_at initial \<noteq> None then Inl MasterCodeNotFound
            else
              bindE (lock_references d (mc_dims initial) ORDER) (\<lambda>locked.
                case mc_by_id i (mc_rows d) of
                  None \<Rightarrow> Inl PreconditionFailed
                | Some m \<Rightarrow>
                    if \<not> same_persisted_state m initial then Inl PreconditionFailed
                    else
                      bindE (master_code_dimensions_init locked) (\<lambda>dims.
                      bindE (row_master_code m dims) (\<lambda>current.
                        if etag current \<noteq> expected_etag then Inl PreconditionFailed
                        else if restore \<and> inactive_fields dims \<noteq> []
                        then Inl (MasterCodeReferenceInactive (inactive_fields dims))
                        else
                          bindE (set_context audit (env_clock e) (Some (mc_updated_at current))) (\<lambda>ctx.
                          let timestamp = Aware (ctx_time ctx) in
                          bindE (if restore then master_code_restore current timestamp
                                 else master_code_delete current timestamp) (\<lambda>updated.
                          bindE (mc_update ctx
                                  (m\<lparr>m_code := mc_code updated,
                                     m_deleted := map_option instant (mc_deleted_at updated),
                                     m_updated := instant (mc_updated_at updated),
                                     m_version := mc_version updated\<rparr>) d) (\<lambda>d'.
                            Inr (updated, d')))))))))"

definition mc_delete where
  "mc_delete i expected_etag audit = mc_change_lifecycle i expected_etag audit False"

definition mc_restore where
  "mc_restore i expected_etag audit = mc_change_lifecycle i expected_etag audit True"


section \<open>Reference updates\<close>

text \<open>The active Dimensions the current and the requested reference of a slot name, locked.\<close>

definition lock_slot :: "db \<Rightarrow> slot \<Rightarrow> dimension option \<Rightarrow> reference_selection option \<Rightarrow> (uuid \<times> dimension) list res" where
  "lock_slot d s current change =
     (let identifiers = (case current of None \<Rightarrow> [] | Some x \<Rightarrow> [dim_id x])
            @ (case change of Some (RefExisting i) \<Rightarrow> [i] | _ \<Rightarrow> []);
          records = filter (\<lambda>r. r_id r \<in> set identifiers \<and> r_deleted r = None) (dim_rows d s)
      in mapE (\<lambda>r. bindE (row_to_domain s r) (\<lambda>x. Inr (r_id r, x))) (sort_key r_id records))"

fun lock_reference_update_dimensions ::
    "db \<Rightarrow> master_code_dimensions \<Rightarrow> reference_update \<Rightarrow> slot list
       \<Rightarrow> ((slot \<Rightarrow> (uuid \<times> dimension) list) \<times> string list) res" where
  "lock_reference_update_dimensions d refs changes [] = Inr (\<lambda>_. [], [])"
| "lock_reference_update_dimensions d refs changes (s # ss) =
     bindE (lock_slot d s (refs s) (changes s)) (\<lambda>locked.
       if (case refs s of None \<Rightarrow> False | Some x \<Rightarrow> map_of locked (dim_id x) = None) then Inl PreconditionFailed
       else
         bindE (lock_reference_update_dimensions d refs changes ss) (\<lambda>(rest, invalid).
           Inr (rest(s := locked),
                (case changes s of
                   Some (RefExisting i) \<Rightarrow> if map_of locked i = None then [''dimensions.'' @ slot_name s @ ''.id''] else []
                 | _ \<Rightarrow> []) @ invalid)))"

definition resolve_reference_update_slot ::
    "dimension option \<Rightarrow> reference_selection option \<Rightarrow> (uuid \<times> dimension) list \<Rightarrow> dimension option" where
  "resolve_reference_update_slot current change locked =
     (case change of
        None \<Rightarrow> current
      | Some RefNotApplicable \<Rightarrow> None
      | Some (RefExisting i) \<Rightarrow> map_of locked i)"

definition mc_update_references ::
    "uuid \<Rightarrow> reference_update \<Rightarrow> pystr \<Rightarrow> audit_metadata \<Rightarrow> mc_env \<Rightarrow> db \<Rightarrow> db \<Rightarrow> (master_code \<times> db) res" where
  "mc_update_references i changes expected_etag audit e d0 d =
     (let r =
       (case find (\<lambda>m. m_id m = i \<and> m_deleted m = None) (mc_rows d0) of
          None \<Rightarrow> Inl MasterCodeNotFound
        | Some m0 \<Rightarrow>
          bindE (joined_to_domain d0 m0) (\<lambda>initial.
          bindE (lock_reference_update_dimensions d (mc_dims initial) changes ORDER) (\<lambda>(locked, invalid).
            if invalid \<noteq> [] then Inl (InvalidDimensionReference invalid)
            else
              (case find (\<lambda>m. m_id m = i \<and> m_deleted m = None) (mc_rows d) of
                 None \<Rightarrow> Inl PreconditionFailed
               | Some m \<Rightarrow>
                   if \<not> same_persisted_state m initial then Inl PreconditionFailed
                   else
                     bindE (master_code_dimensions_init
                              (\<lambda>s. case m_refs m s of None \<Rightarrow> None | Some j \<Rightarrow> map_of (locked s) j)) (\<lambda>current_dims.
                     bindE (row_master_code m current_dims) (\<lambda>current.
                       if etag current \<noteq> expected_etag then Inl PreconditionFailed
                       else
                         bindE (master_code_dimensions_init
                           (\<lambda>s. resolve_reference_update_slot (current_dims s) (changes s) (locked s))) (\<lambda>next_dims.
                           if dimension_ids next_dims = dimension_ids current_dims then Inr (current, d)
                           else
                             bindE (set_context audit (env_clock e) (Some (mc_updated_at current))) (\<lambda>ctx.
                             bindE (update_references current next_dims (Aware (ctx_time ctx))) (\<lambda>updated.
                             bindE (mc_update ctx
                                     (m\<lparr>m_refs := (\<lambda>s. map_option dim_id (next_dims s)),
                                        m_code := mc_code updated, m_version := mc_version updated,
                                        m_updated := instant (mc_updated_at updated)\<rparr>) d) (\<lambda>d'.
                               Inr (updated, d'))))))))))) 
      in case r of
           Inl (IntegrityError (Some n)) \<Rightarrow>
             if n = uq_master_codes_code \<or> n = uq_master_codes_references then Inl MasterCodeConflict else r
         | _ \<Rightarrow> r)"

end
