(* ===== verification/MasterCode_UseCases.thy ===== *)
theory MasterCode_UseCases
  imports MasterCode_Repo
begin

text \<open>
  The use cases of \<open>src/mdm/application/master_codes.py\<close> and \<open>master_code_lifecycle.py\<close>:
  authorization, normalization of the plan, audit metadata and the repository call.
\<close>

section \<open>Normalizing a plan\<close>

text \<open>A validation error of a slot is reported under the path of that slot.\<close>

definition slot_error :: "slot \<Rightarrow> 'a res \<Rightarrow> 'a res" where
  "slot_error s r =
     (case r of
        Inl (DimensionValidationError field msg) \<Rightarrow>
          Inl (DimensionValidationError (''dimensions.'' @ slot_name s @ ''.'' @ field) msg)
      | _ \<Rightarrow> r)"

fun normalize_slots :: "create_input \<Rightarrow> slot list \<Rightarrow> create_plan \<Rightarrow> create_plan res" where
  "normalize_slots input [] plan = Inr plan"
| "normalize_slots input (s # ss) plan =
     (case input s of
        ExistingDimension i \<Rightarrow> normalize_slots input ss (plan(s := ExistingDimension i))
      | NotApplicable \<Rightarrow> normalize_slots input ss (plan(s := NotApplicable))
      | InlineDimension code v \<Rightarrow>
          bindE (slot_error s (bindE (dimension_code code) (\<lambda>c.
                   bindE (normalize_inline_value s v) (\<lambda>w. Inr (c, w))))) (\<lambda>(c, w).
            normalize_slots input ss (plan(s := InlineDimension c w))))"

definition normalize_plan :: "create_input \<Rightarrow> create_plan res" where
  "normalize_plan input = normalize_slots input ORDER (\<lambda>_. NotApplicable)"

definition has_inline :: "create_plan \<Rightarrow> bool" where
  "has_inline plan \<longleftrightarrow> (\<exists>s \<in> set ORDER. case plan s of InlineDimension _ _ \<Rightarrow> True | _ \<Rightarrow> False)"


section \<open>The use cases\<close>

definition create_master_code ::
    "human_principal \<Rightarrow> uuid \<Rightarrow> create_input \<Rightarrow> pystr option \<Rightarrow> mc_env \<Rightarrow> db \<Rightarrow> (master_code \<times> db) res" where
  "create_master_code p cs input r e d =
     bindE (authorize p MUTATE_DATA) (\<lambda>_.
     bindE (normalize_plan input) (\<lambda>plan.
     bindE (reason_error (audit_factory_create cs p (if has_inline plan then Some DIM_CREATE else None)
              (Some MC_CREATE) r)) (\<lambda>audit.
       mc_create plan audit e d)))"

definition update_master_code_references ::
    "human_principal \<Rightarrow> uuid \<Rightarrow> uuid \<Rightarrow> reference_update \<Rightarrow> pystr \<Rightarrow> pystr option \<Rightarrow> mc_env \<Rightarrow> db \<Rightarrow> db
       \<Rightarrow> (master_code \<times> db) res" where
  "update_master_code_references p cs i changes expected_etag r e d0 d =
     bindE (authorize p MUTATE_DATA) (\<lambda>_.
     bindE (reason_error (audit_factory_create cs p None (Some MC_REFERENCE_UPDATE) r)) (\<lambda>audit.
       mc_update_references i changes expected_etag audit e d0 d))"

definition get_master_code where
  "get_master_code = get_execute mc_get_active"

definition list_master_codes where
  "list_master_codes = list_execute mc_list_active"

definition get_master_code_tombstone :: "human_principal \<Rightarrow> uuid \<Rightarrow> db \<Rightarrow> master_code res" where
  "get_master_code_tombstone p i d = bindE (authorize p READ_TOMBSTONE) (\<lambda>_. mc_get_tombstone i d)"

definition mutate_master_code_lifecycle ::
    "master_code_operation \<Rightarrow> human_principal \<Rightarrow> uuid \<Rightarrow> uuid \<Rightarrow> pystr \<Rightarrow> pystr option \<Rightarrow> mc_env \<Rightarrow> db \<Rightarrow> db
       \<Rightarrow> (master_code \<times> db) res" where
  "mutate_master_code_lifecycle operation p cs i expected_etag r e d0 d =
     bindE (authorize p MUTATE_DATA) (\<lambda>_.
     bindE (reason_error (audit_factory_create cs p None (Some operation) r)) (\<lambda>audit.
       if operation = MC_DELETE then mc_delete i expected_etag audit e d0 d
       else mc_restore i expected_etag audit e d0 d))"

definition delete_master_code where
  "delete_master_code = mutate_master_code_lifecycle MC_DELETE"

definition restore_master_code where
  "restore_master_code = mutate_master_code_lifecycle MC_RESTORE"

end
