(* ===== verification/Change_Requests.thy ===== *)
theory Change_Requests
  imports MasterCode_UseCases "HOL-Library.List_Lexorder"
begin

text \<open>
  \<open>src/mdm/domain/change_requests.py\<close> and the proposal validation of
  \<open>src/mdm/application/change_requests.py\<close>: proposals, review messages, requests with their
  one review transition, and the normalization of a proposal's JSON payload.

  A \<open>ProposalPayload\<close> holds the text \<open>json.dumps(..., sort_keys=True)\<close> of its object; two
  payloads are equal exactly when the objects are, so the model keeps the object itself with
  sorted keys. Constructor arguments whose class the code checks (\<open>ChangeOperation\<close>, \<open>UUID\<close>,
  \<open>ProposalPayload\<close>) have that type here.
\<close>

definition invalid_request :: "crmsg \<Rightarrow> 'a res" where
  "invalid_request m = Inl (ChangeRequestValidationError m)"


section \<open>JSON\<close>

fun canonical :: "jvalue \<Rightarrow> jvalue" where
  "canonical (PObj kvs) = PObj (sort_key fst (map (\<lambda>(k, v). (k, canonical v)) kvs))"
| "canonical (PArr vs) = PArr (map canonical vs)"
| "canonical v = v"

fun is_object :: "jvalue \<Rightarrow> bool" where
  "is_object (PObj _) = True"
| "is_object _ = False"

fun to_pyobj :: "jvalue \<Rightarrow> pyobj" where
  "to_pyobj PNull = PyNone"
| "to_pyobj (PBool b) = PyBool b"
| "to_pyobj (PInt n) = PyInt n"
| "to_pyobj (PStr s) = PyStr s"
| "to_pyobj _ = PyOther"

definition proposal_payload :: "jvalue \<Rightarrow> jvalue res" where
  "proposal_payload v =
     (if is_object v then Inr (canonical v) else Inl (ChangeRequestValidationError PayloadMustBeObject))"


section \<open>Proposals\<close>

datatype change_operation = CR_CREATE | CR_REFERENCE_UPDATE | CR_DELETE | CR_RESTORE

datatype change_request_status = PENDING | APPROVED | REJECTED | MODIFIED_AND_APPROVED

definition review_message :: "pystr \<Rightarrow> pystr res" where
  "review_message v =
     (case normalize_reason (Some v) of
        Inl _ \<Rightarrow> Inl (ChangeRequestValidationError MessageInvalid)
      | Inr None \<Rightarrow> Inl (ChangeRequestValidationError MessageEmpty)
      | Inr (Some s) \<Rightarrow> Inr s)"

record change_proposal =
  cp_operation :: change_operation
  cp_target :: "uuid option"
  cp_payload :: "jvalue option"
  cp_etag :: "pystr option"

definition change_proposal_init :: "change_proposal \<Rightarrow> change_proposal res" where
  "change_proposal_init c =
     (bindE (if cp_operation c = CR_CREATE
             then (if cp_target c \<noteq> None \<or> cp_etag c \<noteq> None then invalid_request CreateWithTarget else Inr ())
             else if cp_target c = None \<or> cp_etag c = None \<or> cp_etag c = Some [] then invalid_request TargetRequired
             else Inr ()) (\<lambda>_.
      if cp_operation c = CR_DELETE
      then (if cp_payload c \<noteq> None then invalid_request DeleteWithPayload else Inr c)
      else if cp_payload c = None then invalid_request PayloadRequired
      else Inr c))"


section \<open>Requests\<close>

record change_request =
  cr_id :: uuid
  cr_original :: change_proposal
  cr_requester :: uuid
  cr_created_at :: datetime
  cr_reason :: "pystr option"
  cr_status :: change_request_status
  cr_approved :: "change_proposal option"
  cr_reviewer :: "uuid option"
  cr_message :: "pystr option"
  cr_reviewed_at :: "datetime option"
  cr_change_set :: "uuid option"

definition classify_approval :: "change_request \<Rightarrow> change_proposal \<Rightarrow> pystr option \<Rightarrow> change_request_status res" where
  "classify_approval q proposal message =
     (let restore_exception = (cp_operation (cr_original q) = CR_CREATE \<and> cp_operation proposal = CR_RESTORE) in
      if \<not> restore_exception
         \<and> (cp_operation proposal \<noteq> cp_operation (cr_original q) \<or> cp_target proposal \<noteq> cp_target (cr_original q))
      then Inl (ChangeRequestValidationError OperationChanged)
      else if proposal = cr_original q then Inr APPROVED
      else if message = None then Inl (ChangeRequestValidationError ModifiedNeedsMessage)
      else Inr MODIFIED_AND_APPROVED)"

definition change_request_init :: "change_request \<Rightarrow> change_request res" where
  "change_request_init q =
     (if cp_operation (cr_original q) = CR_RESTORE then invalid_request RestoreNotSubmittable
      else if \<not> is_aware (cr_created_at q) then invalid_request CreatedTimezone
      else if cr_status q = PENDING then
        (if cr_approved q \<noteq> None \<or> cr_reviewer q \<noteq> None \<or> cr_message q \<noteq> None \<or> cr_reviewed_at q \<noteq> None
            \<or> cr_change_set q \<noteq> None
         then invalid_request PendingWithReview else Inr q)
      else if cr_reviewer q = None
        \<or> (case cr_reviewed_at q of None \<Rightarrow> True
            | Some t \<Rightarrow> \<not> is_aware t \<or> instant t < instant (cr_created_at q))
      then invalid_request ReviewTimes
      else if cr_status q = REJECTED then
        (if cr_message q = None \<or> cr_approved q \<noteq> None \<or> cr_change_set q \<noteq> None
         then invalid_request RejectionShape else Inr q)
      else
        (case (cr_approved q, cr_change_set q) of
           (Some proposal, Some cs) \<Rightarrow>
             if uuid_version cs \<noteq> Some 7 then invalid_request ApprovalShape
             else bindE (classify_approval q proposal (cr_message q)) (\<lambda>expected_status.
               if cr_status q \<noteq> expected_status then invalid_request ApprovalStatusMismatch else Inr q)
         | _ \<Rightarrow> invalid_request ApprovalShape))"

definition require_pending :: "change_request \<Rightarrow> unit res" where
  "require_pending q = (if cr_status q \<noteq> PENDING then Inl ChangeRequestAlreadyReviewed else Inr ())"

definition request_approve ::
    "change_request \<Rightarrow> change_proposal \<Rightarrow> uuid \<Rightarrow> datetime \<Rightarrow> uuid \<Rightarrow> pystr option \<Rightarrow> change_request res" where
  "request_approve q proposal reviewer_id reviewed_at change_set message =
     bindE (require_pending q) (\<lambda>_.
     bindE (classify_approval q proposal message) (\<lambda>status.
       change_request_init (q\<lparr>cr_status := status, cr_approved := Some proposal, cr_reviewer := Some reviewer_id,
         cr_reviewed_at := Some reviewed_at, cr_change_set := Some change_set, cr_message := message\<rparr>)))"

definition request_reject :: "change_request \<Rightarrow> uuid \<Rightarrow> datetime \<Rightarrow> pystr \<Rightarrow> change_request res" where
  "request_reject q reviewer_id reviewed_at message =
     bindE (require_pending q) (\<lambda>_.
       change_request_init (q\<lparr>cr_status := REJECTED, cr_reviewer := Some reviewer_id,
         cr_reviewed_at := Some reviewed_at, cr_message := Some message\<rparr>))"


section \<open>Validation of a proposal\<close>

definition is_digit :: "nat \<Rightarrow> bool" where
  "is_digit c \<longleftrightarrow> 48 \<le> c \<and> c \<le> 57"

definition is_hex_lower :: "nat \<Rightarrow> bool" where
  "is_hex_lower c \<longleftrightarrow> is_digit c \<or> (97 \<le> c \<and> c \<le> 102)"

text \<open>\<open>"mc-[1-9][0-9]*-[0-9a-f]{64}"\<close>, quotes included.\<close>

definition etag_pattern :: "pystr \<Rightarrow> bool" where
  "etag_pattern s \<longleftrightarrow>
     take 4 s = lit ''\"mc-''
     \<and> (let rest = drop 4 s; ds = takeWhile is_digit rest; tail = drop (length ds) rest in
        ds \<noteq> [] \<and> hd ds \<noteq> 48 \<and> length tail = 66 \<and> hd tail = 45 \<and> last tail = 34
        \<and> (\<forall>c \<in> set (butlast (tl tail)). is_hex_lower c))"

text \<open>
  \<open>int(text, 16)\<close> on ASCII text: blanks around it, a sign, a \<open>0x\<close> prefix and single underscores
  between digits are accepted (the non-ASCII decimal digits Python also reads are not modelled).
\<close>

definition hex_digit_value :: "nat \<Rightarrow> nat option" where
  "hex_digit_value c =
     (if is_digit c then Some (c - 48)
      else if 97 \<le> c \<and> c \<le> 102 then Some (c - 87)
      else if 65 \<le> c \<and> c \<le> 70 then Some (c - 55)
      else None)"

fun hex_digits :: "bool \<Rightarrow> nat \<Rightarrow> pystr \<Rightarrow> nat option" where
  "hex_digits sep n [] = (if sep then None else Some n)"
| "hex_digits sep n (c # cs) =
     (if c = 95 \<and> \<not> sep then hex_digits True n cs
      else case hex_digit_value c of None \<Rightarrow> None | Some v \<Rightarrow> hex_digits False (n * 16 + v) cs)"

definition int16 :: "pystr \<Rightarrow> int option" where
  "int16 s =
     (let t = strip_ws s;
          negative = (t \<noteq> [] \<and> hd t = 45);
          u = (if t \<noteq> [] \<and> (hd t = 45 \<or> hd t = 43) then tl t else t);
          prefixed = (take 2 u = lit ''0x'' \<or> take 2 u = lit ''0X'');
          digits = (if prefixed then (if drop 2 u \<noteq> [] \<and> hd (drop 2 u) = 95 then drop 3 u else drop 2 u) else u)
      in map_option (\<lambda>n. if negative then - int n else int n) (hex_digits True 0 digits))"

text \<open>\<open>str.replace(old, "")\<close>.\<close>

fun remove_all :: "pystr \<Rightarrow> pystr \<Rightarrow> pystr" where
  "remove_all old [] = []"
| "remove_all old (c # cs) =
     (if old \<noteq> [] \<and> take (length old) (c # cs) = old
      then remove_all old (drop (length old - 1) cs)
      else c # remove_all old cs)"

definition strip_braces :: "pystr \<Rightarrow> pystr" where
  "strip_braces s = (let brace = (\<lambda>c. c = 123 \<or> c = 125) in rev (dropWhile brace (rev (dropWhile brace s))))"

text \<open>\<open>UUID(text)\<close>.\<close>

definition parse_uuid :: "pystr \<Rightarrow> uuid option" where
  "parse_uuid s =
     (let hex = remove_all (lit ''-'') (strip_braces (remove_all (lit ''uuid:'') (remove_all (lit ''urn:'') s))) in
      if length hex \<noteq> 32 then None
      else case int16 hex of
             None \<Rightarrow> None
           | Some n \<Rightarrow> if 0 \<le> n then Some (word_of_int n) else None)"

fun slot_of_key :: "pystr \<Rightarrow> slot option" where
  "slot_of_key k = find (\<lambda>s. lit (slot_name s) = k) ORDER"

fun keys_are :: "(pystr \<times> jvalue) list \<Rightarrow> string list \<Rightarrow> bool" where
  "keys_are kvs names \<longleftrightarrow> set (map fst kvs) = set (map lit names)"

text \<open>One slot of the payload.\<close>

definition parse_selection :: "change_operation \<Rightarrow> slot \<Rightarrow> jvalue \<Rightarrow> (pyobj, value_input) selection res" where
  "parse_selection operation s v =
     (case v of
        PObj kvs \<Rightarrow>
          let get = (\<lambda>k. map_of kvs (lit k)) in
          if get ''mode'' = Some (PStr (lit ''NOT_APPLICABLE'')) \<and> keys_are kvs [''mode''] then Inr NotApplicable
          else if get ''mode'' = Some (PStr (lit ''REFERENCE'')) \<and> keys_are kvs [''mode'', ''id''] then
            (case get ''id'' of
               Some (PStr t) \<Rightarrow> (case parse_uuid t of Some i \<Rightarrow> Inr (ExistingDimension i) | None \<Rightarrow> invalid_request ReferenceIdRequired)
             | _ \<Rightarrow> invalid_request ReferenceIdRequired)
          else if get ''mode'' = Some (PStr (lit ''CREATE'')) \<and> keys_are kvs [''mode'', ''code'', ''value''] then
            (if operation = CR_RESTORE then invalid_request RestoreNoCreate
             else
               let code = to_pyobj (the (get ''code'')); raw = the (get ''value'') in
               if s = Memory then
                 (case raw of
                    PObj mvs \<Rightarrow>
                      if keys_are mvs [''amount'', ''unit'']
                      then Inr (InlineDimension code (MemoryCreateValue (to_pyobj (the (map_of mvs (lit ''amount''))))
                                                                      (to_pyobj (the (map_of mvs (lit ''unit''))))))
                      else invalid_request MemoryShape
                  | _ \<Rightarrow> invalid_request MemoryShape)
               else Inr (InlineDimension code (PlainValue (to_pyobj raw))))
          else invalid_request ModeFields
      | _ \<Rightarrow> invalid_request SlotObjectRequired)"

fun parse_selections :: "change_operation \<Rightarrow> (pystr \<times> jvalue) list \<Rightarrow> create_input \<Rightarrow> create_input res" where
  "parse_selections operation [] acc = Inr acc"
| "parse_selections operation ((k, v) # kvs) acc =
     (case slot_of_key k of
        None \<Rightarrow> Inl (ChangeRequestValidationError SlotsRequired)
      | Some s \<Rightarrow> bindE (parse_selection operation s v) (\<lambda>sel. parse_selections operation kvs (acc(s := sel))))"

type_synonym validated_proposal = "(slot \<times> (pystr, dim_value) selection) list"

definition validate_proposal :: "change_proposal \<Rightarrow> validated_proposal res" where
  "validate_proposal c =
     (if (case cp_etag c of None \<Rightarrow> False | Some e \<Rightarrow> \<not> etag_pattern e) then invalid_request EtagFormat
      else if cp_operation c = CR_DELETE then Inr []
      else
        case cp_payload c of
          Some (PObj [(k, PObj dimensions)]) \<Rightarrow>
            if k \<noteq> lit ''dimensions'' then invalid_request DimensionsRequired
            else if dimensions = [] \<or> (\<exists>e \<in> set dimensions. slot_of_key (fst e) = None) then invalid_request SlotsRequired
            else if cp_operation c \<in> {CR_CREATE, CR_RESTORE}
              \<and> set (map (slot_of_key \<circ> fst) dimensions) \<noteq> set (map Some ORDER)
            then invalid_request AllSlotsRequired
            else
              bindE (parse_selections (cp_operation c) dimensions (\<lambda>_. NotApplicable)) (\<lambda>selections.
              bindE (normalize_plan selections) (\<lambda>plan.
                Inr (map (\<lambda>s. (s, plan s)) (filter (\<lambda>s. Some s \<in> set (map (slot_of_key \<circ> fst) dimensions)) ORDER))))
        | None \<Rightarrow> Inl AssertionError
        | _ \<Rightarrow> invalid_request DimensionsRequired)"

end
