(* ===== verification/Change_Request_Repo.thy ===== *)
theory Change_Request_Repo
  imports Change_Requests
begin

text \<open>
  \<open>src/mdm/infrastructure/repositories/change_requests.py\<close> over the request table of migration
  \<open>20260915_0013\<close>, and the use cases of \<open>src/mdm/application/change_requests.py\<close>. An approval
  applies the proposal, writes the logs and records the review in one transaction.

  As for the direct operations, an approval of a change to an existing MasterCode takes the
  database \<open>d0\<close> its first read sees and the state under its locks; the request row is locked
  before either.
\<close>

section \<open>The request table\<close>

text \<open>The four columns of a proposal are kept together; \<open>q_approved\<close> is \<open>None\<close> when
  \<open>approved_operation\<close> is null.\<close>

record cr_row =
  q_id :: uuid
  q_original :: change_proposal
  q_requester :: uuid
  q_reason :: "pystr option"
  q_created :: int
  q_status :: change_request_status
  q_approved :: "change_proposal option"
  q_reviewer :: "uuid option"
  q_reviewed :: "int option"
  q_message :: "pystr option"
  q_applied :: "uuid option"

record service_db =
  sv_data :: db
  sv_requests :: "cr_row list"

definition proposal_check :: "change_operation set \<Rightarrow> change_proposal \<Rightarrow> bool" where
  "proposal_check targeted c \<longleftrightarrow>
     (let object = (case cp_payload c of Some v \<Rightarrow> is_object v | None \<Rightarrow> False) in
      (cp_operation c = CR_CREATE \<and> cp_target c = None \<and> cp_etag c = None \<and> object)
      \<or> (cp_operation c \<in> targeted \<and> cp_target c \<noteq> None
          \<and> (case cp_etag c of Some e \<Rightarrow> etag_pattern e | None \<Rightarrow> False)
          \<and> (if cp_operation c = CR_DELETE then cp_payload c = None else object)))"

definition review_check :: "cr_row \<Rightarrow> bool" where
  "review_check q \<longleftrightarrow>
     (let after = (case q_reviewed q of Some t \<Rightarrow> q_created q \<le> t | None \<Rightarrow> False) in
      case q_status q of
        PENDING \<Rightarrow> q_reviewer q = None \<and> q_reviewed q = None \<and> q_message q = None \<and> q_approved q = None \<and> q_applied q = None
      | REJECTED \<Rightarrow> q_reviewer q \<noteq> None \<and> after \<and> q_message q \<noteq> None \<and> q_approved q = None \<and> q_applied q = None
      | status \<Rightarrow>
          q_reviewer q \<noteq> None \<and> after
          \<and> (case q_applied q of Some cs \<Rightarrow> uuid_version cs = Some 7 | None \<Rightarrow> False)
          \<and> (case q_approved q of
               None \<Rightarrow> False
             | Some c \<Rightarrow>
                 proposal_check {CR_REFERENCE_UPDATE, CR_DELETE, CR_RESTORE} c
                 \<and> ((cp_operation c = cp_operation (q_original q) \<and> cp_target c = cp_target (q_original q))
                     \<or> (cp_operation (q_original q) = CR_CREATE \<and> cp_operation c = CR_RESTORE))
                 \<and> (if status = APPROVED then c = q_original q else q_message q \<noteq> None \<and> c \<noteq> q_original q)))"

definition cr_row_check :: "cr_row \<Rightarrow> bool" where
  "cr_row_check q \<longleftrightarrow> proposal_check {CR_REFERENCE_UPDATE, CR_DELETE} (q_original q)
     \<and> (case q_reason q of None \<Rightarrow> True | Some r \<Rightarrow> length (strip_ch 32 r) \<le> 500 \<and> \<not> has_cc r)
     \<and> (case q_message q of None \<Rightarrow> True
          | Some m \<Rightarrow> 1 \<le> length m \<and> length m \<le> 500 \<and> strip_ch 32 m = m \<and> \<not> has_cc m)
     \<and> review_check q"

definition cr_unique_check :: "cr_row \<Rightarrow> cr_row list \<Rightarrow> unit res" where
  "cr_unique_check q others =
     (if q_id q \<in> set (map q_id others) then Inl (IntegrityError (Some ''master_code_change_requests_pkey''))
      else if q_applied q \<noteq> None \<and> q_applied q \<in> set (map q_applied others)
      then Inl (IntegrityError (Some ''uq_change_requests_applied_change_set''))
      else Inr ())"

definition cr_insert :: "cr_row \<Rightarrow> cr_row list \<Rightarrow> cr_row list res" where
  "cr_insert q rows =
     (if q_status q \<noteq> PENDING then violation
      else bindE (requireE (cr_row_check q) (IntegrityError (Some ''ck_change_requests''))) (\<lambda>_.
           bindE (cr_unique_check q rows) (\<lambda>_. Inr (rows @ [q]))))"

definition cr_by_id :: "uuid \<Rightarrow> cr_row list \<Rightarrow> cr_row option" where
  "cr_by_id i rows = find (\<lambda>q. q_id q = i) rows"

definition put_cr :: "cr_row \<Rightarrow> cr_row list \<Rightarrow> cr_row list" where
  "put_cr q rows = map (\<lambda>x. if q_id x = q_id q then q else x) rows"

definition cr_before_update :: "cr_row \<Rightarrow> cr_row \<Rightarrow> unit res" where
  "cr_before_update old q =
     (if q_status old \<noteq> PENDING \<or> q_status q = PENDING \<or> q_id q \<noteq> q_id old \<or> q_original q \<noteq> q_original old
         \<or> q_requester q \<noteq> q_requester old \<or> q_reason q \<noteq> q_reason old \<or> q_created q \<noteq> q_created old
      then violation else Inr ())"

definition cr_update :: "cr_row \<Rightarrow> cr_row list \<Rightarrow> cr_row list res" where
  "cr_update q rows =
     (case cr_by_id (q_id q) rows of
        None \<Rightarrow> Inr rows
      | Some old \<Rightarrow>
          bindE (cr_before_update old q) (\<lambda>_.
          bindE (requireE (cr_row_check q) (IntegrityError (Some ''ck_change_requests''))) (\<lambda>_.
          bindE (cr_unique_check q (filter (\<lambda>x. q_id x \<noteq> q_id q) rows)) (\<lambda>_. Inr (put_cr q rows)))))"


section \<open>Rows and requests\<close>

definition proposal_of :: "change_proposal \<Rightarrow> change_proposal res" where
  "proposal_of c =
     bindE (case cp_payload c of None \<Rightarrow> Inr None | Some v \<Rightarrow> bindE (proposal_payload v) (\<lambda>p. Inr (Some p))) (\<lambda>payload.
       change_proposal_init (c\<lparr>cp_payload := payload\<rparr>))"

definition request_of :: "cr_row \<Rightarrow> change_request res" where
  "request_of q =
     bindE (proposal_of (q_original q)) (\<lambda>original.
     bindE (case q_approved q of None \<Rightarrow> Inr None | Some c \<Rightarrow> bindE (proposal_of c) (\<lambda>p. Inr (Some p))) (\<lambda>approved.
     bindE (case q_message q of None \<Rightarrow> Inr None | Some m \<Rightarrow> bindE (review_message m) (\<lambda>s. Inr (Some s))) (\<lambda>message.
       change_request_init
         \<lparr>cr_id = q_id q, cr_original = original, cr_requester = q_requester q, cr_created_at = Aware (q_created q),
          cr_reason = q_reason q, cr_status = q_status q, cr_approved = approved, cr_reviewer = q_reviewer q,
          cr_message = message, cr_reviewed_at = map_option Aware (q_reviewed q), cr_change_set = q_applied q\<rparr>)))"

definition set_review :: "cr_row \<Rightarrow> change_request \<Rightarrow> cr_row" where
  "set_review q reviewed =
     (let r = q\<lparr>q_status := cr_status reviewed, q_reviewer := cr_reviewer reviewed,
                q_reviewed := map_option instant (cr_reviewed_at reviewed), q_message := cr_message reviewed,
                q_applied := cr_change_set reviewed\<rparr>
      in case cr_approved reviewed of None \<Rightarrow> r | Some c \<Rightarrow> r\<lparr>q_approved := Some c\<rparr>)"

definition lock_request :: "uuid \<Rightarrow> cr_row list \<Rightarrow> cr_row res" where
  "lock_request i rows =
     (case cr_by_id i rows of
        None \<Rightarrow> Inl ChangeRequestNotFound
      | Some q \<Rightarrow> bindE (request_of q) (\<lambda>r. bindE (require_pending r) (\<lambda>_. Inr q)))"


section \<open>Submission and reads\<close>

record review_env = mc_env +
  env_review_clock :: int

definition cr_submit ::
    "change_proposal \<Rightarrow> uuid \<Rightarrow> pystr option \<Rightarrow> env \<Rightarrow> service_db \<Rightarrow> (change_request \<times> service_db) res" where
  "cr_submit proposal requester r e sv =
     (let q = \<lparr>q_id = env_new_id e, q_original = proposal, q_requester = requester, q_reason = r,
               q_created = env_clock e, q_status = PENDING, q_approved = None, q_reviewer = None,
               q_reviewed = None, q_message = None, q_applied = None\<rparr>
      in bindE (cr_insert q (sv_requests sv)) (\<lambda>rows.
         bindE (request_of q) (\<lambda>x. Inr (x, sv\<lparr>sv_requests := rows\<rparr>))))"

definition cr_get :: "uuid \<Rightarrow> uuid option \<Rightarrow> service_db \<Rightarrow> change_request res" where
  "cr_get i requester sv =
     (case find (\<lambda>q. q_id q = i \<and> (case requester of None \<Rightarrow> True | Some u \<Rightarrow> q_requester q = u)) (sv_requests sv) of
        None \<Rightarrow> Inl ChangeRequestNotFound
      | Some q \<Rightarrow> request_of q)"

definition cr_list ::
    "uuid option \<Rightarrow> change_request_status option \<Rightarrow> change_operation option \<Rightarrow> (int \<times> uuid) option \<Rightarrow> nat \<Rightarrow> service_db
       \<Rightarrow> (change_request list \<times> bool) res" where
  "cr_list requester status operation after limit sv =
     (let matches = filter (\<lambda>q.
            (case requester of None \<Rightarrow> True | Some u \<Rightarrow> q_requester q = u)
            \<and> (case status of None \<Rightarrow> True | Some st \<Rightarrow> q_status q = st)
            \<and> (case operation of None \<Rightarrow> True | Some op \<Rightarrow> cp_operation (q_original q) = op)
            \<and> (case after of None \<Rightarrow> True
                 | Some (created, i) \<Rightarrow> q_created q < created \<or> (q_created q = created \<and> q_id q < i))) (sv_requests sv);
          rows = take (limit + 1) (rev (sort_key (\<lambda>q. (q_created q, q_id q)) matches))
      in bindE (mapE request_of (take limit rows)) (\<lambda>items. Inr (items, limit < length rows)))"


section \<open>Applying a proposal\<close>

record approval_plan =
  ap_proposal :: change_proposal
  ap_validated :: validated_proposal
  ap_audit :: audit_metadata
  ap_message :: "pystr option"

fun apply_slots ::
    "mutation_ctx \<Rightarrow> mc_env \<Rightarrow> validated_proposal \<Rightarrow> master_code_dimensions \<Rightarrow> string list \<Rightarrow> db
       \<Rightarrow> (master_code_dimensions \<times> string list \<times> db) res" where
  "apply_slots ctx e [] resolved invalid d = Inr (resolved, invalid, d)"
| "apply_slots ctx e ((s, selection) # rest) resolved invalid d =
     (case selection of
        NotApplicable \<Rightarrow> apply_slots ctx e rest (resolved(s := None)) invalid d
      | ExistingDimension i \<Rightarrow>
          bindE (lock_reference d s i) (\<lambda>found.
            apply_slots ctx e rest (resolved(s := found))
              (if found = None then invalid @ [''payload.dimensions.'' @ slot_name s @ ''.id''] else invalid) d)
      | InlineDimension code v \<Rightarrow>
          bindE (create_inline ctx s code v (env_dim_id e s) d) (\<lambda>(x, d').
            apply_slots ctx e rest (resolved(s := Some x)) invalid d'))"

definition apply_create :: "approval_plan \<Rightarrow> mc_env \<Rightarrow> db \<Rightarrow> (master_code \<times> db) res" where
  "apply_create plan e d =
     bindE (set_context (ap_audit plan) (env_clock e) None) (\<lambda>ctx.
     bindE (apply_slots ctx e (ap_validated plan) (\<lambda>_. None) [] d) (\<lambda>(resolved, invalid, d1).
       if invalid \<noteq> [] then Inl (InvalidDimensionReference invalid)
       else bindE (master_code_dimensions_init resolved) (\<lambda>dims.
         case find (\<lambda>m. m_code m = compose dims) (mc_rows d1) of
           Some existing \<Rightarrow>
             if m_deleted existing = None then Inl ChangeRequestNoEffect
             else bindE (mc_insert ctx (new_mc_row e (ctx_time ctx) dims) d1) (\<lambda>d2.
                  bindE (row_master_code (new_mc_row e (ctx_time ctx) dims) dims) (\<lambda>x. Inr (x, d2)))
         | None \<Rightarrow>
             bindE (mc_insert ctx (new_mc_row e (ctx_time ctx) dims) d1) (\<lambda>d2.
             bindE (row_master_code (new_mc_row e (ctx_time ctx) dims) dims) (\<lambda>x. Inr (x, d2))))))"

definition is_inline :: "('c, 'v) selection \<Rightarrow> bool" where
  "is_inline selection = (case selection of InlineDimension _ _ \<Rightarrow> True | _ \<Rightarrow> False)"

text \<open>The rows of one slot that the current and the proposed reference name, deleted ones included.\<close>

definition lock_target_slot :: "db \<Rightarrow> slot \<Rightarrow> dimension option \<Rightarrow> (pystr, dim_value) selection option \<Rightarrow> (uuid \<times> dimension) list res" where
  "lock_target_slot d s current change =
     (let identifiers = (case current of None \<Rightarrow> [] | Some x \<Rightarrow> [dim_id x])
            @ (case change of Some (ExistingDimension i) \<Rightarrow> [i] | _ \<Rightarrow> []);
          records = filter (\<lambda>r. r_id r \<in> set identifiers) (dim_rows d s)
      in mapE (\<lambda>r. bindE (row_to_domain s r) (\<lambda>x. Inr (r_id r, x))) (sort_key r_id records))"

fun lock_target_slots ::
    "mutation_ctx option \<Rightarrow> change_operation \<Rightarrow> (slot \<Rightarrow> (pystr, dim_value) selection option) \<Rightarrow> master_code_dimensions
       \<Rightarrow> mc_env \<Rightarrow> slot list \<Rightarrow> master_code_dimensions \<Rightarrow> master_code_dimensions \<Rightarrow> string list \<Rightarrow> db
       \<Rightarrow> (master_code_dimensions \<times> master_code_dimensions \<times> string list \<times> db) res" where
  "lock_target_slots ctx operation changes refs e [] current resolved invalid d = Inr (current, resolved, invalid, d)"
| "lock_target_slots ctx operation changes refs e (s # ss) current resolved invalid d =
     bindE (lock_target_slot d s (refs s) (changes s)) (\<lambda>locked.
       let now = (case refs s of None \<Rightarrow> None | Some x \<Rightarrow> map_of locked (dim_id x)) in
       if refs s \<noteq> None \<and> now = None then Inl ChangeRequestStaleTarget
       else
         case changes s of
           None \<Rightarrow>
             lock_target_slots ctx operation changes refs e ss (current(s := now)) (resolved(s := now)) invalid d
         | Some NotApplicable \<Rightarrow>
             lock_target_slots ctx operation changes refs e ss (current(s := now)) (resolved(s := None)) invalid d
         | Some (ExistingDimension i) \<Rightarrow>
             let found = map_of locked i;
                 bad = (case found of None \<Rightarrow> True | Some x \<Rightarrow> is_deleted x \<and> operation \<noteq> CR_RESTORE)
             in lock_target_slots ctx operation changes refs e ss (current(s := now)) (resolved(s := found))
                  (if bad then invalid @ [''payload.dimensions.'' @ slot_name s @ ''.id''] else invalid) d
         | Some (InlineDimension code v) \<Rightarrow>
             (case ctx of
                None \<Rightarrow> Inl AssertionError
              | Some c \<Rightarrow>
                  bindE (create_inline c s code v (env_dim_id e s) d) (\<lambda>(x, d').
                    lock_target_slots ctx operation changes refs e ss (current(s := now)) (resolved(s := Some x)) invalid d')))"

definition lock_target ::
    "approval_plan \<Rightarrow> mc_env \<Rightarrow> db \<Rightarrow> db
       \<Rightarrow> (mc_row \<times> master_code \<times> master_code_dimensions \<times> mutation_ctx option \<times> db) res" where
  "lock_target plan e d0 d =
     (case cp_target (ap_proposal plan) of
        None \<Rightarrow> Inl MasterCodeNotFound
      | Some i \<Rightarrow>
          (case mc_by_id i (mc_rows d0) of
             None \<Rightarrow> Inl MasterCodeNotFound
           | Some m0 \<Rightarrow>
               bindE (joined_to_domain d0 m0) (\<lambda>initial.
               let changes = map_of (ap_validated plan) in
               bindE (if \<exists>x \<in> set (ap_validated plan). is_inline (snd x)
                      then bindE (set_context (ap_audit plan) (env_clock e) (Some (mc_updated_at initial))) (\<lambda>c. Inr (Some c))
                      else Inr None) (\<lambda>ctx.
               bindE (lock_target_slots ctx (cp_operation (ap_proposal plan)) changes (mc_dims initial) e ORDER
                        (\<lambda>_. None) (\<lambda>_. None) [] d) (\<lambda>(current_dims, resolved, invalid, d1).
                 if invalid \<noteq> [] then Inl (InvalidDimensionReference invalid)
                 else
                   case mc_by_id (mc_id initial) (mc_rows d1) of
                     None \<Rightarrow> Inl ChangeRequestStaleTarget
                   | Some m \<Rightarrow>
                       if \<not> same_persisted_state m initial then Inl ChangeRequestStaleTarget
                       else
                         bindE (master_code_dimensions_init current_dims) (\<lambda>cd.
                         bindE (row_master_code m cd) (\<lambda>current.
                           if Some (etag current) \<noteq> cp_etag (ap_proposal plan) then Inl ChangeRequestStaleTarget
                           else bindE (master_code_dimensions_init resolved) (\<lambda>next_dims.
                             Inr (m, current, next_dims, ctx, d1)))))))))"

text \<open>The checks between the locks and the write.\<close>

definition check_effect :: "change_operation \<Rightarrow> master_code \<Rightarrow> master_code_dimensions \<Rightarrow> unit res" where
  "check_effect operation current next_dims =
     (if operation = CR_DELETE then
        (if mc_deleted_at current \<noteq> None then Inl ChangeRequestNoEffect else Inr ())
      else if operation = CR_RESTORE then
        (if mc_deleted_at current = None then Inl MasterCodeNotDeleted
         else if dimension_ids next_dims \<noteq> dimension_ids (mc_dims current) then Inl ChangeRequestRestoreMismatch
         else if inactive_fields (mc_dims current) \<noteq> []
         then Inl (MasterCodeReferenceInactive (inactive_fields (mc_dims current)))
         else Inr ())
      else if mc_deleted_at current \<noteq> None then Inl MasterCodeNotFound
      else if dimension_ids next_dims = dimension_ids (mc_dims current) then Inl ChangeRequestNoEffect
      else Inr ())"

definition apply_change :: "approval_plan \<Rightarrow> mc_env \<Rightarrow> db \<Rightarrow> db \<Rightarrow> (master_code \<times> db) res" where
  "apply_change plan e d0 d =
     bindE (lock_target plan e d0 d) (\<lambda>(m, current, next_dims, installed, d1).
       let operation = cp_operation (ap_proposal plan) in
       bindE (check_effect operation current next_dims) (\<lambda>_.
       bindE (case installed of
                Some c \<Rightarrow> Inr c
              | None \<Rightarrow> set_context (ap_audit plan) (env_clock e) (Some (mc_updated_at current))) (\<lambda>ctx.
       let timestamp = Aware (ctx_time ctx) in
       bindE (if operation = CR_DELETE then master_code_delete current timestamp
              else if operation = CR_RESTORE then master_code_restore current timestamp
              else update_references current next_dims timestamp) (\<lambda>updated.
       bindE (mc_update ctx
               (m\<lparr>m_refs := (if operation = CR_DELETE \<or> operation = CR_RESTORE then m_refs m
                             else (\<lambda>s. map_option dim_id (next_dims s))),
                  m_code := mc_code updated, m_version := mc_version updated,
                  m_updated := instant (mc_updated_at updated),
                  m_deleted := map_option instant (mc_deleted_at updated)\<rparr>) d1) (\<lambda>d2.
         Inr (updated, d2))))))"

definition apply_plan :: "approval_plan \<Rightarrow> mc_env \<Rightarrow> db \<Rightarrow> db \<Rightarrow> (master_code \<times> db) res" where
  "apply_plan plan e d0 d =
     (if cp_operation (ap_proposal plan) = CR_CREATE then apply_create plan e d else apply_change plan e d0 d)"


section \<open>Reviews\<close>

definition plan_selections :: "validated_proposal \<Rightarrow> create_plan" where
  "plan_selections validated s = (case map_of validated s of None \<Rightarrow> NotApplicable | Some selection \<Rightarrow> selection)"

definition cr_approve ::
    "uuid \<Rightarrow> (change_request \<Rightarrow> approval_plan res) \<Rightarrow> review_env \<Rightarrow> db \<Rightarrow> service_db \<Rightarrow> (change_request \<times> service_db) res" where
  "cr_approve i prepare e d0 sv =
     bindE (lock_request i (sv_requests sv)) (\<lambda>q.
     bindE (request_of q) (\<lambda>original.
     bindE (prepare original) (\<lambda>plan.
     translate_integrity_error (plan_selections (ap_validated plan)) (sv_data sv)
      (bindE (apply_plan plan (mc_env.truncate e) d0 (sv_data sv)) (\<lambda>(result, d').
       let reviewed_at = Aware (max (env_review_clock e) (max (instant (cr_created_at original)) (instant (mc_updated_at result)))) in
       case parse_uuid (actor_id (audit_actor (ap_audit plan))) of
         None \<Rightarrow> Inl ValueError
       | Some reviewer \<Rightarrow>
           bindE (request_approve original (ap_proposal plan) reviewer reviewed_at
                    (change_set_id (ap_audit plan)) (ap_message plan)) (\<lambda>reviewed.
           bindE (cr_update (set_review q reviewed) (sv_requests sv)) (\<lambda>rows.
             Inr (reviewed, \<lparr>sv_data = d', sv_requests = rows\<rparr>))))))))"

definition cr_reject ::
    "uuid \<Rightarrow> uuid \<Rightarrow> pystr \<Rightarrow> env \<Rightarrow> service_db \<Rightarrow> (change_request \<times> service_db) res" where
  "cr_reject i reviewer message e sv =
     bindE (lock_request i (sv_requests sv)) (\<lambda>q.
     bindE (request_of q) (\<lambda>original.
     bindE (request_reject original reviewer
              (Aware (max (env_clock e) (instant (cr_created_at original)))) message) (\<lambda>reviewed.
     bindE (cr_update (set_review q reviewed) (sv_requests sv)) (\<lambda>rows.
       Inr (reviewed, sv\<lparr>sv_requests := rows\<rparr>)))))"


section \<open>Use cases\<close>

fun submit_action :: "change_operation \<Rightarrow> authorization_action option" where
  "submit_action CR_CREATE = Some SUBMIT_CREATE_REQUEST"
| "submit_action CR_REFERENCE_UPDATE = Some SUBMIT_REFERENCE_UPDATE_REQUEST"
| "submit_action CR_DELETE = Some SUBMIT_DELETE_REQUEST"
| "submit_action CR_RESTORE = None"

definition submit_request ::
    "human_principal \<Rightarrow> change_proposal \<Rightarrow> pystr option \<Rightarrow> env \<Rightarrow> service_db \<Rightarrow> (change_request \<times> service_db) res" where
  "submit_request p proposal r e sv =
     (case submit_action (cp_operation proposal) of
        None \<Rightarrow> invalid_request RestoreNotSubmittable
      | Some action \<Rightarrow>
          bindE (authorize p action) (\<lambda>_.
          bindE (validate_proposal proposal) (\<lambda>_.
          bindE (case normalize_reason r of Inl _ \<Rightarrow> invalid_request ReasonInvalid | Inr x \<Rightarrow> Inr x) (\<lambda>normalized.
            cr_submit proposal (principal_user_id p) normalized e sv))))"

definition get_own :: "human_principal \<Rightarrow> uuid \<Rightarrow> service_db \<Rightarrow> change_request res" where
  "get_own p i sv = bindE (authorize p READ_DATA) (\<lambda>_. cr_get i (Some (principal_user_id p)) sv)"

definition get_for_review :: "human_principal \<Rightarrow> uuid \<Rightarrow> service_db \<Rightarrow> change_request res" where
  "get_for_review p i sv = bindE (authorize p REVIEW_CHANGE_REQUEST) (\<lambda>_. cr_get i None sv)"

definition list_requests ::
    "human_principal \<Rightarrow> bool \<Rightarrow> change_request_status option \<Rightarrow> change_operation option \<Rightarrow> (int \<times> uuid) option \<Rightarrow> pyobj
       \<Rightarrow> service_db \<Rightarrow> (change_request list \<times> bool) res" where
  "list_requests p for_review status operation after limit sv =
     bindE (authorize p (if for_review then REVIEW_CHANGE_REQUEST else READ_DATA)) (\<lambda>_.
       case limit of
         PyInt n \<Rightarrow>
           if \<not> (1 \<le> n \<and> n \<le> 100) then invalid_request LimitRange
           else if operation = Some CR_RESTORE then invalid_request RestoreFilter
           else cr_list (if for_review then None else Some (principal_user_id p)) status operation after (nat n) sv
       | _ \<Rightarrow> invalid_request LimitRange)"

fun mc_operation :: "change_operation \<Rightarrow> master_code_operation" where
  "mc_operation CR_CREATE = MC_CREATE"
| "mc_operation CR_REFERENCE_UPDATE = MC_REFERENCE_UPDATE"
| "mc_operation CR_DELETE = MC_DELETE"
| "mc_operation CR_RESTORE = MC_RESTORE"

definition prepare_approval ::
    "human_principal \<Rightarrow> uuid \<Rightarrow> change_proposal option \<Rightarrow> pystr option \<Rightarrow> change_request \<Rightarrow> approval_plan res" where
  "prepare_approval p cs approved message request =
     bindE (require_pending request) (\<lambda>_.
     let proposal = (case approved of None \<Rightarrow> cr_original request | Some c \<Rightarrow> c) in
     bindE (classify_approval request proposal message) (\<lambda>_.
     bindE (validate_proposal proposal) (\<lambda>validated.
     bindE (audit_factory_create cs p (if \<exists>x \<in> set validated. is_inline (snd x) then Some DIM_CREATE else None)
              (Some (mc_operation (cp_operation proposal))) message) (\<lambda>audit.
       Inr \<lparr>ap_proposal = proposal, ap_validated = validated, ap_audit = audit, ap_message = message\<rparr>))))"

definition approve_request ::
    "human_principal \<Rightarrow> uuid \<Rightarrow> uuid \<Rightarrow> change_proposal option \<Rightarrow> pystr option \<Rightarrow> review_env \<Rightarrow> db \<Rightarrow> service_db
       \<Rightarrow> (change_request \<times> service_db) res" where
  "approve_request p cs i approved message e d0 sv =
     bindE (authorize p REVIEW_CHANGE_REQUEST) (\<lambda>_. cr_approve i (prepare_approval p cs approved message) e d0 sv)"

definition reject_request ::
    "human_principal \<Rightarrow> uuid \<Rightarrow> pystr \<Rightarrow> env \<Rightarrow> service_db \<Rightarrow> (change_request \<times> service_db) res" where
  "reject_request p i message e sv =
     bindE (authorize p REVIEW_CHANGE_REQUEST) (\<lambda>_. cr_reject i (principal_user_id p) message e sv)"

end
