(* ===== verification/Store_Laws.thy ===== *)
theory Store_Laws
  imports Dimension_Repo
begin

text \<open>
  The database invariant, in two parts. \<open>enforced\<close> holds for every database that is only
  written through the constrained and triggered writes of \<open>Store\<close>: rows are valid domain
  values, keys are unique, references exist and the audit logs agree with the rows.
  \<open>coherent\<close> is what the application must keep: the code of every MasterCode is the
  composition of its current Dimensions, and active MasterCodes refer to active
  Dimensions only.
\<close>

section \<open>Rows as domain values\<close>

fun domain_value :: "slot \<Rightarrow> raw_value \<Rightarrow> dim_value" where
  "domain_value Company (RText x) = CompanyValue x"
| "domain_value Brand (RText x) = BrandValue x"
| "domain_value Model (RText x) = ModelValue x"
| "domain_value Category (RText x) = CategoryValue x"
| "domain_value Country (RText x) = CountryValue x"
| "domain_value Year (RInt n) = YearValue n"
| "domain_value Network (RInt n) =
     NetworkValue (case find (\<lambda>g. generation_value g = n) generations of Some g \<Rightarrow> g | None \<Rightarrow> GENERATION_1)"
| "domain_value Memory (RMem a u) =
     MemoryValue \<lparr>amount = a, unit = (case unit_of_text u of Some mu \<Rightarrow> mu | None \<Rightarrow> MB)\<rparr>"
| "domain_value _ _ = CompanyValue []"

definition row_dim :: "slot \<Rightarrow> dim_row \<Rightarrow> dimension" where
  "row_dim s r = dimension_of r (r_code r) (domain_value s (r_value r))"

lemma row_dim_simps [simp]:
  "dim_id (row_dim s r) = r_id r" "dim_code (row_dim s r) = r_code r"
  "dim_val (row_dim s r) = domain_value s (r_value r)" "dim_version (row_dim s r) = r_version r"
  "dim_created_at (row_dim s r) = Aware (r_created r)" "dim_updated_at (row_dim s r) = Aware (r_updated r)"
  "dim_deleted_at (row_dim s r) = map_option Aware (r_deleted r)"
  by (simp_all add: row_dim_def dimension_of_def)

definition row_ok :: "slot \<Rightarrow> dim_row \<Rightarrow> bool" where
  "row_ok s r \<longleftrightarrow> dim_row_check s r \<and> (r_version r = 1 \<longrightarrow> r_updated r = r_created r)"

lemma unit_of_text_unit [simp]: "unit_of_text (unit_text u) = Some u"
  by (simp add: unit_of_text_def find_unit)

lemma unit_of_text_Some: "unit_of_text x = Some u \<longleftrightarrow> x = unit_text u"
proof
  assume "unit_of_text x = Some u"
  then show "x = unit_text u"
    unfolding unit_of_text_def find_Some_iff by blast
qed simp

lemma find_generation [simp]: "find (\<lambda>g. generation_value g = generation_value h) generations = Some h"
  by (cases h) (simp_all add: generations_def)

lemma generation_exists: "1 \<le> n \<Longrightarrow> n \<le> 5 \<Longrightarrow> \<exists>g. generation_value g = n"
proof -
  assume "1 \<le> n" "n \<le> 5"
  then have "n = 1 \<or> n = 2 \<or> n = 3 \<or> n = 4 \<or> n = 5" by arith
  then show ?thesis by (metis generation_value.simps)
qed

lemma generation_value_range: "1 \<le> generation_value g \<and> generation_value g \<le> 5"
  by (cases g) simp_all

lemma value_check_cases:
  assumes "value_check s v"
  obtains (words) x where "s \<in> {Company, Brand, Model, Category, Country}" "v = RText x" "valid_string_value x"
  | (year) n where "s = Year" "v = RInt n" "2000 \<le> n" "n \<le> 2999"
  | (network) g where "s = Network" "v = RInt (generation_value g)"
  | (memory) a u where "s = Memory" "v = RMem a (unit_text u)" "1 \<le> a" "a \<le> 2147483647"
  using assms
proof (cases s)
  case Network
  with assms obtain n where "v = RInt n" "1 \<le> n" "n \<le> 5" by (cases v) auto
  with Network network show thesis using generation_exists [of n] by blast
next
  case Memory
  with assms obtain a x where "v = RMem a x" "0 < a" "a \<le> 2147483647" "unit_of_text x \<noteq> None"
    by (cases v) auto
  with Memory memory show thesis by (auto simp: unit_of_text_Some)
qed (use assms words year in \<open>cases v; auto simp: valid_string_value_def\<close>)+

lemma value_from_record_ok:
  assumes "value_check s v"
  shows "value_from_record s v = Inr (domain_value s v)" "valid_value (domain_value s v)"
    "value_slot (domain_value s v) = s" "record_value (domain_value s v) = v"
  using assms
  by (cases rule: value_check_cases;
      auto simp: value_from_record_def valid_string_value_fixed year_value_def network_generation_def
        memory_from_record_def memory_value_init_def valid_memory_def)+

lemma record_value_inverse:
  assumes "valid_value v" "value_slot v = s"
  shows "value_check s (record_value v)" "domain_value s (record_value v) = v"
  using assms generation_value_range
  by (cases v; auto simp: valid_string_value_def valid_memory_def unit_of_text_Some)+

lemma value_key_equal_iff:
  assumes "value_slot v = value_slot w"
  shows "value_key (record_value v) = value_key (record_value w) \<longleftrightarrow> dimension_values_equal v w"
proof -
  have "generation_value g = generation_value h \<longleftrightarrow> g = h" for g h
    by (cases g; cases h) simp_all
  then show ?thesis
    using assms by (cases v; cases w) (simp_all add: capacity_mb_def)
qed

lemma row_ok_wf:
  assumes "row_ok s r"
  shows "dimension_wf (row_dim s r)" "value_slot (dim_val (row_dim s r)) = s"
    "row_to_domain s r = Inr (row_dim s r)"
proof -
  have check: "value_check s (r_value r)" "code_pattern (r_code r)"
    and n: "\<not> (\<forall>c \<in> set (r_code r). c = 78)"
    using assms by (simp_all add: row_ok_def dim_row_check_def)
  have code: "valid_code (r_code r)" using check(2) n by (auto simp: valid_code_def)
  show wf: "dimension_wf (row_dim s r)"
    using assms code value_from_record_ok(2) [OF check(1)]
    by (auto simp: dimension_wf_def dimension_times_def state_times_def row_ok_def dim_row_check_def
        times_check_def split: option.splits)
  show "value_slot (dim_val (row_dim s r)) = s"
    using value_from_record_ok(3) [OF check(1)] by simp
  show "row_to_domain s r = Inr (row_dim s r)"
    using dimension_wf_init [OF wf] valid_code_fixed [OF code] value_from_record_ok(1) [OF check(1)]
    by (simp add: row_to_domain_def row_dim_def)
qed

lemma row_ok_of_dimension:
  assumes "dimension_wf x" "value_slot (dim_val x) = s"
    and "r_code r = dim_code x" "r_value r = record_value (dim_val x)" "r_version r = dim_version x"
    and "r_created r = instant (dim_created_at x)" "r_updated r = instant (dim_updated_at x)"
    and "r_deleted r = map_option instant (dim_deleted_at x)" "r_id r = dim_id x"
  shows "row_ok s r" "row_dim s r = x"
proof -
  have t: "dimension_times x" "valid_code (dim_code x)" "valid_value (dim_val x)"
    using assms(1) by (simp_all add: dimension_wf_def)
  then have "\<not> (\<forall>c \<in> set (dim_code x). c = 78)"
    by (cases "dim_code x") (auto simp: valid_code_def code_pattern_def)
  then show "row_ok s r"
    using t assms(2-) record_value_inverse(1) [of "dim_val x" s]
    by (auto simp: row_ok_def dim_row_check_def times_check_def valid_code_def dimension_times_def
        state_times_def split: option.splits)
  have aware: "is_aware (dim_created_at x)" "is_aware (dim_updated_at x)"
    "\<And>u. dim_deleted_at x = Some u \<Longrightarrow> is_aware u"
    using t(1) by (auto simp: dimension_times_def state_times_def)
  then have "map_option (Aware \<circ> instant) (dim_deleted_at x) = dim_deleted_at x"
    by (cases "dim_deleted_at x") auto
  then show "row_dim s r = x"
    using assms(2-) aware t record_value_inverse(2) [of "dim_val x" s]
    by (simp add: row_dim_def dimension_of_def option.map_comp)
qed


section \<open>The enforced part\<close>

definition dims_ok :: "slot \<Rightarrow> dim_row list \<Rightarrow> bool" where
  "dims_ok s rows \<longleftrightarrow> distinct (map r_id rows) \<and> distinct (map r_code rows)
     \<and> distinct (map (value_key \<circ> r_value) rows) \<and> (\<forall>r \<in> set rows. row_ok s r)"

text \<open>The newest logged value of a field of one Dimension.\<close>

definition last_log :: "uuid \<Rightarrow> log_field \<Rightarrow> dim_log list \<Rightarrow> json option" where
  "last_log i f ls =
     (case find (\<lambda>l. dl_dimension l = i \<and> dl_field l = f) (rev ls) of None \<Rightarrow> None | Some l \<Rightarrow> dl_new l)"

definition dim_audited :: "dim_log list \<Rightarrow> dim_row \<Rightarrow> bool" where
  "dim_audited ls r \<longleftrightarrow> last_log (r_id r) CODE_FIELD ls = Some (JText (r_code r))
     \<and> last_log (r_id r) VALUE_FIELD ls = Some (value_json (r_value r))
     \<and> (r_deleted r \<noteq> None \<longleftrightarrow> last_log (r_id r) DELETED_FIELD ls = Some (JBool True))"

definition dim_logs_ok :: "dim_log list \<Rightarrow> dim_row list \<Rightarrow> bool" where
  "dim_logs_ok ls rows \<longleftrightarrow> distinct (map log_key ls) \<and> (\<forall>r \<in> set rows. dim_audited ls r) \<and> (\<forall>l \<in> set ls. dl_dimension l \<in> r_id ` set rows)"

text \<open>A MasterCode's log rows: each starts from the state the previous one reached.\<close>

fun log_chain :: "mc_log_state option \<Rightarrow> mc_log list \<Rightarrow> bool" where
  "log_chain prev [] = True"
| "log_chain prev (l # ls) = (ml_old l = prev \<and> log_chain (Some (ml_new l)) ls)"

fun log_end :: "mc_log_state option \<Rightarrow> mc_log list \<Rightarrow> mc_log_state option" where
  "log_end prev [] = prev"
| "log_end prev (l # ls) = log_end (Some (ml_new l)) ls"

definition mc_history :: "uuid \<Rightarrow> mc_log list \<Rightarrow> mc_log list" where
  "mc_history i ls = filter (\<lambda>l. ml_master_code l = i) ls"

definition mc_audited :: "mc_log list \<Rightarrow> mc_row \<Rightarrow> bool" where
  "mc_audited ls m \<longleftrightarrow>
     (let h = mc_history (m_id m) ls in
      map ml_version h = map int [1..<nat (m_version m) + 1]
      \<and> log_chain None h \<and> log_end None h = Some (mc_state m))"

definition mc_logs_ok :: "mc_log list \<Rightarrow> mc_row list \<Rightarrow> bool" where
  "mc_logs_ok ls rows \<longleftrightarrow> (\<forall>m \<in> set rows. mc_audited ls m) \<and> (\<forall>l \<in> set ls. ml_master_code l \<in> m_id ` set rows)"

definition mc_row_ok :: "db \<Rightarrow> mc_row \<Rightarrow> bool" where
  "mc_row_ok d m \<longleftrightarrow> 1 \<le> m_version m \<and> times_check (m_created m) (m_updated m) (m_deleted m)
     \<and> (m_version m = 1 \<longrightarrow> m_updated m = m_created m) \<and> mc_references_check d m"

definition mcs_ok :: "db \<Rightarrow> bool" where
  "mcs_ok d \<longleftrightarrow> distinct (map m_id (mc_rows d)) \<and> distinct (map m_code (mc_rows d))
     \<and> distinct (map m_refs (mc_rows d)) \<and> (\<forall>m \<in> set (mc_rows d). mc_row_ok d m)"

definition enforced :: "db \<Rightarrow> bool" where
  "enforced d \<longleftrightarrow> (\<forall>s. dims_ok s (dim_rows d s)) \<and> (\<forall>s. dim_logs_ok (dim_logs d s) (dim_rows d s))
     \<and> mcs_ok d \<and> mc_logs_ok (mc_logs d) (mc_rows d)"

lemma enforcedD:
  assumes "enforced d"
  shows "dims_ok s (dim_rows d s)" "dim_logs_ok (dim_logs d s) (dim_rows d s)" "mcs_ok d"
    "mc_logs_ok (mc_logs d) (mc_rows d)"
  using assms by (auto simp: enforced_def)


subsection \<open>Tables\<close>

lemma dim_by_id_in: "dim_by_id i rows = Some r \<Longrightarrow> r \<in> set rows \<and> r_id r = i"
  by (auto simp: dim_by_id_def find_Some_iff)

lemma dim_by_id_unique:
  "\<lbrakk>distinct (map r_id rows); r \<in> set rows\<rbrakk> \<Longrightarrow> dim_by_id (r_id r) rows = Some r"
  unfolding dim_by_id_def by (rule find_eq_Some_distinct)

lemma dim_by_id_None: "dim_by_id i rows = None \<longleftrightarrow> i \<notin> r_id ` set rows"
  by (auto simp: dim_by_id_def find_None_iff)

lemma mc_by_id_in: "mc_by_id i rows = Some m \<Longrightarrow> m \<in> set rows \<and> m_id m = i"
  by (auto simp: mc_by_id_def find_Some_iff)

lemma mc_by_id_unique:
  "\<lbrakk>distinct (map m_id rows); m \<in> set rows\<rbrakk> \<Longrightarrow> mc_by_id (m_id m) rows = Some m"
  unfolding mc_by_id_def by (rule find_eq_Some_distinct)

lemma mc_by_id_None: "mc_by_id i rows = None \<longleftrightarrow> i \<notin> m_id ` set rows"
  by (auto simp: mc_by_id_def find_None_iff)

lemma map_r_id_put_dim [simp]: "map r_id (put_dim r rows) = map r_id rows"
  by (auto simp: put_dim_def)

lemma map_m_id_put_mc [simp]: "map m_id (put_mc m rows) = map m_id rows"
  by (auto simp: put_mc_def)

lemma set_put_dim:
  "set (put_dim r rows) = {x \<in> set rows. r_id x \<noteq> r_id r} \<union> (if r_id r \<in> r_id ` set rows then {r} else {})"
  by (cases "r_id r \<in> r_id ` set rows") (auto simp: put_dim_def image_iff split: if_splits)

lemma set_put_mc:
  "set (put_mc m rows) = {x \<in> set rows. m_id x \<noteq> m_id m} \<union> (if m_id m \<in> m_id ` set rows then {m} else {})"
  by (cases "m_id m \<in> m_id ` set rows") (auto simp: put_mc_def image_iff split: if_splits)

text \<open>A unique column stays unique when one row is replaced by a row that differs from the others.\<close>

lemma distinct_map_replace:
  assumes "distinct (map k xs)" "distinct (map f xs)"
    and "f y \<notin> f ` {x \<in> set xs. k x \<noteq> k y}"
  shows "distinct (map f (map (\<lambda>x. if k x = k y then y else x) xs))"
  using assms
proof (induction xs)
  case (Cons x xs)
  have sub: "f ` {z \<in> set xs. k z \<noteq> k y} \<subseteq> f ` {z \<in> set (x # xs). k z \<noteq> k y}" by auto
  then have IH: "distinct (map f (map (\<lambda>x. if k x = k y then y else x) xs))"
    using Cons by auto
  show ?case
  proof (cases "k x = k y")
    case True
    then have "map (\<lambda>x. if k x = k y then y else x) xs = xs"
      using Cons.prems(1) by (auto intro!: map_idI simp: image_iff)
    moreover have "{z \<in> set (x # xs). k z \<noteq> k y} = set xs"
      using Cons.prems(1) True by (auto simp: image_iff)
    then have "f y \<notin> f ` set xs"
      using Cons.prems(3) by simp
    ultimately show ?thesis using True IH by simp
  next
    case False
    then have "f x \<noteq> f y" using Cons.prems(3) by (auto simp: image_iff)
    then have "f x \<notin> (\<lambda>x. f (if k x = k y then y else x)) ` set xs"
      using Cons.prems(2) by (auto split: if_splits)
    with False IH show ?thesis by (simp add: comp_def)
  qed
qed simp

lemma distinct_map_put_dim:
  assumes "distinct (map r_id rows)" "distinct (map f rows)"
    and "f r \<notin> f ` {x \<in> set rows. r_id x \<noteq> r_id r}"
  shows "distinct (map f (put_dim r rows))"
  unfolding put_dim_def by (rule distinct_map_replace [OF assms])

lemma distinct_map_put_mc:
  assumes "distinct (map m_id rows)" "distinct (map f rows)"
    and "f m \<notin> f ` {x \<in> set rows. m_id x \<noteq> m_id m}"
  shows "distinct (map f (put_mc m rows))"
  unfolding put_mc_def by (rule distinct_map_replace [OF assms])

lemma dim_by_id_append:
  "dim_by_id i (rows @ [r]) = (case dim_by_id i rows of Some x \<Rightarrow> Some x | None \<Rightarrow> if r_id r = i then Some r else None)"
  by (induction rows) (auto simp: dim_by_id_def)

lemma dim_by_id_put_dim:
  "dim_by_id i (put_dim r rows) =
     (if i = r_id r \<and> i \<in> r_id ` set rows then Some r else dim_by_id i rows)"
  by (induction rows) (auto simp: dim_by_id_def put_dim_def)

lemma mc_references_check_cong:
  assumes "\<And>s. r_id ` set (dim_rows d' s) \<supseteq> r_id ` set (dim_rows d s)"
  shows "mc_references_check d m \<Longrightarrow> mc_references_check d' m"
  using assms unfolding mc_references_check_def
  by (fastforce simp: dim_by_id_None split: option.splits)


lemma mc_references_check_dims: "dim_rows d' = dim_rows d \<Longrightarrow> mc_references_check d' x = mc_references_check d x"
  by (auto simp: mc_references_check_def split: option.splits)

lemma mcs_ok_cong:
  assumes "mcs_ok d" "mc_rows d' = mc_rows d"
    and "\<And>s. r_id ` set (dim_rows d' s) \<supseteq> r_id ` set (dim_rows d s)"
  shows "mcs_ok d'"
  using assms(1,2) mc_references_check_cong [OF assms(3)] by (simp add: mcs_ok_def mc_row_ok_def)


subsection \<open>Every write keeps the enforced part\<close>

lemma dim_unique_check_eq [res_simps]:
  "dim_unique_check s r others = Inr u \<longleftrightarrow> r_id r \<notin> r_id ` set others \<and> r_code r \<notin> r_code ` set others
     \<and> value_key (r_value r) \<notin> (value_key \<circ> r_value) ` set others"
  by (auto simp: dim_unique_check_def)

lemma mc_unique_check_eq [res_simps]:
  "mc_unique_check m others = Inr u \<longleftrightarrow> m_id m \<notin> m_id ` set others \<and> m_code m \<notin> m_code ` set others
     \<and> m_refs m \<notin> m_refs ` set others"
  by (auto simp: mc_unique_check_def)

lemma insert_dim_logs_eq:
  "insert_dim_logs s ls d = Inr d' \<Longrightarrow> d' = d\<lparr>dim_logs := (dim_logs d)(s := dim_logs d s @ ls)\<rparr>"
  by (simp add: insert_dim_logs_def split: if_splits)

lemma insert_dim_logs_distinct:
  "insert_dim_logs s ls d = Inr d' \<Longrightarrow> distinct (map log_key (dim_logs d s @ ls))"
  by (simp add: insert_dim_logs_def split: if_splits)

lemma insert_mc_log_eq: "insert_mc_log l d = Inr d' \<Longrightarrow> d' = d\<lparr>mc_logs := mc_logs d @ [l]\<rparr>"
  by (simp add: insert_mc_log_def split: if_splits)

lemma dim_insert_result:
  assumes "dim_insert ctx s r d = Inr d'"
  shows "d' = d\<lparr>dim_rows := (dim_rows d)(s := dim_rows d s @ [r]),
      dim_logs := (dim_logs d)(s := dim_logs d s @
        [dim_log_row ctx r DIM_CREATE CODE_FIELD None (Some (JText (r_code r))),
         dim_log_row ctx r DIM_CREATE VALUE_FIELD None (Some (value_json (r_value r)))])\<rparr>"
    and "row_ok s r" "r_version r = 1" "r_deleted r = None"
    and "r_id r \<notin> r_id ` set (dim_rows d s)" "r_code r \<notin> r_code ` set (dim_rows d s)"
    and "value_key (r_value r) \<notin> (value_key \<circ> r_value) ` set (dim_rows d s)"
    and "distinct (map log_key (dim_logs d' s))"
proof -
  have "dim_before_insert ctx r = Inr ()"
    using assms by (auto simp: dim_insert_def res_simps)
  then have "r_version r = 1 \<and> r_created r = r_updated r \<and> r_deleted r = None"
    by (auto simp: dim_before_insert_def res_simps violation_def split: if_splits)
  with assms show "row_ok s r" "r_version r = 1" "r_deleted r = None"
    by (auto simp: dim_insert_def res_simps row_ok_def)
  show "d' = d\<lparr>dim_rows := (dim_rows d)(s := dim_rows d s @ [r]),
      dim_logs := (dim_logs d)(s := dim_logs d s @
        [dim_log_row ctx r DIM_CREATE CODE_FIELD None (Some (JText (r_code r))),
         dim_log_row ctx r DIM_CREATE VALUE_FIELD None (Some (value_json (r_value r)))])\<rparr>"
    using assms by (auto simp: dim_insert_def res_simps dest!: insert_dim_logs_eq)
  show "distinct (map log_key (dim_logs d' s))"
  proof -
    obtain e ls where "insert_dim_logs s ls e = Inr d'"
      using assms by (auto simp: dim_insert_def res_simps)
    from insert_dim_logs_distinct [OF this] insert_dim_logs_eq [OF this] show ?thesis by simp
  qed
qed (use assms in \<open>auto simp: dim_insert_def res_simps\<close>)

lemma last_log_append:
  "last_log i f (ls @ new) = (case find (\<lambda>l. dl_dimension l = i \<and> dl_field l = f) (rev new) of
     None \<Rightarrow> last_log i f ls | Some l \<Rightarrow> dl_new l)"
proof -
  have "find P (xs @ ys) = (case find P xs of None \<Rightarrow> find P ys | Some x \<Rightarrow> Some x)" for P and xs ys :: "dim_log list"
    by (induction xs) auto
  then show ?thesis by (simp add: last_log_def split: option.splits)
qed

lemma last_log_other: "\<forall>l \<in> set new. dl_dimension l \<noteq> i \<Longrightarrow> last_log i f (ls @ new) = last_log i f ls"
proof -
  assume "\<forall>l \<in> set new. dl_dimension l \<noteq> i"
  then have "find (\<lambda>l. dl_dimension l = i \<and> dl_field l = f) (rev new) = None"
    by (auto simp: find_None_iff)
  then show ?thesis by (simp add: last_log_append)
qed

lemma last_log_None: "i \<notin> dl_dimension ` set ls \<Longrightarrow> last_log i f ls = None"
proof -
  assume "i \<notin> dl_dimension ` set ls"
  then have "find (\<lambda>l. dl_dimension l = i \<and> dl_field l = f) (rev ls) = None"
    by (auto simp: find_None_iff)
  then show ?thesis by (simp add: last_log_def)
qed

lemma enforced_dim_insert:
  assumes "enforced d" "dim_insert ctx s r d = Inr d'"
  shows "enforced d'"
proof -
  note r = dim_insert_result [OF assms(2)]
  define new where "new = [dim_log_row ctx r DIM_CREATE CODE_FIELD None (Some (JText (r_code r))),
         dim_log_row ctx r DIM_CREATE VALUE_FIELD None (Some (value_json (r_value r)))]"
  have d': "d' = d\<lparr>dim_rows := (dim_rows d)(s := dim_rows d s @ [r]),
      dim_logs := (dim_logs d)(s := dim_logs d s @ new)\<rparr>"
    using r(1) by (simp add: new_def)
  have "dims_ok s (dim_rows d s @ [r])"
    using enforcedD(1) [OF assms(1), of s] r(2,5-7) by (auto simp: dims_ok_def)
  moreover have "dim_logs_ok (dim_logs d s @ new) (dim_rows d s @ [r])"
  proof -
    have old: "dim_logs_ok (dim_logs d s) (dim_rows d s)" by (rule enforcedD(2) [OF assms(1)])
    have "dim_audited (dim_logs d s @ new) x" if "x \<in> set (dim_rows d s)" for x
    proof -
      have "r_id r \<noteq> r_id x" using that r(5) by auto
      then have "\<forall>l \<in> set new. dl_dimension l \<noteq> r_id x" by (simp add: new_def dim_log_row_def)
      then show ?thesis
        using old that by (simp add: dim_logs_ok_def dim_audited_def last_log_other)
    qed
    moreover have "r_id r \<notin> dl_dimension ` set (dim_logs d s)"
      using old r(5) by (auto simp: dim_logs_ok_def)
    then have "dim_audited (dim_logs d s @ new) r"
      using r(4) by (simp add: dim_audited_def last_log_append last_log_None new_def dim_log_row_def)
    moreover have "\<forall>l \<in> set new. dl_dimension l = r_id r" by (simp add: new_def dim_log_row_def)
    moreover have "distinct (map log_key (dim_logs d s @ new))"
      using r(8) by (simp add: d')
    ultimately show ?thesis using old by (auto simp: dim_logs_ok_def)
  qed
  moreover have "mcs_ok d'"
    by (rule mcs_ok_cong [OF enforcedD(3) [OF assms(1)]]) (auto simp: d')
  ultimately show ?thesis using assms(1) by (simp add: enforced_def d')
qed


lemma dim_update_result:
  assumes "dim_update ctx s r d = Inr d'" "dim_by_id (r_id r) (dim_rows d s) = Some old"
  shows "d' = d\<lparr>dim_rows := (dim_rows d)(s := put_dim r (dim_rows d s)),
      dim_logs := (dim_logs d)(s := dim_logs d s @ dim_update_logs ctx old r)\<rparr>"
    and "dim_before_update ctx s d old r = Inr ()" "dim_row_check s r"
    and "r_code r \<notin> r_code ` {x \<in> set (dim_rows d s). r_id x \<noteq> r_id r}"
    and "value_key (r_value r) \<notin> (value_key \<circ> r_value) ` {x \<in> set (dim_rows d s). r_id x \<noteq> r_id r}"
    and "distinct (map log_key (dim_logs d s @ dim_update_logs ctx old r))"
proof -
  have step: "dim_before_update ctx s d old r = Inr ()" "dim_row_check s r"
    "dim_unique_check s r (filter (\<lambda>x. r_id x \<noteq> r_id r) (dim_rows d s)) = Inr ()"
    "insert_dim_logs s (dim_update_logs ctx old r)
       (d\<lparr>dim_rows := (dim_rows d)(s := put_dim r (dim_rows d s))\<rparr>) = Inr d'"
    using assms by (auto simp: dim_update_def bindE_eq_Inr requireE_eq split: if_splits)
  show "dim_before_update ctx s d old r = Inr ()" "dim_row_check s r" by (rule step)+
  show "r_code r \<notin> r_code ` {x \<in> set (dim_rows d s). r_id x \<noteq> r_id r}"
    "value_key (r_value r) \<notin> (value_key \<circ> r_value) ` {x \<in> set (dim_rows d s). r_id x \<noteq> r_id r}"
    using step(3) by (auto simp: res_simps)
  show "d' = d\<lparr>dim_rows := (dim_rows d)(s := put_dim r (dim_rows d s)),
      dim_logs := (dim_logs d)(s := dim_logs d s @ dim_update_logs ctx old r)\<rparr>"
    using insert_dim_logs_eq [OF step(4)] by simp
  show "distinct (map log_key (dim_logs d s @ dim_update_logs ctx old r))"
    using insert_dim_logs_distinct [OF step(4)] by simp
qed

text \<open>What the guard lets through: a proper new version, or no change of the business columns.\<close>

lemma dim_before_update_facts:
  assumes "dim_before_update ctx s d old r = Inr ()"
  shows "r_created r = r_created old"
    and "(r_version r = r_version old + 1 \<and> r_updated r = ctx_time ctx \<and> r_updated old \<le> r_updated r)
       \<or> (r_version r = r_version old \<and> r_updated r = r_updated old \<and> r_code r = r_code old
          \<and> r_value r = r_value old \<and> r_deleted r = r_deleted old)"
    and "value_key (r_value r) = value_key (r_value old) \<Longrightarrow> r_value r = r_value old"
  using assms
  by (auto simp: dim_before_update_def Let_def bindE_eq_Inr violation_def split: if_splits)

lemma dim_audited_update:
  assumes "dim_audited ls old" "r_id r = r_id old"
    and "value_key (r_value r) = value_key (r_value old) \<Longrightarrow> r_value r = r_value old"
  shows "dim_audited (ls @ dim_update_logs ctx old r) r"
  using assms
  by (auto simp: dim_audited_def last_log_append dim_update_logs_def dim_log_row_def)

lemma dim_update_logs_dimension: "l \<in> set (dim_update_logs ctx old r) \<Longrightarrow> dl_dimension l = r_id r"
  by (auto simp: dim_update_logs_def dim_log_row_def split: if_splits)

lemma enforced_dim_update:
  assumes "enforced d" "dim_update ctx s r d = Inr d'"
  shows "enforced d'"
proof (cases "dim_by_id (r_id r) (dim_rows d s)")
  case None
  with assms show ?thesis by (simp add: dim_update_def)
next
  case (Some old)
  note u = dim_update_result [OF assms(2) Some] and f = dim_before_update_facts [OF dim_update_result(2) [OF assms(2) Some]]
  have dims: "dims_ok s (dim_rows d s)" and logs: "dim_logs_ok (dim_logs d s) (dim_rows d s)"
    by (rule enforcedD [OF assms(1)])+
  have old: "old \<in> set (dim_rows d s)" "r_id old = r_id r"
    using dim_by_id_in [OF Some] by auto
  have ids: "distinct (map r_id (dim_rows d s))" using dims by (simp add: dims_ok_def)
  have "row_ok s old" using dims old by (simp add: dims_ok_def)
  then have "row_ok s r"
    using u(3) f(1,2) by (auto simp: row_ok_def dim_row_check_def)
  then have "dims_ok s (put_dim r (dim_rows d s))"
    using dims u(4,5) distinct_map_put_dim [OF ids, of r_code r]
      distinct_map_put_dim [OF ids, of "value_key \<circ> r_value" r]
    by (auto simp: dims_ok_def set_put_dim split: if_splits)
  moreover have "dim_logs_ok (dim_logs d s @ dim_update_logs ctx old r) (put_dim r (dim_rows d s))"
  proof -
    have "dim_audited (dim_logs d s @ dim_update_logs ctx old r) x"
      if "x \<in> set (dim_rows d s)" "r_id x \<noteq> r_id r" for x
      using that logs last_log_other [of "dim_update_logs ctx old r" "r_id x"] dim_update_logs_dimension [of _ ctx old r]
      by (auto simp: dim_logs_ok_def dim_audited_def)
    moreover have "dim_audited (dim_logs d s @ dim_update_logs ctx old r) r"
      using logs old by (intro dim_audited_update f(3)) (simp_all add: dim_logs_ok_def)
    moreover have ids': "r_id ` set (put_dim r (dim_rows d s)) = r_id ` set (dim_rows d s)"
      by (metis list.set_map map_r_id_put_dim)
    have "r_id r \<in> r_id ` set (dim_rows d s)" using old by (metis image_eqI)
    then have "\<forall>l \<in> set (dim_logs d s @ dim_update_logs ctx old r). dl_dimension l \<in> r_id ` set (dim_rows d s)"
      using logs dim_update_logs_dimension [of _ ctx old r] by (auto simp: dim_logs_ok_def)
    ultimately show ?thesis
      unfolding dim_logs_ok_def ids' using u(6) by (auto simp: set_put_dim split: if_splits)
  qed
  moreover have "mcs_ok d'"
  proof (rule mcs_ok_cong [OF enforcedD(3) [OF assms(1)]])
    show "r_id ` set (dim_rows d' t) \<supseteq> r_id ` set (dim_rows d t)" for t
      unfolding u(1) by (metis (mono_tags) db.select_convs(1) db.surjective db.update_convs(1,3)
        fun_upd_other fun_upd_same list.set_map map_r_id_put_dim order_refl)
  qed (simp add: u(1))
  ultimately show ?thesis using assms(1) by (simp add: enforced_def u(1))
qed


lemma mc_history_append [simp]: "mc_history i (ls @ new) = mc_history i ls @ mc_history i new"
  by (simp add: mc_history_def)

lemma log_chain_append: "log_chain p (ls @ [l]) \<longleftrightarrow> log_chain p ls \<and> ml_old l = log_end p ls"
  by (induction ls arbitrary: p) auto

lemma log_end_append [simp]: "log_end p (ls @ [l]) = Some (ml_new l)"
  by (induction ls arbitrary: p) auto

lemma mc_log_row_simps [simp]:
  "ml_master_code (mc_log_row ctx m op old) = m_id m" "ml_version (mc_log_row ctx m op old) = m_version m"
  "ml_operation (mc_log_row ctx m op old) = op" "ml_old (mc_log_row ctx m op old) = old"
  "ml_new (mc_log_row ctx m op old) = mc_state m"
  by (simp_all add: mc_log_row_def)

lemma mc_insert_result:
  assumes "mc_insert ctx m d = Inr d'"
  shows "d' = d\<lparr>mc_rows := mc_rows d @ [m], mc_logs := mc_logs d @ [mc_log_row ctx m MC_CREATE None]\<rparr>"
    and "m_version m = 1" "m_created m = m_updated m" "m_deleted m = None" "mc_references_check d m"
    and "m_id m \<notin> m_id ` set (mc_rows d)" "m_code m \<notin> m_code ` set (mc_rows d)"
    and "m_refs m \<notin> m_refs ` set (mc_rows d)"
proof -
  have "mc_before_insert ctx m = Inr ()"
    using assms by (auto simp: mc_insert_def res_simps)
  then show "m_version m = 1" "m_created m = m_updated m" "m_deleted m = None"
    by (auto simp: mc_before_insert_def res_simps violation_def split: if_splits)
  show "d' = d\<lparr>mc_rows := mc_rows d @ [m], mc_logs := mc_logs d @ [mc_log_row ctx m MC_CREATE None]\<rparr>"
    using assms by (auto simp: mc_insert_def res_simps dest!: insert_mc_log_eq)
qed (use assms in \<open>auto simp: mc_insert_def res_simps\<close>)

lemma mc_audited_other: "mc_history (m_id m) new = [] \<Longrightarrow> mc_audited (ls @ new) m = mc_audited ls m"
  by (simp add: mc_audited_def)

lemma mc_audited_insert:
  assumes "m_id m \<notin> ml_master_code ` set ls" "m_version m = 1"
  shows "mc_audited (ls @ [mc_log_row ctx m op None]) m"
proof -
  have "mc_history (m_id m) ls = []"
    using assms(1) by (auto simp: mc_history_def filter_empty_conv image_iff)
  then show ?thesis using assms(2) by (simp add: mc_audited_def mc_history_def)
qed

lemma mc_audited_update:
  assumes "mc_audited ls old" "m_id m = m_id old" "m_version m = m_version old + 1" "0 \<le> m_version old"
  shows "mc_audited (ls @ [mc_log_row ctx m op (Some (mc_state old))]) m"
proof -
  define vs where "vs = map int [1..<nat (m_version old) + 1]"
  have "nat (m_version m) = Suc (nat (m_version old))" using assms(3,4) by simp
  then have "map int [1..<nat (m_version m) + 1] = vs @ [m_version m]"
    using assms(3,4) by (simp add: vs_def)
  moreover have "map ml_version (mc_history (m_id old) ls) = vs"
    using assms(1) by (simp only: mc_audited_def Let_def vs_def)
  ultimately show ?thesis
    using assms(1,2) by (simp add: mc_audited_def Let_def mc_history_def log_chain_append del: upt_Suc)
qed

lemma enforced_mc_insert:
  assumes "enforced d" "mc_insert ctx m d = Inr d'"
  shows "enforced d'"
proof -
  note r = mc_insert_result [OF assms(2)]
  have refs: "mc_references_check d' x = mc_references_check d x" for x
    by (rule mc_references_check_dims) (simp add: r(1))
  have check: "mc_row_check m" using assms(2) by (auto simp: mc_insert_def res_simps)
  have "mcs_ok d'"
    using enforcedD(3) [OF assms(1)] r(2-) check
    by (simp add: mcs_ok_def mc_row_ok_def refs) (simp add: r(1) mc_row_check_def)
  moreover have "mc_logs_ok (mc_logs d') (mc_rows d')"
  proof -
    have old: "mc_logs_ok (mc_logs d) (mc_rows d)" by (rule enforcedD(4) [OF assms(1)])
    have "mc_audited (mc_logs d @ [mc_log_row ctx m MC_CREATE None]) x" if "x \<in> set (mc_rows d)" for x
    proof -
      have "m_id m \<noteq> m_id x" using that r(6) by auto
      then show ?thesis using old that
        by (subst mc_audited_other) (simp_all add: mc_logs_ok_def mc_history_def)
    qed
    moreover have "m_id m \<notin> ml_master_code ` set (mc_logs d)"
      using old r(6) by (auto simp: mc_logs_ok_def)
    ultimately show ?thesis using old r(2) mc_audited_insert
      unfolding r(1) by (auto simp: mc_logs_ok_def)
  qed
  ultimately show ?thesis using assms(1) by (simp add: enforced_def) (simp add: r(1))
qed

lemma mc_update_result:
  assumes "mc_update ctx m d = Inr d'" "mc_by_id (m_id m) (mc_rows d) = Some old"
  shows "\<exists>op. d' = d\<lparr>mc_rows := put_mc m (mc_rows d),
      mc_logs := mc_logs d @ [mc_log_row ctx m op (Some (mc_state old))]\<rparr>"
    and "mc_before_update ctx old m = Inr ()" "mc_row_check m" "mc_references_check d m"
    and "m_code m \<notin> m_code ` {x \<in> set (mc_rows d). m_id x \<noteq> m_id m}"
    and "m_refs m \<notin> m_refs ` {x \<in> set (mc_rows d). m_id x \<noteq> m_id m}"
proof -
  have step: "mc_before_update ctx old m = Inr ()" "mc_row_check m" "mc_references_check d m"
    "mc_unique_check m (filter (\<lambda>x. m_id x \<noteq> m_id m) (mc_rows d)) = Inr ()"
    "\<exists>op. insert_mc_log (mc_log_row ctx m op (Some (mc_state old))) (d\<lparr>mc_rows := put_mc m (mc_rows d)\<rparr>) = Inr d'"
    using assms by (auto simp: mc_update_def bindE_eq_Inr requireE_eq violation_def split: if_splits option.splits)
  show "mc_before_update ctx old m = Inr ()" "mc_row_check m" "mc_references_check d m" by (rule step)+
  show "m_code m \<notin> m_code ` {x \<in> set (mc_rows d). m_id x \<noteq> m_id m}"
    "m_refs m \<notin> m_refs ` {x \<in> set (mc_rows d). m_id x \<noteq> m_id m}"
    using step(4) by (auto simp: res_simps)
  show "\<exists>op. d' = d\<lparr>mc_rows := put_mc m (mc_rows d),
      mc_logs := mc_logs d @ [mc_log_row ctx m op (Some (mc_state old))]\<rparr>"
    using step(5) by (auto dest!: insert_mc_log_eq)
qed

lemma mc_before_update_facts:
  assumes "mc_before_update ctx old m = Inr ()"
  shows "m_id m = m_id old" "m_created m = m_created old" "m_version m = m_version old + 1"
    "m_updated m = ctx_time ctx" "m_updated old \<le> m_updated m"
  using assms by (auto simp: mc_before_update_def Let_def bindE_eq_Inr violation_def split: if_splits)

lemma enforced_mc_update:
  assumes "enforced d" "mc_update ctx m d = Inr d'"
  shows "enforced d'"
proof (cases "mc_by_id (m_id m) (mc_rows d)")
  case None
  with assms show ?thesis by (simp add: mc_update_def)
next
  case (Some old)
  note u = mc_update_result [OF assms(2) Some] and f = mc_before_update_facts [OF mc_update_result(2) [OF assms(2) Some]]
  obtain op where d': "d' = d\<lparr>mc_rows := put_mc m (mc_rows d),
      mc_logs := mc_logs d @ [mc_log_row ctx m op (Some (mc_state old))]\<rparr>"
    using u(1) by blast
  have refs: "mc_references_check d' x = mc_references_check d x" for x
    by (rule mc_references_check_dims) (simp add: d')
  have mcs: "mcs_ok d" and logs: "mc_logs_ok (mc_logs d) (mc_rows d)"
    by (rule enforcedD [OF assms(1)])+
  have old: "old \<in> set (mc_rows d)" "m_id old = m_id m"
    using mc_by_id_in [OF Some] by auto
  have ids: "distinct (map m_id (mc_rows d))" using mcs by (simp add: mcs_ok_def)
  have v: "1 \<le> m_version old" using mcs old by (auto simp: mcs_ok_def mc_row_ok_def)
  have "mc_row_ok d' m"
    using u(3,4) f v by (simp add: mc_row_ok_def refs mc_row_check_def)
  moreover have "mc_row_ok d' x" if "x \<in> set (mc_rows d)" for x
    using mcs that by (simp add: mcs_ok_def mc_row_ok_def refs)
  ultimately have "mcs_ok d'"
    using mcs u(5,6) distinct_map_put_mc [OF ids, of m_code m] distinct_map_put_mc [OF ids, of m_refs m]
    by (auto simp: mcs_ok_def d' set_put_mc split: if_splits)
  moreover have "mc_logs_ok (mc_logs d') (mc_rows d')"
  proof -
    let ?l = "mc_log_row ctx m op (Some (mc_state old))"
    have "mc_audited (mc_logs d @ [?l]) x" if "x \<in> set (mc_rows d)" "m_id x \<noteq> m_id m" for x
      using that logs by (subst mc_audited_other) (auto simp: mc_logs_ok_def mc_history_def)
    moreover have "mc_audited (mc_logs d @ [?l]) m"
      using logs old f v by (intro mc_audited_update) (simp_all add: mc_logs_ok_def)
    ultimately have aud: "\<forall>x \<in> set (put_mc m (mc_rows d)). mc_audited (mc_logs d @ [?l]) x"
      by (auto simp: set_put_mc split: if_splits)
    have ids': "m_id ` set (put_mc m (mc_rows d)) = m_id ` set (mc_rows d)"
      by (metis list.set_map map_m_id_put_mc)
    have "m_id m \<in> m_id ` set (mc_rows d)" using old by (metis image_eqI)
    then have "\<forall>l \<in> set (mc_logs d @ [?l]). ml_master_code l \<in> m_id ` set (mc_rows d)"
      using logs by (auto simp: mc_logs_ok_def)
    with aud show ?thesis
      unfolding mc_logs_ok_def d' by (simp add: ids')
  qed
  ultimately show ?thesis using assms(1) by (simp add: enforced_def) (simp add: d')
qed

end
