(* ===== verification/Coherence.thy ===== *)
theory Coherence
  imports Store_Laws
begin

text \<open>
  The part of the database invariant the application keeps (\<open>coherent\<close>), and the domain
  view of the stored MasterCodes: under the invariant every stored MasterCode converts to a
  well-formed domain value, so no read of the repositories fails on stored data.
\<close>

section \<open>The domain view\<close>

definition mc_dims_of :: "db \<Rightarrow> mc_row \<Rightarrow> master_code_dimensions" where
  "mc_dims_of d m = (\<lambda>s. map_option (row_dim s) (joined_row d m s))"

definition mc_view :: "db \<Rightarrow> mc_row \<Rightarrow> master_code" where
  "mc_view d m = master_code_of m (mc_dims_of d m)"

definition coherent :: "db \<Rightarrow> bool" where
  "coherent d \<longleftrightarrow> (\<forall>m \<in> set (mc_rows d). m_code m = compose (mc_dims_of d m)
     \<and> (m_deleted m = None \<longrightarrow> all_active (mc_dims_of d m)))"

definition db_inv :: "db \<Rightarrow> bool" where
  "db_inv d \<longleftrightarrow> enforced d \<and> coherent d"

lemma master_code_of_simps [simp]:
  "mc_id (master_code_of m dims) = m_id m" "mc_dims (master_code_of m dims) = dims"
  "mc_code (master_code_of m dims) = m_code m" "mc_version (master_code_of m dims) = m_version m"
  "mc_created_at (master_code_of m dims) = Aware (m_created m)"
  "mc_updated_at (master_code_of m dims) = Aware (m_updated m)"
  "mc_deleted_at (master_code_of m dims) = map_option Aware (m_deleted m)"
  by (simp_all add: master_code_of_def)

lemma row_ok_table: "\<lbrakk>enforced d; r \<in> set (dim_rows d s)\<rbrakk> \<Longrightarrow> row_ok s r"
  using enforcedD(1) [of d s] by (simp add: dims_ok_def)

lemma joined_row_in: "joined_row d m s = Some r \<Longrightarrow> r \<in> set (dim_rows d s) \<and> m_refs m s = Some (r_id r)"
  by (auto simp: joined_row_def dest!: dim_by_id_in split: option.splits)

lemma dims_wf_of: "enforced d \<Longrightarrow> dims_wf (mc_dims_of d m)"
  unfolding dims_wf_def mc_dims_of_def
  using row_ok_wf row_ok_table joined_row_in by fastforce

lemma domain_slots_ok:
  assumes "\<And>s r. f s = Some r \<Longrightarrow> row_ok s r" "distinct ss"
  shows "domain_slots f ss = Inr (\<lambda>s. if s \<in> set ss then map_option (row_dim s) (f s) else None)"
  using assms(2)
proof (induction ss)
  case (Cons s ss)
  then show ?case
    using row_ok_wf(3) [OF assms(1), of s] by (cases "f s") (auto simp: fun_eq_iff)
qed (simp add: fun_eq_iff)

lemma mc_view_wf:
  assumes "enforced d" "coherent d" "m \<in> set (mc_rows d)"
  shows "master_code_wf (mc_view d m)"
proof -
  have "mc_row_ok d m" using enforcedD(3) [OF assms(1)] assms(3) by (simp add: mcs_ok_def)
  then show ?thesis
    using dims_wf_of [OF assms(1)] assms(2,3)
    by (auto simp: master_code_wf_def master_code_times_def state_times_def mc_view_def mc_row_ok_def
        times_check_def coherent_def split: option.splits)
qed

lemma joined_to_domain_ok:
  assumes "enforced d" "coherent d" "m \<in> set (mc_rows d)"
  shows "joined_to_domain d m = Inr (mc_view d m)"
proof -
  have ok: "row_ok s r" if "joined_row d m s = Some r" for s r
    using that joined_row_in row_ok_table [OF assms(1)] by blast
  have "domain_slots (joined_row d m) ORDER = Inr (mc_dims_of d m)"
    using domain_slots_ok [of "joined_row d m" ORDER, OF ok] by (simp add: mc_dims_of_def)
  moreover have "master_code_dimensions_init (mc_dims_of d m) = Inr (mc_dims_of d m)"
    using dims_wf_of [OF assms(1), of m] by (auto simp: res_simps dims_wf_def)
  ultimately show ?thesis
    using master_code_wf_init [OF mc_view_wf [OF assms]]
    by (simp add: joined_to_domain_def row_master_code_def mc_view_def)
qed


section \<open>Effect of writes on the view\<close>

lemma mc_dims_of_other:
  assumes "\<And>s i. m_refs m s = Some i \<Longrightarrow> dim_by_id i (dim_rows d' s) = dim_by_id i (dim_rows d s)"
  shows "mc_dims_of d' m = mc_dims_of d m"
  using assms by (auto simp: mc_dims_of_def joined_row_def fun_eq_iff split: option.splits)

lemma references_exist:
  assumes "mc_references_check d m" "m_refs m s = Some i"
  shows "\<exists>r. dim_by_id i (dim_rows d s) = Some r"
  using assms by (auto simp: mc_references_check_def split: option.splits)

lemma mc_dims_of_insert:
  assumes "mc_references_check d m" "dim_rows d' = (dim_rows d)(s := dim_rows d s @ [r])"
  shows "mc_dims_of d' m = mc_dims_of d m"
  by (rule mc_dims_of_other)
     (use references_exist [OF assms(1)] assms(2) in \<open>fastforce simp: dim_by_id_append\<close>)

lemma mc_dims_of_put:
  assumes "dim_rows d' = (dim_rows d)(s := put_dim r (dim_rows d s))" "r_id r \<in> r_id ` set (dim_rows d s)"
  shows "mc_dims_of d' m =
    (if m_refs m s = Some (r_id r) then (mc_dims_of d m)(s := Some (row_dim s r)) else mc_dims_of d m)"
  using assms by (auto simp: mc_dims_of_def joined_row_def fun_eq_iff dim_by_id_put_dim split: option.splits)

lemma coherent_dim_insert:
  assumes "enforced d" "coherent d" "dim_insert ctx s r d = Inr d'"
  shows "coherent d'"
proof -
  note r = dim_insert_result(1) [OF assms(3)]
  have "mc_dims_of d' m = mc_dims_of d m" if "m \<in> set (mc_rows d)" for m
    using that enforcedD(3) [OF assms(1)] r
    by (intro mc_dims_of_insert) (auto simp: mcs_ok_def mc_row_ok_def)
  with assms(2) show ?thesis by (simp add: coherent_def r)
qed

lemma all_active_upd:
  "all_active (dims(s := Some x)) \<longleftrightarrow> dim_deleted_at x = None \<and> all_active (dims(s := None))"
  by (auto simp: all_active_def)

lemma all_active_updI: "\<lbrakk>all_active dims; dim_deleted_at x = None\<rbrakk> \<Longrightarrow> all_active (dims(s := Some x))"
  by (auto simp: all_active_def)

lemma compose_upd_same_code:
  "dims s = Some y \<Longrightarrow> dim_code x = dim_code y \<Longrightarrow> compose (dims(s := Some x)) = compose dims"
  by (rule compose_cong) (auto simp: fun_eq_iff)

lemma compose_upd_other_code:
  assumes "dims_wf dims" "dims s = Some y" "dims_wf (dims(s := Some x))" "dim_code x \<noteq> dim_code y"
  shows "compose (dims(s := Some x)) \<noteq> compose dims"
proof
  assume "compose (dims(s := Some x)) = compose dims"
  then have "map_option dim_code \<circ> dims(s := Some x) = map_option dim_code \<circ> dims"
    using compose_inject assms(1,3) by blast
  then have "(map_option dim_code \<circ> dims(s := Some x)) s = (map_option dim_code \<circ> dims) s" by simp
  with assms(2,4) show False by simp
qed

end
