(* ===== verification/Dimension_Repo_Laws.thy ===== *)
theory Dimension_Repo_Laws
  imports Coherence
begin

text \<open>
  What the Dimension repositories do to a database that satisfies the invariant. The
  contract between a repository and the rest is the locale \<open>dimension_repository\<close>: the slot
  and a conversion of records that is total on valid rows. It is interpreted on the
  conversions of the four repositories.
\<close>

section \<open>Locking and recomposing MasterCodes\<close>

definition referencing :: "db \<Rightarrow> slot \<Rightarrow> uuid \<Rightarrow> mc_row list" where
  "referencing d s i = sort_key m_id (filter (\<lambda>m. m_refs m s = Some i) (mc_rows d))"

lemma set_referencing: "set (referencing d s i) = {m \<in> set (mc_rows d). m_refs m s = Some i}"
  by (auto simp: referencing_def)

lemma distinct_referencing: "enforced d \<Longrightarrow> distinct (map m_id (referencing d s i))"
proof -
  assume "enforced d"
  then have "distinct (map m_id (mc_rows d))" using enforcedD(3) by (auto simp: mcs_ok_def)
  then show ?thesis
    by (simp add: referencing_def distinct_map inj_on_def)
qed

lemma lock_referencing_ok:
  assumes "enforced d" "coherent d"
  shows "lock_referencing_master_codes d s i = Inr (map (\<lambda>m. (m, mc_view d m)) (referencing d s i))"
proof -
  have ids: "distinct (map m_id (mc_rows d))" using enforcedD(3) [OF assms(1)] by (simp add: mcs_ok_def)
  have "filter (\<lambda>m. m_id m \<in> set (map m_id (referencing d s i))) (mc_rows d)
      = filter (\<lambda>m. m_refs m s = Some i) (mc_rows d)"
    using ids by (intro filter_cong) (auto simp: set_referencing dest: distinct_map_filter_unique)
  then have "sort_key m_id (filter (\<lambda>m. m_id m \<in> set (map m_id (referencing d s i))) (mc_rows d))
      = referencing d s i"
    by (simp only: referencing_def)
  moreover have "mapE (\<lambda>m. bindE (joined_to_domain d m) (\<lambda>c. Inr (m, c))) (referencing d s i)
      = Inr (map (\<lambda>m. (m, mc_view d m)) (referencing d s i))"
    using joined_to_domain_ok [OF assms] by (intro mapE_Inr_all) (auto simp: set_referencing)
  ultimately show ?thesis
    unfolding lock_referencing_master_codes_def Let_def referencing_def [symmetric] by simp
qed

text \<open>The row a MasterCode gets when the Dimension in one of its slots becomes \<open>x\<close>.\<close>

definition recomposed_row :: "db \<Rightarrow> slot \<Rightarrow> dimension \<Rightarrow> int \<Rightarrow> mc_row \<Rightarrow> mc_row" where
  "recomposed_row d s x t m =
     (let code = compose ((mc_dims_of d m)(s := Some x)) in
      if m_refs m s = Some (dim_id x) \<and> code \<noteq> m_code m
      then m\<lparr>m_code := code, m_version := m_version m + 1, m_updated := t\<rparr> else m)"

lemma recomposed_row_simps [simp]:
  "m_id (recomposed_row d s x t m) = m_id m" "m_refs (recomposed_row d s x t m) = m_refs m"
  "m_deleted (recomposed_row d s x t m) = m_deleted m" "m_created (recomposed_row d s x t m) = m_created m"
  by (simp_all add: recomposed_row_def Let_def)

lemma recompose_locked_ok:
  assumes "enforced d" "coherent d" "set ms \<subseteq> {m \<in> set (mc_rows d). m_refs m s = Some (dim_id x)}"
    and "\<And>m. m \<in> set ms \<Longrightarrow> m_updated m \<le> t"
    and "dimension_wf x" "value_slot (dim_val x) = s" "dim_deleted_at x = None"
  shows "recompose_locked_master_codes (map (\<lambda>m. (m, mc_view d m)) ms) s x (Aware t)
    = Inr (map (recomposed_row d s x t) (filter (\<lambda>m. recomposed_row d s x t m \<noteq> m) ms))"
  using assms(3,4)
proof (induction ms)
  case (Cons m ms)
  let ?dims = "(mc_dims_of d m)(s := Some x)"
  have m: "m \<in> set (mc_rows d)" "m_refs m s = Some (dim_id x)" "m_updated m \<le> t"
    using Cons.prems by auto
  have wf: "master_code_wf (mc_view d m)" by (rule mc_view_wf [OF assms(1,2) m(1)])
  have view: "mc_view d m = master_code_of m (mc_dims_of d m)" by (simp add: mc_view_def)
  have refs: "mc_references_check d m"
    using enforcedD(3) [OF assms(1)] m(1) by (simp add: mcs_ok_def mc_row_ok_def)
  obtain r where r: "dim_by_id (dim_id x) (dim_rows d s) = Some r"
    using references_exist [OF refs m(2)] by blast
  have ids: "dimension_ids ?dims = dimension_ids (mc_dims_of d m)"
    using r m(2) dim_by_id_in [OF r]
    by (auto simp: dimension_ids_eq fun_eq_iff mc_dims_of_def joined_row_def)
  have init: "master_code_dimensions_init ?dims = Inr ?dims"
    using dims_wf_of [OF assms(1), of m] assms(6) by (auto simp: res_simps dims_wf_def)
  have active: "mc_deleted_at (mc_view d m) = None \<longrightarrow> all_active ?dims"
    using assms(2,7) m(1) by (auto simp: coherent_def view intro: all_active_updI)
  define e where "e = (if compose ?dims = mc_code (mc_view d m) then mc_view d m
    else (mc_view d m)\<lparr>mc_dims := ?dims, mc_code := compose ?dims,
           mc_version := mc_version (mc_view d m) + 1, mc_updated_at := Aware t\<rparr>)"
  have "recompose (mc_view d m) ?dims (Aware t) = Inr e"
    using recompose_eq_Inr [OF wf, of ?dims "Aware t" e] ids active m(3) by (simp add: e_def view)
  moreover have "e = mc_view d m \<longleftrightarrow> recomposed_row d s x t m = m"
  proof (cases "compose ?dims = m_code m")
    case False
    then have "mc_version e \<noteq> mc_version (mc_view d m)" by (simp add: e_def view)
    moreover have "m_version (recomposed_row d s x t m) \<noteq> m_version m"
      using False m(2) by (simp add: recomposed_row_def)
    ultimately show ?thesis by metis
  qed (simp add: e_def view recomposed_row_def)
  moreover have "e \<noteq> mc_view d m \<Longrightarrow> m\<lparr>m_code := mc_code e, m_version := mc_version e,
      m_updated := instant (mc_updated_at e)\<rparr> = recomposed_row d s x t m"
    using m(2) by (auto simp: e_def view recomposed_row_def split: if_splits)
  moreover have "recompose_locked_master_codes (map (\<lambda>m. (m, mc_view d m)) ms) s x (Aware t)
    = Inr (map (recomposed_row d s x t) (filter (\<lambda>m. recomposed_row d s x t m \<noteq> m) ms))"
    using Cons by auto
  ultimately show ?case using init by (auto simp: view)
qed simp

lemma flush_effect:
  assumes "flush_master_codes ctx ms d = Inr d'" "enforced d"
    and "distinct (map m_id ms)" "m_id ` set ms \<subseteq> m_id ` set (mc_rows d)"
  shows "dim_rows d' = dim_rows d \<and> enforced d' \<and> dim_logs d' = dim_logs d
    \<and> mc_rows d' = map (\<lambda>x. case mc_by_id (m_id x) ms of Some m \<Rightarrow> m | None \<Rightarrow> x) (mc_rows d)"
  using assms
proof (induction ms arbitrary: d)
  case Nil
  then show ?case by (auto simp: mc_by_id_def)
next
  case (Cons m ms)
  obtain d1 where d1: "mc_update ctx m d = Inr d1" "flush_master_codes ctx ms d1 = Inr d'"
    using Cons.prems(1) by (auto simp: res_simps)
  obtain old where old: "mc_by_id (m_id m) (mc_rows d) = Some old"
    using Cons.prems(4) mc_by_id_None [of "m_id m" "mc_rows d"] by (cases "mc_by_id (m_id m) (mc_rows d)") auto
  have rows: "mc_rows d1 = put_mc m (mc_rows d)" "dim_rows d1 = dim_rows d" "dim_logs d1 = dim_logs d"
    using mc_update_result(1) [OF d1(1) old] by auto
  have ids: "m_id ` set (mc_rows d1) = m_id ` set (mc_rows d)"
    unfolding rows by (metis list.set_map map_m_id_put_mc)
  have IH: "dim_rows d' = dim_rows d1 \<and> enforced d' \<and> dim_logs d' = dim_logs d1
    \<and> mc_rows d' = map (\<lambda>x. case mc_by_id (m_id x) ms of Some m \<Rightarrow> m | None \<Rightarrow> x) (mc_rows d1)"
    by (rule Cons.IH [OF d1(2) enforced_mc_update [OF Cons.prems(2) d1(1)]])
       (use Cons.prems(3,4) in \<open>auto simp: ids\<close>)
  have "mc_by_id (m_id m) ms = None"
    using Cons.prems(3) by (simp add: mc_by_id_None)
  then have "map (\<lambda>x. case mc_by_id (m_id x) ms of Some m \<Rightarrow> m | None \<Rightarrow> x) (put_mc m (mc_rows d))
      = map (\<lambda>x. case mc_by_id (m_id x) (m # ms) of Some m \<Rightarrow> m | None \<Rightarrow> x) (mc_rows d)"
    by (auto simp: put_mc_def mc_by_id_def)
  with IH rows show ?case by simp
qed

text \<open>Flushing exactly the rows that change gives every referencing row its recomposed form.\<close>

lemma recomposed_rows_table:
  assumes "distinct (map m_id rows)" "distinct (map m_id ms)" "set ms = {m \<in> set rows. P m}"
    and "\<And>m. m \<in> set rows \<Longrightarrow> \<not> P m \<Longrightarrow> f m = m" "\<And>m. m_id (f m) = m_id m"
  shows "map (\<lambda>x. case mc_by_id (m_id x) (map f (filter (\<lambda>m. f m \<noteq> m) ms)) of Some m \<Rightarrow> m | None \<Rightarrow> x) rows
    = map f rows"
proof (rule map_cong [OF refl])
  fix x assume x: "x \<in> set rows"
  let ?c = "map f (filter (\<lambda>m. f m \<noteq> m) ms)"
  have d: "distinct (map m_id ?c)"
    using assms(2,5) by (simp add: comp_def distinct_map_filter)
  show "(case mc_by_id (m_id x) ?c of Some m \<Rightarrow> m | None \<Rightarrow> x) = f x"
  proof (cases "f x = x")
    case True
    have "m_id x \<notin> m_id ` set ?c"
    proof
      assume "m_id x \<in> m_id ` set ?c"
      then obtain m where m: "m \<in> set ms" "f m \<noteq> m" "m_id m = m_id x" using assms(5) by auto
      then have "m = x" using assms(1,3) x by (auto dest: distinct_map_filter_unique)
      with m(2) True show False by simp
    qed
    with True show ?thesis by (simp add: mc_by_id_None [THEN iffD2])
  next
    case False
    then have "x \<in> set ms" using assms(3,4) x by auto
    with False have "f x \<in> set ?c" by auto
    from mc_by_id_unique [OF d this] show ?thesis by (simp add: assms(5))
  qed
qed


section \<open>The repository contract\<close>

text \<open>
  The result of a change of a row: the new Dimension, the Dimension table with that row
  replaced and, when the code changes, every referencing MasterCode recomposed.
\<close>

definition changed_row :: "dim_row \<Rightarrow> dimension \<Rightarrow> dim_row" where
  "changed_row r x = r\<lparr>r_code := dim_code x, r_value := record_value (dim_val x),
     r_version := dim_version x, r_updated := instant (dim_updated_at x)\<rparr>"

definition changed_db :: "slot \<Rightarrow> dim_row \<Rightarrow> dimension \<Rightarrow> db \<Rightarrow> db \<Rightarrow> bool" where
  "changed_db s r x d d' \<longleftrightarrow>
     dim_rows d' = (dim_rows d)(s := put_dim (changed_row r x) (dim_rows d s))
     \<and> mc_rows d' = (if dim_code x = r_code r then mc_rows d
                    else map (recomposed_row d s x (instant (dim_updated_at x))) (mc_rows d))"

lemma row_dim_changed_row:
  assumes "row_ok s r" "dimension_wf x" "value_slot (dim_val x) = s" "dim_id x = r_id r"
    and "dim_created_at x = Aware (r_created r)" "dim_deleted_at x = map_option Aware (r_deleted r)"
  shows "row_dim s (changed_row r x) = x" "row_ok s (changed_row r x)"
proof -
  have "map_option instant (map_option Aware u) = u" for u by (cases u) auto
  then show "row_dim s (changed_row r x) = x" "row_ok s (changed_row r x)"
    using row_ok_of_dimension [OF assms(2,3), of "changed_row r x"] assms(4-6)
    by (simp_all add: changed_row_def)
qed

lemma find_active:
  "find (\<lambda>r. r_id r = i \<and> r_deleted r = None) rows = Some r \<Longrightarrow> r \<in> set rows \<and> r_id r = i \<and> r_deleted r = None"
  by (auto simp: find_Some_iff)

lemma find_active_iff:
  assumes "distinct (map r_id rows)"
  shows "find (\<lambda>r. r_id r = i \<and> r_deleted r = None) rows = Some r \<longleftrightarrow> r \<in> set rows \<and> r_id r = i \<and> r_deleted r = None"
  using assms
proof (induction rows)
  case (Cons a rows)
  then show ?case by (auto simp: image_iff)
qed simp

lemma fold_max_ge_start: "(a :: int) \<le> fold max xs a"
  by (induction xs arbitrary: a) (auto intro: order_trans [OF max.cobounded2])

lemma fold_max_ge: "x \<in> set xs \<Longrightarrow> (x :: int) \<le> fold max xs a"
proof (induction xs arbitrary: a)
  case (Cons y ys)
  then show ?case
    using fold_max_ge_start [of "max y a" ys] by (auto intro: order_trans [OF max.cobounded1])
qed simp

lemma translate_create_eq_Inr [res_simps]: "translate_create_error s r = Inr y \<longleftrightarrow> r = Inr y"
  by (auto simp: translate_create_error_def split: sum.splits exn.splits option.splits)

lemma translate_update_eq_Inr [res_simps]: "translate_update_error s r = Inr y \<longleftrightarrow> r = Inr y"
  by (auto simp: translate_update_error_def split: sum.splits exn.splits option.splits)

lemma set_context_eq:
  "set_context a c None = Inr \<lparr>ctx_meta = a, ctx_time = c\<rparr>"
  "set_context a c (Some (Aware t)) = Inr \<lparr>ctx_meta = a, ctx_time = max c t\<rparr>"
  by (simp_all add: set_context_def)

lemma mc_dims_of_refs: "m_refs m' = m_refs m \<Longrightarrow> mc_dims_of d m' = mc_dims_of d m"
  by (simp add: mc_dims_of_def joined_row_def fun_eq_iff)

lemma mc_dims_of_slot:
  assumes "enforced d" "r \<in> set (dim_rows d s)" "m_refs m s = Some (r_id r)"
  shows "mc_dims_of d m s = Some (row_dim s r)"
proof -
  have "distinct (map r_id (dim_rows d s))" using enforcedD(1) [OF assms(1)] by (auto simp: dims_ok_def)
  then show ?thesis using assms(2,3) by (simp add: mc_dims_of_def joined_row_def dim_by_id_unique)
qed

lemma coherent_changed:
  assumes enf: "enforced d" and coh: "coherent d" and r: "r \<in> set (dim_rows d s)"
    and x: "row_dim s (changed_row r x) = x" "dim_id x = r_id r" "dim_deleted_at x = None"
    and ch: "changed_db s r x d d'"
  shows "coherent d'"
proof -
  have rows: "dim_rows d' = (dim_rows d)(s := put_dim (changed_row r x) (dim_rows d s))"
    using ch by (simp add: changed_db_def)
  have id: "r_id (changed_row r x) = r_id r" by (simp add: changed_row_def)
  have "r_id r \<in> r_id ` set (dim_rows d s)" using r by simp
  then have dims: "mc_dims_of d' m =
      (if m_refs m s = Some (r_id r) then (mc_dims_of d m)(s := Some x) else mc_dims_of d m)" for m
    using mc_dims_of_put [of d' d s "changed_row r x" m] rows x(1) id by simp
  have old: "m_code m = compose (mc_dims_of d m)" "m_deleted m = None \<Longrightarrow> all_active (mc_dims_of d m)"
    if "m \<in> set (mc_rows d)" for m
    using coh that by (auto simp: coherent_def)
  have act: "m_deleted m = None \<Longrightarrow> all_active (mc_dims_of d' m)" if "m \<in> set (mc_rows d)" for m
    using old(2) [OF that] x(3) by (simp add: dims all_active_updI)
  show ?thesis
  proof (cases "dim_code x = r_code r")
    case True
    then have "compose (mc_dims_of d' m) = compose (mc_dims_of d m)" for m
      using mc_dims_of_slot [OF enf r, of m] by (simp add: dims compose_upd_same_code)
    moreover have "mc_rows d' = mc_rows d" using ch True by (simp add: changed_db_def)
    ultimately show ?thesis using old act by (simp add: coherent_def)
  next
    case False
    let ?f = "recomposed_row d s x (instant (dim_updated_at x))"
    have "mc_rows d' = map ?f (mc_rows d)" using ch False by (simp add: changed_db_def)
    moreover have "m_code (?f m) = compose (mc_dims_of d' (?f m))
        \<and> (m_deleted (?f m) = None \<longrightarrow> all_active (mc_dims_of d' (?f m)))" if "m \<in> set (mc_rows d)" for m
    proof -
      have "mc_dims_of d' (?f m) = mc_dims_of d' m" by (rule mc_dims_of_refs) simp
      moreover have "m_code (?f m) = compose (mc_dims_of d' m)"
        using old(1) [OF that] x(2) by (simp add: dims recomposed_row_def Let_def)
      ultimately show ?thesis using act [OF that] by simp
    qed
    ultimately show ?thesis by (auto simp: coherent_def)
  qed
qed

text \<open>Writing the changed row and flushing the recomposed rows gives the changed database.\<close>

lemma change_flush_effect:
  assumes inv: "db_inv d" and r: "r \<in> set (dim_rows d s)"
    and x: "row_dim s (changed_row r x) = x" "dim_id x = r_id r" "dim_updated_at x = Aware t" "dim_deleted_at x = None"
    and locked: "locked = (if dim_code x \<noteq> r_code r then referencing d s (r_id r) else [])"
    and d1: "dim_update ctx s (changed_row r x) d = Inr d1"
    and d2: "flush_master_codes ctx
      (map (recomposed_row d s x t) (filter (\<lambda>m. recomposed_row d s x t m \<noteq> m) locked)) d1 = Inr d2"
  shows "changed_db s r x d d2 \<and> db_inv d2"
proof -
  let ?f = "recomposed_row d s x t"
  let ?ms = "map ?f (filter (\<lambda>m. ?f m \<noteq> m) locked)"
  have enf: "enforced d" and coh: "coherent d" using inv by (simp_all add: db_inv_def)
  have id: "r_id (changed_row r x) = r_id r" by (simp add: changed_row_def)
  have "distinct (map r_id (dim_rows d s))" using enforcedD(1) [OF enf] by (auto simp: dims_ok_def)
  then have old: "dim_by_id (r_id (changed_row r x)) (dim_rows d s) = Some r"
    using r by (simp add: id dim_by_id_unique)
  have rows1: "dim_rows d1 = (dim_rows d)(s := put_dim (changed_row r x) (dim_rows d s))" "mc_rows d1 = mc_rows d"
    using dim_update_result(1) [OF d1 old] by simp_all
  have enf1: "enforced d1" by (rule enforced_dim_update [OF enf d1])
  have dist: "distinct (map m_id locked)" "set locked \<subseteq> set (mc_rows d)"
    using distinct_referencing [OF enf] by (auto simp: locked set_referencing)
  have "distinct (map m_id ?ms)" using dist(1) by (simp add: comp_def distinct_map_filter)
  moreover have "m_id ` set ?ms \<subseteq> m_id ` set (mc_rows d1)" using dist(2) by (auto simp: rows1)
  ultimately have fl: "dim_rows d2 = dim_rows d1 \<and> enforced d2 \<and> dim_logs d2 = dim_logs d1
    \<and> mc_rows d2 = map (\<lambda>x. case mc_by_id (m_id x) ?ms of Some m \<Rightarrow> m | None \<Rightarrow> x) (mc_rows d1)"
    by (intro flush_effect [OF d2 enf1])
  have "mc_rows d2 = (if dim_code x = r_code r then mc_rows d else map ?f (mc_rows d))"
  proof (cases "dim_code x = r_code r")
    case True
    then have "locked = []" by (simp add: locked)
    with fl True show ?thesis by (simp add: rows1 mc_by_id_def)
  next
    case False
    have ids: "distinct (map m_id (mc_rows d))" using enforcedD(3) [OF enf] by (simp add: mcs_ok_def)
    have "map (\<lambda>x. case mc_by_id (m_id x) ?ms of Some m \<Rightarrow> m | None \<Rightarrow> x) (mc_rows d) = map ?f (mc_rows d)"
      by (rule recomposed_rows_table [OF ids dist(1), where P = "\<lambda>m. m_refs m s = Some (r_id r)"])
         (use False x(2) in \<open>simp_all add: locked set_referencing recomposed_row_def Let_def\<close>)
    with fl False show ?thesis by (simp add: rows1)
  qed
  then have ch: "changed_db s r x d d2" using fl x(3) by (simp add: changed_db_def rows1)
  with coherent_changed [OF enf coh r x(1,2,4) ch] fl show ?thesis by (simp add: db_inv_def)
qed

locale dimension_repository =
  fixes slot :: slot and to_domain :: "dim_row \<Rightarrow> dimension res"
  assumes to_domain_ok: "row_ok slot r \<Longrightarrow> to_domain r = Inr (row_dim slot r)"
begin

lemma changed_flags:
  "(case code of None \<Rightarrow> False | Some c \<Rightarrow> c \<noteq> dim_code x) \<longleftrightarrow> next_code x code \<noteq> dim_code x"
  "(case val of None \<Rightarrow> False | Some v \<Rightarrow> \<not> dimension_values_equal (dim_val x) v) \<longleftrightarrow> next_value x val \<noteq> dim_val x"
  by (auto simp: next_code_def next_value_def split: option.splits)

lemma apply_change_eq:
  fixes code val and e :: env
  assumes inv: "db_inv d" and r: "r \<in> set (dim_rows d slot)" "r_deleted r = None"
    and code: "\<And>c. code = Some c \<Longrightarrow> valid_code c"
    and vals: "\<And>w. val = Some w \<Longrightarrow> valid_value w \<and> value_slot w = slot"
  defines "cur \<equiv> row_dim slot r"
  defines "cc \<equiv> next_code cur code \<noteq> dim_code cur" and "vc \<equiv> next_value cur val \<noteq> dim_val cur"
  defines "locked \<equiv> if cc then referencing d slot (r_id r) else []"
  defines "t \<equiv> max (env_clock e) (fold max (map m_updated locked) (r_updated r))"
  defines "x \<equiv> cur\<lparr>dim_code := next_code cur code, dim_val := next_value cur val,
      dim_version := dim_version cur + 1, dim_updated_at := Aware t\<rparr>"
  assumes changed: "cc \<or> vc"
  shows "repo_apply_change to_domain slot r cur code val cc vc audit e d =
      bindE (dim_update \<lparr>ctx_meta = audit, ctx_time = t\<rparr> slot (changed_row r x) d) (\<lambda>d1.
      bindE (flush_master_codes \<lparr>ctx_meta = audit, ctx_time = t\<rparr>
        (map (recomposed_row d slot x t) (filter (\<lambda>m. recomposed_row d slot x t m \<noteq> m) locked)) d1) (\<lambda>d2.
        Inr (x, d2)))"
    and "dimension_change cur code val (Aware t) = Inr x" "dimension_wf x" "row_ok slot (changed_row r x)"
    and "row_dim slot (changed_row r x) = x"
proof -
  have enf: "enforced d" and coh: "coherent d" using inv by (simp_all add: db_inv_def)
  have ok: "row_ok slot r" by (rule row_ok_table [OF enf r(1)])
  note wf = row_ok_wf(1,2) [OF ok]
  have t: "r_updated r \<le> t" "\<And>m. m \<in> set locked \<Longrightarrow> m_updated m \<le> t"
    using fold_max_ge_start [of "r_updated r" "map m_updated locked"]
      fold_max_ge [of _ "map m_updated locked" "r_updated r"]
    by (auto simp: t_def intro: max.coboundedI2)
  show change: "dimension_change cur code val (Aware t) = Inr x"
    using dimension_change_eq_Inr [of cur code val "Aware t" x] wf(1) changed t(1)
    by (auto simp: cur_def x_def cc_def vc_def dimension_wf_def)
  have "valid_code (next_code cur code)" "valid_value (next_value cur val)"
    using next_valid [of cur code val] wf(1) code vals by (auto simp: cur_def)
  then show wfx: "dimension_wf x"
    using wf(1) t(1) state_times_next(3) [of "dim_version cur" "dim_created_at cur" "dim_updated_at cur" "dim_deleted_at cur" "Aware t"]
    by (simp add: x_def dimension_wf_def dimension_times_def cur_def)
  have slot_x: "value_slot (dim_val x) = slot"
    using wf(2) vals by (auto simp: x_def cur_def next_value_def split: option.splits)
  show ok': "row_ok slot (changed_row r x)" and row_x: "row_dim slot (changed_row r x) = x"
    using row_dim_changed_row [OF ok wfx slot_x] by (simp_all add: x_def cur_def)
  have id_x: "dim_id x = r_id r" "dim_deleted_at x = None"
    using r(2) by (simp_all add: x_def cur_def)
  have lock: "(if cc then lock_referencing_master_codes d slot (r_id r) else Inr [])
      = Inr (map (\<lambda>m. (m, mc_view d m)) locked)"
    using lock_referencing_ok [OF enf coh] by (simp add: locked_def)
  have mini: "fold max (map (\<lambda>(m, c). instant (mc_updated_at c)) (map (\<lambda>m. (m, mc_view d m)) locked))
      (instant (dim_updated_at cur)) = fold max (map m_updated locked) (r_updated r)"
    by (simp add: cur_def comp_def mc_view_def)
  have rec: "(if cc then recompose_locked_master_codes (map (\<lambda>m. (m, mc_view d m)) locked) slot x (Aware t) else Inr [])
      = Inr (map (recomposed_row d slot x t) (filter (\<lambda>m. recomposed_row d slot x t m \<noteq> m) locked))"
    using recompose_locked_ok [OF enf coh _ t(2) wfx slot_x id_x(2), of locked] id_x(1)
    by (auto simp: locked_def set_referencing)
  have row: "r\<lparr>r_code := (if cc then dim_code x else r_code r),
      r_value := (if vc then record_value (dim_val x) else r_value r),
      r_version := dim_version x, r_updated := instant (dim_updated_at x)\<rparr> = changed_row r x"
    using ok value_from_record_ok(4) [of slot "r_value r"]
    by (auto simp: changed_row_def x_def cc_def vc_def cur_def row_ok_def dim_row_check_def)
  show "repo_apply_change to_domain slot r cur code val cc vc audit e d =
      bindE (dim_update \<lparr>ctx_meta = audit, ctx_time = t\<rparr> slot (changed_row r x) d) (\<lambda>d1.
      bindE (flush_master_codes \<lparr>ctx_meta = audit, ctx_time = t\<rparr>
        (map (recomposed_row d slot x t) (filter (\<lambda>m. recomposed_row d slot x t m \<noteq> m) locked)) d1) (\<lambda>d2.
        Inr (x, d2)))"
    unfolding repo_apply_change_def lock bindE_Inr mini Let_def set_context_eq mutation_ctx.select_convs
      t_def [symmetric] change rec row to_domain_ok [OF ok'] row_x ..
qed

lemma update_value_unfold:
  assumes inv: "db_inv d" and r: "r \<in> set (dim_rows d slot)" "r_deleted r = None"
  defines "cur \<equiv> row_dim slot r"
  shows "repo_update_value to_domain slot (r_id r) v val audit code e d = translate_update_error slot
    (if r_version r \<noteq> v then Inl PreconditionFailed
     else if next_code cur code = dim_code cur \<and> next_value cur val = dim_val cur then Inr (cur, d)
     else bindE (raise_conflict slot
         (next_code cur code \<noteq> dim_code cur
            \<and> (\<exists>y \<in> set (dim_rows d slot). r_id y \<noteq> r_id r \<and> r_code y = next_code cur code))
         (next_value cur val \<noteq> dim_val cur
            \<and> (\<exists>y \<in> set (dim_rows d slot). r_id y \<noteq> r_id r \<and>
                  value_key (r_value y) = value_key (record_value (next_value cur val))))) (\<lambda>_.
       repo_apply_change to_domain slot r cur code val (next_code cur code \<noteq> dim_code cur)
         (next_value cur val \<noteq> dim_val cur) audit e d))"
proof -
  have enf: "enforced d" using inv by (simp add: db_inv_def)
  have ok: "row_ok slot r" by (rule row_ok_table [OF enf r(1)])
  have "distinct (map r_id (dim_rows d slot))" using enforcedD(1) [OF enf] by (auto simp: dims_ok_def)
  then have find: "find (\<lambda>x. r_id x = r_id r \<and> r_deleted x = None) (dim_rows d slot) = Some r"
    using r by (simp add: find_active_iff)
  let ?same = "\<lambda>y. (next_code cur code \<noteq> dim_code cur \<and> Some (r_code y) = code)
      \<or> (next_value cur val \<noteq> dim_val cur \<and> Some (value_key (r_value y)) = map_option (value_key \<circ> record_value) val)"
  have code: "next_code cur code \<noteq> dim_code cur \<Longrightarrow> (Some c = code) = (c = next_code cur code)" for c
    by (auto simp: next_code_def split: option.splits)
  have val: "next_value cur val \<noteq> dim_val cur \<Longrightarrow>
      (Some k = map_option (value_key \<circ> record_value) val) = (k = value_key (record_value (next_value cur val)))" for k
    by (auto simp: next_value_def split: option.splits if_splits)
  have c1: "(next_code cur code \<noteq> dim_code cur
        \<and> (\<exists>y \<in> set (filter (\<lambda>y. r_id y \<noteq> r_id r \<and> ?same y) (dim_rows d slot)). Some (r_code y) = code))
      = (next_code cur code \<noteq> dim_code cur
        \<and> (\<exists>y \<in> set (dim_rows d slot). r_id y \<noteq> r_id r \<and> r_code y = next_code cur code))"
    using code by auto
  have c2: "(next_value cur val \<noteq> dim_val cur
        \<and> (\<exists>y \<in> set (filter (\<lambda>y. r_id y \<noteq> r_id r \<and> ?same y) (dim_rows d slot)).
             Some (value_key (r_value y)) = map_option (value_key \<circ> record_value) val))
      = (next_value cur val \<noteq> dim_val cur
        \<and> (\<exists>y \<in> set (dim_rows d slot). r_id y \<noteq> r_id r
             \<and> value_key (r_value y) = value_key (record_value (next_value cur val))))"
    using val by auto
  have ver: "dim_version cur = r_version r" by (simp add: cur_def)
  show ?thesis
    unfolding repo_update_value_def find option.case to_domain_ok [OF ok] bindE_Inr cur_def [symmetric]
      Let_def changed_flags c1 c2 ver by (simp only: not_not)
qed

end

end
