(* ===== verification/Context_Laws.thy ===== *)
theory Context_Laws
  imports Store
begin

text \<open>
  The mutation context the application installs passes the checks of the database: metadata
  from the audit factory is accepted by \<open>mdm_current_mutation_audit_context()\<close>.
\<close>

unbundle bit_operations_syntax

lemma digits_n_nth: "i < n \<Longrightarrow> digits_n b n k ! i = k div b ^ (n - 1 - i) mod b"
proof (induction n arbitrary: k)
  case (Suc n)
  show ?case
  proof (cases "i = n")
    case False
    then have "i < n" using Suc.prems by simp
    then have "n - i = Suc (n - 1 - i)" by simp
    with Suc.IH [OF \<open>i < n\<close>, of "k div b"] show ?thesis
      using \<open>i < n\<close> by (simp add: nth_append div_mult2_eq)
  qed (simp add: nth_append)
qed simp

lemma str_uuid_digit:
  "str_uuid u ! 14 = hex_digit (unat u div 2 ^ 76 mod 16)" "str_uuid u ! 19 = hex_digit (unat u div 2 ^ 60 mod 16)"
proof -
  have len: "length (uuid_hex u) = 32" by simp
  have "str_uuid u ! 14 = uuid_hex u ! 12" "str_uuid u ! 19 = uuid_hex u ! 16"
    using len by (simp_all add: str_uuid_def nth_append)
  then show "str_uuid u ! 14 = hex_digit (unat u div 2 ^ 76 mod 16)"
    "str_uuid u ! 19 = hex_digit (unat u div 2 ^ 60 mod 16)"
    by (simp_all add: uuid_hex_def digits_n_nth del: digits_n.simps)
qed


lemma version_digits:
  assumes "uuid_version u = Some 7"
  shows "str_uuid u ! 14 = 55" "str_uuid u ! 19 \<in> {56, 57, 97, 98}"
proof -
  have ver: "unat (drop_bit 76 u AND 15) = 7" and b: "bit u 63" "\<not> bit u 62"
    using assms by (auto simp: uuid_version_def split: if_splits)
  have and15: "x AND 15 = take_bit 4 x" for x :: "128 word"
    by (simp add: take_bit_eq_mask mask_eq_exp_minus_1)
  have "unat (take_bit 4 (drop_bit 76 u)) = take_bit 4 (drop_bit 76 (unat u))"
    by (simp only: unsigned_take_bit_eq unat_drop_bit_eq)
  then have "unat u div 2 ^ 76 mod 2 ^ 4 = 7"
    using ver unfolding and15 by (simp only: take_bit_eq_mod drop_bit_eq_div)
  then have "unat u div 2 ^ 76 mod 16 = 7" by simp
  then show "str_uuid u ! 14 = 55" by (simp only: str_uuid_digit) (simp add: hex_digit_def)
  define k where "k = unat u div 2 ^ 60"
  have "bit (unat u) 63" "\<not> bit (unat u) 62" using b by (simp_all add: bit_unsigned_iff)
  moreover have "unat u div 2 ^ 63 = k div 8" "unat u div 2 ^ 62 = k div 4"
    using div_mult2_eq [of "unat u" "2 ^ 60" "2 ^ 3"] div_mult2_eq [of "unat u" "2 ^ 60" "2 ^ 2"]
    by (simp_all only: k_def power_add [symmetric]) simp_all
  ultimately have "odd (k div 8)" "even (k div 4)"
    by (simp_all only: bit_iff_odd not_not simp_thms)
  then have "k div 8 mod 2 = 1" "k div 4 mod 2 = 0" by (simp_all only: odd_iff_mod_2_eq_one even_iff_mod_2_eq_zero)
  then have "k mod 16 = 8 + k mod 4"
    using mod_mult2_eq [of k 8 2] mod_mult2_eq [of k 4 2] by simp
  moreover have "k mod 4 < 4" by simp
  ultimately have "8 \<le> k mod 16 \<and> k mod 16 < 12" by simp
  then have "k mod 16 = 8 \<or> k mod 16 = 9 \<or> k mod 16 = 10 \<or> k mod 16 = 11" by arith
  then show "str_uuid u ! 19 \<in> {56, 57, 97, 98}"
    unfolding str_uuid_digit k_def by (auto simp: hex_digit_def)
qed

definition context_ok :: "audit_metadata \<Rightarrow> bool" where
  "context_ok m \<longleftrightarrow> (\<forall>t. current_mutation_audit_context \<lparr>ctx_meta = m, ctx_time = t\<rparr> = Inr \<lparr>ctx_meta = m, ctx_time = t\<rparr>)"

text \<open>Metadata of the audit factory is accepted by the database.\<close>

lemma factory_context_ok:
  assumes "audit_factory_create cs p dim_op mc_op r = Inr m"
  shows "context_ok m" "operations m = \<lparr>op_dimension = dim_op, op_master_code = mc_op\<rparr>" "change_set_id m = cs"
proof -
  have ver: "uuid_version cs = Some 7" and ops: "dim_op \<noteq> None \<or> mc_op \<noteq> None"
    using assms by (auto simp: audit_factory_create_def mutation_operations_init_def audit_metadata_init_def
        res_simps split: if_splits)
  obtain r' where r': "normalize_reason r = Inr r'"
    and m: "m = \<lparr>change_set_id = cs, audit_actor = \<lparr>actor_kind = HUMAN, actor_id = str_uuid (principal_user_id p),
        actor_role = Some (principal_role p)\<rparr>,
      operations = \<lparr>op_dimension = dim_op, op_master_code = mc_op\<rparr>, reason = r'\<rparr>"
    using assms unfolding audit_factory_create_eq [OF ver ops] by (auto simp: res_simps)
  show "operations m = \<lparr>op_dimension = dim_op, op_master_code = mc_op\<rparr>" "change_set_id m = cs"
    by (simp_all add: m)
  have strip: "strip_ch 32 (str_uuid (principal_user_id p)) = str_uuid (principal_user_id p)"
  proof (rule strip_ch_id)
    have "32 \<notin> set (str_uuid (principal_user_id p))" using set_str_uuid [of "principal_user_id p"] by auto
    then show "str_uuid (principal_user_id p) = [] \<or>
        (hd (str_uuid (principal_user_id p)) \<noteq> 32 \<and> last (str_uuid (principal_user_id p)) \<noteq> 32)"
      by (metis hd_in_set last_in_set)
  qed
  have ne: "str_uuid (principal_user_id p) \<noteq> []" using length_str_uuid [of "principal_user_id p"] by auto
  have reason: "\<not> (case r' of None \<Rightarrow> False | Some r \<Rightarrow> length r > 500 \<or> strip_ch 32 r \<noteq> r \<or> has_cc r)"
    using r' by (auto simp: normalize_reason_def Let_def split: option.splits if_splits)
  show "context_ok m"
    using version_digits [OF ver] ops reason strip ne length_str_uuid [of "principal_user_id p"]
    by (simp add: context_ok_def current_mutation_audit_context_def m Let_def) auto
qed

lemma context_okD: "context_ok (ctx_meta ctx) \<Longrightarrow> current_mutation_audit_context ctx = Inr ctx"
  by (cases ctx) (simp add: context_ok_def)

end
