(* ===== verification/Write_Laws.thy ===== *)
theory Write_Laws
  imports Coherence Context_Laws
begin

text \<open>
  When the writes of \<open>Store\<close> succeed: the triggers and constraints accept what the
  application writes on a database that satisfies the invariant, so that the repositories
  fail only for the reasons their error branches name.
\<close>

section \<open>Codes of MasterCodes\<close>

lemma words_of_joined:
  "\<forall>p \<in> set ps. p \<noteq> [] \<and> c \<notin> set p \<Longrightarrow> words_of (\<lambda>x. x = c) (joined c ps) = ps"
proof (induction ps)
  case (Cons p ps)
  obtain y q where p: "p = y # q" "y \<noteq> c" "c \<notin> set q" using Cons.prems by (cases p) auto
  have tw: "takeWhile (\<lambda>x. x \<noteq> c) (q @ r) = q @ takeWhile (\<lambda>x. x \<noteq> c) r"
    "dropWhile (\<lambda>x. x \<noteq> c) (q @ r) = dropWhile (\<lambda>x. x \<noteq> c) r" for r
    using p(3) by (auto simp: takeWhile_append dropWhile_append)
  show ?case
  proof (cases ps)
    case Nil
    moreover have "\<forall>x \<in> set q. x \<noteq> c" using p(3) by auto
    then have "takeWhile (\<lambda>x. x \<noteq> c) q = q" "dropWhile (\<lambda>x. x \<noteq> c) q = []" by simp_all
    ultimately show ?thesis using p by (simp del: dropWhile_eq_Nil_conv takeWhile_eq_all_conv)
  next
    case (Cons p' ps')
    then have "joined c (p # ps) = y # q @ c # joined c ps" using p by simp
    then show ?thesis using p tw Cons.IH Cons.prems by simp
  qed
qed simp

lemma code_parts_compose:
  assumes "dims_wf dims"
  shows "code_parts_check (compose dims)"
proof -
  have "code_pattern (slot_code x)" if "x \<in> set (ordered dims)" for x
  proof (cases x)
    case (Some y)
    then show ?thesis using that assms by (auto simp: ordered_def dims_wf_def dimension_wf_def valid_code_def)
  qed (simp add: NOT_APPLICABLE_CODE_def lit_def code_pattern_def is_alnum_def)
  then have cp: "\<forall>p \<in> set (map slot_code (ordered dims)). code_pattern p" by auto
  moreover have "\<not> is_alnum 45" by (simp add: is_alnum_def)
  ultimately have "\<forall>p \<in> set (map slot_code (ordered dims)). p \<noteq> [] \<and> 45 \<notin> set p"
    by (auto simp: code_pattern_def)
  then have "words_of (\<lambda>x. x = 45) (compose dims) = map slot_code (ordered dims)"
    unfolding compose_def by (rule words_of_joined)
  moreover have "length (ordered dims) = 8" by (simp add: ordered_def ORDER_def)
  ultimately show ?thesis using cp by (simp add: code_parts_check_def Let_def compose_def)
qed


section \<open>Dimension writes\<close>

lemma log_key_dim_log_row [simp]:
  "log_key (dim_log_row ctx r op f a b) = (r_id r, change_set_id (ctx_meta ctx), f)"
  by (simp add: log_key_def dim_log_row_def)

lemma dim_insert_succeeds:
  assumes "enforced d" "context_ok (ctx_meta ctx)" "op_dimension (operations (ctx_meta ctx)) = Some DIM_CREATE"
    and "row_ok s r" "r_version r = 1" "r_created r = r_updated r" "r_deleted r = None"
    and "r_id r \<notin> r_id ` set (dim_rows d s)" "r_code r \<notin> r_code ` set (dim_rows d s)"
    and "value_key (r_value r) \<notin> (value_key \<circ> r_value) ` set (dim_rows d s)"
  shows "\<exists>d'. dim_insert ctx s r d = Inr d'"
proof -
  have "dim_before_insert ctx r = Inr ()"
    using assms(3,5-7) by (simp add: dim_before_insert_def context_okD [OF assms(2)])
  moreover have "dim_row_check s r" using assms(4) by (simp add: row_ok_def)
  moreover have "dim_unique_check s r (dim_rows d s) = Inr ()" using assms(8-10) by (simp add: res_simps)
  moreover have "distinct (map log_key (dim_logs d s))"
    "(r_id r, c, f) \<notin> log_key ` set (dim_logs d s)" for c f
    using enforcedD(2) [OF assms(1), of s] assms(8) by (auto simp: dim_logs_ok_def log_key_def)
  ultimately show ?thesis
    by (simp add: dim_insert_def requireE_def insert_dim_logs_def image_comp)
qed

lemma log_key_dim_update_logs:
  "distinct (map log_key (dim_update_logs ctx old r))"
  "k \<in> log_key ` set (dim_update_logs ctx old r) \<Longrightarrow> fst (snd k) = change_set_id (ctx_meta ctx)"
  by (auto simp: dim_update_logs_def split: if_splits)

lemma dim_update_succeeds:
  assumes "enforced d" "old \<in> set (dim_rows d s)" "r_id r = r_id old"
    and "dim_before_update ctx s d old r = Inr ()" "int4 (r_version r)" "dim_row_check s r"
    and "\<And>x. x \<in> set (dim_rows d s) \<Longrightarrow> r_id x \<noteq> r_id r \<Longrightarrow> r_code x \<noteq> r_code r"
    and "\<And>x. x \<in> set (dim_rows d s) \<Longrightarrow> r_id x \<noteq> r_id r \<Longrightarrow> value_key (r_value x) \<noteq> value_key (r_value r)"
    and "change_set_id (ctx_meta ctx) \<notin> dl_change_set ` set (dim_logs d s)"
  shows "\<exists>d'. dim_update ctx s r d = Inr d'"
proof -
  have "distinct (map r_id (dim_rows d s))" using enforcedD(1) [OF assms(1)] by (auto simp: dims_ok_def)
  then have old: "dim_by_id (r_id r) (dim_rows d s) = Some old"
    using assms(2,3) by (simp add: dim_by_id_unique)
  have "dim_unique_check s r (filter (\<lambda>x. r_id x \<noteq> r_id r) (dim_rows d s)) = Inr ()"
    using assms(7,8) by (auto simp: res_simps) metis+
  moreover have "log_key ` set (dim_logs d s) \<inter> log_key ` set (dim_update_logs ctx old r) = {}"
    using log_key_dim_update_logs(2) [of _ ctx old r] assms(9) by (force simp: log_key_def)
  then have "distinct (map log_key (dim_logs d s @ dim_update_logs ctx old r))"
    using enforcedD(2) [OF assms(1), of s] log_key_dim_update_logs(1) [of ctx old r]
    by (simp add: dim_logs_ok_def)
  ultimately show ?thesis
    using assms(4-6) by (simp add: dim_update_def old requireE_def insert_dim_logs_def)
qed


section \<open>MasterCode writes\<close>

lemma mc_log_fresh:
  assumes "enforced d" "old \<in> set (mc_rows d)"
  shows "(m_id old, m_version old + 1) \<notin> set (map (\<lambda>x. (ml_master_code x, ml_version x)) (mc_logs d))"
proof
  assume "(m_id old, m_version old + 1) \<in> set (map (\<lambda>x. (ml_master_code x, ml_version x)) (mc_logs d))"
  then have "m_version old + 1 \<in> set (map ml_version (mc_history (m_id old) (mc_logs d)))"
    by (auto simp: mc_history_def image_iff)
  moreover have "map ml_version (mc_history (m_id old) (mc_logs d)) = map int [1..<nat (m_version old) + 1]"
    using enforcedD(4) [OF assms(1)] assms(2) by (simp add: mc_logs_ok_def mc_audited_def Let_def del: upt_Suc)
  ultimately have "m_version old + 1 \<in> set (map int [1..<nat (m_version old) + 1])" by (simp only:)
  then show False by (auto simp del: upt_Suc)
qed

lemma mc_update_succeeds:
  assumes "enforced d" "old \<in> set (mc_rows d)" "m_id m = m_id old"
    and "mc_before_update ctx old m = Inr ()" "int4 (m_version m)" "mc_row_check m" "mc_references_check d m"
    and "\<And>x. x \<in> set (mc_rows d) \<Longrightarrow> m_id x \<noteq> m_id m \<Longrightarrow> m_code x \<noteq> m_code m"
    and "\<And>x. x \<in> set (mc_rows d) \<Longrightarrow> m_id x \<noteq> m_id m \<Longrightarrow> m_refs x \<noteq> m_refs m"
  shows "\<exists>d'. mc_update ctx m d = Inr d'"
proof -
  have "distinct (map m_id (mc_rows d))" using enforcedD(3) [OF assms(1)] by (simp add: mcs_ok_def)
  then have old: "mc_by_id (m_id m) (mc_rows d) = Some old"
    using assms(2,3) by (simp add: mc_by_id_unique)
  have "mc_unique_check m (filter (\<lambda>x. m_id x \<noteq> m_id m) (mc_rows d)) = Inr ()"
    using assms(8,9) by (auto simp: res_simps) metis+
  moreover obtain op where "op_master_code (operations (ctx_meta ctx)) = Some op"
    using assms(4) by (cases "op_master_code (operations (ctx_meta ctx))")
      (auto simp: mc_before_update_def res_simps violation_def)
  moreover have "m_version m = m_version old + 1" using mc_before_update_facts(3) [OF assms(4)] .
  ultimately show ?thesis
    using assms(4-7) mc_log_fresh [OF assms(1,2)] unfolding assms(3) [symmetric]
    by (simp add: mc_update_def old requireE_def insert_mc_log_def del: set_map)
qed

lemma mc_insert_succeeds:
  assumes "enforced d" "mc_before_insert ctx m = Inr ()" "mc_row_check m" "mc_references_check d m"
    and "m_id m \<notin> m_id ` set (mc_rows d)" "m_code m \<notin> m_code ` set (mc_rows d)"
    and "m_refs m \<notin> m_refs ` set (mc_rows d)"
  shows "\<exists>d'. mc_insert ctx m d = Inr d'"
proof -
  have "mc_unique_check m (mc_rows d) = Inr ()" using assms(5-7) by (simp add: res_simps)
  moreover have "(m_id m, v) \<notin> set (map (\<lambda>x. (ml_master_code x, ml_version x)) (mc_logs d))" for v
    using enforcedD(4) [OF assms(1)] assms(5) by (auto simp: mc_logs_ok_def)
  ultimately show ?thesis
    using assms(2-4) by (simp add: mc_insert_def requireE_def insert_mc_log_def del: set_map)
qed

end
