(* ===== verification/Dimension_Repo_Ops.thy ===== *)
theory Dimension_Repo_Ops
  imports Dimension_Repo_Laws Write_Laws
begin

text \<open>
  The operations of the repository contract: what a successful create or update leaves in the
  database, that reads succeed on every database that satisfies the invariant, and that
  following the cursors of \<open>list_active\<close> visits every active row once, newest first. The
  contract is interpreted on the conversions of the four repositories, and the lifecycle
  repository gets the same laws.
\<close>

section \<open>Keyset pages\<close>

text \<open>Rows are listed in descending order of \<open>(created_at, id)\<close>.\<close>

definition page_key :: "dim_row \<Rightarrow> int \<times> uuid" where
  "page_key r = (r_created r, r_id r)"

definition active_page_order :: "dim_row list \<Rightarrow> dim_row list" where
  "active_page_order rows = page_order (filter (\<lambda>r. r_deleted r = None) rows)"

lemma page_order_key: "page_order rows = rev (sort_key page_key rows)"
  by (simp add: page_order_def page_key_def [abs_def])

lemma set_page_order [simp]: "set (page_order rows) = set rows"
  by (simp add: page_order_def)

lemma length_page_order [simp]: "length (page_order rows) = length rows"
  by (simp add: page_order_def)

lemma distinct_page_key: "distinct (map r_id rows) \<Longrightarrow> distinct (map page_key rows)"
  by (induction rows) (auto simp: page_key_def)

lemma page_order_filter: "page_order (filter P rows) = filter P (page_order rows)"
  by (simp only: page_order_key filter_sort [symmetric] rev_filter)

lemma sorted_wrt_ge_distinct: "sorted_wrt (\<ge>) xs \<Longrightarrow> distinct xs \<Longrightarrow> sorted_wrt (>) (xs :: 'a :: linorder list)"
  by (induction xs) (auto simp: order.order_iff_strict)

lemma strict_page_order:
  assumes "distinct (map r_id rows)"
  shows "sorted_wrt (\<lambda>a b. page_key b < page_key a) (page_order rows)"
proof -
  have "distinct (map page_key (page_order rows))"
    using distinct_page_key [OF assms] by (simp add: page_order_key distinct_map rev_map [symmetric])
  moreover have "sorted_wrt (\<ge>) (map page_key (page_order rows))"
    unfolding page_order_key rev_map [symmetric] sorted_wrt_rev by simp
  ultimately have "sorted_wrt (>) (map page_key (page_order rows))"
    by (intro sorted_wrt_ge_distinct)
  then show ?thesis by (simp add: sorted_wrt_map)
qed

text \<open>The rows after a cursor are those behind the row the cursor names.\<close>

lemma after_cursor:
  assumes "sorted_wrt (\<lambda>a b. page_key b < page_key a) (xs @ x # ys)"
  shows "filter (\<lambda>r. page_key r < page_key x) (xs @ x # ys) = ys"
proof -
  have "\<And>r. r \<in> set xs \<Longrightarrow> \<not> page_key r < page_key x" "\<And>r. r \<in> set ys \<Longrightarrow> page_key r < page_key x"
    using assms by (auto simp: sorted_wrt_append)
  then show ?thesis by simp
qed


definition rows_after :: "dim_row list \<Rightarrow> (int \<times> uuid) option \<Rightarrow> dim_row list" where
  "rows_after rows a =
     filter (\<lambda>r. case a of None \<Rightarrow> True | Some k \<Rightarrow> page_key r < k) (active_page_order rows)"

text \<open>
  \<open>_page_response\<close>: the cursor of the next page names the last row of this one; and a client
  that follows the cursors until there is none, with a bound on the number of requests.
\<close>

definition next_cursor :: "dimension list \<times> bool \<Rightarrow> (int \<times> uuid) option" where
  "next_cursor p = (if snd p \<and> fst p \<noteq> [] then Some (instant (dim_created_at (last (fst p))), dim_id (last (fst p)))
     else None)"

fun follow_pages :: "((int \<times> uuid) option \<Rightarrow> (dimension list \<times> bool) res) \<Rightarrow> nat \<Rightarrow> (int \<times> uuid) option \<Rightarrow> dimension list option" where
  "follow_pages fetch 0 a = None"
| "follow_pages fetch (Suc n) a =
     (case fetch a of
        Inl _ \<Rightarrow> None
      | Inr p \<Rightarrow> (case next_cursor p of
          None \<Rightarrow> Some (fst p)
        | Some c \<Rightarrow> map_option ((@) (fst p)) (follow_pages fetch n (Some c))))"

lemma rows_after_last:
  assumes "distinct (map r_id rows)" "active_page_order rows = pre @ ys" "0 < k" "k < length ys"
  shows "rows_after rows (Some (page_key (last (take k ys)))) = drop k ys"
proof -
  have ne: "take k ys \<noteq> []" using assms(3,4) by auto
  have "distinct (map r_id (filter (\<lambda>r. r_deleted r = None) rows))"
    by (rule distinct_map_filter [OF assms(1)])
  then have "sorted_wrt (\<lambda>a b. page_key b < page_key a) (pre @ ys)"
    unfolding assms(2) [symmetric] active_page_order_def by (rule strict_page_order)
  moreover have "pre @ ys = (pre @ butlast (take k ys)) @ last (take k ys) # drop k ys"
    using append_butlast_last_id [OF ne] append_take_drop_id [of k ys]
    by (metis append.assoc append_Cons append_Nil)
  ultimately have "filter (\<lambda>r. page_key r < page_key (last (take k ys))) (pre @ ys) = drop k ys"
    by (metis (no_types) after_cursor)
  then show ?thesis by (simp add: rows_after_def assms(2))
qed

lemma follow_pages_complete:
  assumes ids: "distinct (map r_id rows)" and k: "0 < k"
    and fetch: "\<And>a. fetch a = Inr (map (row_dim s) (take k (rows_after rows a)), k < length (rows_after rows a))"
    and a: "active_page_order rows = pre @ rows_after rows a" "length (rows_after rows a) < n"
  shows "follow_pages fetch n a = Some (map (row_dim s) (rows_after rows a))"
  using a
proof (induction n arbitrary: a pre)
  case (Suc n)
  let ?ys = "rows_after rows a"
  show ?case
  proof (cases "k < length ?ys")
    case True
    have ne: "take k ?ys \<noteq> []" using True k by auto
    let ?c = "page_key (last (take k ?ys))"
    have rest: "rows_after rows (Some ?c) = drop k ?ys"
      by (rule rows_after_last [OF ids Suc.prems(1) k True])
    have "active_page_order rows = (pre @ take k ?ys) @ rows_after rows (Some ?c)"
      using Suc.prems(1) by (simp add: rest)
    moreover have "length (rows_after rows (Some ?c)) < n"
      using Suc.prems(2) k True by (simp add: rest)
    ultimately have IH: "follow_pages fetch n (Some ?c) = Some (map (row_dim s) (drop k ?ys))"
      using Suc.IH [of "pre @ take k ?ys" "Some ?c"] rest by simp
    have "next_cursor (map (row_dim s) (take k ?ys), True) = Some ?c"
      using ne by (simp add: next_cursor_def last_map page_key_def)
    then show ?thesis
      using True IH by (simp add: fetch [of a] map_append [symmetric] del: map_append)
  qed (simp add: fetch next_cursor_def)
qed simp


section \<open>Renames never collide\<close>

lemma flush_succeeds:
  assumes "enforced d" "distinct (map m_id ms)" "distinct (map m_code ms)"
    and "\<And>m. m \<in> set ms \<Longrightarrow> \<exists>old \<in> set (mc_rows d). m_id m = m_id old \<and> m_refs m = m_refs old
      \<and> mc_before_update ctx old m = Inr ()"
    and "\<And>m. m \<in> set ms \<Longrightarrow> int4 (m_version m) \<and> mc_row_check m"
    and "\<And>m x. m \<in> set ms \<Longrightarrow> x \<in> set (mc_rows d) \<Longrightarrow> m_id x \<noteq> m_id m \<Longrightarrow> m_code x \<noteq> m_code m"
  shows "\<exists>d'. flush_master_codes ctx ms d = Inr d'"
  using assms
proof (induction ms arbitrary: d)
  case (Cons m ms)
  obtain old where old: "old \<in> set (mc_rows d)" "m_id m = m_id old" "m_refs m = m_refs old"
    "mc_before_update ctx old m = Inr ()"
    using Cons.prems(4) [of m] by auto
  have mcs: "mcs_ok d" by (rule enforcedD(3) [OF Cons.prems(1)])
  have "mc_references_check d old" using mcs old(1) by (simp add: mcs_ok_def mc_row_ok_def)
  then have refs: "mc_references_check d m" using old(3) by (simp add: mc_references_check_def)
  have "m_refs y \<noteq> m_refs m" if "y \<in> set (mc_rows d)" "m_id y \<noteq> m_id m" for y
    using that old mcs distinct_map_filter_unique [of m_refs "mc_rows d" y old] by (auto simp: mcs_ok_def)
  then obtain d1 where d1: "mc_update ctx m d = Inr d1"
    using mc_update_succeeds [OF Cons.prems(1) old(1,2,4) _ _ refs] Cons.prems(5,6) by auto
  have by_id: "mc_by_id (m_id m) (mc_rows d) = Some old"
    using old(1,2) mcs by (simp add: mcs_ok_def mc_by_id_unique)
  have rows: "mc_rows d1 = put_mc m (mc_rows d)" using mc_update_result(1) [OF d1 by_id] by auto
  have "\<exists>d'. flush_master_codes ctx ms d1 = Inr d'"
  proof (rule Cons.IH [OF enforced_mc_update [OF Cons.prems(1) d1]])
    fix m' assume m': "m' \<in> set ms"
    then have ne: "m_id m' \<noteq> m_id m" "m_code m' \<noteq> m_code m" using Cons.prems(2,3) by (auto simp: image_iff)
    show "\<exists>old \<in> set (mc_rows d1). m_id m' = m_id old \<and> m_refs m' = m_refs old \<and> mc_before_update ctx old m' = Inr ()"
      using Cons.prems(4) [of m'] m' ne(1) by (auto simp: rows set_put_mc)
    show "m_code y \<noteq> m_code m'" if "y \<in> set (mc_rows d1)" "m_id y \<noteq> m_id m'" for y
      using that Cons.prems(6) [of m' y] m' ne(2) by (auto simp: rows set_put_mc split: if_splits)
  qed (use Cons.prems in auto)
  with d1 show ?case by simp
qed simp

text \<open>
  The codes of the recomposed MasterCodes: new against old, and new against new. Codes are
  compositions, compositions are unambiguous, and no other Dimension of the slot has the new code.
\<close>

lemma recomposed_code_fresh:
  assumes enf: "enforced d" and coh: "coherent d"
    and wf: "dimension_wf x" "value_slot (dim_val x) = s"
    and fresh: "\<And>y. y \<in> set (dim_rows d s) \<Longrightarrow> r_code y \<noteq> dim_code x"
    and m: "y \<in> set (mc_rows d)"
  shows "m_code y \<noteq> compose ((mc_dims_of d m)(s := Some x))"
proof
  assume "m_code y = compose ((mc_dims_of d m)(s := Some x))"
  then have eq: "compose (mc_dims_of d y) = compose ((mc_dims_of d m)(s := Some x))"
    using coh m by (simp add: coherent_def)
  have "dims_wf ((mc_dims_of d m)(s := Some x))"
    using dims_wf_of [OF enf, of m] wf by (auto simp: dims_wf_def)
  from compose_inject [OF eq dims_wf_of [OF enf] this]
  have "map_option dim_code (mc_dims_of d y s) = Some (dim_code x)"
    by (metis comp_apply fun_upd_same option.simps(9))
  then obtain r where "joined_row d y s = Some r" "r_code r = dim_code x"
    by (auto simp: mc_dims_of_def)
  with fresh show False using joined_row_in by blast
qed

lemma recomposed_code_inject:
  assumes enf: "enforced d" and coh: "coherent d"
    and wf: "dimension_wf x" "value_slot (dim_val x) = s"
    and m: "m \<in> set (mc_rows d)" "m' \<in> set (mc_rows d)" "m_refs m s = m_refs m' s"
    and eq: "compose ((mc_dims_of d m)(s := Some x)) = compose ((mc_dims_of d m')(s := Some x))"
  shows "m = m'"
proof -
  have w: "dims_wf ((mc_dims_of d m)(s := Some x))" for m
    using dims_wf_of [OF enf, of m] wf by (auto simp: dims_wf_def)
  have *: "map_option dim_code \<circ> (mc_dims_of d m)(s := Some x) = map_option dim_code \<circ> (mc_dims_of d m')(s := Some x)"
    by (rule compose_inject [OF eq w w])
  have "mc_dims_of d m s = mc_dims_of d m' s" using m(3) by (simp add: mc_dims_of_def joined_row_def)
  then have "(map_option dim_code \<circ> mc_dims_of d m) u = (map_option dim_code \<circ> mc_dims_of d m') u" for u
    using fun_cong [OF *, of u] by (cases "u = s") auto
  then have "compose (mc_dims_of d m) = compose (mc_dims_of d m')" by (intro compose_cong ext)
  then have "m_code m = m_code m'" using coh m by (simp add: coherent_def)
  then show ?thesis
    using m enforcedD(3) [OF enf] distinct_map_filter_unique [of m_code "mc_rows d" m m'] by (simp add: mcs_ok_def)
qed

lemma rename_flush_succeeds:
  assumes inv: "db_inv d" and wf: "dimension_wf x" "value_slot (dim_val x) = s"
    and fresh: "\<And>y. y \<in> set (dim_rows d s) \<Longrightarrow> r_code y \<noteq> dim_code x"
    and locked: "set locked \<subseteq> {m \<in> set (mc_rows d). m_refs m s = Some (dim_id x)}" "distinct (map m_id locked)"
    and time: "\<And>m. m \<in> set locked \<Longrightarrow> m_updated m \<le> ctx_time ctx \<and> int4 (m_version m + 1)"
    and ctx: "context_ok (ctx_meta ctx)" "op_master_code (operations (ctx_meta ctx)) = Some MC_RECOMPOSE"
    and d1: "enforced d1" "mc_rows d1 = mc_rows d"
  defines "f \<equiv> recomposed_row d s x (ctx_time ctx)"
  shows "\<exists>d2. flush_master_codes ctx (map f (filter (\<lambda>m. f m \<noteq> m) locked)) d1 = Inr d2"
proof (rule flush_succeeds [OF d1(1)])
  have enf: "enforced d" and coh: "coherent d" using inv by (simp_all add: db_inv_def)
  have id: "m_id (f m) = m_id m" for m by (simp add: f_def)
  have f: "f m = m\<lparr>m_code := compose ((mc_dims_of d m)(s := Some x)), m_version := m_version m + 1,
      m_updated := ctx_time ctx\<rparr>" if "m \<in> set locked" for m
    using that locked(1) recomposed_code_fresh [OF enf coh wf fresh, of m m]
    by (auto simp: f_def recomposed_row_def Let_def)
  have row: "m \<in> set (mc_rows d)" "mc_row_ok d m" if "m \<in> set locked" for m
    using that locked(1) enforcedD(3) [OF enf] by (auto simp: mcs_ok_def)
  show "distinct (map m_id (map f (filter (\<lambda>m. f m \<noteq> m) locked)))"
    using locked(2) by (simp add: comp_def id distinct_map_filter)
  show "distinct (map m_code (map f (filter (\<lambda>m. f m \<noteq> m) locked)))"
  proof -
    have "inj_on (m_code \<circ> f) (set locked)"
    proof (rule inj_onI)
      fix a b assume ab: "a \<in> set locked" "b \<in> set locked" "(m_code \<circ> f) a = (m_code \<circ> f) b"
      then have "compose ((mc_dims_of d a)(s := Some x)) = compose ((mc_dims_of d b)(s := Some x))"
        by (simp add: f)
      moreover have "m_refs a s = m_refs b s" using subsetD [OF locked(1) ab(1)] subsetD [OF locked(1) ab(2)] by simp
      ultimately show "a = b"
        using recomposed_code_inject [OF enf coh wf] row(1) ab(1,2) by blast
    qed
    then have "distinct (map (m_code \<circ> f) locked)" using locked(2) by (simp add: distinct_map)
    then show ?thesis by (simp add: distinct_map_filter)
  qed
  fix m assume "m \<in> set (map f (filter (\<lambda>m. f m \<noteq> m) locked))"
  then obtain m0 where m0: "m = f m0" "m0 \<in> set locked" by auto
  have "dims_wf ((mc_dims_of d m0)(s := Some x))"
    using dims_wf_of [OF enf, of m0] wf by (auto simp: dims_wf_def)
  then have code: "code_parts_check (compose ((mc_dims_of d m0)(s := Some x)))" by (rule code_parts_compose)
  have "mc_before_update ctx m0 m = Inr ()"
    using m0 time [OF m0(2)] ctx(2) recomposed_code_fresh [OF enf coh wf fresh row(1) [OF m0(2)], of m0]
    by (simp add: mc_before_update_def context_okD [OF ctx(1)] f [OF m0(2)])
  with m0 show "\<exists>old \<in> set (mc_rows d1). m_id m = m_id old \<and> m_refs m = m_refs old \<and> mc_before_update ctx old m = Inr ()"
    using row(1) d1(2) by (auto simp: f_def)
  show "int4 (m_version m) \<and> mc_row_check m"
    using m0 time [OF m0(2)] row(2) [OF m0(2)] code
    by (auto simp: f [OF m0(2)] mc_row_check_def mc_row_ok_def times_check_def split: option.splits)
  show "m_code y \<noteq> m_code m" if "y \<in> set (mc_rows d1)" for y
    using that recomposed_code_fresh [OF enf coh wf fresh, of y m0] m0 d1(2) by (simp add: f [OF m0(2)])
qed


section \<open>Operations of the contract\<close>

text \<open>The MasterCodes an update locks, its mutation time, the new Dimension and the flushed rows.\<close>

definition locked_rows :: "db \<Rightarrow> slot \<Rightarrow> dim_row \<Rightarrow> pystr option \<Rightarrow> mc_row list" where
  "locked_rows d s r code = (if next_code (row_dim s r) code \<noteq> r_code r then referencing d s (r_id r) else [])"

definition change_time :: "env \<Rightarrow> db \<Rightarrow> slot \<Rightarrow> dim_row \<Rightarrow> pystr option \<Rightarrow> int" where
  "change_time e d s r code = max (env_clock e) (fold max (map m_updated (locked_rows d s r code)) (r_updated r))"

definition changed_dim :: "env \<Rightarrow> db \<Rightarrow> slot \<Rightarrow> dim_row \<Rightarrow> pystr option \<Rightarrow> dim_value option \<Rightarrow> dimension" where
  "changed_dim e d s r code val = (row_dim s r)\<lparr>dim_code := next_code (row_dim s r) code,
     dim_val := next_value (row_dim s r) val, dim_version := r_version r + 1,
     dim_updated_at := Aware (change_time e d s r code)\<rparr>"

definition flushed_rows :: "env \<Rightarrow> db \<Rightarrow> slot \<Rightarrow> dim_row \<Rightarrow> pystr option \<Rightarrow> dimension \<Rightarrow> mc_row list" where
  "flushed_rows e d s r code x =
     (let f = recomposed_row d s x (change_time e d s r code)
      in map f (filter (\<lambda>m. f m \<noteq> m) (locked_rows d s r code)))"

definition created_row :: "env \<Rightarrow> pystr \<Rightarrow> dim_value \<Rightarrow> dim_row" where
  "created_row e code v = \<lparr>r_id = env_new_id e, r_code = code, r_value = record_value v, r_version = 1,
     r_created = env_statement_time e, r_updated = env_statement_time e, r_deleted = None\<rparr>"

lemma created_row_ok:
  assumes "valid_code code" "valid_value v" "value_slot v = s"
  shows "row_ok s (created_row e code v)"
  using assms record_value_inverse(1) [OF assms(2,3)]
  by (cases code) (auto simp: row_ok_def dim_row_check_def created_row_def valid_code_def times_check_def code_pattern_def)

lemma changed_dim_simps [simp]:
  "dim_id (changed_dim e d s r code val) = r_id r"
  "dim_code (changed_dim e d s r code val) = next_code (row_dim s r) code"
  "dim_val (changed_dim e d s r code val) = next_value (row_dim s r) val"
  "dim_version (changed_dim e d s r code val) = r_version r + 1"
  "dim_created_at (changed_dim e d s r code val) = Aware (r_created r)"
  "dim_updated_at (changed_dim e d s r code val) = Aware (change_time e d s r code)"
  "dim_deleted_at (changed_dim e d s r code val) = map_option Aware (r_deleted r)"
  by (simp_all add: changed_dim_def)

lemma change_time_ge:
  "env_clock e \<le> change_time e d s r code" "r_updated r \<le> change_time e d s r code"
  "m \<in> set (locked_rows d s r code) \<Longrightarrow> m_updated m \<le> change_time e d s r code"
  using fold_max_ge_start [of "r_updated r" "map m_updated (locked_rows d s r code)"]
    fold_max_ge [of "m_updated m" "map m_updated (locked_rows d s r code)" "r_updated r"]
  by (auto simp: change_time_def intro: max.coboundedI2)

context dimension_repository
begin

lemma get_active_ok:
  assumes "db_inv d"
  shows "repo_get_active to_domain slot i d =
    (case find (\<lambda>r. r_id r = i \<and> r_deleted r = None) (dim_rows d slot) of
       None \<Rightarrow> Inl (DimensionNotFound slot) | Some r \<Rightarrow> Inr (row_dim slot r))"
  using assms to_domain_ok row_ok_table [of d _ slot]
  by (auto simp: repo_get_active_def db_inv_def dest!: find_active split: option.splits)

lemma list_active_ok:
  assumes "db_inv d"
  shows "repo_list_active to_domain slot a k d =
    Inr (map (row_dim slot) (take k (rows_after (dim_rows d slot) a)), k < length (rows_after (dim_rows d slot) a))"
proof -
  let ?sel = "case a of None \<Rightarrow> filter (\<lambda>r. r_deleted r = None) (dim_rows d slot)
    | Some (created, i) \<Rightarrow> filter (\<lambda>r. r_created r < created \<or> (r_created r = created \<and> r_id r < i))
        (filter (\<lambda>r. r_deleted r = None) (dim_rows d slot))"
  have sel: "page_order ?sel = rows_after (dim_rows d slot) a"
    by (auto simp: rows_after_def active_page_order_def page_order_filter page_key_def order.order_iff_strict
        simp del: filter_filter intro!: filter_cong split: option.splits)
  have "\<And>r. r \<in> set (rows_after (dim_rows d slot) a) \<Longrightarrow> to_domain r = Inr (row_dim slot r)"
    using assms to_domain_ok row_ok_table [of d _ slot]
    by (auto simp: rows_after_def active_page_order_def db_inv_def)
  then have "mapE to_domain (take k (rows_after (dim_rows d slot) a))
      = Inr (map (row_dim slot) (take k (rows_after (dim_rows d slot) a)))"
    by (intro mapE_Inr_all) (auto dest: in_set_takeD)
  then show ?thesis
    unfolding repo_list_active_def Let_def sel by (simp add: min_def)
qed

lemma pages_complete:
  assumes "db_inv d" "0 < k" "length (dim_rows d slot) < n"
  shows "follow_pages (\<lambda>a. repo_list_active to_domain slot a k d) n None
    = Some (map (row_dim slot) (active_page_order (dim_rows d slot)))"
proof -
  have ids: "distinct (map r_id (dim_rows d slot))"
    using assms(1) enforcedD(1) [of d slot] by (simp add: db_inv_def dims_ok_def)
  have all: "rows_after (dim_rows d slot) None = active_page_order (dim_rows d slot)"
    by (simp add: rows_after_def)
  have "length (active_page_order (dim_rows d slot)) < n"
    using assms(3) by (simp add: active_page_order_def order.strict_trans1 [OF length_filter_le])
  then show ?thesis
    using follow_pages_complete [OF ids assms(2) list_active_ok [OF assms(1)], of "[]" None n] all by simp
qed

lemma apply_change:
  fixes e :: env and audit :: audit_metadata and code and val
  assumes inv: "db_inv d" and r: "r \<in> set (dim_rows d slot)" "r_deleted r = None"
    and code: "\<And>c. code = Some c \<Longrightarrow> valid_code c"
    and vals: "\<And>w. val = Some w \<Longrightarrow> valid_value w \<and> value_slot w = slot"
    and ch: "next_code (row_dim slot r) code \<noteq> r_code r \<or> next_value (row_dim slot r) val \<noteq> dim_val (row_dim slot r)"
  defines "x \<equiv> changed_dim e d slot r code val"
  defines "ctx \<equiv> \<lparr>ctx_meta = audit, ctx_time = change_time e d slot r code\<rparr>"
  shows "repo_apply_change to_domain slot r (row_dim slot r) code val (next_code (row_dim slot r) code \<noteq> r_code r)
        (next_value (row_dim slot r) val \<noteq> dim_val (row_dim slot r)) audit e d =
      bindE (dim_update ctx slot (changed_row r x) d) (\<lambda>d1.
      bindE (flush_master_codes ctx (flushed_rows e d slot r code x) d1) (\<lambda>d2. Inr (x, d2)))"
    and "dimension_wf x" "value_slot (dim_val x) = slot" "row_ok slot (changed_row r x)"
    and "row_dim slot (changed_row r x) = x"
proof -
  have code': "dim_code (row_dim slot r) = r_code r" "dim_version (row_dim slot r) = r_version r" by simp_all
  note ap = apply_change_eq [where e = e and code = code and val = val, OF inv r, unfolded code',
      folded locked_rows_def, folded change_time_def, folded changed_dim_def]
  show "repo_apply_change to_domain slot r (row_dim slot r) code val (next_code (row_dim slot r) code \<noteq> r_code r)
        (next_value (row_dim slot r) val \<noteq> dim_val (row_dim slot r)) audit e d =
      bindE (dim_update ctx slot (changed_row r x) d) (\<lambda>d1.
      bindE (flush_master_codes ctx (flushed_rows e d slot r code x) d1) (\<lambda>d2. Inr (x, d2)))"
    unfolding x_def ctx_def flushed_rows_def Let_def by (rule ap(1)) (fact code vals ch)+
  show "dimension_wf x" unfolding x_def by (rule ap(3)) (fact code vals ch)+
  show "row_ok slot (changed_row r x)" unfolding x_def by (rule ap(4)) (fact code vals ch)+
  show "row_dim slot (changed_row r x) = x" unfolding x_def by (rule ap(5)) (fact code vals ch)+
  have "row_ok slot r" using inv r(1) by (auto simp: db_inv_def intro: row_ok_table)
  then show "value_slot (dim_val x) = slot"
    using row_ok_wf(2) [of slot r] vals by (auto simp: x_def next_value_def split: option.splits)
qed

lemma update_success:
  assumes inv: "db_inv d" and code: "\<And>c. code = Some c \<Longrightarrow> valid_code c"
    and vals: "\<And>w. val = Some w \<Longrightarrow> valid_value w \<and> value_slot w = slot"
    and upd: "repo_update_value to_domain slot i v val audit code e d = Inr (x, d')"
  obtains r where "r \<in> set (dim_rows d slot)" "r_id r = i" "r_deleted r = None" "r_version r = v"
    "(next_code (row_dim slot r) code = r_code r \<and> next_value (row_dim slot r) val = dim_val (row_dim slot r)
        \<and> x = row_dim slot r \<and> d' = d)
     \<or> (x = changed_dim e d slot r code val \<and> changed_db slot r x d d' \<and> row_dim slot (changed_row r x) = x)"
    "db_inv d'"
proof -
  have "find (\<lambda>r. r_id r = i \<and> r_deleted r = None) (dim_rows d slot) \<noteq> None"
    using upd by (cases "find (\<lambda>r. r_id r = i \<and> r_deleted r = None) (dim_rows d slot)")
      (simp_all add: repo_update_value_def res_simps)
  then obtain r where r: "r \<in> set (dim_rows d slot)" "r_id r = i" "r_deleted r = None"
    using find_active by blast
  let ?cur = "row_dim slot r"
  let ?cc = "next_code ?cur code \<noteq> r_code r" and ?vc = "next_value ?cur val \<noteq> dim_val ?cur"
  note u = upd [unfolded r(2) [symmetric] update_value_unfold [OF inv r(1,3)] translate_update_eq_Inr]
  have v: "r_version r = v" using u by (auto split: if_splits)
  show thesis
  proof (cases "?cc \<or> ?vc")
    case False
    then have "x = ?cur" "d' = d" using u v by auto
    with False r v inv show ?thesis by (intro that [of r]) simp_all
  next
    case True
    let ?x = "changed_dim e d slot r code val"
    let ?ctx = "\<lparr>ctx_meta = audit, ctx_time = change_time e d slot r code\<rparr>"
    have "repo_apply_change to_domain slot r ?cur code val ?cc ?vc audit e d = Inr (x, d')"
      using u v True by (auto simp: bindE_eq_Inr split: if_splits)
    moreover have "repo_apply_change to_domain slot r ?cur code val ?cc ?vc audit e d =
        bindE (dim_update ?ctx slot (changed_row r ?x) d) (\<lambda>d1.
        bindE (flush_master_codes ?ctx (flushed_rows e d slot r code ?x) d1) (\<lambda>d2. Inr (?x, d2)))"
      by (rule apply_change(1) [OF inv r(1,3)]) (fact code vals True)+
    ultimately have "bindE (dim_update ?ctx slot (changed_row r ?x) d) (\<lambda>d1.
        bindE (flush_master_codes ?ctx (flushed_rows e d slot r code ?x) d1) (\<lambda>d2. Inr (?x, d2))) = Inr (x, d')"
      by (simp only:)
    then obtain d1 where x: "x = ?x" and d1: "dim_update ?ctx slot (changed_row r x) d = Inr d1"
      and d2: "flush_master_codes ?ctx (flushed_rows e d slot r code x) d1 = Inr d'"
      by (auto simp: bindE_eq_Inr)
    have row: "row_dim slot (changed_row r x) = x"
      unfolding x by (rule apply_change(5) [OF inv r(1,3)]) (fact code vals True)+
    have y: "dim_id x = r_id r" "dim_updated_at x = Aware (change_time e d slot r code)" "dim_deleted_at x = None"
      using r(3) by (simp_all add: x)
    have lock: "locked_rows d slot r code = (if dim_code x \<noteq> r_code r then referencing d slot (r_id r) else [])"
      by (simp add: locked_rows_def x)
    from change_flush_effect [OF inv r(1) row y lock d1 d2 [unfolded flushed_rows_def Let_def]]
    show ?thesis using r v row x by (intro that [of r]) simp_all
  qed
qed

lemma update_succeeds:
  assumes inv: "db_inv d" and r: "r \<in> set (dim_rows d slot)" "r_deleted r = None"
    and code: "\<And>c. code = Some c \<Longrightarrow> valid_code c"
    and vals: "\<And>w. val = Some w \<Longrightarrow> valid_value w \<and> value_slot w = slot"
    and ch: "next_code (row_dim slot r) code \<noteq> r_code r \<or> next_value (row_dim slot r) val \<noteq> dim_val (row_dim slot r)"
    and free: "\<And>y. y \<in> set (dim_rows d slot) \<Longrightarrow> r_id y \<noteq> r_id r \<Longrightarrow>
        r_code y \<noteq> next_code (row_dim slot r) code
        \<and> value_key (r_value y) \<noteq> value_key (record_value (next_value (row_dim slot r) val))"
    and audit: "context_ok audit" "op_dimension (operations audit) = Some DIM_UPDATE"
      "code \<noteq> None \<Longrightarrow> op_master_code (operations audit) = Some MC_RECOMPOSE"
      "change_set_id audit \<notin> dl_change_set ` set (dim_logs d slot)"
    and int4: "int4 (r_version r + 1)" "\<And>m. m \<in> set (mc_rows d) \<Longrightarrow> int4 (m_version m + 1)"
  shows "\<exists>d'. repo_update_value to_domain slot (r_id r) (r_version r) val audit code e d
    = Inr (changed_dim e d slot r code val, d')"
proof -
  have enf: "enforced d" and ok: "row_ok slot r"
    using inv row_ok_table [OF _ r(1)] by (simp_all add: db_inv_def)
  let ?x = "changed_dim e d slot r code val"
  let ?ctx = "\<lparr>ctx_meta = audit, ctx_time = change_time e d slot r code\<rparr>"
  let ?cur = "row_dim slot r"
  have x: "dimension_wf ?x" "value_slot (dim_val ?x) = slot" "row_ok slot (changed_row r ?x)"
    "row_dim slot (changed_row r ?x) = ?x"
    by (rule apply_change(2-5) [OF inv r]; fact code vals ch)+
  have cid: "r_id (changed_row r ?x) = r_id r" "r_version (changed_row r ?x) = r_version r + 1"
    "r_code (changed_row r ?x) = next_code ?cur code" "r_value (changed_row r ?x) = record_value (next_value ?cur val)"
    "r_updated (changed_row r ?x) = change_time e d slot r code" "r_created (changed_row r ?x) = r_created r"
    "r_deleted (changed_row r ?x) = None"
    using r(2) by (simp_all add: changed_row_def)
  have old: "record_value (dim_val ?cur) = r_value r" "value_slot (dim_val ?cur) = slot"
    using ok value_from_record_ok(4) [of slot "r_value r"] row_ok_wf(2) [OF ok]
    by (auto simp: row_ok_def dim_row_check_def)
  have "value_key (r_value r) = value_key (r_value (changed_row r ?x)) \<longleftrightarrow> next_value ?cur val = dim_val ?cur"
    using value_key_equal_iff [of "dim_val ?cur" "next_value ?cur val"] x(2) old
    by (auto simp: cid next_value_def split: option.splits if_splits)
  then have key: "value_key (r_value (changed_row r ?x)) = value_key (r_value r) \<longleftrightarrow> next_value ?cur val = dim_val ?cur"
    by metis
  have raw: "r_value (changed_row r ?x) = r_value r" if "next_value ?cur val = dim_val ?cur"
    using that old by (simp only: cid)
  have recompose: "op_master_code (operations audit) = Some MC_RECOMPOSE" if "next_code ?cur code \<noteq> r_code r"
    using that audit(3) by (auto simp: next_code_def split: option.splits)
  have "dim_before_update ?ctx slot d r (changed_row r ?x) = Inr ()"
    using ch key raw recompose audit(2) r(2) change_time_ge(2) [of r e d slot code]
    by (auto simp: dim_before_update_def Let_def context_okD audit(1) cid(1-3) cid(5-7) key)
  then obtain d1 where d1: "dim_update ?ctx slot (changed_row r ?x) d = Inr d1"
    using dim_update_succeeds [OF enf r(1) cid(1), of ?ctx] int4(1) x(3) free audit(4)
    by (auto simp: cid row_ok_def)
  have by_id: "dim_by_id (r_id (changed_row r ?x)) (dim_rows d slot) = Some r"
    using r(1) enforcedD(1) [OF enf, of slot] by (simp add: cid dim_by_id_unique dims_ok_def)
  have "\<exists>d2. flush_master_codes ?ctx (flushed_rows e d slot r code ?x) d1 = Inr d2"
  proof (cases "next_code ?cur code = r_code r")
    case True
    then show ?thesis by (simp add: flushed_rows_def locked_rows_def Let_def)
  next
    case False
    show ?thesis
      unfolding flushed_rows_def Let_def
    proof (rule rename_flush_succeeds [where ctx = ?ctx, unfolded mutation_ctx.select_convs, OF inv x(1,2)])
      show "r_code y \<noteq> dim_code ?x" if "y \<in> set (dim_rows d slot)" for y
      proof (cases "r_id y = r_id r")
        case True
        then have "y = r" using that r(1) enforcedD(1) [OF enf, of slot] distinct_map_filter_unique [of r_id]
          by (auto simp: dims_ok_def)
        then show ?thesis using False by simp
      qed (use free that in simp)
      show "enforced d1" by (rule enforced_dim_update [OF enf d1])
      show "mc_rows d1 = mc_rows d" using dim_update_result(1) [OF d1 by_id] by simp
      show "distinct (map m_id (locked_rows d slot r code))"
        using distinct_referencing [OF enf] by (simp add: locked_rows_def)
    qed (use False int4(2) change_time_ge(3) audit(1) recompose in
        \<open>auto simp: locked_rows_def set_referencing split: if_splits\<close>)
  qed
  then obtain d2 where d2: "flush_master_codes ?ctx (flushed_rows e d slot r code ?x) d1 = Inr d2" by blast
  have "repo_apply_change to_domain slot r ?cur code val (next_code ?cur code \<noteq> r_code r)
        (next_value ?cur val \<noteq> dim_val ?cur) audit e d = Inr (?x, d2)"
    by (subst apply_change(1) [OF inv r]) (use code vals ch d1 d2 in auto)
  moreover have "raise_conflict slot
      (next_code ?cur code \<noteq> dim_code ?cur \<and> (\<exists>y \<in> set (dim_rows d slot). r_id y \<noteq> r_id r \<and> r_code y = next_code ?cur code))
      (next_value ?cur val \<noteq> dim_val ?cur \<and> (\<exists>y \<in> set (dim_rows d slot). r_id y \<noteq> r_id r \<and>
         value_key (r_value y) = value_key (record_value (next_value ?cur val)))) = Inr ()"
    using free by (auto simp: raise_conflict_def)
  ultimately have "repo_update_value to_domain slot (r_id r) (r_version r) val audit code e d = Inr (?x, d2)"
    unfolding update_value_unfold [OF inv r] translate_update_eq_Inr using ch by auto
  then show ?thesis by blast
qed

lemma create_eq:
  assumes "valid_code code" "valid_value v" "value_slot v = slot"
  shows "repo_create to_domain slot code v audit e d = translate_create_error slot
    (bindE (raise_conflict slot (code \<in> r_code ` set (dim_rows d slot))
       (value_key (record_value v) \<in> (value_key \<circ> r_value) ` set (dim_rows d slot))) (\<lambda>_.
     bindE (dim_insert \<lparr>ctx_meta = audit, ctx_time = env_clock e\<rparr> slot (created_row e code v) d) (\<lambda>d'.
       Inr (row_dim slot (created_row e code v), d'))))"
proof -
  let ?c = "filter (\<lambda>r. r_code r = code \<or> value_key (r_value r) = value_key (record_value v)) (dim_rows d slot)"
  have c: "(\<exists>r \<in> set ?c. r_code r = code) = (code \<in> r_code ` set (dim_rows d slot))"
    "(\<exists>r \<in> set ?c. value_key (r_value r) = value_key (record_value v))
      = (value_key (record_value v) \<in> (value_key \<circ> r_value) ` set (dim_rows d slot))"
    by (auto simp: image_iff eq_commute [of "value_key (record_value v)"])
  have dom: "to_domain (created_row e code v) = Inr (row_dim slot (created_row e code v))"
    by (rule to_domain_ok [OF created_row_ok [OF assms]])
  show ?thesis
    unfolding repo_create_def Let_def c set_context_eq bindE_Inr created_row_def [symmetric] dom ..
qed

lemma create_success:
  assumes "db_inv d" "valid_code code" "valid_value v" "value_slot v = slot"
    and "repo_create to_domain slot code v audit e d = Inr (x, d')"
  shows "db_inv d'" "x = row_dim slot (created_row e code v)"
    and "dim_rows d' = (dim_rows d)(slot := dim_rows d slot @ [created_row e code v])" "mc_rows d' = mc_rows d"
proof -
  have ins: "dim_insert \<lparr>ctx_meta = audit, ctx_time = env_clock e\<rparr> slot (created_row e code v) d = Inr d'"
    and x: "x = row_dim slot (created_row e code v)"
    using assms(5) unfolding create_eq [OF assms(2-4)] translate_create_eq_Inr by (auto simp: bindE_eq_Inr)
  show "x = row_dim slot (created_row e code v)" by (rule x)
  show "db_inv d'"
    using assms(1) enforced_dim_insert [OF _ ins] coherent_dim_insert [OF _ _ ins] by (simp add: db_inv_def)
  show "dim_rows d' = (dim_rows d)(slot := dim_rows d slot @ [created_row e code v])" "mc_rows d' = mc_rows d"
    by (simp_all add: dim_insert_result(1) [OF ins])
qed

lemma create_total:
  assumes "db_inv d" "valid_code code" "valid_value v" "value_slot v = slot"
    and "context_ok audit" "op_dimension (operations audit) = Some DIM_CREATE"
    and "env_new_id e \<notin> r_id ` set (dim_rows d slot)"
  defines "cc \<equiv> code \<in> r_code ` set (dim_rows d slot)"
    and "vc \<equiv> value_key (record_value v) \<in> (value_key \<circ> r_value) ` set (dim_rows d slot)"
  shows "if cc \<and> vc then repo_create to_domain slot code v audit e d = Inl (DimensionMultipleConflicts slot)
    else if cc then repo_create to_domain slot code v audit e d = Inl (DimensionCodeConflict slot)
    else if vc then repo_create to_domain slot code v audit e d = Inl (DimensionValueConflict slot)
    else (\<exists>d'. repo_create to_domain slot code v audit e d = Inr (row_dim slot (created_row e code v), d'))"
proof -
  have enf: "enforced d" using assms(1) by (simp add: db_inv_def)
  have ok: "row_ok slot (created_row e code v)" by (rule created_row_ok [OF assms(2-4)])
  have "\<exists>d'. dim_insert \<lparr>ctx_meta = audit, ctx_time = env_clock e\<rparr> slot (created_row e code v) d = Inr d'"
    if "\<not> cc" "\<not> vc"
    by (rule dim_insert_succeeds [OF enf _ _ ok])
       (use that assms(5-7) in \<open>auto simp: created_row_def cc_def vc_def\<close>)
  then show ?thesis
    unfolding create_eq [OF assms(2-4)] cc_def [symmetric] vc_def [symmetric]
    by (auto simp: raise_conflict_def translate_create_error_def)
qed

end

section \<open>The repositories satisfy the contract\<close>

lemma memory_to_domain_ok:
  assumes "row_ok Memory r"
  shows "memory_to_domain r = Inr (row_dim Memory r)"
proof -
  have "value_check Memory (r_value r)" using assms by (simp add: row_ok_def dim_row_check_def)
  then obtain a u where v: "r_value r = RMem a (unit_text u)" "1 \<le> a" "a \<le> 2147483647"
    by (cases rule: value_check_cases) auto
  have wf: "dimension_wf (row_dim Memory r)" by (rule row_ok_wf(1) [OF assms])
  then have "dimension_code (PyStr (r_code r)) = Inr (r_code r)" by (simp add: dimension_wf_def valid_code_fixed)
  with wf v show ?thesis
    using dimension_wf_init [OF wf]
    by (simp add: memory_to_domain_def memory_from_record_def memory_value_init_def row_dim_def capacity_mb_def)
qed

interpretation company_repo: dimension_repository Company company_to_domain
  by unfold_locales (simp add: company_to_domain_def row_ok_wf(3))

interpretation string_repo: dimension_repository s "string_to_domain s" for s
  by unfold_locales (simp add: string_to_domain_def row_ok_wf(3))

interpretation numeric_repo: dimension_repository s "numeric_to_domain s" for s
  by unfold_locales (simp add: numeric_to_domain_def row_ok_wf(3))

interpretation memory_repo: dimension_repository Memory memory_to_domain
  by unfold_locales (rule memory_to_domain_ok)

end
