(* ===== verification/Dimension_Lifecycle_Laws.thy ===== *)
theory Dimension_Lifecycle_Laws
  imports Dimension_Repo_Ops
begin

text \<open>
  Deletion and restoration of Dimensions: the exact outcome of \<open>_mutate\<close> on a database that
  satisfies the invariant, and that the in-use guard keeps active MasterCodes on active
  Dimensions.
\<close>

definition lifecycle_time :: "env \<Rightarrow> dim_row \<Rightarrow> int" where
  "lifecycle_time e r = max (env_clock e) (r_updated r)"

definition lifecycle_row :: "env \<Rightarrow> bool \<Rightarrow> dim_row \<Rightarrow> dim_row" where
  "lifecycle_row e deleting r = r\<lparr>r_version := r_version r + 1, r_updated := lifecycle_time e r,
     r_deleted := (if deleting then Some (lifecycle_time e r) else None)\<rparr>"

definition in_use :: "db \<Rightarrow> slot \<Rightarrow> uuid \<Rightarrow> bool" where
  "in_use d s i \<longleftrightarrow> (\<exists>m \<in> set (mc_rows d). m_refs m s = Some i \<and> m_deleted m = None)"

lemma lifecycle_row_simps [simp]:
  "r_id (lifecycle_row e del r) = r_id r" "r_code (lifecycle_row e del r) = r_code r"
  "r_value (lifecycle_row e del r) = r_value r" "r_version (lifecycle_row e del r) = r_version r + 1"
  "r_created (lifecycle_row e del r) = r_created r" "r_updated (lifecycle_row e del r) = lifecycle_time e r"
  "r_deleted (lifecycle_row e del r) = (if del then Some (lifecycle_time e r) else None)"
  by (simp_all add: lifecycle_row_def)

lemma lifecycle_row_ok:
  assumes "row_ok s r"
  shows "row_ok s (lifecycle_row e del r)"
  using assms by (auto simp: row_ok_def dim_row_check_def times_check_def lifecycle_time_def)

lemma lifecycle_mutate_eq:
  assumes inv: "db_inv d" and r: "r \<in> set (dim_rows d s)"
  shows "lifecycle_mutate s (r_id r) v audit deleting e d =
    (if deleting \<and> r_deleted r \<noteq> None then Inl DimensionLifecycleNotFound
     else if \<not> deleting \<and> r_deleted r = None then Inl DimensionNotDeleted
     else if r_version r \<noteq> v then Inl PreconditionFailed
     else if deleting \<and> in_use d s (r_id r) then Inl DimensionInUse
     else bindE (dim_update \<lparr>ctx_meta = audit, ctx_time = lifecycle_time e r\<rparr> s (lifecycle_row e deleting r) d)
       (\<lambda>d'. Inr (row_dim s (lifecycle_row e deleting r), d')))"
proof -
  have enf: "enforced d" using inv by (simp add: db_inv_def)
  have ok: "row_ok s r" by (rule row_ok_table [OF enf r])
  note wf = row_ok_wf [OF ok] and wf' = row_ok_wf(3) [OF lifecycle_row_ok [OF ok]]
  have by_id: "dim_by_id (r_id r) (dim_rows d s) = Some r"
    using r enforcedD(1) [OF enf, of s] by (simp add: dim_by_id_unique dims_ok_def)
  have times: "dimension_times (row_dim s r)" using wf(1) by (simp add: dimension_wf_def)
  let ?t = "lifecycle_time e r"
  let ?x = "(row_dim s r)\<lparr>dim_version := r_version r + 1, dim_updated_at := Aware ?t,
      dim_deleted_at := (if deleting then Some (Aware ?t) else None)\<rparr>"
  have dom: "(if deleting then dimension_delete (row_dim s r) (Aware ?t) else dimension_restore (row_dim s r) (Aware ?t)) = Inr ?x"
    if "(r_deleted r = None) = deleting"
    using that dimension_delete_eq_Inr [OF times, of "Aware ?t" ?x] dimension_restore_eq_Inr [OF times, of "Aware ?t" ?x]
    by (cases deleting) (auto simp: lifecycle_time_def)
  have row: "r\<lparr>r_version := dim_version ?x, r_updated := instant (dim_updated_at ?x),
      r_deleted := map_option instant (dim_deleted_at ?x)\<rparr> = lifecycle_row e deleting r"
    by (simp add: lifecycle_row_def)
  have ctx: "set_context audit (env_clock e) (Some (dim_updated_at (row_dim s r))) = Inr \<lparr>ctx_meta = audit, ctx_time = ?t\<rparr>"
    by (simp add: set_context_eq lifecycle_time_def)
  show ?thesis
  proof (cases "(r_deleted r = None) = deleting")
    case True
    then show ?thesis
      unfolding lifecycle_mutate_def by_id option.case wf(3) bindE_Inr ctx Let_def mutation_ctx.select_convs dom [OF True] row wf'
        in_use_def [symmetric] by simp
  qed (auto simp: lifecycle_mutate_def by_id)
qed

lemma coherent_lifecycle:
  assumes inv: "db_inv d" and r: "r \<in> set (dim_rows d s)"
    and rows: "dim_rows d' = (dim_rows d)(s := put_dim r' (dim_rows d s))" "mc_rows d' = mc_rows d"
    and r': "r_id r' = r_id r" "r_code r' = r_code r"
    and use: "r_deleted r' = None \<or> \<not> in_use d s (r_id r)"
  shows "coherent d'"
proof -
  have enf: "enforced d" and coh: "coherent d" using inv by (simp_all add: db_inv_def)
  have "r_id r \<in> r_id ` set (dim_rows d s)" using r by simp
  then have dims: "mc_dims_of d' m =
      (if m_refs m s = Some (r_id r) then (mc_dims_of d m)(s := Some (row_dim s r')) else mc_dims_of d m)" for m
    using mc_dims_of_put [OF rows(1), of m] r'(1) by simp
  have "m_code m = compose (mc_dims_of d' m) \<and> (m_deleted m = None \<longrightarrow> all_active (mc_dims_of d' m))"
    if "m \<in> set (mc_rows d)" for m
  proof (cases "m_refs m s = Some (r_id r)")
    case True
    have "compose (mc_dims_of d' m) = compose (mc_dims_of d m)"
      using mc_dims_of_slot [OF enf r True] r'(2) True by (simp add: dims compose_upd_same_code)
    moreover have "m_deleted m = None \<Longrightarrow> r_deleted r' = None"
      using use True that by (auto simp: in_use_def)
    ultimately show ?thesis
      using coh that True by (auto simp: coherent_def dims intro!: all_active_updI)
  qed (use coh that in \<open>simp add: coherent_def dims\<close>)
  then show ?thesis by (simp add: coherent_def rows(2))
qed

lemma lifecycle_success:
  assumes inv: "db_inv d" and ok: "lifecycle_mutate s i v audit deleting e d = Inr (x, d')"
  obtains r where "r \<in> set (dim_rows d s)" "r_id r = i" "r_version r = v" "(r_deleted r = None) = deleting"
    "deleting \<Longrightarrow> \<not> in_use d s i" "x = row_dim s (lifecycle_row e deleting r)"
    "dim_rows d' = (dim_rows d)(s := put_dim (lifecycle_row e deleting r) (dim_rows d s))" "mc_rows d' = mc_rows d"
    "db_inv d'"
proof -
  obtain r where r: "r \<in> set (dim_rows d s)" "r_id r = i"
    using ok dim_by_id_in [of i "dim_rows d s"]
    by (cases "dim_by_id i (dim_rows d s)") (auto simp: lifecycle_mutate_def)
  have enf: "enforced d" using inv by (simp add: db_inv_def)
  let ?r = "lifecycle_row e deleting r"
  let ?ctx = "\<lparr>ctx_meta = audit, ctx_time = lifecycle_time e r\<rparr>"
  note eq = ok [unfolded r(2) [symmetric] lifecycle_mutate_eq [OF inv r(1)]]
  have facts: "(r_deleted r = None) = deleting" "r_version r = v" "deleting \<Longrightarrow> \<not> in_use d s i"
    and x: "x = row_dim s ?r" and upd: "dim_update ?ctx s ?r d = Inr d'"
    using eq r(2) by (auto simp: bindE_eq_Inr split: if_splits)
  have by_id: "dim_by_id (r_id ?r) (dim_rows d s) = Some r"
    using r(1) enforcedD(1) [OF enf, of s] by (simp add: dim_by_id_unique dims_ok_def)
  have rows: "dim_rows d' = (dim_rows d)(s := put_dim ?r (dim_rows d s))" "mc_rows d' = mc_rows d"
    using dim_update_result(1) [OF upd by_id] by simp_all
  have "coherent d'"
    by (rule coherent_lifecycle [OF inv r(1) rows]) (use facts(3) r(2) in auto)
  then have "db_inv d'" using enforced_dim_update [OF enf upd] by (simp add: db_inv_def)
  show thesis by (rule that [OF r facts(2,1) _ x rows]) (fact facts(3) \<open>db_inv d'\<close>)+
qed

lemma lifecycle_succeeds:
  assumes inv: "db_inv d" and r: "r \<in> set (dim_rows d s)" "(r_deleted r = None) = deleting"
    and use: "deleting \<Longrightarrow> \<not> in_use d s (r_id r)" and int4: "int4 (r_version r + 1)"
    and audit: "context_ok audit" "op_dimension (operations audit) = Some (if deleting then DIM_DELETE else DIM_RESTORE)"
      "change_set_id audit \<notin> dl_change_set ` set (dim_logs d s)"
  shows "\<exists>d'. lifecycle_mutate s (r_id r) (r_version r) audit deleting e d = Inr (row_dim s (lifecycle_row e deleting r), d')"
proof -
  have enf: "enforced d" using inv by (simp add: db_inv_def)
  let ?ctx = "\<lparr>ctx_meta = audit, ctx_time = lifecycle_time e r\<rparr>"
  let ?r = "lifecycle_row e deleting r"
  have ok: "row_ok s ?r" by (rule lifecycle_row_ok [OF row_ok_table [OF enf r(1)]])
  have "dim_before_update ?ctx s d r ?r = Inr ()"
    using r(2) use audit(2)
    by (cases deleting)
       (auto simp: dim_before_update_def Let_def context_okD audit(1) in_use_def [symmetric] lifecycle_time_def)
  moreover have "r_code x \<noteq> r_code r \<and> value_key (r_value x) \<noteq> value_key (r_value r)"
    if "x \<in> set (dim_rows d s)" "r_id x \<noteq> r_id r" for x
    using that r(1) enforcedD(1) [OF enf, of s] distinct_map_filter_unique [of r_code "dim_rows d s" x r]
      distinct_map_filter_unique [of "value_key \<circ> r_value" "dim_rows d s" x r]
    by (auto simp: dims_ok_def)
  ultimately have "\<exists>d'. dim_update ?ctx s ?r d = Inr d'"
    using ok int4 audit(3) by (intro dim_update_succeeds [OF enf r(1)]) (auto simp: row_ok_def)
  then show ?thesis
    using r(2) use by (auto simp: lifecycle_mutate_eq [OF inv r(1)])
qed

end
