(* ===== verification/Samples.thy ===== *)
theory Samples
  imports Dimension_Lifecycle_Laws
begin

text \<open>
  A small database the witnesses start from: one memory Dimension and one MasterCode that
  refers to it, with the log rows of their creation.
\<close>

definition sample_row :: dim_row where
  "sample_row = \<lparr>r_id = 7, r_code = lit ''M16'', r_value = RMem 16 (lit ''GB''), r_version = 1,
     r_created = 5, r_updated = 5, r_deleted = None\<rparr>"

definition sample_mc_row :: mc_row where
  "sample_mc_row = \<lparr>m_id = 9, m_refs = (\<lambda>_. None)(Memory := Some 7),
     m_code = lit ''NNN-NNN-NNN-NNN-NNN-M16-NNN-NNN'', m_version = 1, m_created = 6, m_updated = 6, m_deleted = None\<rparr>"

definition sample_meta :: audit_metadata where
  "sample_meta = \<lparr>change_set_id = 1, audit_actor = \<lparr>actor_kind = SYSTEM, actor_id = lit ''seed'', actor_role = None\<rparr>,
     operations = \<lparr>op_dimension = Some DIM_CREATE, op_master_code = Some MC_CREATE\<rparr>, reason = None\<rparr>"

definition sample_db :: db where
  "sample_db =
     (let ctx = \<lparr>ctx_meta = sample_meta, ctx_time = 6\<rparr>
      in \<lparr>dim_rows = (\<lambda>_. [])(Memory := [sample_row]), mc_rows = [sample_mc_row],
       dim_logs = (\<lambda>_. [])(Memory :=
         [dim_log_row ctx sample_row DIM_CREATE CODE_FIELD None (Some (JText (lit ''M16''))),
          dim_log_row ctx sample_row DIM_CREATE VALUE_FIELD None (Some (value_json (RMem 16 (lit ''GB''))))]),
       mc_logs = [mc_log_row ctx sample_mc_row MC_CREATE None]\<rparr>)"

lemma sample_row_ok: "row_ok Memory sample_row"
  by (simp add: row_ok_def dim_row_check_def sample_row_def code_pattern_def times_check_def lit_def is_alnum_def
      unit_of_text_def memory_units_def)

lemma sample_joined: "joined_row sample_db sample_mc_row = (\<lambda>_. None)(Memory := Some sample_row)"
  by (auto simp: joined_row_def sample_db_def sample_mc_row_def sample_row_def dim_by_id_def fun_eq_iff Let_def)

lemma sample_coherent: "coherent sample_db"
proof -
  have dims: "mc_dims_of sample_db sample_mc_row = (\<lambda>_. None)(Memory := Some (row_dim Memory sample_row))"
    by (auto simp: mc_dims_of_def sample_joined fun_eq_iff)
  moreover have "compose (mc_dims_of sample_db sample_mc_row) = m_code sample_mc_row"
    unfolding dims by (simp add: compose_def ordered_def ORDER_def NOT_APPLICABLE_CODE_def sample_row_def sample_mc_row_def lit_def)
  moreover have "mc_rows sample_db = [sample_mc_row]" by (simp add: sample_db_def Let_def)
  ultimately show ?thesis by (simp add: coherent_def all_active_def sample_row_def)
qed

lemma sample_enforced: "enforced sample_db"
proof -
  let ?d = "sample_db"
  have dims: "dims_ok s (dim_rows ?d s)" for s
    using sample_row_ok by (simp add: dims_ok_def sample_db_def Let_def)
  have logs: "dim_logs_ok (dim_logs ?d s) (dim_rows ?d s)" for s
    by (simp add: dim_logs_ok_def sample_db_def Let_def dim_audited_def last_log_def dim_log_row_def sample_row_def log_key_def)
  have rows: "mc_rows ?d = [sample_mc_row]" by (simp add: sample_db_def Let_def)
  have "mc_references_check ?d sample_mc_row"
    by (simp add: mc_references_check_def sample_mc_row_def sample_db_def Let_def dim_by_id_def sample_row_def)
  then have mcs: "mcs_ok ?d"
    by (simp add: mcs_ok_def rows mc_row_ok_def) (simp add: sample_mc_row_def times_check_def)
  have "mc_logs_ok (mc_logs ?d) (mc_rows ?d)"
    by (simp add: mc_logs_ok_def sample_db_def Let_def mc_audited_def mc_history_def) (simp add: sample_mc_row_def)
  with dims logs mcs show ?thesis by (simp add: enforced_def)
qed

lemma sample_db_inv: "db_inv sample_db"
  using sample_enforced sample_coherent by (simp add: db_inv_def)

definition sample_admin :: human_principal where
  "sample_admin = \<lparr>principal_user_id = 3, principal_role = ADMIN\<rparr>"

text \<open>A version 7 change-set id.\<close>

definition sample_cs :: uuid where
  "sample_cs = 0x00000000000570018000000000000001"

lemma sample_cs_version: "uuid_version sample_cs = Some 7"
  by (simp add: uuid_version_def sample_cs_def)

definition sample_env :: env where
  "sample_env = \<lparr>env_new_id = 20, env_clock = 10, env_statement_time = 10\<rparr>"

end
