(* ===== verification/Dimension_Service.thy ===== *)
theory Dimension_Service
  imports Dimension_UseCases Samples
begin

text \<open>
  The Dimension use cases end to end: authorization, normalization, audit metadata,
  repository and database together. Each use case is an instance of the shared bodies over
  the conversion of its repository, so that the laws of the repository contract apply to
  every Dimension type at once.
\<close>

section \<open>All Dimension types at once\<close>

definition slot_to_domain :: "slot \<Rightarrow> dim_row \<Rightarrow> dimension res" where
  "slot_to_domain s = (if s = Company then company_to_domain else if s = Memory then memory_to_domain
     else if s \<in> {Year, Network} then numeric_to_domain s else string_to_domain s)"

interpretation slot_repo: dimension_repository s "slot_to_domain s" for s
proof
  fix r assume "row_ok s r"
  then show "slot_to_domain s r = Inr (row_dim s r)"
    using company_repo.to_domain_ok string_repo.to_domain_ok numeric_repo.to_domain_ok memory_repo.to_domain_ok
    by (auto simp: slot_to_domain_def)
qed

definition shape_ok :: "slot \<Rightarrow> value_input \<Rightarrow> bool" where
  "shape_ok s v \<longleftrightarrow> (s = Memory \<longrightarrow> (case v of MemoryCreateValue _ _ \<Rightarrow> True | PlainValue _ \<Rightarrow> False))"

lemma serve_create_eq:
  "shape_ok s v \<Longrightarrow> serve_create s p cs code v r e d
    = create_execute (normalize_inline_value s) (repo_create (slot_to_domain s) s) p cs code v r e d"
  by (cases s; cases v)
     (simp_all add: shape_ok_def serve_create_def create_execute_def normalize_inline_value_def slot_to_domain_def
       create_company_def create_string_dimension_def create_numeric_dimension_def create_memory_def
       company_create_def string_create_def numeric_create_def memory_create_def)

lemma optional_input_None [simp]: "optional_input f None = Inr None"
  by (simp add: optional_input_def)

lemma serve_update_eq:
  assumes "\<And>w. v = Some w \<Longrightarrow> shape_ok s w"
  shows "serve_update s p cs i version v code r e d
    = update_execute (normalize_inline_value s) (repo_update_value (slot_to_domain s) s) p cs i version v code r e d"
proof (cases v)
  case None
  then show ?thesis
    by (cases s) (simp_all add: serve_update_def update_execute_def slot_to_domain_def
       update_company_def update_string_dimension_def update_numeric_dimension_def update_memory_def
       company_update_value_def string_update_value_def numeric_update_value_def memory_update_value_def
       cong: if_cong)
next
  case (Some w)
  with assms have "shape_ok s w" by simp
  with Some show ?thesis
    by (cases w; cases s) (simp_all add: shape_ok_def serve_update_def update_execute_def slot_to_domain_def
       update_company_def update_string_dimension_def update_numeric_dimension_def update_memory_def
       company_update_value_def string_update_value_def numeric_update_value_def memory_update_value_def
       optional_input_def normalize_inline_value_def cong: if_cong)
qed

lemma serve_get_eq: "serve_get s p i d = get_execute (repo_get_active (slot_to_domain s) s) p i d"
  by (cases s) (simp_all add: serve_get_def get_execute_def slot_to_domain_def get_company_def
      get_string_dimension_def get_numeric_dimension_def get_memory_def company_get_active_def
      string_get_active_def numeric_get_active_def memory_get_active_def)

lemma serve_list_eq: "serve_list s p a k d = list_execute (repo_list_active (slot_to_domain s) s) p a k d"
  by (cases s) (simp_all add: serve_list_def list_execute_def slot_to_domain_def list_companies_def
      list_string_dimensions_def list_numeric_dimensions_def list_memories_def company_list_active_def
      string_list_active_def numeric_list_active_def memory_list_active_def)

lemma serve_shape:
  "serve_create s p cs code v r e d = Inr y \<Longrightarrow> shape_ok s v"
  "serve_update s p cs i version (Some v) code' r e d = Inr y \<Longrightarrow> shape_ok s v"
  by (cases v; auto simp: serve_create_def serve_update_def shape_ok_def)+


section \<open>Normalized input is valid\<close>

lemma normalize_inline_value_valid:
  "normalize_inline_value s v = Inr w \<Longrightarrow> valid_value w \<and> value_slot w = s"
  by (cases s) (auto simp: normalize_inline_value_def memory_value_type_def bindE_eq_Inr year_value_def
      dest: normalize_string_value_valid memory_value_create_valid split: value_input.splits pyobj.splits if_splits)


section \<open>Success of the shared bodies\<close>

lemma reason_error_eq_Inr [res_simps]: "reason_error r = Inr y \<longleftrightarrow> r = Inr y"
  by (auto simp: reason_error_def split: sum.splits exn.splits)

lemma optional_input_eq_Inr:
  "optional_input f v = Inr w \<longleftrightarrow> (case v of None \<Rightarrow> w = None | Some x \<Rightarrow> (\<exists>y. f x = Inr y \<and> w = Some y))"
  by (auto simp: optional_input_def bindE_eq_Inr split: option.splits)

lemma positive_version_eq_Inr: "positive_version v = Inr n \<longleftrightarrow> v = PyInt n \<and> 1 \<le> n"
  by (auto simp: positive_version_def split: pyobj.splits)

lemma dimension_code_valid: "dimension_code obj = Inr c \<Longrightarrow> valid_code c"
  by (auto simp: dimension_code_eq_Inr)

lemma serve_create_success:
  assumes "serve_create s p cs code v r e d = Inr y"
  obtains c w audit where "authorize p MUTATE_DATA = Inr p" "dimension_code code = Inr c" "normalize_inline_value s v = Inr w"
    "audit_factory_create cs p (Some DIM_CREATE) None r = Inr audit"
    "repo_create (slot_to_domain s) s c w audit e d = Inr y"
  using assms unfolding serve_create_eq [OF serve_shape(1) [OF assms]] create_execute_def
  by (auto simp: bindE_eq_Inr reason_error_eq_Inr authorize_def split: if_splits)

lemma serve_update_success:
  assumes "serve_update s p cs i version v code r e d = Inr y"
  obtains n c w audit where "authorize p MUTATE_DATA = Inr p" "version = PyInt n" "1 \<le> n"
    "optional_input dimension_code code = Inr c" "optional_input (normalize_inline_value s) v = Inr w"
    "audit_factory_create cs p (Some DIM_UPDATE) (recompose_operation c) r = Inr audit"
    "repo_update_value (slot_to_domain s) s i n w audit c e d = Inr y"
proof -
  have shape: "\<And>w. v = Some w \<Longrightarrow> shape_ok s w" using assms serve_shape(2) by blast
  have "serve_update s p cs i version v code r e d
    = update_execute (normalize_inline_value s) (repo_update_value (slot_to_domain s) s) p cs i version v code r e d"
    by (rule serve_update_eq) (fact shape)
  then have "update_execute (normalize_inline_value s) (repo_update_value (slot_to_domain s) s) p cs i version v code r e d
      = Inr y" using assms by simp
  then show thesis
    using that unfolding update_execute_def
    by (auto simp: bindE_eq_Inr reason_error_eq_Inr positive_version_eq_Inr authorize_def split: if_splits)
qed

lemma optional_code_valid: "\<lbrakk>optional_input dimension_code code = Inr c; c = Some x\<rbrakk> \<Longrightarrow> valid_code x"
  by (auto simp: optional_input_eq_Inr dest: dimension_code_valid split: option.splits)

lemma optional_value_valid:
  "\<lbrakk>optional_input (normalize_inline_value s) v = Inr w; w = Some x\<rbrakk> \<Longrightarrow> valid_value x \<and> value_slot x = s"
  by (auto simp: optional_input_eq_Inr dest: normalize_inline_value_valid split: option.splits)

lemma serve_inv:
  assumes "db_inv d"
  shows "serve_create s p cs code v r e d = Inr (x, d') \<Longrightarrow> db_inv d'"
    and "serve_update s p cs i version w code' r e d = Inr (x, d') \<Longrightarrow> db_inv d'"
    and "mutate_dimension_lifecycle s operation p cs i version r e d = Inr (x, d') \<Longrightarrow> db_inv d'"
proof -
  show "serve_create s p cs code v r e d = Inr (x, d') \<Longrightarrow> db_inv d'"
    by (erule serve_create_success)
       (use assms slot_repo.create_success(1) dimension_code_valid normalize_inline_value_valid in blast)
  show "serve_update s p cs i version w code' r e d = Inr (x, d') \<Longrightarrow> db_inv d'"
  proof (erule serve_update_success)
    fix n c w' audit
    assume in1: "optional_input dimension_code code' = Inr c" and in2: "optional_input (normalize_inline_value s) w = Inr w'"
      and ok: "repo_update_value (slot_to_domain s) s i n w' audit c e d = Inr (x, d')"
    show "db_inv d'"
      by (rule slot_repo.update_success [OF assms _ _ ok])
         (fact optional_code_valid [OF in1] optional_value_valid [OF in2] | assumption)+
  qed
  show "mutate_dimension_lifecycle s operation p cs i version r e d = Inr (x, d') \<Longrightarrow> db_inv d'"
    using lifecycle_success [OF assms]
    by (auto simp: mutate_dimension_lifecycle_def lifecycle_delete_def lifecycle_restore_def bindE_eq_Inr split: if_splits)
qed


section \<open>Exact outcomes\<close>

text \<open>What a request must satisfy before its repository is called, and what is left to the database.\<close>

lemma reason_ok:
  assumes "uuid_version cs = Some 7" "dim_op \<noteq> None \<or> mc_op \<noteq> None" "normalize_reason r = Inr r'"
  obtains audit where "audit_factory_create cs p dim_op mc_op r = Inr audit" "context_ok audit"
    "operations audit = \<lparr>op_dimension = dim_op, op_master_code = mc_op\<rparr>" "change_set_id audit = cs"
  using assms factory_context_ok [of cs p dim_op mc_op r] by (auto simp: audit_factory_create_eq)

lemma serve_update_unfold:
  assumes "authorize p MUTATE_DATA = Inr p" "1 \<le> n" "code \<noteq> None \<or> v \<noteq> None"
    and "optional_input dimension_code code = Inr c" "optional_input (normalize_inline_value s) v = Inr w"
    and "\<And>y. v = Some y \<Longrightarrow> shape_ok s y"
    and "audit_factory_create cs p (Some DIM_UPDATE) (recompose_operation c) r = Inr audit"
  shows "serve_update s p cs i (PyInt n) v code r e d = repo_update_value (slot_to_domain s) s i n w audit c e d"
proof -
  have "serve_update s p cs i (PyInt n) v code r e d
    = update_execute (normalize_inline_value s) (repo_update_value (slot_to_domain s) s) p cs i (PyInt n) v code r e d"
    by (rule serve_update_eq) (fact assms(6))
  also have "\<dots> = repo_update_value (slot_to_domain s) s i n w audit c e d"
    using assms(1-5,7) by (auto simp: update_execute_def positive_version_def reason_error_def)
  finally show ?thesis .
qed

definition code_taken :: "db \<Rightarrow> slot \<Rightarrow> uuid \<Rightarrow> pystr \<Rightarrow> bool" where
  "code_taken d s i c \<longleftrightarrow> (\<exists>y \<in> set (dim_rows d s). r_id y \<noteq> i \<and> r_code y = c)"

definition value_taken :: "db \<Rightarrow> slot \<Rightarrow> uuid \<Rightarrow> dim_value \<Rightarrow> bool" where
  "value_taken d s i w \<longleftrightarrow> (\<exists>y \<in> set (dim_rows d s). r_id y \<noteq> i \<and> value_key (r_value y) = value_key (record_value w))"

lemma own_not_taken:
  assumes "db_inv d" "r \<in> set (dim_rows d s)"
  shows "\<not> code_taken d s (r_id r) (r_code r)" "\<not> value_taken d s (r_id r) (dim_val (row_dim s r))"
proof -
  have ok: "dims_ok s (dim_rows d s)" using assms(1) enforcedD(1) by (simp add: db_inv_def)
  show "\<not> code_taken d s (r_id r) (r_code r)"
    using ok assms(2) distinct_map_filter_unique [of r_code "dim_rows d s" _ r]
    by (auto simp: code_taken_def dims_ok_def)
  have "record_value (dim_val (row_dim s r)) = r_value r"
    using ok assms(2) value_from_record_ok(4) [of s "r_value r"]
    by (auto simp: dims_ok_def row_ok_def dim_row_check_def)
  then show "\<not> value_taken d s (r_id r) (dim_val (row_dim s r))"
    using ok assms(2) distinct_map_filter_unique [of "value_key \<circ> r_value" "dim_rows d s" _ r]
    by (auto simp: value_taken_def dims_ok_def)
qed

lemma repo_update_outcome:
  fixes n :: int and e :: env
  assumes inv: "db_inv d" and r: "r \<in> set (dim_rows d s)" "r_deleted r = None"
    and code: "\<And>x. c = Some x \<Longrightarrow> valid_code x" and vals: "\<And>x. w = Some x \<Longrightarrow> valid_value x \<and> value_slot x = s"
    and audit: "context_ok audit" "op_dimension (operations audit) = Some DIM_UPDATE"
      "c \<noteq> None \<Longrightarrow> op_master_code (operations audit) = Some MC_RECOMPOSE"
      "change_set_id audit \<notin> dl_change_set ` set (dim_logs d s)"
    and int4: "int4 (r_version r + 1)" "\<And>m. m \<in> set (mc_rows d) \<Longrightarrow> int4 (m_version m + 1)"
  defines "c' \<equiv> next_code (row_dim s r) c" and "w' \<equiv> next_value (row_dim s r) w"
  defines "result \<equiv> repo_update_value (slot_to_domain s) s (r_id r) n w audit c e d"
  shows "if r_version r \<noteq> n then result = Inl PreconditionFailed
    else if c' = r_code r \<and> w' = dim_val (row_dim s r) then result = Inr (row_dim s r, d)
    else if code_taken d s (r_id r) c' \<and> value_taken d s (r_id r) w' then result = Inl (DimensionMultipleConflicts s)
    else if code_taken d s (r_id r) c' then result = Inl (DimensionCodeConflict s)
    else if value_taken d s (r_id r) w' then result = Inl (DimensionValueConflict s)
    else \<exists>d'. result = Inr (changed_dim e d s r c w, d')"
proof -
  let ?cc = "c' \<noteq> r_code r" and ?vc = "w' \<noteq> dim_val (row_dim s r)"
  have taken: "?cc \<and> code_taken d s (r_id r) c' \<longleftrightarrow> code_taken d s (r_id r) c'"
    "?vc \<and> value_taken d s (r_id r) w' \<longleftrightarrow> value_taken d s (r_id r) w'"
    using own_not_taken [OF inv r(1)] by auto
  have unfold: "result = translate_update_error s
    (if r_version r \<noteq> n then Inl PreconditionFailed
     else if c' = r_code r \<and> w' = dim_val (row_dim s r) then Inr (row_dim s r, d)
     else bindE (raise_conflict s (code_taken d s (r_id r) c') (value_taken d s (r_id r) w')) (\<lambda>_.
       repo_apply_change (slot_to_domain s) s r (row_dim s r) c w ?cc ?vc audit e d))"
    unfolding result_def slot_repo.update_value_unfold [OF inv r] c'_def [symmetric] w'_def [symmetric]
      row_dim_simps(2) code_taken_def [symmetric] value_taken_def [symmetric] taken ..
  have "\<exists>d'. result = Inr (changed_dim e d s r c w, d')"
    if "r_version r = n" "?cc \<or> ?vc" "\<not> code_taken d s (r_id r) c'" "\<not> value_taken d s (r_id r) w'"
    unfolding result_def that(1) [symmetric]
    by (rule slot_repo.update_succeeds [OF inv r])
       (use code vals audit int4 that(2-4) in \<open>auto simp: c'_def w'_def code_taken_def value_taken_def\<close>)
  then show ?thesis
    by (auto simp: unfold raise_conflict_def translate_update_error_def)
qed

section \<open>Renames\<close>

lemma recomposed_row_renamed:
  assumes enf: "enforced d" and coh: "coherent d" and r: "r \<in> set (dim_rows d s)" "m \<in> set (mc_rows d)"
    and x: "dimension_wf x" "value_slot (dim_val x) = s" "dim_id x = r_id r" "dim_code x \<noteq> r_code r"
    and dims: "mc_dims_of d' m = (if m_refs m s = Some (r_id r) then (mc_dims_of d m)(s := Some x) else mc_dims_of d m)"
  shows "recomposed_row d s x t m = (if m_refs m s = Some (r_id r)
    then m\<lparr>m_code := compose (mc_dims_of d' m), m_version := m_version m + 1, m_updated := t\<rparr> else m)"
proof (cases "m_refs m s = Some (r_id r)")
  case True
  have "dims_wf ((mc_dims_of d m)(s := Some x))"
    using dims_wf_of [OF enf, of m] x(1,2) by (auto simp: dims_wf_def)
  then have "compose ((mc_dims_of d m)(s := Some x)) \<noteq> compose (mc_dims_of d m)"
    using compose_upd_other_code [OF dims_wf_of [OF enf] mc_dims_of_slot [OF enf r(1) True]] x(4) by simp
  moreover have "m_code m = compose (mc_dims_of d m)" using coh r(2) by (simp add: coherent_def)
  ultimately show ?thesis using True x(3) dims by (simp add: recomposed_row_def)
qed (use x(3) in \<open>simp add: recomposed_row_def\<close>)

lemma row_dim_wf:
  assumes "db_inv d" "r \<in> set (dim_rows d s)"
  shows "dimension_wf (row_dim s r)" "value_slot (dim_val (row_dim s r)) = s"
  using row_ok_wf(1,2) [OF row_ok_table [OF _ assms(2)]] assms(1) by (simp_all add: db_inv_def)

lemma changed_db_in: "\<lbrakk>changed_db s r x d d'; r \<in> set (dim_rows d s)\<rbrakk> \<Longrightarrow> changed_row r x \<in> set (dim_rows d' s)"
  by (auto simp: changed_db_def set_put_dim changed_row_def)

lemma update_renames:
  assumes inv: "db_inv d" "db_inv d'" and r: "r \<in> set (dim_rows d s)"
    and x: "changed_db s r x d d'" "row_dim s (changed_row r x) = x" "dim_id x = r_id r"
  shows "mc_rows d' = map (\<lambda>m. if m_refs m s = Some (r_id r) \<and> dim_code x \<noteq> r_code r
     then m\<lparr>m_code := compose (mc_dims_of d' m), m_version := m_version m + 1, m_updated := instant (dim_updated_at x)\<rparr>
     else m) (mc_rows d)"
proof -
  have wf: "dimension_wf x" "value_slot (dim_val x) = s"
    using row_dim_wf [OF inv(2) changed_db_in [OF x(1) r]] x(2) by simp_all
  have enf: "enforced d" "coherent d" using inv(1) by (simp_all add: db_inv_def)
  have rows: "dim_rows d' = (dim_rows d)(s := put_dim (changed_row r x) (dim_rows d s))"
    using x(1) by (simp add: changed_db_def)
  have id: "r_id (changed_row r x) = r_id r" by (simp add: changed_row_def)
  have dims: "mc_dims_of d' m = (if m_refs m s = Some (r_id r) then (mc_dims_of d m)(s := Some x) else mc_dims_of d m)" for m
    using mc_dims_of_put [OF rows, of m] r x(2) id by simp
  show ?thesis
  proof (cases "dim_code x = r_code r")
    case True
    then show ?thesis using x(1) by (simp add: changed_db_def)
  next
    case False
    then have "mc_rows d' = map (recomposed_row d s x (instant (dim_updated_at x))) (mc_rows d)"
      using x(1) by (simp add: changed_db_def)
    also have "\<dots> = map (\<lambda>m. if m_refs m s = Some (r_id r) \<and> dim_code x \<noteq> r_code r
       then m\<lparr>m_code := compose (mc_dims_of d' m), m_version := m_version m + 1, m_updated := instant (dim_updated_at x)\<rparr>
       else m) (mc_rows d)"
      using recomposed_row_renamed [OF enf r _ wf x(3) False dims] False by (intro map_cong) simp_all
    finally show ?thesis .
  qed
qed

lemma sample_rename_input:
  "optional_input dimension_code (Some (PyStr (lit ''mem''))) = Inr (Some (lit ''MEM''))"
  "normalize_reason None = Inr None" "authorize sample_admin MUTATE_DATA = Inr sample_admin"
  by (simp_all add: optional_input_def dimension_code_def lit_def isascii_def upper_def upper_cp_def strip_ch_def
      code_pattern_def is_alnum_def normalize_reason_def authorize_def sample_admin_def ADMIN_ACTIONS_def)

lemma sample_db_simps [simp]:
  "dim_rows sample_db Memory = [sample_row]" "mc_rows sample_db = [sample_mc_row]"
  "dl_change_set ` set (dim_logs sample_db Memory) = {1}"
  by (simp_all add: sample_db_def Let_def dim_log_row_def sample_meta_def)

lemma sample_rename:
  "\<exists>d'. serve_update Memory sample_admin sample_cs 7 (PyInt 1) None (Some (PyStr (lit ''mem''))) None sample_env sample_db
    = Inr (changed_dim sample_env sample_db Memory sample_row (Some (lit ''MEM'')) None, d')"
proof -
  obtain meta where meta: "audit_factory_create sample_cs sample_admin (Some DIM_UPDATE)
      (recompose_operation (Some (lit ''MEM''))) None = Inr meta"
    "context_ok meta" "operations meta = \<lparr>op_dimension = Some DIM_UPDATE, op_master_code = recompose_operation (Some (lit ''MEM''))\<rparr>"
    "change_set_id meta = sample_cs"
    using reason_ok [OF sample_cs_version _ sample_rename_input(2), of "Some DIM_UPDATE"] by blast
  have eq: "serve_update Memory sample_admin sample_cs 7 (PyInt 1) None (Some (PyStr (lit ''mem''))) None sample_env sample_db
      = repo_update_value (slot_to_domain Memory) Memory 7 1 None meta (Some (lit ''MEM'')) sample_env sample_db"
    by (rule serve_update_unfold [OF sample_rename_input(3) _ _ sample_rename_input(1) _ _ meta(1)]) simp_all
  have row: "sample_row \<in> set (dim_rows sample_db Memory)" "r_deleted sample_row = None" by (simp_all add: sample_row_def)
  have id: "r_id sample_row = 7" "r_version sample_row = 1" by (simp_all add: sample_row_def)
  show ?thesis
    unfolding eq
  proof (rule slot_repo.update_succeeds [OF sample_db_inv row, unfolded id])
    show "valid_code c" if "Some (lit ''MEM'') = Some c" for c
      using that by (auto simp: valid_code_def code_pattern_def lit_def is_alnum_def)
    show "op_master_code (operations meta) = Some MC_RECOMPOSE" by (simp add: meta(3) recompose_operation_def)
    show "int4 (m_version m + 1)" if "m \<in> set (mc_rows sample_db)" for m
      using that by (simp add: sample_mc_row_def int4_def)
  qed (use meta in \<open>auto simp: sample_row_def next_code_def lit_def int4_def sample_cs_def\<close>)
qed

text \<open>C13. Updating a Dimension of any type through its use case keeps the database invariant,
  and its effect is exact: either nothing in the request differs from the stored row and the
  database is unchanged, or the row gets its new version and, when its code changes, every
  MasterCode that refers to it, deleted ones included, gets the code composed of its current
  Dimensions, its next version and the time of the change, in the same transaction, while
  all other rows stay as they are.\<close>

theorem update_recomposes_master_codes:
  assumes "db_inv d" "serve_update s p cs i version v code r e d = Inr (x, d')"
  shows "db_inv d' \<and> (\<exists>r0 \<in> set (dim_rows d s). r_id r0 = i \<and> version = PyInt (r_version r0) \<and> r_deleted r0 = None
    \<and> (x = row_dim s r0 \<and> d' = d
       \<or> dim_id x = i \<and> dim_version x = r_version r0 + 1 \<and> row_dim s (changed_row r0 x) = x
         \<and> dim_rows d' = (dim_rows d)(s := put_dim (changed_row r0 x) (dim_rows d s))
         \<and> mc_rows d' = map (\<lambda>m. if m_refs m s = Some i \<and> dim_code x \<noteq> r_code r0
             then m\<lparr>m_code := compose (mc_dims_of d' m), m_version := m_version m + 1,
                    m_updated := instant (dim_updated_at x)\<rparr>
             else m) (mc_rows d)))"
proof (rule serve_update_success [OF assms(2)])
  fix n c w audit
  assume v: "version = PyInt n" and in1: "optional_input dimension_code code = Inr c"
    and in2: "optional_input (normalize_inline_value s) v = Inr w"
    and ok: "repo_update_value (slot_to_domain s) s i n w audit c e d = Inr (x, d')"
  obtain r0 where r0: "r0 \<in> set (dim_rows d s)" "r_id r0 = i" "r_deleted r0 = None" "r_version r0 = n"
    and cases: "(next_code (row_dim s r0) c = r_code r0 \<and> next_value (row_dim s r0) w = dim_val (row_dim s r0)
        \<and> x = row_dim s r0 \<and> d' = d)
     \<or> (x = changed_dim e d s r0 c w \<and> changed_db s r0 x d d' \<and> row_dim s (changed_row r0 x) = x)"
    and inv': "db_inv d'"
    by (rule slot_repo.update_success [OF assms(1) _ _ ok])
       (erule optional_code_valid [OF in1], erule optional_value_valid [OF in2], blast)
  show ?thesis
  proof (cases "x = row_dim s r0 \<and> d' = d")
    case False
    then have x: "x = changed_dim e d s r0 c w" "changed_db s r0 x d d'" "row_dim s (changed_row r0 x) = x"
      using cases by auto
    have "dim_id x = r_id r0" using x(1) by simp
    from update_renames [OF assms(1) inv' r0(1) x(2,3) this] this show ?thesis
      using r0 v inv' x by (intro conjI bexI [of _ r0]) (simp_all add: changed_db_def)
  qed (use r0 v inv' in blast)
qed


theorem update_recomposes_master_codes_witness:
  "\<exists>x d'. serve_update Memory sample_admin sample_cs 7 (PyInt 1) None (Some (PyStr (lit ''mem''))) None sample_env sample_db
      = Inr (x, d') \<and> map m_version (mc_rows d') = [2]
    \<and> map m_code (mc_rows d') = [lit ''NNN-NNN-NNN-NNN-NNN-MEM-NNN-NNN'']"
proof -
  define x where "x = changed_dim sample_env sample_db Memory sample_row (Some (lit ''MEM'')) None"
  obtain d' where ok: "serve_update Memory sample_admin sample_cs 7 (PyInt 1) None (Some (PyStr (lit ''mem''))) None
      sample_env sample_db = Inr (x, d')"
    using sample_rename unfolding x_def by blast
  have x: "x \<noteq> row_dim Memory sample_row" "dim_code x = lit ''MEM''"
    by (auto simp: x_def next_code_def dest: arg_cong [where f = dim_version])
  have "dim_rows d' = (dim_rows sample_db)(Memory := put_dim (changed_row sample_row x) [sample_row])"
    and row: "row_dim Memory (changed_row sample_row x) = x"
    and mcs: "mc_rows d' = [sample_mc_row\<lparr>m_code := compose (mc_dims_of d' sample_mc_row), m_version := 2,
                    m_updated := instant (dim_updated_at x)\<rparr>]"
    using update_recomposes_master_codes [OF sample_db_inv ok] x
    by (auto simp: sample_mc_row_def sample_row_def lit_def)
  then have "dim_by_id 7 (dim_rows d' Memory) = Some (changed_row sample_row x)"
    by (simp add: put_dim_def dim_by_id_def changed_row_def sample_row_def)
  then have "mc_dims_of d' sample_mc_row = (\<lambda>_. None)(Memory := Some x)"
    using row by (auto simp: mc_dims_of_def joined_row_def sample_mc_row_def fun_eq_iff)
  with ok mcs x(2) show ?thesis by (simp add: sample_compose lit_def)
qed

text \<open>C14. The outcome of a well-formed update request is fully determined: not found when there
  is no active row; precondition failed when the version differs; unchanged when neither code
  nor value differs; otherwise the conflict error that names which of code and value another
  row (active or deleted) already uses; and when there is none, the update succeeds. In
  particular a rename never fails on a collision of recomposed MasterCodes.\<close>

theorem update_outcome:
  assumes inv: "db_inv d" and p: "authorize p MUTATE_DATA = Inr p" and n: "1 \<le> n" "code \<noteq> None \<or> v \<noteq> None"
    and norm: "optional_input dimension_code code = Inr c" "optional_input (normalize_inline_value s) v = Inr w"
      "\<And>y. v = Some y \<Longrightarrow> shape_ok s y"
    and audit: "uuid_version cs = Some 7" "normalize_reason r = Inr r'" "cs \<notin> dl_change_set ` set (dim_logs d s)"
    and int4: "\<forall>x \<in> set (dim_rows d s). int4 (r_version x + 1)" "\<forall>m \<in> set (mc_rows d). int4 (m_version m + 1)"
  shows "let result = serve_update s p cs i (PyInt n) v code r e d in
    case find (\<lambda>x. r_id x = i \<and> r_deleted x = None) (dim_rows d s) of
      None \<Rightarrow> result = Inl (DimensionNotFound s)
    | Some r0 \<Rightarrow>
        let c' = next_code (row_dim s r0) c; w' = next_value (row_dim s r0) w in
        if r_version r0 \<noteq> n then result = Inl PreconditionFailed
        else if c' = r_code r0 \<and> w' = dim_val (row_dim s r0) then result = Inr (row_dim s r0, d)
        else if code_taken d s i c' \<and> value_taken d s i w' then result = Inl (DimensionMultipleConflicts s)
        else if code_taken d s i c' then result = Inl (DimensionCodeConflict s)
        else if value_taken d s i w' then result = Inl (DimensionValueConflict s)
        else \<exists>d'. result = Inr (changed_dim e d s r0 c w, d')"
proof -
  obtain meta where meta: "audit_factory_create cs p (Some DIM_UPDATE) (recompose_operation c) r = Inr meta"
    "context_ok meta" "operations meta = \<lparr>op_dimension = Some DIM_UPDATE, op_master_code = recompose_operation c\<rparr>"
    "change_set_id meta = cs"
    using reason_ok [OF audit(1) _ audit(2), of "Some DIM_UPDATE"] by blast
  have eq: "serve_update s p cs i (PyInt n) v code r e d = repo_update_value (slot_to_domain s) s i n w meta c e d"
    by (rule serve_update_unfold [OF p n norm meta(1)])
  show ?thesis
  proof (cases "find (\<lambda>x. r_id x = i \<and> r_deleted x = None) (dim_rows d s)")
    case None
    then show ?thesis by (simp add: eq repo_update_value_def translate_update_error_def)
  next
    case (Some r0)
    then have r0: "r0 \<in> set (dim_rows d s)" "r_id r0 = i" "r_deleted r0 = None" using find_active by blast+
    have "op_master_code (operations meta) = Some MC_RECOMPOSE" if "c \<noteq> None"
      using that meta(3) by (simp add: recompose_operation_def)
    then show ?thesis
      unfolding Some eq Let_def option.case
      by (intro repo_update_outcome [OF inv r0(1,3), unfolded r0(2)])
         (use meta audit(3) int4 r0(1) optional_code_valid [OF norm(1)] optional_value_valid [OF norm(2)] in simp_all)
  qed
qed

theorem update_outcome_witness:
  "\<exists>d'. serve_update Memory sample_admin sample_cs 7 (PyInt 1) None (Some (PyStr (lit ''mem''))) None sample_env sample_db
    = Inr (changed_dim sample_env sample_db Memory sample_row (Some (lit ''MEM'')) None, d')"
proof -
  have "sample_cs \<notin> dl_change_set ` set (dim_logs sample_db Memory)" by (simp add: sample_cs_def)
  from update_outcome [OF sample_db_inv sample_rename_input(3) _ _ sample_rename_input(1) _ _ sample_cs_version
      sample_rename_input(2) this, where n = 1 and v = None and i = 7 and e = sample_env]
  show ?thesis
    by (simp add: int4_def) (simp add: sample_row_def sample_mc_row_def next_code_def next_value_def code_taken_def
        value_taken_def lit_def)
qed

end
