(* ===== verification/Dimension_Properties.thy ===== *)
theory Dimension_Properties
  imports Dimension_Service
begin

text \<open>
  Creation, listing, deletion and restoration of Dimensions through their use cases.
\<close>

section \<open>Creation\<close>

lemma serve_create_unfold:
  assumes "authorize p MUTATE_DATA = Inr p" "dimension_code code = Inr c" "normalize_inline_value s v = Inr w" "shape_ok s v"
    and "audit_factory_create cs p (Some DIM_CREATE) None r = Inr audit"
  shows "serve_create s p cs code v r e d = repo_create (slot_to_domain s) s c w audit e d"
  using assms by (simp add: serve_create_eq create_execute_def reason_error_def)

text \<open>C34. The outcome of a well-formed create request is fully determined: the conflict error
  names which of the normalized code and value any stored row, active or deleted, already uses;
  when neither is in use the Dimension is stored as version 1 under the new id, is what a read
  of that id then returns, and the invariant still holds.\<close>

theorem create_outcome:
  assumes inv: "db_inv d" and p: "authorize p MUTATE_DATA = Inr p"
    and norm: "dimension_code code = Inr c" "normalize_inline_value s v = Inr w" "shape_ok s v"
    and audit: "uuid_version cs = Some 7" "normalize_reason r = Inr r'"
    and id: "env_new_id e \<notin> r_id ` set (dim_rows d s)"
  shows "let result = serve_create s p cs code v r e d;
      cc = c \<in> r_code ` set (dim_rows d s);
      vc = value_key (record_value w) \<in> (value_key \<circ> r_value) ` set (dim_rows d s) in
    if cc \<and> vc then result = Inl (DimensionMultipleConflicts s)
    else if cc then result = Inl (DimensionCodeConflict s)
    else if vc then result = Inl (DimensionValueConflict s)
    else \<exists>x d'. result = Inr (x, d') \<and> db_inv d' \<and> dim_id x = env_new_id e \<and> dim_code x = c \<and> dim_val x = w
      \<and> dim_version x = 1 \<and> serve_get s p (env_new_id e) d' = Inr x"
proof -
  obtain meta where meta: "audit_factory_create cs p (Some DIM_CREATE) None r = Inr meta" "context_ok meta"
    "operations meta = \<lparr>op_dimension = Some DIM_CREATE, op_master_code = None\<rparr>"
    using reason_ok [OF audit(1) _ audit(2), of "Some DIM_CREATE"] by blast
  have eq: "serve_create s p cs code v r e d = repo_create (slot_to_domain s) s c w meta e d"
    by (rule serve_create_unfold [OF p norm meta(1)])
  note valid = dimension_code_valid [OF norm(1)] normalize_inline_value_valid [OF norm(2)]
  let ?x = "row_dim s (created_row e c w)"
  have x: "dim_id ?x = env_new_id e" "dim_code ?x = c" "dim_val ?x = w" "dim_version ?x = 1"
    using record_value_inverse(2) valid(2) by (simp_all add: created_row_def)
  have read: "db_inv d' \<and> serve_get s p (env_new_id e) d' = Inr ?x"
    if "repo_create (slot_to_domain s) s c w meta e d = Inr (?x, d')" for d'
  proof -
    note ok = slot_repo.create_success [OF inv valid(1) _ _ that]
    have inv': "db_inv d'" and rows: "dim_rows d' s = dim_rows d s @ [created_row e c w]"
      using ok valid(2) by auto
    have "distinct (map r_id (dim_rows d' s))"
      using enforcedD(1) [of d' s] inv' by (simp add: db_inv_def dims_ok_def)
    then have "find (\<lambda>r. r_id r = env_new_id e \<and> r_deleted r = None) (dim_rows d' s) = Some (created_row e c w)"
      by (simp add: find_active_iff rows) (simp add: created_row_def)
    moreover have "authorize p READ_DATA = Inr p"
      using p by (cases p; cases "principal_role p") (auto simp: authorize_def USER_ACTIONS_def ADMIN_ACTIONS_def)
    ultimately show ?thesis
      using inv' by (simp add: serve_get_eq get_execute_def slot_repo.get_active_ok)
  qed
  show ?thesis
    using slot_repo.create_total [OF inv valid(1) _ _ meta(2), where v = w and s = s and e = e] valid(2) id meta(3) x read
    unfolding eq by (auto simp: Let_def split: if_splits)
qed

theorem create_outcome_witness:
  "\<exists>x d'. serve_create Year sample_admin sample_cs (PyStr (lit ''y25'')) (PlainValue (PyInt 2025)) None sample_env sample_db
    = Inr (x, d') \<and> dim_code x = lit ''Y25'' \<and> dim_val x = YearValue 2025"
proof -
  have code: "dimension_code (PyStr (lit ''y25'')) = Inr (lit ''Y25'')"
    by (simp add: dimension_code_def lit_def isascii_def upper_def upper_cp_def strip_ch_def code_pattern_def is_alnum_def)
  have val: "normalize_inline_value Year (PlainValue (PyInt 2025)) = Inr (YearValue 2025)"
    by (simp add: normalize_inline_value_def year_value_def)
  have "dim_rows sample_db Year = []" by (simp add: sample_db_def Let_def)
  with create_outcome [OF sample_db_inv sample_rename_input(3) code val _ sample_cs_version sample_rename_input(2), of sample_env]
  show ?thesis by (auto simp: shape_ok_def)
qed


section \<open>Listing\<close>

text \<open>A client that starts without a cursor, asks for pages of any admissible size and
  follows the returned cursors gets every active Dimension exactly once, ordered from the newest
  to the oldest, after finitely many requests.\<close>

theorem pages_visit_all:
  assumes "db_inv d" "authorize p READ_DATA = Inr p" "1 \<le> k" "k \<le> 100" "length (dim_rows d s) < n"
  shows "\<exists>xs. follow_pages (\<lambda>a. serve_list s p a (PyInt k) d) n None = Some xs
    \<and> set xs = row_dim s ` {r \<in> set (dim_rows d s). r_deleted r = None} \<and> distinct (map dim_id xs)
    \<and> sorted_wrt (\<lambda>x y. (instant (dim_created_at y), dim_id y) < (instant (dim_created_at x), dim_id x)) xs"
proof -
  let ?rows = "active_page_order (dim_rows d s)"
  have ids: "distinct (map r_id (dim_rows d s))"
    using assms(1) enforcedD(1) [of d s] by (simp add: db_inv_def dims_ok_def)
  have "serve_list s p a (PyInt k) d = repo_list_active (slot_to_domain s) s a (nat k) d" for a
    using assms(2-4) by (simp add: serve_list_eq list_execute_def page_limit_def)
  then have pages: "follow_pages (\<lambda>a. serve_list s p a (PyInt k) d) n None = Some (map (row_dim s) ?rows)"
    using slot_repo.pages_complete [OF assms(1) _ assms(5), of "nat k"] assms(3) by simp
  have act: "distinct (map r_id (filter (\<lambda>r. r_deleted r = None) (dim_rows d s)))"
    by (rule distinct_map_filter [OF ids])
  have sorted: "sorted_wrt (\<lambda>a b. page_key b < page_key a) ?rows"
    unfolding active_page_order_def by (rule strict_page_order [OF act])
  have "sorted_wrt (\<lambda>x y. (instant (dim_created_at y), dim_id y) < (instant (dim_created_at x), dim_id x))
      (map (row_dim s) ?rows)"
    using sorted by (simp add: sorted_wrt_map page_key_def)
  moreover have "distinct (map dim_id (map (row_dim s) ?rows))"
    using act by (simp add: comp_def active_page_order_def page_order_def rev_map [symmetric] distinct_map)
  moreover have "set (map (row_dim s) ?rows) = row_dim s ` {r \<in> set (dim_rows d s). r_deleted r = None}"
    by (simp add: active_page_order_def)
  ultimately show ?thesis using pages by (intro exI [of _ "map (row_dim s) ?rows"]) simp
qed

theorem pages_visit_all_witness:
  "\<exists>xs. follow_pages (\<lambda>a. serve_list Memory sample_admin a (PyInt 1) sample_db) 2 None = Some xs
    \<and> map dim_id xs = [7]"
proof -
  have "authorize sample_admin READ_DATA = Inr sample_admin"
    by (simp add: authorize_def sample_admin_def ADMIN_ACTIONS_def)
  moreover have act: "{r \<in> set (dim_rows sample_db Memory). r_deleted r = None} = {sample_row}"
    by (auto simp: sample_row_def)
  ultimately obtain xs where xs: "follow_pages (\<lambda>a. serve_list Memory sample_admin a (PyInt 1) sample_db) 2 None = Some xs"
    "set xs = {row_dim Memory sample_row}" "distinct (map dim_id xs)"
    using pages_visit_all [OF sample_db_inv, of sample_admin 1 Memory 2] unfolding act by auto
  then have "xs = [row_dim Memory sample_row]"
    by (cases xs; cases "tl xs") (auto simp: insert_eq_iff)
  with xs(1) show ?thesis by (simp add: sample_row_def)
qed



section \<open>Deletion and restoration\<close>

text \<open>C30. The outcome of deleting or restoring a Dimension is fully determined: not found (also
  for deleting a deleted one), not deleted (restoring an active one), precondition failed for
  another version, in use when an active MasterCode refers to a Dimension to be deleted, and
  otherwise success with the next version; success changes that row only, keeps the
  invariant, and a tombstone read returns the row exactly after a deletion.\<close>

theorem dimension_lifecycle_outcome:
  assumes inv: "db_inv d" and p: "authorize p MUTATE_DATA = Inr p" and n: "1 \<le> n"
    and audit: "uuid_version cs = Some 7" "normalize_reason r = Inr r'" "cs \<notin> dl_change_set ` set (dim_logs d s)"
    and int4: "\<forall>x \<in> set (dim_rows d s). int4 (r_version x + 1)"
  shows "let result = mutate_dimension_lifecycle s (if deleting then DIM_DELETE else DIM_RESTORE) p cs i (PyInt n) r e d in
    case dim_by_id i (dim_rows d s) of
      None \<Rightarrow> result = Inl DimensionLifecycleNotFound
    | Some r0 \<Rightarrow>
        if deleting \<and> r_deleted r0 \<noteq> None then result = Inl DimensionLifecycleNotFound
        else if \<not> deleting \<and> r_deleted r0 = None then result = Inl DimensionNotDeleted
        else if r_version r0 \<noteq> n then result = Inl PreconditionFailed
        else if deleting \<and> in_use d s i then result = Inl DimensionInUse
        else \<exists>x d'. result = Inr (x, d') \<and> db_inv d' \<and> x = row_dim s (lifecycle_row e deleting r0)
          \<and> dim_rows d' = (dim_rows d)(s := put_dim (lifecycle_row e deleting r0) (dim_rows d s)) \<and> mc_rows d' = mc_rows d
          \<and> lifecycle_get_tombstone s i d' = (if deleting then Inr x else Inl DimensionNotDeleted)"
proof -
  let ?op = "if deleting then DIM_DELETE else DIM_RESTORE"
  obtain meta where meta: "audit_factory_create cs p (Some ?op) None r = Inr meta" "context_ok meta"
    "operations meta = \<lparr>op_dimension = Some ?op, op_master_code = None\<rparr>" "change_set_id meta = cs"
    using reason_ok [OF audit(1) _ audit(2), of "Some ?op"] by blast
  have eq: "mutate_dimension_lifecycle s ?op p cs i (PyInt n) r e d = lifecycle_mutate s i n meta deleting e d"
    using p n meta(1) by (simp add: mutate_dimension_lifecycle_def positive_version_def reason_error_def
        lifecycle_delete_def lifecycle_restore_def)
  show ?thesis
  proof (cases "dim_by_id i (dim_rows d s)")
    case None
    then show ?thesis by (simp add: eq lifecycle_mutate_def)
  next
    case (Some r0)
    then have r0: "r0 \<in> set (dim_rows d s)" "r_id r0 = i" using dim_by_id_in by blast+
    have success: "\<exists>d'. lifecycle_mutate s i n meta deleting e d = Inr (row_dim s (lifecycle_row e deleting r0), d') \<and> db_inv d'
        \<and> dim_rows d' = (dim_rows d)(s := put_dim (lifecycle_row e deleting r0) (dim_rows d s)) \<and> mc_rows d' = mc_rows d
        \<and> lifecycle_get_tombstone s i d' = (if deleting then Inr (row_dim s (lifecycle_row e deleting r0)) else Inl DimensionNotDeleted)"
      if ok: "(r_deleted r0 = None) = deleting" "r_version r0 = n" "deleting \<longrightarrow> \<not> in_use d s i"
    proof -
      obtain d' where d': "lifecycle_mutate s i n meta deleting e d = Inr (row_dim s (lifecycle_row e deleting r0), d')"
        using lifecycle_succeeds [OF inv r0(1) ok(1) _ _ meta(2), of e] ok(2,3) r0 int4 meta(3,4) audit(3) by auto
      obtain r1 where r1: "r1 \<in> set (dim_rows d s)" "r_id r1 = i"
        "dim_rows d' = (dim_rows d)(s := put_dim (lifecycle_row e deleting r1) (dim_rows d s))" "mc_rows d' = mc_rows d" "db_inv d'"
        by (rule lifecycle_success [OF inv d']) blast
      have "distinct (map r_id (dim_rows d s))"
        using enforcedD(1) [of d s] inv by (simp add: db_inv_def dims_ok_def)
      then have "r1 = r0" using r0 r1(1,2) by (auto dest: distinct_map_filter_unique)
      moreover have "row_to_domain s (lifecycle_row e deleting r0) = Inr (row_dim s (lifecycle_row e deleting r0))"
        using inv r0(1) by (intro row_ok_wf(3) lifecycle_row_ok row_ok_table) (simp_all add: db_inv_def)
      moreover have "dim_by_id i (put_dim (lifecycle_row e deleting r0) (dim_rows d s)) = Some (lifecycle_row e deleting r0)"
        using r0 by (auto simp: dim_by_id_put_dim)
      ultimately show ?thesis using d' r1(3-5) by (cases deleting) (simp_all add: lifecycle_get_tombstone_def)
    qed
    show ?thesis
      using lifecycle_mutate_eq [OF inv r0(1), of n meta deleting e] success
      by (auto simp: Some eq r0(2) Let_def)
  qed
qed

theorem dimension_lifecycle_outcome_witness:
  "mutate_dimension_lifecycle Memory DIM_DELETE sample_admin sample_cs 7 (PyInt 1) None sample_env sample_db = Inl DimensionInUse"
proof -
  have "sample_cs \<notin> dl_change_set ` set (dim_logs sample_db Memory)" by (simp add: sample_cs_def)
  from dimension_lifecycle_outcome [OF sample_db_inv sample_rename_input(3) _ sample_cs_version sample_rename_input(2) this,
      where n = 1 and deleting = True and i = 7 and e = sample_env]
  show ?thesis
    by (simp add: int4_def dim_by_id_def) (simp add: sample_row_def in_use_def sample_mc_row_def)
qed

end
