(* ===== verification/MasterCode_Repo_Laws.thy ===== *)
theory MasterCode_Repo_Laws
  imports MasterCode_Repo Dimension_Properties
begin

text \<open>
  Laws of the MasterCode repository: what a successful operation did, that it keeps the
  invariant, and that the operations that read before they lock behave as if they had run at
  one instant under the locks.
\<close>

section \<open>Reading under locks\<close>

lemma mc_view_simps [simp]:
  "mc_id (mc_view d m) = m_id m" "mc_dims (mc_view d m) = mc_dims_of d m"
  "mc_code (mc_view d m) = m_code m" "mc_version (mc_view d m) = m_version m"
  "mc_created_at (mc_view d m) = Aware (m_created m)" "mc_updated_at (mc_view d m) = Aware (m_updated m)"
  "mc_deleted_at (mc_view d m) = map_option Aware (m_deleted m)"
  by (simp_all add: mc_view_def)

lemma same_persisted_state_view:
  assumes "enforced d" "mc_references_check d0 m0"
  shows "same_persisted_state m (mc_view d0 m0) \<longleftrightarrow> m_version m = m_version m0 \<and> m_refs m = m_refs m0"
proof -
  have "map_option dim_id (mc_dims_of d0 m0 s) = m_refs m0 s" for s
    using references_exist [OF assms(2), of s]
    by (cases "m_refs m0 s") (auto simp: mc_dims_of_def joined_row_def dest: dim_by_id_in)
  then have "dimension_ids (mc_dims_of d0 m0) = map (m_refs m0) ORDER"
    by (simp add: dimension_ids_def ordered_def)
  then show ?thesis
    by (auto simp: same_persisted_state_def mc_view_def fun_eq_iff map_ORDER_eq [unfolded fun_eq_iff])
qed

lemma lock_references_eq:
  assumes "enforced d" "distinct ss" "\<And>s x. refs s = Some x \<Longrightarrow> dim_by_id (dim_id x) (dim_rows d s) \<noteq> None"
  shows "lock_references d refs ss = Inr (\<lambda>s. if s \<in> set ss then
    (case refs s of None \<Rightarrow> None | Some x \<Rightarrow> map_option (row_dim s) (dim_by_id (dim_id x) (dim_rows d s))) else None)"
  using assms(2)
proof (induction ss)
  case (Cons s ss)
  show ?case
  proof (cases "refs s")
    case (Some x)
    then obtain r where r: "dim_by_id (dim_id x) (dim_rows d s) = Some r" using assms(3) by blast
    then have "row_to_domain s r = Inr (row_dim s r)"
      using row_ok_wf(3) row_ok_table [OF assms(1)] dim_by_id_in by blast
    with Cons Some r show ?thesis by (auto simp: fun_eq_iff)
  qed (use Cons in \<open>auto simp: fun_eq_iff\<close>)
qed (simp add: fun_eq_iff)

lemma lock_references_fail:
  assumes "enforced d" "lock_references d refs ss = Inl err"
  shows "err = PreconditionFailed"
  using assms(2)
proof (induction ss)
  case (Cons s ss)
  have "row_to_domain s r \<noteq> Inl err" if "dim_by_id (dim_id x) (dim_rows d s) = Some r" for x r
    using that row_ok_wf(3) row_ok_table [OF assms(1)] dim_by_id_in by fastforce
  with Cons show ?case by (auto simp: res_simps split: option.splits)
qed simp

lemma lock_references_view:
  assumes "enforced d" "mc_references_check d0 m0" "mc_references_check d m" "m_refs m = m_refs m0"
  shows "lock_references d (mc_dims_of d0 m0) ORDER = Inr (mc_dims_of d m)"
proof -
  have *: "mc_dims_of d0 m0 s = Some x \<Longrightarrow> m_refs m s = Some (dim_id x)" for s x
    using assms(4) by (auto simp: mc_dims_of_def dest!: joined_row_in)
  then have "dim_by_id (dim_id x) (dim_rows d s) \<noteq> None" if "mc_dims_of d0 m0 s = Some x" for s x
    using that references_exist [OF assms(3)] by fastforce
  then have "lock_references d (mc_dims_of d0 m0) ORDER = Inr (\<lambda>s. if s \<in> set ORDER then
    (case mc_dims_of d0 m0 s of None \<Rightarrow> None | Some x \<Rightarrow> map_option (row_dim s) (dim_by_id (dim_id x) (dim_rows d s))) else None)"
    by (intro lock_references_eq [OF assms(1) distinct_ORDER])
  moreover have "(case mc_dims_of d0 m0 s of None \<Rightarrow> None | Some x \<Rightarrow> map_option (row_dim s) (dim_by_id (dim_id x) (dim_rows d s)))
      = mc_dims_of d m s" for s
  proof (cases "mc_dims_of d0 m0 s")
    case None
    then have "m_refs m0 s = None"
      using references_exist [OF assms(2), of s] by (cases "m_refs m0 s") (auto simp: mc_dims_of_def joined_row_def)
    with None assms(4) show ?thesis by (simp add: mc_dims_of_def joined_row_def)
  next
    case (Some a)
    then have "mc_dims_of d m s = map_option (row_dim s) (dim_by_id (dim_id a) (dim_rows d s))"
      using * [OF Some] by (simp add: mc_dims_of_def joined_row_def)
    with Some show ?thesis by simp
  qed
  ultimately show ?thesis by simp
qed

lemma mc_row_facts:
  assumes "db_inv d" "m \<in> set (mc_rows d)"
  shows "mc_row_ok d m" "mc_references_check d m" "joined_to_domain d m = Inr (mc_view d m)"
    "master_code_wf (mc_view d m)" "row_master_code m (mc_dims_of d m) = Inr (mc_view d m)"
    "master_code_dimensions_init (mc_dims_of d m) = Inr (mc_dims_of d m)"
    "mc_by_id (m_id m) (mc_rows d) = Some m"
proof -
  have inv: "enforced d" "coherent d" using assms(1) by (simp_all add: db_inv_def)
  show ok: "mc_row_ok d m" using enforcedD(3) [OF inv(1)] assms(2) by (simp add: mcs_ok_def)
  then show "mc_references_check d m" by (simp add: mc_row_ok_def)
  show "joined_to_domain d m = Inr (mc_view d m)" by (rule joined_to_domain_ok [OF inv assms(2)])
  show wf: "master_code_wf (mc_view d m)" by (rule mc_view_wf [OF inv assms(2)])
  show "row_master_code m (mc_dims_of d m) = Inr (mc_view d m)"
    using master_code_wf_init [OF wf] by (simp add: row_master_code_def mc_view_def)
  show "master_code_dimensions_init (mc_dims_of d m) = Inr (mc_dims_of d m)"
    using dims_wf_of [OF inv(1), of m] by (auto simp: res_simps dims_wf_def)
  show "mc_by_id (m_id m) (mc_rows d) = Some m"
    using enforcedD(3) [OF inv(1)] assms(2) by (simp add: mcs_ok_def mc_by_id_unique)
qed

lemma inactive_fields_empty: "inactive_fields dims = [] \<longleftrightarrow> all_active dims"
  by (auto simp: inactive_fields_def all_active_def filter_empty_conv is_deleted_def split: option.splits)


section \<open>Deletion and restoration\<close>

definition mc_time :: "mc_env \<Rightarrow> mc_row \<Rightarrow> int" where
  "mc_time e m = max (env_clock e) (m_updated m)"

definition lifecycle_mc_row :: "mc_env \<Rightarrow> bool \<Rightarrow> mc_row \<Rightarrow> mc_row" where
  "lifecycle_mc_row e restore m = m\<lparr>m_deleted := (if restore then None else Some (mc_time e m)),
     m_updated := mc_time e m, m_version := m_version m + 1\<rparr>"

lemma lifecycle_mc_row_simps [simp]:
  "m_id (lifecycle_mc_row e rs m) = m_id m" "m_refs (lifecycle_mc_row e rs m) = m_refs m"
  "m_code (lifecycle_mc_row e rs m) = m_code m" "m_version (lifecycle_mc_row e rs m) = m_version m + 1"
  "m_created (lifecycle_mc_row e rs m) = m_created m" "m_updated (lifecycle_mc_row e rs m) = mc_time e m"
  "m_deleted (lifecycle_mc_row e rs m) = (if rs then None else Some (mc_time e m))"
  by (simp_all add: lifecycle_mc_row_def)

text \<open>The part of \<open>_change_lifecycle\<close> that runs under the locks.\<close>

definition lifecycle_locked :: "pystr \<Rightarrow> audit_metadata \<Rightarrow> bool \<Rightarrow> mc_env \<Rightarrow> db \<Rightarrow> mc_row \<Rightarrow> (master_code \<times> db) res" where
  "lifecycle_locked expected_etag audit restore e d m =
     (if etag (mc_view d m) \<noteq> expected_etag then Inl PreconditionFailed
      else if restore \<and> \<not> all_active (mc_dims_of d m) then Inl (MasterCodeReferenceInactive (inactive_fields (mc_dims_of d m)))
      else if \<not> restore \<and> m_deleted m \<noteq> None then Inl (MasterCodeValidationError McAlreadyDeleted)
      else if restore \<and> m_deleted m = None then Inl (MasterCodeValidationError McNotDeleted)
      else bindE (mc_update \<lparr>ctx_meta = audit, ctx_time = mc_time e m\<rparr> (lifecycle_mc_row e restore m) d)
        (\<lambda>d'. Inr (master_code_of (lifecycle_mc_row e restore m) (mc_dims_of d m), d')))"

text \<open>The domain transition under the locks.\<close>

lemma lifecycle_update:
  assumes "db_inv d" "m \<in> set (mc_rows d)" "(m_deleted m = None) = (\<not> restore)" "restore \<longrightarrow> all_active (mc_dims_of d m)"
  shows "(if restore then master_code_restore (mc_view d m) (Aware (mc_time e m))
          else master_code_delete (mc_view d m) (Aware (mc_time e m)))
    = Inr (master_code_of (lifecycle_mc_row e restore m) (mc_dims_of d m))"
proof -
  let ?u = "master_code_of (lifecycle_mc_row e restore m) (mc_dims_of d m)"
  note f = mc_row_facts [OF assms(1,2)]
  show ?thesis
    using assms(3,4) master_code_delete_eq_Inr [OF f(4), of "Aware (mc_time e m)" ?u]
      master_code_restore_eq_Inr [OF f(4), of "Aware (mc_time e m)" ?u]
    by (cases restore) (auto simp: mc_view_def master_code_of_def mc_time_def)
qed

lemma change_lifecycle_eq:
  assumes inv: "db_inv d0" "db_inv d"
  shows "mc_change_lifecycle i expected_etag audit restore e d0 d =
    (case mc_by_id i (mc_rows d0) of
       None \<Rightarrow> Inl MasterCodeNotFound
     | Some m0 \<Rightarrow>
         if restore \<and> m_deleted m0 = None then Inl MasterCodeNotDeleted
         else if \<not> restore \<and> m_deleted m0 \<noteq> None then Inl MasterCodeNotFound
         else (case mc_by_id i (mc_rows d) of
             None \<Rightarrow> Inl PreconditionFailed
           | Some m \<Rightarrow> if m_version m \<noteq> m_version m0 \<or> m_refs m \<noteq> m_refs m0 then Inl PreconditionFailed
               else lifecycle_locked expected_etag audit restore e d m))"
proof (cases "mc_by_id i (mc_rows d0)")
  case None
  then show ?thesis by (simp add: mc_change_lifecycle_def)
next
  case (Some m0)
  then have m0: "m0 \<in> set (mc_rows d0)" "m_id m0 = i" using mc_by_id_in by blast+
  note f0 = mc_row_facts [OF inv(1) m0(1)]
  have enf: "enforced d" using inv(2) by (simp add: db_inv_def)
  show ?thesis
  proof (cases "\<exists>m. mc_by_id i (mc_rows d) = Some m \<and> m_version m = m_version m0 \<and> m_refs m = m_refs m0")
    case False
    then show ?thesis
      using lock_references_fail [OF enf, of "mc_dims_of d0 m0" ORDER] same_persisted_state_view [OF enf f0(2)]
      by (cases "lock_references d (mc_dims_of d0 m0) ORDER")
         (auto simp: mc_change_lifecycle_def Some f0(3) split: option.splits)
  next
    case True
    then obtain m where m: "mc_by_id i (mc_rows d) = Some m" "m_version m = m_version m0" "m_refs m = m_refs m0" by blast
    have md: "m \<in> set (mc_rows d)" using mc_by_id_in [OF m(1)] by simp
    note f = mc_row_facts [OF inv(2) md]
    have lock: "lock_references d (mc_dims_of d0 m0) ORDER = Inr (mc_dims_of d m)"
      by (rule lock_references_view [OF enf f0(2) f(2) m(3)])
    have ctx: "set_context audit (env_clock e) (Some (Aware (m_updated m))) = Inr \<lparr>ctx_meta = audit, ctx_time = mc_time e m\<rparr>"
      by (simp add: set_context_eq mc_time_def)
    let ?u = "master_code_of (lifecycle_mc_row e restore m) (mc_dims_of d m)"
    note upd = lifecycle_update [OF inv(2) md]
    have row: "m\<lparr>m_code := mc_code ?u, m_deleted := map_option instant (mc_deleted_at ?u),
        m_updated := instant (mc_updated_at ?u), m_version := mc_version ?u\<rparr> = lifecycle_mc_row e restore m"
      by (simp add: lifecycle_mc_row_def)
    have same: "same_persisted_state m (mc_view d0 m0)" using same_persisted_state_view [OF enf f0(2)] m by simp
    show ?thesis
    proof (cases "(m_deleted m = None) = (\<not> restore) \<and> (restore \<longrightarrow> all_active (mc_dims_of d m))")
      case True
      then show ?thesis
        using m(2,3) same
        unfolding mc_change_lifecycle_def Some option.case f0(3) bindE_Inr mc_view_simps lock m(1) f(5,6) ctx Let_def
          mutation_ctx.select_convs upd [OF conjunct1 [OF True] conjunct2 [OF True]] row lifecycle_locked_def
        by (auto simp: inactive_fields_empty)
    next
      case False
      then show ?thesis
        using m(2,3) same
        by (auto simp: mc_change_lifecycle_def Some f0(3) lock m(1) f(5,6) ctx lifecycle_locked_def inactive_fields_empty
            master_code_delete_def master_code_restore_def)
    qed
  qed
qed


text \<open>A MasterCode update that keeps the code composed and active rows on active Dimensions keeps the invariant.\<close>

lemma mc_dims_of_cong: "\<lbrakk>dim_rows d' = dim_rows d; m_refs m' = m_refs m\<rbrakk> \<Longrightarrow> mc_dims_of d' m' = mc_dims_of d m"
  by (simp add: mc_dims_of_def joined_row_def cong: option.case_cong)

lemma mc_update_inv:
  assumes inv: "db_inv d" and old: "old \<in> set (mc_rows d)" "m_id m = m_id old" and upd: "mc_update ctx m d = Inr d'"
    and m: "m_code m = compose (mc_dims_of d m)" "m_deleted m = None \<Longrightarrow> all_active (mc_dims_of d m)"
  shows "db_inv d'" "mc_rows d' = put_mc m (mc_rows d)" "dim_rows d' = dim_rows d"
proof -
  have enf: "enforced d" and coh: "coherent d" using inv by (simp_all add: db_inv_def)
  have by_id: "mc_by_id (m_id m) (mc_rows d) = Some old"
    using mc_row_facts(7) [OF inv old(1)] old(2) by simp
  show rows: "mc_rows d' = put_mc m (mc_rows d)" "dim_rows d' = dim_rows d"
    using mc_update_result(1) [OF upd by_id] by auto
  have "mc_dims_of d' x = mc_dims_of d x" for x by (rule mc_dims_of_cong [OF rows(2) refl])
  then have "coherent d'"
    using coh m by (auto simp: coherent_def rows(1) set_put_mc split: if_splits)
  then show "db_inv d'" using enforced_mc_update [OF enf upd] by (simp add: db_inv_def)
qed

lemma lifecycle_locked_success:
  assumes inv: "db_inv d" and m: "m \<in> set (mc_rows d)"
    and ok: "lifecycle_locked et audit restore e d m = Inr (x, d')"
  shows "db_inv d'" "mc_rows d' = put_mc (lifecycle_mc_row e restore m) (mc_rows d)" "dim_rows d' = dim_rows d"
    "etag (mc_view d m) = et" "(m_deleted m = None) = (\<not> restore)" "restore \<Longrightarrow> all_active (mc_dims_of d m)"
    "x = mc_view d' (lifecycle_mc_row e restore m)"
proof -
  let ?m = "lifecycle_mc_row e restore m"
  have upd: "mc_update \<lparr>ctx_meta = audit, ctx_time = mc_time e m\<rparr> ?m d = Inr d'"
    and x: "x = master_code_of ?m (mc_dims_of d m)"
    and et: "etag (mc_view d m) = et" "(m_deleted m = None) = (\<not> restore)" "restore \<Longrightarrow> all_active (mc_dims_of d m)"
    using ok by (auto simp: lifecycle_locked_def bindE_eq_Inr split: if_splits)
  show "etag (mc_view d m) = et" "(m_deleted m = None) = (\<not> restore)" "restore \<Longrightarrow> all_active (mc_dims_of d m)"
    by (fact et)+
  have dims: "mc_dims_of d ?m = mc_dims_of d m" by (rule mc_dims_of_cong) simp_all
  have code: "m_code m = compose (mc_dims_of d m)" using inv m by (simp add: db_inv_def coherent_def)
  have inv': "db_inv d'" "mc_rows d' = put_mc ?m (mc_rows d)" "dim_rows d' = dim_rows d"
    by (rule mc_update_inv [OF inv m _ upd]; use code et(3) dims in \<open>simp split: if_splits\<close>)+
  then show "db_inv d'" "mc_rows d' = put_mc ?m (mc_rows d)" "dim_rows d' = dim_rows d" by auto
  show "x = mc_view d' ?m"
    using x mc_dims_of_cong [OF inv'(3), of ?m m] by (simp add: mc_view_def)
qed

lemma lifecycle_locked_succeeds:
  assumes inv: "db_inv d" and m: "m \<in> set (mc_rows d)" "(m_deleted m = None) = (\<not> restore)" "etag (mc_view d m) = et"
    and act: "restore \<Longrightarrow> all_active (mc_dims_of d m)" and int4: "int4 (m_version m + 1)"
    and audit: "context_ok audit" "op_master_code (operations audit) = Some (if restore then MC_RESTORE else MC_DELETE)"
  shows "\<exists>x d'. lifecycle_locked et audit restore e d m = Inr (x, d')"
proof -
  let ?m = "lifecycle_mc_row e restore m"
  let ?ctx = "\<lparr>ctx_meta = audit, ctx_time = mc_time e m\<rparr>"
  have enf: "enforced d" using inv by (simp add: db_inv_def)
  note f = mc_row_facts [OF inv m(1)]
  have mcs: "mcs_ok d" by (rule enforcedD(3) [OF enf])
  have "mc_before_update ?ctx m ?m = Inr ()"
    using m(2) audit(2)
    by (cases restore) (auto simp: mc_before_update_def context_okD audit(1) mc_time_def)
  moreover have "mc_row_check ?m"
    using f(1,4) code_parts_compose [of "mc_dims_of d m"]
    by (auto simp: mc_row_check_def mc_row_ok_def master_code_wf_def times_check_def mc_time_def)
  moreover have "mc_references_check d ?m" using f(2) by (simp add: mc_references_check_def)
  moreover have "m_code y \<noteq> m_code ?m \<and> m_refs y \<noteq> m_refs ?m" if "y \<in> set (mc_rows d)" "m_id y \<noteq> m_id m" for y
    using that m(1) mcs distinct_map_filter_unique [of m_code "mc_rows d" y m]
      distinct_map_filter_unique [of m_refs "mc_rows d" y m] by (auto simp: mcs_ok_def)
  ultimately obtain d' where "mc_update ?ctx ?m d = Inr d'"
    using mc_update_succeeds [OF enf m(1), of ?m ?ctx] int4 by auto
  then show ?thesis using m(2,3) act by (auto simp: lifecycle_locked_def)
qed



section \<open>Locking for reference updates\<close>

definition active_dim :: "db \<Rightarrow> slot \<Rightarrow> uuid \<Rightarrow> dimension option" where
  "active_dim d s j = map_option (row_dim s) (find (\<lambda>r. r_id r = j \<and> r_deleted r = None) (dim_rows d s))"

definition slot_ids :: "dimension option \<Rightarrow> reference_selection option \<Rightarrow> uuid set" where
  "slot_ids current change = dim_id ` set_option current \<union> {j. change = Some (RefExisting j)}"

lemma active_dim_Some:
  assumes "enforced d"
  shows "active_dim d s j = Some x \<longleftrightarrow> (\<exists>r \<in> set (dim_rows d s). r_id r = j \<and> r_deleted r = None \<and> x = row_dim s r)"
proof -
  have "distinct (map r_id (dim_rows d s))" using enforcedD(1) [OF assms] by (auto simp: dims_ok_def)
  then show ?thesis by (auto simp: active_dim_def find_active_iff)
qed

lemma lock_slot_ok:
  assumes "enforced d"
  shows "\<exists>L. lock_slot d s current change = Inr L
    \<and> (\<forall>j. map_of L j = (if j \<in> slot_ids current change then active_dim d s j else None))"
proof -
  let ?ids = "(case current of None \<Rightarrow> [] | Some x \<Rightarrow> [dim_id x]) @ (case change of Some (RefExisting i) \<Rightarrow> [i] | _ \<Rightarrow> [])"
  let ?rs = "sort_key r_id (filter (\<lambda>r. r_id r \<in> set ?ids \<and> r_deleted r = None) (dim_rows d s))"
  let ?L = "map (\<lambda>r. (r_id r, row_dim s r)) ?rs"
  have ids: "set ?ids = slot_ids current change"
    by (auto simp: slot_ids_def split: option.splits reference_selection.splits)
  have dist: "distinct (map fst ?L)"
    using enforcedD(1) [OF assms, of s] by (simp add: comp_def dims_ok_def distinct_map inj_on_def)
  have "lock_slot d s current change = Inr ?L"
    unfolding lock_slot_def Let_def
    by (rule mapE_Inr_all) (use row_ok_wf(3) [OF row_ok_table [OF assms]] in auto)
  moreover have "map_of ?L j = (if j \<in> slot_ids current change then active_dim d s j else None)" for j
  proof (cases "j \<in> slot_ids current change \<and> active_dim d s j \<noteq> None")
    case True
    then obtain x where x: "active_dim d s j = Some x" by blast
    then have "(j, x) \<in> set ?L" using True active_dim_Some [OF assms] ids by auto
    with dist have "map_of ?L j = Some x" by (rule map_of_is_SomeI)
    with True x show ?thesis by simp
  next
    case False
    then have "j \<notin> fst ` set ?L" using active_dim_Some [OF assms, of s j] ids by (auto simp: image_iff)
    then have "map_of ?L j = None" by (simp add: map_of_eq_None_iff)
    with False show ?thesis by auto
  qed
  ultimately show ?thesis by blast
qed

definition invalid_fields :: "db \<Rightarrow> reference_update \<Rightarrow> slot list \<Rightarrow> string list" where
  "invalid_fields d changes ss = map (\<lambda>s. ''dimensions.'' @ slot_name s @ ''.id'')
     (filter (\<lambda>s. case changes s of Some (RefExisting i) \<Rightarrow> active_dim d s i = None | _ \<Rightarrow> False) ss)"

lemma lock_update_ok:
  assumes "enforced d" "distinct ss" "\<And>s x. s \<in> set ss \<Longrightarrow> refs s = Some x \<Longrightarrow> active_dim d s (dim_id x) \<noteq> None"
  shows "\<exists>L. lock_reference_update_dimensions d refs changes ss = Inr (L, invalid_fields d changes ss)
    \<and> (\<forall>s \<in> set ss. \<forall>j \<in> slot_ids (refs s) (changes s). map_of (L s) j = active_dim d s j)"
  using assms(2,3)
proof (induction ss)
  case (Cons s ss)
  obtain L where L: "lock_reference_update_dimensions d refs changes ss = Inr (L, invalid_fields d changes ss)"
    "\<forall>s \<in> set ss. \<forall>j \<in> slot_ids (refs s) (changes s). map_of (L s) j = active_dim d s j"
    using Cons by auto
  obtain K where K: "lock_slot d s (refs s) (changes s) = Inr K"
    "\<forall>j. map_of K j = (if j \<in> slot_ids (refs s) (changes s) then active_dim d s j else None)"
    using lock_slot_ok [OF assms(1)] by blast
  have cur: "\<not> (case refs s of None \<Rightarrow> False | Some x \<Rightarrow> map_of K (dim_id x) = None)"
    using Cons.prems(2) K(2) by (auto simp: slot_ids_def split: option.splits)
  have inv: "(case changes s of
       Some (RefExisting i) \<Rightarrow> if map_of K i = None then [''dimensions.'' @ slot_name s @ ''.id''] else []
     | _ \<Rightarrow> []) @ invalid_fields d changes ss = invalid_fields d changes (s # ss)"
    using K(2) by (auto simp: invalid_fields_def slot_ids_def split: option.splits reference_selection.splits)
  have "lock_reference_update_dimensions d refs changes (s # ss) = Inr (L(s := K), invalid_fields d changes (s # ss))"
    using L(1) K(1) cur inv by simp
  moreover have "\<forall>u \<in> set (s # ss). \<forall>j \<in> slot_ids (refs u) (changes u). map_of ((L(s := K)) u) j = active_dim d u j"
    using L(2) K(2) Cons.prems(1) by auto
  ultimately show ?case by blast
qed (simp add: invalid_fields_def)

lemma lock_update_fail:
  assumes "enforced d" "s \<in> set ss" "refs s = Some x" "active_dim d s (dim_id x) = None"
  shows "lock_reference_update_dimensions d refs changes ss = Inl PreconditionFailed"
  using assms(2)
proof (induction ss)
  case (Cons u ss)
  obtain K where K: "lock_slot d u (refs u) (changes u) = Inr K"
    "\<forall>j. map_of K j = (if j \<in> slot_ids (refs u) (changes u) then active_dim d u j else None)"
    using lock_slot_ok [OF assms(1)] by blast
  show ?case
  proof (cases "u = s")
    case True
    with K assms(3,4) show ?thesis by (simp add: slot_ids_def)
  next
    case False
    with Cons have "lock_reference_update_dimensions d refs changes ss = Inl PreconditionFailed" by simp
    with K show ?thesis by (simp split: option.splits)
  qed
qed simp

end
