(* ===== verification/MasterCode_References.thy ===== *)
theory MasterCode_References
  imports MasterCode_Repo_Laws
begin

text \<open>
  Reference updates of MasterCodes under concurrency, and the shape of their result.
\<close>

definition next_dims :: "db \<Rightarrow> reference_update \<Rightarrow> mc_row \<Rightarrow> master_code_dimensions" where
  "next_dims d changes m s =
     (case changes s of
        None \<Rightarrow> mc_dims_of d m s
      | Some RefNotApplicable \<Rightarrow> None
      | Some (RefExisting j) \<Rightarrow> active_dim d s j)"

definition reference_row :: "mc_env \<Rightarrow> master_code_dimensions \<Rightarrow> mc_row \<Rightarrow> mc_row" where
  "reference_row e dims m = m\<lparr>m_refs := (\<lambda>s. map_option dim_id (dims s)), m_code := compose dims,
     m_version := m_version m + 1, m_updated := mc_time e m\<rparr>"

lemma reference_row_simps [simp]:
  "m_id (reference_row e dims m) = m_id m" "m_refs (reference_row e dims m) = (\<lambda>s. map_option dim_id (dims s))"
  "m_code (reference_row e dims m) = compose dims" "m_version (reference_row e dims m) = m_version m + 1"
  "m_created (reference_row e dims m) = m_created m" "m_updated (reference_row e dims m) = mc_time e m"
  "m_deleted (reference_row e dims m) = m_deleted m"
  by (simp_all add: reference_row_def)

text \<open>\<open>except IntegrityError\<close> of \<open>update_references\<close>.\<close>

definition translate_reference_error :: "'a res \<Rightarrow> 'a res" where
  "translate_reference_error r =
     (case r of
        Inl (IntegrityError (Some n)) \<Rightarrow>
          if n = uq_master_codes_code \<or> n = uq_master_codes_references then Inl MasterCodeConflict else r
      | _ \<Rightarrow> r)"

lemma translate_reference_eq_Inr [res_simps]: "translate_reference_error r = Inr y \<longleftrightarrow> r = Inr y"
  by (auto simp: translate_reference_error_def split: sum.splits exn.splits option.splits)

text \<open>The part that runs under the locks, once the state of the row is known to be the one first read.\<close>

definition references_locked ::
    "reference_update \<Rightarrow> pystr \<Rightarrow> audit_metadata \<Rightarrow> mc_env \<Rightarrow> db \<Rightarrow> mc_row \<Rightarrow> (master_code \<times> db) res" where
  "references_locked changes et audit e d m =
     (if etag (mc_view d m) \<noteq> et then Inl PreconditionFailed
      else
        let dims = next_dims d changes m in
        if (\<lambda>s. map_option dim_id (dims s)) = m_refs m then Inr (mc_view d m, d)
        else bindE (mc_update \<lparr>ctx_meta = audit, ctx_time = mc_time e m\<rparr> (reference_row e dims m) d)
          (\<lambda>d'. Inr (master_code_of (reference_row e dims m) dims, d')))"

lemma active_refs:
  assumes "db_inv d" "m \<in> set (mc_rows d)" "m_deleted m = None" "m_refs m s = Some j"
  shows "active_dim d s j = mc_dims_of d m s" "mc_dims_of d m s \<noteq> None"
proof -
  have enf: "enforced d" using assms(1) by (simp add: db_inv_def)
  obtain r where r: "dim_by_id j (dim_rows d s) = Some r"
    using references_exist [OF mc_row_facts(2) [OF assms(1,2)] assms(4)] by blast
  then have dims: "mc_dims_of d m s = Some (row_dim s r)" using assms(4) by (simp add: mc_dims_of_def joined_row_def)
  have "all_active (mc_dims_of d m)" using assms(1-3) by (simp add: db_inv_def coherent_def)
  with dims have "dim_deleted_at (row_dim s r) = None" by (simp only: all_active_def)
  then have "r_deleted r = None" by simp
  then have "active_dim d s j = Some (row_dim s r)"
    using dim_by_id_in [OF r] by (auto simp: active_dim_Some [OF enf])
  with dims show "active_dim d s j = mc_dims_of d m s" "mc_dims_of d m s \<noteq> None" by auto
qed

lemma next_dims_facts:
  assumes "db_inv d" "m \<in> set (mc_rows d)" "m_deleted m = None"
  shows "dims_wf (next_dims d changes m)" "all_active (next_dims d changes m)"
    "next_dims d changes m s = Some x \<Longrightarrow> active_dim d s (dim_id x) = Some x"
proof -
  have inv: "enforced d" "coherent d" using assms(1) by (simp_all add: db_inv_def)
  show act: "next_dims d changes m s = Some x \<Longrightarrow> active_dim d s (dim_id x) = Some x" for s x
  proof -
    assume n: "next_dims d changes m s = Some x"
    show "active_dim d s (dim_id x) = Some x"
    proof (cases "changes s")
      case None
      with n have x: "mc_dims_of d m s = Some x" by (simp add: next_dims_def)
      then have "m_refs m s = Some (dim_id x)" by (auto simp: mc_dims_of_def dest!: joined_row_in)
      with active_refs [OF assms] x show ?thesis by simp
    next
      case (Some c)
      then show ?thesis
        using n by (cases c) (auto simp: next_dims_def active_dim_Some [OF inv(1)])
    qed
  qed
  have row: "dim_deleted_at x = None \<and> dimension_wf x \<and> value_slot (dim_val x) = s" if n: "next_dims d changes m s = Some x" for s x
  proof -
    obtain r where r: "r \<in> set (dim_rows d s)" "r_deleted r = None" "x = row_dim s r"
      using act [OF n] by (auto simp: active_dim_Some [OF inv(1)])
    with row_ok_wf(1,2) [OF row_ok_table [OF inv(1) r(1)]] show ?thesis by simp
  qed
  show "all_active (next_dims d changes m)" using row by (simp add: all_active_def)
  show "dims_wf (next_dims d changes m)" using row by (simp add: dims_wf_def)
qed

lemma mc_dims_of_ids:
  assumes "mc_references_check d m"
  shows "map_option dim_id (mc_dims_of d m s) = m_refs m s"
  using references_exist [OF assms, of s]
  by (cases "m_refs m s") (auto simp: mc_dims_of_def joined_row_def dest: dim_by_id_in)

lemma mc_dims_of_idD: "\<lbrakk>mc_references_check d m; mc_dims_of d m s = Some x\<rbrakk> \<Longrightarrow> m_refs m s = Some (dim_id x)"
  using mc_dims_of_ids [of d m s] by simp

lemma mc_dims_of_idE:
  assumes "mc_references_check d m" "m_refs m s = Some j"
  obtains x where "mc_dims_of d m s = Some x" "dim_id x = j"
  using mc_dims_of_ids [OF assms(1), of s] assms(2) by (cases "mc_dims_of d m s") auto

text \<open>The Dimensions the locked rows give for the current and for the requested references.\<close>

lemma current_locked:
  assumes "db_inv d" "m \<in> set (mc_rows d)" "m_deleted m = None" "mc_references_check d0 m0" "m_refs m = m_refs m0"
    and L: "\<And>s j. j \<in> slot_ids (mc_dims_of d0 m0 s) (changes s) \<Longrightarrow> map_of (L s) j = active_dim d s j"
  shows "(\<lambda>s. case m_refs m s of None \<Rightarrow> None | Some j \<Rightarrow> map_of (L s) j) = mc_dims_of d m"
proof
  fix s show "(case m_refs m s of None \<Rightarrow> None | Some j \<Rightarrow> map_of (L s) j) = mc_dims_of d m s"
  proof (cases "m_refs m s")
    case None
    then show ?thesis by (simp add: mc_dims_of_def joined_row_def)
  next
    case (Some j)
    then have "m_refs m0 s = Some j" using assms(5) by simp
    then have "j \<in> slot_ids (mc_dims_of d0 m0 s) (changes s)"
      by (rule mc_dims_of_idE [OF assms(4)]) (auto simp: slot_ids_def)
    with L active_refs(1) [OF assms(1-3) Some] Some show ?thesis by simp
  qed
qed

lemma resolved_locked:
  assumes "\<And>s j. j \<in> slot_ids (refs s) (changes s) \<Longrightarrow> map_of (L s) j = active_dim d s j"
  shows "(\<lambda>s. resolve_reference_update_slot (mc_dims_of d m s) (changes s) (L s)) = next_dims d changes m"
  using assms by (auto simp: fun_eq_iff resolve_reference_update_slot_def next_dims_def slot_ids_def
      split: option.splits reference_selection.splits)

text \<open>The body under the locks.\<close>

lemma references_body:
  fixes changes :: reference_update
  assumes inv: "db_inv d" and m: "m \<in> set (mc_rows d)" "m_deleted m = None"
  defines "n \<equiv> next_dims d changes m"
  shows "(if etag (mc_view d m) \<noteq> et then Inl PreconditionFailed
       else bindE (master_code_dimensions_init n) (\<lambda>next_dims.
         if dimension_ids next_dims = dimension_ids (mc_dims_of d m) then Inr (mc_view d m, d)
         else bindE (set_context audit (env_clock e) (Some (Aware (m_updated m)))) (\<lambda>ctx.
           bindE (update_references (mc_view d m) next_dims (Aware (ctx_time ctx))) (\<lambda>updated.
           bindE (mc_update ctx
                   (m\<lparr>m_refs := (\<lambda>s. map_option dim_id (next_dims s)), m_code := mc_code updated,
                      m_version := mc_version updated, m_updated := instant (mc_updated_at updated)\<rparr>) d) (\<lambda>d'.
             Inr (updated, d'))))))
    = references_locked changes et audit e d m"
proof -
  note f = mc_row_facts [OF inv m(1)] and nf = next_dims_facts [OF inv m, of changes, folded n_def]
  have init: "master_code_dimensions_init n = Inr n" using nf(1) by (auto simp: res_simps dims_wf_def)
  have ids: "dimension_ids n = dimension_ids (mc_dims_of d m) \<longleftrightarrow> (\<lambda>s. map_option dim_id (n s)) = m_refs m"
    using mc_dims_of_ids [OF f(2)] by (auto simp: dimension_ids_eq fun_eq_iff)
  have ctx: "set_context audit (env_clock e) (Some (Aware (m_updated m))) = Inr \<lparr>ctx_meta = audit, ctx_time = mc_time e m\<rparr>"
    by (simp add: set_context_eq mc_time_def)
  let ?u = "master_code_of (reference_row e n m) n"
  have upd: "update_references (mc_view d m) n (Aware (mc_time e m)) = Inr ?u"
    if "dimension_ids n \<noteq> dimension_ids (mc_dims_of d m)"
    using that m(2) nf(2) update_references_eq_Inr [OF f(4), of n "Aware (mc_time e m)" ?u]
    by (simp add: mc_view_def master_code_of_def mc_time_def)
  have row: "m\<lparr>m_refs := (\<lambda>s. map_option dim_id (n s)), m_code := mc_code ?u, m_version := mc_version ?u,
      m_updated := instant (mc_updated_at ?u)\<rparr> = reference_row e n m"
    by (simp add: reference_row_def)
  show ?thesis
  proof (cases "dimension_ids n = dimension_ids (mc_dims_of d m)")
    case True
    then show ?thesis
      unfolding bindE_Inr init using ids by (simp add: references_locked_def n_def [symmetric])
  next
    case False
    then show ?thesis
      unfolding bindE_Inr init ctx mutation_ctx.select_convs upd [OF False] row
      using ids by (simp add: references_locked_def n_def [symmetric])
  qed
qed

lemma update_references_eq:
  assumes inv: "db_inv d0" "db_inv d"
  shows "mc_update_references i changes et audit e d0 d = translate_reference_error
    (case find (\<lambda>m. m_id m = i \<and> m_deleted m = None) (mc_rows d0) of
       None \<Rightarrow> Inl MasterCodeNotFound
     | Some m0 \<Rightarrow>
         if \<exists>s j. m_refs m0 s = Some j \<and> active_dim d s j = None then Inl PreconditionFailed
         else if invalid_fields d changes ORDER \<noteq> [] then Inl (InvalidDimensionReference (invalid_fields d changes ORDER))
         else (case find (\<lambda>m. m_id m = i \<and> m_deleted m = None) (mc_rows d) of
             None \<Rightarrow> Inl PreconditionFailed
           | Some m \<Rightarrow> if m_version m \<noteq> m_version m0 \<or> m_refs m \<noteq> m_refs m0 then Inl PreconditionFailed
               else references_locked changes et audit e d m))"
proof -
  let ?find = "\<lambda>d. find (\<lambda>m. m_id m = i \<and> m_deleted m = None) (mc_rows d)"
  have enf: "enforced d" using inv(2) by (simp add: db_inv_def)
  note def = mc_update_references_def Let_def translate_reference_error_def [symmetric]
  show ?thesis
  proof (cases "?find d0")
    case None
    then show ?thesis unfolding def by simp
  next
    case (Some m0)
    then have m0: "m0 \<in> set (mc_rows d0)" by (auto simp: find_Some_iff)
    note f0 = mc_row_facts [OF inv(1) m0] and same = same_persisted_state_view [OF enf mc_row_facts(2) [OF inv(1) m0]]
    show ?thesis
    proof (cases "\<exists>s j. m_refs m0 s = Some j \<and> active_dim d s j = None")
      case True
      then obtain s j where j: "m_refs m0 s = Some j" "active_dim d s j = None" by blast
      obtain x where x: "mc_dims_of d0 m0 s = Some x" "active_dim d s (dim_id x) = None"
        by (rule mc_dims_of_idE [OF f0(2) j(1)]) (use j(2) in blast)
      have "lock_reference_update_dimensions d (mc_dims_of d0 m0) changes ORDER = Inl PreconditionFailed"
        by (rule lock_update_fail [where refs = "mc_dims_of d0 m0", OF enf _ x]) simp
      with True show ?thesis unfolding def Some option.case f0(3) bindE_Inr mc_view_simps by simp
    next
      case False
      then have "active_dim d s (dim_id x) \<noteq> None" if "mc_dims_of d0 m0 s = Some x" for s x
        using mc_dims_of_idD [OF f0(2) that] by metis
      then obtain L where L: "lock_reference_update_dimensions d (mc_dims_of d0 m0) changes ORDER = Inr (L, invalid_fields d changes ORDER)"
        "\<And>s j. j \<in> slot_ids (mc_dims_of d0 m0 s) (changes s) \<Longrightarrow> map_of (L s) j = active_dim d s j"
        using lock_update_ok [OF enf distinct_ORDER, of "mc_dims_of d0 m0" changes] by auto
      show ?thesis
      proof (cases "\<exists>m. ?find d = Some m \<and> m_version m = m_version m0 \<and> m_refs m = m_refs m0")
        case no: False
        then show ?thesis
          unfolding def Some option.case if_not_P [OF False] f0(3) bindE_Inr mc_view_simps L prod.case
          using same by (auto split: option.splits)
      next
        case True
        then obtain m where m: "?find d = Some m" "m_version m = m_version m0" "m_refs m = m_refs m0" by blast
        then have md: "m \<in> set (mc_rows d)" "m_deleted m = None" by (auto simp: find_Some_iff)
        have cur: "(\<lambda>s. case m_refs m s of None \<Rightarrow> None | Some j \<Rightarrow> map_of (L s) j) = mc_dims_of d m"
          by (rule current_locked [OF inv(2) md f0(2) m(3)]) (erule L(2))
        have nxt: "(\<lambda>s. resolve_reference_update_slot (mc_dims_of d m s) (changes s) (L s)) = next_dims d changes m"
          by (rule resolved_locked) (erule L(2))
        show ?thesis
          unfolding def Some option.case if_not_P [OF False] f0(3) bindE_Inr mc_view_simps L(1) prod.case m(1) cur
            mc_row_facts(5,6) [OF inv(2) md(1)] nxt references_body [OF inv(2) md]
          using same m by simp
      qed
    qed
  qed
qed



section \<open>Codes and references determine each other\<close>

lemma mc_dims_of_active:
  assumes "enforced d" "\<And>s x. n s = Some x \<Longrightarrow> active_dim d s (dim_id x) = Some x" "m_refs m = (\<lambda>s. map_option dim_id (n s))"
  shows "mc_dims_of d m = n"
proof
  fix s show "mc_dims_of d m s = n s"
  proof (cases "n s")
    case None
    then show ?thesis using assms(3) by (simp add: mc_dims_of_def joined_row_def)
  next
    case (Some x)
    then obtain r where r: "r \<in> set (dim_rows d s)" "r_id r = dim_id x" "x = row_dim s r"
      using assms(2) active_dim_Some [OF assms(1)] by blast
    then have "dim_by_id (dim_id x) (dim_rows d s) = Some r"
      using dim_by_id_unique [of "dim_rows d s" r] enforcedD(1) [OF assms(1), of s] by (simp add: dims_ok_def)
    with Some r assms(3) show ?thesis by (simp add: mc_dims_of_def joined_row_def)
  qed
qed

lemma compose_determines_references:
  assumes enf: "enforced d" and n: "dims_wf n" "\<And>s x. n s = Some x \<Longrightarrow> active_dim d s (dim_id x) = Some x"
    and y: "mc_references_check d y" "compose (mc_dims_of d y) = compose n"
  shows "m_refs y = (\<lambda>s. map_option dim_id (n s))"
proof
  fix s
  have "map_option dim_code \<circ> mc_dims_of d y = map_option dim_code \<circ> n"
    by (rule compose_inject [OF y(2) dims_wf_of [OF enf] n(1)])
  then have code: "map_option dim_code (mc_dims_of d y s) = map_option dim_code (n s)" by (metis comp_apply)
  show "m_refs y s = map_option dim_id (n s)"
  proof (cases "n s")
    case None
    then show ?thesis using code mc_dims_of_ids [OF y(1), of s] by simp
  next
    case (Some x)
    obtain r where r: "r \<in> set (dim_rows d s)" "r_id r = dim_id x" "x = row_dim s r"
      using n(2) [OF Some] active_dim_Some [OF enf] by blast
    obtain q where q: "joined_row d y s = Some q" "r_code q = r_code r"
      using code Some r(3) by (auto simp: mc_dims_of_def)
    have "q = r"
      using joined_row_in [OF q(1)] r(1) q(2) enforcedD(1) [OF enf, of s] distinct_map_filter_unique [of r_code "dim_rows d s" q r]
      by (simp add: dims_ok_def)
    then show ?thesis using joined_row_in [OF q(1)] Some r(2) by simp
  qed
qed


section \<open>Outcomes of the locked part\<close>

lemma references_locked_success:
  assumes inv: "db_inv d" and m: "m \<in> set (mc_rows d)" "m_deleted m = None"
    and ok: "references_locked changes et audit e d m = Inr (x, d')"
  defines "n \<equiv> next_dims d changes m"
  shows "db_inv d'" "etag (mc_view d m) = et"
    "(x = mc_view d m \<and> d' = d \<and> (\<lambda>s. map_option dim_id (n s)) = m_refs m)
     \<or> (x = mc_view d' (reference_row e n m) \<and> mc_rows d' = put_mc (reference_row e n m) (mc_rows d) \<and> dim_rows d' = dim_rows d)"
proof -
  have enf: "enforced d" using inv by (simp add: db_inv_def)
  note nf = next_dims_facts [OF inv m, of changes, folded n_def]
  show "etag (mc_view d m) = et" using ok by (simp add: references_locked_def split: if_splits)
  have "db_inv d' \<and> ((x = mc_view d m \<and> d' = d \<and> (\<lambda>s. map_option dim_id (n s)) = m_refs m)
     \<or> (x = mc_view d' (reference_row e n m) \<and> mc_rows d' = put_mc (reference_row e n m) (mc_rows d) \<and> dim_rows d' = dim_rows d))"
  proof (cases "(\<lambda>s. map_option dim_id (n s)) = m_refs m")
    case True
    then show ?thesis using ok inv by (auto simp: references_locked_def n_def [symmetric] split: if_splits)
  next
    case False
    then have upd: "mc_update \<lparr>ctx_meta = audit, ctx_time = mc_time e m\<rparr> (reference_row e n m) d = Inr d'"
      and x: "x = master_code_of (reference_row e n m) n"
      using ok by (auto simp: references_locked_def n_def [symmetric] bindE_eq_Inr split: if_splits)
    have dims: "mc_dims_of d (reference_row e n m) = n"
      by (rule mc_dims_of_active [OF enf nf(3)]) simp_all
    note u = mc_update_inv [OF inv m(1) _ upd]
    have "db_inv d'" "mc_rows d' = put_mc (reference_row e n m) (mc_rows d)" "dim_rows d' = dim_rows d"
      using u nf(2) dims by simp_all
    moreover have "mc_dims_of d' (reference_row e n m) = n"
      using mc_dims_of_cong [OF \<open>dim_rows d' = dim_rows d\<close> refl] dims by simp
    ultimately show ?thesis using x by (simp add: mc_view_def)
  qed
  then show "db_inv d'" "(x = mc_view d m \<and> d' = d \<and> (\<lambda>s. map_option dim_id (n s)) = m_refs m)
     \<or> (x = mc_view d' (reference_row e n m) \<and> mc_rows d' = put_mc (reference_row e n m) (mc_rows d) \<and> dim_rows d' = dim_rows d)"
    by blast+
qed

lemma references_locked_outcome:
  fixes changes :: reference_update
  assumes inv: "db_inv d" and m: "m \<in> set (mc_rows d)" "m_deleted m = None" "etag (mc_view d m) = et"
    and audit: "context_ok audit" "op_master_code (operations audit) = Some MC_REFERENCE_UPDATE"
    and int4: "int4 (m_version m + 1)"
  defines "n \<equiv> next_dims d changes m"
  assumes new: "(\<lambda>s. map_option dim_id (n s)) \<noteq> m_refs m"
  shows "if (\<lambda>s. map_option dim_id (n s)) \<in> m_refs ` set (mc_rows d)
    then translate_reference_error (references_locked changes et audit e d m) = Inl MasterCodeConflict
    else \<exists>x d'. references_locked changes et audit e d m = Inr (x, d')"
proof -
  have enf: "enforced d" using inv by (simp add: db_inv_def)
  note nf = next_dims_facts [OF inv m(1,2), of changes, folded n_def] and f = mc_row_facts [OF inv m(1)]
  let ?m = "reference_row e n m" and ?ctx = "\<lparr>ctx_meta = audit, ctx_time = mc_time e m\<rparr>"
  have code: "m_code y = compose (mc_dims_of d y)" if "y \<in> set (mc_rows d)" for y
    using that inv by (simp add: db_inv_def coherent_def)
  have det: "m_code y = compose n \<longleftrightarrow> m_refs y = (\<lambda>s. map_option dim_id (n s))" if "y \<in> set (mc_rows d)" for y
    using compose_determines_references [OF enf nf(1,3) mc_row_facts(2) [OF inv that]] mc_dims_of_active [OF enf nf(3)]
      code [OF that] by auto
  have before: "mc_before_update ?ctx m ?m = Inr ()"
    using m(2) new audit(2) det [OF m(1)] by (auto simp: mc_before_update_def context_okD audit(1) mc_time_def)
  have check: "mc_row_check ?m"
    using f(1) code_parts_compose [OF nf(1)] m(2) by (auto simp: mc_row_check_def mc_row_ok_def times_check_def mc_time_def)
  have refs: "mc_references_check d ?m"
  proof -
    have "dim_by_id (dim_id x) (dim_rows d s) \<noteq> None" if "n s = Some x" for s x
      using nf(3) [OF that] by (auto simp: active_dim_Some [OF enf] dim_by_id_None)
    then show ?thesis by (auto simp: mc_references_check_def split: option.splits)
  qed
  have body: "references_locked changes et audit e d m = bindE (mc_update ?ctx ?m d) (\<lambda>d'. Inr (master_code_of ?m n, d'))"
    using m(3) new by (simp add: references_locked_def n_def [symmetric])
  show ?thesis
  proof (cases "(\<lambda>s. map_option dim_id (n s)) \<in> m_refs ` set (mc_rows d)")
    case True
    then obtain y where y: "y \<in> set (mc_rows d)" "m_refs y = (\<lambda>s. map_option dim_id (n s))" by force
    have "m_id y \<noteq> m_id m" using y new m(1) mc_row_facts(7) [OF inv] by (metis option.inject)
    moreover have "m_code y = m_code ?m" using det [OF y(1)] y(2) by simp
    ultimately have "mc_unique_check ?m (filter (\<lambda>x. m_id x \<noteq> m_id ?m) (mc_rows d)) = Inl (IntegrityError (Some uq_master_codes_code))"
      using y(1) by (force simp: mc_unique_check_def)
    then have "mc_update ?ctx ?m d = Inl (IntegrityError (Some uq_master_codes_code))"
      using f(7) before check int4 by (simp add: mc_update_def)
    then show ?thesis using True by (simp add: body translate_reference_error_def)
  next
    case False
    then have "m_refs y \<noteq> m_refs ?m \<and> m_code y \<noteq> m_code ?m" if "y \<in> set (mc_rows d)" for y
      using det [OF that] that by (auto simp: image_iff)
    then obtain d' where "mc_update ?ctx ?m d = Inr d'"
      using mc_update_succeeds [OF enf m(1) _ before _ check refs] int4 by auto
    then show ?thesis using False by (simp add: body)
  qed
qed

end
