(* ===== verification/MasterCode_Creation.thy ===== *)
theory MasterCode_Creation
  imports MasterCode_References
begin

text \<open>
  Creation of MasterCodes with ordered resolution of the eight slots: what the loop over the
  slots computes, when it succeeds, and what a successful creation leaves in the database.
\<close>

definition plan_valid :: "create_plan \<Rightarrow> bool" where
  "plan_valid plan \<longleftrightarrow> (\<forall>s c v. plan s = InlineDimension c v \<longrightarrow> valid_code c \<and> valid_value v \<and> value_slot v = s)"

definition inline_row :: "mc_env \<Rightarrow> int \<Rightarrow> slot \<Rightarrow> pystr \<Rightarrow> dim_value \<Rightarrow> dim_row" where
  "inline_row e t s c v = \<lparr>r_id = env_dim_id e s, r_code = c, r_value = record_value v, r_version = 1,
     r_created = t, r_updated = t, r_deleted = None\<rparr>"

definition plan_conflict :: "db \<Rightarrow> create_plan \<Rightarrow> slot \<Rightarrow> bool" where
  "plan_conflict d plan s =
     (case plan s of InlineDimension c v \<Rightarrow> find_inline_conflicts d s c v \<noteq> (False, False) | _ \<Rightarrow> False)"

definition planned :: "db \<Rightarrow> create_plan \<Rightarrow> mc_env \<Rightarrow> int \<Rightarrow> slot \<Rightarrow> dimension option" where
  "planned d plan e t s =
     (case plan s of
        NotApplicable \<Rightarrow> None
      | ExistingDimension i \<Rightarrow> active_dim d s i
      | InlineDimension c v \<Rightarrow> Some (row_dim s (inline_row e t s c v)))"

definition invalid_plan :: "db \<Rightarrow> create_plan \<Rightarrow> slot list \<Rightarrow> string list" where
  "invalid_plan d plan ss = map (\<lambda>s. ''dimensions.'' @ slot_name s @ ''.id'')
     (filter (\<lambda>s. case plan s of ExistingDimension i \<Rightarrow> active_dim d s i = None | _ \<Rightarrow> False) ss)"

definition inline_rows :: "create_plan \<Rightarrow> mc_env \<Rightarrow> int \<Rightarrow> slot \<Rightarrow> dim_row list" where
  "inline_rows plan e t s = (case plan s of InlineDimension c v \<Rightarrow> [inline_row e t s c v] | _ \<Rightarrow> [])"

lemma inline_row_ok:
  assumes "valid_code c" "valid_value v" "value_slot v = s"
  shows "row_ok s (inline_row e t s c v)"
  using assms record_value_inverse(1) [OF assms(2,3)]
  by (cases c) (auto simp: row_ok_def dim_row_check_def inline_row_def valid_code_def times_check_def code_pattern_def)

lemma find_inline_conflicts_eq:
  "find_inline_conflicts d s c v = (c \<in> r_code ` set (dim_rows d s),
     value_key (record_value v) \<in> (value_key \<circ> r_value) ` set (dim_rows d s))"
  by (auto simp: find_inline_conflicts_def Let_def image_iff eq_commute [of "value_key (record_value v)"])

lemma lock_reference_eq: "enforced d \<Longrightarrow> lock_reference d s i = Inr (active_dim d s i)"
  by (cases "find (\<lambda>r. r_id r = i \<and> r_deleted r = None) (dim_rows d s)")
     (auto simp: lock_reference_def active_dim_def row_ok_wf(3) [OF row_ok_table] dest!: find_active)

lemma create_inline_eq:
  assumes "valid_code c" "valid_value v" "value_slot v = s"
  shows "create_inline ctx s c v (env_dim_id e s) d =
    (if find_inline_conflicts d s c v \<noteq> (False, False)
     then Inl (InlineDimensionConflict s (fst (find_inline_conflicts d s c v)) (snd (find_inline_conflicts d s c v)))
     else bindE (dim_insert ctx s (inline_row e (ctx_time ctx) s c v) d) (\<lambda>d'.
       Inr (row_dim s (inline_row e (ctx_time ctx) s c v), d')))"
  using row_ok_wf(3) [OF inline_row_ok [OF assms], of e "ctx_time ctx"]
  by (cases "find_inline_conflicts d s c v") (auto simp: create_inline_def inline_row_def [symmetric] Let_def)

text \<open>Resolving one slot does not change what the other slots see.\<close>

lemma other_slot_cong:
  assumes "dim_rows d' s = dim_rows d s"
  shows "planned d' plan e t s = planned d plan e t s" "plan_conflict d' plan s = plan_conflict d plan s"
    "active_dim d' s j = active_dim d s j"
  using assms by (auto simp: planned_def plan_conflict_def active_dim_def find_inline_conflicts_def cong: selection.case_cong)

lemma invalid_plan_cong:
  "(\<And>s. s \<in> set ss \<Longrightarrow> dim_rows d' s = dim_rows d s) \<Longrightarrow> invalid_plan d' plan ss = invalid_plan d plan ss"
  unfolding invalid_plan_def by (intro arg_cong [where f = "map _"] filter_cong) (auto simp: active_dim_def split: selection.splits)

lemma slot_NotApplicable:
  assumes "plan s = NotApplicable"
  shows "planned d plan e t s = None" "\<not> plan_conflict d plan s" "inline_rows plan e t s = []"
    "invalid_plan d plan (s # ss) = invalid_plan d plan ss"
  using assms by (simp_all add: planned_def plan_conflict_def inline_rows_def invalid_plan_def)

lemma slot_ExistingDimension:
  assumes "plan s = ExistingDimension i"
  shows "planned d plan e t s = active_dim d s i" "\<not> plan_conflict d plan s" "inline_rows plan e t s = []"
    "invalid_plan d plan (s # ss) =
      (if active_dim d s i = None then [''dimensions.'' @ slot_name s @ ''.id''] else []) @ invalid_plan d plan ss"
  using assms by (simp_all add: planned_def plan_conflict_def inline_rows_def invalid_plan_def)

lemma slot_InlineDimension:
  assumes "plan s = InlineDimension c v"
  shows "planned d plan e t s = Some (row_dim s (inline_row e t s c v))"
    "plan_conflict d plan s \<longleftrightarrow> find_inline_conflicts d s c v \<noteq> (False, False)"
    "inline_rows plan e t s = [inline_row e t s c v]" "invalid_plan d plan (s # ss) = invalid_plan d plan ss"
  using assms by (simp_all add: planned_def plan_conflict_def inline_rows_def invalid_plan_def)

text \<open>What the loop has done when it ends: the resolved slots, the invalid fields and the inserted rows.\<close>

definition resolved ::
    "create_plan \<Rightarrow> mc_env \<Rightarrow> int \<Rightarrow> slot list \<Rightarrow> db \<Rightarrow> master_code_dimensions \<Rightarrow> string list
       \<Rightarrow> master_code_dimensions \<Rightarrow> string list \<Rightarrow> db \<Rightarrow> bool" where
  "resolved plan e t ss d res bad res' bad' d' \<longleftrightarrow>
     db_inv d' \<and> mc_rows d' = mc_rows d \<and> bad' = bad @ invalid_plan d plan ss
     \<and> res' = (\<lambda>s. if s \<in> set ss then planned d plan e t s else res s)
     \<and> dim_rows d' = (\<lambda>s. dim_rows d s @ (if s \<in> set ss then inline_rows plan e t s else []))
     \<and> (\<forall>s \<in> set ss. \<not> plan_conflict d plan s)"

lemma resolved_inline:
  assumes "plan s = InlineDimension c v" "find_inline_conflicts d s c v = (False, False)" "s \<notin> set ss"
    and "dim_rows d1 = (dim_rows d)(s := dim_rows d s @ [inline_row e t s c v])" "mc_rows d1 = mc_rows d"
    and "resolved plan e t ss d1 (res(s := Some (row_dim s (inline_row e t s c v)))) bad res' bad' d'"
  shows "resolved plan e t (s # ss) d res bad res' bad' d'"
proof -
  have other: "\<And>u. u \<in> set ss \<Longrightarrow> dim_rows d1 u = dim_rows d u" using assms(3,4) by auto
  show ?thesis
    using assms(3-6) other_slot_cong(1,2) [OF other] invalid_plan_cong [OF other]
    by (auto simp: resolved_def fun_eq_iff slot_InlineDimension [where plan = plan and s = s, OF assms(1)] assms(2))
qed

lemma resolve_success:
  assumes "db_inv d" "plan_valid plan" "distinct ss" "\<forall>s \<in> set ss. res s = None"
    and "resolve_slots ctx plan e ss res bad d = Inr (res', bad', d')"
  shows "resolved plan e (ctx_time ctx) ss d res bad res' bad' d'"
  using assms
proof (induction ss arbitrary: res bad d)
  case Nil
  then show ?case by (simp add: resolved_def invalid_plan_def)
next
  case (Cons s ss)
  have enf: "enforced d" using Cons.prems(1) by (simp add: db_inv_def)
  have ss: "distinct ss" "s \<notin> set ss" "res s = None" "\<forall>s \<in> set ss. res s = None" using Cons.prems(3,4) by auto
  show ?case
  proof (cases "plan s")
    case (ExistingDimension i)
    let ?res = "res(s := active_dim d s i)"
    let ?bad = "bad @ (if active_dim d s i = None then [''dimensions.'' @ slot_name s @ ''.id''] else [])"
    have "res(s := None) = res" using ss(3) by (simp add: fun_upd_idem)
    then have "resolve_slots ctx plan e ss ?res ?bad d = Inr (res', bad', d')"
      using Cons.prems(5) ExistingDimension lock_reference_eq [OF enf, of s i] by (auto split: option.splits)
    from Cons.IH [OF Cons.prems(1,2) ss(1) _ this] ss show ?thesis
      by (auto simp: resolved_def fun_eq_iff slot_ExistingDimension [where plan = plan and s = s, OF ExistingDimension])
  next
    case (InlineDimension c v)
    have valid: "valid_code c" "valid_value v" "value_slot v = s"
      using Cons.prems(2) InlineDimension by (auto simp: plan_valid_def)
    let ?r = "inline_row e (ctx_time ctx) s c v"
    obtain d1 where d1: "dim_insert ctx s ?r d = Inr d1" "find_inline_conflicts d s c v = (False, False)"
      and rest: "resolve_slots ctx plan e ss (res(s := Some (row_dim s ?r))) bad d1 = Inr (res', bad', d')"
      using Cons.prems(5) InlineDimension create_inline_eq [OF valid, of ctx e d]
      by (auto simp: bindE_eq_Inr split: if_splits)
    have d1r: "dim_rows d1 = (dim_rows d)(s := dim_rows d s @ [?r])" "mc_rows d1 = mc_rows d"
      using dim_insert_result(1) [OF d1(1)] by simp_all
    have inv1: "db_inv d1"
      using Cons.prems(1) enforced_dim_insert [OF enf d1(1)] coherent_dim_insert [OF enf _ d1(1)] by (simp add: db_inv_def)
    have "\<forall>u \<in> set ss. (res(s := Some (row_dim s ?r))) u = None" using ss by auto
    from resolved_inline [where plan = plan and s = s, OF InlineDimension d1(2) ss(2) d1r Cons.IH [OF inv1 Cons.prems(2) ss(1) this rest]] show ?thesis .
  next
    case NotApplicable
    have "res(s := None) = res" using ss(3) by (simp add: fun_upd_idem)
    then have "resolve_slots ctx plan e ss res bad d = Inr (res', bad', d')" using Cons.prems(5) NotApplicable by simp
    from Cons.IH [OF Cons.prems(1,2) ss(1,4) this] ss(2,3) show ?thesis
      by (auto simp: resolved_def fun_eq_iff slot_NotApplicable [where plan = plan and s = s, OF NotApplicable])
  qed
qed


section \<open>When the loop succeeds\<close>

text \<open>The request can be carried out: new identifiers, and the operation announced to the database.\<close>

definition plan_ready :: "audit_metadata \<Rightarrow> create_plan \<Rightarrow> mc_env \<Rightarrow> db \<Rightarrow> slot list \<Rightarrow> bool" where
  "plan_ready audit plan e d ss \<longleftrightarrow> context_ok audit \<and> plan_valid plan \<and> distinct ss
     \<and> (\<forall>s \<in> set ss. inline_rows plan e 0 s \<noteq> [] \<longrightarrow>
          op_dimension (operations audit) = Some DIM_CREATE \<and> env_dim_id e s \<notin> r_id ` set (dim_rows d s))"

lemma plan_ready_tl: "plan_ready audit plan e d (s # ss) \<Longrightarrow> plan_ready audit plan e d ss"
  by (simp add: plan_ready_def)

lemma inline_insert:
  assumes inv: "db_inv d" and ready: "plan_ready (ctx_meta ctx) plan e d (s # ss)"
    and s: "plan s = InlineDimension c v" "\<not> plan_conflict d plan s"
  obtains d1 where "dim_insert ctx s (inline_row e (ctx_time ctx) s c v) d = Inr d1" "db_inv d1" "mc_rows d1 = mc_rows d"
    "dim_rows d1 = (dim_rows d)(s := dim_rows d s @ [inline_row e (ctx_time ctx) s c v])"
    "plan_ready (ctx_meta ctx) plan e d1 ss" "\<And>u. u \<in> set ss \<Longrightarrow> dim_rows d1 u = dim_rows d u"
proof -
  have enf: "enforced d" using inv by (simp add: db_inv_def)
  let ?r = "inline_row e (ctx_time ctx) s c v"
  have ok: "row_ok s ?r" using ready s(1) by (intro inline_row_ok) (auto simp: plan_ready_def plan_valid_def)
  have op: "context_ok (ctx_meta ctx)" "op_dimension (operations (ctx_meta ctx)) = Some DIM_CREATE"
    "env_dim_id e s \<notin> r_id ` set (dim_rows d s)" "s \<notin> set ss"
    using ready slot_InlineDimension(3) [where plan = plan and s = s, OF s(1)] by (auto simp: plan_ready_def)
  have free: "find_inline_conflicts d s c v = (False, False)"
    using s(2) slot_InlineDimension(2) [where plan = plan and s = s, OF s(1)] by simp
  obtain d1 where d1: "dim_insert ctx s ?r d = Inr d1"
    using dim_insert_succeeds [OF enf op(1,2) ok] op(3) free
    by (auto simp: find_inline_conflicts_eq) (auto simp: inline_row_def)
  have rows: "dim_rows d1 = (dim_rows d)(s := dim_rows d s @ [?r])" "mc_rows d1 = mc_rows d"
    using dim_insert_result(1) [OF d1] by simp_all
  have "db_inv d1"
    using inv enforced_dim_insert [OF enf d1] coherent_dim_insert [OF enf _ d1] by (simp add: db_inv_def)
  moreover have other: "dim_rows d1 u = dim_rows d u" if "u \<in> set ss" for u using that op(4) rows by auto
  moreover have "plan_ready (ctx_meta ctx) plan e d1 ss" using ready other by (simp add: plan_ready_def)
  ultimately show thesis using that d1 rows by blast
qed

lemma resolve_total:
  assumes "db_inv d" "plan_ready (ctx_meta ctx) plan e d ss" "\<forall>s \<in> set ss. \<not> plan_conflict d plan s"
  shows "\<exists>y. resolve_slots ctx plan e ss res bad d = Inr y"
  using assms
proof (induction ss arbitrary: res bad d)
  case (Cons s ss)
  have enf: "enforced d" using Cons.prems(1) by (simp add: db_inv_def)
  have IH: "\<exists>y. resolve_slots ctx plan e ss r b d = Inr y" for r b
    using Cons.IH [OF Cons.prems(1) plan_ready_tl [OF Cons.prems(2)]] Cons.prems(3) by simp
  show ?case
  proof (cases "plan s")
    case (InlineDimension c v)
    obtain d1 where d1: "dim_insert ctx s (inline_row e (ctx_time ctx) s c v) d = Inr d1" "db_inv d1"
      "plan_ready (ctx_meta ctx) plan e d1 ss" "\<And>u. u \<in> set ss \<Longrightarrow> dim_rows d1 u = dim_rows d u"
      by (rule inline_insert [OF Cons.prems(1,2) InlineDimension]) (use Cons.prems(3) in auto)
    have "\<forall>u \<in> set ss. \<not> plan_conflict d1 plan u"
      using Cons.prems(3) other_slot_cong(2) [OF d1(4)] by simp
    then have "\<exists>y. resolve_slots ctx plan e ss r b d1 = Inr y" for r b by (rule Cons.IH [OF d1(2,3)])
    moreover have "valid_code c" "valid_value v" "value_slot v = s"
      using Cons.prems(2) InlineDimension by (auto simp: plan_ready_def plan_valid_def)
    moreover have "find_inline_conflicts d s c v = (False, False)"
      using Cons.prems(3) slot_InlineDimension(2) [where plan = plan and s = s, OF InlineDimension] by simp
    ultimately show ?thesis using InlineDimension d1(1) by (simp add: create_inline_eq)
  qed (use IH in \<open>auto simp: lock_reference_eq [OF enf] split: option.splits\<close>)
qed simp

lemma resolve_append:
  "resolve_slots ctx plan e (xs @ ys) res bad d =
    bindE (resolve_slots ctx plan e xs res bad d) (\<lambda>(r, b, d'). resolve_slots ctx plan e ys r b d')"
proof (induction xs arbitrary: res bad d)
  case (Cons s xs)
  then show ?case
    by (auto simp: bindE_assoc fun_upd_def intro!: bindE_cong split: selection.splits option.splits)
qed simp

lemma resolve_conflict:
  assumes inv: "db_inv d" and ready: "plan_ready (ctx_meta ctx) plan e d (pre @ s # post)" "\<forall>s \<in> set (pre @ s # post). res s = None"
    and pre: "\<forall>u \<in> set pre. \<not> plan_conflict d plan u" and s: "plan s = InlineDimension c v" "plan_conflict d plan s"
  shows "resolve_slots ctx plan e (pre @ s # post) res bad d = Inl (InlineDimensionConflict s
    (c \<in> r_code ` set (dim_rows d s)) (value_key (record_value v) \<in> (value_key \<circ> r_value) ` set (dim_rows d s)))"
proof -
  have dist: "distinct pre" "s \<notin> set pre" and valid: "plan_valid plan"
    and pr: "plan_ready (ctx_meta ctx) plan e d pre"
    using ready by (auto simp: plan_ready_def)
  obtain r b d1 where d1: "resolve_slots ctx plan e pre res bad d = Inr (r, b, d1)"
    using resolve_total [OF inv pr pre] by (metis prod_cases3)
  have "resolved plan e (ctx_time ctx) pre d res bad r b d1"
    by (rule resolve_success [OF inv valid dist(1) _ d1]) (use ready(2) in simp)
  then have rows: "dim_rows d1 s = dim_rows d s" using dist(2) by (simp add: resolved_def)
  have v: "valid_code c" "valid_value v" "value_slot v = s" using valid s(1) by (auto simp: plan_valid_def)
  have "find_inline_conflicts d s c v \<noteq> (False, False)"
    using s(2) slot_InlineDimension(2) [where plan = plan and s = s, OF s(1)] by simp
  then show ?thesis
    unfolding resolve_append d1 bindE_Inr prod.case
    by (simp add: s(1) create_inline_eq [OF v]) (auto simp: find_inline_conflicts_eq rows)
qed


section \<open>Creation\<close>

lemma mc_insert_inv:
  assumes inv: "db_inv d" and ins: "mc_insert ctx m d = Inr d'"
    and m: "m_code m = compose (mc_dims_of d m)" "all_active (mc_dims_of d m)"
  shows "db_inv d'" "mc_rows d' = mc_rows d @ [m]" "dim_rows d' = dim_rows d"
proof -
  show rows: "mc_rows d' = mc_rows d @ [m]" "dim_rows d' = dim_rows d" using mc_insert_result(1) [OF ins] by simp_all
  have "mc_dims_of d' x = mc_dims_of d x" for x by (rule mc_dims_of_cong [OF rows(2) refl])
  then have "coherent d'" using inv m by (auto simp: coherent_def db_inv_def rows(1))
  then show "db_inv d'" using inv enforced_mc_insert [OF _ ins] by (simp add: db_inv_def)
qed

lemma resolved_dims:
  assumes inv: "db_inv d" and valid: "plan_valid plan"
    and res: "resolved plan e t ORDER d (\<lambda>_. None) [] dims bad d'"
  shows "dims s = Some x \<Longrightarrow> active_dim d' s (dim_id x) = Some x" "dims_wf dims" "all_active dims"
    "master_code_dimensions_init dims = Inr dims"
proof -
  have enf: "enforced d" "enforced d'" using inv res by (simp_all add: db_inv_def resolved_def)
  have dims: "dims = planned d plan e t"
    and rows: "dim_rows d' = (\<lambda>s. dim_rows d s @ inline_rows plan e t s)"
    using res by (simp_all add: resolved_def)
  show act: "dims s = Some x \<Longrightarrow> active_dim d' s (dim_id x) = Some x" for s x
  proof (cases "plan s")
    case (ExistingDimension i)
    assume "dims s = Some x"
    then have "active_dim d s i = Some x" by (simp add: dims slot_ExistingDimension(1) [where plan = plan and s = s, OF ExistingDimension])
    moreover have "dim_rows d' s = dim_rows d s"
      by (simp add: rows slot_ExistingDimension(3) [where plan = plan and s = s, OF ExistingDimension])
    moreover have "dim_id x = i" using \<open>active_dim d s i = Some x\<close> by (auto simp: active_dim_Some [OF enf(1)])
    ultimately show ?thesis using other_slot_cong(3) [of d' s d i] by simp
  next
    case (InlineDimension c v)
    assume "dims s = Some x"
    then show ?thesis
      by (auto simp: dims slot_InlineDimension(1,3) [where plan = plan and s = s, OF InlineDimension] active_dim_Some [OF enf(2)]
          rows inline_row_def)
  next
    case NotApplicable
    assume "dims s = Some x"
    then show ?thesis by (simp add: dims slot_NotApplicable(1) [where plan = plan and s = s, OF NotApplicable])
  qed
  have row: "dim_deleted_at x = None \<and> dimension_wf x \<and> value_slot (dim_val x) = s" if n: "dims s = Some x" for s x
  proof -
    obtain r where r: "r \<in> set (dim_rows d' s)" "r_deleted r = None" "x = row_dim s r"
      using act [OF n] by (auto simp: active_dim_Some [OF enf(2)])
    with row_ok_wf(1,2) [OF row_ok_table [OF enf(2) r(1)]] show ?thesis by simp
  qed
  show "dims_wf dims" "all_active dims" using row by (simp_all add: dims_wf_def all_active_def)
  then show "master_code_dimensions_init dims = Inr dims" by (auto simp: res_simps dims_wf_def)
qed

lemma translate_integrity_eq_Inr [res_simps]: "translate_integrity_error plan d r = Inr y \<longleftrightarrow> r = Inr y"
  by (auto simp: translate_integrity_error_def split: sum.splits exn.splits option.splits)

lemma new_mc_row_view:
  assumes inv: "db_inv d" "plan_valid plan" and res: "resolved plan e t ORDER d (\<lambda>_. None) [] dims bad d1"
  shows "mc_dims_of d1 (new_mc_row e t dims) = dims" "row_master_code (new_mc_row e t dims) dims = Inr (mc_view d1 (new_mc_row e t dims))"
    "mc_row_check (new_mc_row e t dims)" "mc_references_check d1 (new_mc_row e t dims)"
proof -
  note r = resolved_dims [OF inv res]
  have enf: "enforced d1" using res by (simp add: resolved_def db_inv_def)
  show dims: "mc_dims_of d1 (new_mc_row e t dims) = dims"
    by (rule mc_dims_of_active [OF enf r(1)]) (simp_all add: new_mc_row_def)
  have "master_code_times (mc_view d1 (new_mc_row e t dims))"
    by (simp add: master_code_times_def state_times_def new_mc_row_def)
  then show "row_master_code (new_mc_row e t dims) dims = Inr (mc_view d1 (new_mc_row e t dims))"
    using r(3) by (simp add: row_master_code_def master_code_init_eq_Inr dims mc_view_def)
       (simp add: new_mc_row_def master_code_times_def)
  show "mc_row_check (new_mc_row e t dims)"
    using code_parts_compose [OF r(2)] by (simp add: mc_row_check_def new_mc_row_def times_check_def)
  have "dim_by_id (dim_id x) (dim_rows d1 s) \<noteq> None" if "dims s = Some x" for s x
    using r(1) [OF that] by (auto simp: active_dim_Some [OF enf] dim_by_id_None)
  then show "mc_references_check d1 (new_mc_row e t dims)"
    by (auto simp: mc_references_check_def new_mc_row_def split: option.splits)
qed

lemma mc_create_success:
  assumes inv: "db_inv d" "plan_valid plan" and ok: "mc_create plan audit e d = Inr (x, d')"
  defines "dims \<equiv> planned d plan e (env_clock e)"
  shows "db_inv d'" "x = mc_view d' (new_mc_row e (env_clock e) dims)" "invalid_plan d plan ORDER = []"
    "mc_rows d' = mc_rows d @ [new_mc_row e (env_clock e) dims]"
    "dim_rows d' = (\<lambda>s. dim_rows d s @ inline_rows plan e (env_clock e) s)"
    "mc_dims x = dims"
proof -
  let ?ctx = "\<lparr>ctx_meta = audit, ctx_time = env_clock e\<rparr>"
  obtain res bad d1 where res: "resolve_slots ?ctx plan e ORDER (\<lambda>_. None) [] d = Inr (res, bad, d1)"
    and rest: "(if bad \<noteq> [] then Inl (InvalidDimensionReference bad)
       else bindE (master_code_dimensions_init res) (\<lambda>dims.
         let m = new_mc_row e (env_clock e) dims
         in bindE (mc_insert ?ctx m d1) (\<lambda>d2. bindE (row_master_code m dims) (\<lambda>x. Inr (x, d2))))) = Inr (x, d')"
    using ok unfolding mc_create_def translate_integrity_eq_Inr set_context_eq bindE_Inr mutation_ctx.select_convs
    by (auto simp: bindE_eq_Inr)
  have r: "resolved plan e (env_clock e) ORDER d (\<lambda>_. None) [] res bad d1"
    using resolve_success [OF inv distinct_ORDER _ res] by simp
  then have d1: "db_inv d1" "mc_rows d1 = mc_rows d" "bad = invalid_plan d plan ORDER" "res = dims"
    "dim_rows d1 = (\<lambda>s. dim_rows d s @ inline_rows plan e (env_clock e) s)"
    by (simp_all add: resolved_def dims_def fun_eq_iff)
  note rd = resolved_dims [OF inv r] and v = new_mc_row_view [OF inv r]
  let ?m = "new_mc_row e (env_clock e) dims"
  have ins: "mc_insert ?ctx ?m d1 = Inr d'" and x: "x = mc_view d1 ?m" and bad: "bad = []"
    using rest rd(4) v(2) d1(4) by (auto simp: bindE_eq_Inr Let_def split: if_splits)
  have "m_code ?m = compose (mc_dims_of d1 ?m)" using v(1) d1(4) by (simp add: new_mc_row_def)
  note i = mc_insert_inv [OF d1(1) ins this] and dims' = v(1) [unfolded d1(4)]
  show "db_inv d'" "mc_rows d' = mc_rows d @ [?m]" "dim_rows d' = (\<lambda>s. dim_rows d s @ inline_rows plan e (env_clock e) s)"
    using i rd(3) dims' d1(2,4,5) by simp_all
  show "invalid_plan d plan ORDER = []" using bad d1(3) by simp
  show "x = mc_view d' ?m" using x mc_dims_of_cong [OF mc_insert_inv(3) [OF d1(1) ins], of ?m ?m] rd(3) dims' d1(4)
    by (simp add: mc_view_def new_mc_row_def)
  show "mc_dims x = dims" using x dims' by simp
qed


lemma find_split:
  "find P xs = Some x \<Longrightarrow> \<exists>ys zs. xs = ys @ x # zs \<and> P x \<and> (\<forall>y \<in> set ys. \<not> P y)"
proof (induction xs)
  case (Cons a xs)
  show ?case
  proof (cases "P a")
    case True
    with Cons.prems have "a # xs = [] @ x # xs \<and> P x \<and> (\<forall>y \<in> set []. \<not> P y)" by simp
    then show ?thesis by blast
  next
    case False
    with Cons obtain ys zs where "xs = ys @ x # zs" "P x" "\<forall>y \<in> set ys. \<not> P y" by auto
    with False have "a # xs = (a # ys) @ x # zs \<and> P x \<and> (\<forall>y \<in> set (a # ys). \<not> P y)" by simp
    then show ?thesis by blast
  qed
qed simp

lemma mc_create_insert:
  assumes inv: "db_inv d" "plan_valid plan" and res: "resolved plan e t ORDER d (\<lambda>_. None) [] dims bad d1"
    and ctx: "context_ok audit" "op_master_code (operations audit) = Some MC_CREATE"
    and new: "env_new_id e \<notin> m_id ` set (mc_rows d)"
  defines "m \<equiv> new_mc_row e t dims"
  shows "if m_refs m \<in> m_refs ` set (mc_rows d)
    then mc_insert \<lparr>ctx_meta = audit, ctx_time = t\<rparr> m d1 = Inl (IntegrityError (Some uq_master_codes_code))
    else \<exists>d2. mc_insert \<lparr>ctx_meta = audit, ctx_time = t\<rparr> m d1 = Inr d2"
proof -
  let ?ctx = "\<lparr>ctx_meta = audit, ctx_time = t\<rparr>"
  have d1: "db_inv d1" "mc_rows d1 = mc_rows d" and enf: "enforced d1" using res by (simp_all add: resolved_def db_inv_def)
  note rd = resolved_dims [OF inv res] and v = new_mc_row_view [OF inv res, folded m_def]
  have m: "m_id m = env_new_id e" "m_code m = compose dims" "m_refs m = (\<lambda>s. map_option dim_id (dims s))"
    by (simp_all add: m_def new_mc_row_def)
  have det: "m_code y = m_code m \<longleftrightarrow> m_refs y = m_refs m" if "y \<in> set (mc_rows d)" for y
  proof -
    have y: "mc_references_check d1 y" "m_code y = compose (mc_dims_of d1 y)"
      using mc_row_facts(2) [OF d1(1)] that d1 by (simp_all add: db_inv_def coherent_def)
    show ?thesis
      using compose_determines_references [OF enf rd(2,1) y(1)] mc_dims_of_active [where m = y, OF enf rd(1)] y(2) m(2,3) by auto
  qed
  have before: "mc_before_insert ?ctx m = Inr ()"
    using ctx(2) by (simp add: mc_before_insert_def context_okD ctx(1) m_def new_mc_row_def)
  have id: "m_id m \<notin> m_id ` set (mc_rows d)" using new m(1) by simp
  show ?thesis
  proof (cases "m_refs m \<in> m_refs ` set (mc_rows d)")
    case True
    then obtain y where y: "y \<in> set (mc_rows d)" "m_refs y = m_refs m" by auto
    then have "m_code y = m_code m" using det by blast
    with y(1) have "m_code m \<in> set (map m_code (mc_rows d))" by (metis image_eqI list.set_map)
    then have "mc_unique_check m (mc_rows d1) = Inl (IntegrityError (Some uq_master_codes_code))"
      using id by (simp add: mc_unique_check_def d1(2))
    with True before v(3) show ?thesis by (simp add: mc_insert_def)
  next
    case False
    then have "m_code m \<notin> m_code ` set (mc_rows d)" using det by (metis imageE image_eqI)
    then have "\<exists>d2. mc_insert ?ctx m d1 = Inr d2"
      using mc_insert_succeeds [OF enf before v(3,4)] id False by (simp add: d1(2))
    with False show ?thesis by simp
  qed
qed

lemma mc_create_outcome:
  assumes inv: "db_inv d" and ready: "plan_ready audit plan e d ORDER"
    and op: "op_master_code (operations audit) = Some MC_CREATE" and new: "env_new_id e \<notin> m_id ` set (mc_rows d)"
  shows "case find (plan_conflict d plan) ORDER of
      Some s \<Rightarrow> (\<exists>c v. plan s = InlineDimension c v \<and> mc_create plan audit e d = Inl (InlineDimensionConflict s
        (c \<in> r_code ` set (dim_rows d s)) (value_key (record_value v) \<in> (value_key \<circ> r_value) ` set (dim_rows d s))))
    | None \<Rightarrow>
        if invalid_plan d plan ORDER \<noteq> [] then mc_create plan audit e d = Inl (InvalidDimensionReference (invalid_plan d plan ORDER))
        else if (\<lambda>s. map_option dim_id (planned d plan e (env_clock e) s)) \<in> m_refs ` set (mc_rows d)
        then mc_create plan audit e d = Inl MasterCodeConflict
        else \<exists>x d'. mc_create plan audit e d = Inr (x, d')"
proof -
  let ?ctx = "\<lparr>ctx_meta = audit, ctx_time = env_clock e\<rparr>"
  have valid: "plan_valid plan" and ctx: "context_ok audit" using ready by (simp_all add: plan_ready_def)
  note def = mc_create_def set_context_eq bindE_Inr mutation_ctx.select_convs
  show ?thesis
  proof (cases "find (plan_conflict d plan) ORDER")
    case (Some s)
    obtain pre post where split: "ORDER = pre @ s # post" "plan_conflict d plan s" "\<forall>y \<in> set pre. \<not> plan_conflict d plan y"
      using find_split [OF Some] by blast
    obtain c v where cv: "plan s = InlineDimension c v"
      using split(2) by (auto simp: plan_conflict_def split: selection.splits)
    have "resolve_slots ?ctx plan e ORDER (\<lambda>_. None) [] d = Inl (InlineDimensionConflict s
        (c \<in> r_code ` set (dim_rows d s)) (value_key (record_value v) \<in> (value_key \<circ> r_value) ` set (dim_rows d s)))"
      unfolding split(1) by (rule resolve_conflict [OF inv _ _ split(3) cv split(2)]) (use ready split(1) in simp_all)
    with Some cv show ?thesis unfolding def by (simp add: translate_integrity_error_def)
  next
    case None
    then have "\<forall>s \<in> set ORDER. \<not> plan_conflict d plan s" by (simp add: find_None_iff)
    with ready have "\<exists>y. resolve_slots ?ctx plan e ORDER (\<lambda>_. None) [] d = Inr y"
      by (intro resolve_total [OF inv]) simp_all
    then obtain dims bad d1 where res: "resolve_slots ?ctx plan e ORDER (\<lambda>_. None) [] d = Inr (dims, bad, d1)"
      by (metis prod_cases3)
    have r: "resolved plan e (env_clock e) ORDER d (\<lambda>_. None) [] dims bad d1"
      using resolve_success [OF inv valid distinct_ORDER _ res] by simp
    then have bad: "bad = invalid_plan d plan ORDER" and dims: "dims = planned d plan e (env_clock e)"
      by (simp_all add: resolved_def)
    have refs: "m_refs (new_mc_row e (env_clock e) dims) = (\<lambda>s. map_option dim_id (planned d plan e (env_clock e) s))"
      by (simp add: new_mc_row_def dims)
    show ?thesis
      using mc_create_insert [OF inv valid r ctx op new] resolved_dims(4) [OF inv valid r] new_mc_row_view(2) [OF inv valid r] None
      unfolding def res prod.case bad [symmetric] refs [symmetric]
      by (auto simp: translate_integrity_error_def Let_def)
  qed
qed

end
