(* ===== verification/MasterCode_Properties.thy ===== *)
theory MasterCode_Properties
  imports MasterCode_UseCases MasterCode_Creation
begin

text \<open>
  The MasterCode use cases end to end: exact outcomes of creation, reference update, deletion
  and restoration, and their behaviour when other transactions commit between the first read
  and the locks.
\<close>

section \<open>Reads\<close>

lemma find_active_mc_iff:
  assumes "distinct (map m_id rows)"
  shows "find (\<lambda>m. m_id m = i \<and> m_deleted m = None) rows = Some m \<longleftrightarrow> m \<in> set rows \<and> m_id m = i \<and> m_deleted m = None"
  using assms
proof (induction rows)
  case (Cons a rows)
  then show ?case by (auto simp: image_iff)
qed simp

lemma distinct_mc_ids: "db_inv d \<Longrightarrow> distinct (map m_id (mc_rows d))"
  using enforcedD(3) [of d] by (simp add: db_inv_def mcs_ok_def)

lemma mc_get_active_ok:
  assumes "db_inv d" "m \<in> set (mc_rows d)" "m_deleted m = None"
  shows "mc_get_active (m_id m) d = Inr (mc_view d m)"
  using find_active_mc_iff [OF distinct_mc_ids [OF assms(1)], of "m_id m" m] assms(2,3) mc_row_facts(3) [OF assms(1,2)]
  by (simp add: mc_get_active_def)

lemma mc_get_tombstone_ok:
  assumes "db_inv d" "m \<in> set (mc_rows d)"
  shows "mc_get_tombstone (m_id m) d = (if m_deleted m = None then Inl MasterCodeNotDeleted else Inr (mc_view d m))"
  using mc_row_facts(3,7) [OF assms] by (simp add: mc_get_tombstone_def)

lemma read_allowed: "authorize p MUTATE_DATA = Inr p \<Longrightarrow> authorize p READ_DATA = Inr p"
  by (cases "principal_role p") (auto simp: authorize_def USER_ACTIONS_def ADMIN_ACTIONS_def)


section \<open>Creation\<close>

lemma normalize_slots_valid:
  "\<lbrakk>normalize_slots input ss plan = Inr plan'; plan_valid plan\<rbrakk> \<Longrightarrow> plan_valid plan'"
proof (induction ss arbitrary: plan)
  case (Cons s ss)
  show ?case
  proof (cases "input s")
    case (InlineDimension code v)
    then obtain c w where cw: "dimension_code code = Inr c" "normalize_inline_value s v = Inr w"
      "normalize_slots input ss (plan(s := InlineDimension c w)) = Inr plan'"
      using Cons.prems(1) by (auto simp: slot_error_def bindE_eq_Inr split: sum.splits exn.splits)
    then have "plan_valid (plan(s := InlineDimension c w))"
      using Cons.prems(2) dimension_code_valid normalize_inline_value_valid by (auto simp: plan_valid_def)
    with Cons.IH cw(3) show ?thesis by blast
  next
    case (ExistingDimension i)
    then have "normalize_slots input ss (plan(s := ExistingDimension i)) = Inr plan'" using Cons.prems(1) by simp
    then show ?thesis by (rule Cons.IH) (use Cons.prems(2) in \<open>simp add: plan_valid_def\<close>)
  next
    case NotApplicable
    then have "normalize_slots input ss (plan(s := NotApplicable)) = Inr plan'" using Cons.prems(1) by simp
    then show ?thesis by (rule Cons.IH) (use Cons.prems(2) in \<open>simp add: plan_valid_def\<close>)
  qed
qed simp

lemma normalize_plan_valid: "normalize_plan input = Inr plan \<Longrightarrow> plan_valid plan"
  unfolding normalize_plan_def by (erule normalize_slots_valid) (simp add: plan_valid_def)

lemma has_inline_iff: "has_inline plan \<longleftrightarrow> (\<exists>s. inline_rows plan e t s \<noteq> [])"
  by (auto simp: has_inline_def inline_rows_def split: selection.splits)

lemma last_branch: "\<lbrakk>if a then p else if b then q else r; r \<Longrightarrow> r'\<rbrakk> \<Longrightarrow> if a then p else if b then q else r'"
  by (cases a) (simp_all split: if_splits)

text \<open>C25. The outcome of creating a MasterCode from a normalized plan is fully determined: the
  first inline Dimension in slot order whose code or value is taken is reported with both
  flags; otherwise all references without an active Dimension are reported together; otherwise
  a combination of references that any MasterCode, active or deleted, already has is a conflict;
  and otherwise the MasterCode and all its inline Dimensions are stored together, with the code
  composed of exactly the planned Dimensions, and a read returns what was created.\<close>

theorem master_code_create_outcome:
  assumes inv: "db_inv d" and p: "authorize p MUTATE_DATA = Inr p" and plan: "normalize_plan input = Inr plan"
    and audit: "uuid_version cs = Some 7" "normalize_reason r = Inr r'"
    and new: "env_new_id e \<notin> m_id ` set (mc_rows d)" "\<forall>s. env_dim_id e s \<notin> r_id ` set (dim_rows d s)"
  shows "let result = create_master_code p cs input r e d; dims = planned d plan e (env_clock e) in
    case find (plan_conflict d plan) ORDER of
      Some s \<Rightarrow> (\<exists>c v. plan s = InlineDimension c v \<and> result = Inl (InlineDimensionConflict s
        (c \<in> r_code ` set (dim_rows d s)) (value_key (record_value v) \<in> (value_key \<circ> r_value) ` set (dim_rows d s))))
    | None \<Rightarrow>
        if invalid_plan d plan ORDER \<noteq> [] then result = Inl (InvalidDimensionReference (invalid_plan d plan ORDER))
        else if (\<lambda>s. map_option dim_id (dims s)) \<in> m_refs ` set (mc_rows d) then result = Inl MasterCodeConflict
        else \<exists>x d'. result = Inr (x, d') \<and> db_inv d' \<and> mc_dims x = dims \<and> mc_code x = compose dims \<and> mc_version x = 1
          \<and> dim_rows d' = (\<lambda>s. dim_rows d s @ inline_rows plan e (env_clock e) s)
          \<and> mc_rows d' = mc_rows d @ [new_mc_row e (env_clock e) dims]
          \<and> get_master_code p (env_new_id e) d' = Inr x"
proof -
  let ?dim_op = "if has_inline plan then Some DIM_CREATE else None"
  obtain meta where meta: "audit_factory_create cs p ?dim_op (Some MC_CREATE) r = Inr meta" "context_ok meta"
    "operations meta = \<lparr>op_dimension = ?dim_op, op_master_code = Some MC_CREATE\<rparr>"
    using reason_ok [OF audit(1) _ audit(2), of ?dim_op "Some MC_CREATE" p] by blast
  have eq: "create_master_code p cs input r e d = mc_create plan meta e d"
    using p plan meta(1) by (simp add: create_master_code_def reason_error_def)
  have valid: "plan_valid plan" by (rule normalize_plan_valid [OF plan])
  have ready: "plan_ready meta plan e d ORDER"
    using meta(2,3) new(2) has_inline_iff [of plan e 0] valid by (auto simp: plan_ready_def)
  let ?m = "new_mc_row e (env_clock e) (planned d plan e (env_clock e))"
  have created: "db_inv d' \<and> mc_dims x = planned d plan e (env_clock e) \<and> mc_code x = compose (planned d plan e (env_clock e))
      \<and> mc_version x = 1 \<and> dim_rows d' = (\<lambda>s. dim_rows d s @ inline_rows plan e (env_clock e) s)
      \<and> mc_rows d' = mc_rows d @ [?m] \<and> get_master_code p (env_new_id e) d' = Inr x"
    if "mc_create plan meta e d = Inr (x, d')" for x d'
  proof -
    note s = mc_create_success [OF inv valid that]
    have m: "?m \<in> set (mc_rows d')" "m_deleted ?m = None" "m_id ?m = env_new_id e"
      by (simp_all add: s(4)) (simp_all add: new_mc_row_def)
    have "get_master_code p (env_new_id e) d' = Inr (mc_view d' ?m)"
      using mc_get_active_ok [OF s(1) m(1,2)] m(3) read_allowed [OF p] by (simp add: get_master_code_def get_execute_def)
    moreover have "m_code ?m = compose (planned d plan e (env_clock e))" "m_version ?m = 1"
      by (simp_all add: new_mc_row_def)
    ultimately show ?thesis
      unfolding s(2) mc_view_simps using s(1,4,5) s(6) [unfolded s(2) mc_view_simps] by blast
  qed
  have op: "op_master_code (operations meta) = Some MC_CREATE" by (simp add: meta(3))
  note out = mc_create_outcome [OF inv ready op new(1)]
  show ?thesis
  proof (cases "find (plan_conflict d plan) ORDER")
    case None
    show ?thesis
      using out unfolding eq Let_def None option.case by (rule last_branch) (use created in blast)
  qed (use out in \<open>simp only: eq Let_def option.case\<close>)
qed

definition sample_mc_env :: mc_env where
  "sample_mc_env = \<lparr>env_new_id = 20, env_clock = 10, env_statement_time = 10, env_dim_id = (\<lambda>_. 30)\<rparr>"

definition sample_input :: create_input where
  "sample_input = (\<lambda>_. NotApplicable)(Year := InlineDimension (PyStr (lit ''y25'')) (PlainValue (PyInt 2025)),
     Memory := ExistingDimension 7)"

definition sample_plan :: create_plan where
  "sample_plan = (\<lambda>_. NotApplicable)(Year := InlineDimension (lit ''Y25'') (YearValue 2025), Memory := ExistingDimension 7)"

lemma sample_normalize_plan: "normalize_plan sample_input = Inr sample_plan"
proof -
  have "dimension_code (PyStr (lit ''y25'')) = Inr (lit ''Y25'')"
    by (simp add: dimension_code_def lit_def isascii_def upper_def upper_cp_def strip_ch_def code_pattern_def is_alnum_def)
  moreover have "normalize_inline_value Year (PlainValue (PyInt 2025)) = Inr (YearValue 2025)"
    by (simp add: normalize_inline_value_def year_value_def)
  ultimately show ?thesis
    by (simp add: normalize_plan_def ORDER_def sample_input_def sample_plan_def slot_error_def fun_eq_iff)
qed

lemma sample_active_dim: "active_dim sample_db Memory 7 = Some (row_dim Memory sample_row)"
  by (simp add: active_dim_def) (simp add: sample_row_def)

lemma sample_planned:
  "planned sample_db sample_plan sample_mc_env 10 = (\<lambda>_. None)(Year := Some (row_dim Year (inline_row sample_mc_env 10 Year (lit ''Y25'') (YearValue 2025))),
     Memory := Some (row_dim Memory sample_row))"
  by (auto simp: fun_eq_iff planned_def sample_plan_def sample_active_dim)

theorem master_code_create_outcome_witness:
  "\<exists>x d'. create_master_code sample_admin sample_cs sample_input None sample_mc_env sample_db = Inr (x, d')
    \<and> mc_code x = lit ''NNN-NNN-NNN-NNN-Y25-M16-NNN-NNN''
    \<and> get_master_code sample_admin 20 d' = Inr x"
proof -
  have env: "env_new_id sample_mc_env = 20" "env_clock sample_mc_env = 10" "env_dim_id sample_mc_env s = 30" for s
    by (simp_all add: sample_mc_env_def)
  have rows: "dim_rows sample_db s = (if s = Memory then [sample_row] else [])" for s by (simp add: sample_db_def Let_def)
  have free: "find (plan_conflict sample_db sample_plan) ORDER = None"
    by (simp add: find_None_iff plan_conflict_def sample_plan_def find_inline_conflicts_def rows ORDER_def)
  have inv: "invalid_plan sample_db sample_plan ORDER = []"
    by (simp add: invalid_plan_def filter_empty_conv sample_plan_def sample_active_dim ORDER_def)
  have new: "env_new_id sample_mc_env \<notin> m_id ` set (mc_rows sample_db)" by (simp add: env sample_mc_row_def)
  have newd: "\<forall>s. env_dim_id sample_mc_env s \<notin> r_id ` set (dim_rows sample_db s)" by (auto simp: env rows) (simp add: sample_row_def)
  have refs: "(\<lambda>s. map_option dim_id (planned sample_db sample_plan sample_mc_env 10 s)) \<notin> m_refs ` set (mc_rows sample_db)"
    by (auto simp: sample_planned sample_mc_row_def dest: fun_cong [of _ _ Year])
  have code: "compose (planned sample_db sample_plan sample_mc_env 10) = lit ''NNN-NNN-NNN-NNN-Y25-M16-NNN-NNN''"
    by (simp add: sample_planned compose_def ordered_def ORDER_def NOT_APPLICABLE_CODE_def sample_row_def inline_row_def lit_def)
  show ?thesis
    using master_code_create_outcome [OF sample_db_inv sample_rename_input(3) sample_normalize_plan sample_cs_version
        sample_rename_input(2) new newd] free inv refs code
    unfolding env Let_def by auto
qed

end
