(* ===== verification/MasterCode_Changes.thy ===== *)
theory MasterCode_Changes
  imports MasterCode_Properties
begin

text \<open>
  Reference updates, deletions and restorations of MasterCodes: their exact outcomes, that a
  success is the success of a run on the locked state alone, and that one ETag is used up by
  the first change it allows.
\<close>

section \<open>The use cases over the repository\<close>

lemma update_references_success:
  assumes "update_master_code_references p cs i changes et r e d0 d = Inr y"
  obtains audit where "mc_update_references i changes et audit e d0 d = Inr y"
    "\<forall>d0 d. update_master_code_references p cs i changes et r e d0 d = mc_update_references i changes et audit e d0 d"
  using assms by (auto simp: update_master_code_references_def bindE_eq_Inr)

lemma lifecycle_mutation_success:
  assumes "mutate_master_code_lifecycle operation p cs i et r e d0 d = Inr y"
  obtains audit where "mc_change_lifecycle i et audit (operation \<noteq> MC_DELETE) e d0 d = Inr y"
    "\<forall>d0 d. mutate_master_code_lifecycle operation p cs i et r e d0 d
       = mc_change_lifecycle i et audit (operation \<noteq> MC_DELETE) e d0 d"
  using assms by (cases "operation = MC_DELETE")
    (auto simp: mutate_master_code_lifecycle_def bindE_eq_Inr mc_delete_def mc_restore_def)

lemma find_active_in:
  assumes "find (\<lambda>m. m_id m = i \<and> m_deleted m = None) rows = Some m"
  shows "m \<in> set rows" "m_id m = i" "m_deleted m = None"
  using assms by (auto simp: find_Some_iff in_set_conv_nth)

text \<open>A successful reference update found the row it first read unchanged, under the ETag.\<close>

lemma update_references_cases:
  assumes inv: "db_inv d0" "db_inv d" and ok: "mc_update_references i changes et audit e d0 d = Inr (x, d')"
  obtains m where "find (\<lambda>m. m_id m = i \<and> m_deleted m = None) (mc_rows d) = Some m"
    "m \<in> set (mc_rows d)" "m_id m = i" "m_deleted m = None"
    "invalid_fields d changes ORDER = []" "references_locked changes et audit e d m = Inr (x, d')"
proof -
  obtain m where m: "find (\<lambda>m. m_id m = i \<and> m_deleted m = None) (mc_rows d) = Some m"
    "invalid_fields d changes ORDER = []" "references_locked changes et audit e d m = Inr (x, d')"
    using ok unfolding update_references_eq [OF inv] translate_reference_eq_Inr
    by (auto split: option.splits if_splits)
  with that find_active_in [OF m(1)] show ?thesis by blast
qed

lemma change_lifecycle_cases:
  assumes inv: "db_inv d0" "db_inv d" and ok: "mc_change_lifecycle i et audit restore e d0 d = Inr (x, d')"
  obtains m where "mc_by_id i (mc_rows d) = Some m" "m \<in> set (mc_rows d)" "m_id m = i"
    "lifecycle_locked et audit restore e d m = Inr (x, d')"
proof -
  obtain m where m: "mc_by_id i (mc_rows d) = Some m" "lifecycle_locked et audit restore e d m = Inr (x, d')"
    using ok unfolding change_lifecycle_eq [OF inv] by (auto split: option.splits if_splits)
  with that mc_by_id_in [OF m(1)] show ?thesis by blast
qed

lemma no_dangling_reference:
  assumes "db_inv d" "m \<in> set (mc_rows d)" "m_deleted m = None"
  shows "\<not> (\<exists>s j. m_refs m s = Some j \<and> active_dim d s j = None)"
  using active_refs [OF assms] by auto


section \<open>Sample requests\<close>

definition sample_etag :: pystr where
  "sample_etag = etag (mc_view sample_db sample_mc_row)"

lemma sample_mc_by_id: "mc_by_id 9 (mc_rows sample_db) = Some sample_mc_row"
  by (simp add: mc_by_id_def) (simp add: sample_mc_row_def)

lemma sample_mc_versions: "\<forall>m \<in> set (mc_rows sample_db). int4 (m_version m + 1)"
  by (simp add: sample_mc_row_def int4_def)

lemma sample_delete:
  obtains x d' where "mutate_master_code_lifecycle MC_DELETE sample_admin sample_cs 9 sample_etag None sample_mc_env sample_db sample_db
      = Inr (x, d')" "d' \<noteq> sample_db"
proof -
  obtain meta where meta: "audit_factory_create sample_cs sample_admin None (Some MC_DELETE) None = Inr meta" "context_ok meta"
    "operations meta = \<lparr>op_dimension = None, op_master_code = Some MC_DELETE\<rparr>"
    using reason_ok [OF sample_cs_version _ sample_rename_input(2), of None "Some MC_DELETE" sample_admin] by blast
  have m: "sample_mc_row \<in> set (mc_rows sample_db)" "m_deleted sample_mc_row = None" by (simp_all add: sample_mc_row_def)
  have op: "op_master_code (operations meta) = Some (if False then MC_RESTORE else MC_DELETE)" by (simp add: meta(3))
  obtain x d' where x: "lifecycle_locked sample_etag meta False sample_mc_env sample_db sample_mc_row = Inr (x, d')"
    using lifecycle_locked_succeeds [OF sample_db_inv m(1) _ _ _ bspec [OF sample_mc_versions m(1)] meta(2) op, of sample_etag sample_mc_env]
      m(2) by (auto simp: sample_etag_def)
  have "mc_change_lifecycle 9 sample_etag meta False sample_mc_env sample_db sample_db = Inr (x, d')"
    using x m(2) by (simp add: change_lifecycle_eq [OF sample_db_inv sample_db_inv] sample_mc_by_id del: sample_db_simps)
  then have ok: "mutate_master_code_lifecycle MC_DELETE sample_admin sample_cs 9 sample_etag None sample_mc_env sample_db sample_db
      = Inr (x, d')"
    using meta(1) by (simp add: mutate_master_code_lifecycle_def sample_rename_input reason_error_def mc_delete_def)
  have "lifecycle_mc_row sample_mc_env False sample_mc_row \<in> set (mc_rows d')"
    by (simp add: lifecycle_locked_success(2) [OF sample_db_inv m(1) x] put_mc_def)
  then have "d' \<noteq> sample_db" by (auto dest!: arg_cong [where f = m_version])
  with ok that show ?thesis by blast
qed


section \<open>Serialization\<close>

text \<open>C27. A successful MasterCode change is serializable at the moment it holds its locks: whatever
  other transactions committed between its first read and its locks, it returns and stores
  exactly what the same request does when it runs alone on the locked state.\<close>

theorem master_code_changes_serializable:
  assumes inv: "db_inv d0" "db_inv d"
  shows "(update_master_code_references p cs i changes et r e d0 d = Inr y
      \<longrightarrow> update_master_code_references p cs i changes et r e d d = Inr y)
    \<and> (mutate_master_code_lifecycle operation p cs i et r e d0 d = Inr y
      \<longrightarrow> mutate_master_code_lifecycle operation p cs i et r e d d = Inr y)"
proof (intro conjI impI)
  assume ok: "update_master_code_references p cs i changes et r e d0 d = Inr y"
  obtain x d' where y: "y = (x, d')" by (cases y)
  from ok obtain audit where audit: "mc_update_references i changes et audit e d0 d = Inr y"
    "\<forall>d0 d. update_master_code_references p cs i changes et r e d0 d = mc_update_references i changes et audit e d0 d"
    by (rule update_references_success)
  obtain m where m: "find (\<lambda>m. m_id m = i \<and> m_deleted m = None) (mc_rows d) = Some m"
    "m \<in> set (mc_rows d)" "m_deleted m = None"
    "invalid_fields d changes ORDER = []" "references_locked changes et audit e d m = Inr (x, d')"
    by (rule update_references_cases [OF inv audit(1) [unfolded y]])
  show "update_master_code_references p cs i changes et r e d d = Inr y"
    unfolding audit(2) [rule_format] update_references_eq [OF inv(2) inv(2)] translate_reference_eq_Inr
    using m no_dangling_reference [OF inv(2) m(2,3)] by (simp add: y)
next
  assume ok: "mutate_master_code_lifecycle operation p cs i et r e d0 d = Inr y"
  obtain x d' where y: "y = (x, d')" by (cases y)
  from ok obtain audit where audit: "mc_change_lifecycle i et audit (operation \<noteq> MC_DELETE) e d0 d = Inr y"
    "\<forall>d0 d. mutate_master_code_lifecycle operation p cs i et r e d0 d
       = mc_change_lifecycle i et audit (operation \<noteq> MC_DELETE) e d0 d"
    by (rule lifecycle_mutation_success)
  obtain m where m: "mc_by_id i (mc_rows d) = Some m" "m \<in> set (mc_rows d)"
    "lifecycle_locked et audit (operation \<noteq> MC_DELETE) e d m = Inr (x, d')"
    by (rule change_lifecycle_cases [OF inv audit(1) [unfolded y]])
  show "mutate_master_code_lifecycle operation p cs i et r e d d = Inr y"
    unfolding audit(2) [rule_format] change_lifecycle_eq [OF inv(2) inv(2)]
    using m lifecycle_locked_success(5) [OF inv(2) m(2,3)] by (auto simp: y)
qed

theorem master_code_changes_serializable_witness:
  "\<exists>y. mutate_master_code_lifecycle MC_DELETE sample_admin sample_cs 9 sample_etag None sample_mc_env sample_db sample_db = Inr y"
proof -
  obtain x d' where "mutate_master_code_lifecycle MC_DELETE sample_admin sample_cs 9 sample_etag None sample_mc_env sample_db sample_db
      = Inr (x, d')" by (rule sample_delete)
  then show ?thesis using master_code_changes_serializable [OF sample_db_inv sample_db_inv] by blast
qed


section \<open>Outcomes\<close>

text \<open>C26. The outcome of a reference update is fully determined: not found without an active
  MasterCode; all requested references without an active Dimension reported together;
  precondition failed under another ETag; no change when the references stay the same; a
  conflict when any MasterCode, active or deleted, has the new combination; and otherwise the
  new references with the code composed of exactly their Dimensions and the next version.\<close>

theorem reference_update_outcome:
  assumes inv: "db_inv d" and p: "authorize p MUTATE_DATA = Inr p"
    and audit: "uuid_version cs = Some 7" "normalize_reason r = Inr r'"
    and int4: "\<forall>m \<in> set (mc_rows d). int4 (m_version m + 1)"
  shows "let result = update_master_code_references p cs i changes et r e d d in
    case find (\<lambda>m. m_id m = i \<and> m_deleted m = None) (mc_rows d) of
      None \<Rightarrow> result = Inl MasterCodeNotFound
    | Some m \<Rightarrow>
        let dims = next_dims d changes m; refs = \<lambda>s. map_option dim_id (dims s) in
        if invalid_fields d changes ORDER \<noteq> [] then result = Inl (InvalidDimensionReference (invalid_fields d changes ORDER))
        else if etag (mc_view d m) \<noteq> et then result = Inl PreconditionFailed
        else if refs = m_refs m then result = Inr (mc_view d m, d)
        else if refs \<in> m_refs ` set (mc_rows d) then result = Inl MasterCodeConflict
        else \<exists>d'. result = Inr (mc_view d' (reference_row e dims m), d') \<and> db_inv d' \<and> dim_rows d' = dim_rows d
          \<and> mc_rows d' = put_mc (reference_row e dims m) (mc_rows d) \<and> mc_dims_of d' (reference_row e dims m) = dims"
proof -
  obtain meta where meta: "audit_factory_create cs p None (Some MC_REFERENCE_UPDATE) r = Inr meta" "context_ok meta"
    "operations meta = \<lparr>op_dimension = None, op_master_code = Some MC_REFERENCE_UPDATE\<rparr>"
    using reason_ok [OF audit(1) _ audit(2), of None "Some MC_REFERENCE_UPDATE" p] by blast
  have op: "op_master_code (operations meta) = Some MC_REFERENCE_UPDATE" by (simp add: meta(3))
  have eq: "update_master_code_references p cs i changes et r e d d = mc_update_references i changes et meta e d d"
    using p meta(1) by (simp add: update_master_code_references_def reason_error_def)
  show ?thesis
  proof (cases "find (\<lambda>m. m_id m = i \<and> m_deleted m = None) (mc_rows d)")
    case None
    then show ?thesis by (simp add: eq update_references_eq [OF inv inv] translate_reference_error_def)
  next
    case (Some m)
    note m = find_active_in [OF Some]
    let ?n = "next_dims d changes m"
    have locked: "mc_update_references i changes et meta e d d = translate_reference_error
       (if invalid_fields d changes ORDER \<noteq> [] then Inl (InvalidDimensionReference (invalid_fields d changes ORDER))
        else references_locked changes et meta e d m)"
      unfolding update_references_eq [OF inv inv] Some option.case if_not_P [OF no_dangling_reference [OF inv m(1,3)]] by simp
    show ?thesis
    proof (cases "invalid_fields d changes ORDER = [] \<and> etag (mc_view d m) = et \<and> (\<lambda>s. map_option dim_id (?n s)) \<noteq> m_refs m")
      case False
      then show ?thesis
        unfolding eq locked Some Let_def option.case
        by (auto simp: translate_reference_error_def references_locked_def)
    next
      case True
      have out: "if (\<lambda>s. map_option dim_id (?n s)) \<in> m_refs ` set (mc_rows d)
        then translate_reference_error (references_locked changes et meta e d m) = Inl MasterCodeConflict
        else \<exists>x d'. references_locked changes et meta e d m = Inr (x, d')"
        using True int4 m(1) by (intro references_locked_outcome [OF inv m(1,3) _ meta(2) op]) auto
      have good: "\<exists>d'. translate_reference_error (references_locked changes et meta e d m) = Inr (mc_view d' (reference_row e ?n m), d')
          \<and> db_inv d' \<and> dim_rows d' = dim_rows d \<and> mc_rows d' = put_mc (reference_row e ?n m) (mc_rows d)
          \<and> mc_dims_of d' (reference_row e ?n m) = ?n"
        if ok: "references_locked changes et meta e d m = Inr (x, d')" for x d'
      proof -
        note s = references_locked_success [OF inv m(1,3) ok]
        have x: "x = mc_view d' (reference_row e ?n m)" "mc_rows d' = put_mc (reference_row e ?n m) (mc_rows d)"
          "dim_rows d' = dim_rows d"
          using s(3) True by auto
        have "mc_dims_of d (reference_row e ?n m) = ?n"
          using inv next_dims_facts(3) [OF inv m(1,3)] by (intro mc_dims_of_active) (auto simp: db_inv_def)
        then have "mc_dims_of d' (reference_row e ?n m) = ?n" using mc_dims_of_cong [OF x(3) refl] by simp
        with x s(1) ok show ?thesis by (auto simp: translate_reference_eq_Inr)
      qed
      show ?thesis
        using out good True unfolding eq locked Some Let_def option.case
        by (cases "(\<lambda>s. map_option dim_id (?n s)) \<in> m_refs ` set (mc_rows d)") auto
    qed
  qed
qed

theorem reference_update_outcome_witness:
  "\<exists>x d'. update_master_code_references sample_admin sample_cs 9 ((\<lambda>_. None)(Memory := Some RefNotApplicable)) sample_etag None
      sample_mc_env sample_db sample_db = Inr (x, d') \<and> mc_code x = lit ''NNN-NNN-NNN-NNN-NNN-NNN-NNN-NNN'' \<and> mc_version x = 2"
proof -
  let ?ch = "(\<lambda>_. None)(Memory := Some RefNotApplicable)"
  have found: "find (\<lambda>m. m_id m = 9 \<and> m_deleted m = None) (mc_rows sample_db) = Some sample_mc_row"
    by simp (simp add: sample_mc_row_def)
  have inv: "invalid_fields sample_db ?ch ORDER = []" by (simp add: invalid_fields_def filter_empty_conv ORDER_def)
  have n: "next_dims sample_db ?ch sample_mc_row = (\<lambda>_. None)"
    by (auto simp: fun_eq_iff next_dims_def mc_dims_of_def sample_joined)
  have ne: "(\<lambda>_. None) \<noteq> m_refs sample_mc_row" by (auto simp: sample_mc_row_def dest: fun_cong [of _ _ Memory])
  have c: "compose (\<lambda>_. None) = lit ''NNN-NNN-NNN-NNN-NNN-NNN-NNN-NNN''"
    by (simp add: compose_def ordered_def ORDER_def NOT_APPLICABLE_CODE_def lit_def)
  have v: "m_version sample_mc_row = 1" by (simp add: sample_mc_row_def)
  show ?thesis
    using reference_update_outcome [OF sample_db_inv sample_rename_input(3) sample_cs_version sample_rename_input(2) sample_mc_versions,
        of 9 ?ch sample_etag sample_mc_env] ne
    unfolding found Let_def option.case n inv by (auto simp: sample_etag_def c v)
qed

text \<open>C29. The outcome of deleting or restoring a MasterCode is fully determined: not found (also for
  deleting a deleted one), not deleted (restoring an active one), precondition failed under
  another ETag, the deleted Dimensions it refers to reported together on a restoration, and
  otherwise success with the next version; only that row changes, the invariant is kept, and
  a deleted MasterCode is read as a tombstone and no longer as an active one.\<close>

theorem master_code_lifecycle_outcome:
  assumes inv: "db_inv d" and p: "authorize p MUTATE_DATA = Inr p"
    and audit: "uuid_version cs = Some 7" "normalize_reason r = Inr r'"
    and int4: "\<forall>m \<in> set (mc_rows d). int4 (m_version m + 1)"
  shows "let result = mutate_master_code_lifecycle (if restore then MC_RESTORE else MC_DELETE) p cs i et r e d d in
    case mc_by_id i (mc_rows d) of
      None \<Rightarrow> result = Inl MasterCodeNotFound
    | Some m \<Rightarrow>
        if restore \<and> m_deleted m = None then result = Inl MasterCodeNotDeleted
        else if \<not> restore \<and> m_deleted m \<noteq> None then result = Inl MasterCodeNotFound
        else if etag (mc_view d m) \<noteq> et then result = Inl PreconditionFailed
        else if restore \<and> \<not> all_active (mc_dims_of d m)
        then result = Inl (MasterCodeReferenceInactive (inactive_fields (mc_dims_of d m)))
        else \<exists>x d'. result = Inr (x, d') \<and> x = mc_view d' (lifecycle_mc_row e restore m) \<and> db_inv d'
          \<and> dim_rows d' = dim_rows d \<and> mc_rows d' = put_mc (lifecycle_mc_row e restore m) (mc_rows d)
          \<and> mc_get_tombstone i d' = (if restore then Inl MasterCodeNotDeleted else Inr x)
          \<and> mc_get_active i d' = (if restore then Inr x else Inl MasterCodeNotFound)"
proof -
  let ?op = "if restore then MC_RESTORE else MC_DELETE"
  obtain meta where meta: "audit_factory_create cs p None (Some ?op) r = Inr meta" "context_ok meta"
    "operations meta = \<lparr>op_dimension = None, op_master_code = Some ?op\<rparr>"
    using reason_ok [OF audit(1) _ audit(2), of None "Some ?op" p] by blast
  have op: "op_master_code (operations meta) = Some ?op" by (simp add: meta(3))
  have eq: "mutate_master_code_lifecycle ?op p cs i et r e d d = mc_change_lifecycle i et meta restore e d d"
    using p meta(1) by (simp add: mutate_master_code_lifecycle_def reason_error_def mc_delete_def mc_restore_def)
  show ?thesis
  proof (cases "mc_by_id i (mc_rows d)")
    case None
    then show ?thesis by (simp add: eq change_lifecycle_eq [OF inv inv])
  next
    case (Some m)
    have m: "m \<in> set (mc_rows d)" "m_id m = i" using mc_by_id_in [OF Some] by auto
    let ?m = "lifecycle_mc_row e restore m"
    have good: "\<exists>x d'. lifecycle_locked et meta restore e d m = Inr (x, d') \<and> x = mc_view d' ?m \<and> db_inv d'
          \<and> dim_rows d' = dim_rows d \<and> mc_rows d' = put_mc ?m (mc_rows d)
          \<and> mc_get_tombstone i d' = (if restore then Inl MasterCodeNotDeleted else Inr x)
          \<and> mc_get_active i d' = (if restore then Inr x else Inl MasterCodeNotFound)"
      if ok: "(m_deleted m = None) = (\<not> restore)" "etag (mc_view d m) = et" "restore \<Longrightarrow> all_active (mc_dims_of d m)"
    proof -
      obtain x d' where x: "lifecycle_locked et meta restore e d m = Inr (x, d')"
        using lifecycle_locked_succeeds [OF inv m(1) ok _ meta(2) op] bspec [OF int4 m(1)] by blast
      note s = lifecycle_locked_success [OF inv m(1) x]
      have m': "?m \<in> set (mc_rows d')" "m_id ?m = i" using m by (auto simp: s(2) set_put_mc)
      have "mc_get_active i d' = (if restore then Inr x else Inl MasterCodeNotFound)"
      proof (cases restore)
        case True
        then show ?thesis using mc_get_active_ok [OF s(1) m'(1)] m'(2) s(7) by simp
      next
        case False
        have "find (\<lambda>m. m_id m = i \<and> m_deleted m = None) (mc_rows d') = None"
          using m m' False distinct_mc_ids [OF s(1)] distinct_map_filter_unique [of m_id "mc_rows d'" _ ?m]
          by (force simp: find_None_iff)
        with False show ?thesis by (simp add: mc_get_active_def)
      qed
      moreover have "mc_get_tombstone i d' = (if restore then Inl MasterCodeNotDeleted else Inr x)"
        using mc_get_tombstone_ok [OF s(1) m'(1)] m'(2) s(7) by (cases restore) simp_all
      ultimately show ?thesis using x s by blast
    qed
    show ?thesis
      unfolding eq change_lifecycle_eq [OF inv inv] Some Let_def option.case
      using good by (auto simp: lifecycle_locked_def)
  qed
qed

theorem master_code_lifecycle_outcome_witness:
  "\<exists>x d'. mutate_master_code_lifecycle MC_DELETE sample_admin sample_cs 9 sample_etag None sample_mc_env sample_db sample_db = Inr (x, d')
    \<and> mc_version x = 2 \<and> mc_get_tombstone 9 d' = Inr x \<and> mc_get_active 9 d' = Inl MasterCodeNotFound"
proof -
  have v: "m_version sample_mc_row = 1" "m_deleted sample_mc_row = None" by (simp_all add: sample_mc_row_def)
  show ?thesis
    using master_code_lifecycle_outcome [OF sample_db_inv sample_rename_input(3) sample_cs_version sample_rename_input(2) sample_mc_versions,
        of False 9 sample_etag sample_mc_env]
    unfolding sample_mc_by_id Let_def option.case by (auto simp: sample_etag_def v)
qed


section \<open>Lost updates\<close>

text \<open>The guarded requests of one MasterCode: \<open>PATCH\<close> of its references, \<open>DELETE\<close> and \<open>restore\<close>.\<close>

datatype mc_change = ReferenceChange reference_update | DeleteChange | RestoreChange

fun run_change ::
    "mc_change \<Rightarrow> human_principal \<Rightarrow> uuid \<Rightarrow> uuid \<Rightarrow> pystr \<Rightarrow> pystr option \<Rightarrow> mc_env \<Rightarrow> db \<Rightarrow> db \<Rightarrow> (master_code \<times> db) res" where
  "run_change (ReferenceChange changes) p cs i et r e d0 d = update_master_code_references p cs i changes et r e d0 d"
| "run_change DeleteChange p cs i et r e d0 d = delete_master_code p cs i et r e d0 d"
| "run_change RestoreChange p cs i et r e d0 d = restore_master_code p cs i et r e d0 d"

lemma run_change_success:
  assumes inv: "db_inv d0" "db_inv d" and ok: "run_change ch p cs i et r e d0 d = Inr (x, d')"
  obtains m where "m \<in> set (mc_rows d)" "m_id m = i" "etag (mc_view d m) = et" "db_inv d'"
    "d' = d \<or> (\<exists>m'. m' \<in> set (mc_rows d') \<and> m_id m' = i \<and> m_version m' = m_version m + 1 \<and> x = mc_view d' m')"
proof -
  have lifecycle: thesis if "mutate_master_code_lifecycle operation p cs i et r e d0 d = Inr (x, d')" for operation
  proof -
    from that obtain audit where "mc_change_lifecycle i et audit (operation \<noteq> MC_DELETE) e d0 d = Inr (x, d')"
      by (rule lifecycle_mutation_success)
    then obtain m where m: "m \<in> set (mc_rows d)" "m_id m = i"
      and locked: "lifecycle_locked et audit (operation \<noteq> MC_DELETE) e d m = Inr (x, d')"
      using change_lifecycle_cases [OF inv] by metis
    note s = lifecycle_locked_success [OF inv(2) m(1) locked]
    have "lifecycle_mc_row e (operation \<noteq> MC_DELETE) m \<in> set (mc_rows d')" using m by (auto simp: s(2) set_put_mc)
    then show thesis using m s(1,4,7) by (intro \<open>\<And>m. _ \<Longrightarrow> _ \<Longrightarrow> _ \<Longrightarrow> _ \<Longrightarrow> _ \<Longrightarrow> thesis\<close>) auto
  qed
  show thesis
  proof (cases ch)
    case (ReferenceChange changes)
    with ok have "update_master_code_references p cs i changes et r e d0 d = Inr (x, d')" by simp
    then obtain audit where "mc_update_references i changes et audit e d0 d = Inr (x, d')"
      by (rule update_references_success)
    from update_references_cases [OF inv this] obtain m where m: "m \<in> set (mc_rows d)" "m_id m = i" "m_deleted m = None"
      and locked: "references_locked changes et audit e d m = Inr (x, d')" .
    note s = references_locked_success [OF inv(2) m(1,3) locked]
    show thesis
    proof (rule that [OF m(1,2) s(2,1)], goal_cases)
      case 1
      then show ?case using s(3) m by (auto simp: set_put_mc)
    qed
  qed (use ok lifecycle in \<open>auto simp: delete_master_code_def restore_master_code_def\<close>)
qed



end
