(* ===== verification/Change_Request_Laws.thy ===== *)
theory Change_Request_Laws
  imports Change_Request_Repo MasterCode_Changes
begin

text \<open>
  Approvals and the direct operations: what locking a target gives, that applying a proposal
  keeps the database invariant, and that it has the effect of the direct operation.
\<close>

section \<open>Creation\<close>

definition payload_field :: "string \<Rightarrow> string" where
  "payload_field f = ''payload.'' @ f"

lemma payload_field_dimension: "''payload.dimensions.'' @ f = payload_field (''dimensions.'' @ f)"
  by (simp add: payload_field_def)

lemma apply_slots_resolve:
  assumes "\<forall>s \<in> set ss. res s = None" "distinct ss"
  shows "apply_slots ctx e (map (\<lambda>s. (s, plan s)) ss) res (map payload_field bad) d =
    bindE (resolve_slots ctx plan e ss res bad d) (\<lambda>(r, b, d'). Inr (r, map payload_field b, d'))"
  using assms
proof (induction ss arbitrary: res bad d)
  case (Cons s ss)
  have res: "res(s := None) = res" using Cons.prems(1) by (simp add: fun_upd_idem)
  have IH: "apply_slots ctx e (map (\<lambda>s. (s, plan s)) ss) (res(s := y)) (map payload_field b) d =
      bindE (resolve_slots ctx plan e ss (res(s := y)) b d) (\<lambda>(r, b, d'). Inr (r, map payload_field b, d'))" for y b d
    by (rule Cons.IH) (use Cons.prems in auto)
  show ?case
  proof (cases "plan s")
    case (ExistingDimension i)
    have "apply_slots ctx e (map (\<lambda>s. (s, plan s)) ss) (res(s := found))
        (if found = None then map payload_field bad @ [payload_field (''dimensions.'' @ slot_name s @ ''.id'')] else map payload_field bad) d
      = bindE (case found of
            None \<Rightarrow> resolve_slots ctx plan e ss res (bad @ [''dimensions.'' @ slot_name s @ ''.id'']) d
          | Some x \<Rightarrow> resolve_slots ctx plan e ss (res(s := Some x)) bad d) (\<lambda>(r, b, d'). Inr (r, map payload_field b, d'))" for found
      using IH [of found "bad @ [''dimensions.'' @ slot_name s @ ''.id'']" d] IH [of found bad d] res
      by (cases found) simp_all
    then show ?thesis
      by (simp only: ExistingDimension list.map apply_slots.simps resolve_slots.simps selection.case payload_field_dimension bindE_assoc)
  next
    case (InlineDimension c v)
    show ?thesis by (simp add: InlineDimension bindE_assoc IH split_def)
  next
    case NotApplicable
    then show ?thesis by (simp add: IH)
  qed
qed simp

lemma find_in: "find P xs = Some x \<Longrightarrow> x \<in> set xs \<and> P x"
  by (auto simp: find_Some_iff)

text \<open>An approved creation succeeds exactly when the direct creation does, with the same result.\<close>

lemma apply_create_iff:
  assumes v: "ap_validated ap = map (\<lambda>s. (s, plan s)) ORDER"
  shows "apply_create ap e d = Inr y \<longleftrightarrow> mc_create plan (ap_audit ap) e d = Inr y"
proof -
  let ?ctx = "\<lparr>ctx_meta = ap_audit ap, ctx_time = env_clock e\<rparr>"
  let ?insert = "\<lambda>dims d1. bindE (mc_insert ?ctx (new_mc_row e (env_clock e) dims) d1) (\<lambda>d2.
      bindE (row_master_code (new_mc_row e (env_clock e) dims) dims) (\<lambda>x. Inr (x, d2)))"
  have taken: "?insert dims d1 \<noteq> Inr y" if "find (\<lambda>m. m_code m = compose dims) (mc_rows d1) = Some z" for dims d1 z
  proof -
    have "m_code (new_mc_row e (env_clock e) dims) \<in> set (map m_code (mc_rows d1))"
      using find_in [OF that] by (auto simp: new_mc_row_def intro!: rev_image_eqI)
    then have "mc_insert ?ctx (new_mc_row e (env_clock e) dims) d1 \<noteq> Inr d2" for d2
      by (auto simp: mc_insert_def mc_unique_check_def bindE_eq_Inr)
    then show ?thesis by (simp add: bindE_eq_Inr)
  qed
  have slots: "apply_slots ?ctx e (ap_validated ap) (\<lambda>_. None) [] d =
      bindE (resolve_slots ?ctx plan e ORDER (\<lambda>_. None) [] d) (\<lambda>(r, b, d'). Inr (r, map payload_field b, d'))"
    using apply_slots_resolve [of ORDER "\<lambda>_. None" ?ctx e plan "[]" d] by (simp add: v)
  have body: "(case find (\<lambda>m. m_code m = compose dims) (mc_rows d1) of
        Some existing \<Rightarrow> if m_deleted existing = None then Inl ChangeRequestNoEffect else ?insert dims d1
      | None \<Rightarrow> ?insert dims d1) = Inr y \<longleftrightarrow> ?insert dims d1 = Inr y" for dims d1
    using taken by (cases "find (\<lambda>m. m_code m = compose dims) (mc_rows d1)") auto
  note unfold = apply_create_def mc_create_def translate_integrity_eq_Inr set_context_eq bindE_Inr mutation_ctx.select_convs slots
  show ?thesis
  proof (cases "resolve_slots ?ctx plan e ORDER (\<lambda>_. None) [] d")
    case (Inr z)
    obtain r bad d1 where z: "z = (r, bad, d1)" by (cases z)
    show ?thesis
      unfolding unfold Inr z prod.case Let_def
      by (cases "master_code_dimensions_init r") (use body in simp_all)
  qed (simp add: unfold)
qed


section \<open>The locked target\<close>

definition any_dim :: "db \<Rightarrow> slot \<Rightarrow> uuid \<Rightarrow> dimension option" where
  "any_dim d s j = map_option (row_dim s) (dim_by_id j (dim_rows d s))"

lemma lock_target_slot_ok:
  assumes "enforced d"
  shows "\<exists>L. lock_target_slot d s current change = Inr L
    \<and> (\<forall>x. current = Some x \<longrightarrow> map_of L (dim_id x) = any_dim d s (dim_id x))
    \<and> (\<forall>i. change = Some (ExistingDimension i) \<longrightarrow> map_of L i = any_dim d s i)"
proof -
  let ?ids = "(case current of None \<Rightarrow> [] | Some x \<Rightarrow> [dim_id x]) @ (case change of Some (ExistingDimension i) \<Rightarrow> [i] | _ \<Rightarrow> [])"
  let ?rs = "sort_key r_id (filter (\<lambda>r. r_id r \<in> set ?ids) (dim_rows d s))"
  let ?L = "map (\<lambda>r. (r_id r, row_dim s r)) ?rs"
  have dist: "distinct (map r_id (dim_rows d s))" using enforcedD(1) [OF assms, of s] by (simp add: dims_ok_def)
  then have keys: "distinct (map fst ?L)" by (simp add: comp_def distinct_map inj_on_def)
  have "lock_target_slot d s current change = Inr ?L"
    unfolding lock_target_slot_def Let_def
    by (rule mapE_Inr_all) (use row_ok_wf(3) [OF row_ok_table [OF assms]] in auto)
  moreover have "map_of ?L j = any_dim d s j" if j: "j \<in> set ?ids" for j
  proof (cases "dim_by_id j (dim_rows d s)")
    case None
    then have "\<forall>r \<in> set (dim_rows d s). r_id r \<noteq> j" by (auto simp: dim_by_id_None)
    then have "map_of ?L j = None" by (auto simp: map_of_eq_None_iff)
    with None show ?thesis by (simp add: any_dim_def)
  next
    case (Some r)
    then have "r \<in> set (dim_rows d s)" "r_id r = j" using dim_by_id_in by blast+
    then have "(j, row_dim s r) \<in> set ?L" using j by force
    then have "map_of ?L j = Some (row_dim s r)" using keys by (simp only: map_of_eq_Some_iff)
    with Some show ?thesis by (simp add: any_dim_def)
  qed
  ultimately have "\<exists>L. lock_target_slot d s current change = Inr L \<and> (\<forall>j \<in> set ?ids. map_of L j = any_dim d s j)"
    by blast
  then show ?thesis by (rule ex_forward) simp
qed

text \<open>The current and the proposed Dimension of a slot, and the proposed references without a usable one.\<close>

definition current_dims :: "db \<Rightarrow> master_code_dimensions \<Rightarrow> master_code_dimensions" where
  "current_dims d refs s = (case refs s of None \<Rightarrow> None | Some x \<Rightarrow> any_dim d s (dim_id x))"

definition proposed_dims ::
    "db \<Rightarrow> (slot \<Rightarrow> (pystr, dim_value) selection option) \<Rightarrow> master_code_dimensions \<Rightarrow> mc_env \<Rightarrow> int \<Rightarrow> master_code_dimensions" where
  "proposed_dims d changes refs e t s =
     (case changes s of
        None \<Rightarrow> current_dims d refs s
      | Some NotApplicable \<Rightarrow> None
      | Some (ExistingDimension i) \<Rightarrow> any_dim d s i
      | Some (InlineDimension c v) \<Rightarrow> Some (row_dim s (inline_row e t s c v)))"

definition unusable :: "db \<Rightarrow> change_operation \<Rightarrow> (pystr, dim_value) selection option \<Rightarrow> slot \<Rightarrow> bool" where
  "unusable d operation change s =
     (case change of
        Some (ExistingDimension i) \<Rightarrow>
          (case any_dim d s i of None \<Rightarrow> True | Some x \<Rightarrow> is_deleted x \<and> operation \<noteq> CR_RESTORE)
      | _ \<Rightarrow> False)"

definition unusable_fields ::
    "db \<Rightarrow> change_operation \<Rightarrow> (slot \<Rightarrow> (pystr, dim_value) selection option) \<Rightarrow> slot list \<Rightarrow> string list" where
  "unusable_fields d operation changes ss =
     map (\<lambda>s. ''payload.dimensions.'' @ slot_name s @ ''.id'') (filter (\<lambda>s. unusable d operation (changes s) s) ss)"

lemma lock_target_now:
  assumes "enforced d"
  obtains L where "lock_target_slot d s (refs s) (changes s) = Inr L"
    "(case refs s of None \<Rightarrow> None | Some x \<Rightarrow> map_of L (dim_id x)) = current_dims d refs s"
    "\<forall>i. changes s = Some (ExistingDimension i) \<longrightarrow> map_of L i = any_dim d s i"
proof -
  obtain L where L: "lock_target_slot d s (refs s) (changes s) = Inr L"
    "\<forall>x. refs s = Some x \<longrightarrow> map_of L (dim_id x) = any_dim d s (dim_id x)"
    "\<forall>i. changes s = Some (ExistingDimension i) \<longrightarrow> map_of L i = any_dim d s i"
    using lock_target_slot_ok [OF assms] by blast
  have "(case refs s of None \<Rightarrow> None | Some x \<Rightarrow> map_of L (dim_id x)) = current_dims d refs s"
    using L(2) by (auto simp: current_dims_def split: option.splits)
  with that L show thesis by blast
qed

text \<open>One slot without an inline Dimension.\<close>

lemma lock_target_step:
  assumes "enforced d" and plain: "\<not> (\<exists>c v. changes s = Some (InlineDimension c v))"
    and first: "\<not> (refs s \<noteq> None \<and> current_dims d refs s = None)"
  shows "lock_target_slots ctx operation changes refs e (s # ss) cur res bad d =
      lock_target_slots ctx operation changes refs e ss (cur(s := current_dims d refs s))
        (res(s := proposed_dims d changes refs e t s)) (bad @ unusable_fields d operation changes [s]) d"
proof -
  obtain L where L: "lock_target_slot d s (refs s) (changes s) = Inr L"
    "(case refs s of None \<Rightarrow> None | Some x \<Rightarrow> map_of L (dim_id x)) = current_dims d refs s"
    "\<forall>i. changes s = Some (ExistingDimension i) \<longrightarrow> map_of L i = any_dim d s i"
    by (rule lock_target_now [OF assms(1)])
  show ?thesis
    unfolding lock_target_slots.simps L(1) bindE_Inr Let_def L(2) if_not_P [OF first]
    using plain L(3)
    by (cases "changes s"; cases "the (changes s)") (simp_all add: proposed_dims_def unusable_fields_def unusable_def)
qed

text \<open>The loop without inline Dimensions.\<close>

lemma lock_target_slots_eq:
  assumes "enforced d" "\<And>s. s \<in> set ss \<Longrightarrow> \<not> (\<exists>c v. changes s = Some (InlineDimension c v))" "distinct ss"
  shows "lock_target_slots ctx operation changes refs e ss cur res bad d =
    (if \<exists>s \<in> set ss. refs s \<noteq> None \<and> current_dims d refs s = None then Inl ChangeRequestStaleTarget
     else Inr (\<lambda>s. if s \<in> set ss then current_dims d refs s else cur s,
               \<lambda>s. if s \<in> set ss then proposed_dims d changes refs e t s else res s,
               bad @ unusable_fields d operation changes ss, d))"
  using assms(2,3)
proof (induction ss arbitrary: cur res bad)
  case Nil
  then show ?case by (simp add: unusable_fields_def)
next
  case (Cons s ss)
  obtain L where L: "lock_target_slot d s (refs s) (changes s) = Inr L"
    "(case refs s of None \<Rightarrow> None | Some x \<Rightarrow> map_of L (dim_id x)) = current_dims d refs s"
    by (rule lock_target_now [OF assms(1)])
  have IH: "lock_target_slots ctx operation changes refs e ss cur res bad d =
    (if \<exists>s \<in> set ss. refs s \<noteq> None \<and> current_dims d refs s = None then Inl ChangeRequestStaleTarget
     else Inr (\<lambda>s. if s \<in> set ss then current_dims d refs s else cur s,
               \<lambda>s. if s \<in> set ss then proposed_dims d changes refs e t s else res s,
               bad @ unusable_fields d operation changes ss, d))" for cur res bad
    by (rule Cons.IH) (use Cons.prems in auto)
  show ?case
  proof (cases "refs s \<noteq> None \<and> current_dims d refs s = None")
    case True
    then show ?thesis by (simp add: L Let_def)
  next
    case False
    have upd: "(\<lambda>u. if u \<in> set ss then f u else (g(s := f s)) u) = (\<lambda>u. if u = s \<or> u \<in> set ss then f u else g u)" for f g
      using Cons.prems(2) by (auto simp: fun_eq_iff)
    have *: "lock_target_slots ctx operation changes refs e ss (cur(s := current_dims d refs s))
        (res(s := proposed_dims d changes refs e t s)) (bad @ unusable_fields d operation changes [s]) d =
      (if \<exists>u \<in> set (s # ss). refs u \<noteq> None \<and> current_dims d refs u = None then Inl ChangeRequestStaleTarget
       else Inr (\<lambda>u. if u \<in> set (s # ss) then current_dims d refs u else cur u,
                 \<lambda>u. if u \<in> set (s # ss) then proposed_dims d changes refs e t u else res u,
                 bad @ unusable_fields d operation changes (s # ss), d))"
      unfolding IH upd using False by (simp add: unusable_fields_def)
    have "\<not> (\<exists>c v. changes s = Some (InlineDimension c v))" using Cons.prems(1) [of s] by simp
    from lock_target_step [where changes = changes and s = s and refs = refs and t = t, OF assms(1) this False] * show ?thesis by simp
  qed
qed

text \<open>What the loop has done when it ends.\<close>

definition changes_valid :: "(slot \<Rightarrow> (pystr, dim_value) selection option) \<Rightarrow> bool" where
  "changes_valid changes \<longleftrightarrow> (\<forall>s c v. changes s = Some (InlineDimension c v) \<longrightarrow> valid_code c \<and> valid_value v \<and> value_slot v = s)"

definition change_rows :: "(slot \<Rightarrow> (pystr, dim_value) selection option) \<Rightarrow> mc_env \<Rightarrow> int \<Rightarrow> slot \<Rightarrow> dim_row list" where
  "change_rows changes e t s = (case changes s of Some (InlineDimension c v) \<Rightarrow> [inline_row e t s c v] | _ \<Rightarrow> [])"

definition target_locked ::
    "change_operation \<Rightarrow> (slot \<Rightarrow> (pystr, dim_value) selection option) \<Rightarrow> master_code_dimensions \<Rightarrow> mc_env \<Rightarrow> int \<Rightarrow> slot list
       \<Rightarrow> db \<Rightarrow> master_code_dimensions \<Rightarrow> master_code_dimensions \<Rightarrow> string list
       \<Rightarrow> master_code_dimensions \<Rightarrow> master_code_dimensions \<Rightarrow> string list \<Rightarrow> db \<Rightarrow> bool" where
  "target_locked operation changes refs e t ss d cur res bad cur' res' bad' d' \<longleftrightarrow>
     db_inv d' \<and> mc_rows d' = mc_rows d
     \<and> cur' = (\<lambda>s. if s \<in> set ss then current_dims d refs s else cur s)
     \<and> res' = (\<lambda>s. if s \<in> set ss then proposed_dims d changes refs e t s else res s)
     \<and> bad' = bad @ unusable_fields d operation changes ss
     \<and> dim_rows d' = (\<lambda>s. dim_rows d s @ (if s \<in> set ss then change_rows changes e t s else []))
     \<and> (\<forall>s \<in> set ss. refs s \<noteq> None \<longrightarrow> current_dims d refs s \<noteq> None)"

lemma same_rows_cong:
  assumes "dim_rows d' s = dim_rows d s"
  shows "any_dim d' s j = any_dim d s j" "current_dims d' refs s = current_dims d refs s"
    "proposed_dims d' changes refs e t s = proposed_dims d changes refs e t s"
    "unusable d' operation change s = unusable d operation change s"
proof -
  show any: "any_dim d' s j = any_dim d s j" for j using assms by (simp add: any_dim_def)
  show cur: "current_dims d' refs s = current_dims d refs s" by (simp add: current_dims_def any cong: option.case_cong)
  show "proposed_dims d' changes refs e t s = proposed_dims d changes refs e t s" by (simp add: proposed_dims_def any cur cong: option.case_cong selection.case_cong)
  show "unusable d' operation change s = unusable d operation change s" by (simp add: unusable_def any cong: option.case_cong selection.case_cong)
qed

lemma target_locked_Cons:
  assumes first: "refs s \<noteq> None \<longrightarrow> current_dims d refs s \<noteq> None" and s: "s \<notin> set ss"
    and d1: "dim_rows d1 = (dim_rows d)(s := dim_rows d s @ change_rows changes e t s)" "mc_rows d1 = mc_rows d"
    and rest: "target_locked operation changes refs e t ss d1 (cur(s := current_dims d refs s))
      (res(s := proposed_dims d changes refs e t s)) (bad @ unusable_fields d operation changes [s]) cur' res' bad' d'"
  shows "target_locked operation changes refs e t (s # ss) d cur res bad cur' res' bad' d'"
proof -
  have other: "dim_rows d1 u = dim_rows d u" if "u \<in> set ss" for u using that s d1(1) by auto
  note c = same_rows_cong [OF other]
  have "unusable_fields d1 operation changes ss = unusable_fields d operation changes ss"
    unfolding unusable_fields_def by (intro arg_cong [where f = "map _"] filter_cong) (simp_all add: c(4))
  then have "bad' = bad @ unusable_fields d operation changes (s # ss)"
    using rest by (simp add: target_locked_def unusable_fields_def)
  moreover have "cur' = (\<lambda>u. if u \<in> set (s # ss) then current_dims d refs u else cur u)"
    "res' = (\<lambda>u. if u \<in> set (s # ss) then proposed_dims d changes refs e t u else res u)"
    "dim_rows d' = (\<lambda>u. dim_rows d u @ (if u \<in> set (s # ss) then change_rows changes e t u else []))"
    using rest c s by (auto simp: target_locked_def fun_eq_iff d1(1))
  ultimately show ?thesis using rest first c(2) by (simp add: target_locked_def d1(2))
qed

lemma lock_target_slots_success:
  assumes "db_inv d" "changes_valid changes" "distinct ss" "\<And>c. ctx = Some c \<Longrightarrow> ctx_time c = t"
    and "lock_target_slots ctx operation changes refs e ss cur res bad d = Inr (cur', res', bad', d')"
  shows "target_locked operation changes refs e t ss d cur res bad cur' res' bad' d'"
  using assms(1,3,5)
proof (induction ss arbitrary: cur res bad d)
  case Nil
  then show ?case by (simp add: target_locked_def unusable_fields_def)
next
  case (Cons s ss)
  have enf: "enforced d" using Cons.prems(1) by (simp add: db_inv_def)
  have ss: "distinct ss" "s \<notin> set ss" using Cons.prems(2) by auto
  obtain L where L: "lock_target_slot d s (refs s) (changes s) = Inr L"
    "(case refs s of None \<Rightarrow> None | Some x \<Rightarrow> map_of L (dim_id x)) = current_dims d refs s"
    by (rule lock_target_now [OF enf])
  have first: "\<not> (refs s \<noteq> None \<and> current_dims d refs s = None)"
    using Cons.prems(3) unfolding lock_target_slots.simps L(1) bindE_Inr Let_def L(2) by (auto split: if_splits)
  note step = Cons.prems(3) [unfolded lock_target_slots.simps L(1) bindE_Inr Let_def L(2) if_not_P [OF first]]
  have "\<exists>d1. db_inv d1 \<and> mc_rows d1 = mc_rows d \<and> dim_rows d1 = (dim_rows d)(s := dim_rows d s @ change_rows changes e t s)
      \<and> lock_target_slots ctx operation changes refs e ss (cur(s := current_dims d refs s))
          (res(s := proposed_dims d changes refs e t s)) (bad @ unusable_fields d operation changes [s]) d1 = Inr (cur', res', bad', d')"
  proof (cases "\<exists>c v. changes s = Some (InlineDimension c v)")
    case True
    then obtain c v where cv: "changes s = Some (InlineDimension c v)" by blast
    then have valid: "valid_code c" "valid_value v" "value_slot v = s" using assms(2) by (auto simp: changes_valid_def)
    obtain k where k: "ctx = Some k" using step by (cases ctx) (auto simp: cv)
    let ?r = "inline_row e t s c v"
    obtain d1 where d1: "dim_insert k s ?r d = Inr d1"
      "lock_target_slots ctx operation changes refs e ss (cur(s := current_dims d refs s)) (res(s := Some (row_dim s ?r))) bad d1
        = Inr (cur', res', bad', d')"
      using step create_inline_eq [OF valid, of k e d] assms(4) [OF k] by (auto simp: cv k bindE_eq_Inr split: if_splits)
    have "db_inv d1"
      using Cons.prems(1) enforced_dim_insert [OF enf d1(1)] coherent_dim_insert [OF enf _ d1(1)] by (simp add: db_inv_def)
    moreover have "mc_rows d1 = mc_rows d" "dim_rows d1 = (dim_rows d)(s := dim_rows d s @ [?r])"
      using dim_insert_result(1) [OF d1(1)] by simp_all
    ultimately show ?thesis
      using d1(2) by (intro exI [of _ d1]) (simp add: change_rows_def proposed_dims_def unusable_fields_def unusable_def cv)
  next
    case False
    then have "change_rows changes e t s = []" by (auto simp: change_rows_def split: option.splits selection.splits)
    moreover have "lock_target_slots ctx operation changes refs e ss (cur(s := current_dims d refs s))
          (res(s := proposed_dims d changes refs e t s)) (bad @ unusable_fields d operation changes [s]) d = Inr (cur', res', bad', d')"
      using Cons.prems(3) lock_target_step [where changes = changes and s = s and refs = refs and t = t, OF enf False first] by simp
    ultimately show ?thesis using Cons.prems(1) by (intro exI [of _ d]) simp
  qed
  then obtain d1 where d1: "db_inv d1" "mc_rows d1 = mc_rows d" "dim_rows d1 = (dim_rows d)(s := dim_rows d s @ change_rows changes e t s)"
      and rest: "lock_target_slots ctx operation changes refs e ss (cur(s := current_dims d refs s))
          (res(s := proposed_dims d changes refs e t s)) (bad @ unusable_fields d operation changes [s]) d1 = Inr (cur', res', bad', d')"
    by blast
  show ?case
    using first by (intro target_locked_Cons [OF _ ss(2) d1(3,2) Cons.IH [OF d1(1) ss(1) rest]]) auto
qed


section \<open>The target of a proposal\<close>

lemma current_dims_view:
  assumes "mc_references_check d0 m0" "m_refs m = m_refs m0"
  shows "current_dims d (mc_dims_of d0 m0) = mc_dims_of d m"
proof
  fix s show "current_dims d (mc_dims_of d0 m0) s = mc_dims_of d m s"
  proof (cases "mc_dims_of d0 m0 s")
    case None
    then have "m_refs m s = None" using mc_dims_of_ids [OF assms(1), of s] assms(2) by simp
    then have "mc_dims_of d m s = None" by (simp add: mc_dims_of_def joined_row_def)
    with None show ?thesis by (simp add: current_dims_def)
  next
    case (Some x)
    then have "m_refs m s = Some (dim_id x)" using mc_dims_of_idD [OF assms(1)] assms(2) by simp
    then have "mc_dims_of d m s = any_dim d s (dim_id x)" by (simp add: any_dim_def mc_dims_of_def joined_row_def)
    with Some show ?thesis by (simp add: current_dims_def)
  qed
qed

lemma active_any:
  assumes "enforced d"
  shows "active_dim d s j = (case any_dim d s j of None \<Rightarrow> None | Some x \<Rightarrow> if is_deleted x then None else Some x)"
proof (cases "dim_by_id j (dim_rows d s)")
  case None
  then have "\<forall>r \<in> set (dim_rows d s). r_id r \<noteq> j" by (auto simp: dim_by_id_None)
  then have "active_dim d s j = None" by (auto simp: active_dim_def find_None_iff)
  with None show ?thesis by (simp add: any_dim_def)
next
  case (Some r)
  have dist: "distinct (map r_id (dim_rows d s))" using enforcedD(1) [OF assms, of s] by (simp add: dims_ok_def)
  have r: "r \<in> set (dim_rows d s)" "r_id r = j" using dim_by_id_in [OF Some] by auto
  show ?thesis
  proof (cases "r_deleted r")
    case None
    then have "active_dim d s j = Some (row_dim s r)" using r by (auto simp: active_dim_Some [OF assms])
    with Some None show ?thesis by (simp add: any_dim_def is_deleted_def)
  next
    case (Some t)
    have "active_dim d s j = None"
      using distinct_map_filter_unique [OF dist r(1)] r(2) Some by (force simp: active_dim_def find_None_iff)
    with \<open>dim_by_id j (dim_rows d s) = Some r\<close> Some show ?thesis by (simp add: any_dim_def is_deleted_def)
  qed
qed

text \<open>Locking the target of a proposal without inline Dimensions, with no other transaction in between.\<close>

definition no_inline :: "approval_plan \<Rightarrow> bool" where
  "no_inline ap \<longleftrightarrow> (\<forall>x \<in> set (ap_validated ap). \<not> is_inline (snd x))"

lemma lock_target_plain:
  assumes inv: "db_inv d" and plain: "no_inline ap" and target: "cp_target (ap_proposal ap) = Some i"
  shows "lock_target ap e d d =
    (case mc_by_id i (mc_rows d) of
       None \<Rightarrow> Inl MasterCodeNotFound
     | Some m \<Rightarrow>
         let bad = unusable_fields d (cp_operation (ap_proposal ap)) (map_of (ap_validated ap)) ORDER in
         if bad \<noteq> [] then Inl (InvalidDimensionReference bad)
         else if Some (etag (mc_view d m)) \<noteq> cp_etag (ap_proposal ap) then Inl ChangeRequestStaleTarget
         else bindE (master_code_dimensions_init (proposed_dims d (map_of (ap_validated ap)) (mc_dims_of d m) e 0)) (\<lambda>next_dims.
           Inr (m, mc_view d m, next_dims, None, d)))"
proof (cases "mc_by_id i (mc_rows d)")
  case None
  then show ?thesis by (simp add: lock_target_def target)
next
  case (Some m)
  have m: "m \<in> set (mc_rows d)" "m_id m = i" using mc_by_id_in [OF Some] by auto
  note f = mc_row_facts [OF inv m(1)]
  have enf: "enforced d" using inv by (simp add: db_inv_def)
  let ?changes = "map_of (ap_validated ap)"
  have no: "\<not> (\<exists>c v. ?changes s = Some (InlineDimension c v))" for s
    using plain by (auto simp: no_inline_def is_inline_def dest!: map_of_SomeD)
  have cur: "current_dims d (mc_dims_of d m) = mc_dims_of d m" by (rule current_dims_view [OF f(2) refl])
  have eq: "lock_target_slots None (cp_operation (ap_proposal ap)) ?changes (mc_dims_of d m) e ORDER (\<lambda>_. None) (\<lambda>_. None) [] d
    = Inr (mc_dims_of d m, proposed_dims d ?changes (mc_dims_of d m) e 0,
        unusable_fields d (cp_operation (ap_proposal ap)) ?changes ORDER, d)"
    by (subst lock_target_slots_eq [where t = 0, OF enf no distinct_ORDER]) (auto simp: cur)
  have same: "same_persisted_state m (mc_view d m)" by (simp add: same_persisted_state_view [OF enf f(2)])
  have none: "\<not> (\<exists>x \<in> set (ap_validated ap). is_inline (snd x))" using plain by (simp add: no_inline_def)
  show ?thesis
    unfolding lock_target_def target Some option.case f(3) bindE_Inr Let_def if_not_P [OF none] mc_view_simps eq prod.case m(2)
    using same by (simp add: f(5,6))
qed


section \<open>Deletion and restoration\<close>

lemma any_dim_facts:
  assumes "enforced d" "any_dim d s j = Some x"
  shows "dimension_wf x" "value_slot (dim_val x) = s" "dim_id x = j"
proof -
  obtain r where r: "dim_by_id j (dim_rows d s) = Some r" "x = row_dim s r" using assms(2) by (auto simp: any_dim_def)
  then have "r \<in> set (dim_rows d s)" "r_id r = j" using dim_by_id_in by blast+
  with r(2) row_ok_wf(1,2) [OF row_ok_table [OF assms(1)]] show "dimension_wf x" "value_slot (dim_val x) = s" "dim_id x = j"
    by simp_all
qed

lemma proposed_dims_wf:
  assumes "enforced d" and plain: "\<And>s. \<not> (\<exists>c v. changes s = Some (InlineDimension c v))"
  shows "dims_wf (proposed_dims d changes refs e t)"
proof -
  have "dimension_wf x \<and> value_slot (dim_val x) = s" if "proposed_dims d changes refs e t s = Some x" for s x
    using that plain [of s] any_dim_facts [OF assms(1)]
    by (auto simp: proposed_dims_def current_dims_def split: option.splits selection.splits)
  then show ?thesis by (simp add: dims_wf_def)
qed

lemma no_inlineD: "no_inline ap \<Longrightarrow> \<not> (\<exists>c v. map_of (ap_validated ap) s = Some (InlineDimension c v))"
  by (auto simp: no_inline_def is_inline_def dest!: map_of_SomeD)

lemma apply_lifecycle_iff:
  fixes restore :: bool
  assumes inv: "db_inv d" and plain: "no_inline ap" and target: "cp_target (ap_proposal ap) = Some i" "cp_etag (ap_proposal ap) = Some et"
    and op: "cp_operation (ap_proposal ap) = (if restore then CR_RESTORE else CR_DELETE)"
    and delete: "\<not> restore \<Longrightarrow> ap_validated ap = []"
  shows "apply_change ap e d d = Inr y \<longleftrightarrow> mc_change_lifecycle i et (ap_audit ap) restore e d d = Inr y
    \<and> unusable_fields d (cp_operation (ap_proposal ap)) (map_of (ap_validated ap)) ORDER = []
    \<and> (\<forall>m. mc_by_id i (mc_rows d) = Some m \<longrightarrow>
        (\<lambda>s. map_option dim_id (proposed_dims d (map_of (ap_validated ap)) (mc_dims_of d m) e 0 s)) = m_refs m)"
proof (cases "mc_by_id i (mc_rows d)")
  case None
  then show ?thesis
    by (simp add: apply_change_def lock_target_plain [OF inv plain target(1)] change_lifecycle_eq [OF inv inv])
next
  case (Some m)
  have m: "m \<in> set (mc_rows d)" "m_id m = i" using mc_by_id_in [OF Some] by auto
  note f = mc_row_facts [OF inv m(1)]
  let ?bad = "unusable_fields d (cp_operation (ap_proposal ap)) (map_of (ap_validated ap)) ORDER"
  let ?n = "proposed_dims d (map_of (ap_validated ap)) (mc_dims_of d m) e 0"
  have cur: "current_dims d (mc_dims_of d m) = mc_dims_of d m" by (rule current_dims_view [OF f(2) refl])
  have del: "?n = mc_dims_of d m" "?bad = []" if "\<not> restore"
    using delete [OF that] by (simp_all add: proposed_dims_def unusable_fields_def unusable_def cur fun_eq_iff)
  have ids: "(\<lambda>s. map_option dim_id (n s)) = m_refs m \<longleftrightarrow> dimension_ids n = dimension_ids (mc_dims_of d m)" for n
    using mc_dims_of_ids [OF f(2)] by (auto simp: dimension_ids_eq fun_eq_iff)
  have "dims_wf ?n" using inv no_inlineD [OF plain] by (intro proposed_dims_wf) (auto simp: db_inv_def)
  then have init: "master_code_dimensions_init ?n = Inr ?n" by (auto simp: res_simps dims_wf_def)
  have ctx: "set_context (ap_audit ap) (env_clock e) (Some (Aware (m_updated m))) = Inr \<lparr>ctx_meta = ap_audit ap, ctx_time = mc_time e m\<rparr>"
    by (simp add: set_context_eq mc_time_def)
  let ?u = "master_code_of (lifecycle_mc_row e restore m) (mc_dims_of d m)"
  have row: "m\<lparr>m_refs := m_refs m, m_code := mc_code ?u, m_version := mc_version ?u, m_updated := instant (mc_updated_at ?u),
      m_deleted := map_option instant (mc_deleted_at ?u)\<rparr> = lifecycle_mc_row e restore m"
    by (simp add: lifecycle_mc_row_def)
  note eqs = apply_change_def lock_target_plain [OF inv plain target(1)] change_lifecycle_eq [OF inv inv] Some option.case Let_def
    init bindE_Inr op target(2)
  show ?thesis
  proof (cases "(m_deleted m = None) = (\<not> restore) \<and> (restore \<longrightarrow> all_active (mc_dims_of d m))")
    case st: True
    note upd = lifecycle_update [OF inv m(1) conjunct1 [OF st] conjunct2 [OF st], of e]
    show ?thesis
    proof (cases restore)
      case True
      with upd have u: "master_code_restore (mc_view d m) (Aware (mc_time e m)) = Inr ?u" by simp
      obtain k where k: "m_deleted m = Some k" "all_active (mc_dims_of d m)" using True st by auto
      show ?thesis
        unfolding eqs
        using True k ids [of ?n] row
        by (simp add: check_effect_def lifecycle_locked_def inactive_fields_empty ctx u del: master_code_of_simps)
    next
      case False
      with upd have u: "master_code_delete (mc_view d m) (Aware (mc_time e m)) = Inr ?u" by simp
      show ?thesis
        unfolding eqs
        using False st ids [of ?n] row del [OF False]
        by (simp add: op check_effect_def lifecycle_locked_def ctx u del: master_code_of_simps)
    qed
  next
    case False
    then show ?thesis
      unfolding eqs
      by (cases restore) (auto simp: check_effect_def lifecycle_locked_def inactive_fields_empty split: if_splits)
  qed
qed


section \<open>Reference updates\<close>

definition reference_changes :: "validated_proposal \<Rightarrow> reference_update" where
  "reference_changes validated s =
     (case map_of validated s of
        Some (ExistingDimension i) \<Rightarrow> Some (RefExisting i)
      | Some NotApplicable \<Rightarrow> Some RefNotApplicable
      | _ \<Rightarrow> None)"

lemma unusable_reference:
  assumes "enforced d"
  shows "unusable d CR_REFERENCE_UPDATE change s \<longleftrightarrow> (\<exists>i. change = Some (ExistingDimension i) \<and> active_dim d s i = None)"
  by (auto simp: unusable_def active_any [OF assms] split: option.splits selection.splits)

lemma unusable_references:
  assumes "enforced d"
  shows "unusable_fields d CR_REFERENCE_UPDATE (map_of validated) ORDER = []
    \<longleftrightarrow> invalid_fields d (reference_changes validated) ORDER = []"
  by (auto simp: unusable_fields_def invalid_fields_def filter_empty_conv unusable_reference [OF assms] reference_changes_def
      split: option.splits selection.splits)

lemma proposed_next_dims:
  assumes "db_inv d" "m \<in> set (mc_rows d)" "m_deleted m = None" "no_inline ap"
    and "unusable_fields d CR_REFERENCE_UPDATE (map_of (ap_validated ap)) ORDER = []"
  shows "proposed_dims d (map_of (ap_validated ap)) (mc_dims_of d m) e t = next_dims d (reference_changes (ap_validated ap)) m"
proof
  fix s
  have enf: "enforced d" using assms(1) by (simp add: db_inv_def)
  have cur: "current_dims d (mc_dims_of d m) = mc_dims_of d m"
    by (rule current_dims_view [OF mc_row_facts(2) [OF assms(1,2)] refl])
  have use: "\<not> unusable d CR_REFERENCE_UPDATE (map_of (ap_validated ap) s) s"
    using assms(5) by (simp add: unusable_fields_def filter_empty_conv)
  show "proposed_dims d (map_of (ap_validated ap)) (mc_dims_of d m) e t s = next_dims d (reference_changes (ap_validated ap)) m s"
  proof (cases "map_of (ap_validated ap) s")
    case None
    then show ?thesis by (simp add: proposed_dims_def next_dims_def reference_changes_def cur)
  next
    case (Some selection)
    show ?thesis
    proof (cases selection)
      case (ExistingDimension i)
      with use Some have "active_dim d s i \<noteq> None" by (auto simp: unusable_reference [OF enf])
      then have "any_dim d s i = active_dim d s i" by (auto simp: active_any [OF enf] split: option.splits if_splits)
      with Some ExistingDimension show ?thesis by (simp add: proposed_dims_def next_dims_def reference_changes_def)
    next
      case (InlineDimension c v)
      with Some no_inlineD [OF assms(4)] show ?thesis by blast
    next
      case NotApplicable
      with Some show ?thesis by (simp add: proposed_dims_def next_dims_def reference_changes_def)
    qed
  qed
qed

text \<open>The domain transition of a reference update.\<close>

lemma reference_update_value:
  assumes "db_inv d" "m \<in> set (mc_rows d)" "m_deleted m = None" "all_active n" "m_updated m \<le> t"
    and "dimension_ids n \<noteq> dimension_ids (mc_dims_of d m)"
  shows "update_references (mc_view d m) n (Aware t) = Inr (master_code_of (m\<lparr>m_refs := (\<lambda>s. map_option dim_id (n s)),
      m_code := compose n, m_version := m_version m + 1, m_updated := t\<rparr>) n)"
  using assms(3-6) update_references_eq_Inr [OF mc_row_facts(4) [OF assms(1,2)], of n "Aware t"]
  by (simp add: mc_view_def master_code_of_def)

lemma mc_update_changes:
  assumes "m \<in> set (mc_rows d)" "m_id m' = m_id m" "m_version m' \<noteq> m_version m" "db_inv d" "mc_update ctx m' d = Inr d'"
  shows "d' \<noteq> d"
proof
  assume "d' = d"
  have "mc_by_id (m_id m') (mc_rows d) = Some m" using mc_row_facts(7) [OF assms(4,1)] assms(2) by simp
  from mc_update_result(1) [OF assms(5) this] have "mc_rows d' = put_mc m' (mc_rows d)" by (elim exE) simp
  then have rows: "mc_rows d = put_mc m' (mc_rows d)" unfolding \<open>d' = d\<close> .
  have "m' \<in> set (put_mc m' (mc_rows d))" using assms(1,2) by (force simp: put_mc_def)
  then have "m' \<in> set (mc_rows d)" by (subst rows)
  then show False
    using distinct_map_filter_unique [OF distinct_mc_ids [OF assms(4)] _ assms(1,2)] assms(3) by blast
qed

lemma apply_references_iff:
  assumes inv: "db_inv d" and plain: "no_inline ap" and target: "cp_target (ap_proposal ap) = Some i" "cp_etag (ap_proposal ap) = Some et"
    and op: "cp_operation (ap_proposal ap) = CR_REFERENCE_UPDATE"
  shows "apply_change ap e d d = Inr y \<longleftrightarrow>
    mc_update_references i (reference_changes (ap_validated ap)) et (ap_audit ap) e d d = Inr y \<and> snd y \<noteq> d"
proof (cases "find (\<lambda>m. m_id m = i \<and> m_deleted m = None) (mc_rows d)")
  case None
  have "\<not> (\<exists>m. mc_by_id i (mc_rows d) = Some m \<and> m_deleted m = None)"
    using None mc_by_id_in by (fastforce simp: find_None_iff)
  then have "apply_change ap e d d \<noteq> Inr y"
    by (auto simp: apply_change_def lock_target_plain [OF inv plain target(1)] op check_effect_def Let_def bindE_eq_Inr
        split: option.splits if_splits)
  with None show ?thesis by (simp add: update_references_eq [OF inv inv] translate_reference_eq_Inr)
next
  case (Some m)
  note m = find_active_in [OF Some]
  note f = mc_row_facts [OF inv m(1)]
  have enf: "enforced d" using inv by (simp add: db_inv_def)
  have by_id: "mc_by_id i (mc_rows d) = Some m" using f(7) m(2) by simp
  let ?n = "next_dims d (reference_changes (ap_validated ap)) m"
  note nf = next_dims_facts [OF inv m(1,3), of "reference_changes (ap_validated ap)"]
  have direct: "mc_update_references i (reference_changes (ap_validated ap)) et (ap_audit ap) e d d = Inr y \<longleftrightarrow>
      invalid_fields d (reference_changes (ap_validated ap)) ORDER = []
      \<and> references_locked (reference_changes (ap_validated ap)) et (ap_audit ap) e d m = Inr y"
    unfolding update_references_eq [OF inv inv] translate_reference_eq_Inr Some option.case
      if_not_P [OF no_dangling_reference [OF inv m(1,3)]] by simp
  show ?thesis
  proof (cases "unusable_fields d CR_REFERENCE_UPDATE (map_of (ap_validated ap)) ORDER = []")
    case False
    then show ?thesis
      using unusable_references [OF enf, of "ap_validated ap"]
      by (simp add: direct apply_change_def lock_target_plain [OF inv plain target(1)] by_id op Let_def)
  next
    case True
    have init: "master_code_dimensions_init ?n = Inr ?n" using nf(1) by (auto simp: res_simps dims_wf_def)
    have ids: "(\<lambda>s. map_option dim_id (?n s)) = m_refs m \<longleftrightarrow> dimension_ids ?n = dimension_ids (mc_dims_of d m)"
      using mc_dims_of_ids [OF f(2)] by (auto simp: dimension_ids_eq fun_eq_iff)
    have ctx: "set_context (ap_audit ap) (env_clock e) (Some (Aware (m_updated m))) = Inr \<lparr>ctx_meta = ap_audit ap, ctx_time = mc_time e m\<rparr>"
      by (simp add: set_context_eq mc_time_def)
    have upd: "update_references (mc_view d m) ?n (Aware (mc_time e m)) = Inr (master_code_of (reference_row e ?n m) ?n)"
      if "dimension_ids ?n \<noteq> dimension_ids (mc_dims_of d m)"
      using reference_update_value [OF inv m(1,3) nf(2) _ that, of "mc_time e m"] by (simp add: reference_row_def mc_time_def)
    have row: "m\<lparr>m_refs := (\<lambda>s. map_option dim_id (?n s)), m_code := compose ?n, m_version := m_version m + 1,
        m_updated := mc_time e m, m_deleted := None\<rparr> = reference_row e ?n m"
      using m(3) by (simp add: reference_row_def)
    have changed: "d' \<noteq> d" if "mc_update c (reference_row e ?n m) d = Inr d'" for c d'
      by (rule mc_update_changes [OF m(1) _ _ inv that]) simp_all
    show ?thesis
      unfolding direct apply_change_def lock_target_plain [OF inv plain target(1)] by_id option.case op target(2) Let_def
        proposed_next_dims [OF inv m(1,3) plain True]
      using True unusable_references [OF enf, of "ap_validated ap"] m(3) changed
      by (cases "dimension_ids ?n = dimension_ids (mc_dims_of d m)")
         (auto simp: init check_effect_def ctx upd row references_locked_def ids Let_def bindE_eq_Inr split: if_splits)
  qed
qed

end
