(* ===== verification/Change_Request_Approval.thy ===== *)
theory Change_Request_Approval
  imports Change_Request_Laws
begin

text \<open>
  What a successful approval did: the target it locked was unchanged since the first read, the
  invariant of the data is kept, and the proposal's Dimensions are the ones the row now refers to.
\<close>

section \<open>Looking Dimensions up in a grown table\<close>

lemma any_dim_append:
  assumes "dim_rows d1 s = dim_rows d s @ rs" "any_dim d s j = Some x"
  shows "any_dim d1 s j = Some x"
proof -
  have "find P (xs @ ys) = Some y" if "find P xs = Some y" for P y and xs ys :: "dim_row list"
    using that by (induction xs) (auto split: if_splits)
  with assms show ?thesis by (auto simp: any_dim_def dim_by_id_def)
qed

lemma mc_dims_of_any: "mc_dims_of d m s = (case m_refs m s of None \<Rightarrow> None | Some j \<Rightarrow> any_dim d s j)"
  by (simp add: mc_dims_of_def joined_row_def any_dim_def split: option.splits)

lemma mc_dims_of_grown:
  assumes "\<And>s. \<exists>rs. dim_rows d1 s = dim_rows d s @ rs" "mc_references_check d m"
  shows "mc_dims_of d1 m = mc_dims_of d m"
proof
  fix s show "mc_dims_of d1 m s = mc_dims_of d m s"
  proof (cases "m_refs m s")
    case (Some j)
    from mc_dims_of_idE [OF assms(2) this] obtain x where "mc_dims_of d m s = Some x" by blast
    with any_dim_append [of d1 s d] assms(1) [of s] Some show ?thesis by (auto simp: mc_dims_of_any)
  qed (simp add: mc_dims_of_any)
qed

text \<open>The proposed Dimensions are rows of the table once the inline ones are inserted.\<close>

lemma proposed_dims_stored:
  assumes "enforced d1" "enforced d" "\<And>s. dim_rows d1 s = dim_rows d s @ change_rows changes e t s"
    and "proposed_dims d changes refs e t s = Some x"
  shows "any_dim d1 s (dim_id x) = Some x"
proof (cases "\<exists>c v. changes s = Some (InlineDimension c v)")
  case True
  then obtain c v where cv: "changes s = Some (InlineDimension c v)" by blast
  let ?r = "inline_row e t s c v"
  have x: "x = row_dim s ?r" using assms(4) cv by (simp add: proposed_dims_def)
  have "?r \<in> set (dim_rows d1 s)" using assms(3) [of s] cv by (simp add: change_rows_def)
  then have "dim_by_id (r_id ?r) (dim_rows d1 s) = Some ?r"
    using dim_by_id_unique [of "dim_rows d1 s" ?r] enforcedD(1) [OF assms(1), of s] by (simp add: dims_ok_def)
  then show ?thesis by (simp add: any_dim_def x)
next
  case False
  then obtain j where j: "any_dim d s j = Some x"
    using assms(4) by (auto simp: proposed_dims_def current_dims_def split: option.splits selection.splits)
  with any_dim_append [OF assms(3) j] any_dim_facts(3) [OF assms(2) j] show ?thesis by simp
qed


section \<open>The locked target of any proposal\<close>

lemma lock_target_success:
  assumes inv: "db_inv d0" "db_inv d" and valid: "changes_valid (map_of (ap_validated ap))"
    and ok: "lock_target ap e d0 d = Inr (m, current, nxt, installed, d1)"
  obtains t where "m \<in> set (mc_rows d)" "Some (m_id m) = cp_target (ap_proposal ap)" "mc_rows d1 = mc_rows d" "db_inv d1"
    "current = mc_view d m" "Some (etag current) = cp_etag (ap_proposal ap)"
    "\<And>s. dim_rows d1 s = dim_rows d s @ change_rows (map_of (ap_validated ap)) e t s"
    "nxt = proposed_dims d (map_of (ap_validated ap)) (mc_dims_of d m) e t"
    "unusable_fields d (cp_operation (ap_proposal ap)) (map_of (ap_validated ap)) ORDER = []"
    "\<And>c. installed = Some c \<Longrightarrow> ctx_time c = t \<and> ctx_meta c = ap_audit ap"
proof -
  obtain i m0 where i: "cp_target (ap_proposal ap) = Some i" "mc_by_id i (mc_rows d0) = Some m0"
    using ok by (auto simp: lock_target_def split: option.splits)
  have m0: "m0 \<in> set (mc_rows d0)" "m_id m0 = i" using mc_by_id_in [OF i(2)] by auto
  note f0 = mc_row_facts [OF inv(1) m0(1)]
  let ?changes = "map_of (ap_validated ap)"
  let ?op = "cp_operation (ap_proposal ap)"
  obtain ctx cur res bad where ctx: "(if \<exists>x \<in> set (ap_validated ap). is_inline (snd x)
        then bindE (set_context (ap_audit ap) (env_clock e) (Some (mc_updated_at (mc_view d0 m0)))) (\<lambda>c. Inr (Some c)) else Inr None) = Inr ctx"
    and slots: "lock_target_slots ctx ?op ?changes (mc_dims_of d0 m0) e ORDER (\<lambda>_. None) (\<lambda>_. None) [] d = Inr (cur, res, bad, d1)"
    and bad: "bad = []" and m: "mc_by_id i (mc_rows d1) = Some m" "same_persisted_state m (mc_view d0 m0)"
    and cur: "bindE (master_code_dimensions_init cur) (row_master_code m) = Inr current"
    and et: "Some (etag current) = cp_etag (ap_proposal ap)"
    and nxt: "master_code_dimensions_init res = Inr nxt" and installed: "installed = ctx"
    using ok unfolding lock_target_def i option.case f0(3) bindE_Inr Let_def mc_view_simps m0(2)
    by (auto simp: bindE_eq_Inr split: if_splits option.splits)
  obtain t where t: "\<And>c. ctx = Some c \<Longrightarrow> ctx_time c = t \<and> ctx_meta c = ap_audit ap"
    using ctx by (cases ctx) (auto simp: set_context_eq split: if_splits)
  then have time: "\<And>c. ctx = Some c \<Longrightarrow> ctx_time c = t" by blast
  from lock_target_slots_success [OF inv(2) valid distinct_ORDER time slots]
  have tl: "db_inv d1" "mc_rows d1 = mc_rows d" "cur = current_dims d (mc_dims_of d0 m0)"
    "res = proposed_dims d ?changes (mc_dims_of d0 m0) e t" "unusable_fields d ?op ?changes ORDER = []"
    "\<And>s. dim_rows d1 s = dim_rows d s @ change_rows ?changes e t s"
    using bad by (simp_all add: target_locked_def fun_eq_iff)
  have md: "m \<in> set (mc_rows d)" "m_id m = i" using mc_by_id_in [OF m(1)] tl(2) by auto
  note f = mc_row_facts [OF inv(2) md(1)]
  have enf: "enforced d" using inv(2) by (simp add: db_inv_def)
  have refs: "m_refs m = m_refs m0" using m(2) same_persisted_state_view [OF enf f0(2)] by simp
  have view: "current_dims d (mc_dims_of d0 m0) = mc_dims_of d m" by (rule current_dims_view [OF f0(2) refs])
  then have "proposed_dims d ?changes (mc_dims_of d0 m0) e t = proposed_dims d ?changes (mc_dims_of d m) e t"
    using current_dims_view [OF f(2) refl, of d] by (auto simp: proposed_dims_def split: option.splits)
  moreover have "nxt = res" using nxt by (simp add: res_simps)
  moreover have "current = mc_view d m" using cur f(5,6) by (simp add: tl(3) view)
  ultimately show thesis
    using that [of t] md i(1) tl et installed t by simp
qed

section \<open>Applying keeps the invariant\<close>

text \<open>A row that takes over the proposed references.\<close>

lemma proposed_row:
  assumes "db_inv d1" "db_inv d" "\<And>s. dim_rows d1 s = dim_rows d s @ change_rows changes e t s"
    and "n = proposed_dims d changes refs e t" "m_refs m = (\<lambda>s. map_option dim_id (n s))"
  shows "mc_dims_of d1 m = n"
proof
  have enf: "enforced d1" "enforced d" using assms(1,2) by (simp_all add: db_inv_def)
  fix s show "mc_dims_of d1 m s = n s"
    using proposed_dims_stored [OF enf assms(3), of refs s] by (cases "n s") (simp_all add: mc_dims_of_any assms(4,5))
qed

lemma apply_change_inv:
  assumes inv: "db_inv d0" "db_inv d" and valid: "changes_valid (map_of (ap_validated ap))"
    and ok: "apply_change ap e d0 d = Inr (x, d')"
  shows "db_inv d'" "is_aware (mc_updated_at x)"
proof -
  let ?op = "cp_operation (ap_proposal ap)"
  obtain m current n installed d1 where lock: "lock_target ap e d0 d = Inr (m, current, n, installed, d1)"
    using ok by (auto simp: apply_change_def bindE_eq_Inr)
  obtain t where m: "m \<in> set (mc_rows d)" and d1: "mc_rows d1 = mc_rows d" "db_inv d1"
    and cur: "current = mc_view d m" and grown: "\<And>s. dim_rows d1 s = dim_rows d s @ change_rows (map_of (ap_validated ap)) e t s"
    and n: "n = proposed_dims d (map_of (ap_validated ap)) (mc_dims_of d m) e t"
    by (rule lock_target_success [OF inv valid lock]) blast
  note f = mc_row_facts [OF inv(2) m]
  have m1: "m \<in> set (mc_rows d1)" using m d1(1) by simp
  let ?m = "m\<lparr>m_refs := (if ?op = CR_DELETE \<or> ?op = CR_RESTORE then m_refs m else (\<lambda>s. map_option dim_id (n s))),
      m_code := mc_code x, m_version := mc_version x, m_updated := instant (mc_updated_at x),
      m_deleted := map_option instant (mc_deleted_at x)\<rparr>"
  obtain ctx where eff: "check_effect ?op current n = Inr ()"
    and upd: "(if ?op = CR_DELETE then master_code_delete current (Aware (ctx_time ctx))
              else if ?op = CR_RESTORE then master_code_restore current (Aware (ctx_time ctx))
              else update_references current n (Aware (ctx_time ctx))) = Inr x"
    and wr: "mc_update ctx ?m d1 = Inr d'"
    using ok unfolding apply_change_def lock bindE_Inr prod.case Let_def by (auto simp: bindE_eq_Inr)
  have same: "mc_dims_of d1 m = mc_dims_of d m"
    by (rule mc_dims_of_grown [OF _ f(2)]) (use grown in blast)
  have good: "m_code ?m = compose (mc_dims_of d1 ?m) \<and> (m_deleted ?m = None \<longrightarrow> all_active (mc_dims_of d1 ?m))
      \<and> is_aware (mc_updated_at x)"
  proof (cases "?op = CR_DELETE \<or> ?op = CR_RESTORE")
    case True
    have "mc_dims_of d1 ?m = mc_dims_of d m" using mc_dims_of_cong [of d1 d1 ?m m] True same by simp
    then show ?thesis
      using True upd inv(2) m
      by (auto simp: cur master_code_delete_eq_Inr [OF f(4)] master_code_restore_eq_Inr [OF f(4)] db_inv_def coherent_def)
  next
    case False
    have dims: "mc_dims_of d1 ?m = n" by (rule proposed_row [OF d1(2) inv(2) grown n]) (use False in simp)
    have "dimension_ids n \<noteq> dimension_ids (mc_dims_of d m)" using eff False by (auto simp: check_effect_def cur split: if_splits)
    then show ?thesis using False upd dims by (auto simp: cur update_references_eq_Inr [OF f(4)])
  qed
  show "db_inv d'" by (rule mc_update_inv(1) [OF d1(2) m1 _ wr]) (use good in auto)
  show "is_aware (mc_updated_at x)" using good by blast
qed

end
