(* ===== verification/Change_Request_Rows.thy ===== *)
theory Change_Request_Rows
  imports Change_Request_Approval
begin

text \<open>
  Laws of the request side: identifiers and ETags read back, a validated proposal is one the
  approval can apply, a stored row is a request, and what a successful review wrote.
\<close>

section \<open>Identifiers and ETags\<close>

lemma drop_none: "\<forall>x \<in> set xs. \<not> P x \<Longrightarrow> dropWhile P xs = xs"
  by (cases xs) auto

lemma remove_all_absent: "old \<noteq> [] \<Longrightarrow> hd old \<notin> set s \<Longrightarrow> remove_all old s = s"
  by (induction old s rule: remove_all.induct) (auto simp: take_Cons split: nat.splits if_splits list.splits)

lemma remove_all_char: "remove_all [c] s = filter (\<lambda>x. x \<noteq> c) s"
  by (induction s) auto

lemma strip_braces_absent:
  assumes "123 \<notin> set s" "125 \<notin> set s"
  shows "strip_braces s = s"
proof -
  have "dropWhile (\<lambda>c. c = 123 \<or> c = 125) s = s" "dropWhile (\<lambda>c. c = 123 \<or> c = 125) (rev s) = rev s"
    by (rule drop_none; use assms in auto)+
  then show ?thesis by (simp add: strip_braces_def)
qed

lemma hex_digits_map:
  "set ds \<subseteq> {..<16} \<Longrightarrow> ds \<noteq> [] \<or> \<not> sep \<Longrightarrow> hex_digits sep n (map hex_digit ds) = Some (foldl (\<lambda>a d. a * 16 + d) n ds)"
proof (induction ds arbitrary: sep n)
  case (Cons d ds)
  then have "hex_digit_value (hex_digit d) = Some d" "hex_digit d \<noteq> 95"
    by (auto simp: hex_digit_value_def hex_digit_def is_digit_def)
  with Cons show ?case by simp
qed simp

text \<open>\<open>UUID(str(u))\<close> is \<open>u\<close>.\<close>

lemma int16_hex:
  assumes "set ds \<subseteq> {..<16}" "2 \<le> length ds"
  shows "int16 (map hex_digit ds) = Some (int (of_digits 16 ds))"
proof -
  have chars: "c \<in> {48..57} \<union> {97..102}" if "c \<in> set (map hex_digit ds)" for c
    using that assms(1) hex_digit_range by auto
  then have "\<forall>c \<in> set (map hex_digit ds). \<not> is_space c" by (fastforce simp: is_space_def)
  then have strip: "strip_ws (map hex_digit ds) = map hex_digit ds" by (simp add: strip_ws_def drop_none del: set_map)
  obtain a b rest where ds: "ds = a # b # rest" using assms(2) by (cases ds; cases "tl ds") auto
  have "hex_digit a \<noteq> 45" "hex_digit a \<noteq> 43" "hex_digit b \<noteq> 120" "hex_digit b \<noteq> 88"
    using chars [of "hex_digit a"] chars [of "hex_digit b"] by (auto simp: ds)
  then show ?thesis
    using hex_digits_map [OF assms(1), of True 0]
    by (simp add: int16_def strip [unfolded ds, simplified] ds lit_def of_digits_def del: hex_digits.simps)
qed

lemma parse_str_uuid [simp]: "parse_uuid (str_uuid u) = Some u"
proof -
  have "117 \<notin> set (str_uuid u)" using set_str_uuid [of u] by auto
  then have "remove_all (lit ''urn:'') (str_uuid u) = str_uuid u" "remove_all (lit ''uuid:'') (str_uuid u) = str_uuid u"
    by (simp_all add: remove_all_absent lit_def)
  moreover have "strip_braces (str_uuid u) = str_uuid u" using set_str_uuid [of u] by (intro strip_braces_absent) auto
  moreover have "remove_all (lit ''-'') (str_uuid u) = uuid_hex u"
    by (simp add: lit_def remove_all_char filter_str_uuid)
  moreover have "int16 (uuid_hex u) = Some (int (unat u))"
  proof -
    have "unat u < 2 ^ LENGTH(128)" by (rule unsigned_less)
    then have "unat u mod 16 ^ 32 = unat u" by simp
    then show ?thesis
      using int16_hex [of "digits_n 16 32 (unat u)"] set_digits_n [of 16 32 "unat u"]
      by (auto simp: uuid_hex_def of_digits_digits_n)
  qed
  ultimately show ?thesis by (simp add: parse_uuid_def)
qed

text \<open>Every ETag the service issues has the shape a proposal must quote.\<close>

lemma issued_etag_pattern: "etag_pattern (etag x)"
proof -
  let ?h = "sha256_hex (etag_payload x)"
  have h: "\<forall>c \<in> set ?h. is_hex_lower c" using set_sha256_hex [of "etag_payload x"] by (auto simp: is_hex_lower_def is_digit_def)
  have "etag x = lit ''\"mc-'' @ 49 # 45 # ?h @ [34]" by (simp add: etag_def lit_def)
  then show ?thesis
    using h by (simp add: etag_pattern_def lit_def is_digit_def butlast_append)
qed


section \<open>Validated proposals\<close>

lemma validate_proposal_cases:
  assumes "validate_proposal c = Inr v"
  obtains "cp_operation c = CR_DELETE" "v = []"
  | plan used where "cp_operation c \<noteq> CR_DELETE" "plan_valid plan" "v = map (\<lambda>s. (s, plan s)) (filter used ORDER)"
      "cp_operation c \<in> {CR_CREATE, CR_RESTORE} \<Longrightarrow> filter used ORDER = ORDER"
proof (cases "cp_operation c = CR_DELETE")
  case True
  with assms that(1) show thesis by (auto simp: validate_proposal_def invalid_request_def split: if_splits option.splits)
next
  case False
  let ?used = "\<lambda>dims s. Some s \<in> set (map (slot_of_key \<circ> fst) dims)"
  obtain dims :: "(pystr \<times> jvalue) list" and selections plan where
    plan: "normalize_plan selections = Inr plan" "v = map (\<lambda>s. (s, plan s)) (filter (?used dims) ORDER)"
    and all: "cp_operation c \<in> {CR_CREATE, CR_RESTORE} \<longrightarrow> set (map (slot_of_key \<circ> fst) dims) = set (map Some ORDER)"
    using assms False
    by (auto simp: validate_proposal_def invalid_request_def bindE_eq_Inr
        split: if_splits option.splits jvalue.splits list.splits prod.splits)
  show thesis
    by (rule that(2) [OF False normalize_plan_valid [OF plan(1)] plan(2)]) (use all in simp)
qed

lemma map_of_planned: "map_of (map (\<lambda>s. (s, plan s)) ss) s = (if s \<in> set ss then Some (plan s) else None)"
  by (induction ss) auto

lemma validated_changes:
  assumes "validate_proposal c = Inr v"
  shows "changes_valid (map_of v)"
  using assms
proof (rule validate_proposal_cases)
  assume "v = []"
  then show ?thesis by (simp add: changes_valid_def)
next
  fix plan used
  assume "plan_valid plan" "v = map (\<lambda>s. (s, plan s)) (filter used ORDER)"
  then show ?thesis by (auto simp: changes_valid_def plan_valid_def map_of_planned split: if_splits)
qed

lemma validated_complete:
  assumes "validate_proposal c = Inr v" "cp_operation c \<in> {CR_CREATE, CR_RESTORE}"
  obtains plan where "plan_valid plan" "v = map (\<lambda>s. (s, plan s)) ORDER"
  using assms(1)
proof (rule validate_proposal_cases)
  assume "cp_operation c = CR_DELETE"
  with assms(2) show thesis by simp
next
  fix plan used
  assume "plan_valid plan" "v = map (\<lambda>s. (s, plan s)) (filter used ORDER)"
    "cp_operation c \<in> {CR_CREATE, CR_RESTORE} \<Longrightarrow> filter used ORDER = ORDER"
  with assms(2) that [of plan] show thesis by simp
qed

end
