(* ===== verification/Cursor.thy ===== *)
theory Cursor
  imports Calendar Credentials Change_Request_Rows
begin

text \<open>
  The opaque pagination cursors of the API: a flat JSON object with a time and an id (and, for
  the administrator lists, the digest of the query), printed without spaces and encoded as unpadded
  base64url.

  The encoder is computed in full. The decoder calls \<open>base64.b64decode\<close>, \<open>json.loads\<close>,
  \<open>datetime.fromisoformat\<close> and \<open>uuid.UUID\<close>, which also accept texts the service never
  writes (JSON with spaces or escapes, other ISO 8601 forms, UUIDs with non-ASCII digits, ...). What
  they return for such texts is the record \<open>decoders\<close>; for texts in the form that the service writes the
  functions here compute the result.
\<close>

section \<open>Base64 with validation\<close>

text \<open>\<open>b64decode(encoded + padding, altchars=b"-_", validate=True)\<close>: characters outside of the
  alphabet and a wrong number of pad characters raise; pad characters after whole quads are ignored.\<close>

definition b64_translate :: "nat \<Rightarrow> nat" where
  "b64_translate c = (if c = 43 then 45 else if c = 47 then 95 else c)"

definition b64decode_strict :: "pystr \<Rightarrow> nat list option" where
  "b64decode_strict s =
     (let data = takeWhile (\<lambda>c. c \<noteq> 61) s; pads = dropWhile (\<lambda>c. c \<noteq> 61) s; n = length data mod 4 in
      if list_all (\<lambda>c. token_char (b64_translate c)) data \<and> list_all (\<lambda>c. c = 61) pads
         \<and> ((n = 0 \<and> (pads = [] \<or> data \<noteq> [])) \<or> (n = 2 \<and> length pads = 2) \<or> (n = 3 \<and> length pads = 1))
      then Some (b64_decode (map b64_translate data)) else None)"

definition padding :: "pystr \<Rightarrow> pystr" where
  "padding encoded = replicate ((4 - length encoded mod 4) mod 4) 61"


section \<open>Flat JSON objects\<close>

definition plain_char :: "nat \<Rightarrow> bool" where
  "plain_char c \<longleftrightarrow> 32 \<le> c \<and> c < 127 \<and> c \<noteq> 34 \<and> c \<noteq> 92"

definition quoted :: "pystr \<Rightarrow> pystr" where
  "quoted s = [34] @ s @ [34]"

text \<open>\<open>json.dumps\<close> of a value of a cursor: a text without characters to be escaped, or a natural number.\<close>

fun json_scalar :: "jvalue \<Rightarrow> pystr" where
  "json_scalar (PStr s) = quoted s"
| "json_scalar (PInt n) = str_int n"
| "json_scalar _ = lit ''null''"

definition json_member :: "pystr \<times> jvalue \<Rightarrow> pystr" where
  "json_member m = quoted (fst m) @ [58] @ json_scalar (snd m)"

definition json_object :: "(pystr \<times> jvalue) list \<Rightarrow> pystr" where
  "json_object ms = [123] @ joined 44 (map json_member ms) @ [125]"

definition scan_string :: "pystr \<Rightarrow> (pystr \<times> pystr) option" where
  "scan_string s =
     (case s of
        [] \<Rightarrow> None
      | q # r \<Rightarrow>
          (case dropWhile plain_char r of
             [] \<Rightarrow> None
           | e # rest \<Rightarrow> if q = 34 \<and> e = 34 then Some (takeWhile plain_char r, rest) else None))"

definition digit_char :: "nat \<Rightarrow> bool" where
  "digit_char c \<longleftrightarrow> 48 \<le> c \<and> c \<le> 57"

definition scan_number :: "pystr \<Rightarrow> (int \<times> pystr) option" where
  "scan_number s =
     (let ds = takeWhile digit_char s in
      if ds = [] \<or> (hd ds = 48 \<and> ds \<noteq> [48]) then None else Some (int_of_digits ds, dropWhile digit_char s))"

definition scan_value :: "pystr \<Rightarrow> (jvalue \<times> pystr) option" where
  "scan_value s =
     (case scan_string s of
        Some (x, r) \<Rightarrow> Some (PStr x, r)
      | None \<Rightarrow> map_option (map_prod PInt id) (scan_number s))"

fun scan_members :: "nat \<Rightarrow> pystr \<Rightarrow> (pystr \<times> jvalue) list option" where
  "scan_members 0 s = None"
| "scan_members (Suc n) s =
     (case scan_string s of
        Some (k, c # r) \<Rightarrow>
          if c \<noteq> 58 then None
          else (case scan_value r of
             Some (v, e # r') \<Rightarrow>
               if e = 125 \<and> r' = [] then Some [(k, v)]
               else if e = 44 then map_option ((#) (k, v)) (scan_members n r')
               else None
           | _ \<Rightarrow> None)
      | _ \<Rightarrow> None)"

text \<open>A flat object as the service prints it; \<open>None\<close> for any other text.\<close>

definition scan_object :: "pystr \<Rightarrow> (pystr \<times> jvalue) list option" where
  "scan_object s = (case s of [] \<Rightarrow> None | c # r \<Rightarrow> if c = 123 then scan_members (length r) r else None)"


section \<open>The library functions\<close>

record decoders =
  dc_json :: "nat list \<Rightarrow> jvalue option"
  dc_time :: "pystr \<Rightarrow> datetime option"
  dc_uuid :: "pystr \<Rightarrow> uuid option"
  dc_real_is_one :: "pystr \<Rightarrow> bool"
  dc_local :: "int \<Rightarrow> int"

definition json_loads :: "decoders \<Rightarrow> nat list \<Rightarrow> jvalue option" where
  "json_loads D raw = (case scan_object raw of Some ms \<Rightarrow> Some (PObj ms) | None \<Rightarrow> dc_json D raw)"

definition fromisoformat :: "decoders \<Rightarrow> pystr \<Rightarrow> datetime option" where
  "fromisoformat D s = (case parse_isoformat s of Some r \<Rightarrow> r | None \<Rightarrow> dc_time D s)"

text \<open>\<open>UUID(text)\<close>.\<close>

definition uuid_text :: "decoders \<Rightarrow> pystr \<Rightarrow> uuid option" where
  "uuid_text D s = (if isascii s then parse_uuid s else dc_uuid D s)"

text \<open>\<open>str.replace(old, new)\<close> for a non-empty \<open>old\<close>.\<close>

function replace_all :: "pystr \<Rightarrow> pystr \<Rightarrow> pystr \<Rightarrow> pystr" where
  "replace_all old new s =
     (if old = [] \<or> s = [] then s
      else if take (length old) s = old then new @ replace_all old new (drop (length old) s)
      else hd s # replace_all old new (tl s))"
  by pat_completeness auto
termination
  by (relation "measure (\<lambda>(old, new, s). length s)") (auto simp: length_drop)

declare replace_all.simps [simp del]

text \<open>\<open>data[key]\<close> and \<open>set(data)\<close> of a parsed object: the last member of a key counts.\<close>

definition member :: "string \<Rightarrow> (pystr \<times> jvalue) list \<Rightarrow> jvalue option" where
  "member k ms = map_of (rev ms) (lit k)"

definition has_keys :: "string list \<Rightarrow> (pystr \<times> jvalue) list \<Rightarrow> bool" where
  "has_keys ks ms \<longleftrightarrow> set (map fst ms) = set (map lit ks)"

definition decode_object :: "decoders \<Rightarrow> pystr \<Rightarrow> jvalue option" where
  "decode_object D encoded =
     (case b64decode_strict (encoded @ padding encoded) of None \<Rightarrow> None | Some raw \<Rightarrow> json_loads D raw)"


section \<open>The cursors of the data lists\<close>

text \<open>\<open>_encode_cursor\<close> and \<open>_decode_cursor\<close>; every exception of the \<open>try\<close> block becomes the
  validation error. \<open>v != 1\<close> is Python's comparison, so \<open>true\<close> and \<open>1.0\<close> pass.\<close>

definition encode_cursor :: "int \<times> uuid \<Rightarrow> pystr" where
  "encode_cursor cursor =
     b64_encode (json_object
       [(lit ''i'', PStr (str_uuid (snd cursor))),
        (lit ''t'', PStr (replace_all (lit ''+00:00'') (lit ''Z'') (isoformat (fst cursor)))),
        (lit ''v'', PInt 1)])"

definition equals_one :: "decoders \<Rightarrow> jvalue \<Rightarrow> bool" where
  "equals_one D v = (case v of PInt n \<Rightarrow> n = 1 | PBool b \<Rightarrow> b | PReal x \<Rightarrow> dc_real_is_one D x | _ \<Rightarrow> False)"

definition decode_fields :: "decoders \<Rightarrow> pystr \<Rightarrow> (datetime \<times> uuid) option" where
  "decode_fields D encoded =
     (case decode_object D encoded of
        Some (PObj ms) \<Rightarrow>
          if \<not> has_keys [''v'', ''t'', ''i''] ms then None
          else (case (member ''v'' ms, member ''t'' ms, member ''i'' ms) of
             (Some v, Some (PStr t), Some (PStr i)) \<Rightarrow>
               if \<not> equals_one D v then None
               else (case (fromisoformat D (replace_all (lit ''Z'') (lit ''+00:00'') t), uuid_text D i) of
                  (Some time, Some u) \<Rightarrow> Some (time, u)
                | _ \<Rightarrow> None)
           | _ \<Rightarrow> None)
      | _ \<Rightarrow> None)"

definition decode_cursor :: "decoders \<Rightarrow> pystr \<Rightarrow> (datetime \<times> uuid) res" where
  "decode_cursor D encoded =
     (case decode_fields D encoded of
        Some c \<Rightarrow> Inr c
      | None \<Rightarrow> Inl (DimensionValidationError ''query.cursor'' CursorInvalid))"

text \<open>The instant that the driver binds for the time of a cursor; it reads a naive one as local time.\<close>

definition bound_time :: "decoders \<Rightarrow> datetime \<Rightarrow> int" where
  "bound_time D t = (case t of Aware n \<Rightarrow> n | Naive n \<Rightarrow> dc_local D n)"

text \<open>\<open>after = None if cursor is None else _decode_cursor(cursor)\<close>.\<close>

definition decode_after :: "decoders \<Rightarrow> pystr option \<Rightarrow> (int \<times> uuid) option res" where
  "decode_after D cursor =
     (case cursor of
        None \<Rightarrow> Inr None
      | Some encoded \<Rightarrow> bindE (decode_cursor D encoded) (\<lambda>(t, u). Inr (Some (bound_time D t, u))))"


section \<open>Decoding inverts encoding\<close>

lemma token_char_simps: "token_char c \<Longrightarrow> c \<noteq> 61 \<and> b64_translate c = c"
  by (auto simp: token_char_def b64_translate_def)

lemma b64decode_strict_encode:
  assumes "byte_list bs"
  shows "b64decode_strict (b64_encode bs @ padding (b64_encode bs)) = Some bs"
proof -
  let ?e = "b64_encode bs"
  have tok: "c \<in> set ?e \<Longrightarrow> token_char c" for c
    using b64_encode_chars [OF assms] by (simp add: list_all_iff)
  have neq: "c \<in> set ?e \<Longrightarrow> c \<noteq> 61" for c using tok token_char_simps by blast
  have tw: "takeWhile (\<lambda>c. c \<noteq> 61) (?e @ padding ?e) = ?e" "dropWhile (\<lambda>c. c \<noteq> 61) (?e @ padding ?e) = padding ?e"
    using neq by (auto simp: takeWhile_append dropWhile_append padding_def takeWhile_eq_Nil_iff dropWhile_eq_self_iff
        hd_replicate)
  have "map b64_translate ?e = ?e" using tok token_char_simps by (intro map_idI) blast
  moreover have "list_all (\<lambda>c. token_char (b64_translate c)) ?e"
    using tok token_char_simps by (simp add: list_all_iff)
  moreover have "length ?e mod 4 \<noteq> 1" unfolding length_b64_encode by presburger
  then have "length ?e mod 4 \<in> {0, 2, 3}" by auto
  ultimately show ?thesis
    unfolding b64decode_strict_def tw Let_def using b64_decode_encode [OF assms]
    by (auto simp: padding_def list_all_iff)
qed

lemma scan_string_quoted: "list_all plain_char s \<Longrightarrow> scan_string (quoted s @ r) = Some (s, r)"
  by (simp add: scan_string_def quoted_def plain_char_def list_all_iff takeWhile_append dropWhile_append)

fun simple_value :: "jvalue \<Rightarrow> bool" where
  "simple_value (PStr s) = list_all plain_char s"
| "simple_value (PInt n) = (0 \<le> n)"
| "simple_value _ = False"

lemma scan_number_str:
  assumes "0 \<le> n" "\<not> digit_char e"
  shows "scan_number (str_int n @ e # r) = Some (n, e # r)"
proof -
  have d: "\<forall>c \<in> set (str_nat k). digit_char c" for k using str_nat_digits [of k] by (auto simp: digit_char_def)
  then have tw: "takeWhile digit_char (str_nat k @ e # r) = str_nat k" "dropWhile digit_char (str_nat k @ e # r) = e # r" for k
    using assms(2) by (simp_all add: takeWhile_append dropWhile_append)
  have "hd (str_nat k) \<noteq> 48 \<or> str_nat k = [48]" for k
    using hd_str_nat [of k] by (cases "k = 0") (auto simp: str_nat.simps)
  then show ?thesis using assms(1) int_of_str_nat [of "nat n"]
    by (auto simp: scan_number_def Let_def str_int_def tw)
qed

lemma scan_value_scalar:
  assumes "simple_value v" "\<not> digit_char e"
  shows "scan_value (json_scalar v @ e # r) = Some (v, e # r)"
proof (cases v)
  case (PInt n)
  then have n: "0 \<le> n" using assms(1) by simp
  have "hd (str_nat (nat n)) \<noteq> 34" using str_nat_digits [of "nat n"] hd_in_set [of "str_nat (nat n)"] by force
  then have "scan_string (str_int n @ e # r) = None"
    using n by (cases "str_nat (nat n)") (auto simp: scan_string_def str_int_def split: list.split)
  then show ?thesis using scan_number_str [OF n assms(2)] PInt by (simp add: scan_value_def)
qed (use assms in \<open>auto simp: scan_value_def scan_string_quoted\<close>)

lemma scan_members_printed:
  assumes "ms \<noteq> []" "\<forall>m \<in> set ms. list_all plain_char (fst m) \<and> simple_value (snd m)" "length ms \<le> n"
  shows "scan_members n (joined 44 (map json_member ms) @ [125]) = Some ms"
  using assms
proof (induction ms arbitrary: n)
  case (Cons m ms)
  then obtain j where n: "n = Suc j" by (cases n) auto
  obtain k v where m: "m = (k, v)" by fastforce
  have kv: "list_all plain_char k" "simple_value v" using Cons.prems(2) m by auto
  have nd: "\<not> digit_char 125" "\<not> digit_char 44" by (simp_all add: digit_char_def)
  show ?case
  proof (cases "ms = []")
    case True
    then show ?thesis
      using kv scan_value_scalar [OF kv(2) nd(1), of "[]"]
      by (simp add: n m json_member_def scan_string_quoted)
  next
    case False
    let ?r = "joined 44 (map json_member ms) @ [125]"
    from False have "joined 44 (map json_member (m # ms)) @ [125] = quoted k @ 58 # json_scalar v @ 44 # ?r"
      by (simp add: joined_Cons json_member_def m del: joined.simps)
    moreover have "scan_members j ?r = Some ms"
      using False Cons.prems n by (intro Cons.IH) auto
    ultimately show ?thesis
      using kv scan_value_scalar [OF kv(2) nd(2), of ?r] by (simp add: n m scan_string_quoted del: joined.simps list.map)
  qed
qed simp

lemma length_joined_members: "length ms \<le> length (joined 44 (map json_member ms))"
proof (induction ms)
  case (Cons m ms)
  then show ?case by (cases ms) (auto simp: json_member_def quoted_def)
qed simp

lemma scan_object_printed:
  assumes "ms \<noteq> []" "\<forall>m \<in> set ms. list_all plain_char (fst m) \<and> simple_value (snd m)"
  shows "scan_object (json_object ms) = Some ms"
  using scan_members_printed [OF assms, of "length (joined 44 (map json_member ms) @ [125])"] length_joined_members [of ms]
  by (simp add: scan_object_def json_object_def)


lemma replace_all_suffix:
  assumes "c \<notin> set u"
  shows "replace_all (c # old) new (u @ c # old) = u @ new"
  using assms
proof (induction u)
  case Nil
  then show ?case by (simp add: replace_all.simps [of "c # old" new "c # old"] replace_all.simps [of _ _ "[]"])
next
  case (Cons x u)
  then show ?case by (simp add: replace_all.simps [of _ _ "x # u @ c # old"])
qed

lemma set_padded: "set (padded n k) \<subseteq> {48..57}"
  using all_digits_padded [of n k] by (auto simp: all_digits_def list_all_iff)

lemma isoformat_utc: "\<exists>u. isoformat t = u @ lit ''+00:00'' \<and> set u \<subseteq> {48..57} \<union> {45, 46, 58, 84}"
proof -
  obtain y m d where date: "date_of (t div 86400000000 + EPOCH_DAY) = (y, m, d)"
    by (cases "date_of (t div 86400000000 + EPOCH_DAY)") auto
  have p: "set (padded n k) \<subseteq> {48..57} \<union> {45, 46, 58, 84}" for n k using set_padded [of n k] by blast
  show ?thesis
    unfolding isoformat_def date Let_def prod.case
    by (intro exI conjI) (simp only: append_assoc [symmetric], use p in \<open>simp split: if_split\<close>)
qed


lemma isoformat_plain: "list_all plain_char (isoformat t)"
  using isoformat_utc [of t] by (fastforce simp: list_all_iff plain_char_def lit_def)

lemma uuid_plain: "list_all plain_char (str_uuid u)"
  using set_str_uuid [of u] by (fastforce simp: list_all_iff plain_char_def)

text \<open>The text of the time in a cursor of the data lists.\<close>

lemma zulu_time:
  "\<exists>u. replace_all (lit ''+00:00'') (lit ''Z'') (isoformat t) = u \<and> list_all plain_char u
    \<and> replace_all (lit ''Z'') (lit ''+00:00'') u = isoformat t"
proof -
  obtain u where u: "isoformat t = u @ lit ''+00:00''" "set u \<subseteq> {48..57} \<union> {45, 46, 58, 84}"
    using isoformat_utc by blast
  have off: "lit ''+00:00'' = 43 # tl (lit ''+00:00'')" "lit ''Z'' = [90]" by (simp_all add: lit_def)
  have "43 \<notin> set u" "90 \<notin> set u" using u(2) by auto
  then have "replace_all (lit ''+00:00'') (lit ''Z'') (isoformat t) = u @ lit ''Z''"
    "replace_all (lit ''Z'') (lit ''+00:00'') (u @ lit ''Z'') = isoformat t"
    using replace_all_suffix [of 43 u "tl (lit ''+00:00'')" "lit ''Z''"] replace_all_suffix [of 90 u "[]" "lit ''+00:00''"]
    by (simp_all add: u(1) flip: off)
  moreover have "list_all plain_char (u @ lit ''Z'')"
    using u(2) by (fastforce simp: list_all_iff plain_char_def lit_def)
  ultimately show ?thesis by blast
qed

lemma byte_list_members:
  assumes "\<forall>m \<in> set ms. list_all plain_char (fst m) \<and> simple_value (snd m)"
  shows "byte_list (json_object ms)"
proof -
  have "set (json_scalar v) \<subseteq> {..<256}" if "simple_value v" for v
    using that str_nat_digits [of "nat n" for n]
    by (cases v) (fastforce simp: quoted_def list_all_iff plain_char_def str_int_def)+
  then have "set (json_member m) \<subseteq> {..<256}" if "m \<in> set ms" for m
    using that assms by (fastforce simp: json_member_def quoted_def list_all_iff plain_char_def)
  then have "set (joined 44 (map json_member ms)) \<subseteq> {..<256}"
    using set_joined [of 44 "map json_member ms"] by fastforce
  then show ?thesis by (auto simp: byte_list_def json_object_def list_all_iff)
qed

lemma decode_object_printed:
  assumes "ms \<noteq> []" "\<forall>m \<in> set ms. list_all plain_char (fst m) \<and> simple_value (snd m)"
  shows "decode_object D (b64_encode (json_object ms)) = Some (PObj ms)"
  by (simp add: decode_object_def b64decode_strict_encode [OF byte_list_members [OF assms(2)]] json_loads_def
      scan_object_printed [OF assms])

lemma uuid_text_str [simp]: "uuid_text D (str_uuid u) = Some u"
  using uuid_plain [of u] by (force simp: uuid_text_def isascii_def list_all_iff plain_char_def)

text \<open>A cursor survives its round trip through the client, whatever the library functions do on other texts.\<close>

lemma decode_encode_cursor:
  assumes "datetime_range t"
  shows "decode_cursor D (encode_cursor (t, i)) = Inr (Aware t, i)"
proof -
  obtain z where z: "replace_all (lit ''+00:00'') (lit ''Z'') (isoformat t) = z" "list_all plain_char z"
    "replace_all (lit ''Z'') (lit ''+00:00'') z = isoformat t" using zulu_time by blast
  let ?ms = "[(lit ''i'', PStr (str_uuid i)), (lit ''t'', PStr z), (lit ''v'', PInt 1)]"
  have "decode_object D (encode_cursor (t, i)) = Some (PObj ?ms)"
    unfolding encode_cursor_def fst_conv snd_conv z(1)
    by (rule decode_object_printed) (use z(2) uuid_plain [of i] in \<open>auto simp: lit_def plain_char_def\<close>)
  then show ?thesis
    by (simp add: decode_cursor_def decode_fields_def has_keys_def member_def lit_def equals_one_def
        z(3) [unfolded lit_def, simplified] fromisoformat_def isoformat_round_trip [OF assms] uuid_text_str insert_commute)
qed

definition strict_decoders :: decoders where
  "strict_decoders = \<lparr>dc_json = (\<lambda>_. None), dc_time = (\<lambda>_. None), dc_uuid = (\<lambda>_. None), dc_real_is_one = (\<lambda>_. False), dc_local = id\<rparr>"

end
