(* ===== verification/Dimension_Api.thy ===== *)
theory Dimension_Api
  imports Api_Errors Cursor Dimension_Properties
begin

text \<open>
  The Dimension endpoints: \<open>dimensions.py\<close> (companies), \<open>string_dimensions.py\<close>,
  \<open>numeric_dimensions.py\<close>, \<open>memory_dimensions.py\<close> and \<open>dimension_lifecycle.py\<close>, with the
  guard of \<open>authorization.py\<close>.

  An endpoint gets the outcome \<open>who\<close> of the principal dependency and the request's parsed input,
  which is a payload or the errors of its validation (the schemas are checked by Pydantic). The
  framework resolves the guard of a route before it validates the input. An endpoint returns a
  response or raises, beside the database it leaves; \<open>respond\<close> turns a raised exception into its
  problem response.
\<close>

section \<open>Guards, payloads and replies\<close>

definition require_authorized_principal ::
    "human_principal res \<Rightarrow> authorization_action \<Rightarrow> human_principal res" where
  "require_authorized_principal who action = bindE who (\<lambda>p. authorize p action)"

record 'v create_payload =
  cp_code :: pystr
  cp_value :: 'v
  cp_reason :: "pystr option"

record 'v update_payload =
  up_code :: "pystr option"
  up_value :: "'v option"
  up_reason :: "pystr option"

text \<open>The query parameters of a list: cursor and limit.\<close>

type_synonym page_params = "pystr option \<times> int"

datatype value_response = TextValue pystr | NumberValue int | AmountValue int pystr int

record dimension_response =
  dr_id :: uuid
  dr_code :: pystr
  dr_value :: value_response
  dr_version :: int
  dr_created_at :: datetime
  dr_updated_at :: datetime
  dr_deleted_at :: "datetime option"

record 'a page_response =
  pr_items :: "'a list"
  pr_next_cursor :: "pystr option"

text \<open>A step of an endpoint that may raise; the state is then the one before it.\<close>

definition stepE :: "'a api \<Rightarrow> 's \<Rightarrow> ('a \<Rightarrow> 'b api \<times> 's) \<Rightarrow> 'b api \<times> 's" where
  "stepE m d k = (case m of Inl e \<Rightarrow> (Inl e, d) | Inr x \<Rightarrow> k x)"

lemma stepE_simps [simp]: "stepE (Inl e) d k = (Inl e, d)" "stepE (Inr x) d k = k x"
  by (simp_all add: stepE_def)

lemma stepE_eq_Inr [res_simps]: "stepE m d k = (Inr y, d') \<longleftrightarrow> (\<exists>x. m = Inr x \<and> k x = (Inr y, d'))"
  by (cases m) auto

text \<open>\<open>value.value\<close>, which a \<open>MemoryValue\<close> does not have.\<close>

fun plain_value :: "dim_value \<Rightarrow> value_response res" where
  "plain_value (CompanyValue x) = Inr (TextValue x)"
| "plain_value (ModelValue x) = Inr (TextValue x)"
| "plain_value (BrandValue x) = Inr (TextValue x)"
| "plain_value (CountryValue x) = Inr (TextValue x)"
| "plain_value (CategoryValue x) = Inr (TextValue x)"
| "plain_value (YearValue n) = Inr (NumberValue n)"
| "plain_value (NetworkValue g) = Inr (NumberValue (generation_value g))"
| "plain_value (MemoryValue m) = Inl AttributeError"

fun amount_value :: "dim_value \<Rightarrow> value_response res" where
  "amount_value (MemoryValue m) = Inr (AmountValue (amount m) (unit_text (unit m)) (capacity_mb m))"
| "amount_value _ = Inl AttributeError"

definition response_model :: "dimension \<Rightarrow> value_response \<Rightarrow> dimension_response" where
  "response_model x v = \<lparr>dr_id = dim_id x, dr_code = dim_code x, dr_value = v, dr_version = dim_version x,
     dr_created_at = dim_created_at x, dr_updated_at = dim_updated_at x, dr_deleted_at = dim_deleted_at x\<rparr>"

definition active_response :: "(dim_value \<Rightarrow> value_response res) \<Rightarrow> dimension \<Rightarrow> dimension_response res" where
  "active_response value_of x =
     (if dim_deleted_at x \<noteq> None then Inl ValueError else bindE (value_of (dim_val x)) (\<lambda>v. Inr (response_model x v)))"

text \<open>The last lines of an endpoint: the entity tag and the body.\<close>

definition reply :: "int \<Rightarrow> (dimension \<Rightarrow> dimension_response res) \<Rightarrow> dimension \<Rightarrow> dimension_response response api" where
  "reply status respond_with x =
     bindE (raises (respond_with x)) (\<lambda>b. Inr (json_response status [(''etag'', etag_text (dim_version x))] b))"

definition page_reply ::
    "(dimension \<Rightarrow> dimension_response res) \<Rightarrow> dimension list \<times> bool \<Rightarrow> dimension_response page_response response api" where
  "page_reply respond_with page =
     bindE (raises (mapE respond_with (fst page))) (\<lambda>items.
       Inr (json_response 200 [] \<lparr>pr_items = items, pr_next_cursor = map_option encode_cursor (next_cursor page)\<rparr>))"


section \<open>Companies\<close>

definition company_response :: "dimension \<Rightarrow> dimension_response res" where
  "company_response = active_response plain_value"

definition create_company_dimension ::
    "human_principal res \<Rightarrow> pystr create_payload api \<Rightarrow> uuid \<Rightarrow> env \<Rightarrow> db \<Rightarrow> dimension_response response api \<times> db" where
  "create_company_dimension who payload cs e d =
     stepE (raises (require_authorized_principal who MUTATE_DATA)) d (\<lambda>p.
     stepE payload d (\<lambda>b.
     stepE (raises (body_error (create_company p cs (PyStr (cp_code b)) (PyStr (cp_value b)) (cp_reason b) e d))) d (\<lambda>(x, d').
       (reply 201 company_response x, d'))))"

definition list_company_dimensions ::
    "decoders \<Rightarrow> human_principal res \<Rightarrow> page_params api \<Rightarrow> db \<Rightarrow> dimension_response page_response response api" where
  "list_company_dimensions D who params d =
     bindE (raises (require_authorized_principal who READ_DATA)) (\<lambda>p.
     bindE params (\<lambda>(cursor, limit).
     bindE (raises (decode_after D cursor)) (\<lambda>after.
     bindE (raises (list_companies p after (PyInt limit) d)) (page_reply company_response))))"

definition get_company_dimension ::
    "human_principal res \<Rightarrow> uuid api \<Rightarrow> db \<Rightarrow> dimension_response response api" where
  "get_company_dimension who company_id d =
     bindE (raises (require_authorized_principal who READ_DATA)) (\<lambda>p.
     bindE company_id (\<lambda>i.
     bindE (raises (get_company p i d)) (reply 200 company_response)))"

definition update_company_dimension_value ::
    "request \<Rightarrow> human_principal res \<Rightarrow> (uuid \<times> pystr update_payload) api \<Rightarrow> uuid \<Rightarrow> env \<Rightarrow> db
       \<Rightarrow> dimension_response response api \<times> db" where
  "update_company_dimension_value r who payload cs e d =
     stepE (raises (require_authorized_principal who MUTATE_DATA)) d (\<lambda>p.
     stepE payload d (\<lambda>(i, b).
     stepE (parse_dimension_if_match_values (getlist ''if-match'' r)) d (\<lambda>expected_version.
     stepE (raises (body_error (update_company p cs i (PyInt expected_version) (map_option PyStr (up_value b))
              (map_option PyStr (up_code b)) (up_reason b) e d))) d (\<lambda>(x, d').
       (reply 200 company_response x, d')))))"


section \<open>Models, brands, countries and categories\<close>

definition string_response :: "dimension \<Rightarrow> dimension_response res" where
  "string_response = active_response plain_value"

definition string_create_route ::
    "slot \<Rightarrow> human_principal res \<Rightarrow> pystr create_payload api \<Rightarrow> uuid \<Rightarrow> env \<Rightarrow> db \<Rightarrow> dimension_response response api \<times> db" where
  "string_create_route s who payload cs e d =
     stepE (raises (require_authorized_principal who MUTATE_DATA)) d (\<lambda>p.
     stepE payload d (\<lambda>b.
     stepE (raises (body_error (create_string_dimension s p cs (PyStr (cp_code b)) (PyStr (cp_value b)) (cp_reason b) e d))) d
       (\<lambda>(x, d'). (reply 201 string_response x, d'))))"

definition string_list_route ::
    "slot \<Rightarrow> decoders \<Rightarrow> human_principal res \<Rightarrow> page_params api \<Rightarrow> db \<Rightarrow> dimension_response page_response response api" where
  "string_list_route s D who params d =
     bindE (raises (require_authorized_principal who READ_DATA)) (\<lambda>p.
     bindE params (\<lambda>(cursor, limit).
     bindE (raises (decode_after D cursor)) (\<lambda>after.
     bindE (raises (list_string_dimensions s p after (PyInt limit) d)) (page_reply string_response))))"

definition string_get_route :: "slot \<Rightarrow> human_principal res \<Rightarrow> uuid api \<Rightarrow> db \<Rightarrow> dimension_response response api" where
  "string_get_route s who dimension_id d =
     bindE (raises (require_authorized_principal who READ_DATA)) (\<lambda>p.
     bindE dimension_id (\<lambda>i.
     bindE (raises (get_string_dimension s p i d)) (reply 200 string_response)))"

definition string_update_route ::
    "slot \<Rightarrow> request \<Rightarrow> human_principal res \<Rightarrow> (uuid \<times> pystr update_payload) api \<Rightarrow> uuid \<Rightarrow> env \<Rightarrow> db
       \<Rightarrow> dimension_response response api \<times> db" where
  "string_update_route s r who payload cs e d =
     stepE (raises (require_authorized_principal who MUTATE_DATA)) d (\<lambda>p.
     stepE payload d (\<lambda>(i, b).
     stepE (parse_dimension_if_match_values (getlist ''if-match'' r)) d (\<lambda>expected_version.
     stepE (raises (body_error (update_string_dimension s p cs i (PyInt expected_version) (map_option PyStr (up_value b))
              (map_option PyStr (up_code b)) (up_reason b) e d))) d (\<lambda>(x, d').
       (reply 200 string_response x, d')))))"


section \<open>Years and networks\<close>

definition numeric_response :: "dimension \<Rightarrow> dimension_response res" where
  "numeric_response = active_response plain_value"

definition numeric_create_route ::
    "slot \<Rightarrow> human_principal res \<Rightarrow> int create_payload api \<Rightarrow> uuid \<Rightarrow> env \<Rightarrow> db \<Rightarrow> dimension_response response api \<times> db" where
  "numeric_create_route s who payload cs e d =
     stepE (raises (require_authorized_principal who MUTATE_DATA)) d (\<lambda>p.
     stepE payload d (\<lambda>b.
     stepE (raises (body_error (create_numeric_dimension s p cs (PyStr (cp_code b)) (PyInt (cp_value b)) (cp_reason b) e d))) d
       (\<lambda>(x, d'). (reply 201 numeric_response x, d'))))"

definition numeric_list_route ::
    "slot \<Rightarrow> decoders \<Rightarrow> human_principal res \<Rightarrow> page_params api \<Rightarrow> db \<Rightarrow> dimension_response page_response response api" where
  "numeric_list_route s D who params d =
     bindE (raises (require_authorized_principal who READ_DATA)) (\<lambda>p.
     bindE params (\<lambda>(cursor, limit).
     bindE (raises (decode_after D cursor)) (\<lambda>after.
     bindE (raises (list_numeric_dimensions s p after (PyInt limit) d)) (page_reply numeric_response))))"

definition numeric_get_route :: "slot \<Rightarrow> human_principal res \<Rightarrow> uuid api \<Rightarrow> db \<Rightarrow> dimension_response response api" where
  "numeric_get_route s who dimension_id d =
     bindE (raises (require_authorized_principal who READ_DATA)) (\<lambda>p.
     bindE dimension_id (\<lambda>i.
     bindE (raises (get_numeric_dimension s p i d)) (reply 200 numeric_response)))"

definition numeric_update_route ::
    "slot \<Rightarrow> request \<Rightarrow> human_principal res \<Rightarrow> (uuid \<times> int update_payload) api \<Rightarrow> uuid \<Rightarrow> env \<Rightarrow> db
       \<Rightarrow> dimension_response response api \<times> db" where
  "numeric_update_route s r who payload cs e d =
     stepE (raises (require_authorized_principal who MUTATE_DATA)) d (\<lambda>p.
     stepE payload d (\<lambda>(i, b).
     stepE (parse_dimension_if_match_values (getlist ''if-match'' r)) d (\<lambda>expected_version.
     stepE (raises (body_error (update_numeric_dimension s p cs i (PyInt expected_version) (map_option PyInt (up_value b))
              (map_option PyStr (up_code b)) (up_reason b) e d))) d (\<lambda>(x, d').
       (reply 200 numeric_response x, d')))))"


section \<open>Memories\<close>

definition memory_response :: "dimension \<Rightarrow> dimension_response res" where
  "memory_response = active_response amount_value"

definition create_memory_route ::
    "human_principal res \<Rightarrow> (int \<times> pystr) create_payload api \<Rightarrow> uuid \<Rightarrow> env \<Rightarrow> db \<Rightarrow> dimension_response response api \<times> db" where
  "create_memory_route who payload cs e d =
     stepE (raises (require_authorized_principal who MUTATE_DATA)) d (\<lambda>p.
     stepE payload d (\<lambda>b.
     stepE (raises (body_error (create_memory p cs (PyStr (cp_code b)) (PyInt (fst (cp_value b)), PyStr (snd (cp_value b)))
              (cp_reason b) e d))) d (\<lambda>(x, d').
       (reply 201 memory_response x, d'))))"

definition list_memory_route ::
    "decoders \<Rightarrow> human_principal res \<Rightarrow> page_params api \<Rightarrow> db \<Rightarrow> dimension_response page_response response api" where
  "list_memory_route D who params d =
     bindE (raises (require_authorized_principal who READ_DATA)) (\<lambda>p.
     bindE params (\<lambda>(cursor, limit).
     bindE (raises (decode_after D cursor)) (\<lambda>after.
     bindE (raises (list_memories p after (PyInt limit) d)) (page_reply memory_response))))"

definition get_memory_route :: "human_principal res \<Rightarrow> uuid api \<Rightarrow> db \<Rightarrow> dimension_response response api" where
  "get_memory_route who dimension_id d =
     bindE (raises (require_authorized_principal who READ_DATA)) (\<lambda>p.
     bindE dimension_id (\<lambda>i.
     bindE (raises (get_memory p i d)) (reply 200 memory_response)))"

definition update_memory_route ::
    "request \<Rightarrow> human_principal res \<Rightarrow> (uuid \<times> (int \<times> pystr) update_payload) api \<Rightarrow> uuid \<Rightarrow> env \<Rightarrow> db
       \<Rightarrow> dimension_response response api \<times> db" where
  "update_memory_route r who payload cs e d =
     stepE (raises (require_authorized_principal who MUTATE_DATA)) d (\<lambda>p.
     stepE payload d (\<lambda>(i, b).
     stepE (parse_dimension_if_match_values (getlist ''if-match'' r)) d (\<lambda>expected_version.
     stepE (raises (body_error (update_memory p cs i (PyInt expected_version) (map_option (PyInt \<circ> fst) (up_value b))
              (map_option (PyStr \<circ> snd) (up_value b)) (map_option PyStr (up_code b)) (up_reason b) e d))) d (\<lambda>(x, d').
       (reply 200 memory_response x, d')))))"


section \<open>Deletion, tombstones and restoration\<close>

text \<open>\<open>_serialize\<close>: the tombstone models require a deletion time, the active models its absence.\<close>

definition serialize :: "bool \<Rightarrow> dimension \<Rightarrow> dimension_response res" where
  "serialize tombstone x =
     bindE (case dim_val x of MemoryValue _ \<Rightarrow> amount_value (dim_val x) | _ \<Rightarrow> plain_value (dim_val x)) (\<lambda>v.
       if (dim_deleted_at x \<noteq> None) = tombstone then Inr (response_model x v) else Inl ValueError)"

definition delete_dimension_route ::
    "slot \<Rightarrow> request \<Rightarrow> human_principal res \<Rightarrow> (uuid \<times> pystr option) api \<Rightarrow> uuid \<Rightarrow> env \<Rightarrow> db
       \<Rightarrow> dimension_response response api \<times> db" where
  "delete_dimension_route s r who payload cs e d =
     stepE (raises (require_authorized_principal who MUTATE_DATA)) d (\<lambda>p.
     stepE payload d (\<lambda>(i, reason).
     stepE (parse_dimension_if_match_values (getlist ''if-match'' r)) d (\<lambda>version.
     stepE (raises (body_error (delete_dimension s p cs i (PyInt version) reason e d))) d (\<lambda>(x, d').
       (reply 200 (serialize True) x, d')))))"

definition get_deleted_dimension :: "slot \<Rightarrow> human_principal res \<Rightarrow> uuid api \<Rightarrow> db \<Rightarrow> dimension_response response api" where
  "get_deleted_dimension s who dimension_id d =
     bindE (raises (require_authorized_principal who READ_TOMBSTONE)) (\<lambda>p.
     bindE dimension_id (\<lambda>i.
     bindE (raises (get_dimension_tombstone s p i d)) (reply 200 (serialize True))))"

definition restore_dimension_route ::
    "slot \<Rightarrow> request \<Rightarrow> human_principal res \<Rightarrow> (uuid \<times> pystr option) api \<Rightarrow> uuid \<Rightarrow> env \<Rightarrow> db
       \<Rightarrow> dimension_response response api \<times> db" where
  "restore_dimension_route s r who payload cs e d =
     stepE (raises (require_authorized_principal who MUTATE_DATA)) d (\<lambda>p.
     stepE payload d (\<lambda>(i, reason).
     stepE (parse_dimension_if_match_values (getlist ''if-match'' r)) d (\<lambda>version.
     stepE (raises (body_error (restore_dimension s p cs i (PyInt version) reason e d))) d (\<lambda>(x, d').
       (reply 200 (serialize False) x, d')))))"


section \<open>The routes of a Dimension type\<close>

text \<open>The wiring of \<open>create_app\<close>: the router of each type.\<close>

definition get_route :: "slot \<Rightarrow> human_principal res \<Rightarrow> uuid api \<Rightarrow> db \<Rightarrow> dimension_response response api" where
  "get_route s =
     (if s = Company then get_company_dimension else if s = Memory then get_memory_route
      else if s \<in> {Year, Network} then numeric_get_route s else string_get_route s)"

definition list_route ::
    "slot \<Rightarrow> decoders \<Rightarrow> human_principal res \<Rightarrow> page_params api \<Rightarrow> db \<Rightarrow> dimension_response page_response response api" where
  "list_route s =
     (if s = Company then list_company_dimensions else if s = Memory then list_memory_route
      else if s \<in> {Year, Network} then numeric_list_route s else string_list_route s)"

datatype update_request =
    CompanyUpdate "(uuid \<times> pystr update_payload) api"
  | StringUpdate slot "(uuid \<times> pystr update_payload) api"
  | NumericUpdate slot "(uuid \<times> int update_payload) api"
  | MemoryUpdate "(uuid \<times> (int \<times> pystr) update_payload) api"

fun routed :: "update_request \<Rightarrow> bool" where
  "routed (StringUpdate s b) = (s \<in> {Model, Brand, Country, Category})"
| "routed (NumericUpdate s b) = (s \<in> {Year, Network})"
| "routed _ = True"

fun update_slot :: "update_request \<Rightarrow> slot" where
  "update_slot (CompanyUpdate b) = Company"
| "update_slot (StringUpdate s b) = s"
| "update_slot (NumericUpdate s b) = s"
| "update_slot (MemoryUpdate b) = Memory"

fun update_target :: "update_request \<Rightarrow> uuid api" where
  "update_target (CompanyUpdate b) = bindE b (\<lambda>x. Inr (fst x))"
| "update_target (StringUpdate s b) = bindE b (\<lambda>x. Inr (fst x))"
| "update_target (NumericUpdate s b) = bindE b (\<lambda>x. Inr (fst x))"
| "update_target (MemoryUpdate b) = bindE b (\<lambda>x. Inr (fst x))"

fun update_route ::
    "update_request \<Rightarrow> request \<Rightarrow> human_principal res \<Rightarrow> uuid \<Rightarrow> env \<Rightarrow> db \<Rightarrow> dimension_response response api \<times> db" where
  "update_route (CompanyUpdate b) r who = update_company_dimension_value r who b"
| "update_route (StringUpdate s b) r who = string_update_route s r who b"
| "update_route (NumericUpdate s b) r who = numeric_update_route s r who b"
| "update_route (MemoryUpdate b) r who = update_memory_route r who b"


section \<open>Representations\<close>

definition value_of :: "slot \<Rightarrow> dim_value \<Rightarrow> value_response res" where
  "value_of s = (if s = Memory then amount_value else plain_value)"

lemma get_route_eq:
  "get_route s who i d =
     bindE (raises (require_authorized_principal who READ_DATA)) (\<lambda>p.
     bindE i (\<lambda>i. bindE (raises (serve_get s p i d)) (reply 200 (active_response (value_of s)))))"
  by (cases s) (simp_all add: get_route_def get_company_dimension_def get_memory_route_def numeric_get_route_def
      string_get_route_def serve_get_def value_of_def company_response_def string_response_def numeric_response_def
      memory_response_def)

lemma list_route_eq:
  "list_route s D who params d =
     bindE (raises (require_authorized_principal who READ_DATA)) (\<lambda>p.
     bindE params (\<lambda>(cursor, limit). bindE (raises (decode_after D cursor)) (\<lambda>after.
     bindE (raises (serve_list s p after (PyInt limit) d)) (page_reply (active_response (value_of s))))))"
  by (cases s) (simp_all add: list_route_def list_company_dimensions_def list_memory_route_def numeric_list_route_def
      string_list_route_def serve_list_def value_of_def company_response_def string_response_def numeric_response_def
      memory_response_def)

text \<open>The body and the tag of a stored row.\<close>

definition row_body :: "slot \<Rightarrow> dimension \<Rightarrow> dimension_response" where
  "row_body s x = response_model x (case value_of s (dim_val x) of Inr v \<Rightarrow> v | Inl _ \<Rightarrow> NumberValue 0)"

lemma value_of_ok: "value_slot v = s \<Longrightarrow> \<exists>w. value_of s v = Inr w"
  by (cases v) (auto simp: value_of_def)

lemma active_response_ok:
  "\<lbrakk>value_slot (dim_val x) = s; dim_deleted_at x = None\<rbrakk> \<Longrightarrow> active_response (value_of s) x = Inr (row_body s x)"
  using value_of_ok [of "dim_val x" s] by (auto simp: active_response_def row_body_def)

text \<open>A successful update is one of the use case, whose result has an entity tag and a body.\<close>

lemma update_route_success:
  assumes "routed u" "update_route u r who cs e d = (Inr rs, d')"
  obtains p i n v code reason x where "update_target u = Inr i" "parse_dimension_if_match_values (getlist ''if-match'' r) = Inr n"
    "serve_update (update_slot u) p cs i (PyInt n) v code reason e d = Inr (x, d')"
    "reply 200 (active_response (value_of (update_slot u))) x = Inr rs"
proof -
  note defs = stepE_eq_Inr raises_eq body_error_eq_Inr serve_update_def value_of_def
  show thesis
  proof (cases u)
    case (CompanyUpdate b)
    with assms(2) obtain p i n and c :: "pystr update_payload" and x where "b = Inr (i, c)" "parse_dimension_if_match_values (getlist ''if-match'' r) = Inr n"
      "update_company p cs i (PyInt n) (map_option PyStr (up_value c)) (map_option PyStr (up_code c)) (up_reason c) e d = Inr (x, d')"
      "reply 200 company_response x = Inr rs"
      by (auto simp: update_company_dimension_value_def defs)
    with CompanyUpdate show thesis
      by (intro that [of i n p "map_option (PlainValue \<circ> PyStr) (up_value c)" "map_option PyStr (up_code c)" "up_reason c" x])
         (simp_all add: defs company_response_def option.map_comp comp_def)
  next
    case (StringUpdate s b)
    with assms(2) obtain p i n and c :: "pystr update_payload" and x where "b = Inr (i, c)" "parse_dimension_if_match_values (getlist ''if-match'' r) = Inr n"
      "update_string_dimension s p cs i (PyInt n) (map_option PyStr (up_value c)) (map_option PyStr (up_code c)) (up_reason c) e d
         = Inr (x, d')"
      "reply 200 string_response x = Inr rs"
      by (auto simp: string_update_route_def defs)
    with StringUpdate assms(1) show thesis
      by (intro that [of i n p "map_option (PlainValue \<circ> PyStr) (up_value c)" "map_option PyStr (up_code c)" "up_reason c" x])
         (auto simp: defs string_response_def option.map_comp comp_def)
  next
    case (NumericUpdate s b)
    with assms(2) obtain p i n and c :: "int update_payload" and x where "b = Inr (i, c)" "parse_dimension_if_match_values (getlist ''if-match'' r) = Inr n"
      "update_numeric_dimension s p cs i (PyInt n) (map_option PyInt (up_value c)) (map_option PyStr (up_code c)) (up_reason c) e d
         = Inr (x, d')"
      "reply 200 numeric_response x = Inr rs"
      by (auto simp: numeric_update_route_def defs)
    with NumericUpdate assms(1) show thesis
      by (intro that [of i n p "map_option (PlainValue \<circ> PyInt) (up_value c)" "map_option PyStr (up_code c)" "up_reason c" x])
         (auto simp: defs numeric_response_def option.map_comp comp_def)
  next
    case (MemoryUpdate b)
    with assms(2) obtain p i n and c :: "(int \<times> pystr) update_payload" and x where "b = Inr (i, c)" "parse_dimension_if_match_values (getlist ''if-match'' r) = Inr n"
      "update_memory p cs i (PyInt n) (map_option (PyInt \<circ> fst) (up_value c)) (map_option (PyStr \<circ> snd) (up_value c))
         (map_option PyStr (up_code c)) (up_reason c) e d = Inr (x, d')"
      "reply 200 memory_response x = Inr rs"
      by (auto simp: update_memory_route_def defs)
    with MemoryUpdate show thesis
      by (intro that [of i n p "map_option (\<lambda>v. MemoryCreateValue (PyInt (fst v)) (PyStr (snd v))) (up_value c)"
            "map_option PyStr (up_code c)" "up_reason c" x])
         (cases "up_value c"; simp add: defs memory_response_def)+
  qed
qed

end
