(* ===== verification/Master_Code_Api.thy ===== *)
theory Master_Code_Api
  imports Dimension_Api MasterCode_Properties Change_Requests
begin

text \<open>
  The MasterCode endpoints: \<open>master_codes.py\<close> and \<open>master_code_lifecycle.py\<close>. The entity tag of
  a MasterCode digests its version and the state of its eight slots; \<open>If-Match\<close> takes any text of
  that form, and the repository compares it with the tag of the current row. The unlocked read that
  precedes the locking of the row sees the snapshot \<open>d0\<close>.
\<close>

section \<open>Payloads\<close>

text \<open>The variants of a slot in a body, after validation.\<close>

datatype slot_input =
    ReferenceInput uuid
  | NotApplicableInput
  | MemoryCreateInput pystr int pystr
  | StringCreateInput pystr pystr
  | NumberCreateInput pystr int

fun selection_of :: "slot_input \<Rightarrow> (pyobj, value_input) selection" where
  "selection_of (ReferenceInput i) = ExistingDimension i"
| "selection_of NotApplicableInput = NotApplicable"
| "selection_of (MemoryCreateInput code n u) =
     InlineDimension (PyStr code) (MemoryCreateValue (PyInt n) (PyStr u))"
| "selection_of (StringCreateInput code v) = InlineDimension (PyStr code) (PlainValue (PyStr v))"
| "selection_of (NumberCreateInput code v) = InlineDimension (PyStr code) (PlainValue (PyInt v))"

definition create_input_of :: "(slot \<Rightarrow> slot_input) \<Rightarrow> create_input" where
  "create_input_of v = (\<lambda>s. selection_of (v s))"

text \<open>The slots of a reference update are references or not applicable; absent ones keep their value.\<close>

datatype reference_input = KeepReference uuid | ClearReference

fun reference_selection_of :: "reference_input \<Rightarrow> reference_selection" where
  "reference_selection_of (KeepReference i) = RefExisting i"
| "reference_selection_of ClearReference = RefNotApplicable"

definition reference_update_input :: "(slot \<Rightarrow> reference_input option) \<Rightarrow> reference_update res" where
  "reference_update_input v = reference_update_init (\<lambda>s. map_option reference_selection_of (v s))"

definition parse_master_code_if_match_values :: "pystr list \<Rightarrow> pystr api" where
  "parse_master_code_if_match_values vs =
     (if vs = [] then Inl PreconditionRequired
      else if length vs \<noteq> 1 \<or> \<not> etag_pattern (vs ! 0) then Inl InvalidIfMatch
      else Inr (vs ! 0))"


section \<open>Responses\<close>

record reference_response =
  rr_id :: uuid
  rr_code :: pystr
  rr_value :: value_response

record master_code_response =
  mr_id :: uuid
  mr_code :: pystr
  mr_version :: int
  mr_created_at :: datetime
  mr_updated_at :: datetime
  mr_deleted_at :: "datetime option"
  mr_dimensions :: "slot \<Rightarrow> reference_response option"

definition value_response_of :: "dim_value \<Rightarrow> value_response" where
  "value_response_of v =
     (case v of
        MemoryValue m \<Rightarrow> AmountValue (amount m) (unit_text (unit m)) (capacity_mb m)
      | YearValue n \<Rightarrow> NumberValue n
      | NetworkValue g \<Rightarrow> NumberValue (generation_value g)
      | CompanyValue x \<Rightarrow> TextValue x
      | ModelValue x \<Rightarrow> TextValue x
      | BrandValue x \<Rightarrow> TextValue x
      | CountryValue x \<Rightarrow> TextValue x
      | CategoryValue x \<Rightarrow> TextValue x)"

definition slot_response :: "dimension option \<Rightarrow> reference_response option" where
  "slot_response dimension =
     map_option (\<lambda>x. \<lparr>rr_id = dim_id x, rr_code = dim_code x, rr_value = value_response_of (dim_val x)\<rparr>) dimension"

definition master_code_model :: "master_code \<Rightarrow> datetime option \<Rightarrow> master_code_response" where
  "master_code_model m deleted =
     \<lparr>mr_id = mc_id m, mr_code = mc_code m, mr_version = mc_version m, mr_created_at = mc_created_at m,
      mr_updated_at = mc_updated_at m, mr_deleted_at = deleted, mr_dimensions = (\<lambda>s. slot_response (mc_dims m s))\<rparr>"

definition master_code_active_response :: "master_code \<Rightarrow> master_code_response res" where
  "master_code_active_response m =
     (if mc_deleted_at m \<noteq> None then Inl ValueError else Inr (master_code_model m None))"

definition tombstone_response :: "master_code \<Rightarrow> master_code_response res" where
  "tombstone_response m =
     (if mc_deleted_at m = None then Inl ValueError else Inr (master_code_model m (mc_deleted_at m)))"

definition master_code_page_reply ::
    "master_code list \<times> bool \<Rightarrow> master_code_response page_response response api" where
  "master_code_page_reply page =
     bindE (raises (mapE master_code_active_response (fst page))) (\<lambda>items.
       Inr (json_response 200 []
         \<lparr>pr_items = items,
          pr_next_cursor =
            (if snd page \<and> fst page \<noteq> []
             then Some (encode_cursor (instant (mc_created_at (last (fst page))), mc_id (last (fst page))))
             else None)\<rparr>))"

definition master_code_reply ::
    "int \<Rightarrow> (master_code \<Rightarrow> master_code_response res) \<Rightarrow> master_code \<Rightarrow> master_code_response response api" where
  "master_code_reply status respond_with m =
     bindE (raises (respond_with m)) (\<lambda>b. Inr (json_response status [(''etag'', etag m)] b))"


section \<open>Endpoints\<close>

definition create_master_code_route ::
    "human_principal res \<Rightarrow> ((slot \<Rightarrow> slot_input) \<times> pystr option) api \<Rightarrow> uuid \<Rightarrow> mc_env \<Rightarrow> db
       \<Rightarrow> master_code_response response api \<times> db" where
  "create_master_code_route who payload cs e d =
     stepE (raises (require_authorized_principal who MUTATE_DATA)) d (\<lambda>p.
     stepE payload d (\<lambda>(dimensions, reason).
     stepE (raises (body_error (create_master_code p cs (create_input_of dimensions) reason e d))) d (\<lambda>(m, d').
       (master_code_reply 201 master_code_active_response m, d'))))"

definition list_master_codes_route ::
    "decoders \<Rightarrow> human_principal res \<Rightarrow> page_params api \<Rightarrow> db \<Rightarrow> master_code_response page_response response api" where
  "list_master_codes_route D who params d =
     bindE (raises (require_authorized_principal who READ_DATA)) (\<lambda>p.
     bindE params (\<lambda>(cursor, limit).
     bindE (raises (decode_after D cursor)) (\<lambda>after.
     bindE (raises (list_master_codes p after (PyInt limit) d)) master_code_page_reply)))"

definition update_master_code_references_route ::
    "request \<Rightarrow> human_principal res \<Rightarrow> (uuid \<times> (slot \<Rightarrow> reference_input option) \<times> pystr option) api \<Rightarrow> uuid \<Rightarrow> mc_env \<Rightarrow> db \<Rightarrow> db
       \<Rightarrow> master_code_response response api \<times> db" where
  "update_master_code_references_route r who payload cs e d0 d =
     stepE (raises (require_authorized_principal who MUTATE_DATA)) d (\<lambda>p.
     stepE payload d (\<lambda>(i, dimensions, reason).
     stepE (parse_master_code_if_match_values (getlist ''if-match'' r)) d (\<lambda>expected_etag.
     stepE (raises (reference_update_input dimensions)) d (\<lambda>changes.
     stepE (raises (body_error (update_master_code_references p cs i changes expected_etag reason e d0 d))) d (\<lambda>(m, d').
       (master_code_reply 200 master_code_active_response m, d'))))))"

definition get_master_code_route ::
    "human_principal res \<Rightarrow> uuid api \<Rightarrow> db \<Rightarrow> master_code_response response api" where
  "get_master_code_route who master_code_id d =
     bindE (raises (require_authorized_principal who READ_DATA)) (\<lambda>p.
     bindE master_code_id (\<lambda>i.
     bindE (raises (get_master_code p i d)) (master_code_reply 200 master_code_active_response)))"

definition tombstone_route ::
    "human_principal res \<Rightarrow> uuid api \<Rightarrow> db \<Rightarrow> master_code_response response api" where
  "tombstone_route who master_code_id d =
     bindE (raises (require_authorized_principal who READ_TOMBSTONE)) (\<lambda>p.
     bindE master_code_id (\<lambda>i.
     bindE (raises (get_master_code_tombstone p i d)) (master_code_reply 200 tombstone_response)))"

definition delete_master_code_route ::
    "request \<Rightarrow> human_principal res \<Rightarrow> (uuid \<times> pystr option) api \<Rightarrow> uuid \<Rightarrow> mc_env \<Rightarrow> db \<Rightarrow> db
       \<Rightarrow> master_code_response response api \<times> db" where
  "delete_master_code_route r who payload cs e d0 d =
     stepE (raises (require_authorized_principal who MUTATE_DATA)) d (\<lambda>p.
     stepE payload d (\<lambda>(i, reason).
     stepE (parse_master_code_if_match_values (getlist ''if-match'' r)) d (\<lambda>expected.
     stepE (raises (body_error (delete_master_code p cs i expected reason e d0 d))) d (\<lambda>(m, d').
       (master_code_reply 200 tombstone_response m, d')))))"

definition restore_master_code_route ::
    "request \<Rightarrow> human_principal res \<Rightarrow> (uuid \<times> pystr option) api \<Rightarrow> uuid \<Rightarrow> mc_env \<Rightarrow> db \<Rightarrow> db
       \<Rightarrow> master_code_response response api \<times> db" where
  "restore_master_code_route r who payload cs e d0 d =
     stepE (raises (require_authorized_principal who MUTATE_DATA)) d (\<lambda>p.
     stepE payload d (\<lambda>(i, reason).
     stepE (parse_master_code_if_match_values (getlist ''if-match'' r)) d (\<lambda>expected.
     stepE (raises (body_error (restore_master_code p cs i expected reason e d0 d))) d (\<lambda>(m, d').
       (master_code_reply 200 master_code_active_response m, d')))))"

end
