(* ===== verification/Dimension_Http.thy ===== *)
theory Dimension_Http
  imports Dimension_Api
begin

text \<open>
  What a client of the Dimension endpoints can rely on: an update succeeds only against the
  representation it was made for, its response is what a read then returns, and a walk over the pages of
  a list visits every active Dimension once.
\<close>

section \<open>Conditional updates\<close>

lemma row_slot: "\<lbrakk>db_inv d; r \<in> set (dim_rows d s)\<rbrakk> \<Longrightarrow> value_slot (dim_val (row_dim s r)) = s"
  using row_ok_table [of d r s] by (intro row_ok_wf(2)) (simp add: db_inv_def)

lemma distinct_ids: "db_inv d \<Longrightarrow> distinct (map r_id (dim_rows d s))"
  using enforcedD(1) [of d s] by (simp add: db_inv_def dims_ok_def)

definition representation :: "slot \<Rightarrow> dimension \<Rightarrow> dimension_response response" where
  "representation s x = json_response 200 [(''etag'', etag_text (dim_version x))] (row_body s x)"

lemma reply_active:
  "\<lbrakk>value_slot (dim_val x) = s; dim_deleted_at x = None\<rbrakk>
    \<Longrightarrow> reply 200 (active_response (value_of s)) x = Inr (representation s x)"
  by (simp add: reply_def active_response_ok representation_def)

lemma get_route_row:
  assumes "db_inv d" "r \<in> set (dim_rows d s)" "r_deleted r = None" "authorize q READ_DATA = Inr q"
  shows "get_route s (Inr q) (Inr (r_id r)) d = Inr (representation s (row_dim s r))"
proof -
  have "find (\<lambda>x. r_id x = r_id r \<and> r_deleted x = None) (dim_rows d s) = Some r"
    using assms(2,3) by (simp add: find_active_iff [OF distinct_ids [OF assms(1)]])
  then have "serve_get s q (r_id r) d = Inr (row_dim s r)"
    using assms(1,4) by (simp add: serve_get_eq get_execute_def slot_repo.get_active_ok)
  then show ?thesis
    using assms row_slot [OF assms(1,2)]
    by (simp add: get_route_eq require_authorized_principal_def reply_active)
qed

lemma etag_text_inject: "etag_text m = etag_text n \<Longrightarrow> m = n"
  by (auto simp: etag_text_def dest: str_int_inject)

text \<open>C15. Updates of Dimensions over HTTP are conditional on the representation they were made for: whenever
  a PATCH succeeds, on any type, its single \<open>If-Match\<close> value is the entity tag that a GET of the same
  resource returns before it, its response is exactly the response that a GET returns after it, and
  either nothing was stored or the entity tag has changed. So of two clients that update from the same
  representation the second fails, and no update is lost.\<close>

theorem conditional_update:
  assumes inv: "db_inv d" and u: "routed u" "update_route u r who cs e d = (Inr rs, d')"
    and q: "authorize q READ_DATA = Inr q"
  shows "\<exists>g. get_route (update_slot u) (Inr q) (update_target u) d = Inr g
    \<and> map Some (getlist ''if-match'' r) = [header ''etag'' g]
    \<and> get_route (update_slot u) (Inr q) (update_target u) d' = Inr rs
    \<and> (d' = d \<or> header ''etag'' rs \<noteq> header ''etag'' g)"
proof -
  let ?s = "update_slot u"
  obtain p i n v code reason x where i: "update_target u = Inr i"
    and n: "parse_dimension_if_match_values (getlist ''if-match'' r) = Inr n"
    and ok: "serve_update ?s p cs i (PyInt n) v code reason e d = Inr (x, d')"
    and rs: "reply 200 (active_response (value_of ?s)) x = Inr rs"
    by (rule update_route_success [OF u])
  obtain c w audit where in1: "optional_input dimension_code code = Inr c"
    and in2: "optional_input (normalize_inline_value ?s) v = Inr w"
    and upd: "repo_update_value (slot_to_domain ?s) ?s i n w audit c e d = Inr (x, d')"
    by (rule serve_update_success [OF ok]) auto
  obtain y where y: "y \<in> set (dim_rows d ?s)" "r_id y = i" "r_deleted y = None" "r_version y = n" "db_inv d'"
    and out: "(x = row_dim ?s y \<and> d' = d)
      \<or> (x = changed_dim e d ?s y c w \<and> changed_db ?s y x d d' \<and> row_dim ?s (changed_row y x) = x)"
    by (rule slot_repo.update_success [OF inv _ _ upd])
       (use optional_code_valid [OF in1] optional_value_valid [OF in2] in blast)+
  have tag: "getlist ''if-match'' r = [etag_text n]" using n by (simp add: parse_if_match_Inr)
  have old: "get_route ?s (Inr q) (Inr i) d = Inr (representation ?s (row_dim ?s y))"
    using get_route_row [OF inv y(1,3) q] y(2) by simp
  have new: "get_route ?s (Inr q) (Inr i) d' = Inr (representation ?s x) \<and> rs = representation ?s x"
  proof -
    have "\<exists>z \<in> set (dim_rows d' ?s). r_id z = i \<and> r_deleted z = None \<and> row_dim ?s z = x"
      using out
    proof
      assume "x = row_dim ?s y \<and> d' = d"
      with y show ?thesis by auto
    next
      assume ch: "x = changed_dim e d ?s y c w \<and> changed_db ?s y x d d' \<and> row_dim ?s (changed_row y x) = x"
      then have "changed_row y x \<in> set (dim_rows d' ?s)" using y(1) by (blast intro: changed_db_in)
      moreover have "r_id (changed_row y x) = i" "r_deleted (changed_row y x) = None"
        using y(2,3) by (simp_all add: changed_row_def)
      ultimately show ?thesis using ch by blast
    qed
    then obtain z where z: "z \<in> set (dim_rows d' ?s)" "r_id z = i" "r_deleted z = None" "row_dim ?s z = x" by blast
    have "reply 200 (active_response (value_of ?s)) x = Inr (representation ?s x)"
      using row_slot [OF y(5) z(1)] z(3,4) by (intro reply_active) auto
    with get_route_row [OF y(5) z(1,3) q] z(2,4) rs show ?thesis by simp
  qed
  have "d' = d \<or> dim_version x \<noteq> n" using out y(4) by auto
  then show ?thesis
    using old new tag y(4) etag_text_inject [of "dim_version x" n]
    by (auto simp: i representation_def header_def json_response_def)
qed

lemma sample_rename_route:
  "\<exists>rs d'. update_route (MemoryUpdate (Inr (7, \<lparr>up_code = Some (lit ''mem''), up_value = None, up_reason = None\<rparr>)))
     \<lparr>hr_method = ''PATCH'', hr_path = lit ''/v1/memories'', hr_headers = [(''if-match'', etag_text 1)]\<rparr> (Inr sample_admin) sample_cs
     sample_env sample_db = (Inr rs, d')"
proof -
  let ?x = "changed_dim sample_env sample_db Memory sample_row (Some (lit ''MEM'')) None"
  obtain d' where "serve_update Memory sample_admin sample_cs 7 (PyInt 1) None (Some (PyStr (lit ''mem''))) None
      sample_env sample_db = Inr (?x, d')"
    using sample_rename by blast
  then have "update_memory sample_admin sample_cs 7 (PyInt 1) None None (Some (PyStr (lit ''mem''))) None sample_env sample_db
      = Inr (?x, d')"
    by (simp add: serve_update_def)
  moreover have "parse_dimension_if_match_values [etag_text 1] = Inr 1" by (simp add: parse_if_match_Inr)
  moreover have "reply 200 memory_response ?x = Inr (representation Memory ?x)"
    using reply_active [of ?x Memory] by (simp add: memory_response_def value_of_def sample_row_def next_value_def)
  ultimately show ?thesis
    using sample_rename_input(3)
    by (simp add: update_memory_route_def require_authorized_principal_def getlist_def)
qed

theorem conditional_update_witness:
  "\<exists>rs d' g. update_route (MemoryUpdate (Inr (7, \<lparr>up_code = Some (lit ''mem''), up_value = None, up_reason = None\<rparr>)))
     \<lparr>hr_method = ''PATCH'', hr_path = lit ''/v1/memories'', hr_headers = [(''if-match'', etag_text 1)]\<rparr> (Inr sample_admin) sample_cs
     sample_env sample_db = (Inr rs, d')
    \<and> get_route Memory (Inr sample_admin) (Inr 7) sample_db = Inr g \<and> header ''etag'' g = Some (etag_text 1)
    \<and> get_route Memory (Inr sample_admin) (Inr 7) d' = Inr rs"
proof -
  obtain rs d' where run: "update_route (MemoryUpdate (Inr (7, \<lparr>up_code = Some (lit ''mem''), up_value = None, up_reason = None\<rparr>)))
     \<lparr>hr_method = ''PATCH'', hr_path = lit ''/v1/memories'', hr_headers = [(''if-match'', etag_text 1)]\<rparr> (Inr sample_admin) sample_cs
     sample_env sample_db = (Inr rs, d')"
    using sample_rename_route by blast
  have "authorize sample_admin READ_DATA = Inr sample_admin" by code_simp
  from conditional_update [OF sample_db_inv _ run this] show ?thesis
    using run by (auto simp: getlist_def)
qed


section \<open>Walking over the pages\<close>

text \<open>A client that repeats a list request with the text of \<open>next_cursor\<close> until there is none, with a
  bound on the number of requests.\<close>

fun follow_texts :: "(pystr option \<Rightarrow> 'a page_response response api) \<Rightarrow> nat \<Rightarrow> pystr option \<Rightarrow> 'a list option" where
  "follow_texts get 0 c = None"
| "follow_texts get (Suc n) c =
     (case get c of
        Inl _ \<Rightarrow> None
      | Inr rs \<Rightarrow>
          (case rs_body rs of
             JsonBody b \<Rightarrow>
               (case pr_next_cursor b of
                  None \<Rightarrow> Some (pr_items b)
                | Some t \<Rightarrow> map_option ((@) (pr_items b)) (follow_texts get n (Some t)))
           | _ \<Rightarrow> None))"

lemma page_reply_ok:
  assumes "\<And>x. x \<in> set (fst page) \<Longrightarrow> value_slot (dim_val x) = s \<and> dim_deleted_at x = None"
  shows "page_reply (active_response (value_of s)) page
    = Inr (json_response 200 [] \<lparr>pr_items = map (row_body s) (fst page), pr_next_cursor = map_option encode_cursor (next_cursor page)\<rparr>)"
proof -
  have "mapE (active_response (value_of s)) (fst page) = Inr (map (row_body s) (fst page))"
    using assms by (intro mapE_Inr_all) (simp add: active_response_ok)
  then show ?thesis by (simp add: page_reply_def)
qed

lemma list_page:
  assumes "db_inv d" "authorize p READ_DATA = Inr p" "1 \<le> k" "k \<le> 100"
  obtains page where "serve_list s p a (PyInt k) d = Inr page"
    "\<And>x. x \<in> set (fst page) \<Longrightarrow> \<exists>r \<in> set (dim_rows d s). r_deleted r = None \<and> x = row_dim s r"
proof -
  let ?rows = "take (nat k) (rows_after (dim_rows d s) a)"
  have "serve_list s p a (PyInt k) d = repo_list_active (slot_to_domain s) s a (nat k) d"
    using assms(2-4) by (simp add: serve_list_eq list_execute_def page_limit_def)
  also have "\<dots> = Inr (map (row_dim s) ?rows, nat k < length (rows_after (dim_rows d s) a))"
    by (rule slot_repo.list_active_ok [OF assms(1)])
  finally have page: "serve_list s p a (PyInt k) d = Inr (map (row_dim s) ?rows, nat k < length (rows_after (dim_rows d s) a))" .
  have "set ?rows \<subseteq> {r \<in> set (dim_rows d s). r_deleted r = None}"
    by (auto simp: rows_after_def active_page_order_def dest!: in_set_takeD)
  then show thesis by (intro that [OF page]) auto
qed

lemma decode_after_encoded: "datetime_range (fst c) \<Longrightarrow> decode_after D (Some (encode_cursor c)) = Inr (Some c)"
  by (cases c) (simp add: decode_after_def decode_encode_cursor bound_time_def)

lemma follow_texts_pages:
  assumes inv: "db_inv d" "authorize p READ_DATA = Inr p" "1 \<le> k" "k \<le> 100"
    and range: "\<And>r. r \<in> set (dim_rows d s) \<Longrightarrow> datetime_range (r_created r)"
    and a: "\<And>c. a = Some c \<Longrightarrow> datetime_range (fst c)"
  shows "follow_texts (\<lambda>c. list_route s D (Inr p) (Inr (c, k)) d) n (map_option encode_cursor a)
    = map_option (map (row_body s)) (follow_pages (\<lambda>a. serve_list s p a (PyInt k) d) n a)"
  using a
proof (induction n arbitrary: a)
  case (Suc n)
  obtain page where page: "serve_list s p a (PyInt k) d = Inr page"
    and items: "\<And>x. x \<in> set (fst page) \<Longrightarrow> \<exists>r \<in> set (dim_rows d s). r_deleted r = None \<and> x = row_dim s r"
    by (rule list_page [OF inv]) blast
  have shapes: "value_slot (dim_val x) = s \<and> dim_deleted_at x = None" if "x \<in> set (fst page)" for x
    using items [OF that] row_slot [OF inv(1)] by auto
  have "decode_after D (map_option encode_cursor a) = Inr a"
    using Suc.prems decode_after_encoded by (cases a) (simp_all add: decode_after_def)
  then have route: "list_route s D (Inr p) (Inr (map_option encode_cursor a, k)) d
      = Inr (json_response 200 [] \<lparr>pr_items = map (row_body s) (fst page), pr_next_cursor = map_option encode_cursor (next_cursor page)\<rparr>)"
    using inv(2) page page_reply_ok [OF shapes]
    by (simp add: list_route_eq require_authorized_principal_def)
  show ?case
  proof (cases "next_cursor page")
    case None
    then show ?thesis by (simp add: route page json_response_def)
  next
    case (Some c)
    then have "last (fst page) \<in> set (fst page)" "fst c = instant (dim_created_at (last (fst page)))"
      by (auto simp: next_cursor_def split: if_splits)
    then have "datetime_range (fst c)" using items range by fastforce
    then have "follow_texts (\<lambda>c. list_route s D (Inr p) (Inr (c, k)) d) n (Some (encode_cursor c))
        = map_option (map (row_body s)) (follow_pages (\<lambda>a. serve_list s p a (PyInt k) d) n (Some c))"
      using Suc.IH [of "Some c"] by simp
    then show ?thesis
      using Some by (simp add: route page json_response_def option.map_comp comp_def)
  qed
qed simp

text \<open>C35. Walking over a list of the API is complete: a client that starts without a cursor, asks for pages of
  any admissible size and sends back the opaque text of \<open>next_cursor\<close> each time gets the bodies of
  all active Dimensions of the type, each exactly once and ordered from the newest to the oldest, after
  finitely many requests, none of which fails. The creation times have to be ones a \<open>datetime\<close> holds.\<close>

theorem http_pages_visit_all:
  assumes "db_inv d" "authorize p READ_DATA = Inr p" "1 \<le> k" "k \<le> 100" "length (dim_rows d s) < n"
    and "\<forall>r \<in> set (dim_rows d s). datetime_range (r_created r)"
  shows "\<exists>xs. follow_texts (\<lambda>c. list_route s D (Inr p) (Inr (c, k)) d) n None = Some (map (row_body s) xs)
    \<and> set xs = row_dim s ` {r \<in> set (dim_rows d s). r_deleted r = None} \<and> distinct (map dim_id xs)
    \<and> sorted_wrt (\<lambda>x y. (instant (dim_created_at y), dim_id y) < (instant (dim_created_at x), dim_id x)) xs"
  using pages_visit_all [OF assms(1-5)] follow_texts_pages [OF assms(1-4), of s None D n] assms(6) by auto

theorem http_pages_visit_all_witness:
  "\<exists>x. follow_texts (\<lambda>c. list_route Memory strict_decoders (Inr sample_admin) (Inr (c, 1)) sample_db) 2 None = Some [x]
    \<and> dr_id x = 7 \<and> dr_value x = AmountValue 16 (lit ''GB'') 16000"
proof -
  have q: "authorize sample_admin READ_DATA = Inr sample_admin" by code_simp
  have act: "{r \<in> set (dim_rows sample_db Memory). r_deleted r = None} = {sample_row}"
    by (auto simp: sample_row_def)
  have "\<forall>r \<in> set (dim_rows sample_db Memory). datetime_range (r_created r)"
    by (simp add: sample_row_def datetime_range_def)
  from http_pages_visit_all [OF sample_db_inv q _ _ _ this, of 1 2 strict_decoders]
  obtain xs where xs: "follow_texts (\<lambda>c. list_route Memory strict_decoders (Inr sample_admin) (Inr (c, 1)) sample_db) 2 None
      = Some (map (row_body Memory) xs)" "set xs = {row_dim Memory sample_row}" "distinct (map dim_id xs)"
    unfolding act by auto
  then have "xs = [row_dim Memory sample_row]"
    by (cases xs; cases "tl xs") (auto simp: insert_eq_iff)
  moreover have "dr_id (row_body Memory (row_dim Memory sample_row)) = 7
    \<and> dr_value (row_body Memory (row_dim Memory sample_row)) = AmountValue 16 (lit ''GB'') 16000"
    by code_simp
  ultimately show ?thesis using xs(1) by simp
qed

end
