(* ===== verification/Change_Request_Review.thy ===== *)
theory Change_Request_Review
  imports Change_Request_Rows
begin

text \<open>
  The request table: every stored row is a well-formed request, and what submissions, approvals
  and rejections did to it when they succeeded.
\<close>

section \<open>Stored rows are requests\<close>

definition request_view :: "cr_row \<Rightarrow> change_request" where
  "request_view q =
     \<lparr>cr_id = q_id q, cr_original = q_original q, cr_requester = q_requester q, cr_created_at = Aware (q_created q),
      cr_reason = q_reason q, cr_status = q_status q, cr_approved = q_approved q, cr_reviewer = q_reviewer q,
      cr_message = q_message q, cr_reviewed_at = map_option Aware (q_reviewed q), cr_change_set = q_applied q\<rparr>"

text \<open>A \<open>ChangeProposal\<close> object: its payload has canonical text and the constructor accepts it.\<close>

definition proposal_object :: "change_proposal \<Rightarrow> bool" where
  "proposal_object c \<longleftrightarrow> proposal_of c = Inr c"

definition request_ok :: "cr_row \<Rightarrow> bool" where
  "request_ok q \<longleftrightarrow> cr_row_check q \<and> proposal_object (q_original q) \<and> (\<forall>c \<in> set_option (q_approved q). proposal_object c)"

definition applied_once :: "cr_row list \<Rightarrow> bool" where
  "applied_once rows \<longleftrightarrow>
     (\<forall>a \<in> set rows. \<forall>b \<in> set rows. q_applied a \<noteq> None \<longrightarrow> q_applied a = q_applied b \<longrightarrow> q_id a = q_id b)"

definition requests_ok :: "cr_row list \<Rightarrow> bool" where
  "requests_ok rows \<longleftrightarrow> distinct (map q_id rows) \<and> (\<forall>q \<in> set rows. request_ok q) \<and> applied_once rows"

lemma checked_message:
  assumes "1 \<le> length m" "length m \<le> 500" "strip_ch 32 m = m" "\<not> has_cc m"
  shows "review_message m = Inr m"
  using assms by (auto simp: review_message_def normalize_reason_def)

lemma checked_request:
  assumes "cr_row_check q"
  shows "change_request_init (request_view q) = Inr (request_view q)"
proof -
  have original: "cp_operation (q_original q) \<noteq> CR_RESTORE"
    using assms by (auto simp: cr_row_check_def proposal_check_def Let_def)
  have review: "review_check q" using assms by (simp add: cr_row_check_def)
  show ?thesis
  proof (cases "q_status q")
    case PENDING
    with review original show ?thesis by (simp add: review_check_def change_request_init_def request_view_def)
  next
    case REJECTED
    with review original show ?thesis
      by (auto simp: review_check_def change_request_init_def request_view_def split: option.splits)
  next
    case APPROVED
    with review original show ?thesis
      by (auto simp: review_check_def change_request_init_def request_view_def classify_approval_def Let_def split: option.splits)
  next
    case MODIFIED_AND_APPROVED
    with review original show ?thesis
      by (auto simp: review_check_def change_request_init_def request_view_def classify_approval_def Let_def split: option.splits)
  qed
qed

lemma request_of_ok:
  assumes "request_ok q"
  shows "request_of q = Inr (request_view q)"
proof -
  have "proposal_of (q_original q) = Inr (q_original q)" using assms by (simp add: request_ok_def proposal_object_def)
  moreover have "(case q_approved q of None \<Rightarrow> Inr None | Some c \<Rightarrow> bindE (proposal_of c) (\<lambda>p. Inr (Some p))) = Inr (q_approved q)"
    using assms by (auto simp: request_ok_def proposal_object_def split: option.splits)
  moreover have "(case q_message q of None \<Rightarrow> Inr None | Some m \<Rightarrow> bindE (review_message m) (\<lambda>s. Inr (Some s))) = Inr (q_message q)"
    using assms checked_message by (auto simp: request_ok_def cr_row_check_def split: option.splits)
  ultimately show ?thesis
    using checked_request [of q] assms by (simp add: request_of_def request_ok_def request_view_def)
qed

lemma request_view_simps [simp]:
  "cr_status (request_view q) = q_status q" "cr_original (request_view q) = q_original q" "cr_id (request_view q) = q_id q"
  "cr_created_at (request_view q) = Aware (q_created q)" "cr_requester (request_view q) = q_requester q"
  by (simp_all add: request_view_def)


section \<open>Lookups and writes\<close>

lemma cr_by_id_in: "cr_by_id i rows = Some q \<Longrightarrow> q \<in> set rows \<and> q_id q = i"
  by (auto simp: cr_by_id_def find_Some_iff)

lemma cr_by_id_unique:
  assumes "distinct (map q_id rows)" "q \<in> set rows"
  shows "cr_by_id (q_id q) rows = Some q"
proof (cases "cr_by_id (q_id q) rows")
  case None
  with assms(2) show ?thesis by (auto simp: cr_by_id_def find_None_iff)
next
  case (Some x)
  from cr_by_id_in [OF this] have "x \<in> set rows" "q_id x = q_id q" by auto
  with assms Some show ?thesis by (auto simp: distinct_map inj_on_def)
qed

lemma set_put_cr: "set (put_cr q rows) = (\<lambda>x. if q_id x = q_id q then q else x) ` set rows"
  by (simp add: put_cr_def)

lemma in_put_cr: "x \<in> set (put_cr q rows) \<Longrightarrow> x = q \<or> x \<in> set rows \<and> q_id x \<noteq> q_id q"
  by (auto simp: set_put_cr)

lemma map_id_put_cr: "map q_id (put_cr q rows) = map q_id rows"
  by (simp add: put_cr_def comp_def)

lemma applied_onceD:
  "\<lbrakk>applied_once rows; a \<in> set rows; b \<in> set rows; q_applied a \<noteq> None; q_applied a = q_applied b\<rbrakk> \<Longrightarrow> q_id a = q_id b"
  unfolding applied_once_def by blast

lemma applied_once_snoc:
  assumes "applied_once rows" "q_applied q = None"
  shows "applied_once (rows @ [q])"
  unfolding applied_once_def
proof (intro ballI impI)
  fix a b assume ab: "a \<in> set (rows @ [q])" "b \<in> set (rows @ [q])" "q_applied a \<noteq> None" "q_applied a = q_applied b"
  then have "a \<noteq> q" "b \<noteq> q" using assms(2) by metis+
  with ab(1,2) have "a \<in> set rows" "b \<in> set rows" by auto
  then show "q_id a = q_id b" by (rule applied_onceD [OF assms(1) _ _ ab(3,4)])
qed

lemma applied_once_put:
  assumes "applied_once rows" "q_applied q \<noteq> None \<longrightarrow> (\<forall>x \<in> set rows. q_id x \<noteq> q_id q \<longrightarrow> q_applied x \<noteq> q_applied q)"
  shows "applied_once (put_cr q rows)"
  unfolding applied_once_def
proof (intro ballI impI)
  fix a b assume ab: "a \<in> set (put_cr q rows)" "b \<in> set (put_cr q rows)" "q_applied a \<noteq> None" "q_applied a = q_applied b"
  from in_put_cr [OF ab(1)] in_put_cr [OF ab(2)] show "q_id a = q_id b"
    using assms(2) applied_onceD [OF assms(1), of a b] ab(3,4) by metis
qed

lemma cr_insert_success:
  assumes "requests_ok rows" "proposal_object (q_original q)" "q_approved q = None" "cr_insert q rows = Inr rows'"
  shows "rows' = rows @ [q]" "requests_ok rows'" "request_ok q" "q_status q = PENDING"
proof -
  have step: "rows' = rows @ [q]" "cr_row_check q" "cr_unique_check q rows = Inr ()" "q_status q = PENDING"
    using assms(4) by (auto simp: cr_insert_def violation_def bindE_eq_Inr requireE_eq split: if_splits)
  show "rows' = rows @ [q]" "q_status q = PENDING" by (fact step)+
  show ok: "request_ok q" using step(2) assms(2,3) by (simp add: request_ok_def)
  have "q_applied q = None" using step(2,4) by (simp add: cr_row_check_def review_check_def)
  then have "applied_once (rows @ [q])" using assms(1) by (intro applied_once_snoc) (simp_all add: requests_ok_def)
  then show "requests_ok rows'"
    using assms(1) step(1,3) ok by (simp add: requests_ok_def cr_unique_check_def split: if_splits)
qed

lemma cr_update_success:
  assumes "requests_ok rows" "cr_by_id (q_id q') rows = Some q" "cr_update q' rows = Inr rows'"
    and "\<forall>c \<in> set_option (q_approved q'). proposal_object c"
  shows "rows' = put_cr q' rows" "requests_ok rows'" "request_ok q'" "q_status q = PENDING" "q_status q' \<noteq> PENDING"
    "q_original q' = q_original q" "q_requester q' = q_requester q" "q_reason q' = q_reason q" "q_created q' = q_created q"
proof -
  have q: "q \<in> set rows" "q_id q = q_id q'" using cr_by_id_in [OF assms(2)] by auto
  have step: "rows' = put_cr q' rows" "cr_row_check q'" "cr_before_update q q' = Inr ()"
    "cr_unique_check q' (filter (\<lambda>x. q_id x \<noteq> q_id q') rows) = Inr ()"
    using assms(2,3) by (auto simp: cr_update_def bindE_eq_Inr requireE_eq split: if_splits)
  show "rows' = put_cr q' rows" by (fact step)
  show kept: "q_status q = PENDING" "q_status q' \<noteq> PENDING"
    "q_original q' = q_original q" "q_requester q' = q_requester q" "q_reason q' = q_reason q" "q_created q' = q_created q"
    using step(3) by (auto simp: cr_before_update_def violation_def split: if_splits)
  have "request_ok q" using assms(1) q(1) by (simp add: requests_ok_def)
  then show ok: "request_ok q'" using step(2) assms(4) kept(3) by (simp add: request_ok_def)
  have "q_applied q' \<noteq> None \<longrightarrow> (\<forall>x \<in> set rows. q_id x \<noteq> q_id q' \<longrightarrow> q_applied x \<noteq> q_applied q')"
    using step(4) by (force simp: cr_unique_check_def split: if_splits)
  then have "applied_once (put_cr q' rows)"
    using assms(1) by (intro applied_once_put) (simp_all add: requests_ok_def)
  then show "requests_ok rows'"
    using assms(1) ok in_put_cr [of _ q' rows] unfolding requests_ok_def step(1) map_id_put_cr by blast
qed


section \<open>Locking a request\<close>

lemma lock_request_eq:
  assumes "requests_ok rows"
  shows "lock_request i rows =
    (case cr_by_id i rows of
       None \<Rightarrow> Inl ChangeRequestNotFound
     | Some q \<Rightarrow> if q_status q = PENDING then Inr q else Inl ChangeRequestAlreadyReviewed)"
proof (cases "cr_by_id i rows")
  case (Some q)
  then have "request_of q = Inr (request_view q)"
    using cr_by_id_in assms request_of_ok by (fastforce simp: requests_ok_def)
  with Some show ?thesis by (simp add: lock_request_def require_pending_def)
qed (simp add: lock_request_def)

text \<open>The row a rejection writes, and the row an approval writes.\<close>

definition rejected_row :: "uuid \<Rightarrow> pystr \<Rightarrow> int \<Rightarrow> cr_row \<Rightarrow> cr_row" where
  "rejected_row reviewer message t q =
     q\<lparr>q_status := REJECTED, q_reviewer := Some reviewer, q_reviewed := Some t, q_message := Some message\<rparr>"

definition approved_row :: "uuid \<Rightarrow> uuid \<Rightarrow> change_proposal \<Rightarrow> pystr option \<Rightarrow> int \<Rightarrow> cr_row \<Rightarrow> cr_row" where
  "approved_row reviewer cs proposal message t q =
     q\<lparr>q_status := (if proposal = q_original q then APPROVED else MODIFIED_AND_APPROVED), q_approved := Some proposal,
       q_reviewer := Some reviewer, q_reviewed := Some t, q_message := message, q_applied := Some cs\<rparr>"

lemma pending_row:
  assumes "request_ok q" "q_status q = PENDING"
  shows "q_reviewer q = None" "q_reviewed q = None" "q_message q = None" "q_approved q = None" "q_applied q = None"
  using assms by (simp_all add: request_ok_def cr_row_check_def review_check_def)

lemma request_original: "request_ok q \<Longrightarrow> cp_operation (q_original q) \<noteq> CR_RESTORE"
  by (auto simp: request_ok_def cr_row_check_def proposal_check_def Let_def)

lemma request_reject_eq:
  assumes "request_ok q" "q_status q = PENDING" "q_created q \<le> t"
  shows "request_reject (request_view q) reviewer (Aware t) message = Inr (request_view (rejected_row reviewer message t q))"
  using assms(2,3) pending_row [OF assms(1,2)] request_original [OF assms(1)]
  by (simp add: request_reject_def require_pending_def request_view_def rejected_row_def change_request_init_def)

lemma classify_status:
  assumes "classify_approval r proposal message = Inr status"
  shows "status = (if proposal = cr_original r then APPROVED else MODIFIED_AND_APPROVED)"
  using assms by (auto simp: classify_approval_def Let_def split: if_splits)

lemma classify_cong: "cr_original r = cr_original r' \<Longrightarrow> classify_approval r c m = classify_approval r' c m"
  by (simp add: classify_approval_def)

lemma request_approve_eq:
  assumes "request_ok q" "q_status q = PENDING" "q_created q \<le> t" "uuid_version cs = Some 7"
    and "classify_approval (request_view q) proposal message = Inr status"
  shows "request_approve (request_view q) proposal reviewer (Aware t) cs message
    = Inr (request_view (approved_row reviewer cs proposal message t q))"
proof -
  let ?v = "(request_view q)\<lparr>cr_status := status, cr_approved := Some proposal, cr_reviewer := Some reviewer,
    cr_reviewed_at := Some (Aware t), cr_change_set := Some cs, cr_message := message\<rparr>"
  have st: "status = (if proposal = q_original q then APPROVED else MODIFIED_AND_APPROVED)"
    using classify_status [OF assms(5)] by simp
  have view: "?v = request_view (approved_row reviewer cs proposal message t q)"
    by (simp add: request_view_def approved_row_def st)
  have "classify_approval ?v proposal message = Inr status" unfolding assms(5) [symmetric] by (rule classify_cong) simp
  then have "change_request_init ?v = Inr ?v"
    using assms(3,4) request_original [OF assms(1)] by (simp add: change_request_init_def st)
  then show ?thesis using assms(2,5) by (simp add: request_approve_def require_pending_def view)
qed

lemma set_review_rows:
  assumes "request_ok q" "q_status q = PENDING"
  shows "set_review q (request_view (rejected_row reviewer message t q)) = rejected_row reviewer message t q"
    and "set_review q (request_view (approved_row reviewer cs proposal m t q)) = approved_row reviewer cs proposal m t q"
  using pending_row [OF assms]
  by (simp_all add: set_review_def request_view_def rejected_row_def approved_row_def option.map_comp comp_def)

end
