(* ===== verification/Change_Request_Outcome.thy ===== *)
theory Change_Request_Outcome
  imports Change_Request_Review
begin

text \<open>
  The outcome of the request use cases: what each did when it succeeded, and when it does.
\<close>

section \<open>Submissions and rejections\<close>

lemma submit_success:
  assumes ok: "requests_ok (sv_requests sv)" "proposal_object proposal"
    and run: "submit_request p proposal r e sv = Inr (x, sv')"
  obtains q where "sv' = sv\<lparr>sv_requests := sv_requests sv @ [q]\<rparr>" "q_status q = PENDING" "q_original q = proposal"
    "q_requester q = principal_user_id p" "x = request_view q" "requests_ok (sv_requests sv')"
proof -
  let ?row = "\<lambda>reason. \<lparr>q_id = env_new_id e, q_original = proposal, q_requester = principal_user_id p, q_reason = reason,
      q_created = env_clock e, q_status = PENDING, q_approved = None, q_reviewer = None, q_reviewed = None, q_message = None,
      q_applied = None\<rparr>"
  obtain reason rows where ins: "cr_insert (?row reason) (sv_requests sv) = Inr rows"
    and x: "request_of (?row reason) = Inr x" "sv' = sv\<lparr>sv_requests := rows\<rparr>"
    using run by (auto simp: submit_request_def cr_submit_def invalid_request_def bindE_eq_Inr Let_def split: option.splits)
  let ?q = "?row reason"
  note i = cr_insert_success [OF ok(1) _ _ ins]
  have "x = request_view ?q" using x(1) request_of_ok [OF i(3)] ok(2) by simp
  then show thesis using that [of ?q] x(2) i(1,2) ok(2) by simp
qed

lemma reject_success:
  assumes ok: "requests_ok (sv_requests sv)" and run: "reject_request p i message e sv = Inr (x, sv')"
  obtains q t where "cr_by_id i (sv_requests sv) = Some q" "q_status q = PENDING"
    "sv' = sv\<lparr>sv_requests := put_cr (rejected_row (principal_user_id p) message t q) (sv_requests sv)\<rparr>"
    "x = request_view (rejected_row (principal_user_id p) message t q)" "requests_ok (sv_requests sv')"
proof -
  obtain q where q: "cr_by_id i (sv_requests sv) = Some q" "q_status q = PENDING"
    using run by (auto simp: reject_request_def cr_reject_def lock_request_eq [OF ok] bindE_eq_Inr split: option.splits if_splits)
  have in_rows: "q \<in> set (sv_requests sv)" "q_id q = i" using cr_by_id_in [OF q(1)] by auto
  then have row: "request_ok q" using ok by (simp add: requests_ok_def)
  let ?t = "max (env_clock e) (q_created q)"
  let ?q = "rejected_row (principal_user_id p) message ?t q"
  obtain rows where upd: "cr_update ?q (sv_requests sv) = Inr rows" "sv' = sv\<lparr>sv_requests := rows\<rparr>" "x = request_view ?q"
    using run q request_reject_eq [OF row q(2), of ?t "principal_user_id p" message]
    by (auto simp: reject_request_def cr_reject_def lock_request_eq [OF ok] bindE_eq_Inr request_of_ok [OF row]
        set_review_rows [OF row q(2)])
  have "cr_by_id (q_id ?q) (sv_requests sv) = Some q" "q_approved ?q = None"
    using q(1) in_rows(2) pending_row [OF row q(2)] by (simp_all add: rejected_row_def)
  note u = cr_update_success [OF ok this(1) upd(1)]
  show thesis using that [of q ?t] q upd u(1,2) \<open>q_approved ?q = None\<close> by simp
qed


section \<open>Approvals\<close>

lemma prepare_facts:
  assumes "prepare_approval p cs approved message (request_view q) = Inr ap" "q_status q = PENDING"
  obtains status where "ap_proposal ap = (case approved of None \<Rightarrow> q_original q | Some c \<Rightarrow> c)"
    "classify_approval (request_view q) (ap_proposal ap) message = Inr status"
    "validate_proposal (ap_proposal ap) = Inr (ap_validated ap)" "ap_message ap = message" "uuid_version cs = Some 7"
    "change_set_id (ap_audit ap) = cs" "actor_id (audit_actor (ap_audit ap)) = str_uuid (principal_user_id p)"
    "op_master_code (operations (ap_audit ap)) = Some (mc_operation (cp_operation (ap_proposal ap)))"
proof -
  let ?c = "case approved of None \<Rightarrow> q_original q | Some c \<Rightarrow> c"
  obtain status v audit dim_op where steps: "classify_approval (request_view q) ?c message = Inr status" "validate_proposal ?c = Inr v"
    "audit_factory_create cs p dim_op (Some (mc_operation (cp_operation ?c))) message = Inr audit"
    "ap = \<lparr>ap_proposal = ?c, ap_validated = v, ap_audit = audit, ap_message = message\<rparr>"
    using assms unfolding prepare_approval_def require_pending_def request_view_simps Let_def by (auto simp: bindE_eq_Inr)
  then have v7: "uuid_version cs = Some 7"
    by (auto simp: audit_factory_create_def audit_metadata_init_def bindE_eq_Inr mutation_operations_init_def split: if_splits)
  show thesis
    using that [of status] steps v7 audit_factory_create_eq [OF v7, of dim_op "Some (mc_operation (cp_operation ?c))" p message]
    by (auto simp: bindE_eq_Inr)
qed

definition review_time :: "review_env \<Rightarrow> cr_row \<Rightarrow> master_code \<Rightarrow> int" where
  "review_time e q x = max (env_review_clock e) (max (q_created q) (instant (mc_updated_at x)))"

text \<open>An approval is the application of the plan and the update of the locked row, or it is nothing.\<close>

lemma approve_iff:
  assumes ok: "requests_ok (sv_requests sv)"
  shows "approve_request p cs i approved message e d0 sv = Inr (r, sv') \<longleftrightarrow>
    is_ok (authorize p REVIEW_CHANGE_REQUEST) \<and>
    (\<exists>q ap x d'. cr_by_id i (sv_requests sv) = Some q \<and> q_status q = PENDING
      \<and> prepare_approval p cs approved message (request_view q) = Inr ap
      \<and> apply_plan ap (mc_env.truncate e) d0 (sv_data sv) = Inr (x, d')
      \<and> (let q' = approved_row (principal_user_id p) cs (ap_proposal ap) message (review_time e q x) q
         in r = request_view q' \<and> (\<exists>rows. cr_update q' (sv_requests sv) = Inr rows \<and> sv' = \<lparr>sv_data = d', sv_requests = rows\<rparr>)))"
    (is "?lhs \<longleftrightarrow> ?rhs")
proof -
  have step: "translate_integrity_error (plan_selections (ap_validated ap)) (sv_data sv)
      (bindE (apply_plan ap (mc_env.truncate e) d0 (sv_data sv)) (\<lambda>(result, d').
       let reviewed_at = Aware (max (env_review_clock e) (max (instant (cr_created_at (request_view q))) (instant (mc_updated_at result)))) in
       case parse_uuid (actor_id (audit_actor (ap_audit ap))) of
         None \<Rightarrow> Inl ValueError
       | Some reviewer \<Rightarrow>
           bindE (request_approve (request_view q) (ap_proposal ap) reviewer reviewed_at (change_set_id (ap_audit ap)) (ap_message ap)) (\<lambda>reviewed.
           bindE (cr_update (set_review q reviewed) (sv_requests sv)) (\<lambda>rows.
             Inr (reviewed, \<lparr>sv_data = d', sv_requests = rows\<rparr>))))) = Inr (r, sv')
    \<longleftrightarrow> (\<exists>x d'. apply_plan ap (mc_env.truncate e) d0 (sv_data sv) = Inr (x, d')
      \<and> (let q' = approved_row (principal_user_id p) cs (ap_proposal ap) message (review_time e q x) q
         in r = request_view q' \<and> (\<exists>rows. cr_update q' (sv_requests sv) = Inr rows \<and> sv' = \<lparr>sv_data = d', sv_requests = rows\<rparr>)))"
    if q: "cr_by_id i (sv_requests sv) = Some q" "q_status q = PENDING"
      and prep: "prepare_approval p cs approved message (request_view q) = Inr ap" for q ap
  proof -
    have row: "request_ok q" using ok cr_by_id_in [OF q(1)] by (simp add: requests_ok_def)
    obtain status where f: "classify_approval (request_view q) (ap_proposal ap) message = Inr status"
      "ap_message ap = message" "uuid_version cs = Some 7"
      "change_set_id (ap_audit ap) = cs" "actor_id (audit_actor (ap_audit ap)) = str_uuid (principal_user_id p)"
      using prepare_facts [OF prep q(2)] by metis
    have approve: "request_approve (request_view q) (ap_proposal ap) (principal_user_id p) (Aware (review_time e q x)) cs message
      = Inr (request_view (approved_row (principal_user_id p) cs (ap_proposal ap) message (review_time e q x) q))" for x
      by (rule request_approve_eq [OF row q(2) _ f(3,1)]) (simp add: review_time_def)
    show ?thesis
      unfolding translate_integrity_eq_Inr bindE_eq_Inr f(2,4,5) parse_str_uuid option.case request_view_simps instant.simps
        review_time_def [symmetric] Let_def
      by (auto simp: approve set_review_rows [OF row q(2)] bindE_eq_Inr)
  qed
  note unfold = approve_request_def cr_approve_def lock_request_eq [OF ok]
  show ?thesis
  proof (cases "\<exists>q. cr_by_id i (sv_requests sv) = Some q \<and> q_status q = PENDING")
    case False
    then show ?thesis by (auto simp: unfold bindE_eq_Inr split: option.splits if_splits)
  next
    case True
    then obtain q where q: "cr_by_id i (sv_requests sv) = Some q" "q_status q = PENDING" by blast
    then have view: "request_of q = Inr (request_view q)"
      using ok cr_by_id_in [OF q(1)] request_of_ok by (simp add: requests_ok_def)
    show ?thesis
    proof (cases "prepare_approval p cs approved message (request_view q)")
      case (Inl err)
      then show ?thesis by (simp add: unfold q view bindE_eq_Inr)
    next
      case (Inr ap)
      show ?thesis
        unfolding unfold q(1) option.case if_P [OF q(2)] bindE_Inr view Inr option.inject sum.inject
        by (cases "authorize p REVIEW_CHANGE_REQUEST")
           (simp_all only: bindE_Inl bindE_Inr step [OF q Inr] is_ok_simps simp_thms, use q Inr in auto)
    qed
  qed
qed

lemma apply_plan_inv:
  assumes inv: "db_inv d0" "db_inv d" and v: "validate_proposal (ap_proposal ap) = Inr (ap_validated ap)"
    and ok: "apply_plan ap e d0 d = Inr (x, d')"
  shows "db_inv d'"
proof (cases "cp_operation (ap_proposal ap) = CR_CREATE")
  case True
  then have "cp_operation (ap_proposal ap) \<in> {CR_CREATE, CR_RESTORE}" by simp
  then obtain plan where plan: "plan_valid plan" "ap_validated ap = map (\<lambda>s. (s, plan s)) ORDER"
    by (rule validated_complete [OF v])
  have "mc_create plan (ap_audit ap) e d = Inr (x, d')"
    using ok True apply_create_iff [OF plan(2), of e d "(x, d')"] by (simp add: apply_plan_def)
  then show ?thesis by (rule mc_create_success(1) [OF inv(2) plan(1)])
next
  case False
  then show ?thesis
    using ok apply_change_inv(1) [OF inv validated_changes [OF v]] by (simp add: apply_plan_def)
qed

lemma approve_success:
  assumes inv: "db_inv d0" "db_inv (sv_data sv)" "requests_ok (sv_requests sv)"
    and obj: "\<forall>c \<in> set_option approved. proposal_object c"
    and run: "approve_request p cs i approved message e d0 sv = Inr (r, sv')"
  obtains q ap x t where "cr_by_id i (sv_requests sv) = Some q" "q_status q = PENDING"
    "prepare_approval p cs approved message (request_view q) = Inr ap"
    "apply_plan ap (mc_env.truncate e) d0 (sv_data sv) = Inr (x, sv_data sv')"
    "r = request_view (approved_row (principal_user_id p) cs (ap_proposal ap) message t q)"
    "sv_requests sv' = put_cr (approved_row (principal_user_id p) cs (ap_proposal ap) message t q) (sv_requests sv)"
    "db_inv (sv_data sv')" "requests_ok (sv_requests sv')"
proof -
  obtain q ap x d' rows where q: "cr_by_id i (sv_requests sv) = Some q" "q_status q = PENDING"
    and ap: "prepare_approval p cs approved message (request_view q) = Inr ap"
    and plan: "apply_plan ap (mc_env.truncate e) d0 (sv_data sv) = Inr (x, d')"
    and r: "r = request_view (approved_row (principal_user_id p) cs (ap_proposal ap) message (review_time e q x) q)"
    and upd: "cr_update (approved_row (principal_user_id p) cs (ap_proposal ap) message (review_time e q x) q) (sv_requests sv) = Inr rows"
    and sv': "sv' = \<lparr>sv_data = d', sv_requests = rows\<rparr>"
    using run unfolding approve_iff [OF inv(3)] by (auto simp: Let_def)
  let ?q = "approved_row (principal_user_id p) cs (ap_proposal ap) message (review_time e q x) q"
  have in_rows: "q \<in> set (sv_requests sv)" "q_id q = i" using cr_by_id_in [OF q(1)] by auto
  then have "proposal_object (q_original q)" using inv(3) by (simp add: requests_ok_def request_ok_def)
  moreover have f: "ap_proposal ap = (case approved of None \<Rightarrow> q_original q | Some c \<Rightarrow> c)"
      "validate_proposal (ap_proposal ap) = Inr (ap_validated ap)"
    by (rule prepare_facts [OF ap q(2)], assumption)+
  ultimately have "proposal_object (ap_proposal ap)" using obj by (cases approved) simp_all
  then have u: "rows = put_cr ?q (sv_requests sv)" "requests_ok rows"
    using cr_update_success(1,2) [OF inv(3) _ upd, of q] q(1) in_rows(2) by (simp_all add: approved_row_def)
  from apply_plan_inv [OF inv(1,2) f(2) plan] show thesis
    using that [of q ap x "review_time e q x"] q ap plan r u sv' by simp
qed

end
