(* ===== verification/History.thy ===== *)
theory History
  imports Change_Request_Outcome "HOL-Library.Sublist"
begin

text \<open>
  What every write leaves behind: the change logs only grow, every row they gain carries the
  change set, the actor and the reason of the request, and no Dimension or MasterCode row is
  ever removed.
\<close>

section \<open>Traced changes\<close>

definition mc_log_by :: "audit_metadata \<Rightarrow> mc_log \<Rightarrow> bool" where
  "mc_log_by a l \<longleftrightarrow> ml_change_set l = change_set_id a \<and> ml_actor l = audit_actor a \<and> ml_reason l = reason a"

definition dim_log_by :: "audit_metadata \<Rightarrow> dim_log \<Rightarrow> bool" where
  "dim_log_by a l \<longleftrightarrow> dl_change_set l = change_set_id a \<and> dl_actor l = audit_actor a \<and> dl_reason l = reason a"

text \<open>A list that grew at its end by elements with a property.\<close>

definition grown :: "('a \<Rightarrow> bool) \<Rightarrow> 'a list \<Rightarrow> 'a list \<Rightarrow> bool" where
  "grown P xs ys \<longleftrightarrow> (\<exists>zs. ys = xs @ zs \<and> (\<forall>z \<in> set zs. P z))"

definition traced :: "audit_metadata \<Rightarrow> db \<Rightarrow> db \<Rightarrow> bool" where
  "traced a d d' \<longleftrightarrow> grown (mc_log_by a) (mc_logs d) (mc_logs d') \<and> (\<forall>s. grown (dim_log_by a) (dim_logs d s) (dim_logs d' s))
     \<and> prefix (map m_id (mc_rows d)) (map m_id (mc_rows d')) \<and> (\<forall>s. prefix (map r_id (dim_rows d s)) (map r_id (dim_rows d' s)))"

lemma grown_refl [simp]: "grown P xs xs"
  by (simp add: grown_def)

lemma grown_append [simp]: "grown P xs (xs @ zs) \<longleftrightarrow> (\<forall>z \<in> set zs. P z)"
  by (simp add: grown_def)

lemma grown_trans: "\<lbrakk>grown P xs ys; grown P ys zs\<rbrakk> \<Longrightarrow> grown P xs zs"
  by (auto simp: grown_def)

lemma traced_refl [simp]: "traced a d d"
  by (simp add: traced_def)

lemma traced_trans [trans]: "\<lbrakk>traced a d d1; traced a d1 d2\<rbrakk> \<Longrightarrow> traced a d d2"
  unfolding traced_def by (intro conjI allI; blast intro: grown_trans prefix_order.trans)

named_theorems traced_intros

lemma traced_dim_insert [traced_intros]: "dim_insert ctx s r d = Inr d' \<Longrightarrow> traced (ctx_meta ctx) d d'"
  by (drule dim_insert_result(1)) (simp add: traced_def dim_log_by_def dim_log_row_def)

lemma traced_dim_update [traced_intros]:
  assumes "dim_update ctx s r d = Inr d'"
  shows "traced (ctx_meta ctx) d d'"
proof (cases "dim_by_id (r_id r) (dim_rows d s)")
  case None
  with assms show ?thesis by (simp add: dim_update_def)
next
  case (Some old)
  have "map r_id (put_dim r (dim_rows d s)) = map r_id (dim_rows d s)" by (simp add: put_dim_def)
  with dim_update_result(1) [OF assms Some] show ?thesis
    by (simp add: traced_def dim_log_by_def dim_update_logs_def dim_log_row_def)
qed

lemma traced_mc_insert [traced_intros]: "mc_insert ctx m d = Inr d' \<Longrightarrow> traced (ctx_meta ctx) d d'"
  by (drule mc_insert_result(1)) (simp add: traced_def mc_log_by_def mc_log_row_def)

lemma traced_mc_update [traced_intros]:
  assumes "mc_update ctx m d = Inr d'"
  shows "traced (ctx_meta ctx) d d'"
proof (cases "mc_by_id (m_id m) (mc_rows d)")
  case None
  with assms show ?thesis by (simp add: mc_update_def)
next
  case (Some old)
  have "map m_id (put_mc m (mc_rows d)) = map m_id (mc_rows d)" by (simp add: put_mc_def)
  with mc_update_result(1) [OF assms Some] show ?thesis
    by (auto simp: traced_def mc_log_by_def mc_log_row_def)
qed

lemma traced_flush [traced_intros]: "flush_master_codes ctx ms d = Inr d' \<Longrightarrow> traced (ctx_meta ctx) d d'"
proof (induction ms arbitrary: d)
  case (Cons m ms)
  then obtain d1 where "mc_update ctx m d = Inr d1" "flush_master_codes ctx ms d1 = Inr d'" by (auto simp: bindE_eq_Inr)
  with Cons.IH traced_mc_update show ?case by (blast intro: traced_trans)
qed simp

lemma set_context_meta: "set_context a t m = Inr ctx \<Longrightarrow> ctx_meta ctx = a"
  by (auto simp: set_context_def bindE_eq_Inr Let_def split: if_splits option.splits)


section \<open>The repository operations\<close>

lemma traced_repo_create:
  assumes "repo_create f s code v a e d = Inr (x, d')"
  shows "traced a d d'"
proof -
  obtain ctx r where "set_context a (env_clock e) None = Inr ctx" "dim_insert ctx s r d = Inr d'"
    using assms by (auto simp: repo_create_def translate_create_eq_Inr bindE_eq_Inr Let_def)
  then show ?thesis using traced_dim_insert set_context_meta by metis
qed

lemma traced_repo_update:
  assumes "repo_update_value f s i n w a c e d = Inr (x, d')"
  shows "traced a d d'"
proof -
  have "traced a d d'" if change: "repo_apply_change f s r current c w cc vc a e d = Inr (x, d')" for r current cc vc
  proof -
    obtain ctx r' d1 ms mn where "set_context a (env_clock e) mn = Inr ctx" "dim_update ctx s r' d = Inr d1"
      "flush_master_codes ctx ms d1 = Inr d'"
      using change by (auto simp: repo_apply_change_def bindE_eq_Inr Let_def)
    then show ?thesis using traced_dim_update traced_flush traced_trans set_context_meta by metis
  qed
  then show ?thesis
    using assms by (auto simp: repo_update_value_def translate_update_eq_Inr bindE_eq_Inr Let_def split: option.splits if_splits)
qed

lemma traced_lifecycle:
  assumes "lifecycle_mutate s i n a deleting e d = Inr (x, d')"
  shows "traced a d d'"
proof -
  obtain ctx r' mn where "set_context a (env_clock e) mn = Inr ctx" "dim_update ctx s r' d = Inr d'"
    using assms by (auto simp: lifecycle_mutate_def bindE_eq_Inr Let_def split: option.splits if_splits)
  then show ?thesis using traced_dim_update set_context_meta by metis
qed

lemma traced_inline: "create_inline ctx s c v i d = Inr (x, d') \<Longrightarrow> traced (ctx_meta ctx) d d'"
  by (auto simp: create_inline_def bindE_eq_Inr Let_def intro: traced_dim_insert split: if_splits prod.splits)

lemma traced_resolve: "resolve_slots ctx plan e ss res bad d = Inr (res', bad', d') \<Longrightarrow> traced (ctx_meta ctx) d d'"
proof (induction ss arbitrary: res bad d)
  case (Cons s ss)
  then show ?case
    by (auto simp: bindE_eq_Inr split: selection.splits option.splits dest!: traced_inline intro: traced_trans)
qed simp

lemma traced_mc_create:
  assumes "mc_create plan a e d = Inr (x, d')"
  shows "traced a d d'"
proof -
  obtain ctx res bad d1 m where "set_context a (env_clock e) None = Inr ctx"
    "resolve_slots ctx plan e ORDER (\<lambda>_. None) [] d = Inr (res, bad, d1)" "mc_insert ctx m d1 = Inr d'"
    using assms by (auto simp: mc_create_def translate_integrity_eq_Inr bindE_eq_Inr Let_def split: if_splits)
  then show ?thesis using traced_resolve traced_mc_insert traced_trans set_context_meta by metis
qed

lemma traced_mc_lifecycle:
  assumes "mc_change_lifecycle i et a restore e d0 d = Inr (x, d')"
  shows "traced a d d'"
proof -
  obtain ctx m mn where "set_context a (env_clock e) mn = Inr ctx" "mc_update ctx m d = Inr d'"
    using assms by (auto simp: mc_change_lifecycle_def bindE_eq_Inr Let_def split: option.splits if_splits)
  then show ?thesis using traced_mc_update set_context_meta by metis
qed

lemma traced_mc_references:
  assumes "mc_update_references i changes et a e d0 d = Inr (x, d')"
  shows "traced a d d'"
proof -
  have "d' = d \<or> (\<exists>ctx m mn. set_context a (env_clock e) mn = Inr ctx \<and> mc_update ctx m d = Inr d')"
    using assms
    by (auto simp: mc_update_references_def Let_def bindE_eq_Inr split: sum.splits exn.splits option.splits if_splits prod.splits)
  then show ?thesis using traced_mc_update set_context_meta traced_refl by metis
qed

lemma traced_apply_slots: "apply_slots ctx e v res bad d = Inr (res', bad', d') \<Longrightarrow> traced (ctx_meta ctx) d d'"
proof (induction v arbitrary: res bad d)
  case (Cons x v)
  then show ?case
    by (cases x) (auto simp: bindE_eq_Inr split: selection.splits dest!: traced_inline intro: traced_trans)
qed simp

lemma traced_target_slots:
  assumes "lock_target_slots ctx op changes refs e ss cur res bad d = Inr (cur', res', bad', d')"
    and "\<And>c. ctx = Some c \<Longrightarrow> ctx_meta c = a"
  shows "traced a d d'"
  using assms(1)
proof (induction ss arbitrary: cur res bad d)
  case (Cons s ss)
  obtain L where L: "lock_target_slot d s (refs s) (changes s) = Inr L" using Cons.prems by (auto simp: bindE_eq_Inr)
  show ?case
  proof (cases "\<exists>c v. changes s = Some (InlineDimension c v)")
    case True
    then obtain k y d1 cur1 res1 where "ctx = Some k" "traced (ctx_meta k) d d1"
      "lock_target_slots ctx op changes refs e ss cur1 res1 bad d1 = Inr (cur', res', bad', d')"
      using Cons.prems by (auto simp: L Let_def bindE_eq_Inr split: if_splits option.splits dest!: traced_inline)
    with Cons.IH assms(2) show ?thesis by (metis traced_trans)
  next
    case False
    then obtain cur1 res1 bad1 where "lock_target_slots ctx op changes refs e ss cur1 res1 bad1 d = Inr (cur', res', bad', d')"
      using Cons.prems by (auto simp: L Let_def split: if_splits option.splits selection.splits)
    then show ?thesis by (rule Cons.IH)
  qed
qed simp

text \<open>An applied proposal also leaves a MasterCode log row of its own operation.\<close>

lemma mc_insert_logged:
  assumes "mc_insert ctx m d = Inr d'"
  shows "\<exists>l \<in> set (mc_logs d'). mc_log_by (ctx_meta ctx) l \<and> ml_operation l = MC_CREATE \<and> ml_master_code l = m_id m"
  using mc_insert_result(1) [OF assms] by (simp add: mc_log_by_def mc_log_row_def)

lemma mc_update_logged:
  assumes "mc_update ctx m d = Inr d'" "mc_by_id (m_id m) (mc_rows d) = Some old" "op_master_code (operations (ctx_meta ctx)) = Some op"
  shows "\<exists>l \<in> set (mc_logs d'). mc_log_by (ctx_meta ctx) l \<and> ml_operation l = op \<and> ml_master_code l = m_id m"
proof -
  have "insert_mc_log (mc_log_row ctx m op (Some (mc_state old))) (d\<lparr>mc_rows := put_mc m (mc_rows d)\<rparr>) = Inr d'"
    using assms by (auto simp: mc_update_def bindE_eq_Inr split: if_splits)
  from insert_mc_log_eq [OF this] show ?thesis by (simp add: mc_log_by_def mc_log_row_def)
qed

lemma apply_create_traced:
  assumes "apply_create ap e d = Inr (x, d')"
  shows "traced (ap_audit ap) d d' \<and> (\<exists>l \<in> set (mc_logs d'). mc_log_by (ap_audit ap) l \<and> ml_operation l = MC_CREATE)"
proof -
  obtain ctx res bad d1 m where c: "set_context (ap_audit ap) (env_clock e) None = Inr ctx"
    "apply_slots ctx e (ap_validated ap) (\<lambda>_. None) [] d = Inr (res, bad, d1)" "mc_insert ctx m d1 = Inr d'"
    using assms by (auto simp: apply_create_def bindE_eq_Inr split: if_splits option.splits)
  then have "traced (ap_audit ap) d d'" using traced_apply_slots traced_mc_insert traced_trans set_context_meta by metis
  with mc_insert_logged [OF c(3)] set_context_meta [OF c(1)] show ?thesis by auto
qed

lemma lock_target_traced:
  assumes "lock_target ap e d0 d = Inr (m, current, n, installed, d1)"
  shows "traced (ap_audit ap) d d1" "\<And>c. installed = Some c \<Longrightarrow> ctx_meta c = ap_audit ap"
    "mc_by_id (m_id m) (mc_rows d1) = Some m" "Some (m_id m) = cp_target (ap_proposal ap)"
proof -
  obtain i m0 initial where i: "cp_target (ap_proposal ap) = Some i" "mc_by_id i (mc_rows d0) = Some m0"
    "joined_to_domain d0 m0 = Inr initial"
    using assms by (auto simp: lock_target_def bindE_eq_Inr split: option.splits)
  have ids: "mc_id initial = i"
    using i(3) mc_by_id_in [OF i(2)] by (auto simp: joined_to_domain_def row_master_code_def master_code_of_def bindE_eq_Inr res_simps)
  obtain cur res bad where ctx: "(if \<exists>x \<in> set (ap_validated ap). is_inline (snd x)
        then bindE (set_context (ap_audit ap) (env_clock e) (Some (mc_updated_at initial))) (\<lambda>c. Inr (Some c)) else Inr None) = Inr installed"
    and slots: "lock_target_slots installed (cp_operation (ap_proposal ap)) (map_of (ap_validated ap)) (mc_dims initial) e ORDER
        (\<lambda>_. None) (\<lambda>_. None) [] d = Inr (cur, res, bad, d1)"
    and m: "mc_by_id i (mc_rows d1) = Some m"
    using assms unfolding lock_target_def i option.case bindE_Inr Let_def ids
    by (auto simp: bindE_eq_Inr split: if_splits option.splits)
  show meta: "ctx_meta c = ap_audit ap" if "installed = Some c" for c
    using ctx that by (auto simp: bindE_eq_Inr dest: set_context_meta split: if_splits)
  show "traced (ap_audit ap) d d1" by (rule traced_target_slots [OF slots meta])
  show "mc_by_id (m_id m) (mc_rows d1) = Some m" "Some (m_id m) = cp_target (ap_proposal ap)"
    using m mc_by_id_in [OF m] i(1) by auto
qed

lemma apply_change_traced:
  assumes "apply_change ap e d0 d = Inr (x, d')" "op_master_code (operations (ap_audit ap)) = Some op"
  shows "traced (ap_audit ap) d d' \<and> (\<exists>l \<in> set (mc_logs d'). mc_log_by (ap_audit ap) l \<and> ml_operation l = op
    \<and> Some (ml_master_code l) = cp_target (ap_proposal ap))"
proof -
  obtain m current n installed d1 where lock: "lock_target ap e d0 d = Inr (m, current, n, installed, d1)"
    using assms(1) by (auto simp: apply_change_def bindE_eq_Inr)
  note f = lock_target_traced [OF lock]
  obtain ctx refs code v t del where ctx: "(case installed of Some c \<Rightarrow> Inr c
        | None \<Rightarrow> set_context (ap_audit ap) (env_clock e) (Some (mc_updated_at current))) = Inr ctx"
    and upd: "mc_update ctx (m\<lparr>m_refs := refs, m_code := code, m_version := v, m_updated := t, m_deleted := del\<rparr>) d1 = Inr d'"
    using assms(1) unfolding apply_change_def lock bindE_Inr prod.case Let_def by (auto simp: bindE_eq_Inr)
  have meta: "ctx_meta ctx = ap_audit ap"
    using ctx f(2) by (auto split: option.splits dest: set_context_meta)
  from mc_update_logged [OF upd _ assms(2) [folded meta]] f(3,4) traced_trans [OF f(1)] traced_mc_update [OF upd] show ?thesis
    by (simp add: meta) metis
qed

lemma apply_plan_traced:
  assumes "apply_plan ap e d0 d = Inr (x, d')"
    and "op_master_code (operations (ap_audit ap)) = Some (mc_operation (cp_operation (ap_proposal ap)))"
  shows "traced (ap_audit ap) d d'"
    and "\<exists>l \<in> set (mc_logs d'). mc_log_by (ap_audit ap) l \<and> ml_operation l = mc_operation (cp_operation (ap_proposal ap))
      \<and> (cp_operation (ap_proposal ap) \<noteq> CR_CREATE \<longrightarrow> Some (ml_master_code l) = cp_target (ap_proposal ap))"
  using assms apply_create_traced apply_change_traced [OF _ assms(2)]
  by (auto simp: apply_plan_def split: if_splits)


section \<open>The use cases\<close>

definition traced_by :: "human_principal \<Rightarrow> uuid \<Rightarrow> db \<Rightarrow> db \<Rightarrow> bool" where
  "traced_by p cs d d' \<longleftrightarrow>
     (\<exists>a. change_set_id a = cs \<and> actor_id (audit_actor a) = str_uuid (principal_user_id p) \<and> traced a d d')"

text \<open>What that means for the stored lists.\<close>

lemma traced_by_logs:
  assumes "traced_by p cs d d'"
  shows "\<exists>new. mc_logs d' = mc_logs d @ new \<and> (\<forall>l \<in> set new. ml_change_set l = cs \<and> actor_id (ml_actor l) = str_uuid (principal_user_id p))"
    and "\<exists>new. dim_logs d' s = dim_logs d s @ new \<and> (\<forall>l \<in> set new. dl_change_set l = cs \<and> actor_id (dl_actor l) = str_uuid (principal_user_id p))"
    and "prefix (map m_id (mc_rows d)) (map m_id (mc_rows d'))" "prefix (map r_id (dim_rows d s)) (map r_id (dim_rows d' s))"
proof -
  obtain a where a: "change_set_id a = cs" "actor_id (audit_actor a) = str_uuid (principal_user_id p)" "traced a d d'"
    using assms by (auto simp: traced_by_def)
  have grown: "\<exists>new. ys = xs @ new \<and> (\<forall>l \<in> set new. Q l)" if "grown P xs ys" "\<And>l. P l \<Longrightarrow> Q l" for P Q xs ys
    using that by (auto simp: grown_def)
  show "\<exists>new. mc_logs d' = mc_logs d @ new \<and> (\<forall>l \<in> set new. ml_change_set l = cs \<and> actor_id (ml_actor l) = str_uuid (principal_user_id p))"
    by (rule grown [of "mc_log_by a"]) (use a in \<open>auto simp: traced_def mc_log_by_def\<close>)
  show "\<exists>new. dim_logs d' s = dim_logs d s @ new \<and> (\<forall>l \<in> set new. dl_change_set l = cs \<and> actor_id (dl_actor l) = str_uuid (principal_user_id p))"
    by (rule grown [of "dim_log_by a"]) (use a in \<open>auto simp: traced_def dim_log_by_def\<close>)
  show "prefix (map m_id (mc_rows d)) (map m_id (mc_rows d'))" "prefix (map r_id (dim_rows d s)) (map r_id (dim_rows d' s))"
    using a(3) by (auto simp: traced_def)
qed

lemma audit_names:
  assumes "audit_factory_create cs p dim_op mc_op r = Inr a"
  shows "change_set_id a = cs \<and> actor_id (audit_actor a) = str_uuid (principal_user_id p)"
  using assms audit_actor_human_ok [of "principal_user_id p" "principal_role p"]
  by (auto simp: audit_factory_create_def audit_metadata_init_def mutation_operations_init_def bindE_eq_Inr split: if_splits)

lemma traced_byI: "\<lbrakk>audit_factory_create cs p dim_op mc_op r = Inr a; traced a d d'\<rbrakk> \<Longrightarrow> traced_by p cs d d'"
  using audit_names by (fastforce simp: traced_by_def)

lemma serve_traced:
  "serve_create s p cs code v r e d = Inr (x, d') \<Longrightarrow> traced_by p cs d d'"
  "serve_update s p cs i version w code' r e d = Inr (x, d') \<Longrightarrow> traced_by p cs d d'"
  "mutate_dimension_lifecycle s operation p cs i version r e d = Inr (x, d') \<Longrightarrow> traced_by p cs d d'"
proof -
  show "serve_create s p cs code v r e d = Inr (x, d') \<Longrightarrow> traced_by p cs d d'"
    by (erule serve_create_success) (blast intro: traced_byI traced_repo_create)
  show "serve_update s p cs i version w code' r e d = Inr (x, d') \<Longrightarrow> traced_by p cs d d'"
    by (erule serve_update_success) (blast intro: traced_byI traced_repo_update)
  show "mutate_dimension_lifecycle s operation p cs i version r e d = Inr (x, d') \<Longrightarrow> traced_by p cs d d'"
    by (auto simp: mutate_dimension_lifecycle_def lifecycle_delete_def lifecycle_restore_def bindE_eq_Inr reason_error_eq_Inr
        split: if_splits intro: traced_byI traced_lifecycle)
qed

lemma create_master_code_traced:
  "create_master_code p cs input r e d = Inr (x, d') \<Longrightarrow> traced_by p cs d d'"
  by (auto simp: create_master_code_def bindE_eq_Inr reason_error_eq_Inr intro: traced_byI traced_mc_create)

lemma run_change_traced: "run_change ch p cs i et r e d0 d = Inr (x, d') \<Longrightarrow> traced_by p cs d d'"
  by (cases ch) (auto simp: update_master_code_references_def delete_master_code_def restore_master_code_def
      mutate_master_code_lifecycle_def mc_delete_def mc_restore_def bindE_eq_Inr reason_error_eq_Inr
      intro: traced_byI traced_mc_references traced_mc_lifecycle)

end
