(* ===== verification/Change_Request_Refinement.thy ===== *)
theory Change_Request_Refinement
  imports Change_Request_Outcome
begin

text \<open>
  An approval refines the direct operation an administrator could have run: it succeeds exactly
  when that operation succeeds and changes something, and leaves the same database.
\<close>

section \<open>The review is recorded\<close>

lemma proposal_checked:
  assumes "proposal_object c" "validate_proposal c = Inr v"
  shows "proposal_check {CR_REFERENCE_UPDATE, CR_DELETE, CR_RESTORE} c"
proof -
  have etag: "etag_pattern et" if "cp_etag c = Some et" for et
    using assms(2) that by (auto simp: validate_proposal_def invalid_request_def split: if_splits)
  obtain payload where p: "(case cp_payload c of None \<Rightarrow> Inr None | Some v \<Rightarrow> bindE (proposal_payload v) (\<lambda>p. Inr (Some p))) = Inr payload"
    "change_proposal_init (c\<lparr>cp_payload := payload\<rparr>) = Inr c"
    using assms(1) by (auto simp: proposal_object_def proposal_of_def bindE_eq_Inr)
  have c: "c\<lparr>cp_payload := payload\<rparr> = c" using p(2) by (auto simp: change_proposal_init_def invalid_request_def bindE_eq_Inr split: if_splits)
  have object: "is_object v" if "cp_payload c = Some v" for v
    using p(1) that by (auto simp: proposal_payload_def split: if_splits)
  show ?thesis
    using p(2) etag object unfolding c
    by (cases "cp_operation c"; cases "cp_payload c"; cases "cp_etag c")
       (auto simp: proposal_check_def change_proposal_init_def invalid_request_def bindE_eq_Inr Let_def split: if_splits)
qed

lemma message_checked:
  assumes "review_message m = Inr m"
  shows "1 \<le> length m \<and> length m \<le> 500 \<and> strip_ch 32 m = m \<and> \<not> has_cc m"
  using assms by (cases "strip_ch 32 m") (auto simp: review_message_def normalize_reason_def Let_def split: if_splits)

lemma approved_row_update:
  assumes ok: "requests_ok rows" "cr_by_id i rows = Some q" "q_status q = PENDING"
    and cl: "classify_approval (request_view q) c message = Inr status"
    and c: "proposal_object c" "validate_proposal c = Inr v" and cs: "uuid_version cs = Some 7" "Some cs \<notin> q_applied ` set rows"
    and m: "\<forall>m \<in> set_option message. review_message m = Inr m" and t: "q_created q \<le> t"
  shows "cr_update (approved_row u cs c message t q) rows = Inr (put_cr (approved_row u cs c message t q) rows)"
proof -
  let ?q = "approved_row u cs c message t q"
  have q: "q_id q = i" "request_ok q" using cr_by_id_in [OF ok(2)] ok(1) by (auto simp: requests_ok_def)
  have same: "q_id ?q = i" "q_original ?q = q_original q" "q_reason ?q = q_reason q" "q_message ?q = message"
    using q(1) by (simp_all add: approved_row_def)
  have "cr_before_update q ?q = Inr ()" using ok(3) by (simp add: cr_before_update_def approved_row_def)
  moreover have "review_check ?q"
  proof (cases "c = q_original q")
    case True
    then show ?thesis using proposal_checked [OF c] cs(1) t by (simp add: review_check_def approved_row_def)
  next
    case False
    then show ?thesis using proposal_checked [OF c] cs(1) t cl
      by (auto simp: review_check_def approved_row_def classify_approval_def Let_def split: if_splits)
  qed
  then have "cr_row_check ?q"
    using q(2) m message_checked by (auto simp: cr_row_check_def request_ok_def same split: option.splits)
  moreover have "cr_unique_check ?q (filter (\<lambda>x. q_id x \<noteq> q_id ?q) rows) = Inr ()"
    using cs(2) by (auto simp: cr_unique_check_def approved_row_def image_iff)
  ultimately show ?thesis
    using ok(2) by (simp add: cr_update_def same(1) requireE_def)
qed


section \<open>The direct operation\<close>

text \<open>What the reviewer would run without a request, and what an approval asks beyond its success: a
  reference update has to change something, and a restoration has to name the stored references.\<close>

definition direct_operation :: "approval_plan \<Rightarrow> mc_env \<Rightarrow> db \<Rightarrow> (master_code \<times> db) res" where
  "direct_operation ap e d =
     (let i = the (cp_target (ap_proposal ap)); et = the (cp_etag (ap_proposal ap)) in
      case cp_operation (ap_proposal ap) of
        CR_CREATE \<Rightarrow> mc_create (plan_selections (ap_validated ap)) (ap_audit ap) e d
      | CR_REFERENCE_UPDATE \<Rightarrow> mc_update_references i (reference_changes (ap_validated ap)) et (ap_audit ap) e d d
      | CR_DELETE \<Rightarrow> mc_delete i et (ap_audit ap) e d d
      | CR_RESTORE \<Rightarrow> mc_restore i et (ap_audit ap) e d d)"

definition named_references :: "validated_proposal \<Rightarrow> slot \<Rightarrow> uuid option" where
  "named_references v s = (case map_of v s of Some (ExistingDimension i) \<Rightarrow> Some i | _ \<Rightarrow> None)"

definition effective :: "approval_plan \<Rightarrow> db \<Rightarrow> db \<Rightarrow> bool" where
  "effective ap d d' \<longleftrightarrow>
     (case cp_operation (ap_proposal ap) of
        CR_REFERENCE_UPDATE \<Rightarrow> d' \<noteq> d
      | CR_RESTORE \<Rightarrow> (\<exists>m \<in> set (mc_rows d). Some (m_id m) = cp_target (ap_proposal ap) \<and> m_refs m = named_references (ap_validated ap))
      | _ \<Rightarrow> True)"

lemma restore_names:
  assumes inv: "db_inv d" and m: "m \<in> set (mc_rows d)" and all: "\<And>s. map_of v s \<noteq> None"
    and plain: "\<And>s. \<not> (\<exists>c w. map_of v s = Some (InlineDimension c w))"
  shows "unusable_fields d CR_RESTORE (map_of v) ORDER = []
      \<and> (\<lambda>s. map_option dim_id (proposed_dims d (map_of v) (mc_dims_of d m) e 0 s)) = m_refs m
    \<longleftrightarrow> m_refs m = named_references v"
proof -
  have enf: "enforced d" using inv by (simp add: db_inv_def)
  note refs = mc_row_facts(2) [OF inv m]
  have slot: "\<not> unusable d CR_RESTORE (map_of v s) s \<and> map_option dim_id (proposed_dims d (map_of v) (mc_dims_of d m) e 0 s) = m_refs m s
      \<longleftrightarrow> m_refs m s = named_references v s" for s
  proof (cases "map_of v s")
    case None
    with all [of s] show ?thesis by simp
  next
    case (Some sel)
    show ?thesis
    proof (cases sel)
      case (ExistingDimension i)
      have "any_dim d s i \<noteq> None" if "m_refs m s = Some i"
        using mc_dims_of_idE [OF refs that] that by (auto simp: mc_dims_of_any)
      with any_dim_facts(3) [OF enf, of s i] show ?thesis
        by (auto simp: Some ExistingDimension unusable_def proposed_dims_def named_references_def split: option.splits)
    next
      case (InlineDimension c w)
      with plain [of s] Some show ?thesis by simp
    next
      case NotApplicable
      show ?thesis by (auto simp: Some NotApplicable unusable_def proposed_dims_def named_references_def)
    qed
  qed
  show ?thesis
    using slot by (auto simp: unusable_fields_def filter_empty_conv fun_eq_iff set_ORDER)
qed

lemma proposal_target:
  assumes "proposal_object c" "cp_operation c \<noteq> CR_CREATE"
  obtains i et where "cp_target c = Some i" "cp_etag c = Some et"
  using assms by (cases "cp_target c"; cases "cp_etag c")
    (auto simp: proposal_object_def proposal_of_def change_proposal_init_def invalid_request_def bindE_eq_Inr split: if_splits)

lemma delete_names:
  assumes inv: "db_inv d" and m: "mc_by_id i (mc_rows d) = Some m"
  shows "(\<lambda>s. map_option dim_id (proposed_dims d (map_of []) (mc_dims_of d m) e 0 s)) = m_refs m"
proof -
  have "m \<in> set (mc_rows d)" using mc_by_id_in [OF m] by simp
  note f = mc_row_facts(2) [OF inv this]
  show ?thesis using current_dims_view [OF f refl, of d] mc_dims_of_ids [OF f] by (simp add: proposed_dims_def fun_eq_iff)
qed

lemma apply_restore_iff:
  assumes inv: "db_inv d" and no: "no_inline ap" and t: "cp_target (ap_proposal ap) = Some i" "cp_etag (ap_proposal ap) = Some et"
    and op: "cp_operation (ap_proposal ap) = CR_RESTORE" and v: "validate_proposal (ap_proposal ap) = Inr (ap_validated ap)"
  shows "apply_change ap e d d = Inr (x, d') \<longleftrightarrow> mc_change_lifecycle i et (ap_audit ap) True e d d = Inr (x, d')
    \<and> (\<exists>m \<in> set (mc_rows d). m_id m = i \<and> m_refs m = named_references (ap_validated ap))"
proof -
  have "cp_operation (ap_proposal ap) \<in> {CR_CREATE, CR_RESTORE}" using op by simp
  then obtain plan where "ap_validated ap = map (\<lambda>s. (s, plan s)) ORDER" by (rule validated_complete [OF v])
  then have all: "map_of (ap_validated ap) s \<noteq> None" for s by (simp add: map_of_planned)
  have step: "apply_change ap e d d = Inr (x, d') \<longleftrightarrow> mc_change_lifecycle i et (ap_audit ap) True e d d = Inr (x, d')
    \<and> unusable_fields d CR_RESTORE (map_of (ap_validated ap)) ORDER = []
    \<and> (\<forall>m. mc_by_id i (mc_rows d) = Some m \<longrightarrow>
      (\<lambda>s. map_option dim_id (proposed_dims d (map_of (ap_validated ap)) (mc_dims_of d m) e 0 s)) = m_refs m)"
    using apply_lifecycle_iff [OF inv no t, of True e "(x, d')"] op by simp
  show ?thesis
  proof (cases "mc_by_id i (mc_rows d)")
    case None
    then show ?thesis unfolding step by (simp add: change_lifecycle_eq [OF inv inv])
  next
    case (Some m)
    have m: "m \<in> set (mc_rows d)" "m_id m = i" using mc_by_id_in [OF Some] by auto
    have "m' = m" if "m' \<in> set (mc_rows d)" "m_id m' = i" for m'
      using mc_row_facts(7) [OF inv that(1)] that(2) Some by simp
    then have "(\<exists>m \<in> set (mc_rows d). m_id m = i \<and> m_refs m = named_references (ap_validated ap))
        \<longleftrightarrow> m_refs m = named_references (ap_validated ap)" using m by blast
    with restore_names [OF inv m(1) all no_inlineD [OF no], of e] show ?thesis
      unfolding step Some option.inject by blast
  qed
qed

lemma apply_plan_direct:
  assumes inv: "db_inv d" and obj: "proposal_object (ap_proposal ap)"
    and v: "validate_proposal (ap_proposal ap) = Inr (ap_validated ap)"
    and plain: "cp_operation (ap_proposal ap) = CR_CREATE \<or> no_inline ap"
  shows "apply_plan ap e d d = Inr (x, d') \<longleftrightarrow> direct_operation ap e d = Inr (x, d') \<and> effective ap d d'"
proof (cases "cp_operation (ap_proposal ap) = CR_CREATE")
  case True
  then have "cp_operation (ap_proposal ap) \<in> {CR_CREATE, CR_RESTORE}" by simp
  then obtain plan where plan: "ap_validated ap = map (\<lambda>s. (s, plan s)) ORDER" by (rule validated_complete [OF v])
  then have "plan_selections (ap_validated ap) = plan" by (simp add: plan_selections_def map_of_planned fun_eq_iff)
  with True apply_create_iff [OF plan, of e d] show ?thesis by (simp add: apply_plan_def direct_operation_def effective_def)
next
  case False
  with plain have no: "no_inline ap" by simp
  obtain i et where t: "cp_target (ap_proposal ap) = Some i" "cp_etag (ap_proposal ap) = Some et"
    by (rule proposal_target [OF obj False])
  note defs = apply_plan_def direct_operation_def effective_def mc_delete_def mc_restore_def t
  show ?thesis
  proof (cases "cp_operation (ap_proposal ap)")
    case CR_CREATE
    with False show ?thesis by simp
  next
    case CR_REFERENCE_UPDATE
    with apply_references_iff [OF inv no t this] show ?thesis by (simp add: defs)
  next
    case CR_DELETE
    have "ap_validated ap = []" using v CR_DELETE by (auto elim: validate_proposal_cases)
    with apply_lifecycle_iff [OF inv no t, of False e "(x, d')"] delete_names [OF inv, of i _ e] show ?thesis
      by (simp add: defs CR_DELETE unusable_fields_def unusable_def)
  next
    case CR_RESTORE
    with apply_restore_iff [OF inv no t this v] show ?thesis by (simp add: defs)
  qed
qed


section \<open>Approval refines the direct operation\<close>

text \<open>C4. Approving a pending request is the same as running the direct operation of its proposal: the
  approval goes through exactly when the creation, reference update, deletion or restoration the
  reviewer could have sent would have succeeded (and, for a reference update, changed something;
  for a restoration, names the stored references), and it leaves the same Dimension and MasterCode
  tables and logs. Proposals that change an existing MasterCode and create Dimensions inline have
  no direct counterpart.\<close>

theorem approval_refines_direct_operation:
  assumes "db_inv (sv_data sv)" "requests_ok (sv_requests sv)"
    and "cr_by_id i (sv_requests sv) = Some q" "q_status q = PENDING" "is_ok (authorize p REVIEW_CHANGE_REQUEST)"
    and "prepare_approval p cs approved message (request_view q) = Inr ap"
    and "\<forall>c \<in> set_option approved. proposal_object c" "\<forall>m \<in> set_option message. review_message m = Inr m"
    and "Some cs \<notin> q_applied ` set (sv_requests sv)" "cp_operation (ap_proposal ap) = CR_CREATE \<or> no_inline ap"
  shows "(\<exists>r sv'. approve_request p cs i approved message e (sv_data sv) sv = Inr (r, sv') \<and> sv_data sv' = d')
    \<longleftrightarrow> (\<exists>x. direct_operation ap (mc_env.truncate e) (sv_data sv) = Inr (x, d') \<and> effective ap (sv_data sv) d')"
proof -
  obtain status where f: "ap_proposal ap = (case approved of None \<Rightarrow> q_original q | Some c \<Rightarrow> c)"
    "classify_approval (request_view q) (ap_proposal ap) message = Inr status"
    "validate_proposal (ap_proposal ap) = Inr (ap_validated ap)" "uuid_version cs = Some 7"
    by (rule prepare_facts [OF assms(6,4)])
  have "proposal_object (q_original q)"
    using assms(2) cr_by_id_in [OF assms(3)] by (simp add: requests_ok_def request_ok_def)
  then have obj: "proposal_object (ap_proposal ap)" using f(1) assms(7) by (cases approved) simp_all
  let ?row = "\<lambda>x. approved_row (principal_user_id p) cs (ap_proposal ap) message (review_time e q x) q"
  have recorded: "\<exists>sv'. (\<exists>rows. cr_update (?row x) (sv_requests sv) = Inr rows \<and> sv' = \<lparr>sv_data = d', sv_requests = rows\<rparr>)
      \<and> sv_data sv' = d'" for x
    using approved_row_update [OF assms(2,3,4) f(2) obj f(3,4) assms(9,8), of "review_time e q x"]
    by (intro exI [of _ "\<lparr>sv_data = d', sv_requests = put_cr (?row x) (sv_requests sv)\<rparr>"]) (simp add: review_time_def)
  show ?thesis
    unfolding approve_iff [OF assms(2)] apply_plan_direct [OF assms(1) obj f(3) assms(10), symmetric] Let_def
    using assms(3-6) recorded by auto
qed

definition sample_user :: human_principal where
  "sample_user = \<lparr>principal_user_id = 4, principal_role = USER\<rparr>"

definition sample_proposal :: change_proposal where
  "sample_proposal = \<lparr>cp_operation = CR_DELETE, cp_target = Some 9, cp_payload = None, cp_etag = Some sample_etag\<rparr>"

definition sample_request :: cr_row where
  "sample_request = \<lparr>q_id = 50, q_original = sample_proposal, q_requester = 4, q_reason = None, q_created = 7, q_status = PENDING,
     q_approved = None, q_reviewer = None, q_reviewed = None, q_message = None, q_applied = None\<rparr>"

definition sample_service :: service_db where
  "sample_service = \<lparr>sv_data = sample_db, sv_requests = [sample_request]\<rparr>"

lemma sample_etag_shape: "etag_pattern sample_etag" "sample_etag \<noteq> []"
proof -
  show "etag_pattern sample_etag" by (simp add: sample_etag_def issued_etag_pattern)
  then show "sample_etag \<noteq> []" by (auto simp: etag_pattern_def lit_def)
qed

lemma sample_proposal_object: "proposal_object sample_proposal"
  using sample_etag_shape(2)
  by (simp add: proposal_object_def proposal_of_def sample_proposal_def change_proposal_init_def)

lemma sample_requests_ok: "requests_ok [sample_request]"
  using sample_etag_shape(1) sample_proposal_object
  by (simp add: requests_ok_def applied_once_def request_ok_def cr_row_check_def review_check_def sample_request_def proposal_check_def)
     (simp add: sample_proposal_def)

theorem approval_refines_direct_operation_witness:
  "\<exists>r sv' ap x. approve_request sample_admin sample_cs 50 None None (mc_env.extend sample_mc_env \<lparr>env_review_clock = 11\<rparr>) sample_db sample_service
      = Inr (r, sv') \<and> direct_operation ap sample_mc_env sample_db = Inr (x, sv_data sv') \<and> cr_status r = APPROVED"
proof -
  let ?e = "mc_env.extend sample_mc_env \<lparr>env_review_clock = 11\<rparr>"
  obtain x d' where del: "mutate_master_code_lifecycle MC_DELETE sample_admin sample_cs 9 sample_etag None sample_mc_env sample_db sample_db
      = Inr (x, d')" by (rule sample_delete)
  then obtain meta where meta: "audit_factory_create sample_cs sample_admin None (Some MC_DELETE) None = Inr meta"
    and dir: "mc_delete 9 sample_etag meta sample_mc_env sample_db sample_db = Inr (x, d')"
    by (auto simp: mutate_master_code_lifecycle_def bindE_eq_Inr reason_error_eq_Inr)
  let ?ap = "\<lparr>ap_proposal = sample_proposal, ap_validated = [], ap_audit = meta, ap_message = None\<rparr>"
  have q: "cr_by_id 50 (sv_requests sample_service) = Some sample_request" "q_status sample_request = PENDING"
    by (simp_all add: cr_by_id_def sample_service_def sample_request_def)
  have "validate_proposal sample_proposal = Inr []"
    using sample_etag_shape(1) by (simp add: validate_proposal_def sample_proposal_def)
  then have prep: "prepare_approval sample_admin sample_cs None None (request_view sample_request) = Inr ?ap"
    using meta by (simp add: prepare_approval_def require_pending_def q(2) classify_approval_def)
       (simp add: sample_request_def sample_proposal_def)
  have env: "mc_env.truncate ?e = sample_mc_env" by (simp add: mc_env.truncate_def mc_env.extend_def)
  have direct: "direct_operation ?ap sample_mc_env sample_db = Inr (x, d')" "effective ?ap sample_db d'"
    using dir by (simp_all add: direct_operation_def effective_def sample_proposal_def)
  then have "\<exists>x. direct_operation ?ap (mc_env.truncate ?e) (sv_data sample_service) = Inr (x, d') \<and> effective ?ap (sv_data sample_service) d'"
    by (auto simp: env sample_service_def)
  then obtain r sv' where r: "approve_request sample_admin sample_cs 50 None None ?e (sv_data sample_service) sample_service = Inr (r, sv')"
    "sv_data sv' = d'"
    using approval_refines_direct_operation [OF _ _ q _ prep, of ?e d'] sample_db_inv sample_requests_ok
    by (auto simp: sample_service_def sample_admin_def authorization_defs no_inline_def sample_request_def)
  have ok: "requests_ok (sv_requests sample_service)" using sample_requests_ok by (simp add: sample_service_def)
  have "cr_status r = APPROVED"
    using r(1) q prep unfolding approve_iff [OF ok] by (auto simp: Let_def approved_row_def sample_request_def)
  with r direct show ?thesis by (auto simp: sample_service_def)
qed

end
