(* ===== verification/System.thy ===== *)
theory System
  imports History Change_Request_Refinement
begin

text \<open>
  The service as a state machine: the Dimension and MasterCode tables with their logs, and the
  change requests. From the empty tables, every successful request leads to the next state; a
  request that locks rows may have made its first read in any earlier state. The invariants
  hold in every reachable state, by rule induction.
\<close>

section \<open>Steps and reachable states\<close>

definition empty_db :: db where
  "empty_db = \<lparr>dim_rows = (\<lambda>_. []), mc_rows = [], dim_logs = (\<lambda>_. []), mc_logs = []\<rparr>"

definition empty_service :: service_db where
  "empty_service = \<lparr>sv_data = empty_db, sv_requests = []\<rparr>"

text \<open>A direct request of \<open>p\<close> under the change set \<open>cs\<close>, with its first read in \<open>d0\<close>.\<close>

inductive data_step :: "human_principal \<Rightarrow> uuid \<Rightarrow> db \<Rightarrow> db \<Rightarrow> db \<Rightarrow> bool" where
  dimension_created: "serve_create s p cs code v r e d = Inr (x, d') \<Longrightarrow> data_step p cs d0 d d'"
| dimension_updated: "serve_update s p cs i version w code' r e d = Inr (x, d') \<Longrightarrow> data_step p cs d0 d d'"
| dimension_mutated: "mutate_dimension_lifecycle s operation p cs i version r e d = Inr (x, d') \<Longrightarrow> data_step p cs d0 d d'"
| master_code_created: "create_master_code p cs input r me d = Inr (y, d') \<Longrightarrow> data_step p cs d0 d d'"
| master_code_changed: "run_change change p cs i et r me d0 d = Inr (y, d') \<Longrightarrow> data_step p cs d0 d d'"

inductive service_step :: "human_principal \<Rightarrow> uuid \<Rightarrow> db \<Rightarrow> service_db \<Rightarrow> service_db \<Rightarrow> bool" where
  direct: "data_step p cs d0 (sv_data sv) d' \<Longrightarrow> service_step p cs d0 sv (sv\<lparr>sv_data := d'\<rparr>)"
| submitted: "\<lbrakk>proposal_object c; submit_request p c r e sv = Inr (x, sv')\<rbrakk> \<Longrightarrow> service_step p cs d0 sv sv'"
| approved: "\<lbrakk>\<forall>c \<in> set_option change. proposal_object c; approve_request p cs i change message re d0 sv = Inr (x, sv')\<rbrakk>
    \<Longrightarrow> service_step p cs d0 sv sv'"
| rejected: "reject_request p i m e sv = Inr (x, sv') \<Longrightarrow> service_step p cs d0 sv sv'"

inductive reachable :: "service_db \<Rightarrow> bool" where
  start: "reachable empty_service"
| step: "\<lbrakk>reachable sv0; reachable sv; service_step p cs (sv_data sv0) sv sv'\<rbrakk> \<Longrightarrow> reachable sv'"


section \<open>Invariants\<close>

text \<open>The change an approved request records is in the log of the MasterCodes, under its change set and reviewer.\<close>

definition request_applied :: "db \<Rightarrow> cr_row \<Rightarrow> bool" where
  "request_applied d q \<longleftrightarrow>
     (\<forall>c \<in> set_option (q_approved q). \<exists>l \<in> set (mc_logs d). Some (ml_change_set l) = q_applied q
       \<and> Some (actor_id (ml_actor l)) = map_option str_uuid (q_reviewer q) \<and> ml_operation l = mc_operation (cp_operation c)
       \<and> (cp_operation c \<noteq> CR_CREATE \<longrightarrow> Some (ml_master_code l) = cp_target c))"

definition service_inv :: "service_db \<Rightarrow> bool" where
  "service_inv sv \<longleftrightarrow> db_inv (sv_data sv) \<and> requests_ok (sv_requests sv) \<and> (\<forall>q \<in> set (sv_requests sv). request_applied (sv_data sv) q)"

lemma empty_inv: "db_inv empty_db"
  by (simp add: db_inv_def enforced_def coherent_def dims_ok_def dim_logs_ok_def mcs_ok_def mc_logs_ok_def empty_db_def)

lemma create_master_code_inv:
  assumes "db_inv d" "create_master_code p cs input r e d = Inr (x, d')"
  shows "db_inv d'"
proof -
  obtain plan audit where plan: "normalize_plan input = Inr plan" "mc_create plan audit e d = Inr (x, d')"
    using assms(2) by (auto simp: create_master_code_def bindE_eq_Inr)
  show ?thesis by (rule mc_create_success(1) [OF assms(1) normalize_plan_valid [OF plan(1)] plan(2)])
qed

lemma data_step_inv: "\<lbrakk>data_step p cs d0 d d'; db_inv d0; db_inv d\<rbrakk> \<Longrightarrow> db_inv d'"
proof (induction rule: data_step.induct)
  case (master_code_created p cs input r me d y d' d0)
  then show ?case using create_master_code_inv by blast
next
  case (master_code_changed change p cs i et r me d0 d y d')
  then show ?case using run_change_success by metis
qed (erule (1) serve_inv [rotated])+

lemma data_step_traced: "data_step p cs d0 d d' \<Longrightarrow> traced_by p cs d d'"
  by (induction rule: data_step.induct) (fact serve_traced create_master_code_traced run_change_traced | erule serve_traced create_master_code_traced run_change_traced)+

lemma request_applied_grown:
  assumes "request_applied d q" "set (mc_logs d) \<subseteq> set (mc_logs d')"
  shows "request_applied d' q"
  using assms unfolding request_applied_def by blast

lemma traced_by_subset: "traced_by p cs d d' \<Longrightarrow> set (mc_logs d) \<subseteq> set (mc_logs d')"
  using traced_by_logs(1) by fastforce

lemma approve_traced:
  assumes "db_inv d0" "db_inv (sv_data sv)" "requests_ok (sv_requests sv)" "\<forall>c \<in> set_option change. proposal_object c"
    and run: "approve_request p cs i change message e d0 sv = Inr (x, sv')"
  obtains q q' where "cr_by_id i (sv_requests sv) = Some q" "q_status q = PENDING" "q_id q' = q_id q" "q_status q' \<noteq> PENDING"
    "sv_requests sv' = put_cr q' (sv_requests sv)" "traced_by p cs (sv_data sv) (sv_data sv')" "request_applied (sv_data sv') q'"
    "db_inv (sv_data sv')" "requests_ok (sv_requests sv')"
proof -
  from assms obtain q ap y t where q: "cr_by_id i (sv_requests sv) = Some q" "q_status q = PENDING"
    and ap: "prepare_approval p cs change message (request_view q) = Inr ap"
    and plan: "apply_plan ap (mc_env.truncate e) d0 (sv_data sv) = Inr (y, sv_data sv')"
    and rows: "sv_requests sv' = put_cr (approved_row (principal_user_id p) cs (ap_proposal ap) message t q) (sv_requests sv)"
    and inv: "db_inv (sv_data sv')" "requests_ok (sv_requests sv')"
    by (rule approve_success)
  have a: "change_set_id (ap_audit ap) = cs" "actor_id (audit_actor (ap_audit ap)) = str_uuid (principal_user_id p)"
    "op_master_code (operations (ap_audit ap)) = Some (mc_operation (cp_operation (ap_proposal ap)))"
    by (rule prepare_facts [OF ap q(2)], assumption)+
  note t = apply_plan_traced [OF plan a(3)]
  let ?q = "approved_row (principal_user_id p) cs (ap_proposal ap) message t q"
  have "traced_by p cs (sv_data sv) (sv_data sv')" using t(1) a(1,2) by (auto simp: traced_by_def)
  moreover have "request_applied (sv_data sv') ?q"
    using t(2) a(1,2) by (auto simp: request_applied_def approved_row_def mc_log_by_def)
  ultimately show thesis
    using that [of q ?q] q rows inv by (simp add: approved_row_def)
qed

lemma request_applied_pending: "\<lbrakk>request_ok q; q_status q = PENDING\<rbrakk> \<Longrightarrow> request_applied d q"
  using pending_row(4) by (simp add: request_applied_def)

lemma service_step_inv:
  assumes "service_step p cs d0 sv sv'" "db_inv d0" "service_inv sv"
  shows "service_inv sv'"
  using assms
proof (induction rule: service_step.induct)
  case (direct p cs d0 sv d')
  have "db_inv d'" using data_step_inv [OF direct.hyps direct.prems(1)] direct.prems(2) by (simp add: service_inv_def)
  with direct.prems(2) traced_by_subset [OF data_step_traced [OF direct.hyps]] show ?case
    by (auto simp: service_inv_def intro: request_applied_grown)
next
  case (submitted c p r e sv x sv' cs d0)
  have ok: "requests_ok (sv_requests sv)" using submitted.prems(2) by (simp add: service_inv_def)
  obtain q where q: "sv' = sv\<lparr>sv_requests := sv_requests sv @ [q]\<rparr>" "q_status q = PENDING" "requests_ok (sv_requests sv')"
    by (rule submit_success [OF ok submitted.hyps])
  then have "request_applied (sv_data sv) q" by (intro request_applied_pending) (auto simp: requests_ok_def)
  with q submitted.prems(2) show ?case by (auto simp: service_inv_def)
next
  case (approved change p cs i message re d0 sv x sv')
  have inv: "db_inv (sv_data sv)" "requests_ok (sv_requests sv)" using approved.prems(2) by (simp_all add: service_inv_def)
  obtain q' where q: "sv_requests sv' = put_cr q' (sv_requests sv)" "traced_by p cs (sv_data sv) (sv_data sv')"
    "request_applied (sv_data sv') q'" "db_inv (sv_data sv')" "requests_ok (sv_requests sv')"
    by (rule approve_traced [OF approved.prems(1) inv approved.hyps])
  have "request_applied (sv_data sv') x" if "x \<in> set (put_cr q' (sv_requests sv))" for x
    using in_put_cr [OF that] q(3) approved.prems(2) request_applied_grown traced_by_subset [OF q(2)] by (auto simp: service_inv_def)
  with q show ?case by (simp add: service_inv_def)
next
  case (rejected p i m e sv x sv' cs d0)
  have ok: "requests_ok (sv_requests sv)" using rejected.prems(2) by (simp add: service_inv_def)
  obtain q t where q: "cr_by_id i (sv_requests sv) = Some q" "q_status q = PENDING"
    "sv' = sv\<lparr>sv_requests := put_cr (rejected_row (principal_user_id p) m t q) (sv_requests sv)\<rparr>" "requests_ok (sv_requests sv')"
    by (rule reject_success [OF ok rejected.hyps])
  have "request_ok q" using ok cr_by_id_in [OF q(1)] by (simp add: requests_ok_def)
  then have "request_applied (sv_data sv) (rejected_row (principal_user_id p) m t q)"
    using pending_row(4) q(2) by (simp add: request_applied_def rejected_row_def)
  with q rejected.prems(2) in_put_cr show ?case by (fastforce simp: service_inv_def)
qed

lemma reachable_inv: "reachable sv \<Longrightarrow> service_inv sv"
proof (induction rule: reachable.induct)
  case start
  show ?case by (simp add: service_inv_def empty_service_def empty_inv requests_ok_def applied_once_def)
next
  case (step sv0 sv p cs sv')
  then show ?case by (intro service_step_inv [OF step(3)]) (simp add: service_inv_def)+
qed


section \<open>The data\<close>

text \<open>C1. In every reachable state the identifiers, codes and values of each Dimension table and the
  identifiers, codes and reference combinations of the MasterCodes are unique, deleted rows
  included; every stored MasterCode code is composed of the current codes of exactly the
  Dimensions it refers to, which exist, and are active when the MasterCode is.\<close>

theorem reachable_consistent:
  assumes "reachable sv"
  defines "d \<equiv> sv_data sv"
  shows "distinct (map r_id (dim_rows d s)) \<and> distinct (map r_code (dim_rows d s))
    \<and> distinct (map (value_key \<circ> r_value) (dim_rows d s))
    \<and> distinct (map m_id (mc_rows d)) \<and> distinct (map m_code (mc_rows d)) \<and> distinct (map m_refs (mc_rows d))
    \<and> (\<forall>m \<in> set (mc_rows d). (\<forall>s. map_option dim_id (mc_dims_of d m s) = m_refs m s)
        \<and> m_code m = compose (mc_dims_of d m) \<and> (m_deleted m = None \<longrightarrow> all_active (mc_dims_of d m)))"
proof -
  have inv: "db_inv d" using reachable_inv [OF assms(1)] by (simp add: service_inv_def d_def)
  then have enf: "enforced d" "coherent d" by (simp_all add: db_inv_def)
  show ?thesis
    using enforcedD(1) [OF enf(1), of s] enforcedD(3) [OF enf(1)] enf(2) mc_dims_of_ids [OF mc_row_facts(2) [OF inv]]
    by (simp add: dims_ok_def mcs_ok_def coherent_def)
qed

lemma sample_year: "dimension_code (PyStr (lit ''y25'')) = Inr (lit ''Y25'')"
  "normalize_inline_value Year (PlainValue (PyInt 2025)) = Inr (YearValue 2025)"
  by (simp_all add: dimension_code_def lit_def isascii_def upper_def upper_cp_def strip_ch_def code_pattern_def is_alnum_def
      normalize_inline_value_def year_value_def)

text \<open>A state one request reaches.\<close>

lemma sample_first_step:
  obtains d where "service_step sample_admin sample_cs empty_db empty_service (empty_service\<lparr>sv_data := d\<rparr>)"
    "map r_code (dim_rows d Year) = [lit ''Y25'']"
proof -
  obtain meta where meta: "audit_factory_create sample_cs sample_admin (Some DIM_CREATE) None None = Inr meta" "context_ok meta"
    "operations meta = \<lparr>op_dimension = Some DIM_CREATE, op_master_code = None\<rparr>"
    using reason_ok [OF sample_cs_version _ sample_rename_input(2), of "Some DIM_CREATE"] by blast
  have valid: "valid_code (lit ''Y25'')" "valid_value (YearValue 2025)" "value_slot (YearValue 2025) = Year"
    using dimension_code_valid [OF sample_year(1)] normalize_inline_value_valid [OF sample_year(2)] by auto
  have eq: "serve_create Year sample_admin sample_cs (PyStr (lit ''y25'')) (PlainValue (PyInt 2025)) None sample_env empty_db
      = repo_create (slot_to_domain Year) Year (lit ''Y25'') (YearValue 2025) meta sample_env empty_db"
    by (rule serve_create_unfold [OF sample_rename_input(3) sample_year _ meta(1)]) (simp add: shape_ok_def)
  obtain x d where x: "repo_create (slot_to_domain Year) Year (lit ''Y25'') (YearValue 2025) meta sample_env empty_db = Inr (x, d)"
    using slot_repo.create_total [OF empty_inv valid meta(2), of sample_env] meta(3) by (auto simp: empty_db_def)
  have "dim_rows d Year = [created_row sample_env (lit ''Y25'') (YearValue 2025)]"
    using slot_repo.create_success(3) [OF empty_inv valid x] by (simp add: empty_db_def)
  then have codes: "map r_code (dim_rows d Year) = [lit ''Y25'']" by (simp add: created_row_def)
  have "service_step sample_admin sample_cs empty_db empty_service (empty_service\<lparr>sv_data := d\<rparr>)"
    using data_step.dimension_created [OF eq [unfolded x], of empty_db]
    by (intro service_step.direct) (simp add: empty_service_def)
  then show ?thesis by (rule that [OF _ codes])
qed

lemma reachable_sample:
  obtains sv where "reachable sv" "map r_code (dim_rows (sv_data sv) Year) = [lit ''Y25'']"
proof -
  obtain d where d: "service_step sample_admin sample_cs empty_db empty_service (empty_service\<lparr>sv_data := d\<rparr>)"
    "map r_code (dim_rows d Year) = [lit ''Y25'']" by (rule sample_first_step)
  then have "reachable (empty_service\<lparr>sv_data := d\<rparr>)"
    using reachable.step [OF reachable.start reachable.start] by (simp add: empty_service_def)
  with d(2) show ?thesis by (intro that [of "empty_service\<lparr>sv_data := d\<rparr>"]) simp_all
qed

theorem reachable_consistent_witness:
  "\<exists>sv. reachable sv \<and> map r_code (dim_rows (sv_data sv) Year) = [lit ''Y25'']
    \<and> distinct (map (value_key \<circ> r_value) (dim_rows (sv_data sv) Year))"
proof -
  obtain sv where sv: "reachable sv" "map r_code (dim_rows (sv_data sv) Year) = [lit ''Y25'']" by (rule reachable_sample)
  from reachable_consistent [OF sv(1), of Year] sv show ?thesis by (intro exI [of _ sv]) simp
qed

text \<open>C2. In every reachable state the change logs are complete: the log of a MasterCode has exactly
  one row per version from 1 to the current one, each starting from the state the row before
  reached and the last ending in the stored state; the newest logged code, value and deletion
  mark of a Dimension are the stored ones; and no log row speaks of an unknown row.\<close>

theorem reachable_audited:
  assumes "reachable sv"
  defines "d \<equiv> sv_data sv"
  shows "(\<forall>m \<in> set (mc_rows d). let h = mc_history (m_id m) (mc_logs d) in
        map ml_version h = map int [1..<nat (m_version m) + 1] \<and> log_chain None h \<and> log_end None h = Some (mc_state m))
    \<and> (\<forall>s. \<forall>r \<in> set (dim_rows d s).
        last_log (r_id r) CODE_FIELD (dim_logs d s) = Some (JText (r_code r))
        \<and> last_log (r_id r) VALUE_FIELD (dim_logs d s) = Some (value_json (r_value r))
        \<and> (r_deleted r \<noteq> None \<longleftrightarrow> last_log (r_id r) DELETED_FIELD (dim_logs d s) = Some (JBool True)))
    \<and> (\<forall>l \<in> set (mc_logs d). ml_master_code l \<in> m_id ` set (mc_rows d))
    \<and> (\<forall>s. \<forall>l \<in> set (dim_logs d s). dl_dimension l \<in> r_id ` set (dim_rows d s))"
proof -
  have enf: "enforced d" using reachable_inv [OF assms(1)] by (simp add: service_inv_def db_inv_def d_def)
  show ?thesis
    using enforcedD(2) [OF enf] enforcedD(4) [OF enf]
    by (simp add: dim_logs_ok_def mc_logs_ok_def mc_audited_def dim_audited_def)
qed

theorem reachable_audited_witness:
  "\<exists>sv r. reachable sv \<and> r \<in> set (dim_rows (sv_data sv) Year) \<and> r_code r = lit ''Y25''
    \<and> last_log (r_id r) CODE_FIELD (dim_logs (sv_data sv) Year) = Some (JText (lit ''Y25''))"
proof -
  obtain sv where sv: "reachable sv" "map r_code (dim_rows (sv_data sv) Year) = [lit ''Y25'']" by (rule reachable_sample)
  from sv(2) obtain r where "r \<in> set (dim_rows (sv_data sv) Year)" "r_code r = lit ''Y25''"
    by (cases "dim_rows (sv_data sv) Year") auto
  with reachable_audited [OF sv(1)] sv(1) show ?thesis by metis
qed

end
