(* ===== verification/System_Requests.thy ===== *)
theory System_Requests
  imports System
begin

text \<open>
  Properties of the service that relate change requests, data and logs: the log is append-only
  and attributed, a request is reviewed at most once, and every approval left its trace.
\<close>

section \<open>Sample runs\<close>

definition sample_submitted :: service_db where
  "sample_submitted = \<lparr>sv_data = empty_db, sv_requests =
     [sample_request\<lparr>q_id := 20, q_created := 10\<rparr>]\<rparr>"

lemma sample_submit:
  "submit_request sample_user sample_proposal None sample_env empty_service
     = Inr (request_view (sample_request\<lparr>q_id := 20, q_created := 10\<rparr>), sample_submitted)"
proof -
  let ?q = "sample_request\<lparr>q_id := 20, q_created := 10\<rparr>"
  have ok: "request_ok ?q" using sample_requests_ok
    by (simp add: requests_ok_def request_ok_def cr_row_check_def review_check_def) (simp add: sample_request_def)
  have auth: "authorize sample_user SUBMIT_DELETE_REQUEST = Inr sample_user" "principal_user_id sample_user = 4"
    "submit_action (cp_operation sample_proposal) = Some SUBMIT_DELETE_REQUEST"
    by (simp_all add: sample_user_def authorization_defs sample_proposal_def)
  have fields: "\<lparr>q_id = env_new_id sample_env, q_original = sample_proposal, q_requester = 4, q_reason = None,
      q_created = env_clock sample_env, q_status = PENDING, q_approved = None, q_reviewer = None,
      q_reviewed = None, q_message = None, q_applied = None\<rparr> = ?q"
    by (simp add: sample_env_def sample_request_def)
  have "validate_proposal sample_proposal = Inr []"
    using sample_etag_shape(1) by (simp add: validate_proposal_def sample_proposal_def)
  moreover have "cr_insert ?q [] = Inr [?q]"
    using ok by (simp add: cr_insert_def request_ok_def requireE_def cr_unique_check_def) (simp add: sample_request_def)
  ultimately show ?thesis
    using request_of_ok [OF ok] fields
    by (simp add: submit_request_def auth cr_submit_def Let_def normalize_reason_def empty_service_def sample_submitted_def)
qed

lemma sample_submitted_reachable: "reachable sample_submitted"
  using reachable.step [OF reachable.start reachable.start service_step.submitted [OF sample_proposal_object sample_submit]] .

section \<open>Append-only logs\<close>

lemma service_step_traced:
  assumes "service_step p cs d0 sv sv'" "db_inv d0" "service_inv sv"
  shows "sv_data sv' = sv_data sv \<or> traced_by p cs (sv_data sv) (sv_data sv')"
  using assms
proof (induction rule: service_step.induct)
  case (direct p cs d0 sv d')
  then show ?case using data_step_traced by simp
next
  case (submitted c p r e sv x sv' cs d0)
  have "requests_ok (sv_requests sv)" using submitted.prems by (simp add: service_inv_def)
  then show ?case by (rule submit_success [OF _ submitted.hyps]) simp
next
  case (approved change p cs i message re d0 sv x sv')
  have inv: "db_inv (sv_data sv)" "requests_ok (sv_requests sv)" using approved.prems by (simp_all add: service_inv_def)
  have "traced_by p cs (sv_data sv) (sv_data sv')"
    by (rule approve_traced [OF approved.prems(1) inv approved.hyps])
  then show ?case by blast
next
  case (rejected p i m e sv x sv' cs d0)
  have "requests_ok (sv_requests sv)" using rejected.prems by (simp add: service_inv_def)
  then show ?case by (rule reject_success [OF _ rejected.hyps]) simp
qed

text \<open>C3. History is never rewritten: a step of the service leaves every log row and every Dimension and
  MasterCode row identity that was there, in place, and each log row it adds carries the change
  set of the request and names the acting user.\<close>

theorem history_append_only:
  assumes "reachable sv0" "reachable sv" "service_step p cs (sv_data sv0) sv sv'"
  shows "(\<exists>new. mc_logs (sv_data sv') = mc_logs (sv_data sv) @ new
        \<and> (\<forall>l \<in> set new. ml_change_set l = cs \<and> actor_id (ml_actor l) = str_uuid (principal_user_id p)))
    \<and> (\<exists>new. dim_logs (sv_data sv') s = dim_logs (sv_data sv) s @ new
        \<and> (\<forall>l \<in> set new. dl_change_set l = cs \<and> actor_id (dl_actor l) = str_uuid (principal_user_id p)))
    \<and> prefix (map m_id (mc_rows (sv_data sv))) (map m_id (mc_rows (sv_data sv')))
    \<and> prefix (map r_id (dim_rows (sv_data sv) s)) (map r_id (dim_rows (sv_data sv') s))"
proof -
  have "db_inv (sv_data sv0)" "service_inv sv" using reachable_inv assms(1,2) by (auto simp: service_inv_def)
  from service_step_traced [OF assms(3) this] show ?thesis
  proof
    assume "traced_by p cs (sv_data sv) (sv_data sv')"
    from traced_by_logs(1,3) [OF this] traced_by_logs(2,4) [OF this, of s] show ?thesis by blast
  qed simp
qed

theorem history_append_only_witness:
  "\<exists>sv' l. service_step sample_admin sample_cs (sv_data empty_service) empty_service sv' \<and> dim_logs (sv_data sv') Year = [] @ l"
proof -
  obtain d where d: "service_step sample_admin sample_cs empty_db empty_service (empty_service\<lparr>sv_data := d\<rparr>)"
    by (rule sample_first_step)
  then have "service_step sample_admin sample_cs (sv_data empty_service) empty_service (empty_service\<lparr>sv_data := d\<rparr>)"
    by (simp add: empty_service_def)
  with history_append_only [OF reachable.start reachable.start this, of Year] show ?thesis
    by (auto simp: empty_service_def empty_db_def)
qed


section \<open>Reviews\<close>

inductive later :: "service_db \<Rightarrow> service_db \<Rightarrow> bool" where
  now: "later sv sv"
| next_step: "\<lbrakk>later sv a; reachable sv0; service_step p cs (sv_data sv0) a b\<rbrakk> \<Longrightarrow> later sv b"

lemma later_reachable: "\<lbrakk>later sv sv'; reachable sv\<rbrakk> \<Longrightarrow> reachable sv'"
  by (induction rule: later.induct) (auto intro: reachable.step)

lemma put_cr_keeps:
  assumes "requests_ok rows" "q \<in> set rows" "q_status q \<noteq> PENDING" "cr_by_id i rows = Some p" "q_status p = PENDING" "q_id p' = q_id p"
  shows "q \<in> set (put_cr p' rows)"
proof -
  have p: "p \<in> set rows" using cr_by_id_in [OF assms(4)] by simp
  have "q_id q \<noteq> q_id p"
  proof
    assume "q_id q = q_id p"
    moreover have "distinct (map q_id rows)" using assms(1) by (simp add: requests_ok_def)
    ultimately have "q = p" using distinct_map_filter_unique [of q_id rows q p] assms(2) p by simp
    with assms(3,5) show False by simp
  qed
  then have "q = (if q_id q = q_id p' then p' else q)" using assms(6) by simp
  then show ?thesis unfolding set_put_cr by (rule image_eqI) (fact assms(2))
qed

lemma reviewed_kept:
  assumes "service_step p cs d0 sv sv'" "db_inv d0" "service_inv sv" "q \<in> set (sv_requests sv)" "q_status q \<noteq> PENDING"
  shows "q \<in> set (sv_requests sv')"
  using assms
proof (induction rule: service_step.induct)
  case (direct p cs d0 sv d')
  then show ?case by simp
next
  case (submitted c p r e sv x sv' cs d0)
  have "requests_ok (sv_requests sv)" using submitted.prems by (simp add: service_inv_def)
  then show ?case by (rule submit_success [OF _ submitted.hyps]) (use submitted.prems in simp)
next
  case (approved change p cs i message re d0 sv x sv')
  have inv: "db_inv (sv_data sv)" "requests_ok (sv_requests sv)" using approved.prems by (simp_all add: service_inv_def)
  show ?case
    by (rule approve_traced [OF approved.prems(1) inv approved.hyps]) (use put_cr_keeps [OF inv(2) approved.prems(3,4)] in simp)
next
  case (rejected p i m e sv x sv' cs d0)
  have ok: "requests_ok (sv_requests sv)" using rejected.prems by (simp add: service_inv_def)
  show ?case
    by (rule reject_success [OF ok rejected.hyps]) (use put_cr_keeps [OF ok rejected.prems(3,4)] in \<open>simp add: rejected_row_def\<close>)
qed

lemma later_reviewed:
  "\<lbrakk>later sv sv'; reachable sv; q \<in> set (sv_requests sv); q_status q \<noteq> PENDING\<rbrakk> \<Longrightarrow> q \<in> set (sv_requests sv')"
proof (induction rule: later.induct)
  case (next_step sv a sv0 p cs b)
  have "db_inv (sv_data sv0)" using reachable_inv [OF next_step.hyps(2)] by (simp add: service_inv_def)
  moreover have "service_inv a" by (rule reachable_inv [OF later_reachable [OF next_step.hyps(1) next_step.prems(1)]])
  ultimately show ?case using reviewed_kept [OF next_step.hyps(3)] next_step by blast
qed

text \<open>C5. A request is reviewed at most once: once it is approved or rejected, its row is unchanged in
  every later state of the service, and every further approval or rejection an authorized
  reviewer attempts fails because the request was already reviewed.\<close>

theorem reviewed_once:
  assumes "reachable sv" "later sv sv'" "q \<in> set (sv_requests sv)" "q_status q \<noteq> PENDING"
    and "REVIEW_CHANGE_REQUEST \<in> set (ALLOWED_ACTIONS (principal_role p))"
  shows "q \<in> set (sv_requests sv')
    \<and> approve_request p cs (q_id q) change message re d0 sv' = Inl ChangeRequestAlreadyReviewed
    \<and> reject_request p (q_id q) m e sv' = Inl ChangeRequestAlreadyReviewed"
proof -
  have q: "q \<in> set (sv_requests sv')" by (rule later_reviewed [OF assms(2,1,3,4)])
  have ok: "requests_ok (sv_requests sv')"
    using reachable_inv [OF later_reachable [OF assms(2,1)]] by (simp add: service_inv_def)
  then have "cr_by_id (q_id q) (sv_requests sv') = Some q" using cr_by_id_unique q by (simp add: requests_ok_def)
  then have "lock_request (q_id q) (sv_requests sv') = Inl ChangeRequestAlreadyReviewed"
    using assms(4) by (simp add: lock_request_eq [OF ok])
  with q assms(5) show ?thesis
    by (simp add: approve_request_def cr_approve_def reject_request_def cr_reject_def authorize_def)
qed

lemma sample_reject:
  "\<exists>x. reject_request sample_admin 20 (lit ''no'') sample_env sample_submitted = Inr (x, sample_submitted\<lparr>sv_requests :=
     [rejected_row 3 (lit ''no'') 10 (sample_request\<lparr>q_id := 20, q_created := 10\<rparr>)]\<rparr>)"
proof -
  let ?q = "sample_request\<lparr>q_id := 20, q_created := 10\<rparr>"
  let ?r = "rejected_row 3 (lit ''no'') 10 ?q"
  have ok: "requests_ok [?q]"
    using reachable_inv [OF sample_submitted_reachable] by (simp add: service_inv_def sample_submitted_def)
  have row: "request_ok ?q" using ok by (simp add: requests_ok_def)
  have pend: "q_status ?q = PENDING" by (simp add: sample_request_def)
  have "cr_row_check ?r"
    using row by (simp add: request_ok_def cr_row_check_def review_check_def rejected_row_def)
      (simp add: sample_request_def lit_def strip_ch_def has_cc_def)
  then have upd: "cr_update ?r [?q] = Inr [?r]"
    using pend by (simp add: cr_update_def cr_by_id_def rejected_row_def cr_before_update_def cr_unique_check_def requireE_def put_cr_def
      sample_request_def)
  have time: "max (env_clock sample_env) (instant (cr_created_at (request_view ?q))) = 10" by (simp add: sample_env_def)
  have "request_reject (request_view ?q) 3 (Aware 10) (lit ''no'') = Inr (request_view ?r)"
    by (rule request_reject_eq [OF row pend]) simp
  moreover have "cr_by_id 20 [?q] = Some ?q" by (simp add: cr_by_id_def)
  moreover have "authorize sample_admin REVIEW_CHANGE_REQUEST = Inr sample_admin" "principal_user_id sample_admin = 3"
    by (simp_all add: sample_admin_def authorization_defs)
  ultimately show ?thesis
    using upd pend by (simp add: reject_request_def cr_reject_def sample_submitted_def lock_request_eq [OF ok] request_of_ok [OF row] time
        set_review_rows(1) [OF row pend] del: request_view_simps)
qed

lemma sample_rejected:
  obtains sv where "reachable sv" "sv_requests sv = [rejected_row 3 (lit ''no'') 10 (sample_request\<lparr>q_id := 20, q_created := 10\<rparr>)]"
proof -
  obtain x where "reject_request sample_admin 20 (lit ''no'') sample_env sample_submitted = Inr (x, sample_submitted\<lparr>sv_requests :=
     [rejected_row 3 (lit ''no'') 10 (sample_request\<lparr>q_id := 20, q_created := 10\<rparr>)]\<rparr>)" using sample_reject by blast
  from reachable.step [OF reachable.start sample_submitted_reachable service_step.rejected [OF this]] show ?thesis
    by (rule that) simp
qed

theorem reviewed_once_witness:
  "\<exists>sv q. reachable sv \<and> sv_requests sv = [q] \<and> q_status q = REJECTED
    \<and> reject_request sample_admin (q_id q) (lit ''no'') sample_env sv = Inl ChangeRequestAlreadyReviewed"
proof -
  obtain sv where sv: "reachable sv" "sv_requests sv = [rejected_row 3 (lit ''no'') 10 (sample_request\<lparr>q_id := 20, q_created := 10\<rparr>)]"
    by (rule sample_rejected)
  have "REVIEW_CHANGE_REQUEST \<in> set (ALLOWED_ACTIONS (principal_role sample_admin))"
    by (simp add: sample_admin_def ADMIN_ACTIONS_def)
  from reviewed_once [OF sv(1) later.now _ _ this, of "rejected_row 3 (lit ''no'') 10 (sample_request\<lparr>q_id := 20, q_created := 10\<rparr>)"] sv
  show ?thesis by (intro exI [of _ sv] exI) (auto simp: rejected_row_def)
qed

text \<open>C6. In every reachable state each stored request reads back as a well-formed request, is the only one
  with its identifier and with its applied change set, and shows a review exactly when it is no
  longer pending; and the change an approved request records is in the MasterCode log, under that
  change set, by that reviewer, with the approved operation on the approved target.\<close>

theorem reachable_requests:
  assumes "reachable sv" "q \<in> set (sv_requests sv)"
  shows "(\<exists>r. cr_get (q_id q) None sv = Inr r \<and> request_of q = Inr r \<and> change_request_init r = Inr r)
    \<and> (q_reviewer q = None \<longleftrightarrow> q_status q = PENDING)
    \<and> (\<forall>other \<in> set (sv_requests sv). q_applied q \<noteq> None \<and> q_applied other = q_applied q \<longrightarrow> other = q)
    \<and> (\<forall>c. q_approved q = Some c \<longrightarrow> (\<exists>l \<in> set (mc_logs (sv_data sv)). Some (ml_change_set l) = q_applied q
        \<and> Some (actor_id (ml_actor l)) = map_option str_uuid (q_reviewer q) \<and> ml_operation l = mc_operation (cp_operation c)
        \<and> (cp_operation c \<noteq> CR_CREATE \<longrightarrow> Some (ml_master_code l) = cp_target c)))"
proof (intro conjI)
  have inv: "requests_ok (sv_requests sv)" "request_applied (sv_data sv) q"
    using reachable_inv [OF assms(1)] assms(2) by (simp_all add: service_inv_def)
  have ok: "request_ok q" "distinct (map q_id (sv_requests sv))" "applied_once (sv_requests sv)"
    using inv(1) assms(2) by (simp_all add: requests_ok_def)
  have row: "cr_row_check q" "review_check q" using ok(1) by (simp_all add: request_ok_def cr_row_check_def)
  have "find (\<lambda>x. q_id x = q_id q) (sv_requests sv) = Some q"
    using cr_by_id_unique [OF ok(2) assms(2)] by (simp add: cr_by_id_def)
  then show "\<exists>r. cr_get (q_id q) None sv = Inr r \<and> request_of q = Inr r \<and> change_request_init r = Inr r"
    using request_of_ok [OF ok(1)] checked_request [OF row(1)] by (simp add: cr_get_def)
  show "q_reviewer q = None \<longleftrightarrow> q_status q = PENDING"
    using row(2) by (cases "q_status q") (simp_all add: review_check_def)
  show "\<forall>other \<in> set (sv_requests sv). q_applied q \<noteq> None \<and> q_applied other = q_applied q \<longrightarrow> other = q"
  proof (intro ballI impI)
    fix other assume other: "other \<in> set (sv_requests sv)" "q_applied q \<noteq> None \<and> q_applied other = q_applied q"
    then have "q_id q = q_id other" by (intro applied_onceD [OF ok(3) assms(2)]) simp_all
    then show "other = q" using distinct_map_filter_unique [OF ok(2) other(1) assms(2)] by simp
  qed
  show "\<forall>c. q_approved q = Some c \<longrightarrow> (\<exists>l \<in> set (mc_logs (sv_data sv)). Some (ml_change_set l) = q_applied q
        \<and> Some (actor_id (ml_actor l)) = map_option str_uuid (q_reviewer q) \<and> ml_operation l = mc_operation (cp_operation c)
        \<and> (cp_operation c \<noteq> CR_CREATE \<longrightarrow> Some (ml_master_code l) = cp_target c))"
    using inv(2) by (simp add: request_applied_def)
qed

theorem reachable_requests_witness:
  "\<exists>sv q r. reachable sv \<and> sv_requests sv = [q] \<and> q_reviewer q = Some 3 \<and> cr_get (q_id q) None sv = Inr r"
proof -
  obtain sv where sv: "reachable sv" "sv_requests sv = [rejected_row 3 (lit ''no'') 10 (sample_request\<lparr>q_id := 20, q_created := 10\<rparr>)]"
    by (rule sample_rejected)
  from reachable_requests [OF sv(1), of "rejected_row 3 (lit ''no'') 10 (sample_request\<lparr>q_id := 20, q_created := 10\<rparr>)"] sv show ?thesis
    by (auto simp: rejected_row_def)
qed

end
