(* ===== verification/Change_Request_Api.thy ===== *)
theory Change_Request_Api
  imports Dimension_Http System_Requests
begin

text \<open>
  The endpoints of MasterCode change requests (\<open>change_requests.py\<close>) and their cursors. A proposal
  of a body is parsed by Pydantic; its payload is the JSON value that \<open>model_dump\<close> returns, and the
  endpoint builds and validates the domain proposal from it. A response shows a request with its
  original and its approved proposal; the stored proposals have passed the same schema.
\<close>

section \<open>Proposals and responses\<close>

definition to_proposal :: "change_proposal \<Rightarrow> change_proposal res" where
  "to_proposal v =
     bindE (case cp_payload v of None \<Rightarrow> Inr None | Some j \<Rightarrow> bindE (proposal_payload j) (\<lambda>c. Inr (Some c))) (\<lambda>payload.
     bindE (change_proposal_init (v\<lparr>cp_payload := payload\<rparr>)) (\<lambda>proposal.
     bindE (validate_proposal proposal) (\<lambda>_. Inr proposal)))"

record proposal_response =
  pp_operation :: change_operation
  pp_target_id :: "uuid option"
  pp_expected_etag :: "pystr option"
  pp_payload :: "jvalue option"

definition proposal_dict :: "change_proposal \<Rightarrow> proposal_response" where
  "proposal_dict c = \<lparr>pp_operation = cp_operation c, pp_target_id = cp_target c, pp_expected_etag = cp_etag c,
     pp_payload = cp_payload c\<rparr>"

record change_request_response =
  qr_id :: uuid
  qr_status :: change_request_status
  qr_original :: proposal_response
  qr_requester_id :: uuid
  qr_reason :: "pystr option"
  qr_created_at :: datetime
  qr_approved_proposal :: "proposal_response option"
  qr_reviewer_id :: "uuid option"
  qr_reviewed_at :: "datetime option"
  qr_review_message :: "pystr option"
  qr_applied_change_set_id :: "uuid option"

definition request_response :: "change_request \<Rightarrow> change_request_response" where
  "request_response q =
     \<lparr>qr_id = cr_id q, qr_status = cr_status q, qr_original = proposal_dict (cr_original q), qr_requester_id = cr_requester q,
      qr_reason = cr_reason q, qr_created_at = cr_created_at q, qr_approved_proposal = map_option proposal_dict (cr_approved q),
      qr_reviewer_id = cr_reviewer q, qr_reviewed_at = cr_reviewed_at q, qr_review_message = cr_message q,
      qr_applied_change_set_id = cr_change_set q\<rparr>"

record submitted_response =
  sr_id :: uuid
  sr_status :: change_request_status
  sr_created_at :: datetime


section \<open>Cursors\<close>

definition encode_request_cursor :: "int \<times> uuid \<Rightarrow> pystr" where
  "encode_request_cursor c =
     b64_encode (json_object
       [(lit ''v'', PInt 1), (lit ''t'', PStr (isoformat (fst c))), (lit ''i'', PStr (str_uuid (snd c)))])"

definition request_page :: "change_request list \<times> bool \<Rightarrow> change_request_response page_response" where
  "request_page page =
     \<lparr>pr_items = map request_response (fst page),
      pr_next_cursor =
        (if snd page \<and> fst page \<noteq> []
         then (let l = last (fst page) in Some (encode_request_cursor (instant (cr_created_at l), cr_id l)))
         else None)\<rparr>"

text \<open>\<open>_decode_cursor\<close>: here the version has to be the integer 1 and the time to have an offset.\<close>

definition request_cursor_fields :: "decoders \<Rightarrow> pystr \<Rightarrow> (int \<times> uuid) option" where
  "request_cursor_fields D encoded =
     (case decode_object D encoded of
        Some (PObj ms) \<Rightarrow>
          if \<not> has_keys [''v'', ''t'', ''i''] ms \<or> member ''v'' ms \<noteq> Some (PInt 1) then None
          else (case (member ''t'' ms, member ''i'' ms) of
             (Some (PStr t), Some (PStr i)) \<Rightarrow>
               (case (fromisoformat D t, uuid_text D i) of
                  (Some (Aware n), Some u) \<Rightarrow> Some (n, u)
                | _ \<Rightarrow> None)
           | _ \<Rightarrow> None)
      | _ \<Rightarrow> None)"

definition decode_request_cursor :: "decoders \<Rightarrow> pystr \<Rightarrow> (int \<times> uuid) res" where
  "decode_request_cursor D encoded =
     (case request_cursor_fields D encoded of
        Some c \<Rightarrow> Inr c
      | None \<Rightarrow> Inl (ChangeRequestValidationError InvalidCursor))"

text \<open>\<open>_decode_cursor(cursor) if cursor else None\<close>.\<close>

definition request_after :: "decoders \<Rightarrow> pystr option \<Rightarrow> (int \<times> uuid) option res" where
  "request_after D cursor =
     (case cursor of
        None \<Rightarrow> Inr None
      | Some encoded \<Rightarrow> if encoded = [] then Inr None else bindE (decode_request_cursor D encoded) (\<lambda>c. Inr (Some c)))"


section \<open>Endpoints\<close>

definition submit_route ::
    "human_principal res \<Rightarrow> (change_proposal \<times> pystr option) api \<Rightarrow> env \<Rightarrow> service_db \<Rightarrow> submitted_response response api \<times> service_db" where
  "submit_route who payload e sv =
     stepE (raises (require_authorized_principal who SUBMIT_CREATE_REQUEST)) sv (\<lambda>p.
     stepE payload sv (\<lambda>(proposal, reason).
     stepE (raises (to_proposal proposal)) sv (\<lambda>c.
     stepE (raises (submit_request p c reason e sv)) sv (\<lambda>(q, sv').
       (Inr (json_response 201 [] \<lparr>sr_id = cr_id q, sr_status = PENDING, sr_created_at = cr_created_at q\<rparr>), sv')))))"

text \<open>The query parameters of a list: status and operation filters, cursor and limit.\<close>

type_synonym request_params = "change_request_status option \<times> change_operation option \<times> pystr option \<times> int"

definition list_own_route ::
    "decoders \<Rightarrow> human_principal res \<Rightarrow> request_params api \<Rightarrow> service_db \<Rightarrow> change_request_response page_response response api" where
  "list_own_route D who params sv =
     bindE (raises (require_authorized_principal who READ_DATA)) (\<lambda>p.
     bindE params (\<lambda>(status, operation, cursor, limit).
     bindE (raises (request_after D cursor)) (\<lambda>after.
     bindE (raises (list_requests p False status operation after (PyInt limit) sv)) (\<lambda>page.
       Inr (json_response 200 [] (request_page page))))))"

definition get_own_route ::
    "human_principal res \<Rightarrow> uuid api \<Rightarrow> service_db \<Rightarrow> change_request_response response api" where
  "get_own_route who request_id sv =
     bindE (raises (require_authorized_principal who READ_DATA)) (\<lambda>p.
     bindE request_id (\<lambda>i.
     bindE (raises (get_own p i sv)) (\<lambda>q. Inr (json_response 200 [] (request_response q)))))"

text \<open>The status filter of the review queue is \<open>PENDING\<close> unless the query gives another.\<close>

definition list_review_route ::
    "decoders \<Rightarrow> human_principal res \<Rightarrow> request_params api \<Rightarrow> service_db \<Rightarrow> change_request_response page_response response api" where
  "list_review_route D who params sv =
     bindE (raises (require_authorized_principal who REVIEW_CHANGE_REQUEST)) (\<lambda>p.
     bindE params (\<lambda>(status, operation, cursor, limit).
     bindE (raises (request_after D cursor)) (\<lambda>after.
     bindE (raises (list_requests p True (Some (case status of None \<Rightarrow> PENDING | Some st \<Rightarrow> st)) operation after (PyInt limit) sv))
       (\<lambda>page. Inr (json_response 200 [] (request_page page))))))"

definition get_review_route ::
    "human_principal res \<Rightarrow> uuid api \<Rightarrow> service_db \<Rightarrow> change_request_response response api" where
  "get_review_route who request_id sv =
     bindE (raises (require_authorized_principal who REVIEW_CHANGE_REQUEST)) (\<lambda>p.
     bindE request_id (\<lambda>i.
     bindE (raises (get_for_review p i sv)) (\<lambda>q. Inr (json_response 200 [] (request_response q)))))"

definition optionE :: "('a \<Rightarrow> 'b res) \<Rightarrow> 'a option \<Rightarrow> 'b option res" where
  "optionE f v = (case v of None \<Rightarrow> Inr None | Some x \<Rightarrow> bindE (f x) (\<lambda>y. Inr (Some y)))"

definition approve_route ::
    "human_principal res \<Rightarrow> (uuid \<times> change_proposal option \<times> pystr option) api \<Rightarrow> uuid \<Rightarrow> review_env \<Rightarrow> db \<Rightarrow> service_db
       \<Rightarrow> change_request_response response api \<times> service_db" where
  "approve_route who payload cs e d0 sv =
     stepE (raises (require_authorized_principal who REVIEW_CHANGE_REQUEST)) sv (\<lambda>p.
     stepE payload sv (\<lambda>(i, approved_proposal, message).
     stepE (raises (optionE to_proposal approved_proposal)) sv (\<lambda>proposal.
     stepE (raises (optionE review_message message)) sv (\<lambda>m.
     stepE (raises (approve_request p cs i proposal m e d0 sv)) sv (\<lambda>(q, sv').
       (Inr (json_response 200 [] (request_response q)), sv'))))))"

definition reject_route ::
    "human_principal res \<Rightarrow> (uuid \<times> pystr) api \<Rightarrow> env \<Rightarrow> service_db \<Rightarrow> change_request_response response api \<times> service_db" where
  "reject_route who payload e sv =
     stepE (raises (require_authorized_principal who REVIEW_CHANGE_REQUEST)) sv (\<lambda>p.
     stepE payload sv (\<lambda>(i, message).
     stepE (raises (review_message message)) sv (\<lambda>m.
     stepE (raises (reject_request p i m e sv)) sv (\<lambda>(q, sv').
       (Inr (json_response 200 [] (request_response q)), sv')))))"


section \<open>Reading back\<close>

lemma decode_encode_request_cursor:
  assumes "datetime_range t"
  shows "decode_request_cursor D (encode_request_cursor (t, i)) = Inr (t, i)"
proof -
  let ?ms = "[(lit ''v'', PInt 1), (lit ''t'', PStr (isoformat t)), (lit ''i'', PStr (str_uuid i))]"
  have "decode_object D (encode_request_cursor (t, i)) = Some (PObj ?ms)"
    unfolding encode_request_cursor_def fst_conv snd_conv
    by (rule decode_object_printed) (use isoformat_plain [of t] uuid_plain [of i] in \<open>auto simp: lit_def plain_char_def\<close>)
  then show ?thesis
    by (simp add: decode_request_cursor_def request_cursor_fields_def has_keys_def member_def lit_def
        fromisoformat_def isoformat_round_trip [OF assms] insert_commute)
qed

lemma canonical_idem [simp]: "canonical (canonical v) = canonical v"
proof (induction v rule: canonical.induct)
  case (1 kvs)
  let ?g = "\<lambda>(k, v). (k, canonical v)" and ?ys = "sort_key fst (map (\<lambda>(k, v). (k, canonical v)) kvs)"
  have "\<And>y. y \<in> set ?ys \<Longrightarrow> ?g y = y" using 1 by fastforce
  then have "map ?g ?ys = ?ys" by (rule map_idI)
  moreover have "sort_key fst ?ys = ?ys" by (rule sort_key_id_if_sorted) simp
  ultimately show ?case by simp
qed simp_all

lemma is_object_canonical [simp]: "is_object (canonical v) = is_object v"
  by (cases v) simp_all

text \<open>What \<open>_to_proposal\<close> returns is a proposal object with valid contents.\<close>

lemma to_proposal_object:
  assumes "to_proposal v = Inr c"
  shows "proposal_object c" "cp_operation c = cp_operation v" "cp_target c = cp_target v" "cp_etag c = cp_etag v"
    "cp_payload c = map_option canonical (cp_payload v)"
proof -
  have init: "change_proposal_init x = Inr y \<Longrightarrow> y = x" for x y
    by (auto simp: change_proposal_init_def invalid_request_def split: if_splits)
  obtain c' where c: "change_proposal_init c = Inr c'" "c = v\<lparr>cp_payload := map_option canonical (cp_payload v)\<rparr>"
    and obj: "\<And>j. cp_payload v = Some j \<Longrightarrow> is_object j"
    using assms
    by (cases "cp_payload v") (auto simp: to_proposal_def proposal_payload_def bindE_eq_Inr dest: init split: if_splits)
  show "proposal_object c"
    using c obj init [OF c(1)]
    by (cases "cp_payload v") (simp_all add: proposal_object_def proposal_of_def proposal_payload_def)
  show "cp_operation c = cp_operation v" "cp_target c = cp_target v" "cp_etag c = cp_etag v"
    "cp_payload c = map_option canonical (cp_payload v)"
    using c(2) by simp_all
qed

lemma cr_get_row:
  assumes "requests_ok (sv_requests sv)" "q \<in> set (sv_requests sv)"
  shows "cr_get (q_id q) requester sv
    = (if requester \<in> {None, Some (q_requester q)} then Inr (request_view q) else Inl ChangeRequestNotFound)"
proof -
  let ?P = "\<lambda>x. q_id x = q_id q \<and> (case requester of None \<Rightarrow> True | Some u \<Rightarrow> q_requester x = u)"
  have only: "x \<in> set (sv_requests sv) \<Longrightarrow> q_id x = q_id q \<Longrightarrow> x = q" for x
    using assms by (auto simp: requests_ok_def distinct_map inj_on_def)
  have "find ?P (sv_requests sv) = (if requester \<in> {None, Some (q_requester q)} then Some q else None)"
  proof (cases "find ?P (sv_requests sv)")
    case None
    with assms(2) show ?thesis by (auto simp: find_None_iff split: option.splits)
  next
    case (Some x)
    then have "x \<in> set (sv_requests sv)" "?P x" by (auto simp: find_Some_iff)
    with only [of x] Some show ?thesis by (auto split: option.splits)
  qed
  with assms show ?thesis by (simp add: cr_get_def request_of_ok requests_ok_def)
qed



end
