(* ===== verification/Accounts.thy ===== *)
theory Accounts
  imports Auth Credentials
begin

text \<open>
  The user, session and challenge tables of \<open>src/mdm/infrastructure/models.py\<close> with their
  constraints, the user repository of \<open>src/mdm/infrastructure/repositories/users.py\<close>, and the
  statements of the session, registration, password and user management transactions.

  A statement that violates a constraint is the exception \<open>IntegrityError\<close> with its name; checks
  come before uniqueness, as in PostgreSQL. The foreign key of a replaced refresh token is
  deferred: it is checked when the transaction commits.
\<close>

section \<open>Tables\<close>

record user_row =
  a_id :: uuid
  a_email :: pystr
  a_name :: pystr
  a_hash :: pystr
  a_role :: user_role
  a_status :: user_status
  a_created :: int
  a_updated :: int

datatype family_status = FAMILY_ACTIVE | FAMILY_REVOKED

record family_row =
  f_id :: uuid
  f_user :: uuid
  f_status :: family_status
  f_expires :: int
  f_revoked :: "int option"
  f_created :: int
  f_updated :: int

record refresh_row =
  t_id :: uuid
  t_family :: uuid
  t_digest :: digest
  t_issued :: int
  t_used :: "int option"
  t_replaced :: "uuid option"

datatype challenge_status = CH_ACTIVE | CH_EXPIRED | CH_COMPLETED | CH_REVOKED

text \<open>A challenge of either kind: a registration is owned by an address, a password reset by a user.\<close>

record 'o challenge_row =
  h_id :: uuid
  h_owner :: 'o
  h_status :: challenge_status
  h_created :: int
  h_expires :: int
  h_completed :: "int option"
  h_revoked :: "int option"

record secret_row =
  k_id :: uuid
  k_challenge :: uuid
  k_digest :: digest
  k_issued :: int
  k_used :: "int option"

record account_db =
  ac_users :: "user_row list"
  ac_events :: "security_event list"
  ac_families :: "family_row list"
  ac_refresh :: "refresh_row list"
  ac_registrations :: "pystr challenge_row list"
  ac_registration_tokens :: "secret_row list"
  ac_resets :: "uuid challenge_row list"
  ac_reset_tokens :: "secret_row list"

definition integrity :: "string \<Rightarrow> 'a res" where
  "integrity n = Inl (IntegrityError (Some n))"


section \<open>Users\<close>

definition user_check :: "user_row \<Rightarrow> bool" where
  "user_check r \<longleftrightarrow> 3 \<le> length (a_email r) \<and> length (a_email r) \<le> 254 \<and> 1 \<le> length (a_name r) \<and> length (a_name r) \<le> 100
     \<and> 0 < length (a_hash r) \<and> a_created r \<le> a_updated r"

definition insert_user :: "user_row \<Rightarrow> account_db \<Rightarrow> account_db res" where
  "insert_user r d =
     (if \<not> user_check r then integrity ''ck_users''
      else if a_id r \<in> set (map a_id (ac_users d)) then integrity ''users_pkey''
      else if a_email r \<in> set (map a_email (ac_users d)) then integrity ''uq_users_normalized_email''
      else Inr (d\<lparr>ac_users := ac_users d @ [r]\<rparr>))"

definition update_user :: "uuid \<Rightarrow> (user_row \<Rightarrow> user_row) \<Rightarrow> account_db \<Rightarrow> account_db res" where
  "update_user i f d =
     (let rows = map (\<lambda>r. if a_id r = i then f r else r) (ac_users d) in
      if \<forall>r \<in> set rows. user_check r then Inr (d\<lparr>ac_users := rows\<rparr>) else integrity ''ck_users'')"

text \<open>The libraries: Unicode normalization, case folding, the address parser.\<close>

record text_lib =
  lib_nfc :: "pystr \<Rightarrow> pystr"
  lib_casefold :: "pystr \<Rightarrow> pystr"
  lib_validate :: "pystr \<Rightarrow> (pystr \<times> pystr option) option"

definition email_address :: "text_lib \<Rightarrow> pystr \<Rightarrow> pystr res" where
  "email_address lib = normalize_email (lib_nfc lib) (lib_casefold lib) (lib_validate lib)"

definition user_from_record :: "text_lib \<Rightarrow> user_row \<Rightarrow> user res" where
  "user_from_record lib r =
     bindE (email_address lib (a_email r)) (\<lambda>email.
     bindE (display_name (lib_nfc lib) (a_name r)) (\<lambda>name.
       user_init \<lparr>user_id = a_id r, user_email = email, user_name = name, user_password_hash = a_hash r,
         user_role = a_role r, user_status = a_status r, user_created_at = Aware (a_created r),
         user_updated_at = Aware (a_updated r)\<rparr>))"

definition optional_user :: "text_lib \<Rightarrow> user_row option \<Rightarrow> user option res" where
  "optional_user lib r = (case r of None \<Rightarrow> Inr None | Some x \<Rightarrow> bindE (user_from_record lib x) (\<lambda>u. Inr (Some u)))"

definition get_by_id :: "text_lib \<Rightarrow> uuid \<Rightarrow> account_db \<Rightarrow> user option res" where
  "get_by_id lib i d = optional_user lib (find (\<lambda>r. a_id r = i) (ac_users d))"

definition get_by_email :: "text_lib \<Rightarrow> pystr \<Rightarrow> account_db \<Rightarrow> user option res" where
  "get_by_email lib email d = optional_user lib (find (\<lambda>r. a_email r = email) (ac_users d))"

record new_user =
  nu_email :: pystr
  nu_name :: pystr
  nu_hash :: pystr
  nu_role :: user_role
  nu_status :: user_status

definition new_user_init :: "new_user \<Rightarrow> new_user res" where
  "new_user_init n = (if nu_hash n = [] then Inl ValueError else Inr n)"

text \<open>The two time columns have \<open>clock_timestamp()\<close> as their default, one reading each.\<close>

definition add_user :: "text_lib \<Rightarrow> new_user \<Rightarrow> uuid \<Rightarrow> int \<Rightarrow> int \<Rightarrow> account_db \<Rightarrow> (user \<times> account_db) res" where
  "add_user lib n i created updated d =
     (let r = \<lparr>a_id = i, a_email = nu_email n, a_name = nu_name n, a_hash = nu_hash n, a_role = nu_role n,
               a_status = nu_status n, a_created = created, a_updated = updated\<rparr> in
      case insert_user r d of
        Inl (IntegrityError c) \<Rightarrow>
          if c = Some ''uq_users_normalized_email'' then Inl (AccountError DuplicateUserEmail)
          else Inl (AccountError UserPersistenceError)
      | Inl err \<Rightarrow> Inl err
      | Inr d' \<Rightarrow> bindE (user_from_record lib r) (\<lambda>u. Inr (u, d')))"


section \<open>Security events\<close>

text \<open>\<open>ck_user_security_events_initiator\<close> and \<open>ck_user_security_events_shape\<close>.\<close>

definition event_check :: "security_event \<Rightarrow> bool" where
  "event_check ev \<longleftrightarrow>
     (let no_role = (ev_previous_role ev = None \<and> ev_new_role ev = None);
          no_status = (ev_previous_status ev = None \<and> ev_new_status ev = None) in
      ((ev_initiator ev = AUTHENTICATED_USER \<and> ev_initiator_user ev \<noteq> None \<and> ev_initiator_role ev \<noteq> None)
       \<or> (ev_initiator ev \<in> {RESET_TOKEN, BOOTSTRAP_CLI} \<and> ev_initiator_user ev = None \<and> ev_initiator_role ev = None))
      \<and> ((ev_type ev = INITIAL_SUPER_ADMIN_BOOTSTRAPPED \<and> ev_initiator ev = BOOTSTRAP_CLI \<and> ev_previous_role ev = None
            \<and> ev_new_role ev = Some SUPER_ADMIN \<and> ev_previous_status ev = None \<and> ev_new_status ev = Some ACTIVE)
         \<or> (ev_type ev = USER_ROLE_CHANGED \<and> ev_initiator ev = AUTHENTICATED_USER \<and> ev_previous_role ev \<noteq> None
            \<and> ev_new_role ev \<noteq> None \<and> ev_previous_role ev \<noteq> ev_new_role ev \<and> no_status)
         \<or> (ev_type ev = USER_DISABLED \<and> ev_initiator ev = AUTHENTICATED_USER \<and> no_role
            \<and> ev_previous_status ev = Some ACTIVE \<and> ev_new_status ev = Some DISABLED)
         \<or> (ev_type ev = USER_ENABLED \<and> ev_initiator ev = AUTHENTICATED_USER \<and> no_role
            \<and> ev_previous_status ev = Some DISABLED \<and> ev_new_status ev = Some ACTIVE)
         \<or> (ev_type ev = PASSWORD_CHANGED \<and> ev_initiator ev = AUTHENTICATED_USER \<and> no_role \<and> no_status)
         \<or> (ev_type ev = PASSWORD_RESET \<and> ev_initiator ev = RESET_TOKEN \<and> no_role \<and> no_status)))"

definition insert_event :: "security_event \<Rightarrow> account_db \<Rightarrow> account_db res" where
  "insert_event ev d =
     (if \<not> event_check ev then integrity ''ck_user_security_events''
      else if ev_id ev \<in> set (map ev_id (ac_events d)) then integrity ''user_security_events_pkey''
      else if ev_subject ev \<notin> set (map a_id (ac_users d))
        \<or> (case ev_initiator_user ev of None \<Rightarrow> False | Some u \<Rightarrow> u \<notin> set (map a_id (ac_users d)))
      then integrity ''user_security_events_fkey''
      else Inr (d\<lparr>ac_events := ac_events d @ [ev]\<rparr>))"


section \<open>Refresh families and tokens\<close>

definition family_check :: "family_row \<Rightarrow> bool" where
  "family_check f \<longleftrightarrow>
     (case f_status f of FAMILY_ACTIVE \<Rightarrow> f_revoked f = None | FAMILY_REVOKED \<Rightarrow> f_revoked f \<noteq> None)
     \<and> f_created f < f_expires f \<and> f_created f \<le> f_updated f
     \<and> (case f_revoked f of None \<Rightarrow> True | Some t \<Rightarrow> f_created f \<le> t)"

definition insert_family :: "family_row \<Rightarrow> account_db \<Rightarrow> account_db res" where
  "insert_family f d =
     (if \<not> family_check f then integrity ''ck_refresh_family''
      else if f_id f \<in> set (map f_id (ac_families d)) then integrity ''refresh_families_pkey''
      else if f_status f = FAMILY_ACTIVE \<and> (\<exists>g \<in> set (ac_families d). f_user g = f_user f \<and> f_status g = FAMILY_ACTIVE)
      then integrity ''uq_refresh_families_active_user''
      else if f_user f \<notin> set (map a_id (ac_users d)) then integrity ''refresh_families_user_id_fkey''
      else Inr (d\<lparr>ac_families := ac_families d @ [f]\<rparr>))"

definition update_families :: "(family_row \<Rightarrow> bool) \<Rightarrow> (family_row \<Rightarrow> family_row) \<Rightarrow> account_db \<Rightarrow> account_db res" where
  "update_families p g d =
     (let rows = map (\<lambda>f. if p f then g f else f) (ac_families d) in
      if \<forall>f \<in> set rows. family_check f then Inr (d\<lparr>ac_families := rows\<rparr>) else integrity ''ck_refresh_family'')"

definition refresh_check :: "refresh_row \<Rightarrow> bool" where
  "refresh_check t \<longleftrightarrow> length (t_digest t) = 8
     \<and> (case t_used t of
          None \<Rightarrow> t_replaced t = None
        | Some u \<Rightarrow> t_issued t \<le> u \<and> (case t_replaced t of None \<Rightarrow> False | Some r \<Rightarrow> r \<noteq> t_id t))"

definition insert_refresh :: "refresh_row \<Rightarrow> account_db \<Rightarrow> account_db res" where
  "insert_refresh t d =
     (if \<not> refresh_check t then integrity ''ck_refresh_token''
      else if t_id t \<in> set (map t_id (ac_refresh d)) then integrity ''refresh_tokens_pkey''
      else if t_digest t \<in> set (map t_digest (ac_refresh d)) then integrity ''uq_refresh_tokens_digest''
      else if t_family t \<notin> set (map f_id (ac_families d)) then integrity ''refresh_tokens_family_id_fkey''
      else Inr (d\<lparr>ac_refresh := ac_refresh d @ [t]\<rparr>))"

definition update_refresh :: "(refresh_row \<Rightarrow> bool) \<Rightarrow> (refresh_row \<Rightarrow> refresh_row) \<Rightarrow> account_db \<Rightarrow> account_db res" where
  "update_refresh p g d =
     (let rows = map (\<lambda>t. if p t then g t else t) (ac_refresh d) in
      if \<forall>t \<in> set rows. refresh_check t then Inr (d\<lparr>ac_refresh := rows\<rparr>) else integrity ''ck_refresh_token'')"

text \<open>The deferred foreign key.\<close>

definition replacements_exist :: "account_db \<Rightarrow> bool" where
  "replacements_exist d \<longleftrightarrow> (\<forall>t \<in> set (ac_refresh d). case t_replaced t of None \<Rightarrow> True
     | Some r \<Rightarrow> \<exists>n \<in> set (ac_refresh d). t_id n = r \<and> t_family n = t_family t)"


section \<open>Challenges and their tokens\<close>

definition challenge_check :: "'o challenge_row \<Rightarrow> bool" where
  "challenge_check h \<longleftrightarrow>
     (case h_status h of
        CH_COMPLETED \<Rightarrow> h_completed h \<noteq> None \<and> h_revoked h = None
      | CH_REVOKED \<Rightarrow> h_completed h = None \<and> h_revoked h \<noteq> None
      | _ \<Rightarrow> h_completed h = None \<and> h_revoked h = None)
     \<and> h_created h < h_expires h
     \<and> (case h_completed h of None \<Rightarrow> True | Some t \<Rightarrow> h_created h \<le> t \<and> t < h_expires h)
     \<and> (case h_revoked h of None \<Rightarrow> True | Some t \<Rightarrow> h_created h \<le> t)"

text \<open>A registration challenge has no revocation column.\<close>

definition registration_check :: "pystr challenge_row \<Rightarrow> bool" where
  "registration_check h \<longleftrightarrow> challenge_check h \<and> h_status h \<noteq> CH_REVOKED
     \<and> 3 \<le> length (h_owner h) \<and> length (h_owner h) \<le> 254"

definition challenge_unique :: "string \<Rightarrow> string \<Rightarrow> 'o challenge_row \<Rightarrow> 'o challenge_row list \<Rightarrow> unit res" where
  "challenge_unique key active h rows =
     (if h_id h \<in> set (map h_id rows) then integrity key
      else if h_status h = CH_ACTIVE \<and> (\<exists>g \<in> set rows. h_owner g = h_owner h \<and> h_status g = CH_ACTIVE) then integrity active
      else Inr ())"

definition insert_registration :: "pystr challenge_row \<Rightarrow> account_db \<Rightarrow> account_db res" where
  "insert_registration h d =
     (if \<not> registration_check h then integrity ''ck_registration_challenge''
      else bindE (challenge_unique ''registration_challenges_pkey'' ''uq_registration_challenges_active_email'' h (ac_registrations d)) (\<lambda>_.
        Inr (d\<lparr>ac_registrations := ac_registrations d @ [h]\<rparr>)))"

definition insert_reset :: "uuid challenge_row \<Rightarrow> account_db \<Rightarrow> account_db res" where
  "insert_reset h d =
     (if \<not> challenge_check h then integrity ''ck_password_reset_challenge''
      else bindE (challenge_unique ''password_reset_challenges_pkey'' ''uq_password_reset_challenges_active_user'' h (ac_resets d)) (\<lambda>_.
        if h_owner h \<notin> set (map a_id (ac_users d)) then integrity ''password_reset_challenges_user_id_fkey''
        else Inr (d\<lparr>ac_resets := ac_resets d @ [h]\<rparr>)))"

definition update_registrations ::
    "(pystr challenge_row \<Rightarrow> bool) \<Rightarrow> (pystr challenge_row \<Rightarrow> pystr challenge_row) \<Rightarrow> account_db \<Rightarrow> account_db res" where
  "update_registrations p g d =
     (let rows = map (\<lambda>h. if p h then g h else h) (ac_registrations d) in
      if \<forall>h \<in> set rows. registration_check h then Inr (d\<lparr>ac_registrations := rows\<rparr>) else integrity ''ck_registration_challenge'')"

definition update_resets :: "(uuid challenge_row \<Rightarrow> bool) \<Rightarrow> (uuid challenge_row \<Rightarrow> uuid challenge_row) \<Rightarrow> account_db \<Rightarrow> account_db res" where
  "update_resets p g d =
     (let rows = map (\<lambda>h. if p h then g h else h) (ac_resets d) in
      if \<forall>h \<in> set rows. challenge_check h then Inr (d\<lparr>ac_resets := rows\<rparr>) else integrity ''ck_password_reset_challenge'')"

definition secret_check :: "secret_row \<Rightarrow> bool" where
  "secret_check k \<longleftrightarrow> length (k_digest k) = 8 \<and> (case k_used k of None \<Rightarrow> True | Some u \<Rightarrow> k_issued k \<le> u)"

definition secret_unique :: "string \<Rightarrow> string \<Rightarrow> secret_row \<Rightarrow> secret_row list \<Rightarrow> unit res" where
  "secret_unique key digest_key k rows =
     (if k_id k \<in> set (map k_id rows) then integrity key
      else if k_digest k \<in> set (map k_digest rows) then integrity digest_key
      else Inr ())"

definition insert_registration_token :: "secret_row \<Rightarrow> account_db \<Rightarrow> account_db res" where
  "insert_registration_token k d =
     (if \<not> secret_check k then integrity ''ck_registration_token''
      else bindE (secret_unique ''registration_tokens_pkey'' ''uq_registration_tokens_digest'' k (ac_registration_tokens d)) (\<lambda>_.
        if k_challenge k \<notin> set (map h_id (ac_registrations d)) then integrity ''registration_tokens_challenge_id_fkey''
        else Inr (d\<lparr>ac_registration_tokens := ac_registration_tokens d @ [k]\<rparr>)))"

definition insert_reset_token :: "secret_row \<Rightarrow> account_db \<Rightarrow> account_db res" where
  "insert_reset_token k d =
     (if \<not> secret_check k then integrity ''ck_password_reset_token''
      else bindE (secret_unique ''password_reset_tokens_pkey'' ''uq_password_reset_tokens_digest'' k (ac_reset_tokens d)) (\<lambda>_.
        if k_challenge k \<notin> set (map h_id (ac_resets d)) then integrity ''password_reset_tokens_challenge_id_fkey''
        else Inr (d\<lparr>ac_reset_tokens := ac_reset_tokens d @ [k]\<rparr>)))"

definition use_secret :: "uuid \<Rightarrow> uuid \<Rightarrow> int \<Rightarrow> secret_row list \<Rightarrow> secret_row list" where
  "use_secret i challenge now rows = map (\<lambda>k. if k_id k = i \<and> k_challenge k = challenge then k\<lparr>k_used := Some now\<rparr> else k) rows"

definition use_registration_token :: "uuid \<Rightarrow> uuid \<Rightarrow> int \<Rightarrow> account_db \<Rightarrow> account_db res" where
  "use_registration_token i challenge now d =
     (let rows = use_secret i challenge now (ac_registration_tokens d) in
      if \<forall>k \<in> set rows. secret_check k then Inr (d\<lparr>ac_registration_tokens := rows\<rparr>) else integrity ''ck_registration_token_used'')"

definition use_reset_token :: "uuid \<Rightarrow> uuid \<Rightarrow> int \<Rightarrow> account_db \<Rightarrow> account_db res" where
  "use_reset_token i challenge now d =
     (let rows = use_secret i challenge now (ac_reset_tokens d) in
      if \<forall>k \<in> set rows. secret_check k then Inr (d\<lparr>ac_reset_tokens := rows\<rparr>) else integrity ''ck_password_reset_token_used'')"


section \<open>Transactions\<close>

text \<open>A transaction that ends without an exception commits; any other leaves the tables as they were.\<close>

definition commit :: "('a \<times> account_db) res \<Rightarrow> ('a \<times> account_db) res" where
  "commit r = bindE r (\<lambda>(x, d). if replacements_exist d then Inr (x, d) else integrity ''fk_refresh_tokens_replacement'')"

definition transact :: "('a \<times> account_db) res \<Rightarrow> account_db \<Rightarrow> 'a res \<times> account_db" where
  "transact r d = (case r of Inl err \<Rightarrow> (Inl err, d) | Inr (x, d') \<Rightarrow> (Inr x, d'))"

text \<open>The \<open>except SQLAlchemyError\<close> clause around a transaction.\<close>

definition persistence :: "account_error \<Rightarrow> 'a res \<Rightarrow> 'a res" where
  "persistence unavailable r = (case r of Inl (IntegrityError _) \<Rightarrow> Inl (AccountError unavailable) | _ \<Rightarrow> r)"

end
