(* ===== verification/Passwords.thy ===== *)
theory Passwords
  imports Errors
begin

text \<open>
  \<open>src/mdm/infrastructure/passwords.py\<close>: the Argon2 password hasher behind a bounded number of
  worker threads. The \<open>argon2\<close> package is a parameter: \<open>argon_hash\<close> (with the salt it draws)
  and \<open>argon_verify\<close>, which returns or raises one of three exceptions. Whether a thread was
  free in time is the argument \<open>acquired\<close>.
\<close>

datatype argon_outcome = Matches bool | VerifyMismatchError | InvalidHashError | VerificationError

record argon2 =
  argon_hash :: "nat \<Rightarrow> pystr \<Rightarrow> pystr"
  argon_verify :: "pystr \<Rightarrow> pystr \<Rightarrow> argon_outcome"

definition backend_hash :: "argon2 \<Rightarrow> nat \<Rightarrow> pystr \<Rightarrow> pystr res" where
  "backend_hash A salt password = Inr (argon_hash A salt password)"

definition backend_verify :: "argon2 \<Rightarrow> pystr \<Rightarrow> pystr \<Rightarrow> bool res" where
  "backend_verify A encoded_hash password =
     (case argon_verify A encoded_hash password of
        Matches b \<Rightarrow> Inr b
      | VerifyMismatchError \<Rightarrow> Inr False
      | InvalidHashError \<Rightarrow> Inl (AccountError InvalidStoredPasswordHash)
      | VerificationError \<Rightarrow> Inl (AccountError InvalidStoredPasswordHash))"

text \<open>The parameters the constructor accepts; the timeout is in milliseconds.\<close>

definition hasher_init :: "int \<Rightarrow> int \<Rightarrow> int \<Rightarrow> int \<Rightarrow> int \<Rightarrow> unit res" where
  "hasher_init memory_mib iterations parallelism max_concurrency timeout =
     (if memory_mib < 1 \<or> iterations < 1 \<or> parallelism < 1 then Inl ValueError
      else if \<not> (1 \<le> max_concurrency \<and> max_concurrency \<le> 8) then Inl ValueError
      else if \<not> (100 \<le> timeout \<and> timeout \<le> 10000) then Inl ValueError
      else Inr ())"

definition run_bounded :: "bool \<Rightarrow> 'a res \<Rightarrow> 'a res" where
  "run_bounded acquired r = (if \<not> acquired then Inl (AccountError PasswordHashUnavailable) else r)"

definition hash_password :: "argon2 \<Rightarrow> bool \<Rightarrow> nat \<Rightarrow> pystr \<Rightarrow> pystr res" where
  "hash_password A acquired salt password = run_bounded acquired (backend_hash A salt password)"

definition verify_password :: "argon2 \<Rightarrow> bool \<Rightarrow> pystr \<Rightarrow> pystr \<Rightarrow> bool res" where
  "verify_password A acquired password encoded_hash = run_bounded acquired (backend_verify A encoded_hash password)"

lemmas password_defs = hash_password_def verify_password_def run_bounded_def backend_hash_def backend_verify_def

lemma hash_password_eq_Inr [res_simps]:
  "hash_password A b s p = Inr h \<longleftrightarrow> b \<and> h = argon_hash A s p"
  by (auto simp: password_defs)

lemma verify_password_True [res_simps]:
  "verify_password A b p h = Inr True \<longleftrightarrow> b \<and> argon_verify A h p = Matches True"
  by (auto simp: password_defs split: argon_outcome.splits)

end
