(* ===== verification/Sessions.thy ===== *)
theory Sessions
  imports Accounts Passwords
begin

text \<open>
  \<open>src/mdm/application/sessions.py\<close> (login, refresh, logout) over
  \<open>src/mdm/infrastructure/repositories/sessions.py\<close>, the operational events of
  \<open>application/auth.py\<close> and the token issuance of \<open>application/tokens.py\<close>.

  A use case that first reads without locks takes two databases: \<open>d0\<close>, where it reads, and \<open>d\<close>,
  which its transaction sees. It returns its result, the database it leaves and the operational
  events it hands to the sink. The values the environment supplies are the fields of \<open>auth_env\<close>:
  the database clock, the process clock, generated identifiers, random bytes, a salt, and
  whether a hashing thread was free. The locked rows themselves stand for the value objects
  copied from them.
\<close>

section \<open>Operational events\<close>

datatype operational_event_name =
    INVALID_ACCESS_TOKEN
  | LOGIN_FAILED
  | REFRESH_CONFLICT
  | ORIGIN_VALIDATION_FAILED
  | CSRF_VALIDATION_FAILED
  | RATE_LIMIT_EXCEEDED
  | RATE_LIMIT_CAPACITY_EXCEEDED
  | CLIENT_IP_UNRESOLVED
  | EMAIL_DELIVERY_FAILED
  | SESSION_PRINCIPAL_MISMATCH

text \<open>A client address; \<open>ScopedIPv6\<close> has a scope identifier, \<open>NoAddress\<close> is any other object.\<close>

datatype ip_value = IPv4 "32 word" | IPv6 "128 word" | ScopedIPv6 "128 word" | NoAddress

record operational_event =
  oe_name :: operational_event_name
  oe_occurred :: datetime
  oe_request :: "pystr option"
  oe_client :: "ip_value option"

definition ascii_printable :: "nat \<Rightarrow> bool" where
  "ascii_printable c \<longleftrightarrow> 32 \<le> c \<and> c \<le> 126"

definition operational_event_init :: "operational_event \<Rightarrow> operational_event res" where
  "operational_event_init e =
     (if (case oe_client e of Some (ScopedIPv6 _) \<Rightarrow> True | Some NoAddress \<Rightarrow> True | _ \<Rightarrow> False) then Inl ValueError
      else if \<not> is_aware (oe_occurred e) then Inl ValueError
      else if (case oe_request e of None \<Rightarrow> False
               | Some r \<Rightarrow> r = [] \<or> length r > 128 \<or> \<not> list_all ascii_printable r) then Inl ValueError
      else Inr e)"

text \<open>Emission is best effort: an event that cannot be built is dropped.\<close>

definition emit :: "operational_event_name \<Rightarrow> datetime \<Rightarrow> operational_event list" where
  "emit name t =
     (case operational_event_init \<lparr>oe_name = name, oe_occurred = t, oe_request = None, oe_client = None\<rparr> of
        Inl _ \<Rightarrow> [] | Inr e \<Rightarrow> [e])"

type_synonym 'a outcome = "'a res \<times> account_db \<times> operational_event list"


section \<open>Environment\<close>

record auth_env =
  ae_now :: int
  ae_clock :: datetime
  ae_family :: uuid
  ae_challenge :: uuid
  ae_user :: uuid
  ae_event :: uuid
  ae_created :: int
  ae_updated :: int
  ae_random :: "nat \<Rightarrow> nat list"
  ae_row :: "nat \<Rightarrow> uuid"
  ae_jti :: uuid
  ae_salt :: nat
  ae_verify_slot :: bool
  ae_hash_slot :: bool

text \<open>The ports: text libraries, the password package, the access-token signer.\<close>

record auth_lib =
  al_text :: text_lib
  al_argon :: argon2
  al_sign :: "uuid \<Rightarrow> uuid \<Rightarrow> user_role \<Rightarrow> int \<Rightarrow> pystr res"

abbreviation raise_account :: "account_error \<Rightarrow> 'a res" where
  "raise_account e \<equiv> Inl (AccountError e)"

definition hash_with :: "auth_lib \<Rightarrow> auth_env \<Rightarrow> pystr \<Rightarrow> pystr res" where
  "hash_with L E password = hash_password (al_argon L) (ae_hash_slot E) (ae_salt E) password"

definition verify_with :: "auth_lib \<Rightarrow> auth_env \<Rightarrow> pystr \<Rightarrow> pystr \<Rightarrow> bool res" where
  "verify_with L E password encoded = verify_password (al_argon L) (ae_verify_slot E) password encoded"

text \<open>\<open>int(t.timestamp())\<close>, rounded towards zero; instants count microseconds.\<close>

definition unix_seconds :: "int \<Rightarrow> int" where
  "unix_seconds t = (if t < 0 then - (- t div 1000000) else t div 1000000)"

text \<open>\<open>signer.issue(id, role, issued_at=int(now.timestamp()))\<close>.\<close>

definition sign_with :: "auth_lib \<Rightarrow> auth_env \<Rightarrow> user \<Rightarrow> pystr res" where
  "sign_with L E u = al_sign L (ae_jti E) (user_id u) (user_role u) (unix_seconds (ae_now E))"

definition seconds :: "int \<Rightarrow> int" where
  "seconds n = n * 1000000"

definition days :: "int \<Rightarrow> int" where
  "days n = seconds (n * 86400)"


section \<open>The session transaction\<close>

definition lock_families :: "uuid \<Rightarrow> uuid option \<Rightarrow> account_db \<Rightarrow> family_row list" where
  "lock_families user family d =
     sort_key f_id (filter (\<lambda>f. f_user f = user
       \<and> (case family of None \<Rightarrow> f_status f = FAMILY_ACTIVE | Some i \<Rightarrow> f_id f = i)) (ac_families d))"

definition lock_tokens :: "uuid \<Rightarrow> uuid \<Rightarrow> account_db \<Rightarrow> refresh_row list" where
  "lock_tokens family token d = sort_key t_id (filter (\<lambda>t. t_family t = family \<and> t_id t = token) (ac_refresh d))"

definition mark_used :: "uuid \<Rightarrow> uuid \<Rightarrow> uuid \<Rightarrow> int \<Rightarrow> account_db \<Rightarrow> account_db res" where
  "mark_used token replacement family now d =
     bindE (update_refresh (\<lambda>t. t_id t = token) (\<lambda>t. t\<lparr>t_used := Some now, t_replaced := Some replacement\<rparr>) d) (\<lambda>d.
       update_families (\<lambda>f. f_id f = family) (\<lambda>f. f\<lparr>f_updated := now\<rparr>) d)"

definition revoke :: "uuid \<Rightarrow> int \<Rightarrow> account_db \<Rightarrow> account_db res" where
  "revoke family now d =
     update_families (\<lambda>f. f_id f = family \<and> f_status f = FAMILY_ACTIVE)
       (\<lambda>f. f\<lparr>f_status := FAMILY_REVOKED, f_revoked := Some now, f_updated := now\<rparr>) d"

definition create_family :: "uuid \<Rightarrow> uuid \<Rightarrow> int \<Rightarrow> int \<Rightarrow> account_db \<Rightarrow> account_db res" where
  "create_family user i now expires d =
     insert_family \<lparr>f_id = i, f_user = user, f_status = FAMILY_ACTIVE, f_expires = expires, f_revoked = None,
       f_created = now, f_updated = now\<rparr> d"

definition add_token :: "uuid \<Rightarrow> int \<Rightarrow> pystr \<Rightarrow> uuid \<Rightarrow> account_db \<Rightarrow> account_db res" where
  "add_token family now token i d =
     (case insert_refresh \<lparr>t_id = i, t_family = family, t_digest = token_digest token, t_issued = now,
         t_used = None, t_replaced = None\<rparr> d of
        Inl (IntegrityError c) \<Rightarrow>
          if c = Some ''uq_refresh_tokens_digest'' then raise_account RefreshDigestConflict else Inl (IntegrityError c)
      | r \<Rightarrow> r)"

record refresh_target =
  rt_user :: uuid
  rt_family :: uuid
  rt_token :: uuid

definition find_refresh :: "digest \<Rightarrow> account_db \<Rightarrow> refresh_target option" where
  "find_refresh dg d =
     (case find (\<lambda>t. t_digest t = dg) (ac_refresh d) of
        None \<Rightarrow> None
      | Some t \<Rightarrow>
        (case find (\<lambda>f. f_id f = t_family t) (ac_families d) of
           None \<Rightarrow> None
         | Some f \<Rightarrow> Some \<lparr>rt_user = f_user f, rt_family = t_family t, rt_token = t_id t\<rparr>))"

text \<open>A transaction: commit on success, the \<open>except SQLAlchemyError\<close> clause otherwise.\<close>

definition session_transaction :: "('a \<times> account_db) res \<Rightarrow> account_db \<Rightarrow> 'a res \<times> account_db" where
  "session_transaction body d = transact (persistence SessionUnavailable (commit body)) d"


section \<open>Issuing a token\<close>

text \<open>
  The loops \<open>_add_token\<close>, \<open>_add_refresh\<close>, \<open>_add_refresh_token\<close> of the use cases: each attempt draws
  new random bytes; a digest conflict starts the next of four attempts.
\<close>

fun issue_token ::
    "account_error \<Rightarrow> (pystr \<Rightarrow> uuid \<Rightarrow> account_db \<Rightarrow> account_db res) \<Rightarrow> (nat list \<times> uuid) list \<Rightarrow> account_db
      \<Rightarrow> ((pystr \<times> uuid) \<times> account_db) res" where
  "issue_token conflict put [] d = raise_account OpaqueTokenCollision"
| "issue_token conflict put ((raw, i) # attempts) d =
     bindE (generate_opaque_token raw) (\<lambda>token.
       case put token i d of
         Inl err \<Rightarrow> if err = AccountError conflict then issue_token conflict put attempts d else Inl err
       | Inr d' \<Rightarrow> Inr ((token, i), d'))"

definition attempts :: "auth_env \<Rightarrow> (nat list \<times> uuid) list" where
  "attempts E = map (\<lambda>n. (ae_random E n, ae_row E n)) [0..<4]"

definition issue_refresh :: "auth_env \<Rightarrow> uuid \<Rightarrow> account_db \<Rightarrow> ((pystr \<times> uuid) \<times> account_db) res" where
  "issue_refresh E family d = issue_token RefreshDigestConflict (add_token family (ae_now E)) (attempts E) d"

text \<open>\<open>issue_unique_opaque_token\<close>: the same policy against a lookup.\<close>

fun issue_unique_opaque_token :: "(digest \<Rightarrow> bool) \<Rightarrow> nat list list \<Rightarrow> pystr res" where
  "issue_unique_opaque_token digest_exists [] = raise_account OpaqueTokenCollision"
| "issue_unique_opaque_token digest_exists (raw # samples) =
     bindE (generate_opaque_token raw) (\<lambda>token.
       if digest_exists (token_digest token) then issue_unique_opaque_token digest_exists samples else Inr token)"


section \<open>Login\<close>

record session_grant =
  sg_access :: pystr
  sg_refresh :: pystr
  sg_expires :: int
  sg_issued :: int

text \<open>Revoke the active families and open a new one: the common end of login and password change.\<close>

definition revoke_all :: "family_row list \<Rightarrow> int \<Rightarrow> account_db \<Rightarrow> account_db res" where
  "revoke_all families now d = foldE (\<lambda>f. revoke (f_id f) now) families d"

definition login_tx :: "auth_lib \<Rightarrow> auth_env \<Rightarrow> user \<Rightarrow> account_db \<Rightarrow> (session_grant \<times> account_db) res" where
  "login_tx L E snapshot d =
     bindE (get_by_id (al_text L) (user_id snapshot) d) (\<lambda>current.
     case current of
       None \<Rightarrow> raise_account InvalidCredentials
     | Some u \<Rightarrow>
       if user_status u \<noteq> ACTIVE \<or> user_password_hash u \<noteq> user_password_hash snapshot
       then raise_account InvalidCredentials
       else
         let families = lock_families (user_id u) None d; now = ae_now E; expires = now + days 7 in
         bindE (revoke_all (filter (\<lambda>f. f_status f = FAMILY_ACTIVE) families) now d) (\<lambda>d.
         bindE (create_family (user_id u) (ae_family E) now expires d) (\<lambda>d.
         bindE (issue_refresh E (ae_family E) d) (\<lambda>((token, _), d).
         bindE (sign_with L E u) (\<lambda>access.
           Inr (\<lparr>sg_access = access, sg_refresh = token, sg_expires = expires, sg_issued = now\<rparr>, d))))))"

definition try_login ::
    "auth_lib \<Rightarrow> pystr \<Rightarrow> auth_env \<Rightarrow> pystr \<Rightarrow> pystr \<Rightarrow> account_db \<Rightarrow> account_db \<Rightarrow> session_grant res \<times> account_db" where
  "try_login L fake_hash E email password d0 d =
     (case bindE (get_by_email (al_text L) email d0) (\<lambda>snapshot.
        bindE (verify_with L E password (case snapshot of None \<Rightarrow> fake_hash | Some u \<Rightarrow> user_password_hash u)) (\<lambda>matches.
        case snapshot of
          None \<Rightarrow> raise_account InvalidCredentials
        | Some u \<Rightarrow> if \<not> matches \<or> user_status u \<noteq> ACTIVE then raise_account InvalidCredentials else Inr u)) of
        Inl err \<Rightarrow> (Inl err, d)
      | Inr snapshot \<Rightarrow> session_transaction (login_tx L E snapshot d) d)"

definition login ::
    "auth_lib \<Rightarrow> pystr \<Rightarrow> auth_env \<Rightarrow> pystr \<Rightarrow> pystr \<Rightarrow> account_db \<Rightarrow> account_db \<Rightarrow> session_grant outcome" where
  "login L fake_hash E email password d0 d =
     (case try_login L fake_hash E email password d0 d of
        (r, d') \<Rightarrow> (r, d', if r = raise_account InvalidCredentials then emit LOGIN_FAILED (ae_clock E) else []))"


section \<open>Refresh and logout\<close>

definition locked_refresh ::
    "refresh_target \<Rightarrow> pystr \<Rightarrow> uuid \<Rightarrow> account_db \<Rightarrow> (family_row \<times> refresh_row) res" where
  "locked_refresh target token user d =
     (case find (\<lambda>f. f_id f = rt_family target) (lock_families user (Some (rt_family target)) d) of
        None \<Rightarrow> raise_account InvalidSession
      | Some family \<Rightarrow>
        if f_user family \<noteq> rt_user target then raise_account InvalidSession
        else
        (case find (\<lambda>t. t_id t = rt_token target) (lock_tokens (f_id family) (rt_token target) d) of
           None \<Rightarrow> raise_account InvalidSession
         | Some stored \<Rightarrow>
           if t_family stored \<noteq> f_id family \<or> t_digest stored \<noteq> token_digest token
           then raise_account InvalidSession
           else Inr (family, stored)))"

definition refresh_tx ::
    "auth_lib \<Rightarrow> auth_env \<Rightarrow> refresh_target \<Rightarrow> pystr \<Rightarrow> account_db \<Rightarrow> (session_grant option \<times> account_db) res" where
  "refresh_tx L E target token d =
     bindE (get_by_id (al_text L) (rt_user target) d) (\<lambda>current.
     case current of
       None \<Rightarrow> raise_account InvalidSession
     | Some u \<Rightarrow>
       if user_status u \<noteq> ACTIVE then raise_account InvalidSession
       else
         bindE (locked_refresh target token (user_id u) d) (\<lambda>(family, stored).
         let now = ae_now E in
         if f_status family \<noteq> FAMILY_ACTIVE \<or> now \<ge> f_expires family then raise_account InvalidSession
         else
         (case t_used stored of
            Some used \<Rightarrow>
              if now \<le> used + seconds 10 then raise_account RefreshConflict
              else bindE (revoke (f_id family) now d) (\<lambda>d. Inr (None, d))
          | None \<Rightarrow>
              bindE (issue_refresh E (f_id family) d) (\<lambda>((refresh, replacement), d).
              bindE (mark_used (t_id stored) replacement (f_id family) now d) (\<lambda>d.
              bindE (sign_with L E u) (\<lambda>access.
                Inr (Some \<lparr>sg_access = access, sg_refresh = refresh, sg_expires = f_expires family,
                  sg_issued = now\<rparr>, d)))))))"

definition try_refresh :: "auth_lib \<Rightarrow> auth_env \<Rightarrow> pystr \<Rightarrow> account_db \<Rightarrow> account_db \<Rightarrow> session_grant res \<times> account_db" where
  "try_refresh L E token d0 d =
     (case find_refresh (token_digest token) d0 of
        None \<Rightarrow> (raise_account InvalidSession, d)
      | Some target \<Rightarrow>
        (case session_transaction (refresh_tx L E target token d) d of
           (Inl err, d') \<Rightarrow> (Inl err, d')
         | (Inr None, d') \<Rightarrow> (raise_account InvalidSession, d')
         | (Inr (Some grant), d') \<Rightarrow> (Inr grant, d')))"

definition conflict_event :: "auth_env \<Rightarrow> 'a res \<Rightarrow> operational_event list" where
  "conflict_event E r = (if r = raise_account RefreshConflict then emit REFRESH_CONFLICT (ae_clock E) else [])"

definition refresh :: "auth_lib \<Rightarrow> auth_env \<Rightarrow> pystr \<Rightarrow> account_db \<Rightarrow> account_db \<Rightarrow> session_grant outcome" where
  "refresh L E token d0 d =
     (case try_refresh L E token d0 d of (r, d') \<Rightarrow> (r, d', conflict_event E r))"

definition logout_tx :: "auth_lib \<Rightarrow> auth_env \<Rightarrow> refresh_target \<Rightarrow> pystr \<Rightarrow> account_db \<Rightarrow> (unit \<times> account_db) res" where
  "logout_tx L E target token d =
     bindE (get_by_id (al_text L) (rt_user target) d) (\<lambda>current.
     case current of
       None \<Rightarrow> Inr ((), d)
     | Some u \<Rightarrow>
       (case locked_refresh target token (user_id u) d of
          Inl err \<Rightarrow> if err = AccountError InvalidSession then Inr ((), d) else Inl err
        | Inr (family, stored) \<Rightarrow>
          if f_status family = FAMILY_ACTIVE \<and> ae_now E < f_expires family \<and> t_used stored = None
          then bindE (revoke (f_id family) (ae_now E) d) (\<lambda>d. Inr ((), d))
          else Inr ((), d)))"

definition logout :: "auth_lib \<Rightarrow> auth_env \<Rightarrow> pystr \<Rightarrow> account_db \<Rightarrow> account_db \<Rightarrow> unit outcome" where
  "logout L E token d0 d =
     (case find_refresh (token_digest token) d0 of
        None \<Rightarrow> (Inr (), d, [])
      | Some target \<Rightarrow> (case session_transaction (logout_tx L E target token d) d of (r, d') \<Rightarrow> (r, d', [])))"

record current_profile =
  cp_id :: uuid
  cp_email :: pystr
  cp_name :: pystr
  cp_role :: user_role

definition get_current_profile :: "text_lib \<Rightarrow> human_principal \<Rightarrow> account_db \<Rightarrow> current_profile res" where
  "get_current_profile lib p d =
     bindE (get_by_id lib (principal_user_id p) d) (\<lambda>found.
     case found of
       None \<Rightarrow> raise_account InvalidAccessToken
     | Some u \<Rightarrow> Inr \<lparr>cp_id = user_id u, cp_email = user_email u, cp_name = user_name u, cp_role = principal_role p\<rparr>)"

end
