(* ===== verification/Rate_Limits.thy ===== *)
theory Rate_Limits
  imports Complex_Main Errors
begin

text \<open>
  \<open>infrastructure/rate_limits.py\<close> and \<open>application/rate_limits.py\<close>: the fixed-window quota of thirty
  requests in sixty seconds per client key. Readings of the monotonic clock are rational numbers of
  seconds.
\<close>

section \<open>The store\<close>

record rate_limit_decision =
  rl_allowed :: bool
  rl_retry_after :: int
  rl_capacity_exceeded :: bool

abbreviation allow :: rate_limit_decision where
  "allow \<equiv> \<lparr>rl_allowed = True, rl_retry_after = 0, rl_capacity_exceeded = False\<rparr>"

abbreviation admit_untracked :: rate_limit_decision where
  "admit_untracked \<equiv> \<lparr>rl_allowed = True, rl_retry_after = 0, rl_capacity_exceeded = True\<rparr>"

definition deny :: "rat \<Rightarrow> rate_limit_decision" where
  "deny remaining = \<lparr>rl_allowed = False, rl_retry_after = max 1 \<lceil>remaining\<rceil>, rl_capacity_exceeded = False\<rparr>"

record rate_window =
  w_expires :: rat
  w_count :: nat

type_synonym rate_windows = "(pystr \<times> rate_window) list"

definition store_init :: "int \<Rightarrow> rate_windows res" where
  "store_init capacity = (if capacity < 1 then Inl ValueError else Inr [])"

definition key_prefix :: pystr where
  "key_prefix = lit ''mdm:rate-limit:auth:''"

definition key_pattern :: "pystr \<Rightarrow> bool" where
  "key_pattern key \<longleftrightarrow> take (length key_prefix) key = key_prefix \<and> length key = length key_prefix + 64
     \<and> list_all (\<lambda>c. (48 \<le> c \<and> c \<le> 57) \<or> (97 \<le> c \<and> c \<le> 102)) (drop (length key_prefix) key)"

text \<open>The clean-up loop, at most \<open>n\<close> times: the oldest window is dropped if it has expired.\<close>

fun evict :: "nat \<Rightarrow> rat \<Rightarrow> rate_windows \<Rightarrow> rate_windows" where
  "evict 0 now ws = ws"
| "evict (Suc n) now [] = []"
| "evict (Suc n) now ((k, w) # ws) = (if w_expires w > now then (k, w) # ws else evict n now ws)"

definition cleanup_batch :: nat where "cleanup_batch = 256"

definition count_request :: "pystr \<Rightarrow> rate_windows \<Rightarrow> rate_windows" where
  "count_request key ws = map (\<lambda>(k, w). (k, if k = key then w\<lparr>w_count := w_count w + 1\<rparr> else w)) ws"

definition expire_windows :: "rat \<Rightarrow> pystr \<Rightarrow> rate_windows \<Rightarrow> rate_windows" where
  "expire_windows now key ws =
     (let ws = evict cleanup_batch now ws in
      case map_of ws key of
        Some w \<Rightarrow> if w_expires w \<le> now then filter (\<lambda>x. fst x \<noteq> key) ws else ws
      | None \<Rightarrow> ws)"

definition consume :: "int \<Rightarrow> rat \<Rightarrow> pystr \<Rightarrow> rate_windows \<Rightarrow> (rate_limit_decision \<times> rate_windows) res" where
  "consume capacity now key ws =
     (if \<not> key_pattern key then Inl ValueError
      else
        let ws = expire_windows now key ws in
        case map_of ws key of
          Some w \<Rightarrow>
            if w_count w \<ge> 30 then Inr (deny (w_expires w - now), ws)
            else Inr (allow, count_request key ws)
        | None \<Rightarrow>
            if int (length ws) \<ge> capacity then Inr (admit_untracked, ws)
            else Inr (allow, ws @ [(key, \<lparr>w_expires = now + 60, w_count = 1\<rparr>)]))"

text \<open>Successive requests: clock reading and key of each.\<close>

fun consume_all :: "int \<Rightarrow> (rat \<times> pystr) list \<Rightarrow> rate_windows \<Rightarrow> (rate_limit_decision list \<times> rate_windows) res" where
  "consume_all capacity [] ws = Inr ([], ws)"
| "consume_all capacity ((now, key) # rs) ws =
     bindE (consume capacity now key ws) (\<lambda>(d, ws).
     bindE (consume_all capacity rs ws) (\<lambda>(ds, ws). Inr (d # ds, ws)))"


section \<open>The invariant\<close>

text \<open>Keys are distinct, windows are in the order of expiry and end within sixty seconds, counts are between
  one and thirty, and there are no more windows than the capacity.\<close>

definition store_ok :: "int \<Rightarrow> rat \<Rightarrow> rate_windows \<Rightarrow> bool" where
  "store_ok capacity now ws \<longleftrightarrow> distinct (map fst ws) \<and> sorted (map (w_expires \<circ> snd) ws)
     \<and> (\<forall>x \<in> set ws. w_expires (snd x) \<le> now + 60 \<and> 1 \<le> w_count (snd x) \<and> w_count (snd x) \<le> 30) \<and> int (length ws) \<le> capacity"

text \<open>The live window of a key.\<close>

definition live_window :: "rat \<Rightarrow> pystr \<Rightarrow> rate_windows \<Rightarrow> rate_window option" where
  "live_window now key ws = (case map_of ws key of Some w \<Rightarrow> if now < w_expires w then Some w else None | None \<Rightarrow> None)"

lemma evict_drop: "\<exists>m. evict n now ws = drop m ws \<and> (\<forall>x \<in> set (take m ws). w_expires (snd x) \<le> now)"
proof (induction n now ws rule: evict.induct)
  case (3 n now k w ws)
  show ?case
  proof (cases "w_expires w > now")
    case True
    then show ?thesis by (intro exI [of _ 0]) simp
  next
    case False
    then obtain m where "evict n now ws = drop m ws" "\<forall>x \<in> set (take m ws). w_expires (snd x) \<le> now" using 3 by blast
    with False show ?thesis by (intro exI [of _ "Suc m"]) simp
  qed
qed (auto intro: exI [of _ 0])

lemma live_window_drop:
  assumes "distinct (map fst ws)" "\<forall>x \<in> set (take m ws). w_expires (snd x) \<le> now"
  shows "live_window now key (drop m ws) = live_window now key ws"
proof (cases "map_of (take m ws) key")
  case None
  have "map_of ws key = map_of (drop m ws) key"
    using None by (subst append_take_drop_id [of m ws, symmetric]) (simp add: map_add_def del: append_take_drop_id split: option.splits)
  then show ?thesis by (simp add: live_window_def)
next
  case (Some w)
  then have w: "(key, w) \<in> set (take m ws)" by (rule map_of_SomeD)
  have "map_of ws key = Some w" using w in_set_takeD [OF w] assms(1) by (simp add: map_of_eq_Some_iff)
  moreover have "w_expires w \<le> now" using assms(2) w by force
  moreover have "key \<notin> fst ` set (drop m ws)"
  proof -
    have "distinct (map fst (take m ws) @ map fst (drop m ws))" using assms(1) by (simp flip: map_append)
    then show ?thesis using w by force
  qed
  then have "map_of (drop m ws) key = None" by (simp add: map_of_eq_None_iff)
  ultimately show ?thesis by (simp add: live_window_def)
qed

lemma evict_live: "distinct (map fst ws) \<Longrightarrow> live_window now key (evict n now ws) = live_window now key ws"
  using evict_drop [of n now ws] live_window_drop by metis

lemma store_ok_evict:
  assumes "store_ok capacity now ws" "now \<le> now'"
  shows "store_ok capacity now' (evict n now' ws)"
proof -
  obtain m where m: "evict n now' ws = drop m ws" using evict_drop by blast
  show ?thesis using assms unfolding m store_ok_def
    by (auto simp: drop_map [symmetric] sorted_wrt_drop dest!: in_set_dropD)
qed

lemma store_ok_filter: "store_ok capacity now ws \<Longrightarrow> store_ok capacity now (filter P ws)"
  using order_trans [OF of_nat_mono [OF length_filter_le [of P ws]], of capacity] by (auto simp: store_ok_def distinct_map_filter sorted_filter)

lemma expire_windows_ok:
  assumes "store_ok capacity now ws" "now \<le> now'"
  shows "store_ok capacity now' (expire_windows now' key ws)"
  using store_ok_evict [OF assms] store_ok_filter
  by (auto simp: expire_windows_def Let_def split: option.splits)

lemma map_of_filter_key: "map_of (filter (\<lambda>x. fst x \<noteq> key) ws) k = (if k = key then None else map_of ws k)"
  by (induction ws) auto

lemma expire_windows_live:
  assumes "distinct (map fst ws)"
  shows "live_window now k (expire_windows now key ws) = live_window now k ws"
    "map_of (expire_windows now key ws) key = live_window now key ws"
proof -
  let ?e = "evict cleanup_batch now ws"
  have "live_window now k (expire_windows now key ws) = live_window now k ?e" for k
    by (auto simp: live_window_def expire_windows_def Let_def map_of_filter_key split: option.split)
  moreover have "map_of (expire_windows now key ws) key = live_window now key ?e"
    by (simp add: live_window_def expire_windows_def Let_def map_of_filter_key split: option.split)
  ultimately show "live_window now k (expire_windows now key ws) = live_window now k ws"
    "map_of (expire_windows now key ws) key = live_window now key ws"
    by (simp_all add: evict_live [OF assms])
qed

lemma live_later:
  assumes "now \<le> now'"
  shows "live_window now' k ws = (case live_window now k ws of Some w \<Rightarrow> if now' < w_expires w then Some w else None | None \<Rightarrow> None)"
  using assms by (auto simp: live_window_def split: option.splits)

lemma map_of_count: "map_of (count_request key ws) k =
    map_option (\<lambda>w. if k = key then w\<lparr>w_count := w_count w + 1\<rparr> else w) (map_of ws k)"
  by (induction ws) (auto simp: count_request_def)

lemma count_ok:
  assumes "store_ok capacity now ws" "map_of ws key = Some w" "w_count w < 30"
  shows "store_ok capacity now (count_request key ws)"
proof -
  have "map fst (count_request key ws) = map fst ws" "map (w_expires \<circ> snd) (count_request key ws) = map (w_expires \<circ> snd) ws"
    "length (count_request key ws) = length ws" by (auto simp: count_request_def)
  moreover have "w_count v < 30" if "(key, v) \<in> set ws" for v
    using assms that by (simp add: store_ok_def)
  then have "\<forall>x \<in> set (count_request key ws). w_expires (snd x) \<le> now + 60 \<and> 1 \<le> w_count (snd x) \<and> w_count (snd x) \<le> 30"
    using assms(1) by (fastforce simp: count_request_def store_ok_def Suc_le_eq)
  ultimately show ?thesis using assms(1) by (simp add: store_ok_def)
qed

lemma append_window_ok:
  assumes "store_ok capacity now ws" "map_of ws key = None" "int (length ws) < capacity"
  shows "store_ok capacity now (ws @ [(key, \<lparr>w_expires = now + 60, w_count = 1\<rparr>)])"
  using assms by (auto simp: store_ok_def sorted_append map_of_eq_None_iff)

lemma live_append:
  "map_of ws key = None \<Longrightarrow> live_window now k (ws @ [(key, w)]) =
     (if k = key then if now < w_expires w then Some w else None else live_window now k ws)"
  by (auto simp: live_window_def map_add_def split: option.split)

text \<open>What one request does to the live windows.\<close>

lemma consume_cases:
  assumes "store_ok capacity now ws" "now \<le> now'" "key_pattern key"
  obtains
    (counted) w ws' where "live_window now' key ws = Some w" "w_count w < 30" "consume capacity now' key ws = Inr (allow, ws')"
      "store_ok capacity now' ws'" "live_window now' key ws' = Some (w\<lparr>w_count := w_count w + 1\<rparr>)"
      "\<And>k. k \<noteq> key \<Longrightarrow> live_window now' k ws' = live_window now' k ws"
  | (denied) w ws' where "live_window now' key ws = Some w" "w_count w = 30"
      "consume capacity now' key ws = Inr (deny (w_expires w - now'), ws')"
      "store_ok capacity now' ws'" "\<And>k. live_window now' k ws' = live_window now' k ws"
  | (opened) ws' where "live_window now' key ws = None" "int (length (expire_windows now' key ws)) < capacity"
      "consume capacity now' key ws = Inr (allow, ws')" "store_ok capacity now' ws'"
      "live_window now' key ws' = Some \<lparr>w_expires = now' + 60, w_count = 1\<rparr>"
      "\<And>k. k \<noteq> key \<Longrightarrow> live_window now' k ws' = live_window now' k ws"
  | (full) ws' where "live_window now' key ws = None" "int (length (expire_windows now' key ws)) = capacity"
      "consume capacity now' key ws = Inr (admit_untracked, ws')" "store_ok capacity now' ws'"
      "\<And>k. live_window now' k ws' = live_window now' k ws"
proof -
  let ?ws = "expire_windows now' key ws"
  have d: "distinct (map fst ws)" using assms(1) by (simp add: store_ok_def)
  note live = expire_windows_live [OF d]
  have ok: "store_ok capacity now' ?ws" by (rule expire_windows_ok [OF assms(1,2)])
  show ?thesis
  proof (cases "live_window now' key ws")
    case None
    show ?thesis
    proof (cases "int (length ?ws) < capacity")
      case True
      show ?thesis
      proof (rule opened)
        show "store_ok capacity now' (?ws @ [(key, \<lparr>w_expires = now' + 60, w_count = 1\<rparr>)])"
          by (rule append_window_ok) (simp_all add: ok live(2) None True)
      qed (use None True assms(3) in \<open>simp_all add: consume_def live live_append\<close>)
    next
      case False
      then have "int (length ?ws) = capacity" using ok by (simp add: store_ok_def)
      with None assms(3) ok show ?thesis by (intro full [of ?ws]) (simp_all add: consume_def live)
    qed
  next
    case (Some w)
    then have w: "map_of ?ws key = Some w" by (simp add: live(2))
    then have "w_count w \<le> 30" using ok map_of_SomeD by (fastforce simp: store_ok_def)
    show ?thesis
    proof (cases "w_count w < 30")
      case True
      have "live_window now' k (count_request key ?ws) =
          map_option (\<lambda>w. if k = key then w\<lparr>w_count := w_count w + 1\<rparr> else w) (live_window now' k ?ws)" for k
        by (simp add: live_window_def map_of_count split: option.splits)
      then show ?thesis using Some True w assms(3) count_ok [OF ok w True]
        by (intro counted [of w "count_request key ?ws"]) (simp_all add: consume_def live option.map_ident)
    next
      case False
      with \<open>w_count w \<le> 30\<close> Some w assms(3) ok show ?thesis by (intro denied [of w ?ws]) (simp_all add: consume_def live)
    qed
  qed
qed


section \<open>Runs\<close>

lemma consume_all_ok:
  assumes "consume_all capacity rs ws = Inr (ds, ws')" "store_ok capacity now ws" "sorted (now # map fst rs)"
  shows "store_ok capacity (last (now # map fst rs)) ws' \<and> length ds = length rs"
  using assms
proof (induction rs arbitrary: now ws ds)
  case (Cons r rs)
  obtain t k where r: "r = (t, k)" by fastforce
  obtain d ws1 ds1 where step: "consume capacity t k ws = Inr (d, ws1)" "consume_all capacity rs ws1 = Inr (ds1, ws')" "ds = d # ds1"
    using Cons.prems(1) by (auto simp: r bindE_eq_Inr)
  have key: "key_pattern k" using step(1) by (auto simp: consume_def split: if_splits)
  have t: "now \<le> t" "sorted (t # map fst rs)" using Cons.prems(3) by (auto simp: r)
  have "store_ok capacity t ws1"
    by (rule consume_cases [OF Cons.prems(2) t(1) key]) (use step(1) in auto)
  from Cons.IH [OF step(2) this t(2)] show ?case by (simp add: r step(3))
qed simp

primrec window_decisions :: "rat \<Rightarrow> nat \<Rightarrow> rat list \<Rightarrow> rate_limit_decision list" where
  "window_decisions e c [] = []"
| "window_decisions e c (t # ts) = (if c < 30 then allow # window_decisions e (c + 1) ts else deny (e - t) # window_decisions e c ts)"

lemma window_decisions_eq:
  "c \<le> 30 \<Longrightarrow> window_decisions e c ts = map (\<lambda>i. if c + i < 30 then allow else deny (e - ts ! i)) [0..<length ts]"
proof (induction ts arbitrary: c)
  case (Cons t ts)
  have "[0..<length (t # ts)] = 0 # map Suc [0..<length ts]" by (simp add: map_Suc_upt upt_conv_Cons del: upt_Suc)
  then show ?case using Cons.prems Cons.IH [of "c + 1"] Cons.IH [of c] by (auto simp: comp_def)
qed simp

text \<open>The requests of one key, and the decisions on them.\<close>

definition times_of :: "pystr \<Rightarrow> (rat \<times> pystr) list \<Rightarrow> rat list" where
  "times_of key rs = map fst (filter (\<lambda>r. snd r = key) rs)"

definition decisions_of :: "pystr \<Rightarrow> (rat \<times> pystr) list \<Rightarrow> rate_limit_decision list \<Rightarrow> rate_limit_decision list" where
  "decisions_of key rs ds = map snd (filter (\<lambda>x. snd (fst x) = key) (zip rs ds))"

lemma window_run:
  assumes "store_ok capacity now ws" "sorted (now # map fst rs)" "live_window now key ws = Some w"
    "\<forall>r \<in> set rs. key_pattern (snd r) \<and> fst r < w_expires w"
  shows "\<exists>ds ws'. consume_all capacity rs ws = Inr (ds, ws')
    \<and> decisions_of key rs ds = window_decisions (w_expires w) (w_count w) (times_of key rs)"
  using assms
proof (induction rs arbitrary: now ws w)
  case Nil
  then show ?case by (simp add: decisions_of_def times_of_def)
next
  case (Cons r rs)
  obtain t k where r: "r = (t, k)" by fastforce
  have t: "now \<le> t" "sorted (t # map fst rs)" "key_pattern k" "t < w_expires w" "\<forall>r \<in> set rs. key_pattern (snd r) \<and> fst r < w_expires w"
    using Cons.prems(2,4) by (auto simp: r)
  have live: "live_window t key ws = Some w" using live_later [OF t(1), of key ws] Cons.prems(3) t(4) by simp
  have rest: "\<exists>ds ws'. consume_all capacity rs ws1 = Inr (ds, ws')
      \<and> decisions_of key rs ds = window_decisions (w_expires w1) (w_count w1) (times_of key rs)"
    if "store_ok capacity t ws1" "live_window t key ws1 = Some w1" "w_expires w1 = w_expires w" for ws1 w1
    by (rule Cons.IH [OF that(1) t(2) that(2)]) (use t(5) that(3) in simp)
  show ?case
  proof (rule consume_cases [OF Cons.prems(1) t(1,3)])
    fix v ws1
    assume v: "live_window t k ws = Some v" "w_count v < 30" "consume capacity t k ws = Inr (allow, ws1)" "store_ok capacity t ws1"
      "live_window t k ws1 = Some (v\<lparr>w_count := w_count v + 1\<rparr>)" "\<And>k'. k' \<noteq> k \<Longrightarrow> live_window t k' ws1 = live_window t k' ws"
    show ?thesis
    proof (cases "k = key")
      case True
      with v live have "v = w" by simp
      with True v rest [OF v(4), of "w\<lparr>w_count := w_count w + 1\<rparr>"] show ?thesis
        by (auto simp: r decisions_of_def times_of_def)
    next
      case False
      with v live rest [OF v(4), of w] show ?thesis by (auto simp: r decisions_of_def times_of_def)
    qed
  next
    fix v ws1
    assume v: "live_window t k ws = Some v" "w_count v = 30" "consume capacity t k ws = Inr (deny (w_expires v - t), ws1)"
      "store_ok capacity t ws1" "\<And>k. live_window t k ws1 = live_window t k ws"
    then have "k = key \<Longrightarrow> v = w" using live by simp
    with v live rest [OF v(4), of w] show ?thesis by (auto simp: r decisions_of_def times_of_def)
  next
    fix ws1
    assume v: "live_window t k ws = None" "consume capacity t k ws = Inr (allow, ws1)" "store_ok capacity t ws1"
      "\<And>k'. k' \<noteq> k \<Longrightarrow> live_window t k' ws1 = live_window t k' ws"
    then have "k \<noteq> key" using live by auto
    with v live rest [OF v(3), of w] show ?thesis by (auto simp: r decisions_of_def times_of_def)
  next
    fix ws1
    assume v: "live_window t k ws = None" "consume capacity t k ws = Inr (admit_untracked, ws1)" "store_ok capacity t ws1"
      "\<And>k. live_window t k ws1 = live_window t k ws"
    then have "k \<noteq> key" using live by auto
    with v live rest [OF v(3), of w] show ?thesis by (auto simp: r decisions_of_def times_of_def)
  qed
qed

lemma deny_retry: "t \<le> u \<Longrightarrow> u < t + 60 \<Longrightarrow> rl_retry_after (deny (t + 60 - u)) \<in> {1..60}"
  by (auto simp: deny_def ceiling_le_iff)

lemma times_of_range: "\<forall>r \<in> set rs. P (fst r) \<Longrightarrow> x \<in> set (times_of key rs) \<Longrightarrow> P x"
  by (auto simp: times_of_def)

lemma sorted_around:
  fixes t :: "'a :: linorder"
  assumes "sorted (xs @ t # ys)"
  shows "sorted (hd (xs @ [t]) # xs)" "last (hd (xs @ [t]) # xs) \<le> t" "sorted (t # ys)"
proof -
  have s: "sorted xs" "sorted (t # ys)" "\<forall>x \<in> set xs. x \<le> t" using assms by (auto simp: sorted_append)
  then show "sorted (t # ys)" by simp
  show "sorted (hd (xs @ [t]) # xs)" using s(1) by (cases xs) auto
  show "last (hd (xs @ [t]) # xs) \<le> t"
  proof (cases xs)
    case (Cons x zs)
    then have "last xs \<in> set xs" by simp
    then show ?thesis using s(3) Cons by simp
  qed simp
qed


definition sample_key :: pystr where
  "sample_key = key_prefix @ replicate 64 48"


end
