(* ===== verification/Request_Protection.thy ===== *)
theory Request_Protection
  imports Sessions Rate_Limits
begin

text \<open>
  \<open>application/request_protection.py\<close>, \<open>application/origins.py\<close>, \<open>application/browser_policy.py\<close>,
  \<open>infrastructure/request_protection.py\<close> and the cookie parser of \<open>api/request_protection.py\<close>: the checks
  of origin, CSRF tokens and quota in front of the credential routes.
\<close>

unbundle bit_operations_syntax

section \<open>Origins\<close>

text \<open>\<open>urllib.parse.urlsplit\<close>, with nothing where it raises (\<open>up_port\<close>: where reading the port raises), and
  \<open>ipaddress.ip_address\<close> with \<open>str\<close> of its result, marked for IPv6.\<close>

record url_parts =
  up_scheme :: pystr
  up_netloc :: pystr
  up_path :: pystr
  up_hostname :: "pystr option"
  up_port :: "int option option"

record url_lib =
  ul_split :: "pystr \<Rightarrow> url_parts option"
  ul_ip :: "pystr \<Rightarrow> (bool \<times> pystr) option"

definition label_char :: "nat \<Rightarrow> bool" where
  "label_char c \<longleftrightarrow> (97 \<le> c \<and> c \<le> 122) \<or> (48 \<le> c \<and> c \<le> 57)"

definition dns_label :: "pystr \<Rightarrow> bool" where
  "dns_label s \<longleftrightarrow> s \<noteq> [] \<and> length s \<le> 63 \<and> label_char (hd s) \<and> label_char (last s) \<and> list_all (\<lambda>c. label_char c \<or> c = 45) s"

fun split_at :: "nat \<Rightarrow> pystr \<Rightarrow> pystr list" where
  "split_at sep [] = [[]]"
| "split_at sep (c # cs) = (if c = sep then [] # split_at sep cs else (case split_at sep cs of p # ps \<Rightarrow> (c # p) # ps | [] \<Rightarrow> [[c]]))"

definition dns_name :: "pystr \<Rightarrow> bool" where
  "dns_name host \<longleftrightarrow> length host \<le> 254
     \<and> list_all dns_label (split_at 46 (if host \<noteq> [] \<and> last host = 46 then butlast host else host))"

definition canonical_origin :: "url_lib \<Rightarrow> pystr \<Rightarrow> pystr res" where
  "canonical_origin U v =
     (if v = [] \<or> \<not> isascii v \<or> (\<exists>c \<in> set v. c \<le> 32 \<or> c = 127) \<or> (\<exists>c \<in> set v. c \<in> {92, 37, 63, 35, 44, 64}) then Inl ValueError
      else case ul_split U v of
        None \<Rightarrow> Inl ValueError
      | Some parsed \<Rightarrow>
          (case (up_hostname parsed, up_port parsed) of
             (Some host, Some port) \<Rightarrow>
               if up_scheme parsed \<notin> {lit ''http'', lit ''https''} \<or> host = [] \<or> up_path parsed \<noteq> []
                 \<or> (up_netloc parsed \<noteq> [] \<and> last (up_netloc parsed) = 58)
                 \<or> (case port of None \<Rightarrow> False | Some p \<Rightarrow> \<not> (1 \<le> p \<and> p \<le> 65535))
               then Inl ValueError
               else
                 bindE (case ul_ip U host of
                          None \<Rightarrow> if dns_name host then Inr host else Inl ValueError
                        | Some (v6, address) \<Rightarrow> Inr (if v6 then lit ''['' @ address @ lit '']'' else address)) (\<lambda>host.
                   Inr (up_scheme parsed @ lit ''://'' @ host @ lit '':''
                     @ str_int (case port of Some p \<Rightarrow> p | None \<Rightarrow> if up_scheme parsed = lit ''https'' then 443 else 80)))
           | _ \<Rightarrow> Inl ValueError))"

record browser_policy =
  bp_origins :: "pystr list"
  bp_insecure :: bool

definition loopback_http :: "url_lib \<Rightarrow> pystr \<Rightarrow> bool res" where
  "loopback_http U v =
     (case ul_split U v of
        None \<Rightarrow> Inl ValueError
      | Some p \<Rightarrow> Inr (up_scheme p = lit ''http''
          \<and> up_hostname p \<in> {Some (lit ''localhost''), Some (lit ''127.0.0.1''), Some (lit ''::1'')}))"

definition https_origin :: "url_lib \<Rightarrow> pystr \<Rightarrow> bool res" where
  "https_origin U v = (case ul_split U v of None \<Rightarrow> Inl ValueError | Some p \<Rightarrow> Inr (up_scheme p = lit ''https''))"

definition browser_policy_init :: "url_lib \<Rightarrow> pystr list \<Rightarrow> bool \<Rightarrow> browser_policy res" where
  "browser_policy_init U allowed insecure =
     bindE (mapE (canonical_origin U) allowed) (\<lambda>origins.
     bindE (if insecure
            then (if origins = [] then Inl ValueError else bindE (mapE (loopback_http U) origins) (\<lambda>oks. if list_all id oks then Inr () else Inl ValueError))
            else bindE (mapE (https_origin U) origins) (\<lambda>oks. if list_all id oks then Inr () else Inl ValueError)) (\<lambda>_.
       Inr \<lparr>bp_origins = origins, bp_insecure = insecure\<rparr>))"

definition secure :: "browser_policy \<Rightarrow> bool" where
  "secure b \<longleftrightarrow> \<not> bp_insecure b"


section \<open>Keys of clients\<close>

definition digest_bytes :: "w32 list \<Rightarrow> nat list" where
  "digest_bytes ws = concat (map (\<lambda>w. digits_n 256 4 (unat w)) ws)"

text \<open>\<open>hmac.new(key, message, sha256)\<close> for a key of at most 64 bytes.\<close>

definition hmac_sha256 :: "nat list \<Rightarrow> nat list \<Rightarrow> w32 list" where
  "hmac_sha256 key m =
     (let block = key @ replicate (64 - length key) 0 in
      sha256 (map (\<lambda>b. b XOR 92) block @ digest_bytes (sha256 (map (\<lambda>b. b XOR 54) block @ m))))"

definition decode_ip_hmac_secret :: "pystr \<Rightarrow> nat list res" where
  "decode_ip_hmac_secret secret =
     (case opaque_token_init secret of Inl _ \<Rightarrow> Inl ValueError | Inr v \<Rightarrow> Inr (b64_decode v))"

text \<open>\<open>show_ip\<close> is \<open>str(address)\<close>.\<close>

definition client_ip_key :: "(ip_value \<Rightarrow> pystr) \<Rightarrow> nat list \<Rightarrow> ip_value \<Rightarrow> pystr" where
  "client_ip_key show_ip key ip = key_prefix @ hexdigest (hmac_sha256 key (show_ip ip))"


section \<open>Policies\<close>

datatype auth_action = LOGIN | REGISTRATION_REQUEST | REGISTRATION_COMPLETE | REFRESH | LOGOUT | PASSWORD_CHANGE
  | PASSWORD_RESET_REQUEST | PASSWORD_RESET_COMPLETE | ME

record protection_policy =
  pp_origin :: bool
  pp_csrf :: bool
  pp_rate_limit :: bool

definition policy_for :: "auth_action \<Rightarrow> protection_policy" where
  "policy_for action =
     (if action \<in> {LOGIN, REGISTRATION_COMPLETE} then \<lparr>pp_origin = True, pp_csrf = False, pp_rate_limit = True\<rparr>
      else if action \<in> {REFRESH, PASSWORD_CHANGE} then \<lparr>pp_origin = True, pp_csrf = True, pp_rate_limit = True\<rparr>
      else if action = LOGOUT then \<lparr>pp_origin = True, pp_csrf = True, pp_rate_limit = False\<rparr>
      else if action = ME then \<lparr>pp_origin = False, pp_csrf = False, pp_rate_limit = False\<rparr>
      else \<lparr>pp_origin = False, pp_csrf = False, pp_rate_limit = True\<rparr>)"


section \<open>The check of a request\<close>

record auth_protection =
  ap_origins :: "pystr list"
  ap_capacity :: int
  ap_key :: "ip_value \<Rightarrow> pystr"

definition auth_protection_init :: "url_lib \<Rightarrow> pystr list \<Rightarrow> int \<Rightarrow> (ip_value \<Rightarrow> pystr) \<Rightarrow> auth_protection res" where
  "auth_protection_init U allowed capacity key =
     bindE (mapE (canonical_origin U) allowed) (\<lambda>origins. Inr \<lparr>ap_origins = origins, ap_capacity = capacity, ap_key = key\<rparr>)"

record auth_request =
  rq_action :: auth_action
  rq_origins :: "pystr list"
  rq_cookies :: "pystr list"
  rq_headers :: "pystr list"
  rq_client :: "ip_value option"

text \<open>The two \<open>try\<close> blocks.\<close>

definition check_origin :: "url_lib \<Rightarrow> auth_protection \<Rightarrow> pystr list \<Rightarrow> unit res" where
  "check_origin U P origins =
     (case origins of
        [v] \<Rightarrow> bindE (canonical_origin U v) (\<lambda>c. requireE (c \<in> set (ap_origins P)) ValueError)
      | _ \<Rightarrow> Inl ValueError)"

definition check_csrf :: "pystr list \<Rightarrow> pystr list \<Rightarrow> unit res" where
  "check_csrf cookies headers =
     (case (cookies, headers) of
        ([c], [h]) \<Rightarrow>
          bindE (opaque_token_init c) (\<lambda>c. bindE (opaque_token_init h) (\<lambda>h.
            requireE (csrf_tokens_match c h) (AccountError InvalidOpaqueToken)))
      | _ \<Rightarrow> raise_account InvalidOpaqueToken)"

definition protection_event :: "operational_event_name \<Rightarrow> datetime \<Rightarrow> ip_value option \<Rightarrow> operational_event list" where
  "protection_event name clock ip =
     (case operational_event_init \<lparr>oe_name = name, oe_occurred = clock, oe_request = None, oe_client = ip\<rparr> of
        Inl _ \<Rightarrow> [] | Inr e \<Rightarrow> [e])"

definition check_request ::
    "url_lib \<Rightarrow> auth_protection \<Rightarrow> datetime \<Rightarrow> rat \<Rightarrow> auth_request \<Rightarrow> rate_windows \<Rightarrow> unit res \<times> rate_windows \<times> operational_event list" where
  "check_request U P clock now r ws =
     (let policy = policy_for (rq_action r) in
      if pp_origin policy \<and> \<not> is_ok (check_origin U P (rq_origins r))
      then (raise_account OriginNotAllowed, ws, protection_event ORIGIN_VALIDATION_FAILED clock (rq_client r))
      else if pp_csrf policy \<and> \<not> is_ok (check_csrf (rq_cookies r) (rq_headers r))
      then (raise_account CsrfValidationFailed, ws, protection_event CSRF_VALIDATION_FAILED clock (rq_client r))
      else if \<not> pp_rate_limit policy then (Inr (), ws, [])
      else
        (case rq_client r of
           None \<Rightarrow> (Inr (), ws, protection_event CLIENT_IP_UNRESOLVED clock None)
         | Some ip \<Rightarrow>
             (case consume (ap_capacity P) now (ap_key P ip) ws of
                Inl err \<Rightarrow> (Inl err, ws, [])
              | Inr (d, ws') \<Rightarrow>
                  if \<not> rl_allowed d
                  then (raise_account (RateLimitExceeded (rl_retry_after d)), ws', protection_event RATE_LIMIT_EXCEEDED clock (Some ip))
                  else (Inr (), ws', if rl_capacity_exceeded d then protection_event RATE_LIMIT_CAPACITY_EXCEEDED clock (Some ip) else []))))"

text \<open>\<open>_csrf_cookie_values\<close>: the values of every \<open>mdm_csrf\<close> in every Cookie header.\<close>

definition cookie_value :: "pystr \<Rightarrow> pystr option" where
  "cookie_value part =
     (let s = strip_ws part; name = takeWhile (\<lambda>c. c \<noteq> 61) s in
      if name = lit ''mdm_csrf'' then Some (drop (length name + 1) s) else None)"

definition csrf_cookie_values :: "pystr list \<Rightarrow> pystr list" where
  "csrf_cookie_values headers = List.map_filter cookie_value (concat (map (split_at 59) headers))"

text \<open>\<open>build_auth_protection\<close> of \<open>auth_protection.py\<close>: the protection, its empty store and the policy of the cookies.\<close>

definition build_auth_protection ::
    "url_lib \<Rightarrow> (ip_value \<Rightarrow> pystr) \<Rightarrow> pystr option \<Rightarrow> pystr list \<Rightarrow> bool \<Rightarrow> int \<Rightarrow> (auth_protection \<times> rate_windows \<times> browser_policy) res" where
  "build_auth_protection U show_ip hmac_secret allowed insecure capacity =
     (case hmac_secret of
        None \<Rightarrow> Inl ValueError
      | Some secret \<Rightarrow>
          bindE (browser_policy_init U allowed insecure) (\<lambda>policy.
          bindE (store_init capacity) (\<lambda>store.
          bindE (decode_ip_hmac_secret secret) (\<lambda>key.
          bindE (auth_protection_init U (bp_origins policy) capacity (client_ip_key show_ip key)) (\<lambda>protection.
            Inr (protection, store, policy))))))"

text \<open>Successive requests: the two clocks and the request.\<close>

fun check_all ::
    "url_lib \<Rightarrow> auth_protection \<Rightarrow> (datetime \<times> rat \<times> auth_request) list \<Rightarrow> rate_windows \<Rightarrow> unit res list \<times> rate_windows" where
  "check_all U P [] ws = ([], ws)"
| "check_all U P ((clock, now, r) # rs) ws =
     (case check_request U P clock now r ws of (res, ws, _) \<Rightarrow>
      case check_all U P rs ws of (ress, ws) \<Rightarrow> (res # ress, ws))"


section \<open>Lemmas\<close>

lemma client_ip_key_pattern: "key_pattern (client_ip_key show_ip key ip)"
proof -
  have "length (hexdigest (hmac_sha256 key m)) = 64" for m
    by (simp add: length_hexdigest hmac_sha256_def Let_def sha256_def sha_init_def)
  moreover have "\<forall>c \<in> set (hexdigest (hmac_sha256 key m)). (48 \<le> c \<and> c \<le> 57) \<or> (97 \<le> c \<and> c \<le> 102)" for m
    using set_hexdigest [of "hmac_sha256 key m"] by auto
  ultimately show ?thesis by (simp add: key_pattern_def client_ip_key_def list_all_iff)
qed

text \<open>What passes the CSRF check: one cookie and one header, the same canonical token.\<close>

lemma check_csrf_ok: "is_ok (check_csrf cookies headers) \<longleftrightarrow> (\<exists>v. cookies = [v] \<and> headers = [v] \<and> opaque_token_init v = Inr v)"
  by (auto simp: check_csrf_def csrf_tokens_match_def is_ok_iff bindE_eq_Inr requireE_eq opaque_token_init_def Let_def
      split: list.splits if_splits)

definition passes :: "url_lib \<Rightarrow> auth_protection \<Rightarrow> auth_request \<Rightarrow> bool" where
  "passes U P r \<longleftrightarrow> (pp_origin (policy_for (rq_action r)) \<longrightarrow> is_ok (check_origin U P (rq_origins r)))
     \<and> (pp_csrf (policy_for (rq_action r)) \<longrightarrow> is_ok (check_csrf (rq_cookies r) (rq_headers r)))"

text \<open>The part of a request that reaches the quota: clock reading and client key.\<close>

definition quota_part :: "url_lib \<Rightarrow> auth_protection \<Rightarrow> datetime \<times> rat \<times> auth_request \<Rightarrow> (rat \<times> pystr) option" where
  "quota_part U P = (\<lambda>(clock, now, r). if passes U P r \<and> pp_rate_limit (policy_for (rq_action r))
     then map_option (\<lambda>ip. (now, ap_key P ip)) (rq_client r) else None)"

definition rejection :: "url_lib \<Rightarrow> auth_protection \<Rightarrow> auth_request \<Rightarrow> unit res" where
  "rejection U P r = (if passes U P r then Inr ()
     else if pp_origin (policy_for (rq_action r)) \<and> \<not> is_ok (check_origin U P (rq_origins r)) then raise_account OriginNotAllowed
     else raise_account CsrfValidationFailed)"

text \<open>The answers, given the decisions on the requests that reach the quota.\<close>

fun answers :: "url_lib \<Rightarrow> auth_protection \<Rightarrow> (datetime \<times> rat \<times> auth_request) list \<Rightarrow> rate_limit_decision list \<Rightarrow> unit res list" where
  "answers U P [] ds = []"
| "answers U P (r # rs) ds =
     (case quota_part U P r of
        None \<Rightarrow> rejection U P (snd (snd r)) # answers U P rs ds
      | Some _ \<Rightarrow> (if rl_allowed (hd ds) then Inr () else raise_account (RateLimitExceeded (rl_retry_after (hd ds)))) # answers U P rs (tl ds))"

lemma check_request_unlimited:
  "quota_part U P (clock, now, r) = None \<Longrightarrow> fst (check_request U P clock now r ws) = rejection U P r
     \<and> fst (snd (check_request U P clock now r ws)) = ws"
  by (auto simp: quota_part_def check_request_def rejection_def passes_def Let_def split: if_splits)

lemma check_request_limited:
  assumes "quota_part U P (clock, now, r) = Some (t, k)" "consume (ap_capacity P) t k ws = Inr (d, ws')"
  shows "fst (check_request U P clock now r ws) = (if rl_allowed d then Inr () else raise_account (RateLimitExceeded (rl_retry_after d)))
    \<and> fst (snd (check_request U P clock now r ws)) = ws'"
  using assms by (auto simp: quota_part_def check_request_def passes_def Let_def split: if_splits)

lemma built_key:
  assumes "build_auth_protection U show_ip hmac_secret allowed insecure capacity = Inr (P, start, policy)"
  shows "\<exists>key. ap_key P = client_ip_key show_ip key"
  using assms by (auto simp: build_auth_protection_def auth_protection_init_def bindE_eq_Inr split: option.splits)

lemma consume_total: "key_pattern k \<Longrightarrow> \<exists>d ws'. consume capacity now k ws = Inr (d, ws')"
  by (auto simp: consume_def Let_def split: option.split)

text \<open>C31. The protection of the credential routes works as one shared quota behind two guards: over any
  run of requests, a request whose origin or CSRF tokens are not in order is rejected for that
  reason and leaves the quota as it was, as does one that needs no quota or comes from an unresolved
  address; all others, of whatever action, draw on the one window of their client's key in their
  order, and pass exactly if that decision allows it.\<close>

theorem protection_shares_quota:
  assumes "build_auth_protection U show_ip hmac_secret allowed insecure capacity = Inr (P, start, policy)"
  shows "\<exists>ds. consume_all (ap_capacity P) (List.map_filter (quota_part U P) rs) ws = Inr (ds, snd (check_all U P rs ws))
    \<and> fst (check_all U P rs ws) = answers U P rs ds"
proof (induction rs arbitrary: ws)
  case Nil
  then show ?case by (simp add: map_filter_simps)
next
  case (Cons r rs)
  obtain clock now q where r: "r = (clock, now, q)" by (cases r) auto
  let ?c = "check_request U P clock now q ws"
  obtain ds where ds: "consume_all (ap_capacity P) (List.map_filter (quota_part U P) rs) (fst (snd ?c))
      = Inr (ds, snd (check_all U P rs (fst (snd ?c))))"
    "fst (check_all U P rs (fst (snd ?c))) = answers U P rs ds" using Cons.IH by blast
  have all: "fst (check_all U P (r # rs) ws) = fst ?c # fst (check_all U P rs (fst (snd ?c)))"
    "snd (check_all U P (r # rs) ws) = snd (check_all U P rs (fst (snd ?c)))"
    by (auto simp: r split: prod.split)
  show ?case
  proof (cases "quota_part U P r")
    case None
    with check_request_unlimited [of U P clock now q ws] ds all show ?thesis by (auto simp: map_filter_simps r)
  next
    case (Some x)
    obtain t k where x: "x = (t, k)" by fastforce
    have "key_pattern k" using Some built_key [OF assms] client_ip_key_pattern by (auto simp: quota_part_def x r split: if_splits)
    then obtain d ws1 where d: "consume (ap_capacity P) t k ws = Inr (d, ws1)" using consume_total by blast
    note c = check_request_limited [OF Some [unfolded r x] d]
    with ds all Some d show ?thesis by (intro exI [of _ "d # ds"]) (simp add: map_filter_simps x)
  qed
qed

definition sample_urls :: url_lib where
  "sample_urls = \<lparr>ul_split = (\<lambda>v. None), ul_ip = (\<lambda>h. None)\<rparr>"

definition sample_request :: "auth_action \<Rightarrow> auth_request" where
  "sample_request action = \<lparr>rq_action = action, rq_origins = [], rq_cookies = [], rq_headers = [], rq_client = Some (IPv4 1)\<rparr>"

theorem protection_shares_quota_witness:
  "\<exists>P start policy ds. build_auth_protection sample_urls (\<lambda>_. [49]) (Some (b64_encode (replicate 32 0))) [] False 10 = Inr (P, start, policy)
     \<and> consume_all 10 [(0, ap_key P (IPv4 1))] start = Inr (ds, snd (check_all sample_urls P
          [(Aware 0, 0, sample_request LOGIN), (Aware 0, 0, sample_request PASSWORD_RESET_REQUEST)] start))
     \<and> hd (fst (check_all sample_urls P
          [(Aware 0, 0, sample_request LOGIN), (Aware 0, 0, sample_request PASSWORD_RESET_REQUEST)] start)) = raise_account OriginNotAllowed"
proof -
  let ?P = "\<lparr>ap_origins = [], ap_capacity = 10, ap_key = client_ip_key (\<lambda>_. [49]) (replicate 32 0)\<rparr>"
  let ?rs = "[(Aware 0, 0, sample_request LOGIN), (Aware 0, 0, sample_request PASSWORD_RESET_REQUEST)]"
  have "byte_list (replicate 32 0)" "length (replicate 32 (0 :: nat)) = 32" by (simp_all add: byte_list_def list_all_iff)
  note token = generate_ok [OF this]
  then have "opaque_token_init (b64_encode (replicate 32 0)) = Inr (b64_encode (replicate 32 0))"
    using generate_encodes by blast
  then have build: "build_auth_protection sample_urls (\<lambda>_. [49]) (Some (b64_encode (replicate 32 0))) [] False 10
      = Inr (?P, [], \<lparr>bp_origins = [], bp_insecure = False\<rparr>)"
    by (simp add: build_auth_protection_def browser_policy_init_def store_init_def decode_ip_hmac_secret_def auth_protection_init_def token)
  have parts: "List.map_filter (quota_part sample_urls ?P) ?rs = [(0, ap_key ?P (IPv4 1))]"
    by (simp add: map_filter_simps quota_part_def passes_def policy_for_def check_origin_def sample_request_def)
  have login: "quota_part sample_urls ?P (Aware 0, 0, sample_request LOGIN) = None"
    "rejection sample_urls ?P (sample_request LOGIN) = raise_account OriginNotAllowed"
    by (simp_all add: quota_part_def rejection_def passes_def policy_for_def check_origin_def sample_request_def)
  from protection_shares_quota [OF build, of ?rs "[]"] build parts login show ?thesis by auto
qed

end
