(* ===== verification/Password_Lifecycle.thy ===== *)
theory Password_Lifecycle
  imports Sessions
begin

text \<open>
  \<open>src/mdm/application/password_lifecycle.py\<close> over
  \<open>src/mdm/infrastructure/repositories/password_lifecycle.py\<close>: requesting and completing a password
  reset, and changing a password. Mail delivery is a parameter: whether the provider reported
  \<open>SENT\<close>, or raised; the token goes out only after the transaction has committed.
\<close>

section \<open>The password transaction\<close>

definition lock_refresh_tokens :: "uuid list \<Rightarrow> account_db \<Rightarrow> refresh_row list" where
  "lock_refresh_tokens families d = sort_key t_id (filter (\<lambda>t. t_family t \<in> set families) (ac_refresh d))"

definition lock_challenges :: "uuid \<Rightarrow> uuid option \<Rightarrow> account_db \<Rightarrow> uuid challenge_row list" where
  "lock_challenges user challenge d =
     sort_key h_id (filter (\<lambda>h. h_owner h = user
       \<and> (case challenge of None \<Rightarrow> h_status h = CH_ACTIVE | Some i \<Rightarrow> h_id h = i)) (ac_resets d))"

definition lock_reset_tokens :: "uuid list \<Rightarrow> account_db \<Rightarrow> secret_row list" where
  "lock_reset_tokens challenges d = sort_key k_id (filter (\<lambda>k. k_challenge k \<in> set challenges) (ac_reset_tokens d))"

definition expire_challenge :: "uuid \<Rightarrow> account_db \<Rightarrow> account_db res" where
  "expire_challenge i d = update_resets (\<lambda>h. h_id h = i) (\<lambda>h. h\<lparr>h_status := CH_EXPIRED\<rparr>) d"

definition new_challenge :: "uuid \<Rightarrow> 'o \<Rightarrow> int \<Rightarrow> int \<Rightarrow> 'o challenge_row" where
  "new_challenge i owner now expires =
     \<lparr>h_id = i, h_owner = owner, h_status = CH_ACTIVE, h_created = now, h_expires = expires,
      h_completed = None, h_revoked = None\<rparr>"

definition create_challenge :: "uuid \<Rightarrow> uuid \<Rightarrow> int \<Rightarrow> int \<Rightarrow> account_db \<Rightarrow> (uuid challenge_row \<times> account_db) res" where
  "create_challenge user i now expires d =
     (let h = new_challenge i user now expires in bindE (insert_reset h d) (\<lambda>d. Inr (h, d)))"

definition add_reset_token :: "uuid \<Rightarrow> int \<Rightarrow> pystr \<Rightarrow> uuid \<Rightarrow> account_db \<Rightarrow> account_db res" where
  "add_reset_token challenge now token i d =
     (case insert_reset_token \<lparr>k_id = i, k_challenge = challenge, k_digest = token_digest token, k_issued = now,
         k_used = None\<rparr> d of
        Inl (IntegrityError c) \<Rightarrow>
          if c = Some ''uq_password_reset_tokens_digest'' then raise_account ResetDigestConflict else Inl (IntegrityError c)
      | r \<Rightarrow> r)"

definition change_hash :: "uuid \<Rightarrow> pystr \<Rightarrow> int \<Rightarrow> account_db \<Rightarrow> account_db res" where
  "change_hash user password_hash now d = update_user user (\<lambda>r. r\<lparr>a_hash := password_hash, a_updated := now\<rparr>) d"

definition finish_reset :: "uuid \<Rightarrow> uuid \<Rightarrow> int \<Rightarrow> account_db \<Rightarrow> account_db res" where
  "finish_reset challenge token now d =
     bindE (use_reset_token token challenge now d) (\<lambda>d.
       update_resets (\<lambda>h. h_id h = challenge) (\<lambda>h. h\<lparr>h_status := CH_COMPLETED, h_completed := Some now\<rparr>) d)"

definition revoke_challenge :: "uuid \<Rightarrow> int \<Rightarrow> account_db \<Rightarrow> account_db res" where
  "revoke_challenge i now d =
     update_resets (\<lambda>h. h_id h = i \<and> h_status h = CH_ACTIVE) (\<lambda>h. h\<lparr>h_status := CH_REVOKED, h_revoked := Some now\<rparr>) d"

definition revoke_challenges :: "uuid challenge_row list \<Rightarrow> int \<Rightarrow> account_db \<Rightarrow> account_db res" where
  "revoke_challenges challenges now d = foldE (\<lambda>h. revoke_challenge (h_id h) now) challenges d"

definition password_event :: "uuid \<Rightarrow> uuid \<Rightarrow> human_principal option \<Rightarrow> int \<Rightarrow> security_event" where
  "password_event i user actor now =
     \<lparr>ev_id = i, ev_type = (case actor of None \<Rightarrow> PASSWORD_RESET | Some _ \<Rightarrow> PASSWORD_CHANGED), ev_subject = user,
      ev_occurred_at = Aware now,
      ev_initiator = (case actor of None \<Rightarrow> RESET_TOKEN | Some _ \<Rightarrow> AUTHENTICATED_USER),
      ev_initiator_user = map_option principal_user_id actor,
      ev_initiator_role = map_option principal_role actor,
      ev_previous_role = None, ev_new_role = None, ev_previous_status = None, ev_new_status = None\<rparr>"

definition audit_password :: "uuid \<Rightarrow> uuid \<Rightarrow> human_principal option \<Rightarrow> int \<Rightarrow> account_db \<Rightarrow> account_db res" where
  "audit_password i user actor now d = insert_event (password_event i user actor now) d"

record reset_target =
  st_user :: uuid
  st_challenge :: uuid
  st_token :: uuid

definition find_reset :: "digest \<Rightarrow> account_db \<Rightarrow> reset_target option" where
  "find_reset dg d =
     (case find (\<lambda>k. k_digest k = dg) (ac_reset_tokens d) of
        None \<Rightarrow> None
      | Some k \<Rightarrow>
        (case find (\<lambda>h. h_id h = k_challenge k) (ac_resets d) of
           None \<Rightarrow> None
         | Some h \<Rightarrow> Some \<lparr>st_user = h_owner h, st_challenge = k_challenge k, st_token = k_id k\<rparr>))"

definition password_transaction :: "('a \<times> account_db) res \<Rightarrow> account_db \<Rightarrow> 'a res \<times> account_db" where
  "password_transaction body d = transact (persistence PasswordLifecycleUnavailable (commit body)) d"


section \<open>Completing a reset\<close>

definition reset_tx :: "auth_lib \<Rightarrow> auth_env \<Rightarrow> reset_target \<Rightarrow> user \<Rightarrow> pystr \<Rightarrow> pystr \<Rightarrow> account_db \<Rightarrow> (unit \<times> account_db) res" where
  "reset_tx L E target snapshot token password_hash d =
     bindE (get_by_id (al_text L) (st_user target) d) (\<lambda>found.
     case found of
       None \<Rightarrow> raise_account InvalidPasswordResetToken
     | Some u \<Rightarrow>
       if user_id u \<noteq> st_user target \<or> user_status u \<noteq> ACTIVE \<or> user_password_hash u \<noteq> user_password_hash snapshot
       then raise_account InvalidPasswordResetToken
       else
         let families = lock_families (user_id u) None d;
             challenges = lock_challenges (user_id u) (Some (st_challenge target)) d;
             tokens = lock_reset_tokens (map h_id challenges) d;
             now = ae_now E in
         (case (find (\<lambda>h. h_id h = st_challenge target) challenges, find (\<lambda>k. k_id k = st_token target) tokens) of
            (Some challenge, Some stored) \<Rightarrow>
              if h_owner challenge \<noteq> user_id u \<or> h_status challenge \<noteq> CH_ACTIVE \<or> now \<ge> h_expires challenge
                \<or> k_challenge stored \<noteq> h_id challenge \<or> k_digest stored \<noteq> token_digest token \<or> k_used stored \<noteq> None
              then raise_account InvalidPasswordResetToken
              else
                bindE (change_hash (user_id u) password_hash now d) (\<lambda>d.
                bindE (revoke_all families now d) (\<lambda>d.
                bindE (finish_reset (h_id challenge) (k_id stored) now d) (\<lambda>d.
                bindE (audit_password (ae_event E) (user_id u) None now d) (\<lambda>d. Inr ((), d)))))
          | _ \<Rightarrow> raise_account InvalidPasswordResetToken))"

text \<open>The two unlocked reads may see different states.\<close>

definition complete_reset ::
    "auth_lib \<Rightarrow> auth_env \<Rightarrow> pystr \<Rightarrow> pystr \<Rightarrow> account_db \<Rightarrow> account_db \<Rightarrow> account_db \<Rightarrow> unit outcome" where
  "complete_reset L E token password d0 d1 d =
     (case find_reset (token_digest token) d0 of
        None \<Rightarrow> (raise_account InvalidPasswordResetToken, d, [])
      | Some target \<Rightarrow>
        (case bindE (get_by_id (al_text L) (st_user target) d1) (\<lambda>found.
           case found of
             None \<Rightarrow> raise_account InvalidPasswordResetToken
           | Some u \<Rightarrow>
             if user_status u \<noteq> ACTIVE then raise_account InvalidPasswordResetToken
             else bindE (hash_with L E password) (\<lambda>h. Inr (u, h))) of
           Inl err \<Rightarrow> (Inl err, d, [])
         | Inr (snapshot, password_hash) \<Rightarrow>
           (case password_transaction (reset_tx L E target snapshot token password_hash d) d of (r, d') \<Rightarrow> (r, d', []))))"


section \<open>Changing a password\<close>

definition require_refresh ::
    "refresh_target \<Rightarrow> pystr \<Rightarrow> family_row list \<Rightarrow> refresh_row list \<Rightarrow> int \<Rightarrow> unit res" where
  "require_refresh target token families tokens now =
     (case (find (\<lambda>f. f_id f = rt_family target) families, find (\<lambda>t. t_id t = rt_token target) tokens) of
        (Some family, Some stored) \<Rightarrow>
          if f_user family \<noteq> rt_user target \<or> f_status family \<noteq> FAMILY_ACTIVE \<or> now \<ge> f_expires family
            \<or> t_family stored \<noteq> f_id family \<or> t_digest stored \<noteq> token_digest token \<or> t_used stored \<noteq> None
          then raise_account InvalidSession else Inr ()
      | _ \<Rightarrow> raise_account InvalidSession)"

text \<open>The validation transaction, at the clock reading \<open>now\<close>.\<close>

definition validate_tx :: "auth_lib \<Rightarrow> int \<Rightarrow> human_principal \<Rightarrow> refresh_target \<Rightarrow> pystr \<Rightarrow> account_db \<Rightarrow> (user \<times> account_db) res" where
  "validate_tx L now actor target token d =
     bindE (get_by_id (al_text L) (rt_user target) d) (\<lambda>found.
     case found of
       None \<Rightarrow> raise_account InvalidSession
     | Some u \<Rightarrow>
       if user_id u \<noteq> principal_user_id actor \<or> user_status u \<noteq> ACTIVE then raise_account InvalidSession
       else
         let families = lock_families (user_id u) None d; tokens = lock_refresh_tokens (map f_id families) d in
         bindE (require_refresh target token families tokens now) (\<lambda>_. Inr (u, d)))"

record password_grant =
  pg_refresh :: pystr
  pg_expires :: int
  pg_issued :: int

definition change_password_tx ::
    "auth_lib \<Rightarrow> auth_env \<Rightarrow> human_principal \<Rightarrow> refresh_target \<Rightarrow> pystr \<Rightarrow> user \<Rightarrow> pystr \<Rightarrow> account_db
      \<Rightarrow> (password_grant \<times> account_db) res" where
  "change_password_tx L E actor target token snapshot password_hash d =
     bindE (get_by_id (al_text L) (rt_user target) d) (\<lambda>found.
     case found of
       None \<Rightarrow> raise_account InvalidSession
     | Some u \<Rightarrow>
       if user_id u \<noteq> principal_user_id actor \<or> user_status u \<noteq> ACTIVE
         \<or> user_password_hash u \<noteq> user_password_hash snapshot
       then raise_account InvalidSession
       else
         let families = lock_families (user_id u) None d;
             tokens = lock_refresh_tokens (map f_id families) d;
             challenges = lock_challenges (user_id u) None d;
             now = ae_now E; expires = now + days 7 in
         bindE (require_refresh target token families tokens now) (\<lambda>_.
         bindE (change_hash (user_id u) password_hash now d) (\<lambda>d.
         bindE (revoke_all families now d) (\<lambda>d.
         bindE (create_family (user_id u) (ae_family E) now expires d) (\<lambda>d.
         bindE (issue_refresh E (ae_family E) d) (\<lambda>((refresh, _), d).
         bindE (revoke_challenges challenges now d) (\<lambda>d.
         bindE (audit_password (ae_event E) (user_id u) (Some actor) now d) (\<lambda>d.
           Inr (\<lparr>pg_refresh = refresh, pg_expires = expires, pg_issued = now\<rparr>, d)))))))))"

definition change_password ::
    "auth_lib \<Rightarrow> int \<Rightarrow> auth_env \<Rightarrow> human_principal \<Rightarrow> pystr \<Rightarrow> pystr \<Rightarrow> pystr
      \<Rightarrow> account_db \<Rightarrow> account_db \<Rightarrow> account_db \<Rightarrow> password_grant outcome" where
  "change_password L now1 E actor token current_password new_password d0 d1 d =
     (case find_refresh (token_digest token) d0 of
        None \<Rightarrow> (raise_account InvalidSession, d, [])
      | Some target \<Rightarrow>
        if rt_user target \<noteq> principal_user_id actor
        then (raise_account InvalidSession, d, emit SESSION_PRINCIPAL_MISMATCH (ae_clock E))
        else
        (case bindE (fst (password_transaction (validate_tx L now1 actor target token d1) d1)) (\<lambda>snapshot.
           bindE (verify_with L E current_password (user_password_hash snapshot)) (\<lambda>matches.
           if \<not> matches then raise_account InvalidCurrentPassword
           else bindE (hash_with L E new_password) (\<lambda>h. Inr (snapshot, h)))) of
           Inl err \<Rightarrow> (Inl err, d, [])
         | Inr (snapshot, password_hash) \<Rightarrow>
           (case password_transaction (change_password_tx L E actor target token snapshot password_hash d) d of
              (r, d') \<Rightarrow> (r, d', []))))"


section \<open>Requesting a reset\<close>

text \<open>The provider reports one of three results, or raises.\<close>

datatype delivery_status = SENT | REJECTED | TIMED_OUT

datatype mail_kind = REGISTRATION_MAIL | PASSWORD_RESET_MAIL

record mail =
  ml_kind :: mail_kind
  ml_recipient :: pystr
  ml_token :: pystr

definition deliver :: "(mail \<Rightarrow> delivery_status res) \<Rightarrow> datetime \<Rightarrow> mail \<Rightarrow> account_db \<Rightarrow> unit outcome" where
  "deliver send clock m d =
     (case send m of
        Inl err \<Rightarrow> (Inl err, d, [])
      | Inr status \<Rightarrow> (Inr (), d, if status \<noteq> SENT then emit EMAIL_DELIVERY_FAILED clock else []))"

definition issue_reset :: "auth_env \<Rightarrow> uuid \<Rightarrow> account_db \<Rightarrow> ((pystr \<times> uuid) \<times> account_db) res" where
  "issue_reset E challenge d = issue_token ResetDigestConflict (add_reset_token challenge (ae_now E)) (attempts E) d"

text \<open>\<open>None\<close> is the early return inside the transaction.\<close>

definition request_reset_tx :: "auth_lib \<Rightarrow> auth_env \<Rightarrow> uuid \<Rightarrow> pystr \<Rightarrow> account_db \<Rightarrow> (pystr option \<times> account_db) res" where
  "request_reset_tx L E user email d =
     bindE (get_by_id (al_text L) user d) (\<lambda>found.
     case found of
       None \<Rightarrow> Inr (None, d)
     | Some u \<Rightarrow>
       if user_status u \<noteq> ACTIVE \<or> user_email u \<noteq> email then Inr (None, d)
       else
         let challenges = lock_challenges (user_id u) None d; now = ae_now E in
         bindE (case find (\<lambda>h. h_status h = CH_ACTIVE) challenges of
                  None \<Rightarrow> Inr (None, d)
                | Some h \<Rightarrow>
                  if now \<ge> h_expires h then bindE (expire_challenge (h_id h) d) (\<lambda>d. Inr (None, d)) else Inr (Some h, d))
           (\<lambda>(challenge, d).
         bindE (case challenge of
                  None \<Rightarrow> create_challenge (user_id u) (ae_challenge E) now (now + seconds (30 * 60)) d
                | Some h \<Rightarrow> Inr (h, d))
           (\<lambda>(challenge, d).
         bindE (issue_reset E (h_id challenge) d) (\<lambda>((token, _), d). Inr (Some token, d)))))"

definition request_password_reset ::
    "auth_lib \<Rightarrow> (mail \<Rightarrow> delivery_status res) \<Rightarrow> auth_env \<Rightarrow> pystr \<Rightarrow> account_db \<Rightarrow> account_db \<Rightarrow> unit outcome" where
  "request_password_reset L send E email d0 d =
     (case get_by_email (al_text L) email d0 of
        Inl err \<Rightarrow> (Inl err, d, [])
      | Inr None \<Rightarrow> (Inr (), d, [])
      | Inr (Some snapshot) \<Rightarrow>
        if user_status snapshot \<noteq> ACTIVE then (Inr (), d, [])
        else
        (case password_transaction (request_reset_tx L E (user_id snapshot) email d) d of
           (Inl err, d') \<Rightarrow> (Inl err, d', [])
         | (Inr None, d') \<Rightarrow> (Inr (), d', [])
         | (Inr (Some token), d') \<Rightarrow>
             deliver send (ae_clock E) \<lparr>ml_kind = PASSWORD_RESET_MAIL, ml_recipient = email, ml_token = token\<rparr> d'))"

end
