(* ===== verification/Registrations.thy ===== *)
theory Registrations
  imports Password_Lifecycle
begin

text \<open>
  \<open>src/mdm/application/registrations.py\<close> over
  \<open>src/mdm/infrastructure/repositories/registrations.py\<close>: requesting a registration mail and
  completing the registration. Transactions of one address are serialized by an advisory lock;
  the identity is always read again under it.
\<close>

section \<open>The registration transaction\<close>

text \<open>\<open>EmailAddress(row.normalized_email)\<close> validates the stored address again.\<close>

definition challenge_email :: "text_lib \<Rightarrow> pystr challenge_row option \<Rightarrow> (pystr challenge_row \<times> pystr) option res" where
  "challenge_email lib h =
     (case h of None \<Rightarrow> Inr None | Some x \<Rightarrow> bindE (email_address lib (h_owner x)) (\<lambda>e. Inr (Some (x, e))))"

definition user_exists :: "pystr \<Rightarrow> account_db \<Rightarrow> bool" where
  "user_exists email d \<longleftrightarrow> email \<in> set (map a_email (ac_users d))"

definition lock_active_challenge :: "text_lib \<Rightarrow> pystr \<Rightarrow> account_db \<Rightarrow> (pystr challenge_row \<times> pystr) option res" where
  "lock_active_challenge lib email d =
     challenge_email lib (find (\<lambda>h. h_owner h = email \<and> h_status h = CH_ACTIVE) (ac_registrations d))"

definition lock_challenge :: "text_lib \<Rightarrow> pystr \<Rightarrow> uuid \<Rightarrow> account_db \<Rightarrow> (pystr challenge_row \<times> pystr) option res" where
  "lock_challenge lib email i d =
     challenge_email lib (find (\<lambda>h. h_id h = i \<and> h_owner h = email) (ac_registrations d))"

definition lock_registration_token :: "uuid \<Rightarrow> uuid \<Rightarrow> account_db \<Rightarrow> secret_row option" where
  "lock_registration_token challenge token d =
     find (\<lambda>k. k_id k = token \<and> k_challenge k = challenge) (ac_registration_tokens d)"

definition expire_registration :: "uuid \<Rightarrow> account_db \<Rightarrow> account_db res" where
  "expire_registration i d = update_registrations (\<lambda>h. h_id h = i) (\<lambda>h. h\<lparr>h_status := CH_EXPIRED\<rparr>) d"

definition create_registration :: "pystr \<Rightarrow> uuid \<Rightarrow> int \<Rightarrow> int \<Rightarrow> account_db \<Rightarrow> account_db res" where
  "create_registration email i now expires d = insert_registration (new_challenge i email now expires) d"

definition add_registration_token :: "uuid \<Rightarrow> int \<Rightarrow> pystr \<Rightarrow> uuid \<Rightarrow> account_db \<Rightarrow> account_db res" where
  "add_registration_token challenge now token i d =
     (case insert_registration_token \<lparr>k_id = i, k_challenge = challenge, k_digest = token_digest token, k_issued = now,
         k_used = None\<rparr> d of
        Inl (IntegrityError c) \<Rightarrow>
          if c = Some ''uq_registration_tokens_digest'' then raise_account RegistrationDigestConflict
          else Inl (IntegrityError c)
      | r \<Rightarrow> r)"

definition complete_challenge :: "uuid \<Rightarrow> uuid \<Rightarrow> int \<Rightarrow> account_db \<Rightarrow> account_db res" where
  "complete_challenge challenge token now d =
     bindE (use_registration_token token challenge now d) (\<lambda>d.
       update_registrations (\<lambda>h. h_id h = challenge) (\<lambda>h. h\<lparr>h_status := CH_COMPLETED, h_completed := Some now\<rparr>) d)"

record registration_target =
  gt_challenge :: uuid
  gt_token :: uuid
  gt_email :: pystr

definition find_registration :: "text_lib \<Rightarrow> digest \<Rightarrow> account_db \<Rightarrow> registration_target option res" where
  "find_registration lib dg d =
     (case find (\<lambda>k. k_digest k = dg) (ac_registration_tokens d) of
        None \<Rightarrow> Inr None
      | Some k \<Rightarrow>
        (case find (\<lambda>h. h_id h = k_challenge k) (ac_registrations d) of
           None \<Rightarrow> Inr None
         | Some h \<Rightarrow> bindE (email_address lib (h_owner h)) (\<lambda>e.
             Inr (Some \<lparr>gt_challenge = k_challenge k, gt_token = k_id k, gt_email = e\<rparr>))))"

definition registration_persistence :: "'a res \<Rightarrow> 'a res" where
  "registration_persistence r =
     (case r of
        Inl (IntegrityError _) \<Rightarrow> raise_account RegistrationUnavailable
      | Inl (AccountError UserPersistenceError) \<Rightarrow> raise_account RegistrationUnavailable
      | _ \<Rightarrow> r)"

definition registration_transaction :: "('a \<times> account_db) res \<Rightarrow> account_db \<Rightarrow> 'a res \<times> account_db" where
  "registration_transaction body d = transact (registration_persistence (commit body)) d"


section \<open>Completing a registration\<close>

text \<open>\<open>email.value.rsplit("@", 1)[1]\<close>.\<close>

definition email_domain :: "pystr \<Rightarrow> pystr res" where
  "email_domain email =
     (if 64 \<in> set email then Inr (rev (takeWhile (\<lambda>c. c \<noteq> 64) (rev email))) else Inl IndexError)"

definition require_allowed_domain :: "pystr \<Rightarrow> pystr list \<Rightarrow> unit res" where
  "require_allowed_domain email allowed_domains =
     bindE (email_domain email) (\<lambda>domain.
       if domain \<notin> set allowed_domains then raise_account EmailDomainNotAllowed else Inr ())"

definition registered_user :: "pystr \<Rightarrow> pystr \<Rightarrow> pystr \<Rightarrow> new_user" where
  "registered_user email name password_hash =
     \<lparr>nu_email = email, nu_name = name, nu_hash = password_hash, nu_role = USER, nu_status = ACTIVE\<rparr>"

definition registration_tx ::
    "auth_lib \<Rightarrow> pystr list \<Rightarrow> auth_env \<Rightarrow> registration_target \<Rightarrow> pystr \<Rightarrow> pystr \<Rightarrow> pystr \<Rightarrow> account_db
      \<Rightarrow> (session_grant \<times> account_db) res" where
  "registration_tx L allowed_domains E target token name password_hash d =
     bindE (lock_challenge (al_text L) (gt_email target) (gt_challenge target) d) (\<lambda>challenge.
     let now = ae_now E in
     case (challenge, lock_registration_token (gt_challenge target) (gt_token target) d) of
       (Some (h, email), Some stored) \<Rightarrow>
         if h_id h \<noteq> gt_challenge target \<or> email \<noteq> gt_email target \<or> h_status h \<noteq> CH_ACTIVE \<or> now \<ge> h_expires h
           \<or> k_id stored \<noteq> gt_token target \<or> k_challenge stored \<noteq> h_id h \<or> k_digest stored \<noteq> token_digest token
           \<or> k_used stored \<noteq> None
         then raise_account InvalidRegistrationToken
         else
           bindE (require_allowed_domain email allowed_domains) (\<lambda>_.
           bindE (case bindE (new_user_init (registered_user email name password_hash)) (\<lambda>n.
                         add_user (al_text L) n (ae_user E) (ae_created E) (ae_updated E) d) of
                    Inl err \<Rightarrow> if err = AccountError DuplicateUserEmail then raise_account InvalidRegistrationToken else Inl err
                  | r \<Rightarrow> r)
             (\<lambda>(u, d).
           let expires = now + days 7 in
           bindE (create_family (user_id u) (ae_family E) now expires d) (\<lambda>d.
           bindE (issue_refresh E (ae_family E) d) (\<lambda>((refresh, _), d).
           bindE (complete_challenge (h_id h) (k_id stored) now d) (\<lambda>d.
           bindE (case sign_with L E u of Inl _ \<Rightarrow> raise_account RegistrationUnavailable | r \<Rightarrow> r) (\<lambda>access.
             Inr (\<lparr>sg_access = access, sg_refresh = refresh, sg_expires = expires, sg_issued = now\<rparr>, d)))))))
     | _ \<Rightarrow> raise_account InvalidRegistrationToken)"

definition complete_registration ::
    "auth_lib \<Rightarrow> pystr list \<Rightarrow> auth_env \<Rightarrow> pystr \<Rightarrow> pystr \<Rightarrow> pystr \<Rightarrow> account_db \<Rightarrow> account_db \<Rightarrow> session_grant outcome" where
  "complete_registration L allowed_domains E token name password d0 d =
     (case bindE (find_registration (al_text L) (token_digest token) d0) (\<lambda>found.
        case found of
          None \<Rightarrow> raise_account InvalidRegistrationToken
        | Some target \<Rightarrow>
          bindE (require_allowed_domain (gt_email target) allowed_domains) (\<lambda>_.
          bindE (hash_with L E password) (\<lambda>h. Inr (target, h)))) of
        Inl err \<Rightarrow> (Inl err, d, [])
      | Inr (target, password_hash) \<Rightarrow>
        (case registration_transaction (registration_tx L allowed_domains E target token name password_hash d) d of
           (r, d') \<Rightarrow> (r, d', [])))"


section \<open>Requesting a registration\<close>

definition issue_registration :: "auth_env \<Rightarrow> uuid \<Rightarrow> account_db \<Rightarrow> ((pystr \<times> uuid) \<times> account_db) res" where
  "issue_registration E challenge d =
     issue_token RegistrationDigestConflict (add_registration_token challenge (ae_now E)) (attempts E) d"

definition request_registration_tx :: "auth_lib \<Rightarrow> auth_env \<Rightarrow> pystr \<Rightarrow> account_db \<Rightarrow> (pystr option \<times> account_db) res" where
  "request_registration_tx L E email d =
     (if user_exists email d then Inr (None, d)
      else
        bindE (lock_active_challenge (al_text L) email d) (\<lambda>challenge.
        let now = ae_now E in
        bindE (case challenge of
                 None \<Rightarrow> Inr (None, d)
               | Some (h, _) \<Rightarrow>
                 if now \<ge> h_expires h then bindE (expire_registration (h_id h) d) (\<lambda>d. Inr (None, d))
                 else Inr (Some (h_id h), d))
          (\<lambda>(challenge, d).
        bindE (case challenge of
                 None \<Rightarrow> bindE (create_registration email (ae_challenge E) now (now + days 1) d) (\<lambda>d. Inr (ae_challenge E, d))
               | Some i \<Rightarrow> Inr (i, d))
          (\<lambda>(i, d).
        bindE (issue_registration E i d) (\<lambda>((token, _), d). Inr (Some token, d))))))"

definition request_registration ::
    "auth_lib \<Rightarrow> (mail \<Rightarrow> delivery_status res) \<Rightarrow> pystr list \<Rightarrow> auth_env \<Rightarrow> pystr \<Rightarrow> account_db \<Rightarrow> unit outcome" where
  "request_registration L send allowed_domains E email d =
     (case require_allowed_domain email allowed_domains of
        Inl err \<Rightarrow> (Inl err, d, [])
      | Inr _ \<Rightarrow>
        (case registration_transaction (request_registration_tx L E email d) d of
           (Inl err, d') \<Rightarrow> (Inl err, d', [])
         | (Inr None, d') \<Rightarrow> (Inr (), d', [])
         | (Inr (Some token), d') \<Rightarrow>
             deliver send (ae_clock E) \<lparr>ml_kind = REGISTRATION_MAIL, ml_recipient = email, ml_token = token\<rparr> d'))"

end
