(* ===== verification/User_Management.thy ===== *)
theory User_Management
  imports Registrations
begin

text \<open>
  \<open>src/mdm/application/user_management.py\<close> over
  \<open>src/mdm/infrastructure/repositories/user_management.py\<close> (role and status changes) and
  \<open>src/mdm/application/bootstrap.py\<close> over \<open>src/mdm/infrastructure/repositories/bootstrap.py\<close> (the first
  SUPER_ADMIN).
\<close>

section \<open>Role and status\<close>

definition set_role :: "uuid \<Rightarrow> user_role \<Rightarrow> int \<Rightarrow> account_db \<Rightarrow> account_db res" where
  "set_role user new now d = update_user user (\<lambda>r. r\<lparr>a_role := new, a_updated := now\<rparr>) d"

definition set_status :: "uuid \<Rightarrow> user_status \<Rightarrow> int \<Rightarrow> account_db \<Rightarrow> account_db res" where
  "set_status user new now d = update_user user (\<lambda>r. r\<lparr>a_status := new, a_updated := now\<rparr>) d"

text \<open>\<open>NewUserSecurityEvent(...)\<close> checks the contract, \<open>audit\<close> inserts the row.\<close>

definition audit_event :: "security_event \<Rightarrow> account_db \<Rightarrow> account_db res" where
  "audit_event ev d = bindE (validate_security_event_contract ev) (\<lambda>_. insert_event ev d)"

definition role_event :: "uuid \<Rightarrow> uuid \<Rightarrow> human_principal \<Rightarrow> user_role \<Rightarrow> user_role \<Rightarrow> int \<Rightarrow> security_event" where
  "role_event i user p old new now =
     \<lparr>ev_id = i, ev_type = USER_ROLE_CHANGED, ev_subject = user, ev_occurred_at = Aware now,
      ev_initiator = AUTHENTICATED_USER, ev_initiator_user = Some (principal_user_id p),
      ev_initiator_role = Some (principal_role p), ev_previous_role = Some old, ev_new_role = Some new,
      ev_previous_status = None, ev_new_status = None\<rparr>"

definition status_event :: "uuid \<Rightarrow> uuid \<Rightarrow> human_principal \<Rightarrow> user_status \<Rightarrow> user_status \<Rightarrow> int \<Rightarrow> security_event" where
  "status_event i user p old new now =
     \<lparr>ev_id = i, ev_type = (if new = DISABLED then USER_DISABLED else USER_ENABLED), ev_subject = user,
      ev_occurred_at = Aware now,
      ev_initiator = AUTHENTICATED_USER, ev_initiator_user = Some (principal_user_id p),
      ev_initiator_role = Some (principal_role p), ev_previous_role = None, ev_new_role = None,
      ev_previous_status = Some old, ev_new_status = Some new\<rparr>"

definition management_transaction :: "('a \<times> account_db) res \<Rightarrow> account_db \<Rightarrow> 'a res \<times> account_db" where
  "management_transaction body d = transact (persistence UserManagementUnavailable (commit body)) d"

definition change_role_tx ::
    "text_lib \<Rightarrow> auth_env \<Rightarrow> human_principal \<Rightarrow> uuid \<Rightarrow> user_role \<Rightarrow> account_db \<Rightarrow> (unit \<times> account_db) res" where
  "change_role_tx lib E p user new d =
     bindE (get_by_id lib user d) (\<lambda>found.
     case found of
       None \<Rightarrow> raise_account UserNotFound
     | Some u \<Rightarrow>
       bindE (authorize_role_change p (user_id u) (user_role u) new) (\<lambda>_.
       if user_role u = new then Inr ((), d)
       else
         let now = ae_now E in
         bindE (set_role (user_id u) new now d) (\<lambda>d.
         bindE (audit_event (role_event (ae_event E) (user_id u) p (user_role u) new now) d) (\<lambda>d. Inr ((), d)))))"

definition change_role ::
    "text_lib \<Rightarrow> auth_env \<Rightarrow> human_principal \<Rightarrow> uuid \<Rightarrow> user_role \<Rightarrow> account_db \<Rightarrow> unit outcome" where
  "change_role lib E p user new d =
     (case authorize p MANAGE_USER_ROLES of
        Inl err \<Rightarrow> (Inl err, d, [])
      | Inr _ \<Rightarrow> (case management_transaction (change_role_tx lib E p user new d) d of (r, d') \<Rightarrow> (r, d', [])))"

definition change_status_tx ::
    "text_lib \<Rightarrow> auth_env \<Rightarrow> human_principal \<Rightarrow> uuid \<Rightarrow> user_status \<Rightarrow> account_db \<Rightarrow> (unit \<times> account_db) res" where
  "change_status_tx lib E p user new d =
     bindE (get_by_id lib user d) (\<lambda>found.
     case found of
       None \<Rightarrow> raise_account UserNotFound
     | Some u \<Rightarrow>
       if user_status u = new then Inr ((), d)
       else
         let families = (if new = DISABLED then lock_families (user_id u) None d else []);
             challenges = (if new = DISABLED then lock_challenges (user_id u) None d else []);
             now = ae_now E in
         bindE (revoke_all families now d) (\<lambda>d.
         bindE (revoke_challenges challenges now d) (\<lambda>d.
         bindE (set_status (user_id u) new now d) (\<lambda>d.
         bindE (audit_event (status_event (ae_event E) (user_id u) p (user_status u) new now) d) (\<lambda>d. Inr ((), d))))))"

definition change_status ::
    "text_lib \<Rightarrow> auth_env \<Rightarrow> human_principal \<Rightarrow> uuid \<Rightarrow> user_status \<Rightarrow> account_db \<Rightarrow> unit outcome" where
  "change_status lib E p user new d =
     (case authorize p MANAGE_USER_STATUS of
        Inl err \<Rightarrow> (Inl err, d, [])
      | Inr _ \<Rightarrow>
        if principal_user_id p = user then (Inl AuthorizationDenied, d, [])
        else (case management_transaction (change_status_tx lib E p user new d) d of (r, d') \<Rightarrow> (r, d', [])))"


section \<open>Bootstrap\<close>

datatype bootstrap_outcome = CREATED | NO_OP

definition bootstrap_event :: "uuid \<Rightarrow> uuid \<Rightarrow> int \<Rightarrow> security_event" where
  "bootstrap_event i user now =
     \<lparr>ev_id = i, ev_type = INITIAL_SUPER_ADMIN_BOOTSTRAPPED, ev_subject = user, ev_occurred_at = Aware now,
      ev_initiator = BOOTSTRAP_CLI, ev_initiator_user = None, ev_initiator_role = None,
      ev_previous_role = None, ev_new_role = Some SUPER_ADMIN, ev_previous_status = None, ev_new_status = Some ACTIVE\<rparr>"

text \<open>\<open>SqlAlchemyUserSecurityEventRepository.add\<close>; the time of the event is the default of its column.\<close>

definition add_security_event :: "security_event \<Rightarrow> account_db \<Rightarrow> account_db res" where
  "add_security_event ev d =
     bindE (case insert_event ev d of Inl (IntegrityError _) \<Rightarrow> raise_account UserPersistenceError | r \<Rightarrow> r) (\<lambda>d.
     bindE (security_event_init ev) (\<lambda>_. Inr d))"

definition create_with_security_event :: "text_lib \<Rightarrow> auth_env \<Rightarrow> new_user \<Rightarrow> account_db \<Rightarrow> (user \<times> account_db) res" where
  "create_with_security_event lib E n d =
     bindE (add_user lib n (ae_user E) (ae_created E) (ae_updated E) d) (\<lambda>(u, d).
     let ev = bootstrap_event (ae_event E) (user_id u) (ae_now E) in
     bindE (validate_security_event_contract ev) (\<lambda>_.
     bindE (add_security_event ev d) (\<lambda>d. Inr (u, d))))"

definition bootstrap_verify :: "auth_lib \<Rightarrow> auth_env \<Rightarrow> pystr \<Rightarrow> pystr \<Rightarrow> user \<Rightarrow> account_db \<Rightarrow> bootstrap_outcome res" where
  "bootstrap_verify L E email password existing d =
     bindE (case verify_with L E password (user_password_hash existing) of
              Inl err \<Rightarrow> if err = AccountError InvalidStoredPasswordHash then raise_account BootstrapStateConflict else Inl err
            | r \<Rightarrow> r) (\<lambda>matches.
     bindE (get_by_email (al_text L) email d) (\<lambda>found.
     case found of
       None \<Rightarrow> raise_account BootstrapStateConflict
     | Some current \<Rightarrow>
       if user_id current \<noteq> user_id existing \<or> user_password_hash current \<noteq> user_password_hash existing
         \<or> user_role current \<noteq> user_role existing \<or> user_status current \<noteq> user_status existing \<or> \<not> matches
         \<or> user_role current \<noteq> SUPER_ADMIN \<or> user_status current \<noteq> ACTIVE
       then raise_account BootstrapStateConflict else Inr NO_OP))"

text \<open>
  Up to three reads: \<open>d0\<close> before the creation, \<open>d1\<close> after a lost race, \<open>d2\<close> after the password was
  verified; \<open>d\<close> is what the creating transaction sees.
\<close>

definition bootstrap_super_admin ::
    "auth_lib \<Rightarrow> auth_env \<Rightarrow> pystr \<Rightarrow> pystr \<Rightarrow> pystr \<Rightarrow> account_db \<Rightarrow> account_db \<Rightarrow> account_db \<Rightarrow> account_db
      \<Rightarrow> bootstrap_outcome res \<times> account_db" where
  "bootstrap_super_admin L E email name password d0 d1 d2 d =
     (case bindE (email_address (al_text L) email) (\<lambda>e.
        bindE (display_name (lib_nfc (al_text L)) name) (\<lambda>n.
        bindE (plain_password (lib_nfc (al_text L)) password) (\<lambda>p.
        bindE (get_by_email (al_text L) e d0) (\<lambda>existing. Inr (e, n, p, existing))))) of
        Inl err \<Rightarrow> (Inl err, d)
      | Inr (e, n, p, Some existing) \<Rightarrow> (bootstrap_verify L E e p existing d2, d)
      | Inr (e, n, p, None) \<Rightarrow>
        (case bindE (hash_with L E p) (\<lambda>h. new_user_init
           \<lparr>nu_email = e, nu_name = n, nu_hash = h, nu_role = SUPER_ADMIN, nu_status = ACTIVE\<rparr>) of
           Inl err \<Rightarrow> (Inl err, d)
         | Inr user \<Rightarrow>
           (case transact (commit (create_with_security_event (al_text L) E user d)) d of
              (Inr _, d') \<Rightarrow> (Inr CREATED, d')
            | (Inl err, d') \<Rightarrow>
              if err \<noteq> AccountError DuplicateUserEmail then (Inl err, d')
              else (bindE (get_by_email (al_text L) e d1) (\<lambda>found.
                      case found of
                        None \<Rightarrow> raise_account BootstrapPersistenceError
                      | Some existing \<Rightarrow> bootstrap_verify L E e p existing d2), d'))))"

end
