(* ===== verification/Account_Laws.thy ===== *)
theory Account_Laws
  imports User_Management
begin

text \<open>
  What the statements of the account transactions do when they succeed, as equations on the
  tables, and what the database itself keeps under every one of them (\<open>tables_ok\<close>).
\<close>

section \<open>Statements that succeed\<close>

named_theorems account_stmts \<open>exact success conditions of the statements on the account tables\<close>

lemma integrity_neq_Inr [simp]: "integrity n \<noteq> Inr x"
  by (simp add: integrity_def)

lemma insert_user_Inr [account_stmts]:
  "insert_user r d = Inr d' \<longleftrightarrow> d' = d\<lparr>ac_users := ac_users d @ [r]\<rparr> \<and> user_check r
     \<and> a_id r \<notin> a_id ` set (ac_users d) \<and> a_email r \<notin> a_email ` set (ac_users d)"
  by (auto simp: insert_user_def)

lemma update_user_Inr [account_stmts]:
  "update_user i f d = Inr d' \<longleftrightarrow> d' = d\<lparr>ac_users := map (\<lambda>r. if a_id r = i then f r else r) (ac_users d)\<rparr>
     \<and> (\<forall>r \<in> set (ac_users d'). user_check r)"
  by (auto simp: update_user_def Let_def)

lemma insert_event_Inr [account_stmts]:
  "insert_event ev d = Inr d' \<longleftrightarrow> d' = d\<lparr>ac_events := ac_events d @ [ev]\<rparr> \<and> event_check ev
     \<and> ev_id ev \<notin> ev_id ` set (ac_events d) \<and> ev_subject ev \<in> a_id ` set (ac_users d)
     \<and> (\<forall>u. ev_initiator_user ev = Some u \<longrightarrow> u \<in> a_id ` set (ac_users d))"
  by (auto simp: insert_event_def split: option.splits)

lemma insert_family_Inr [account_stmts]:
  "insert_family f d = Inr d' \<longleftrightarrow> d' = d\<lparr>ac_families := ac_families d @ [f]\<rparr> \<and> family_check f
     \<and> f_id f \<notin> f_id ` set (ac_families d) \<and> f_user f \<in> a_id ` set (ac_users d)
     \<and> (f_status f = FAMILY_ACTIVE \<longrightarrow> (\<forall>g \<in> set (ac_families d). f_status g = FAMILY_ACTIVE \<longrightarrow> f_user g \<noteq> f_user f))"
  by (auto simp: insert_family_def)

lemma update_families_Inr [account_stmts]:
  "update_families p g d = Inr d' \<longleftrightarrow> d' = d\<lparr>ac_families := map (\<lambda>f. if p f then g f else f) (ac_families d)\<rparr>
     \<and> (\<forall>f \<in> set (ac_families d'). family_check f)"
  by (auto simp: update_families_def Let_def)

lemma insert_refresh_Inr [account_stmts]:
  "insert_refresh t d = Inr d' \<longleftrightarrow> d' = d\<lparr>ac_refresh := ac_refresh d @ [t]\<rparr> \<and> refresh_check t
     \<and> t_id t \<notin> t_id ` set (ac_refresh d) \<and> t_digest t \<notin> t_digest ` set (ac_refresh d)
     \<and> t_family t \<in> f_id ` set (ac_families d)"
  by (auto simp: insert_refresh_def)

lemma update_refresh_Inr [account_stmts]:
  "update_refresh p g d = Inr d' \<longleftrightarrow> d' = d\<lparr>ac_refresh := map (\<lambda>t. if p t then g t else t) (ac_refresh d)\<rparr>
     \<and> (\<forall>t \<in> set (ac_refresh d'). refresh_check t)"
  by (auto simp: update_refresh_def Let_def)

lemma challenge_unique_Inr [account_stmts]:
  "challenge_unique k a h rows = Inr u \<longleftrightarrow> h_id h \<notin> h_id ` set rows
     \<and> (h_status h = CH_ACTIVE \<longrightarrow> (\<forall>g \<in> set rows. h_status g = CH_ACTIVE \<longrightarrow> h_owner g \<noteq> h_owner h))"
  by (auto simp: challenge_unique_def)

lemma insert_registration_Inr [account_stmts]:
  "insert_registration h d = Inr d' \<longleftrightarrow> d' = d\<lparr>ac_registrations := ac_registrations d @ [h]\<rparr> \<and> registration_check h
     \<and> h_id h \<notin> h_id ` set (ac_registrations d)
     \<and> (h_status h = CH_ACTIVE \<longrightarrow> (\<forall>g \<in> set (ac_registrations d). h_status g = CH_ACTIVE \<longrightarrow> h_owner g \<noteq> h_owner h))"
  by (auto simp: insert_registration_def bindE_eq_Inr challenge_unique_Inr)

lemma insert_reset_Inr [account_stmts]:
  "insert_reset h d = Inr d' \<longleftrightarrow> d' = d\<lparr>ac_resets := ac_resets d @ [h]\<rparr> \<and> challenge_check h
     \<and> h_id h \<notin> h_id ` set (ac_resets d) \<and> h_owner h \<in> a_id ` set (ac_users d)
     \<and> (h_status h = CH_ACTIVE \<longrightarrow> (\<forall>g \<in> set (ac_resets d). h_status g = CH_ACTIVE \<longrightarrow> h_owner g \<noteq> h_owner h))"
  by (auto simp: insert_reset_def bindE_eq_Inr challenge_unique_Inr)

lemma update_registrations_Inr [account_stmts]:
  "update_registrations p g d = Inr d' \<longleftrightarrow>
     d' = d\<lparr>ac_registrations := map (\<lambda>h. if p h then g h else h) (ac_registrations d)\<rparr>
     \<and> (\<forall>h \<in> set (ac_registrations d'). registration_check h)"
  by (auto simp: update_registrations_def Let_def)

lemma update_resets_Inr [account_stmts]:
  "update_resets p g d = Inr d' \<longleftrightarrow> d' = d\<lparr>ac_resets := map (\<lambda>h. if p h then g h else h) (ac_resets d)\<rparr>
     \<and> (\<forall>h \<in> set (ac_resets d'). challenge_check h)"
  by (auto simp: update_resets_def Let_def)

lemma secret_unique_Inr [account_stmts]:
  "secret_unique a b k rows = Inr u \<longleftrightarrow> k_id k \<notin> k_id ` set rows \<and> k_digest k \<notin> k_digest ` set rows"
  by (auto simp: secret_unique_def)

lemma insert_registration_token_Inr [account_stmts]:
  "insert_registration_token k d = Inr d' \<longleftrightarrow> d' = d\<lparr>ac_registration_tokens := ac_registration_tokens d @ [k]\<rparr>
     \<and> secret_check k \<and> k_id k \<notin> k_id ` set (ac_registration_tokens d)
     \<and> k_digest k \<notin> k_digest ` set (ac_registration_tokens d) \<and> k_challenge k \<in> h_id ` set (ac_registrations d)"
  by (auto simp: insert_registration_token_def bindE_eq_Inr secret_unique_Inr)

lemma insert_reset_token_Inr [account_stmts]:
  "insert_reset_token k d = Inr d' \<longleftrightarrow> d' = d\<lparr>ac_reset_tokens := ac_reset_tokens d @ [k]\<rparr>
     \<and> secret_check k \<and> k_id k \<notin> k_id ` set (ac_reset_tokens d)
     \<and> k_digest k \<notin> k_digest ` set (ac_reset_tokens d) \<and> k_challenge k \<in> h_id ` set (ac_resets d)"
  by (auto simp: insert_reset_token_def bindE_eq_Inr secret_unique_Inr)

lemma use_registration_token_Inr [account_stmts]:
  "use_registration_token i c now d = Inr d' \<longleftrightarrow>
     d' = d\<lparr>ac_registration_tokens := use_secret i c now (ac_registration_tokens d)\<rparr>
     \<and> (\<forall>k \<in> set (ac_registration_tokens d'). secret_check k)"
  by (auto simp: use_registration_token_def Let_def)

lemma use_reset_token_Inr [account_stmts]:
  "use_reset_token i c now d = Inr d' \<longleftrightarrow> d' = d\<lparr>ac_reset_tokens := use_secret i c now (ac_reset_tokens d)\<rparr>
     \<and> (\<forall>k \<in> set (ac_reset_tokens d'). secret_check k)"
  by (auto simp: use_reset_token_def Let_def)

lemma commit_Inr [account_stmts]:
  "commit r = Inr (x, d) \<longleftrightarrow> r = Inr (x, d) \<and> replacements_exist d"
  by (cases r) (auto simp: commit_def split: if_splits)

lemma persistence_Inr [account_stmts]: "persistence e r = Inr x \<longleftrightarrow> r = Inr x"
  by (auto simp: persistence_def split: sum.splits exn.splits)

lemma registration_persistence_Inr [account_stmts]: "registration_persistence r = Inr x \<longleftrightarrow> r = Inr x"
  by (auto simp: registration_persistence_def split: sum.splits exn.splits account_error.splits)

text \<open>A transaction either leaves the database it returned, or the one it started from.\<close>

lemma transact_cases:
  assumes "transact r d = (x, d')"
  obtains (fails) e where "x = Inl e" "r = Inl e" "d' = d" | (commits) y where "x = Inr y" "r = Inr (y, d')"
  using assms by (cases r) (auto simp: transact_def)


section \<open>Composite statements\<close>

lemma add_token_Inr [account_stmts]:
  "add_token family now token i d = Inr d' \<longleftrightarrow>
     insert_refresh \<lparr>t_id = i, t_family = family, t_digest = token_digest token, t_issued = now, t_used = None,
       t_replaced = None\<rparr> d = Inr d'"
  by (auto simp: add_token_def split: sum.splits exn.splits if_splits)

lemma add_reset_token_Inr [account_stmts]:
  "add_reset_token c now token i d = Inr d' \<longleftrightarrow>
     insert_reset_token \<lparr>k_id = i, k_challenge = c, k_digest = token_digest token, k_issued = now, k_used = None\<rparr> d = Inr d'"
  by (auto simp: add_reset_token_def split: sum.splits exn.splits if_splits)

lemma add_registration_token_Inr [account_stmts]:
  "add_registration_token c now token i d = Inr d' \<longleftrightarrow>
     insert_registration_token \<lparr>k_id = i, k_challenge = c, k_digest = token_digest token, k_issued = now, k_used = None\<rparr> d
       = Inr d'"
  by (auto simp: add_registration_token_def split: sum.splits exn.splits if_splits)

text \<open>Failed attempts leave nothing behind.\<close>

lemma issue_token_Inr:
  "issue_token c put as d = Inr ((token, i), d') \<Longrightarrow>
     \<exists>raw. (raw, i) \<in> set as \<and> generate_opaque_token raw = Inr token \<and> put token i d = Inr d'"
proof (induction c put as d rule: issue_token.induct)
  case (2 c put raw j as d)
  then obtain t where t: "generate_opaque_token raw = Inr t" by (auto simp: bindE_eq_Inr)
  show ?case
  proof (cases "put t j d")
    case (Inl e)
    then show ?thesis using 2 t by (auto split: if_splits)
  next
    case (Inr d1)
    then show ?thesis using 2 t by auto
  qed
qed simp

lemma issue_refresh_Inr:
  "issue_refresh E family d = Inr ((token, i), d') \<Longrightarrow> add_token family (ae_now E) token i d = Inr d'"
  unfolding issue_refresh_def by (drule issue_token_Inr) blast

lemma issue_reset_Inr:
  "issue_reset E c d = Inr ((token, i), d') \<Longrightarrow> add_reset_token c (ae_now E) token i d = Inr d'"
  unfolding issue_reset_def by (drule issue_token_Inr) blast

lemma issue_registration_Inr:
  "issue_registration E c d = Inr ((token, i), d') \<Longrightarrow> add_registration_token c (ae_now E) token i d = Inr d'"
  unfolding issue_registration_def by (drule issue_token_Inr) blast

definition revoked_row :: "int \<Rightarrow> family_row \<Rightarrow> family_row" where
  "revoked_row now f = f\<lparr>f_status := FAMILY_REVOKED, f_revoked := Some now, f_updated := now\<rparr>"

lemma revoked_row_simps [simp]:
  "f_id (revoked_row now f) = f_id f" "f_user (revoked_row now f) = f_user f"
  "f_status (revoked_row now f) = FAMILY_REVOKED" "f_expires (revoked_row now f) = f_expires f"
  "f_created (revoked_row now f) = f_created f"
  by (simp_all add: revoked_row_def)

lemma revoke_all_Inr:
  assumes "revoke_all fs now d = Inr d'"
  shows "d' = d\<lparr>ac_families := map (\<lambda>f. if f_id f \<in> f_id ` set fs \<and> f_status f = FAMILY_ACTIVE
    then revoked_row now f else f) (ac_families d)\<rparr>"
  using assms unfolding revoke_all_def
proof (induction fs arbitrary: d)
  case (Cons f fs)
  then obtain d1 where d1: "revoke (f_id f) now d = Inr d1" "foldE (\<lambda>f. revoke (f_id f) now) fs d1 = Inr d'"
    by (auto simp: bindE_eq_Inr)
  have "d1 = d\<lparr>ac_families := map (\<lambda>g. if f_id g = f_id f \<and> f_status g = FAMILY_ACTIVE then revoked_row now g else g)
      (ac_families d)\<rparr>"
    using d1(1) by (simp add: revoke_def account_stmts revoked_row_def)
  then show ?case using Cons.IH [OF d1(2)]
    by (auto simp: comp_def intro!: arg_cong [where f = "\<lambda>x. ac_families_update (\<lambda>_. x) d"])
qed simp

definition revoked_challenge :: "int \<Rightarrow> uuid challenge_row \<Rightarrow> uuid challenge_row" where
  "revoked_challenge now h = h\<lparr>h_status := CH_REVOKED, h_revoked := Some now\<rparr>"

lemma revoked_challenge_simps [simp]:
  "h_id (revoked_challenge now h) = h_id h" "h_owner (revoked_challenge now h) = h_owner h"
  "h_status (revoked_challenge now h) = CH_REVOKED" "h_expires (revoked_challenge now h) = h_expires h"
  "h_created (revoked_challenge now h) = h_created h"
  by (simp_all add: revoked_challenge_def)

lemma revoke_challenges_Inr:
  assumes "revoke_challenges hs now d = Inr d'"
  shows "d' = d\<lparr>ac_resets := map (\<lambda>h. if h_id h \<in> h_id ` set hs \<and> h_status h = CH_ACTIVE
    then revoked_challenge now h else h) (ac_resets d)\<rparr>"
  using assms unfolding revoke_challenges_def
proof (induction hs arbitrary: d)
  case (Cons h hs)
  then obtain d1 where d1: "revoke_challenge (h_id h) now d = Inr d1" "foldE (\<lambda>h. revoke_challenge (h_id h) now) hs d1 = Inr d'"
    by (auto simp: bindE_eq_Inr)
  have "d1 = d\<lparr>ac_resets := map (\<lambda>g. if h_id g = h_id h \<and> h_status g = CH_ACTIVE then revoked_challenge now g else g)
      (ac_resets d)\<rparr>"
    using d1(1) by (simp add: revoke_challenge_def account_stmts revoked_challenge_def)
  then show ?case using Cons.IH [OF d1(2)]
    by (auto simp: comp_def intro!: arg_cong [where f = "\<lambda>x. ac_resets_update (\<lambda>_. x) d"])
qed simp

lemma find_SomeD: "find P xs = Some x \<Longrightarrow> x \<in> set xs \<and> P x"
  by (auto simp: find_Some_iff)

lemma find_sort_key_filter:
  "find P (sort_key k (filter Q xs)) = Some x \<Longrightarrow> x \<in> set xs \<and> P x \<and> Q x"
  by (drule find_SomeD) simp


section \<open>What the database keeps\<close>

definition users_ok :: "user_row list \<Rightarrow> bool" where
  "users_ok us \<longleftrightarrow> distinct (map a_id us) \<and> distinct (map a_email us) \<and> (\<forall>r \<in> set us. user_check r)"

definition events_ok :: "uuid set \<Rightarrow> security_event list \<Rightarrow> bool" where
  "events_ok us evs \<longleftrightarrow> distinct (map ev_id evs) \<and> (\<forall>e \<in> set evs. event_check e \<and> ev_subject e \<in> us
     \<and> (\<forall>u. ev_initiator_user e = Some u \<longrightarrow> u \<in> us))"

definition families_ok :: "uuid set \<Rightarrow> family_row list \<Rightarrow> bool" where
  "families_ok us fs \<longleftrightarrow> distinct (map f_id fs) \<and> (\<forall>f \<in> set fs. family_check f \<and> f_user f \<in> us)
     \<and> distinct (map f_user (filter (\<lambda>f. f_status f = FAMILY_ACTIVE) fs))"

definition refresh_ok :: "uuid set \<Rightarrow> refresh_row list \<Rightarrow> bool" where
  "refresh_ok fs ts \<longleftrightarrow> distinct (map t_id ts) \<and> distinct (map t_digest ts)
     \<and> (\<forall>t \<in> set ts. refresh_check t \<and> t_family t \<in> fs)"

definition challenges_ok :: "('o challenge_row \<Rightarrow> bool) \<Rightarrow> 'o challenge_row list \<Rightarrow> bool" where
  "challenges_ok chk hs \<longleftrightarrow> distinct (map h_id hs) \<and> (\<forall>h \<in> set hs. chk h)
     \<and> distinct (map h_owner (filter (\<lambda>h. h_status h = CH_ACTIVE) hs))"

definition secrets_ok :: "uuid set \<Rightarrow> secret_row list \<Rightarrow> bool" where
  "secrets_ok hs ks \<longleftrightarrow> distinct (map k_id ks) \<and> distinct (map k_digest ks)
     \<and> (\<forall>k \<in> set ks. secret_check k \<and> k_challenge k \<in> hs)"

definition tables_ok :: "account_db \<Rightarrow> bool" where
  "tables_ok d \<longleftrightarrow>
     users_ok (ac_users d)
     \<and> events_ok (a_id ` set (ac_users d)) (ac_events d)
     \<and> families_ok (a_id ` set (ac_users d)) (ac_families d)
     \<and> refresh_ok (f_id ` set (ac_families d)) (ac_refresh d)
     \<and> challenges_ok registration_check (ac_registrations d)
     \<and> secrets_ok (h_id ` set (ac_registrations d)) (ac_registration_tokens d)
     \<and> challenges_ok challenge_check (ac_resets d)
     \<and> (\<forall>h \<in> set (ac_resets d). h_owner h \<in> a_id ` set (ac_users d))
     \<and> secrets_ok (h_id ` set (ac_resets d)) (ac_reset_tokens d)"

text \<open>A new row that meets the conditions of the insert keeps its table.\<close>

lemma users_ok_append:
  "users_ok (us @ [r]) \<longleftrightarrow> users_ok us \<and> user_check r \<and> a_id r \<notin> a_id ` set us \<and> a_email r \<notin> a_email ` set us"
  by (auto simp: users_ok_def)

lemma events_ok_append:
  "events_ok us (es @ [e]) \<longleftrightarrow> events_ok us es \<and> event_check e \<and> ev_id e \<notin> ev_id ` set es \<and> ev_subject e \<in> us
     \<and> (\<forall>u. ev_initiator_user e = Some u \<longrightarrow> u \<in> us)"
  by (auto simp: events_ok_def)

lemma no_equal_key: "k x \<notin> k ` {y. P y \<and> y \<in> set xs} \<longleftrightarrow> (\<forall>y \<in> set xs. P y \<longrightarrow> k y \<noteq> k x)"
  by (auto simp: image_iff)

lemma families_ok_append:
  "families_ok us (fs @ [f]) \<longleftrightarrow> families_ok us fs \<and> family_check f \<and> f_user f \<in> us \<and> f_id f \<notin> f_id ` set fs
     \<and> (f_status f = FAMILY_ACTIVE \<longrightarrow> (\<forall>g \<in> set fs. f_status g = FAMILY_ACTIVE \<longrightarrow> f_user g \<noteq> f_user f))"
  by (cases "f_status f = FAMILY_ACTIVE") (simp_all add: families_ok_def no_equal_key [where k = f_user] conj_ac)

lemma refresh_ok_append:
  "refresh_ok fs (ts @ [t]) \<longleftrightarrow> refresh_ok fs ts \<and> refresh_check t \<and> t_family t \<in> fs \<and> t_id t \<notin> t_id ` set ts
     \<and> t_digest t \<notin> t_digest ` set ts"
  by (simp add: refresh_ok_def) blast

lemma challenges_ok_append:
  "challenges_ok chk (hs @ [h]) \<longleftrightarrow> challenges_ok chk hs \<and> chk h \<and> h_id h \<notin> h_id ` set hs
     \<and> (h_status h = CH_ACTIVE \<longrightarrow> (\<forall>g \<in> set hs. h_status g = CH_ACTIVE \<longrightarrow> h_owner g \<noteq> h_owner h))"
  by (cases "h_status h = CH_ACTIVE") (simp_all add: challenges_ok_def no_equal_key [where k = h_owner] conj_ac)

lemma secrets_ok_append:
  "secrets_ok hs (ks @ [k]) \<longleftrightarrow> secrets_ok hs ks \<and> secret_check k \<and> k_challenge k \<in> hs \<and> k_id k \<notin> k_id ` set ks
     \<and> k_digest k \<notin> k_digest ` set ks"
  by (simp add: secrets_ok_def) blast

lemma more_keys:
  "events_ok us es \<Longrightarrow> us \<subseteq> us' \<Longrightarrow> events_ok us' es"
  "families_ok us fs \<Longrightarrow> us \<subseteq> us' \<Longrightarrow> families_ok us' fs"
  "refresh_ok is ts \<Longrightarrow> is \<subseteq> is' \<Longrightarrow> refresh_ok is' ts"
  "secrets_ok is ks \<Longrightarrow> is \<subseteq> is' \<Longrightarrow> secrets_ok is' ks"
  by (auto simp: events_ok_def families_ok_def refresh_ok_def secrets_ok_def)

text \<open>An update that keeps the keys keeps a table and what refers to it.\<close>

lemma image_key_update: "(\<And>x. k (f x) = k x) \<Longrightarrow> k ` set (map f xs) = k ` set xs"
  by (force simp: image_iff)

lemma distinct_filter_map:
  assumes "distinct (map k (filter P xs))" "\<And>x. k (g x) = k x" "\<And>x. P (g x) \<Longrightarrow> P x"
  shows "distinct (map k (filter P (map g xs)))"
proof -
  have sub: "k ` set (filter P (map g ys)) \<subseteq> k ` set (filter P ys)" for ys
    using assms(2,3) by auto
  show ?thesis using assms(1)
  proof (induction xs)
    case (Cons x xs)
    then show ?case using sub [of xs] assms(2,3) [of x] by (auto split: if_splits)
  qed simp
qed

lemma users_ok_map:
  assumes "users_ok us" "\<And>r. a_id (g r) = a_id r" "\<And>r. a_email (g r) = a_email r" "\<forall>r \<in> set (map g us). user_check r"
  shows "users_ok (map g us)"
  using assms by (simp add: users_ok_def comp_def)

lemma families_ok_map:
  assumes "families_ok us fs" "\<And>f. f_id (g f) = f_id f" "\<And>f. f_user (g f) = f_user f"
    "\<And>f. f_status (g f) = FAMILY_ACTIVE \<Longrightarrow> f_status f = FAMILY_ACTIVE" "\<forall>f \<in> set (map g fs). family_check f"
  shows "families_ok us (map g fs)"
proof -
  have "distinct (map f_user (filter (\<lambda>f. f_status f = FAMILY_ACTIVE) (map g fs)))"
    by (rule distinct_filter_map) (use assms in \<open>simp_all add: families_ok_def\<close>)
  then show ?thesis using assms(1-3,5) by (simp add: families_ok_def comp_def)
qed

lemma refresh_ok_map:
  assumes "refresh_ok fs ts" "\<And>t. t_id (g t) = t_id t" "\<And>t. t_digest (g t) = t_digest t"
    "\<And>t. t_family (g t) = t_family t" "\<forall>t \<in> set (map g ts). refresh_check t"
  shows "refresh_ok fs (map g ts)"
  using assms by (simp add: refresh_ok_def comp_def)

lemma challenges_ok_map:
  assumes "challenges_ok chk hs" "\<And>h. h_id (g h) = h_id h" "\<And>h. h_owner (g h) = h_owner h"
    "\<And>h. h_status (g h) = CH_ACTIVE \<Longrightarrow> h_status h = CH_ACTIVE" "\<forall>h \<in> set (map g hs). chk h"
  shows "challenges_ok chk (map g hs)"
proof -
  have "distinct (map h_owner (filter (\<lambda>h. h_status h = CH_ACTIVE) (map g hs)))"
    by (rule distinct_filter_map) (use assms in \<open>simp_all add: challenges_ok_def\<close>)
  then show ?thesis using assms(1-3,5) by (simp add: challenges_ok_def comp_def)
qed

lemma use_secret_keys [simp]:
  "map k_id (use_secret i c now ks) = map k_id ks" "map k_digest (use_secret i c now ks) = map k_digest ks"
  by (simp_all add: use_secret_def)

lemma secrets_ok_use:
  assumes "secrets_ok hs ks" "\<forall>k \<in> set (use_secret i c now ks). secret_check k"
  shows "secrets_ok hs (use_secret i c now ks)"
proof -
  have "\<forall>k \<in> set (use_secret i c now ks). k_challenge k \<in> hs"
    using assms(1) by (auto simp: use_secret_def secrets_ok_def)
  then show ?thesis using assms by (simp add: secrets_ok_def)
qed

text \<open>Every statement keeps the constraints.\<close>

lemma insert_user_tables:
  assumes "insert_user r d = Inr d'" "tables_ok d"
  shows "tables_ok d'"
  using assms
  by (simp add: account_stmts tables_ok_def users_ok_append more_keys(1,2) [OF _ subset_insertI])

lemma update_user_tables:
  assumes "update_user i f d = Inr d'" "tables_ok d" "\<And>r. a_id (f r) = a_id r" "\<And>r. a_email (f r) = a_email r"
  shows "tables_ok d'"
proof -
  let ?g = "\<lambda>r. if a_id r = i then f r else r"
  have d': "d' = d\<lparr>ac_users := map ?g (ac_users d)\<rparr>" "\<forall>r \<in> set (map ?g (ac_users d)). user_check r"
    using assms(1) by (simp_all add: account_stmts)
  have "users_ok (map ?g (ac_users d))"
    by (rule users_ok_map) (use assms(2-4) d'(2) in \<open>simp_all add: tables_ok_def\<close>)
  moreover have "a_id ` set (map ?g (ac_users d)) = a_id ` set (ac_users d)"
    by (rule image_key_update) (simp add: assms(3))
  ultimately show ?thesis using assms(2) by (simp add: d'(1) tables_ok_def del: set_map)
qed

lemma insert_event_tables: "insert_event e d = Inr d' \<Longrightarrow> tables_ok d \<Longrightarrow> tables_ok d'"
  by (simp add: account_stmts tables_ok_def events_ok_append)

lemma insert_family_tables: "insert_family f d = Inr d' \<Longrightarrow> tables_ok d \<Longrightarrow> tables_ok d'"
  by (simp add: account_stmts tables_ok_def families_ok_append more_keys(3) [OF _ subset_insertI])

lemma update_families_tables:
  assumes "update_families p g d = Inr d'" "tables_ok d" "\<And>f. f_id (g f) = f_id f" "\<And>f. f_user (g f) = f_user f"
    "\<And>f. f_status (g f) = FAMILY_ACTIVE \<Longrightarrow> f_status f = FAMILY_ACTIVE"
  shows "tables_ok d'"
proof -
  let ?g = "\<lambda>f. if p f then g f else f"
  have d': "d' = d\<lparr>ac_families := map ?g (ac_families d)\<rparr>" "\<forall>f \<in> set (map ?g (ac_families d)). family_check f"
    using assms(1) by (simp_all add: account_stmts)
  have "families_ok (a_id ` set (ac_users d)) (map ?g (ac_families d))"
    by (rule families_ok_map) (use assms(2-5) d'(2) in \<open>simp_all add: tables_ok_def split: if_splits\<close>)
  moreover have "f_id ` set (map ?g (ac_families d)) = f_id ` set (ac_families d)"
    by (rule image_key_update) (simp add: assms(3))
  ultimately show ?thesis using assms(2) by (simp add: d'(1) tables_ok_def del: set_map)
qed

lemma insert_refresh_tables: "insert_refresh t d = Inr d' \<Longrightarrow> tables_ok d \<Longrightarrow> tables_ok d'"
  by (simp add: account_stmts tables_ok_def refresh_ok_append)

lemma update_refresh_tables:
  assumes "update_refresh p g d = Inr d'" "tables_ok d"
    "\<And>t. t_id (g t) = t_id t" "\<And>t. t_digest (g t) = t_digest t" "\<And>t. t_family (g t) = t_family t"
  shows "tables_ok d'"
proof -
  let ?g = "\<lambda>t. if p t then g t else t"
  have d': "d' = d\<lparr>ac_refresh := map ?g (ac_refresh d)\<rparr>" "\<forall>t \<in> set (map ?g (ac_refresh d)). refresh_check t"
    using assms(1) by (simp_all add: account_stmts)
  have "refresh_ok (f_id ` set (ac_families d)) (map ?g (ac_refresh d))"
    by (rule refresh_ok_map) (use assms(2-5) d'(2) in \<open>simp_all add: tables_ok_def\<close>)
  then show ?thesis using assms(2) by (simp add: d'(1) tables_ok_def del: set_map)
qed

lemma insert_registration_tables: "insert_registration h d = Inr d' \<Longrightarrow> tables_ok d \<Longrightarrow> tables_ok d'"
  by (simp add: account_stmts tables_ok_def challenges_ok_append more_keys(4) [OF _ subset_insertI])

lemma insert_reset_tables: "insert_reset h d = Inr d' \<Longrightarrow> tables_ok d \<Longrightarrow> tables_ok d'"
  by (simp add: account_stmts tables_ok_def challenges_ok_append more_keys(4) [OF _ subset_insertI])

lemma update_registrations_tables:
  assumes "update_registrations p g d = Inr d'" "tables_ok d" "\<And>h. h_id (g h) = h_id h" "\<And>h. h_owner (g h) = h_owner h"
    "\<And>h. h_status (g h) = CH_ACTIVE \<Longrightarrow> h_status h = CH_ACTIVE"
  shows "tables_ok d'"
proof -
  let ?g = "\<lambda>h. if p h then g h else h"
  have d': "d' = d\<lparr>ac_registrations := map ?g (ac_registrations d)\<rparr>"
    "\<forall>h \<in> set (map ?g (ac_registrations d)). registration_check h"
    using assms(1) by (simp_all add: account_stmts)
  have "challenges_ok registration_check (map ?g (ac_registrations d))"
    by (rule challenges_ok_map) (use assms(2-5) d'(2) in \<open>simp_all add: tables_ok_def split: if_splits\<close>)
  moreover have "h_id ` set (map ?g (ac_registrations d)) = h_id ` set (ac_registrations d)"
    by (rule image_key_update) (simp add: assms(3))
  ultimately show ?thesis using assms(2) by (simp add: d'(1) tables_ok_def del: set_map)
qed

lemma update_resets_tables:
  assumes "update_resets p g d = Inr d'" "tables_ok d" "\<And>h. h_id (g h) = h_id h" "\<And>h. h_owner (g h) = h_owner h"
    "\<And>h. h_status (g h) = CH_ACTIVE \<Longrightarrow> h_status h = CH_ACTIVE"
  shows "tables_ok d'"
proof -
  let ?g = "\<lambda>h. if p h then g h else h"
  have d': "d' = d\<lparr>ac_resets := map ?g (ac_resets d)\<rparr>" "\<forall>h \<in> set (map ?g (ac_resets d)). challenge_check h"
    using assms(1) by (simp_all add: account_stmts)
  have "challenges_ok challenge_check (map ?g (ac_resets d))"
    by (rule challenges_ok_map) (use assms(2-5) d'(2) in \<open>simp_all add: tables_ok_def split: if_splits\<close>)
  moreover have "h_id ` set (map ?g (ac_resets d)) = h_id ` set (ac_resets d)"
    by (rule image_key_update) (simp add: assms(3))
  moreover have "\<forall>h \<in> set (ac_resets d). h_owner h \<in> a_id ` set (ac_users d)"
    using assms(2) by (simp add: tables_ok_def)
  then have "\<forall>h \<in> set (map ?g (ac_resets d)). h_owner h \<in> a_id ` set (ac_users d)"
    by (simp add: assms(4) ball_Un)
  ultimately show ?thesis using assms(2) by (simp add: d'(1) tables_ok_def del: set_map)
qed

lemma insert_registration_token_tables: "insert_registration_token k d = Inr d' \<Longrightarrow> tables_ok d \<Longrightarrow> tables_ok d'"
  by (simp add: account_stmts tables_ok_def secrets_ok_append)

lemma insert_reset_token_tables: "insert_reset_token k d = Inr d' \<Longrightarrow> tables_ok d \<Longrightarrow> tables_ok d'"
  by (simp add: account_stmts tables_ok_def secrets_ok_append)

lemma use_registration_token_tables: "use_registration_token i c now d = Inr d' \<Longrightarrow> tables_ok d \<Longrightarrow> tables_ok d'"
  by (simp add: account_stmts tables_ok_def secrets_ok_use)

lemma use_reset_token_tables: "use_reset_token i c now d = Inr d' \<Longrightarrow> tables_ok d \<Longrightarrow> tables_ok d'"
  by (simp add: account_stmts tables_ok_def secrets_ok_use)

end
