(* ===== verification/Account_Moves.thy ===== *)
theory Account_Moves
  imports Account_Laws
begin

text \<open>
  An abstract specification of the account component: the ten ways a committed transaction may
  change the account tables, each with the condition under which it is allowed and the new
  tables written out. Every use case refines it: it leaves the tables alone or makes one move.
\<close>

section \<open>Moves\<close>

definition end_sessions :: "uuid \<Rightarrow> int \<Rightarrow> account_db \<Rightarrow> account_db" where
  "end_sessions u now d = d\<lparr>ac_families := map (\<lambda>f. if f_user f = u \<and> f_status f = FAMILY_ACTIVE
     then revoked_row now f else f) (ac_families d)\<rparr>"

definition end_resets :: "uuid \<Rightarrow> int \<Rightarrow> account_db \<Rightarrow> account_db" where
  "end_resets u now d = d\<lparr>ac_resets := map (\<lambda>h. if h_owner h = u \<and> h_status h = CH_ACTIVE
     then revoked_challenge now h else h) (ac_resets d)\<rparr>"

definition open_session :: "uuid \<Rightarrow> uuid \<Rightarrow> int \<Rightarrow> pystr \<Rightarrow> uuid \<Rightarrow> account_db \<Rightarrow> account_db" where
  "open_session family u now token i d = d\<lparr>
     ac_families := ac_families d @ [\<lparr>f_id = family, f_user = u, f_status = FAMILY_ACTIVE, f_expires = now + days 7,
       f_revoked = None, f_created = now, f_updated = now\<rparr>],
     ac_refresh := ac_refresh d @ [\<lparr>t_id = i, t_family = family, t_digest = token_digest token, t_issued = now,
       t_used = None, t_replaced = None\<rparr>]\<rparr>"

definition rotate_session :: "uuid \<Rightarrow> uuid \<Rightarrow> int \<Rightarrow> pystr \<Rightarrow> uuid \<Rightarrow> account_db \<Rightarrow> account_db" where
  "rotate_session family old now token i d = d\<lparr>
     ac_families := map (\<lambda>f. if f_id f = family then f\<lparr>f_updated := now\<rparr> else f) (ac_families d),
     ac_refresh := map (\<lambda>t. if t_id t = old then t\<lparr>t_used := Some now, t_replaced := Some i\<rparr> else t)
       (ac_refresh d @ [\<lparr>t_id = i, t_family = family, t_digest = token_digest token, t_issued = now,
         t_used = None, t_replaced = None\<rparr>])\<rparr>"

definition end_family :: "uuid \<Rightarrow> int \<Rightarrow> account_db \<Rightarrow> account_db" where
  "end_family i now d = d\<lparr>ac_families := map (\<lambda>f. if f_id f = i \<and> f_status f = FAMILY_ACTIVE
     then revoked_row now f else f) (ac_families d)\<rparr>"

definition modify_user :: "uuid \<Rightarrow> (user_row \<Rightarrow> user_row) \<Rightarrow> account_db \<Rightarrow> account_db" where
  "modify_user u g d = d\<lparr>ac_users := map (\<lambda>r. if a_id r = u then g r else r) (ac_users d)\<rparr>"

definition log_event :: "security_event \<Rightarrow> account_db \<Rightarrow> account_db" where
  "log_event e d = d\<lparr>ac_events := ac_events d @ [e]\<rparr>"

definition add_account :: "user_row \<Rightarrow> account_db \<Rightarrow> account_db" where
  "add_account r d = d\<lparr>ac_users := ac_users d @ [r]\<rparr>"

definition close_reset :: "uuid \<Rightarrow> uuid \<Rightarrow> int \<Rightarrow> account_db \<Rightarrow> account_db" where
  "close_reset c k now d = d\<lparr>
     ac_reset_tokens := use_secret k c now (ac_reset_tokens d),
     ac_resets := map (\<lambda>h. if h_id h = c then h\<lparr>h_status := CH_COMPLETED, h_completed := Some now\<rparr> else h) (ac_resets d)\<rparr>"

definition close_registration :: "uuid \<Rightarrow> uuid \<Rightarrow> int \<Rightarrow> account_db \<Rightarrow> account_db" where
  "close_registration c k now d = d\<lparr>
     ac_registration_tokens := use_secret k c now (ac_registration_tokens d),
     ac_registrations := map (\<lambda>h. if h_id h = c then h\<lparr>h_status := CH_COMPLETED, h_completed := Some now\<rparr> else h)
       (ac_registrations d)\<rparr>"

text \<open>A request may first expire the active challenge \<open>old\<close> and open \<open>fresh\<close>.\<close>

definition mail_reset :: "uuid option \<Rightarrow> uuid challenge_row list \<Rightarrow> secret_row \<Rightarrow> account_db \<Rightarrow> account_db" where
  "mail_reset old fresh k d = d\<lparr>
     ac_resets := map (\<lambda>h. if Some (h_id h) = old then h\<lparr>h_status := CH_EXPIRED\<rparr> else h) (ac_resets d) @ fresh,
     ac_reset_tokens := ac_reset_tokens d @ [k]\<rparr>"

definition mail_registration :: "uuid option \<Rightarrow> pystr challenge_row list \<Rightarrow> secret_row \<Rightarrow> account_db \<Rightarrow> account_db" where
  "mail_registration old fresh k d = d\<lparr>
     ac_registrations := map (\<lambda>h. if Some (h_id h) = old then h\<lparr>h_status := CH_EXPIRED\<rparr> else h) (ac_registrations d) @ fresh,
     ac_registration_tokens := ac_registration_tokens d @ [k]\<rparr>"

definition registered_row :: "uuid \<Rightarrow> pystr \<Rightarrow> pystr \<Rightarrow> pystr \<Rightarrow> user_role \<Rightarrow> int \<Rightarrow> int \<Rightarrow> user_row" where
  "registered_row u email name hash role created updated =
     \<lparr>a_id = u, a_email = email, a_name = name, a_hash = hash, a_role = role, a_status = ACTIVE,
      a_created = created, a_updated = updated\<rparr>"

lemmas move_defs = end_sessions_def end_resets_def open_session_def rotate_session_def end_family_def modify_user_def
  log_event_def add_account_def close_reset_def close_registration_def mail_reset_def mail_registration_def

inductive account_move :: "account_db \<Rightarrow> account_db \<Rightarrow> bool" where
  signed_in:
  "\<lbrakk>r \<in> set (ac_users d); a_status r = ACTIVE\<rbrakk>
    \<Longrightarrow> account_move d (open_session family (a_id r) now token i (end_sessions (a_id r) now d))"
| rotated:
  "\<lbrakk>r \<in> set (ac_users d); a_status r = ACTIVE; f \<in> set (ac_families d); f_user f = a_id r; f_status f = FAMILY_ACTIVE;
    now < f_expires f; t \<in> set (ac_refresh d); t_family t = f_id f; t_used t = None\<rbrakk>
    \<Longrightarrow> account_move d (rotate_session (f_id f) (t_id t) now token i d)"
| ended:
  "\<lbrakk>f \<in> set (ac_families d); f_status f = FAMILY_ACTIVE\<rbrakk> \<Longrightarrow> account_move d (end_family (f_id f) now d)"
| password_reset:
  "\<lbrakk>r \<in> set (ac_users d); a_status r = ACTIVE; h \<in> set (ac_resets d); h_owner h = a_id r; h_status h = CH_ACTIVE;
    now < h_expires h; k \<in> set (ac_reset_tokens d); k_challenge k = h_id h; k_used k = None\<rbrakk>
    \<Longrightarrow> account_move d (log_event (password_event e (a_id r) None now) (close_reset (h_id h) (k_id k) now
         (end_sessions (a_id r) now (modify_user (a_id r) (\<lambda>r. r\<lparr>a_hash := hash, a_updated := now\<rparr>) d))))"
| password_changed:
  "\<lbrakk>r \<in> set (ac_users d); a_status r = ACTIVE; principal_user_id p = a_id r\<rbrakk>
    \<Longrightarrow> account_move d (log_event (password_event e (a_id r) (Some p) now) (end_resets (a_id r) now
         (open_session family (a_id r) now token i (end_sessions (a_id r) now
           (modify_user (a_id r) (\<lambda>r. r\<lparr>a_hash := hash, a_updated := now\<rparr>) d)))))"
| reset_mailed:
  "\<lbrakk>r \<in> set (ac_users d); a_status r = ACTIVE;
    \<forall>c. old = Some c \<longrightarrow> (\<exists>h \<in> set (ac_resets d). h_id h = c \<and> h_owner h = a_id r \<and> h_status h = CH_ACTIVE \<and> h_expires h \<le> now);
    \<forall>h \<in> set fresh. h_owner h = a_id r; k_used k = None\<rbrakk>
    \<Longrightarrow> account_move d (mail_reset old fresh k d)"
| registration_mailed:
  "\<lbrakk>email \<notin> a_email ` set (ac_users d);
    \<forall>c. old = Some c \<longrightarrow> (\<exists>h \<in> set (ac_registrations d). h_id h = c \<and> h_owner h = email \<and> h_status h = CH_ACTIVE \<and> h_expires h \<le> now);
    \<forall>h \<in> set fresh. h_owner h = email; k_used k = None\<rbrakk>
    \<Longrightarrow> account_move d (mail_registration old fresh k d)"
| registered:
  "\<lbrakk>h \<in> set (ac_registrations d); h_owner h = email; h_status h = CH_ACTIVE; now < h_expires h;
    k \<in> set (ac_registration_tokens d); k_challenge k = h_id h; k_used k = None\<rbrakk>
    \<Longrightarrow> account_move d (close_registration (h_id h) (k_id k) now (open_session family u now token i
         (add_account (registered_row u email name hash USER created updated) d)))"
| role_changed:
  "\<lbrakk>r \<in> set (ac_users d); a_role r \<noteq> new; authorize_role_change p (a_id r) (a_role r) new = Inr p\<rbrakk>
    \<Longrightarrow> account_move d (log_event (role_event e (a_id r) p (a_role r) new now)
         (modify_user (a_id r) (\<lambda>r. r\<lparr>a_role := new, a_updated := now\<rparr>) d))"
| disabled:
  "\<lbrakk>r \<in> set (ac_users d); a_status r = ACTIVE; principal_role p = SUPER_ADMIN; principal_user_id p \<noteq> a_id r\<rbrakk>
    \<Longrightarrow> account_move d (log_event (status_event e (a_id r) p ACTIVE DISABLED now)
         (modify_user (a_id r) (\<lambda>r. r\<lparr>a_status := DISABLED, a_updated := now\<rparr>)
           (end_resets (a_id r) now (end_sessions (a_id r) now d))))"
| enabled:
  "\<lbrakk>r \<in> set (ac_users d); a_status r = DISABLED; principal_role p = SUPER_ADMIN; principal_user_id p \<noteq> a_id r\<rbrakk>
    \<Longrightarrow> account_move d (log_event (status_event e (a_id r) p DISABLED ACTIVE now)
         (modify_user (a_id r) (\<lambda>r. r\<lparr>a_status := ACTIVE, a_updated := now\<rparr>) d))"
| bootstrapped:
  "account_move d (log_event (bootstrap_event e u now) (add_account (registered_row u email name hash SUPER_ADMIN created updated) d))"


section \<open>The locked rows\<close>

lemma get_by_id_Some:
  assumes "get_by_id lib i d = Inr (Some u)"
  obtains r where "r \<in> set (ac_users d)" "a_id r = i" "user_id u = i" "user_status u = a_status r"
    "user_role u = a_role r" "user_password_hash u = a_hash r" "email_address lib (a_email r) = Inr (user_email u)"
proof -
  obtain r where r: "find (\<lambda>r. a_id r = i) (ac_users d) = Some r" "user_from_record lib r = Inr u"
    using assms by (auto simp: get_by_id_def optional_user_def bindE_eq_Inr split: option.splits)
  moreover have "user_id u = a_id r \<and> user_status u = a_status r \<and> user_role u = a_role r
      \<and> user_password_hash u = a_hash r \<and> email_address lib (a_email r) = Inr (user_email u)"
    using r(2) by (auto simp: user_from_record_def user_init_def bindE_eq_Inr split: if_splits)
  ultimately show thesis using that [of r] find_SomeD [OF r(1)] by simp
qed

lemma lock_families_active:
  assumes "tables_ok d" "f \<in> set (ac_families d)"
  shows "f_id f \<in> f_id ` set (lock_families u None d) \<and> f_status f = FAMILY_ACTIVE
    \<longleftrightarrow> f_user f = u \<and> f_status f = FAMILY_ACTIVE"
proof -
  have "distinct (map f_id (ac_families d))" using assms(1) by (simp add: tables_ok_def families_ok_def)
  then show ?thesis
    using assms(2) by (auto simp: lock_families_def dest: distinct_map_filter_unique)
qed

lemma lock_challenges_active:
  assumes "tables_ok d" "h \<in> set (ac_resets d)"
  shows "h_id h \<in> h_id ` set (lock_challenges u None d) \<and> h_status h = CH_ACTIVE
    \<longleftrightarrow> h_owner h = u \<and> h_status h = CH_ACTIVE"
proof -
  have "distinct (map h_id (ac_resets d))" using assms(1) by (simp add: tables_ok_def challenges_ok_def)
  then show ?thesis
    using assms(2) by (auto simp: lock_challenges_def dest: distinct_map_filter_unique)
qed

end
