(* ===== verification/Account_Refinement.thy ===== *)
theory Account_Refinement
  imports Account_Moves
begin

text \<open>
  Every account use case refines \<open>account_move\<close>: whatever its unlocked reads saw, it leaves the
  tables as they were or commits one move, and the tables it commits meet all constraints.
\<close>

definition moves :: "account_db \<Rightarrow> account_db \<Rightarrow> bool" where
  "moves d d' \<longleftrightarrow> d' = d \<or> account_move d d' \<and> tables_ok d' \<and> replacements_exist d'"

lemma moves_refl [simp]: "moves d d"
  by (simp add: moves_def)

text \<open>One statement about the body of a transaction carries over to the transaction.\<close>

definition body_moves :: "account_db \<Rightarrow> ('a \<times> account_db) res \<Rightarrow> bool" where
  "body_moves d r \<longleftrightarrow> (\<forall>x d'. r = Inr (x, d') \<longrightarrow> d' = d \<or> account_move d d' \<and> tables_ok d')"

lemma body_movesI: "(\<And>x d'. r = Inr (x, d') \<Longrightarrow> d' = d \<or> account_move d d' \<and> tables_ok d') \<Longrightarrow> body_moves d r"
  by (simp add: body_moves_def)


lemma transact_commit_moves:
  assumes "body_moves d body" "transact (commit body) d = (x, d')"
  shows "moves d d'"
  using assms(2) by (cases rule: transact_cases) (use assms(1) in \<open>auto simp: moves_def body_moves_def account_stmts\<close>)

lemma persistent_moves:
  assumes "body_moves d body" "transact (persistence e (commit body)) d = (x, d')"
  shows "moves d d'"
  using assms(2) by (cases rule: transact_cases) (use assms(1) in \<open>auto simp: moves_def body_moves_def account_stmts\<close>)

lemma registration_moves:
  assumes "body_moves d body" "registration_transaction body d = (x, d')"
  shows "moves d d'"
  using assms(2) unfolding registration_transaction_def
  by (cases rule: transact_cases) (use assms(1) in \<open>auto simp: moves_def body_moves_def account_stmts\<close>)

lemmas session_moves = persistent_moves [of _ _ SessionUnavailable, folded session_transaction_def]
lemmas password_moves = persistent_moves [of _ _ PasswordLifecycleUnavailable, folded password_transaction_def]
lemmas management_moves = persistent_moves [of _ _ UserManagementUnavailable, folded management_transaction_def]


section \<open>Groups of statements\<close>

lemma revoke_Inr:
  assumes "revoke i now d = Inr d'" "tables_ok d"
  shows "d' = end_family i now d" "tables_ok d'"
proof -
  show "d' = end_family i now d" using assms(1) by (simp add: revoke_def account_stmts end_family_def revoked_row_def)
  show "tables_ok d'" by (rule update_families_tables [OF assms(1) [unfolded revoke_def] assms(2)]) simp_all
qed

lemma revoke_all_tables:
  assumes "revoke_all fs now d = Inr d'" "tables_ok d"
  shows "tables_ok d'"
  using assms foldE_invariant [of "\<lambda>f. revoke (f_id f) now" fs d d' tables_ok] revoke_Inr(2)
  by (simp add: revoke_all_def)

lemma lock_families_cong: "ac_families d = ac_families d' \<Longrightarrow> lock_families u x d = lock_families u x d'"
  by (simp add: lock_families_def)

lemma lock_challenges_cong: "ac_resets d = ac_resets d' \<Longrightarrow> lock_challenges u x d = lock_challenges u x d'"
  by (simp add: lock_challenges_def)

lemma revoke_locked:
  assumes "revoke_all (lock_families u None d0) now d = Inr d'" "ac_families d0 = ac_families d" "tables_ok d"
  shows "d' = end_sessions u now d" "tables_ok d'"
proof -
  have "(\<lambda>f. if f_id f \<in> f_id ` set (lock_families u None d) \<and> f_status f = FAMILY_ACTIVE then revoked_row now f else f) f
      = (\<lambda>f. if f_user f = u \<and> f_status f = FAMILY_ACTIVE then revoked_row now f else f) f"
    if "f \<in> set (ac_families d)" for f
    using lock_families_active [OF assms(3) that, of u] by simp
  then show "d' = end_sessions u now d"
    using revoke_all_Inr [OF assms(1)] lock_families_cong [OF assms(2), of u None]
    by (simp add: end_sessions_def cong: map_cong)
  show "tables_ok d'" by (rule revoke_all_tables [OF assms(1,3)])
qed

lemma lock_families_filter: "filter (\<lambda>f. f_status f = FAMILY_ACTIVE) (lock_families u None d) = lock_families u None d"
  by (auto simp: lock_families_def filter_id_conv)

lemma revoke_challenges_locked:
  assumes "revoke_challenges (lock_challenges u None d0) now d = Inr d'" "ac_resets d0 = ac_resets d" "tables_ok d"
  shows "d' = end_resets u now d" "tables_ok d'"
proof -
  have "(\<lambda>h. if h_id h \<in> h_id ` set (lock_challenges u None d) \<and> h_status h = CH_ACTIVE then revoked_challenge now h else h) h
      = (\<lambda>h. if h_owner h = u \<and> h_status h = CH_ACTIVE then revoked_challenge now h else h) h"
    if "h \<in> set (ac_resets d)" for h
    using lock_challenges_active [OF assms(3) that, of u] by simp
  then show "d' = end_resets u now d"
    using revoke_challenges_Inr [OF assms(1)] lock_challenges_cong [OF assms(2), of u None]
    by (simp add: end_resets_def cong: map_cong)
  have "tables_ok t'" if "revoke_challenge i now t = Inr t'" "tables_ok t" for i t t'
    by (rule update_resets_tables [OF that(1) [unfolded revoke_challenge_def] that(2)]) simp_all
  then show "tables_ok d'"
    by (rule foldE_invariant [OF assms(1) [unfolded revoke_challenges_def], of tables_ok, OF assms(3)])
qed

lemma open_session_Inr:
  assumes "create_family u family (ae_now E) (ae_now E + days 7) d = Inr d1"
    "issue_refresh E family d1 = Inr ((token, i), d2)" "tables_ok d"
  shows "d2 = open_session family u (ae_now E) token i d" "tables_ok d2"
proof -
  have t1: "tables_ok d1" using insert_family_tables assms(1,3) by (simp add: create_family_def)
  note ins = issue_refresh_Inr [OF assms(2), unfolded add_token_Inr]
  show "tables_ok d2" by (rule insert_refresh_tables [OF ins t1])
  show "d2 = open_session family u (ae_now E) token i d"
    using ins assms(1) by (simp add: create_family_def account_stmts open_session_def)
qed

lemma rotate_Inr:
  assumes "issue_refresh E family d = Inr ((token, i), d1)" "mark_used old i family (ae_now E) d1 = Inr d2" "tables_ok d"
  shows "d2 = rotate_session family old (ae_now E) token i d" "tables_ok d2"
proof -
  note ins = issue_refresh_Inr [OF assms(1), unfolded add_token_Inr]
  have t1: "tables_ok d1" by (rule insert_refresh_tables [OF ins assms(3)])
  obtain d3 where d3: "update_refresh (\<lambda>t. t_id t = old) (\<lambda>t. t\<lparr>t_used := Some (ae_now E), t_replaced := Some i\<rparr>) d1 = Inr d3"
    "update_families (\<lambda>f. f_id f = family) (\<lambda>f. f\<lparr>f_updated := ae_now E\<rparr>) d3 = Inr d2"
    using assms(2) by (auto simp: mark_used_def bindE_eq_Inr)
  have t3: "tables_ok d3" by (rule update_refresh_tables [OF d3(1) t1]) simp_all
  show "tables_ok d2" by (rule update_families_tables [OF d3(2) t3]) simp_all
  show "d2 = rotate_session family old (ae_now E) token i d"
    using ins d3 by (simp add: account_stmts rotate_session_def)
qed


lemma modify_user_Inr:
  assumes "update_user u g d = Inr d'" "tables_ok d" "\<And>r. a_id (g r) = a_id r" "\<And>r. a_email (g r) = a_email r"
  shows "d' = modify_user u g d" "tables_ok d'"
  using assms(1) update_user_tables [OF assms] by (simp_all add: account_stmts modify_user_def)

lemma log_event_Inr:
  assumes "insert_event e d = Inr d'" "tables_ok d"
  shows "d' = log_event e d" "tables_ok d'"
  using assms insert_event_tables by (simp_all add: account_stmts log_event_def)


section \<open>Sessions\<close>

lemma login_tx_moves: "tables_ok d \<Longrightarrow> body_moves d (login_tx L E snapshot d)"
proof (rule body_movesI)
  fix x d' assume ok: "tables_ok d" and run: "login_tx L E snapshot d = Inr (x, d')"
  obtain u d1 d2 token i where u: "get_by_id (al_text L) (user_id snapshot) d = Inr (Some u)" "user_status u = ACTIVE"
    and steps: "revoke_all (lock_families (user_id u) None d) (ae_now E) d = Inr d1"
      "create_family (user_id u) (ae_family E) (ae_now E) (ae_now E + days 7) d1 = Inr d2"
      "issue_refresh E (ae_family E) d2 = Inr ((token, i), d')"
    using run by (auto simp: login_tx_def Let_def lock_families_filter bindE_eq_Inr split: option.splits if_splits)
  obtain r where r: "r \<in> set (ac_users d)" "a_id r = user_id u" "a_status r = ACTIVE"
    using get_by_id_Some [OF u(1)] u(2) by metis
  note e = revoke_locked [OF steps(1) refl ok]
  note o = open_session_Inr [OF steps(2,3) e(2)]
  have "account_move d d'" using signed_in [OF r(1,3)] o(1) e(1) r(2) by simp
  then show "d' = d \<or> account_move d d' \<and> tables_ok d'" using o(2) by simp
qed

lemma login_moves:
  assumes "login L fake E email password d0 d = (x, d', evs)" "tables_ok d"
  shows "moves d d'"
proof -
  obtain y where "try_login L fake E email password d0 d = (y, d')"
    using assms(1) by (auto simp: login_def split: prod.splits)
  then show ?thesis using session_moves [OF login_tx_moves [OF assms(2)]]
    by (auto simp: try_login_def split: sum.splits)
qed

lemma locked_refresh_Inr:
  assumes "locked_refresh target token u d = Inr (f, t)"
  shows "f \<in> set (ac_families d)" "f_user f = u" "f_user f = rt_user target" "f_id f = rt_family target"
    "t \<in> set (ac_refresh d)" "t_id t = rt_token target" "t_family t = f_id f" "t_digest t = token_digest token"
  using assms
  by (auto simp: locked_refresh_def lock_families_def lock_tokens_def split: option.splits if_splits
      dest!: find_sort_key_filter)

lemma refresh_tx_Inr:
  assumes "refresh_tx L E target token d = Inr (x, d')"
  obtains u f t where "get_by_id (al_text L) (rt_user target) d = Inr (Some u)" "user_status u = ACTIVE"
    "locked_refresh target token (user_id u) d = Inr (f, t)" "f_status f = FAMILY_ACTIVE" "ae_now E < f_expires f"
proof -
  obtain found where g: "get_by_id (al_text L) (rt_user target) d = Inr found"
    using assms by (auto simp: refresh_tx_def bindE_eq_Inr)
  then obtain u where u: "found = Some u" "user_status u = ACTIVE"
    using assms by (cases found) (auto simp: refresh_tx_def split: if_splits)
  then obtain f t where l: "locked_refresh target token (user_id u) d = Inr (f, t)"
    using assms g by (cases "locked_refresh target token (user_id u) d") (auto simp: refresh_tx_def)
  then have "f_status f = FAMILY_ACTIVE \<and> ae_now E < f_expires f"
    using assms g u by (simp add: refresh_tx_def Let_def split: if_splits)
  then show thesis using that g u l by simp
qed

lemma refresh_tx_moves: "tables_ok d \<Longrightarrow> body_moves d (refresh_tx L E target token d)"
proof (rule body_movesI)
  fix x d' assume ok: "tables_ok d" and run: "refresh_tx L E target token d = Inr (x, d')"
  obtain u f t where u: "get_by_id (al_text L) (rt_user target) d = Inr (Some u)" "user_status u = ACTIVE"
    and lock: "locked_refresh target token (user_id u) d = Inr (f, t)"
    and f: "f_status f = FAMILY_ACTIVE" "ae_now E < f_expires f"
    by (rule refresh_tx_Inr [OF run])
  obtain r where r: "r \<in> set (ac_users d)" "a_id r = user_id u" "a_status r = ACTIVE"
    using get_by_id_Some [OF u(1)] u(2) by metis
  note l = locked_refresh_Inr [OF lock]
  show "d' = d \<or> account_move d d' \<and> tables_ok d'"
  proof (cases "t_used t")
    case None
    then obtain d1 new i where steps: "issue_refresh E (f_id f) d = Inr ((new, i), d1)"
      "mark_used (t_id t) i (f_id f) (ae_now E) d1 = Inr d'"
      using run u lock f by (auto simp: refresh_tx_def Let_def bindE_eq_Inr split: if_splits)
    note o = rotate_Inr [OF steps ok]
    have "account_move d d'" unfolding o(1)
      by (rule rotated [OF r(1,3) l(1) _ f l(5,7) None]) (simp add: l(2) r(2))
    then show ?thesis using o(2) by simp
  next
    case (Some used)
    then have "revoke (f_id f) (ae_now E) d = Inr d'"
      using run u lock f by (auto simp: refresh_tx_def Let_def bindE_eq_Inr split: if_splits)
    note o = revoke_Inr [OF this ok]
    show ?thesis using ended [OF l(1) f(1)] o by simp
  qed
qed

lemma refresh_moves:
  assumes "refresh L E token d0 d = (x, d', evs)" "tables_ok d"
  shows "moves d d'"
proof -
  obtain y where "try_refresh L E token d0 d = (y, d')"
    using assms(1) by (auto simp: refresh_def split: prod.splits)
  then show ?thesis using session_moves [OF refresh_tx_moves [OF assms(2)]]
    by (auto simp: try_refresh_def split: sum.splits option.splits prod.splits)
qed

lemma logout_tx_Inr:
  assumes "logout_tx L E target token d = Inr (x, d')" "d' \<noteq> d"
  obtains u f t where "get_by_id (al_text L) (rt_user target) d = Inr (Some u)"
    "locked_refresh target token (user_id u) d = Inr (f, t)" "f_status f = FAMILY_ACTIVE"
    "revoke (f_id f) (ae_now E) d = Inr d'"
proof -
  obtain found where g: "get_by_id (al_text L) (rt_user target) d = Inr found"
    using assms by (auto simp: logout_tx_def bindE_eq_Inr)
  then obtain u where u: "found = Some u"
    using assms by (cases found) (auto simp: logout_tx_def)
  then obtain f t where l: "locked_refresh target token (user_id u) d = Inr (f, t)"
    using assms g by (cases "locked_refresh target token (user_id u) d") (auto simp: logout_tx_def split: if_splits)
  then have "f_status f = FAMILY_ACTIVE \<and> revoke (f_id f) (ae_now E) d = Inr d'"
    using assms g u by (auto simp: logout_tx_def bindE_eq_Inr split: if_splits)
  then show thesis using that g u l by simp
qed

lemma logout_tx_moves: "tables_ok d \<Longrightarrow> body_moves d (logout_tx L E target token d)"
proof (rule body_movesI)
  fix x d' assume ok: "tables_ok d" and run: "logout_tx L E target token d = Inr (x, d')"
  show "d' = d \<or> account_move d d' \<and> tables_ok d'"
  proof (cases "d' = d")
    case False
    obtain u f t where "get_by_id (al_text L) (rt_user target) d = Inr (Some u)"
      and lock: "locked_refresh target token (user_id u) d = Inr (f, t)"
      and f: "f_status f = FAMILY_ACTIVE" and rev: "revoke (f_id f) (ae_now E) d = Inr d'"
      by (rule logout_tx_Inr [OF run False])
    note o = revoke_Inr [OF rev ok]
    show ?thesis using ended [OF locked_refresh_Inr(1) [OF lock] f] o by simp
  qed simp
qed

lemma logout_moves:
  assumes "logout L E token d0 d = (x, d', evs)" "tables_ok d"
  shows "moves d d'"
  using assms(1) session_moves [OF logout_tx_moves [OF assms(2)]]
  by (auto simp: logout_def split: option.splits prod.splits)


section \<open>Passwords\<close>

lemma reset_tx_Inr:
  assumes "reset_tx L E target snapshot token hash d = Inr (x, d')"
  obtains u h k d1 d2 d3 where "get_by_id (al_text L) (st_user target) d = Inr (Some u)" "user_status u = ACTIVE"
    "h \<in> set (ac_resets d)" "h_id h = st_challenge target" "h_owner h = user_id u" "h_status h = CH_ACTIVE"
    "ae_now E < h_expires h" "k \<in> set (ac_reset_tokens d)" "k_challenge k = h_id h" "k_digest k = token_digest token"
    "k_used k = None" "change_hash (user_id u) hash (ae_now E) d = Inr d1"
    "revoke_all (lock_families (user_id u) None d) (ae_now E) d1 = Inr d2"
    "finish_reset (h_id h) (k_id k) (ae_now E) d2 = Inr d3"
    "audit_password (ae_event E) (user_id u) None (ae_now E) d3 = Inr d'"
proof -
  obtain found where g: "get_by_id (al_text L) (st_user target) d = Inr found"
    using assms by (auto simp: reset_tx_def bindE_eq_Inr)
  then obtain u where u: "found = Some u" "user_status u = ACTIVE"
    using assms by (cases found) (auto simp: reset_tx_def split: if_splits)
  let ?hs = "lock_challenges (user_id u) (Some (st_challenge target)) d"
  let ?ks = "lock_reset_tokens (map h_id ?hs) d"
  obtain h k where hk: "find (\<lambda>h. h_id h = st_challenge target) ?hs = Some h" "find (\<lambda>k. k_id k = st_token target) ?ks = Some k"
    using assms g u by (cases "find (\<lambda>h. h_id h = st_challenge target) ?hs"; cases "find (\<lambda>k. k_id k = st_token target) ?ks")
      (auto simp: reset_tx_def Let_def split: if_splits)
  have h: "h \<in> set (ac_resets d)" "h_id h = st_challenge target"
    using find_sort_key_filter [OF hk(1) [unfolded lock_challenges_def]] by simp_all
  have k: "k \<in> set (ac_reset_tokens d)" using find_sort_key_filter [OF hk(2) [unfolded lock_reset_tokens_def]] by simp
  show thesis
    using assms g u hk
    by (auto simp: reset_tx_def Let_def bindE_eq_Inr split: if_splits intro!: that [of u h k] h k)
qed

lemma finish_reset_Inr:
  assumes "finish_reset c k now d = Inr d'" "tables_ok d"
  shows "d' = close_reset c k now d" "tables_ok d'"
proof -
  obtain d1 where d1: "use_reset_token k c now d = Inr d1"
    "update_resets (\<lambda>h. h_id h = c) (\<lambda>h. h\<lparr>h_status := CH_COMPLETED, h_completed := Some now\<rparr>) d1 = Inr d'"
    using assms(1) by (auto simp: finish_reset_def bindE_eq_Inr)
  show "tables_ok d'"
    by (rule update_resets_tables [OF d1(2) use_reset_token_tables [OF d1(1) assms(2)]]) simp_all
  show "d' = close_reset c k now d" using d1 by (simp add: account_stmts close_reset_def)
qed

lemma change_hash_Inr:
  assumes "change_hash u hash now d = Inr d'" "tables_ok d"
  shows "d' = modify_user u (\<lambda>r. r\<lparr>a_hash := hash, a_updated := now\<rparr>) d" "tables_ok d'"
  by (rule modify_user_Inr [OF assms(1) [unfolded change_hash_def] assms(2)]; simp)+

lemma audit_password_Inr:
  assumes "audit_password e u p now d = Inr d'" "tables_ok d"
  shows "d' = log_event (password_event e u p now) d" "tables_ok d'"
  by (rule log_event_Inr [OF assms(1) [unfolded audit_password_def] assms(2)])+

lemma modify_user_frame [simp]:
  "ac_families (modify_user u g d) = ac_families d" "ac_resets (modify_user u g d) = ac_resets d"
  by (simp_all add: modify_user_def)

lemma session_frame [simp]:
  "ac_resets (end_sessions u now d) = ac_resets d" "ac_resets (open_session f u now t i d) = ac_resets d"
  "ac_users (end_sessions u now d) = ac_users d" "ac_users (open_session f u now t i d) = ac_users d"
  by (simp_all add: move_defs)

lemma reset_tx_moves: "tables_ok d \<Longrightarrow> body_moves d (reset_tx L E target snapshot token hash d)"
proof (rule body_movesI)
  fix x d' assume ok: "tables_ok d" and run: "reset_tx L E target snapshot token hash d = Inr (x, d')"
  obtain u h k d1 d2 d3 where u: "get_by_id (al_text L) (st_user target) d = Inr (Some u)" "user_status u = ACTIVE"
    and h: "h \<in> set (ac_resets d)" "h_id h = st_challenge target" "h_owner h = user_id u" "h_status h = CH_ACTIVE"
      "ae_now E < h_expires h"
    and k: "k \<in> set (ac_reset_tokens d)" "k_challenge k = h_id h" "k_digest k = token_digest token" "k_used k = None"
    and steps: "change_hash (user_id u) hash (ae_now E) d = Inr d1"
      "revoke_all (lock_families (user_id u) None d) (ae_now E) d1 = Inr d2"
      "finish_reset (h_id h) (k_id k) (ae_now E) d2 = Inr d3"
      "audit_password (ae_event E) (user_id u) None (ae_now E) d3 = Inr d'"
    by (rule reset_tx_Inr [OF run])
  obtain r where r: "r \<in> set (ac_users d)" "a_id r = user_id u" "a_status r = ACTIVE"
    using get_by_id_Some [OF u(1)] u(2) by metis
  note c = change_hash_Inr [OF steps(1) ok]
  have "ac_families d = ac_families d1" by (simp add: c(1))
  note e = revoke_locked [OF steps(2) this c(2)]
  note f = finish_reset_Inr [OF steps(3) e(2)]
  note a = audit_password_Inr [OF steps(4) f(2)]
  have "account_move d d'" unfolding a(1) f(1) e(1) c(1)
    using password_reset [OF r(1,3) h(1) _ h(4,5) k(1,2,4)] h(3) r(2) by simp
  then show "d' = d \<or> account_move d d' \<and> tables_ok d'" using a(2) by simp
qed

lemma complete_reset_moves:
  assumes "complete_reset L E token password d0 d1 d = (x, d', evs)" "tables_ok d"
  shows "moves d d'"
  using assms(1) password_moves [OF reset_tx_moves [OF assms(2)]]
  by (auto simp: complete_reset_def split: option.splits sum.splits prod.splits)

lemma change_password_tx_Inr:
  assumes "change_password_tx L E p target token snapshot hash d = Inr (x, d')"
  obtains u d1 d2 d3 d4 d5 new i where "get_by_id (al_text L) (rt_user target) d = Inr (Some u)"
    "user_id u = principal_user_id p" "user_status u = ACTIVE" "user_password_hash u = user_password_hash snapshot"
    "require_refresh target token (lock_families (user_id u) None d)
       (lock_refresh_tokens (map f_id (lock_families (user_id u) None d)) d) (ae_now E) = Inr ()"
    "change_hash (user_id u) hash (ae_now E) d = Inr d1"
    "revoke_all (lock_families (user_id u) None d) (ae_now E) d1 = Inr d2"
    "create_family (user_id u) (ae_family E) (ae_now E) (ae_now E + days 7) d2 = Inr d3"
    "issue_refresh E (ae_family E) d3 = Inr ((new, i), d4)"
    "revoke_challenges (lock_challenges (user_id u) None d) (ae_now E) d4 = Inr d5"
    "audit_password (ae_event E) (user_id u) (Some p) (ae_now E) d5 = Inr d'"
    "x = \<lparr>pg_refresh = new, pg_expires = ae_now E + days 7, pg_issued = ae_now E\<rparr>"
proof -
  obtain found where g: "get_by_id (al_text L) (rt_user target) d = Inr found"
    using assms by (auto simp: change_password_tx_def bindE_eq_Inr)
  then obtain u where u: "found = Some u" "user_id u = principal_user_id p" "user_status u = ACTIVE"
    "user_password_hash u = user_password_hash snapshot"
    using assms by (cases found) (auto simp: change_password_tx_def split: if_splits)
  show thesis using assms g u by (auto simp: change_password_tx_def Let_def bindE_eq_Inr intro!: that [of u])
qed

lemma change_password_tx_moves: "tables_ok d \<Longrightarrow> body_moves d (change_password_tx L E p target token snapshot hash d)"
proof (rule body_movesI)
  fix x d' assume ok: "tables_ok d" and run: "change_password_tx L E p target token snapshot hash d = Inr (x, d')"
  show "d' = d \<or> account_move d d' \<and> tables_ok d'"
  proof (rule change_password_tx_Inr [OF run], goal_cases)
    case (1 u d1 d2 d3 d4 d5 new i)
    obtain r where r: "r \<in> set (ac_users d)" "a_id r = user_id u" "a_status r = ACTIVE"
      using get_by_id_Some [OF 1(1)] 1(3) by metis
    note c = change_hash_Inr [OF 1(6) ok]
    have "ac_families d = ac_families d1" by (simp add: c(1))
    note e = revoke_locked [OF 1(7) this c(2)]
    note o = open_session_Inr [OF 1(8,9) e(2)]
    have "ac_resets d = ac_resets d4" by (simp add: o(1) e(1) c(1))
    note h = revoke_challenges_locked [OF 1(10) this o(2)]
    note a = audit_password_Inr [OF 1(11) h(2)]
    have "account_move d d'" unfolding a(1) h(1) o(1) e(1) c(1)
      using password_changed [OF r(1,3)] 1(2) r(2) by simp
    then show ?case using a(2) by simp
  qed
qed

lemma change_password_moves:
  assumes "change_password L now1 E p token cur new d0 d1 d = (x, d', evs)" "tables_ok d"
  shows "moves d d'"
  using assms(1) password_moves [OF change_password_tx_moves [OF assms(2)]]
  by (auto simp: change_password_def split: option.splits sum.splits prod.splits if_splits)


section \<open>Requests by mail\<close>

lemma deliver_db: "deliver send clock m d = (x, d', evs) \<Longrightarrow> d' = d"
  by (auto simp: deliver_def split: sum.splits)

text \<open>The challenge an expired request closes, if any.\<close>

definition expired_id :: "int \<Rightarrow> 'o challenge_row option \<Rightarrow> uuid option" where
  "expired_id now h = (case h of None \<Rightarrow> None | Some x \<Rightarrow> if now \<ge> h_expires x then Some (h_id x) else None)"

lemma expire_challenge_step:
  assumes "(case old of None \<Rightarrow> Inr (None, d)
      | Some h \<Rightarrow> if now \<ge> h_expires h then bindE (expire_challenge (h_id h) d) (\<lambda>d. Inr (None, d)) else Inr (Some h, d))
      = Inr (h, d1)" "tables_ok d"
  shows "d1 = d\<lparr>ac_resets := map (\<lambda>h. if Some (h_id h) = expired_id now old then h\<lparr>h_status := CH_EXPIRED\<rparr> else h)
      (ac_resets d)\<rparr> \<and> tables_ok d1"
proof (cases "expired_id now old")
  case None
  then show ?thesis using assms by (auto simp: expired_id_def split: option.splits if_splits)
next
  case (Some i)
  then have "expire_challenge i d = Inr d1"
    using assms(1) by (auto simp: expired_id_def bindE_eq_Inr split: option.splits if_splits)
  note run = this [unfolded expire_challenge_def]
  have "tables_ok d1" by (rule update_resets_tables [OF run assms(2)]) simp_all
  then show ?thesis using Some run by (simp add: account_stmts)
qed

lemma create_challenge_step:
  assumes "(case h of None \<Rightarrow> create_challenge u i now expires d | Some h \<Rightarrow> Inr (h, d)) = Inr (c, d1)" "tables_ok d"
  shows "d1 = d\<lparr>ac_resets := ac_resets d @ (if h = None then [new_challenge i u now expires] else [])\<rparr> \<and> tables_ok d1"
proof (cases h)
  case None
  then have ins: "insert_reset (new_challenge i u now expires) d = Inr d1"
    using assms(1) by (auto simp: create_challenge_def Let_def bindE_eq_Inr)
  show ?thesis using None insert_reset_tables [OF ins assms(2)] ins by (simp add: insert_reset_Inr)
qed (use assms in simp)

lemma request_reset_tx_moves: "tables_ok d \<Longrightarrow> body_moves d (request_reset_tx L E user email d)"
proof (rule body_movesI)
  fix x d' assume ok: "tables_ok d" and run: "request_reset_tx L E user email d = Inr (x, d')"
  obtain found where g: "get_by_id (al_text L) user d = Inr found"
    using run by (auto simp: request_reset_tx_def bindE_eq_Inr)
  show "d' = d \<or> account_move d d' \<and> tables_ok d'"
  proof (cases "\<exists>u. found = Some u \<and> user_status u = ACTIVE \<and> user_email u = email")
    case False
    then show ?thesis using run g by (auto simp: request_reset_tx_def split: option.splits)
  next
    case True
    then obtain u where u: "found = Some u" "user_status u = ACTIVE" "user_email u = email" by blast
    obtain r where r: "r \<in> set (ac_users d)" "a_id r = user_id u" "a_status r = ACTIVE"
      using get_by_id_Some [OF g [unfolded u(1)]] u(2) by metis
    let ?active = "find (\<lambda>h. h_status h = CH_ACTIVE) (lock_challenges (user_id u) None d)" and ?now = "ae_now E"
    let ?fresh = "\<lambda>h. if h = None then [new_challenge (ae_challenge E) (user_id u) ?now (?now + seconds (30 * 60))] else []"
    obtain d1 d2 h c token i where steps:
      "(case ?active of None \<Rightarrow> Inr (None, d)
        | Some h \<Rightarrow> if ?now \<ge> h_expires h then bindE (expire_challenge (h_id h) d) (\<lambda>d. Inr (None, d)) else Inr (Some h, d))
        = Inr (h, d1)"
      "(case h of None \<Rightarrow> create_challenge (user_id u) (ae_challenge E) ?now (?now + seconds (30 * 60)) d1
        | Some h \<Rightarrow> Inr (h, d1)) = Inr (c, d2)"
      "issue_reset E (h_id c) d2 = Inr ((token, i), d')"
      using run g u by (auto simp: request_reset_tx_def Let_def bindE_eq_Inr)
    have old: "\<forall>c. expired_id ?now ?active = Some c \<longrightarrow>
        (\<exists>h \<in> set (ac_resets d). h_id h = c \<and> h_owner h = a_id r \<and> h_status h = CH_ACTIVE \<and> h_expires h \<le> ?now)"
      using r(2) by (auto simp: expired_id_def lock_challenges_def split: option.splits dest!: find_sort_key_filter)
    note d1 = expire_challenge_step [OF steps(1) ok]
    note d2 = create_challenge_step [OF steps(2) conjunct2 [OF d1]]
    note ins = issue_reset_Inr [OF steps(3), unfolded add_reset_token_Inr]
    let ?k = "\<lparr>k_id = i, k_challenge = h_id c, k_digest = token_digest token, k_issued = ?now, k_used = None\<rparr>"
    have "d' = mail_reset (expired_id ?now ?active) (?fresh h) ?k d"
      using ins d1 d2 by (simp add: account_stmts mail_reset_def)
    moreover have "account_move d (mail_reset (expired_id ?now ?active) (?fresh h) ?k d)"
      by (rule reset_mailed [OF r(1,3) old]) (simp_all add: new_challenge_def r(2))
    ultimately show ?thesis using insert_reset_token_tables [OF ins conjunct2 [OF d2]] by simp
  qed
qed

lemma request_password_reset_moves:
  assumes "request_password_reset L send E email d0 d = (x, d', evs)" "tables_ok d"
  shows "moves d d'"
  using assms(1) password_moves [OF request_reset_tx_moves [OF assms(2)]]
  by (auto simp: request_password_reset_def split: sum.splits option.splits prod.splits if_splits dest!: deliver_db)

lemma expire_registration_step:
  assumes "(case old of None \<Rightarrow> Inr (None, d)
      | Some (h, e) \<Rightarrow> if now \<ge> h_expires h then bindE (expire_registration (h_id h) d) (\<lambda>d. Inr (None, d))
          else Inr (Some (h_id h), d)) = Inr (h, d1)" "tables_ok d"
  shows "d1 = d\<lparr>ac_registrations := map (\<lambda>h. if Some (h_id h) = expired_id now (map_option fst old)
      then h\<lparr>h_status := CH_EXPIRED\<rparr> else h) (ac_registrations d)\<rparr> \<and> tables_ok d1"
proof (cases "expired_id now (map_option fst old)")
  case None
  then show ?thesis using assms by (auto simp: expired_id_def split: option.splits if_splits)
next
  case (Some i)
  then have "expire_registration i d = Inr d1"
    using assms(1) by (auto simp: expired_id_def bindE_eq_Inr split: option.splits if_splits)
  note run = this [unfolded expire_registration_def]
  have "tables_ok d1" by (rule update_registrations_tables [OF run assms(2)]) simp_all
  then show ?thesis using Some run by (simp add: account_stmts)
qed

lemma create_registration_step:
  assumes "(case h of None \<Rightarrow> bindE (create_registration email i now expires d) (\<lambda>d. Inr (i, d)) | Some j \<Rightarrow> Inr (j, d))
      = Inr (c, d1)" "tables_ok d"
  shows "d1 = d\<lparr>ac_registrations := ac_registrations d @ (if h = None then [new_challenge i email now expires] else [])\<rparr>
    \<and> tables_ok d1"
proof (cases h)
  case None
  then have ins: "insert_registration (new_challenge i email now expires) d = Inr d1"
    using assms(1) by (auto simp: create_registration_def bindE_eq_Inr)
  show ?thesis using None insert_registration_tables [OF ins assms(2)] ins by (simp add: insert_registration_Inr)
qed (use assms in simp)

lemma challenge_email_Some:
  "challenge_email lib f = Inr (Some (h, e)) \<Longrightarrow> f = Some h \<and> email_address lib (h_owner h) = Inr e"
  by (auto simp: challenge_email_def bindE_eq_Inr split: option.splits)

lemma request_registration_tx_moves: "tables_ok d \<Longrightarrow> body_moves d (request_registration_tx L E email d)"
proof (rule body_movesI)
  fix x d' assume ok: "tables_ok d" and run: "request_registration_tx L E email d = Inr (x, d')"
  show "d' = d \<or> account_move d d' \<and> tables_ok d'"
  proof (cases "user_exists email d")
    case True
    then show ?thesis using run by (simp add: request_registration_tx_def)
  next
    case False
    let ?now = "ae_now E"
    let ?fresh = "\<lambda>h. if h = None then [new_challenge (ae_challenge E) email ?now (?now + days 1)] else []"
    obtain active d1 d2 h c token i where a: "lock_active_challenge (al_text L) email d = Inr active" and steps:
      "(case active of None \<Rightarrow> Inr (None, d)
        | Some (h, e) \<Rightarrow> if ?now \<ge> h_expires h then bindE (expire_registration (h_id h) d) (\<lambda>d. Inr (None, d))
            else Inr (Some (h_id h), d)) = Inr (h, d1)"
      "(case h of None \<Rightarrow> bindE (create_registration email (ae_challenge E) ?now (?now + days 1) d1) (\<lambda>d. Inr (ae_challenge E, d))
        | Some j \<Rightarrow> Inr (j, d1)) = Inr (c, d2)"
      "issue_registration E c d2 = Inr ((token, i), d')"
      using run False by (auto simp: request_registration_tx_def Let_def bindE_eq_Inr)
    have "\<exists>h \<in> set (ac_registrations d). h_id h = c \<and> h_owner h = email \<and> h_status h = CH_ACTIVE \<and> h_expires h \<le> ?now"
      if exp: "expired_id ?now (map_option fst active) = Some c" for c
    proof -
      obtain h e where h: "active = Some (h, e)" "h_id h = c" "h_expires h \<le> ?now"
        using exp by (auto simp: expired_id_def split: option.splits if_splits)
      then have "find (\<lambda>h. h_owner h = email \<and> h_status h = CH_ACTIVE) (ac_registrations d) = Some h"
        using a challenge_email_Some by (simp add: lock_active_challenge_def)
      from find_SomeD [OF this] h show ?thesis by (intro bexI [of _ h]) simp_all
    qed
    then have old: "\<forall>c. expired_id ?now (map_option fst active) = Some c \<longrightarrow> (\<exists>h \<in> set (ac_registrations d). h_id h = c
        \<and> h_owner h = email \<and> h_status h = CH_ACTIVE \<and> h_expires h \<le> ?now)" by simp
    note d1 = expire_registration_step [OF steps(1) ok]
    note d2 = create_registration_step [OF steps(2) conjunct2 [OF d1]]
    note ins = issue_registration_Inr [OF steps(3), unfolded add_registration_token_Inr]
    let ?k = "\<lparr>k_id = i, k_challenge = c, k_digest = token_digest token, k_issued = ?now, k_used = None\<rparr>"
    have "d' = mail_registration (expired_id ?now (map_option fst active)) (?fresh h) ?k d"
      using ins d1 d2 by (simp add: account_stmts mail_registration_def)
    moreover have "account_move d (mail_registration (expired_id ?now (map_option fst active)) (?fresh h) ?k d)"
      by (rule registration_mailed [OF _ old]) (use False in \<open>simp_all add: new_challenge_def user_exists_def\<close>)
    ultimately show ?thesis using insert_registration_token_tables [OF ins conjunct2 [OF d2]] by simp
  qed
qed

lemma request_registration_moves:
  assumes "request_registration L send domains E email d = (x, d', evs)" "tables_ok d"
  shows "moves d d'"
  using assms(1) registration_moves [OF request_registration_tx_moves [OF assms(2)]]
  by (auto simp: request_registration_def split: sum.splits option.splits prod.splits dest!: deliver_db)


section \<open>Registration\<close>

lemma add_user_Inr:
  assumes "add_user lib n i created updated d = Inr (u, d')" "tables_ok d"
  shows "d' = d\<lparr>ac_users := ac_users d @ [\<lparr>a_id = i, a_email = nu_email n, a_name = nu_name n, a_hash = nu_hash n,
      a_role = nu_role n, a_status = nu_status n, a_created = created, a_updated = updated\<rparr>]\<rparr>"
    "tables_ok d'" "user_id u = i" "user_role u = nu_role n"
proof -
  let ?r = "\<lparr>a_id = i, a_email = nu_email n, a_name = nu_name n, a_hash = nu_hash n, a_role = nu_role n,
    a_status = nu_status n, a_created = created, a_updated = updated\<rparr>"
  have ins: "insert_user ?r d = Inr d'" and u: "user_from_record lib ?r = Inr u"
    using assms(1) by (auto simp: add_user_def Let_def bindE_eq_Inr split: sum.splits exn.splits if_splits)
  show "d' = d\<lparr>ac_users := ac_users d @ [?r]\<rparr>" using ins by (simp add: insert_user_Inr)
  show "tables_ok d'" by (rule insert_user_tables [OF ins assms(2)])
  show "user_id u = i" "user_role u = nu_role n"
    using u by (auto simp: user_from_record_def user_init_def bindE_eq_Inr split: if_splits)
qed

lemma complete_challenge_Inr:
  assumes "complete_challenge c k now d = Inr d'" "tables_ok d"
  shows "d' = close_registration c k now d" "tables_ok d'"
proof -
  obtain d1 where d1: "use_registration_token k c now d = Inr d1"
    "update_registrations (\<lambda>h. h_id h = c) (\<lambda>h. h\<lparr>h_status := CH_COMPLETED, h_completed := Some now\<rparr>) d1 = Inr d'"
    using assms(1) by (auto simp: complete_challenge_def bindE_eq_Inr)
  show "tables_ok d'"
    by (rule update_registrations_tables [OF d1(2) use_registration_token_tables [OF d1(1) assms(2)]]) simp_all
  show "d' = close_registration c k now d" using d1 by (simp add: account_stmts close_registration_def)
qed

lemma new_user_init_Inr: "new_user_init n = Inr m \<longleftrightarrow> m = n \<and> nu_hash n \<noteq> []"
  by (auto simp: new_user_init_def)

lemma registration_tx_Inr:
  assumes "registration_tx L domains E target token name hash d = Inr (x, d')"
  obtains h email k u d1 d2 d3 refresh i where
    "h \<in> set (ac_registrations d)" "h_id h = gt_challenge target" "h_owner h = gt_email target" "email = gt_email target"
    "h_status h = CH_ACTIVE" "ae_now E < h_expires h" "k \<in> set (ac_registration_tokens d)" "k_challenge k = h_id h"
    "k_digest k = token_digest token" "k_used k = None" "require_allowed_domain email domains = Inr ()"
    "add_user (al_text L) (registered_user email name hash) (ae_user E) (ae_created E) (ae_updated E) d = Inr (u, d1)"
    "create_family (user_id u) (ae_family E) (ae_now E) (ae_now E + days 7) d1 = Inr d2"
    "issue_refresh E (ae_family E) d2 = Inr ((refresh, i), d3)"
    "complete_challenge (h_id h) (k_id k) (ae_now E) d3 = Inr d'"
    "sg_refresh x = refresh" "sg_expires x = ae_now E + days 7" "sign_with L E u = Inr (sg_access x)"
proof -
  obtain c where c: "lock_challenge (al_text L) (gt_email target) (gt_challenge target) d = Inr c"
    using assms by (auto simp: registration_tx_def bindE_eq_Inr)
  obtain h email k where ck: "c = Some (h, email)"
      "lock_registration_token (gt_challenge target) (gt_token target) d = Some k"
    using assms c by (cases c; cases "lock_registration_token (gt_challenge target) (gt_token target) d")
      (auto simp: registration_tx_def Let_def)
  have h: "h \<in> set (ac_registrations d)" "h_id h = gt_challenge target" "h_owner h = gt_email target"
    using c ck(1) challenge_email_Some [of "al_text L" _ h email]
    by (auto simp: lock_challenge_def dest: find_SomeD)
  have k: "k \<in> set (ac_registration_tokens d)"
    using ck(2) by (auto simp: lock_registration_token_def dest: find_SomeD)
  have user: "(case bindE (new_user_init n) F of Inl err \<Rightarrow> if err = e then Inl e' else Inl err | Inr r \<Rightarrow> Inr r) = Inr y
      \<longleftrightarrow> nu_hash n \<noteq> [] \<and> F n = Inr y" for n F e e' and y :: "user \<times> account_db"
    by (cases "F n") (auto simp: new_user_init_def)
  have sign: "(case s of Inl _ \<Rightarrow> Inl e | Inr r \<Rightarrow> Inr r) = Inr y \<longleftrightarrow> s = Inr y" for s :: "pystr res" and e y
    by (cases s) auto
  show thesis
    using assms c ck
    by (auto simp: registration_tx_def Let_def user sign bindE_eq_Inr split: if_splits intro!: that [of h email k] h k)
qed

lemma registration_tx_moves: "tables_ok d \<Longrightarrow> body_moves d (registration_tx L domains E target token name hash d)"
proof (rule body_movesI)
  fix x d' assume ok: "tables_ok d" and run: "registration_tx L domains E target token name hash d = Inr (x, d')"
  show "d' = d \<or> account_move d d' \<and> tables_ok d'"
  proof (rule registration_tx_Inr [OF run], goal_cases)
    case (1 h email k u d1 d2 d3 refresh i)
    note a = add_user_Inr [OF 1(12) ok]
    note s = open_session_Inr [OF 1(13,14) a(2)]
    note c = complete_challenge_Inr [OF 1(15) s(2)]
    have "d1 = add_account (registered_row (ae_user E) email name hash USER (ae_created E) (ae_updated E)) d"
      using a(1) by (simp add: add_account_def registered_row_def registered_user_def)
    then have "account_move d d'" unfolding c(1) s(1) a(3)
      using registered [OF 1(1) _ 1(5,6,7,8,10)] 1(3,4) by simp
    then show ?case using c(2) by simp
  qed
qed

lemma complete_registration_moves:
  assumes "complete_registration L domains E token name password d0 d = (x, d', evs)" "tables_ok d"
  shows "moves d d'"
  using assms(1) registration_moves [OF registration_tx_moves [OF assms(2)]]
  by (auto simp: complete_registration_def split: sum.splits prod.splits)


section \<open>Administration\<close>

lemma audit_event_Inr:
  assumes "audit_event e d = Inr d'" "tables_ok d"
  shows "d' = log_event e d" "tables_ok d'"
proof -
  have "insert_event e d = Inr d'" using assms(1) by (auto simp: audit_event_def bindE_eq_Inr)
  from log_event_Inr [OF this assms(2)] show "d' = log_event e d" "tables_ok d'" by simp_all
qed

lemma change_role_tx_moves: "tables_ok d \<Longrightarrow> body_moves d (change_role_tx lib E p user new d)"
proof (rule body_movesI)
  fix x d' assume ok: "tables_ok d" and run: "change_role_tx lib E p user new d = Inr (x, d')"
  obtain found where g: "get_by_id lib user d = Inr found"
    using run by (auto simp: change_role_tx_def bindE_eq_Inr)
  then obtain u q where u: "found = Some u" "authorize_role_change p (user_id u) (user_role u) new = Inr q"
    using run by (cases found) (auto simp: change_role_tx_def bindE_eq_Inr)
  obtain r where r: "r \<in> set (ac_users d)" "a_id r = user_id u" "a_role r = user_role u"
    using get_by_id_Some [OF g [unfolded u(1)]] by metis
  show "d' = d \<or> account_move d d' \<and> tables_ok d'"
  proof (cases "user_role u = new")
    case True
    then show ?thesis using run g u by (auto simp: change_role_tx_def)
  next
    case False
    obtain d1 where steps: "set_role (user_id u) new (ae_now E) d = Inr d1"
      "audit_event (role_event (ae_event E) (user_id u) p (user_role u) new (ae_now E)) d1 = Inr d'"
      using run g u False by (auto simp: change_role_tx_def Let_def bindE_eq_Inr)
    note m = modify_user_Inr [OF steps(1) [unfolded set_role_def] ok, simplified]
    note a = audit_event_Inr [OF steps(2) m(2)]
    have "q = p" using u(2) by (simp add: authorize_role_change_def res_simps Let_def split: if_splits)
    then have "account_move d d'" unfolding a(1) m(1)
      using role_changed [OF r(1), of new p "ae_event E" "ae_now E"] False r(2,3) u(2) by simp
    then show ?thesis using a(2) by simp
  qed
qed

lemma change_role_moves:
  assumes "change_role lib E p user new d = (x, d', evs)" "tables_ok d"
  shows "moves d d'"
  using assms(1) management_moves [OF change_role_tx_moves [OF assms(2)]]
  by (auto simp: change_role_def split: sum.splits prod.splits)

lemma change_status_tx_moves:
  assumes "principal_role p = SUPER_ADMIN" "principal_user_id p \<noteq> user" "tables_ok d"
  shows "body_moves d (change_status_tx lib E p user new d)"
proof (rule body_movesI)
  fix x d' assume run: "change_status_tx lib E p user new d = Inr (x, d')"
  obtain found where g: "get_by_id lib user d = Inr found"
    using run by (auto simp: change_status_tx_def bindE_eq_Inr)
  then obtain u where u: "found = Some u"
    using run by (cases found) (auto simp: change_status_tx_def)
  obtain r where r: "r \<in> set (ac_users d)" "a_id r = user_id u" "a_status r = user_status u" "user_id u = user"
    using get_by_id_Some [OF g [unfolded u(1)]] by metis
  show "d' = d \<or> account_move d d' \<and> tables_ok d'"
  proof (cases "user_status u = new")
    case True
    then show ?thesis using run g u by (auto simp: change_status_tx_def)
  next
    case changed: False
    obtain d1 d2 d3 where steps:
      "revoke_all (if new = DISABLED then lock_families (user_id u) None d else []) (ae_now E) d = Inr d1"
      "revoke_challenges (if new = DISABLED then lock_challenges (user_id u) None d else []) (ae_now E) d1 = Inr d2"
      "set_status (user_id u) new (ae_now E) d2 = Inr d3"
      "audit_event (status_event (ae_event E) (user_id u) p (user_status u) new (ae_now E)) d3 = Inr d'"
      using run g u changed by (auto simp: change_status_tx_def Let_def bindE_eq_Inr)
    show ?thesis
    proof (cases new)
      case DISABLED
      then have old: "user_status u = ACTIVE" using changed by (cases "user_status u") auto
      have e: "d1 = end_sessions (user_id u) (ae_now E) d" "tables_ok d1"
        using revoke_locked [OF _ refl assms(3)] steps(1) DISABLED by simp_all
      have h: "d2 = end_resets (user_id u) (ae_now E) d1" "tables_ok d2"
        using revoke_challenges_locked [OF _ _ e(2), of "user_id u" d] steps(2) DISABLED by (simp_all add: e(1))
      note m = modify_user_Inr [OF steps(3) [unfolded set_status_def] h(2), simplified]
      note a = audit_event_Inr [OF steps(4) m(2)]
      have "account_move d d'" unfolding a(1) m(1) h(1) e(1)
        using disabled [OF r(1), of p "ae_event E" "ae_now E"] r(2-4) old assms(1,2) DISABLED by simp
      then show ?thesis using a(2) by simp
    next
      case ACTIVE
      then have old: "user_status u = DISABLED" using changed by (cases "user_status u") auto
      have d2: "d2 = d" using steps(1,2) ACTIVE by (simp add: revoke_all_def revoke_challenges_def)
      note m = modify_user_Inr [OF steps(3) [unfolded set_status_def d2] assms(3), simplified]
      note a = audit_event_Inr [OF steps(4) m(2)]
      have "account_move d d'" unfolding a(1) m(1)
        using enabled [OF r(1), of p "ae_event E" "ae_now E"] r(2-4) old assms(1,2) ACTIVE by simp
      then show ?thesis using a(2) by simp
    qed
  qed
qed

lemma change_status_moves:
  assumes "change_status lib E p user new d = (x, d', evs)" "tables_ok d"
  shows "moves d d'"
proof (cases "authorize p MANAGE_USER_STATUS = Inr p \<and> principal_user_id p \<noteq> user")
  case True
  then have "principal_role p = SUPER_ADMIN"
    by (cases "principal_role p") (auto simp: authorization_defs)
  then show ?thesis
    using assms(1) True management_moves [OF change_status_tx_moves [OF _ _ assms(2)]]
    by (auto simp: change_status_def split: sum.splits prod.splits)
next
  case False
  then show ?thesis using assms(1)
    by (auto simp: change_status_def authorize_eq_Inr split: sum.splits if_splits)
qed

lemma add_security_event_Inr: "add_security_event e d = Inr d' \<Longrightarrow> insert_event e d = Inr d'"
  by (cases "insert_event e d") (auto simp: add_security_event_def bindE_eq_Inr split: exn.splits)

lemma create_with_security_event_moves:
  assumes "tables_ok d" "nu_role n = SUPER_ADMIN" "nu_status n = ACTIVE"
  shows "body_moves d (create_with_security_event lib E n d)"
proof (rule body_movesI)
  fix x d' assume run: "create_with_security_event lib E n d = Inr (x, d')"
  obtain u d1 where steps: "add_user lib n (ae_user E) (ae_created E) (ae_updated E) d = Inr (u, d1)"
    "insert_event (bootstrap_event (ae_event E) (user_id u) (ae_now E)) d1 = Inr d'"
    using run by (auto simp: create_with_security_event_def Let_def bindE_eq_Inr dest!: add_security_event_Inr)
  note a = add_user_Inr [OF steps(1) assms(1)]
  note l = log_event_Inr [OF steps(2) a(2)]
  have "d1 = add_account (registered_row (ae_user E) (nu_email n) (nu_name n) (nu_hash n) SUPER_ADMIN (ae_created E)
      (ae_updated E)) d"
    using a(1) assms(2,3) by (simp add: add_account_def registered_row_def)
  then have "account_move d d'" unfolding l(1) a(3) using bootstrapped by simp
  then show "d' = d \<or> account_move d d' \<and> tables_ok d'" using l(2) by simp
qed

lemma bootstrap_moves:
  assumes "bootstrap_super_admin L E email name password d0 d1 d2 d = (x, d')" "tables_ok d"
  shows "moves d d'"
  using assms(1)
  by (auto simp: bootstrap_super_admin_def new_user_init_Inr bindE_eq_Inr
      split: sum.splits option.splits prod.splits if_splits
      intro!: transact_commit_moves [OF create_with_security_event_moves [OF assms(2)]])

end
