(* ===== verification/Account_Invariants.thy ===== *)
theory Account_Invariants
  imports Account_Refinement
begin

text \<open>
  What the moves keep beyond the database constraints: every refresh family has exactly one
  unused token, a disabled user has no active session and no active reset challenge, and the
  security log replays to the current roles and statuses.
\<close>

section \<open>One unused token per family\<close>

definition unused :: "uuid \<Rightarrow> refresh_row list \<Rightarrow> refresh_row list" where
  "unused f ts = filter (\<lambda>t. t_family t = f \<and> t_used t = None) ts"

definition one_unused :: "account_db \<Rightarrow> bool" where
  "one_unused d \<longleftrightarrow> (\<forall>i \<in> f_id ` set (ac_families d). length (unused i (ac_refresh d)) = 1)"

lemma one_unused_frame:
  assumes "one_unused d" "f_id ` set (ac_families d') = f_id ` set (ac_families d)" "ac_refresh d' = ac_refresh d"
  shows "one_unused d'"
  using assms by (simp add: one_unused_def)

lemma unused_new_family:
  assumes "refresh_ok is ts" "i \<notin> is"
  shows "unused i ts = []"
  using assms by (auto simp: unused_def refresh_ok_def filter_empty_conv)

lemma open_session_one_unused:
  assumes "one_unused d" "refresh_ok (f_id ` set (ac_families d)) (ac_refresh d)" "family \<notin> f_id ` set (ac_families d)"
  shows "one_unused (open_session family u now token i d)"
  using assms unused_new_family [OF assms(2,3)]
  by (auto simp: one_unused_def open_session_def unused_def)

lemma only_unused:
  assumes "length (unused i ts) = 1" "t \<in> set (unused i ts)" "x \<in> set (unused i ts)"
  shows "x = t"
  using assms by (cases "unused i ts") auto

definition mark :: "uuid \<Rightarrow> uuid \<Rightarrow> int \<Rightarrow> refresh_row \<Rightarrow> refresh_row" where
  "mark old i now t = (if t_id t = old then t\<lparr>t_used := Some now, t_replaced := Some i\<rparr> else t)"

lemma mark_keys [simp]:
  "t_id (mark old i now t) = t_id t" "t_family (mark old i now t) = t_family t" "t_digest (mark old i now t) = t_digest t"
  "t_issued (mark old i now t) = t_issued t"
  by (simp_all add: mark_def)

lemma mark_used_None [simp]: "t_used (mark old i now t) = None \<longleftrightarrow> t_used t = None \<and> t_id t \<noteq> old"
  by (auto simp: mark_def)

lemma unused_mark_other:
  assumes "\<forall>x \<in> set ts. t_id x = old \<longrightarrow> t_family x \<noteq> g"
  shows "unused g (map (mark old i now) ts) = unused g ts"
  using assms by (induction ts) (auto simp: unused_def mark_def)

lemma unused_mark_self:
  assumes "length (unused f ts) = 1" "t \<in> set ts" "t_family t = f" "t_used t = None"
  shows "unused f (map (mark (t_id t) i now) ts) = []"
proof -
  have "t \<in> set (unused f ts)" using assms by (simp add: unused_def)
  then have "x = t" if "x \<in> set ts" "t_family x = f" "t_used x = None" for x
    using only_unused [OF assms(1)] that by (simp add: unused_def)
  then show ?thesis by (auto simp: unused_def filter_empty_conv simp del: not_None_eq)
qed

lemma ac_refresh_rotate:
  "ac_refresh (rotate_session family old now token i d) = map (mark old i now) (ac_refresh d @ [\<lparr>t_id = i, t_family = family,
     t_digest = token_digest token, t_issued = now, t_used = None, t_replaced = None\<rparr>])"
  by (simp add: rotate_session_def mark_def)

lemma families_rotate: "f_id ` set (ac_families (rotate_session family old now token i d)) = f_id ` set (ac_families d)"
  by (simp add: rotate_session_def image_key_update del: set_map)

lemma rotate_fresh:
  assumes "tables_ok (rotate_session family (t_id t) now token i d)" "t \<in> set (ac_refresh d)"
  shows "i \<noteq> t_id t"
proof -
  have "distinct (map t_id (ac_refresh (rotate_session family (t_id t) now token i d)))"
    using assms(1) by (simp add: tables_ok_def refresh_ok_def)
  then have "distinct (map t_id (ac_refresh d) @ [i])" by (simp add: ac_refresh_rotate comp_def)
  then show ?thesis using assms(2) by force
qed

lemma rotate_one_unused:
  assumes "one_unused d" "tables_ok d" "tables_ok (rotate_session family (t_id t) now token i d)"
    "t \<in> set (ac_refresh d)" "t_family t = family" "t_used t = None"
  shows "one_unused (rotate_session family (t_id t) now token i d)"
proof -
  let ?new = "\<lparr>t_id = i, t_family = family, t_digest = token_digest token, t_issued = now, t_used = None, t_replaced = None\<rparr>"
  have keys: "distinct (map t_id (ac_refresh d))" "family \<in> f_id ` set (ac_families d)"
    using assms(2,4,5) by (auto simp: tables_ok_def refresh_ok_def)
  note fresh = rotate_fresh [OF assms(3,4)]
  have self: "unused family (map (mark (t_id t) i now) (ac_refresh d)) = []"
    by (rule unused_mark_self [OF _ assms(4-6)]) (use assms(1) keys(2) in \<open>auto simp: one_unused_def\<close>)
  have other: "unused g (map (mark (t_id t) i now) (ac_refresh d)) = unused g (ac_refresh d)" if "g \<noteq> family" for g
    by (rule unused_mark_other) (use distinct_map_filter_unique [OF keys(1) _ assms(4)] assms(5) that in auto)
  have "length (unused g (map (mark (t_id t) i now) (ac_refresh d) @ [mark (t_id t) i now ?new])) = 1"
    if "g \<in> f_id ` set (ac_families d)" for g
    using self other [of g] that assms(1) fresh by (cases "g = family") (auto simp: one_unused_def unused_def mark_def)
  then show ?thesis unfolding one_unused_def families_rotate ac_refresh_rotate by simp
qed

text \<open>The frames of the moves.\<close>

lemma families_frame [simp]:
  "f_id ` set (ac_families (end_sessions u now d)) = f_id ` set (ac_families d)"
  "f_id ` set (ac_families (end_family i now d)) = f_id ` set (ac_families d)"
  "ac_families (modify_user u g d) = ac_families d" "ac_families (log_event e d) = ac_families d"
  "ac_families (close_reset c k now d) = ac_families d" "ac_families (close_registration c k now d) = ac_families d"
  "ac_families (end_resets u now d) = ac_families d" "ac_families (mail_reset o1 fr x d) = ac_families d"
  "ac_families (mail_registration o2 fr2 x d) = ac_families d" "ac_families (add_account r d) = ac_families d"
  by (simp_all add: move_defs image_key_update del: set_map)

lemma refresh_frame [simp]:
  "ac_refresh (end_sessions u now d) = ac_refresh d" "ac_refresh (end_family i now d) = ac_refresh d"
  "ac_refresh (modify_user u g d) = ac_refresh d" "ac_refresh (log_event e d) = ac_refresh d"
  "ac_refresh (close_reset c k now d) = ac_refresh d" "ac_refresh (close_registration c k now d) = ac_refresh d"
  "ac_refresh (end_resets u now d) = ac_refresh d" "ac_refresh (mail_reset o1 fr x d) = ac_refresh d"
  "ac_refresh (mail_registration o2 fr2 x d) = ac_refresh d" "ac_refresh (add_account r d) = ac_refresh d"
  by (simp_all add: move_defs)

lemma new_family_fresh:
  assumes "distinct (map f_id (ac_families (open_session family u now token i d)))"
  shows "family \<notin> f_id ` set (ac_families d)"
  using assms by (simp add: open_session_def)

lemma family_ids: "tables_ok d \<Longrightarrow> distinct (map f_id (ac_families d))"
  by (simp add: tables_ok_def families_ok_def)

lemma open_after_one_unused:
  assumes "one_unused d" "tables_ok d" "f_id ` set (ac_families d1) = f_id ` set (ac_families d)"
    "ac_refresh d1 = ac_refresh d" "distinct (map f_id (ac_families (open_session family u now token i d1)))"
  shows "one_unused (open_session family u now token i d1)"
proof (rule open_session_one_unused)
  show "one_unused d1" by (rule one_unused_frame [OF assms(1,3,4)])
  show "refresh_ok (f_id ` set (ac_families d1)) (ac_refresh d1)" using assms(2-4) by (simp add: tables_ok_def)
  show "family \<notin> f_id ` set (ac_families d1)" by (rule new_family_fresh [OF assms(5)])
qed

lemma one_unused_move:
  assumes "account_move d d'" "tables_ok d" "tables_ok d'" "one_unused d"
  shows "one_unused d'"
  using assms
proof (induction rule: account_move.induct)
  case (signed_in r d family now token i)
  show ?case by (rule open_after_one_unused [OF signed_in.prems(3,1)]) (use family_ids [OF signed_in.prems(2)] in simp_all)
next
  case (rotated r d f now t token i)
  show ?case by (rule rotate_one_unused [OF rotated.prems(3,1,2) rotated.hyps(7-9)])
next
  case (password_changed r d p e now family token i hash)
  have "one_unused (open_session family (a_id r) now token i (end_sessions (a_id r) now
      (modify_user (a_id r) (\<lambda>r. r\<lparr>a_hash := hash, a_updated := now\<rparr>) d)))"
    by (rule open_after_one_unused [OF password_changed.prems(3,1)])
      (use family_ids [OF password_changed.prems(2)] in simp_all)
  then show ?case by (simp add: one_unused_def)
next
  case (registered h d email now k family u token i name hash created updated)
  have "one_unused (open_session family u now token i (add_account (registered_row u email name hash USER created updated) d))"
    by (rule open_after_one_unused [OF registered.prems(3,1)]) (use family_ids [OF registered.prems(2)] in simp_all)
  then show ?case by (simp add: one_unused_def)
qed (simp_all add: one_unused_def)


section \<open>Disabled users\<close>

definition disabled_quiet :: "account_db \<Rightarrow> bool" where
  "disabled_quiet d \<longleftrightarrow> (\<forall>r \<in> set (ac_users d). a_status r = DISABLED \<longrightarrow>
     (\<forall>f \<in> set (ac_families d). f_user f = a_id r \<longrightarrow> f_status f = FAMILY_REVOKED)
     \<and> (\<forall>h \<in> set (ac_resets d). h_owner h = a_id r \<longrightarrow> h_status h \<noteq> CH_ACTIVE))"

text \<open>Users with an open session or reset window are active.\<close>

definition busy :: "account_db \<Rightarrow> uuid set" where
  "busy d = f_user ` {f \<in> set (ac_families d). f_status f = FAMILY_ACTIVE} \<union> h_owner ` {h \<in> set (ac_resets d). h_status h = CH_ACTIVE}"

definition disabled_ids :: "account_db \<Rightarrow> uuid set" where
  "disabled_ids d = a_id ` {r \<in> set (ac_users d). a_status r = DISABLED}"

lemma disabled_quiet_iff: "disabled_quiet d \<longleftrightarrow> disabled_ids d \<inter> busy d = {}"
proof -
  have "f_status f = FAMILY_REVOKED \<longleftrightarrow> f_status f \<noteq> FAMILY_ACTIVE" for f :: family_row by (cases "f_status f") auto
  then show ?thesis by (fastforce simp: disabled_quiet_def disabled_ids_def busy_def)
qed

lemma quiet_shrink:
  assumes "disabled_quiet d" "disabled_ids d' \<subseteq> disabled_ids d" "busy d' \<subseteq> busy d"
  shows "disabled_quiet d'"
  using assms by (auto simp: disabled_quiet_iff)

text \<open>A move opens windows only for an active user.\<close>

lemma quiet_open:
  assumes "disabled_quiet d" "disabled_ids d' \<subseteq> disabled_ids d" "busy d' \<subseteq> insert u (busy d)" "u \<notin> disabled_ids d"
  shows "disabled_quiet d'"
  using assms by (auto simp: disabled_quiet_iff)

lemma busy_frame [simp]:
  "busy (modify_user u g d) = busy d" "busy (log_event e d) = busy d" "busy (add_account r d) = busy d"
  "busy (close_registration c k now d) = busy d" "busy (mail_registration o2 fr2 x d) = busy d"
  by (simp_all add: busy_def move_defs)

lemma busy_shrink:
  "busy (end_sessions u now d) \<subseteq> busy d" "busy (end_family i now d) \<subseteq> busy d" "busy (end_resets u now d) \<subseteq> busy d"
  "busy (close_reset c k now d) \<subseteq> busy d" "busy (rotate_session f t now token i d) \<subseteq> busy d"
  by (auto simp: busy_def move_defs)

lemma busy_open: "busy (open_session f u now token i d) \<subseteq> insert u (busy d)"
  by (auto simp: busy_def open_session_def)

lemma busy_mail: "\<forall>h \<in> set fr. h_owner h = u \<Longrightarrow> busy (mail_reset old fr k d) \<subseteq> insert u (busy d)"
  by (auto simp: busy_def mail_reset_def split: if_splits)

lemma disabled_ids_frame [simp]:
  "disabled_ids (end_sessions u now d) = disabled_ids d" "disabled_ids (end_family i now d) = disabled_ids d"
  "disabled_ids (end_resets u now d) = disabled_ids d" "disabled_ids (close_reset c k now d) = disabled_ids d"
  "disabled_ids (rotate_session f t now token i d) = disabled_ids d" "disabled_ids (open_session f u now token i d) = disabled_ids d"
  "disabled_ids (mail_reset old fr x d) = disabled_ids d" "disabled_ids (log_event e d) = disabled_ids d"
  "disabled_ids (close_registration c k now d) = disabled_ids d" "disabled_ids (mail_registration o2 fr2 x d) = disabled_ids d"
  by (simp_all add: disabled_ids_def move_defs)

lemma disabled_ids_modify:
  assumes "\<And>r. a_id (g r) = a_id r" "\<And>r. a_status (g r) = DISABLED \<Longrightarrow> a_status r = DISABLED"
  shows "disabled_ids (modify_user u g d) \<subseteq> disabled_ids d"
  using assms by (fastforce simp: disabled_ids_def modify_user_def split: if_splits)

lemma disabled_ids_add: "a_status r = ACTIVE \<Longrightarrow> disabled_ids (add_account r d) = disabled_ids d"
  by (auto simp: disabled_ids_def add_account_def)

lemma active_not_disabled:
  assumes "tables_ok d" "r \<in> set (ac_users d)" "a_status r = ACTIVE"
  shows "a_id r \<notin> disabled_ids d"
proof
  assume "a_id r \<in> disabled_ids d"
  then obtain s where s: "s \<in> set (ac_users d)" "a_id r = a_id s" "a_status s = DISABLED" by (auto simp: disabled_ids_def)
  have "distinct (map a_id (ac_users d))" using assms(1) by (simp add: tables_ok_def users_ok_def)
  from distinct_map_filter_unique [OF this assms(2) s(1,2)] show False using assms(3) s(3) by simp
qed

lemma ended_not_busy: "u \<notin> busy (end_resets u now (end_sessions u now d))"
proof -
  have "\<forall>f \<in> set (ac_families (end_sessions u now d)). f_status f = FAMILY_ACTIVE \<longrightarrow> f_user f \<noteq> u"
    by (simp add: end_sessions_def ball_Un) blast
  moreover have "\<forall>h \<in> set (ac_resets (end_resets u now d1)). h_status h = CH_ACTIVE \<longrightarrow> h_owner h \<noteq> u" for d1
    by (simp add: end_resets_def ball_Un) blast
  ultimately show ?thesis by (auto simp: busy_def)
qed

lemma new_user_fresh:
  assumes "tables_ok d'" "ac_users d' = ac_users (add_account r d)"
  shows "a_id r \<notin> a_id ` set (ac_users d)"
  using assms by (simp add: tables_ok_def users_ok_append add_account_def)

lemma users_frame [simp]:
  "ac_users (end_family i now d) = ac_users d" "ac_users (end_resets u now d) = ac_users d"
  "ac_users (close_reset c k now d) = ac_users d" "ac_users (close_registration c k now d) = ac_users d"
  "ac_users (rotate_session f t now token i d) = ac_users d" "ac_users (log_event e d) = ac_users d"
  "ac_users (mail_reset old fr x d) = ac_users d" "ac_users (mail_registration old2 fr2 x d) = ac_users d"
  by (simp_all add: move_defs)

lemma disabled_quiet_move:
  assumes "account_move d d'" "tables_ok d" "disabled_quiet d" "tables_ok d'"
  shows "disabled_quiet d'"
  using assms
proof (induction rule: account_move.induct)
  case (signed_in r d family now token i)
  note a = active_not_disabled [OF signed_in.prems(1) signed_in.hyps]
  show ?case by (rule quiet_open [OF signed_in.prems(2) _ _ a]) (use busy_shrink(1) [of "a_id r" now d] busy_open in fastforce)+
next
  case (rotated r d f now t token i)
  show ?case by (rule quiet_shrink [OF rotated.prems(2)]) (simp_all add: busy_shrink)
next
  case (ended f d now)
  show ?case by (rule quiet_shrink [OF ended.prems(2)]) (simp_all add: busy_shrink)
next
  case (password_reset r d h now k e hash)
  let ?d1 = "modify_user (a_id r) (\<lambda>r. r\<lparr>a_hash := hash, a_updated := now\<rparr>) d"
  have "busy (close_reset (h_id h) (k_id k) now (end_sessions (a_id r) now ?d1)) \<subseteq> busy d"
    using busy_shrink(4) busy_shrink(1) [of "a_id r" now ?d1] by fastforce
  moreover have "disabled_ids ?d1 \<subseteq> disabled_ids d" by (rule disabled_ids_modify) simp_all
  ultimately show ?case by (intro quiet_shrink [OF password_reset.prems(2)]) simp_all
next
  case (password_changed r d p e now family token i hash)
  let ?d1 = "modify_user (a_id r) (\<lambda>r. r\<lparr>a_hash := hash, a_updated := now\<rparr>) d"
  let ?d2 = "open_session family (a_id r) now token i (end_sessions (a_id r) now ?d1)"
  note a = active_not_disabled [OF password_changed.prems(1) password_changed.hyps(1,2)]
  have "busy (end_resets (a_id r) now ?d2) \<subseteq> insert (a_id r) (busy d)"
    using busy_shrink(3) [of "a_id r" now ?d2] busy_shrink(1) [of "a_id r" now ?d1] busy_open by fastforce
  moreover have "disabled_ids ?d1 \<subseteq> disabled_ids d" by (rule disabled_ids_modify) simp_all
  ultimately show ?case by (intro quiet_open [OF password_changed.prems(2) _ _ a]) simp_all
next
  case (reset_mailed r d old now fresh k)
  note a = active_not_disabled [OF reset_mailed.prems(1) reset_mailed.hyps(1,2)]
  show ?case by (rule quiet_open [OF reset_mailed.prems(2) _ busy_mail [OF reset_mailed.hyps(4)] a]) simp
next
  case (registration_mailed email d old now fresh k)
  then show ?case by (simp add: disabled_quiet_iff)
next
  case (registered h d email now k family u token i name hash created updated)
  let ?r = "registered_row u email name hash USER created updated"
  have "a_id ?r \<notin> a_id ` set (ac_users d)" by (rule new_user_fresh [OF registered.prems(3)]) simp
  then have "u \<notin> disabled_ids d" by (auto simp: disabled_ids_def registered_row_def)
  then show ?case
    by (rule quiet_open [OF registered.prems(2), rotated -1])
      (use busy_open [of family u now token i "add_account ?r d"] in \<open>simp_all add: disabled_ids_add registered_row_def\<close>)
next
  case (role_changed r d new p e now)
  have "disabled_ids (modify_user (a_id r) (\<lambda>r. r\<lparr>a_role := new, a_updated := now\<rparr>) d) \<subseteq> disabled_ids d"
    by (rule disabled_ids_modify) simp_all
  then show ?case by (intro quiet_shrink [OF role_changed.prems(2)]) simp_all
next
  case (disabled r d p e now)
  let ?d2 = "end_resets (a_id r) now (end_sessions (a_id r) now d)"
  let ?d3 = "modify_user (a_id r) (\<lambda>r. r\<lparr>a_status := DISABLED, a_updated := now\<rparr>) ?d2"
  have "disabled_ids ?d3 \<subseteq> insert (a_id r) (disabled_ids d)" by (auto simp: disabled_ids_def move_defs split: if_splits)
  moreover have "busy ?d3 \<subseteq> busy d"
    using busy_shrink(3) [of "a_id r" now "end_sessions (a_id r) now d"] busy_shrink(1) [of "a_id r" now d] by simp
  moreover have "a_id r \<notin> busy ?d3" by (simp add: ended_not_busy)
  ultimately show ?case using disabled.prems(2) by (auto simp: disabled_quiet_iff)
next
  case (enabled r d p e now)
  have "disabled_ids (modify_user (a_id r) (\<lambda>r. r\<lparr>a_status := ACTIVE, a_updated := now\<rparr>) d) \<subseteq> disabled_ids d"
    by (rule disabled_ids_modify) simp_all
  then show ?case by (intro quiet_shrink [OF enabled.prems(2)]) simp_all
next
  case (bootstrapped d e u now email name hash created updated)
  show ?case by (rule quiet_shrink [OF bootstrapped.prems(2)]) (simp_all add: disabled_ids_add registered_row_def)
qed


section \<open>The security log\<close>

text \<open>The role and the status of a user as told by the log alone.\<close>

definition logged_role :: "uuid \<Rightarrow> security_event list \<Rightarrow> user_role" where
  "logged_role u evs = fold (\<lambda>e r. if ev_subject e = u then (case ev_new_role e of None \<Rightarrow> r | Some n \<Rightarrow> n) else r) evs USER"

definition logged_status :: "uuid \<Rightarrow> security_event list \<Rightarrow> user_status" where
  "logged_status u evs = fold (\<lambda>e s. if ev_subject e = u then (case ev_new_status e of None \<Rightarrow> s | Some n \<Rightarrow> n) else s) evs ACTIVE"

lemma logged_append:
  "logged_role u (evs @ [e]) = (if ev_subject e = u then (case ev_new_role e of None \<Rightarrow> logged_role u evs | Some n \<Rightarrow> n)
     else logged_role u evs)"
  "logged_status u (evs @ [e]) = (if ev_subject e = u then (case ev_new_status e of None \<Rightarrow> logged_status u evs | Some n \<Rightarrow> n)
     else logged_status u evs)"
  by (simp_all add: logged_role_def logged_status_def split: option.splits)

lemma logged_Nil [simp]: "logged_role u [] = USER" "logged_status u [] = ACTIVE"
  by (simp_all add: logged_role_def logged_status_def)

lemma logged_stranger:
  assumes "u \<notin> ev_subject ` set evs"
  shows "logged_role u evs = USER" "logged_status u evs = ACTIVE"
  using assms by (induction evs rule: rev_induct) (auto simp: logged_append)

text \<open>
  An event is truthful when the values it replaces are those the log held before, and the
  initiator of a role or status change was allowed to make it.
\<close>

definition truthful :: "security_event list \<Rightarrow> security_event \<Rightarrow> bool" where
  "truthful before e \<longleftrightarrow>
     (case ev_type e of
        USER_ROLE_CHANGED \<Rightarrow> (\<exists>p new. e = role_event (ev_id e) (ev_subject e) p (logged_role (ev_subject e) before) new
            (instant (ev_occurred_at e))
          \<and> authorize_role_change p (ev_subject e) (logged_role (ev_subject e) before) new = Inr p)
      | USER_DISABLED \<Rightarrow> logged_status (ev_subject e) before = ACTIVE
          \<and> ev_initiator_role e = Some SUPER_ADMIN \<and> ev_initiator_user e \<noteq> Some (ev_subject e)
      | USER_ENABLED \<Rightarrow> logged_status (ev_subject e) before = DISABLED
          \<and> ev_initiator_role e = Some SUPER_ADMIN \<and> ev_initiator_user e \<noteq> Some (ev_subject e)
      | PASSWORD_CHANGED \<Rightarrow> ev_initiator_user e = Some (ev_subject e) \<and> logged_status (ev_subject e) before = ACTIVE
      | PASSWORD_RESET \<Rightarrow> logged_status (ev_subject e) before = ACTIVE
      | INITIAL_SUPER_ADMIN_BOOTSTRAPPED \<Rightarrow> ev_subject e \<notin> ev_subject ` set before)"

fun truthful_log :: "security_event list \<Rightarrow> security_event list \<Rightarrow> bool" where
  "truthful_log before [] \<longleftrightarrow> True"
| "truthful_log before (e # evs) \<longleftrightarrow> truthful before e \<and> truthful_log (before @ [e]) evs"

lemma truthful_log_append: "truthful_log before (evs @ [e]) \<longleftrightarrow> truthful_log before evs \<and> truthful (before @ evs) e"
  by (induction evs arbitrary: before) auto

definition log_ok :: "account_db \<Rightarrow> bool" where
  "log_ok d \<longleftrightarrow> truthful_log [] (ac_events d)
     \<and> (\<forall>r \<in> set (ac_users d). a_role r = logged_role (a_id r) (ac_events d) \<and> a_status r = logged_status (a_id r) (ac_events d))"

lemma log_ok_frame:
  assumes "log_ok d" "ac_users d' = ac_users d" "ac_events d' = ac_events d"
  shows "log_ok d'"
  using assms by (simp add: log_ok_def)

lemma events_frame [simp]:
  "ac_events (end_sessions u now d) = ac_events d" "ac_events (end_family i now d) = ac_events d"
  "ac_events (end_resets u now d) = ac_events d" "ac_events (close_reset c k now d) = ac_events d"
  "ac_events (rotate_session f t now token i d) = ac_events d" "ac_events (open_session f u now token i d) = ac_events d"
  "ac_events (mail_reset old fr x d) = ac_events d" "ac_events (modify_user u g d) = ac_events d"
  "ac_events (close_registration c k now d) = ac_events d" "ac_events (mail_registration o2 fr2 x d) = ac_events d"
  "ac_events (add_account r d) = ac_events d" "ac_events (log_event e d) = ac_events d @ [e]"
  by (simp_all add: move_defs)

lemma log_ok_entry:
  assumes "log_ok d" "ac_users d' = map (\<lambda>s. if a_id s = ev_subject e then g s else s) (ac_users d)"
    "ac_events d' = ac_events d @ [e]" "truthful (ac_events d) e" "\<And>s. a_id (g s) = a_id s"
    "\<And>s. a_role (g s) = (case ev_new_role e of None \<Rightarrow> a_role s | Some n \<Rightarrow> n)"
    "\<And>s. a_status (g s) = (case ev_new_status e of None \<Rightarrow> a_status s | Some n \<Rightarrow> n)"
  shows "log_ok d'"
proof -
  have "a_role s' = logged_role (a_id s') (ac_events d @ [e]) \<and> a_status s' = logged_status (a_id s') (ac_events d @ [e])"
    if s': "s' \<in> set (ac_users d')" for s'
  proof -
    obtain s where s: "s \<in> set (ac_users d)" "s' = (if a_id s = ev_subject e then g s else s)"
      using s' unfolding assms(2) set_map by (rule imageE)
    have "a_role s = logged_role (a_id s) (ac_events d) \<and> a_status s = logged_status (a_id s) (ac_events d)"
      using assms(1) s(1) by (simp add: log_ok_def)
    then show ?thesis using s(2) assms(5-7) [of s] by (simp add: logged_append split: option.splits)
  qed
  then show ?thesis using assms(1,3,4) by (simp add: log_ok_def truthful_log_append)
qed

lemma log_ok_new_user:
  assumes "log_ok d" "events_ok (a_id ` set (ac_users d)) (ac_events d)" "a_id r \<notin> a_id ` set (ac_users d)"
    "a_role r = USER" "a_status r = ACTIVE"
  shows "log_ok (add_account r d)"
proof -
  have "a_id r \<notin> ev_subject ` set (ac_events d)" using assms(2,3) by (auto simp: events_ok_def)
  then show ?thesis using assms logged_stranger by (simp add: log_ok_def add_account_def)
qed

lemma log_ok_user:
  "log_ok d \<Longrightarrow> r \<in> set (ac_users d) \<Longrightarrow> logged_role (a_id r) (ac_events d) = a_role r \<and> logged_status (a_id r) (ac_events d) = a_status r"
  by (simp add: log_ok_def)


lemma log_ok_move:
  assumes "account_move d d'" "tables_ok d" "log_ok d" "tables_ok d'"
  shows "log_ok d'"
  using assms
proof (induction rule: account_move.induct)
  case (password_reset r d h now k e hash)
  note l = log_ok_user [OF password_reset.prems(2) password_reset.hyps(1)]
  show ?case
    by (rule log_ok_entry [OF password_reset.prems(2), where e = "password_event e (a_id r) None now" and g = "\<lambda>r. r\<lparr>a_hash := hash, a_updated := now\<rparr>"])
      (use l password_reset.hyps(2) in \<open>simp_all add: truthful_def password_event_def modify_user_def\<close>)
next
  case (password_changed r d p e now family token i hash)
  note l = log_ok_user [OF password_changed.prems(2) password_changed.hyps(1)]
  show ?case
    by (rule log_ok_entry [OF password_changed.prems(2), where e = "password_event e (a_id r) (Some p) now" and g = "\<lambda>r. r\<lparr>a_hash := hash, a_updated := now\<rparr>"])
      (use l password_changed.hyps(2,3) in \<open>simp_all add: truthful_def password_event_def modify_user_def\<close>)
next
  case (registered h d email now k family u token i name hash created updated)
  let ?r = "registered_row u email name hash USER created updated"
  have "a_id ?r \<notin> a_id ` set (ac_users d)" by (rule new_user_fresh [OF registered.prems(3)]) simp
  then have "log_ok (add_account ?r d)"
    using registered.prems(1,2) by (intro log_ok_new_user) (simp_all add: tables_ok_def registered_row_def)
  then show ?case by (rule log_ok_frame) simp_all
next
  case (role_changed r d new p e now)
  note l = log_ok_user [OF role_changed.prems(2) role_changed.hyps(1)]
  have "truthful (ac_events d) (role_event e (a_id r) p (a_role r) new now)"
    using l role_changed.hyps(3) by (auto simp: truthful_def role_event_def)
  then show ?case
    by (intro log_ok_entry [OF role_changed.prems(2), where e = "role_event e (a_id r) p (a_role r) new now" and g = "\<lambda>r. r\<lparr>a_role := new, a_updated := now\<rparr>"])
      (simp_all add: role_event_def modify_user_def)
next
  case (disabled r d p e now)
  note l = log_ok_user [OF disabled.prems(2) disabled.hyps(1)]
  show ?case
    by (rule log_ok_entry [OF disabled.prems(2), where e = "status_event e (a_id r) p ACTIVE DISABLED now" and g = "\<lambda>r. r\<lparr>a_status := DISABLED, a_updated := now\<rparr>"])
      (use l disabled.hyps(2-4) in \<open>simp_all add: truthful_def status_event_def modify_user_def\<close>)
next
  case (enabled r d p e now)
  note l = log_ok_user [OF enabled.prems(2) enabled.hyps(1)]
  show ?case
    by (rule log_ok_entry [OF enabled.prems(2), where e = "status_event e (a_id r) p DISABLED ACTIVE now" and g = "\<lambda>r. r\<lparr>a_status := ACTIVE, a_updated := now\<rparr>"])
      (use l enabled.hyps(2-4) in \<open>simp_all add: truthful_def status_event_def modify_user_def\<close>)
next
  case (bootstrapped d e u now email name hash created updated)
  let ?r = "registered_row u email name hash SUPER_ADMIN created updated"
  have new: "a_id ?r \<notin> a_id ` set (ac_users d)" by (rule new_user_fresh [OF bootstrapped.prems(3)]) simp
  have "events_ok (a_id ` set (ac_users d)) (ac_events d)" using bootstrapped.prems(1) by (simp add: tables_ok_def)
  then have stranger: "u \<notin> ev_subject ` set (ac_events d)" using new by (auto simp: events_ok_def registered_row_def)
  have "log_ok (add_account (?r\<lparr>a_role := USER\<rparr>) d)"
    by (rule log_ok_new_user [OF bootstrapped.prems(2)]) (use new bootstrapped.prems(1) in \<open>simp_all add: tables_ok_def registered_row_def\<close>)
  then show ?case
    by (rule log_ok_entry [where e = "bootstrap_event e u now" and g = "\<lambda>r. r\<lparr>a_role := SUPER_ADMIN, a_status := ACTIVE\<rparr>"])
      (use stranger new in \<open>auto simp: truthful_def bootstrap_event_def add_account_def registered_row_def intro!: map_idI [symmetric]\<close>)
qed (simp_all add: log_ok_def)

end
