(* ===== verification/Account_System.thy ===== *)
theory Account_System
  imports Account_Invariants
begin

text \<open>
  The account component as a state machine: its steps are the use cases, its states the account
  tables. Credentials only ever lose power: in every later state a revoked family, a used token
  and a closed challenge are what they were.
\<close>

section \<open>Tables that only grow\<close>

definition grows :: "('a \<Rightarrow> 'a \<Rightarrow> bool) \<Rightarrow> 'a list \<Rightarrow> 'a list \<Rightarrow> bool" where
  "grows R xs ys \<longleftrightarrow> (\<exists>zs ws. ys = zs @ ws \<and> list_all2 R xs zs)"

lemma grows_map: "(\<And>x. x \<in> set xs \<Longrightarrow> R x (g x)) \<Longrightarrow> grows R xs (map g xs @ ws)"
  unfolding grows_def by (intro exI [of _ "map g xs"] exI [of _ ws]) (simp add: list_all2_conv_all_nth)

lemma grows_append: "(\<And>x. R x x) \<Longrightarrow> grows R xs (xs @ ws)"
  using grows_map [of xs R "\<lambda>x. x" ws] by simp

lemma grows_refl: "(\<And>x. R x x) \<Longrightarrow> grows R xs xs"
  using grows_append [of R xs "[]"] by simp

lemma grows_in:
  assumes "grows R xs ys" "x \<in> set xs"
  obtains y where "y \<in> set ys" "R x y"
proof -
  obtain zs ws where zs: "ys = zs @ ws" "list_all2 R xs zs" using assms(1) by (auto simp: grows_def)
  obtain i where "i < length xs" "xs ! i = x" using assms(2) by (auto simp: in_set_conv_nth)
  then show thesis using zs that [of "zs ! i"] by (auto simp: list_all2_conv_all_nth)
qed

lemma grows_trans:
  assumes "\<And>x y z. R x y \<Longrightarrow> R y z \<Longrightarrow> R x z" "grows R xs ys" "grows R ys zs"
  shows "grows R xs zs"
proof -
  obtain ys1 ys2 where ys: "ys = ys1 @ ys2" "list_all2 R xs ys1" using assms(2) by (auto simp: grows_def)
  obtain zs1 zs2 where zs: "zs = zs1 @ zs2" "list_all2 R (ys1 @ ys2) zs1" using assms(3) ys(1) by (auto simp: grows_def)
  obtain u v where uv: "zs1 = u @ v" "list_all2 R ys1 u" using zs(2) by (auto simp: list_all2_append1)
  have "list_all2 R xs u" by (rule list_all2_trans [OF _ ys(2) uv(2)]) (rule assms(1))
  then show ?thesis unfolding grows_def by (intro exI [of _ u] exI [of _ "v @ zs2"]) (simp add: zs(1) uv(1))
qed

definition user_later :: "user_row \<Rightarrow> user_row \<Rightarrow> bool" where
  "user_later r s \<longleftrightarrow> a_id s = a_id r \<and> a_email s = a_email r \<and> a_name s = a_name r \<and> a_created s = a_created r"

definition family_later :: "family_row \<Rightarrow> family_row \<Rightarrow> bool" where
  "family_later f g \<longleftrightarrow> f_id g = f_id f \<and> f_user g = f_user f \<and> f_created g = f_created f \<and> f_expires g = f_expires f
     \<and> (f_status f = FAMILY_REVOKED \<longrightarrow> f_status g = FAMILY_REVOKED \<and> f_revoked g = f_revoked f)"

definition refresh_later :: "refresh_row \<Rightarrow> refresh_row \<Rightarrow> bool" where
  "refresh_later t u \<longleftrightarrow> t_id u = t_id t \<and> t_family u = t_family t \<and> t_digest u = t_digest t \<and> t_issued u = t_issued t
     \<and> (t_used t \<noteq> None \<longrightarrow> u = t)"

definition challenge_later :: "'o challenge_row \<Rightarrow> 'o challenge_row \<Rightarrow> bool" where
  "challenge_later h g \<longleftrightarrow> h_id g = h_id h \<and> h_owner g = h_owner h \<and> h_created g = h_created h \<and> h_expires g = h_expires h
     \<and> (h_status h \<noteq> CH_ACTIVE \<longrightarrow> g = h)"

definition secret_later :: "secret_row \<Rightarrow> secret_row \<Rightarrow> bool" where
  "secret_later k l \<longleftrightarrow> k_id l = k_id k \<and> k_challenge l = k_challenge k \<and> k_digest l = k_digest k \<and> k_issued l = k_issued k
     \<and> (k_used k \<noteq> None \<longrightarrow> l = k)"

lemmas row_later_defs = user_later_def family_later_def refresh_later_def challenge_later_def secret_later_def

lemma row_later_refl [simp]:
  "user_later r r" "family_later f f" "refresh_later t t" "challenge_later h h" "secret_later k k"
  by (simp_all add: row_later_defs)

lemma row_later_trans:
  "user_later r s \<Longrightarrow> user_later s r' \<Longrightarrow> user_later r r'"
  "family_later f g \<Longrightarrow> family_later g f' \<Longrightarrow> family_later f f'"
  "refresh_later t u \<Longrightarrow> refresh_later u t' \<Longrightarrow> refresh_later t t'"
  "challenge_later h h1 \<Longrightarrow> challenge_later h1 h' \<Longrightarrow> challenge_later h h'"
  "secret_later k l \<Longrightarrow> secret_later l k' \<Longrightarrow> secret_later k k'"
  by (auto simp: row_later_defs)

definition accounts_later :: "account_db \<Rightarrow> account_db \<Rightarrow> bool" where
  "accounts_later d d' \<longleftrightarrow>
     grows user_later (ac_users d) (ac_users d')
     \<and> (\<exists>evs. ac_events d' = ac_events d @ evs)
     \<and> grows family_later (ac_families d) (ac_families d')
     \<and> grows refresh_later (ac_refresh d) (ac_refresh d')
     \<and> grows challenge_later (ac_registrations d) (ac_registrations d')
     \<and> grows secret_later (ac_registration_tokens d) (ac_registration_tokens d')
     \<and> grows challenge_later (ac_resets d) (ac_resets d')
     \<and> grows secret_later (ac_reset_tokens d) (ac_reset_tokens d')"

lemma accounts_later_refl [simp]: "accounts_later d d"
  by (simp add: accounts_later_def grows_refl)

lemma accounts_later_trans:
  assumes "accounts_later a b" "accounts_later b c"
  shows "accounts_later a c"
  unfolding accounts_later_def
proof (intro conjI)
  show "\<exists>evs. ac_events c = ac_events a @ evs" using assms by (auto simp: accounts_later_def)
qed (use assms in \<open>auto simp: accounts_later_def intro: grows_trans row_later_trans\<close>)

text \<open>Each part of a move.\<close>

lemma later_end_sessions: "accounts_later d (end_sessions u now d)"
  using grows_map [of "ac_families d" family_later "\<lambda>f. if f_user f = u \<and> f_status f = FAMILY_ACTIVE then revoked_row now f else f" "[]"]
  by (simp add: accounts_later_def end_sessions_def grows_refl family_later_def)

lemma later_end_family: "accounts_later d (end_family i now d)"
  using grows_map [of "ac_families d" family_later "\<lambda>f. if f_id f = i \<and> f_status f = FAMILY_ACTIVE then revoked_row now f else f" "[]"]
  by (simp add: accounts_later_def end_family_def grows_refl family_later_def)

lemma later_end_resets: "accounts_later d (end_resets u now d)"
  using grows_map [of "ac_resets d" challenge_later "\<lambda>h. if h_owner h = u \<and> h_status h = CH_ACTIVE then revoked_challenge now h else h" "[]"]
  by (simp add: accounts_later_def end_resets_def grows_refl challenge_later_def)

lemma later_open_session: "accounts_later d (open_session f u now token i d)"
  by (simp add: accounts_later_def open_session_def grows_refl grows_append)

lemma later_rotate:
  assumes "\<And>t. t \<in> set (ac_refresh d) \<Longrightarrow> t_id t = old \<Longrightarrow> t_used t = None"
  shows "accounts_later d (rotate_session f old now token i d)"
proof -
  have "grows refresh_later (ac_refresh d) (ac_refresh (rotate_session f old now token i d))"
    unfolding ac_refresh_rotate map_append
    by (rule grows_map) (use assms in \<open>auto simp: refresh_later_def mark_def\<close>)
  moreover have "grows family_later (ac_families d) (map (\<lambda>g. if f_id g = f then g\<lparr>f_updated := now\<rparr> else g) (ac_families d) @ [])"
    by (rule grows_map) (simp add: family_later_def)
  ultimately show ?thesis by (simp add: accounts_later_def rotate_session_def grows_refl)
qed

lemma later_modify_user:
  assumes "\<And>r. user_later r (g r)"
  shows "accounts_later d (modify_user u g d)"
  using grows_map [of "ac_users d" user_later "\<lambda>r. if a_id r = u then g r else r" "[]"] assms
  by (simp add: accounts_later_def modify_user_def grows_refl)

lemma later_log_event: "accounts_later d (log_event e d)"
  by (simp add: accounts_later_def log_event_def grows_refl)

lemma later_add_account: "accounts_later d (add_account r d)"
  by (simp add: accounts_later_def add_account_def grows_refl grows_append)

lemma grows_use_secret:
  assumes "\<And>x. x \<in> set ks \<Longrightarrow> k_id x = k \<Longrightarrow> k_used x = None"
  shows "grows secret_later ks (use_secret k c now ks)"
  using grows_map [of ks secret_later "\<lambda>x. if k_id x = k \<and> k_challenge x = c then x\<lparr>k_used := Some now\<rparr> else x" "[]"] assms
  by (simp add: use_secret_def secret_later_def)

lemma grows_close:
  assumes "\<And>h. h \<in> set hs \<Longrightarrow> P h \<Longrightarrow> h_status h = CH_ACTIVE" "\<And>h. challenge_later h (g h) \<or> h_status h \<noteq> CH_ACTIVE"
  shows "grows challenge_later hs (map (\<lambda>h. if P h then g h else h) hs @ ws)"
  by (rule grows_map) (use assms in auto)

lemma later_close_reset:
  assumes "\<And>h. h \<in> set (ac_resets d) \<Longrightarrow> h_id h = c \<Longrightarrow> h_status h = CH_ACTIVE"
    "\<And>x. x \<in> set (ac_reset_tokens d) \<Longrightarrow> k_id x = k \<Longrightarrow> k_used x = None"
  shows "accounts_later d (close_reset c k now d)"
  using grows_use_secret [OF assms(2)]
    grows_close [of "ac_resets d" "\<lambda>h. h_id h = c" "\<lambda>h. h\<lparr>h_status := CH_COMPLETED, h_completed := Some now\<rparr>" "[]", OF assms(1)]
  by (simp add: accounts_later_def close_reset_def grows_refl challenge_later_def)

lemma later_close_registration:
  assumes "\<And>h. h \<in> set (ac_registrations d) \<Longrightarrow> h_id h = c \<Longrightarrow> h_status h = CH_ACTIVE"
    "\<And>x. x \<in> set (ac_registration_tokens d) \<Longrightarrow> k_id x = k \<Longrightarrow> k_used x = None"
  shows "accounts_later d (close_registration c k now d)"
  using grows_use_secret [OF assms(2)]
    grows_close [of "ac_registrations d" "\<lambda>h. h_id h = c" "\<lambda>h. h\<lparr>h_status := CH_COMPLETED, h_completed := Some now\<rparr>" "[]", OF assms(1)]
  by (simp add: accounts_later_def close_registration_def grows_refl challenge_later_def)

lemma later_mail_reset:
  assumes "\<And>h. h \<in> set (ac_resets d) \<Longrightarrow> Some (h_id h) = old \<Longrightarrow> h_status h = CH_ACTIVE"
  shows "accounts_later d (mail_reset old fresh k d)"
  using grows_close [of "ac_resets d" "\<lambda>h. Some (h_id h) = old" "\<lambda>h. h\<lparr>h_status := CH_EXPIRED\<rparr>" fresh, OF assms]
  by (simp add: accounts_later_def mail_reset_def grows_refl grows_append challenge_later_def)

lemma later_mail_registration:
  assumes "\<And>h. h \<in> set (ac_registrations d) \<Longrightarrow> Some (h_id h) = old \<Longrightarrow> h_status h = CH_ACTIVE"
  shows "accounts_later d (mail_registration old fresh k d)"
  using grows_close [of "ac_registrations d" "\<lambda>h. Some (h_id h) = old" "\<lambda>h. h\<lparr>h_status := CH_EXPIRED\<rparr>" fresh, OF assms]
  by (simp add: accounts_later_def mail_registration_def grows_refl grows_append challenge_later_def)


lemma same_row:
  assumes "distinct (map k xs)" "x \<in> set xs" "y \<in> set xs" "k y = k x" "P x"
  shows "P y"
  using distinct_map_filter_unique [OF assms(1,3,2,4)] assms(5) by simp

lemma table_keys:
  assumes "tables_ok d"
  shows "distinct (map a_id (ac_users d))" "distinct (map t_id (ac_refresh d))" "distinct (map t_digest (ac_refresh d))"
    "distinct (map h_id (ac_resets d))" "distinct (map h_id (ac_registrations d))" "distinct (map k_id (ac_reset_tokens d))"
    "distinct (map k_id (ac_registration_tokens d))" "distinct (map k_digest (ac_reset_tokens d))"
    "distinct (map k_digest (ac_registration_tokens d))"
  using assms by (simp_all add: tables_ok_def users_ok_def refresh_ok_def challenges_ok_def secrets_ok_def)

lemma secrets_frame [simp]:
  "ac_reset_tokens (end_sessions u now d) = ac_reset_tokens d" "ac_reset_tokens (modify_user u g d) = ac_reset_tokens d"
  "ac_registration_tokens (open_session f u now t i d) = ac_registration_tokens d"
  "ac_registration_tokens (add_account r d) = ac_registration_tokens d"
  "ac_registrations (open_session f u now t i d) = ac_registrations d" "ac_registrations (add_account r d) = ac_registrations d"
  by (simp_all add: move_defs)

lemma move_later:
  assumes "account_move d d'" "tables_ok d"
  shows "accounts_later d d'"
  using assms
proof (induction rule: account_move.induct)
  case (signed_in r d family now token i)
  show ?case by (rule accounts_later_trans [OF later_end_sessions later_open_session])
next
  case (rotated r d f now t token i)
  show ?case
    by (rule later_rotate) (rule same_row [OF table_keys(2) [OF rotated.prems] rotated.hyps(7), where P = "\<lambda>t. t_used t = None"],
      use rotated.hyps(9) in simp_all)
next
  case (ended f d now)
  show ?case by (rule later_end_family)
next
  case (password_reset r d h now k e hash)
  let ?d1 = "modify_user (a_id r) (\<lambda>r. r\<lparr>a_hash := hash, a_updated := now\<rparr>) d"
  have 1: "accounts_later d ?d1" by (rule later_modify_user) (simp add: user_later_def)
  have "accounts_later (end_sessions (a_id r) now ?d1) (close_reset (h_id h) (k_id k) now (end_sessions (a_id r) now ?d1))"
  proof (rule later_close_reset)
    fix h' assume "h' \<in> set (ac_resets (end_sessions (a_id r) now ?d1))" "h_id h' = h_id h"
    then show "h_status h' = CH_ACTIVE"
      using same_row [OF table_keys(4) [OF password_reset.prems] password_reset.hyps(3), of h' "\<lambda>h. h_status h = CH_ACTIVE"]
        password_reset.hyps(5) by simp
  next
    fix k' assume "k' \<in> set (ac_reset_tokens (end_sessions (a_id r) now ?d1))" "k_id k' = k_id k"
    then show "k_used k' = None"
      using same_row [OF table_keys(6) [OF password_reset.prems] password_reset.hyps(7), of k' "\<lambda>k. k_used k = None"]
        password_reset.hyps(9) by simp
  qed
  from accounts_later_trans [OF accounts_later_trans [OF 1 later_end_sessions] accounts_later_trans [OF this later_log_event]]
  show ?case .
next
  case (password_changed r d p e now family token i hash)
  let ?d1 = "modify_user (a_id r) (\<lambda>r. r\<lparr>a_hash := hash, a_updated := now\<rparr>) d"
  have "accounts_later d ?d1" by (rule later_modify_user) (simp add: user_later_def)
  then show ?case
    by (rule accounts_later_trans [OF accounts_later_trans [OF _ later_end_sessions]
          accounts_later_trans [OF later_open_session accounts_later_trans [OF later_end_resets later_log_event]]])
next
  case (reset_mailed r d old now fresh k)
  show ?case
  proof (rule later_mail_reset)
    fix h assume h: "h \<in> set (ac_resets d)" "Some (h_id h) = old"
    then obtain g where g: "g \<in> set (ac_resets d)" "h_id g = h_id h" "h_status g = CH_ACTIVE"
      using reset_mailed.hyps(3) by auto
    show "h_status h = CH_ACTIVE"
      using distinct_map_filter_unique [OF table_keys(4) [OF reset_mailed.prems] g(1) h(1) g(2)] g(3) by simp
  qed
next
  case (registration_mailed email d old now fresh k)
  show ?case
  proof (rule later_mail_registration)
    fix h assume h: "h \<in> set (ac_registrations d)" "Some (h_id h) = old"
    then obtain g where g: "g \<in> set (ac_registrations d)" "h_id g = h_id h" "h_status g = CH_ACTIVE"
      using registration_mailed.hyps(2) by auto
    show "h_status h = CH_ACTIVE"
      using distinct_map_filter_unique [OF table_keys(5) [OF registration_mailed.prems] g(1) h(1) g(2)] g(3) by simp
  qed
next
  case (registered h d email now k family u token i name hash created updated)
  let ?d2 = "open_session family u now token i (add_account (registered_row u email name hash USER created updated) d)"
  have "accounts_later ?d2 (close_registration (h_id h) (k_id k) now ?d2)"
  proof (rule later_close_registration)
    fix h' assume "h' \<in> set (ac_registrations ?d2)" "h_id h' = h_id h"
    then show "h_status h' = CH_ACTIVE"
      using same_row [OF table_keys(5) [OF registered.prems] registered.hyps(1), of h' "\<lambda>h. h_status h = CH_ACTIVE"]
        registered.hyps(3) by simp
  next
    fix k' assume "k' \<in> set (ac_registration_tokens ?d2)" "k_id k' = k_id k"
    then show "k_used k' = None"
      using same_row [OF table_keys(7) [OF registered.prems] registered.hyps(5), of k' "\<lambda>k. k_used k = None"]
        registered.hyps(7) by simp
  qed
  then show ?case by (rule accounts_later_trans [OF accounts_later_trans [OF later_add_account later_open_session]])
next
  case (role_changed r d new p e now)
  have "accounts_later d (modify_user (a_id r) (\<lambda>r. r\<lparr>a_role := new, a_updated := now\<rparr>) d)"
    by (rule later_modify_user) (simp add: user_later_def)
  then show ?case by (rule accounts_later_trans [OF _ later_log_event])
next
  case (disabled r d p e now)
  let ?d2 = "end_resets (a_id r) now (end_sessions (a_id r) now d)"
  have "accounts_later ?d2 (modify_user (a_id r) (\<lambda>r. r\<lparr>a_status := DISABLED, a_updated := now\<rparr>) ?d2)"
    by (rule later_modify_user) (simp add: user_later_def)
  then show ?case
    by (rule accounts_later_trans [OF accounts_later_trans [OF later_end_sessions later_end_resets]
          accounts_later_trans [OF _ later_log_event]])
next
  case (enabled r d p e now)
  have "accounts_later d (modify_user (a_id r) (\<lambda>r. r\<lparr>a_status := ACTIVE, a_updated := now\<rparr>) d)"
    by (rule later_modify_user) (simp add: user_later_def)
  then show ?case by (rule accounts_later_trans [OF _ later_log_event])
next
  case (bootstrapped d e u now email name hash created updated)
  show ?case by (rule accounts_later_trans [OF later_add_account later_log_event])
qed


section \<open>Steps and reachable states\<close>

text \<open>
  One step is one use case. The states seen by unlocked reads (\<open>d0\<close>, \<open>d1\<close>, \<open>d2\<close>) are arbitrary, so
  that any interleaving with other requests is covered.
\<close>

inductive account_step :: "auth_lib \<Rightarrow> account_db \<Rightarrow> account_db \<Rightarrow> bool" for L where
  step_login: "login L fake_hash E email password d0 d = (x, d', evs) \<Longrightarrow> account_step L d d'"
| step_refresh: "refresh L E token d0 d = (y, d', evs) \<Longrightarrow> account_step L d d'"
| step_logout: "logout L E token d0 d = (z, d', evs) \<Longrightarrow> account_step L d d'"
| step_reset: "complete_reset L E token password d0 d1 d = (z, d', evs) \<Longrightarrow> account_step L d d'"
| step_password: "change_password L now1 E p token current new d0 d1 d = (w, d', evs) \<Longrightarrow> account_step L d d'"
| step_request_reset: "request_password_reset L send E email d0 d = (z, d', evs) \<Longrightarrow> account_step L d d'"
| step_request_registration: "request_registration L send domains E email d = (z, d', evs) \<Longrightarrow> account_step L d d'"
| step_registration: "complete_registration L domains E token name password d0 d = (y, d', evs) \<Longrightarrow> account_step L d d'"
| step_role: "change_role (al_text L) E p user new_role d = (z, d', evs) \<Longrightarrow> account_step L d d'"
| step_status: "change_status (al_text L) E p user new_status d = (z, d', evs) \<Longrightarrow> account_step L d d'"
| step_bootstrap: "bootstrap_super_admin L E email name password d0 d1 d2 d = (b, d') \<Longrightarrow> account_step L d d'"

lemma account_step_moves: "account_step L d d' \<Longrightarrow> tables_ok d \<Longrightarrow> moves d d'"
  by (induction rule: account_step.induct)
    (auto intro: login_moves refresh_moves logout_moves complete_reset_moves change_password_moves
      request_password_reset_moves request_registration_moves complete_registration_moves change_role_moves
      change_status_moves bootstrap_moves)

definition empty_accounts :: account_db where
  "empty_accounts = \<lparr>ac_users = [], ac_events = [], ac_families = [], ac_refresh = [], ac_registrations = [],
     ac_registration_tokens = [], ac_resets = [], ac_reset_tokens = []\<rparr>"

inductive accounts_reachable :: "auth_lib \<Rightarrow> account_db \<Rightarrow> bool" for L where
  start: "accounts_reachable L empty_accounts"
| step: "\<lbrakk>accounts_reachable L d; account_step L d d'\<rbrakk> \<Longrightarrow> accounts_reachable L d'"

definition account_inv :: "account_db \<Rightarrow> bool" where
  "account_inv d \<longleftrightarrow> tables_ok d \<and> replacements_exist d \<and> one_unused d \<and> disabled_quiet d \<and> log_ok d"

lemma moves_inv:
  assumes "moves d d'" "account_inv d"
  shows "account_inv d'"
  using assms one_unused_move disabled_quiet_move log_ok_move by (auto simp: moves_def account_inv_def)

lemma account_reachable_inv: "accounts_reachable L d \<Longrightarrow> account_inv d"
proof (induction rule: accounts_reachable.induct)
  case start
  show ?case by (simp add: account_inv_def empty_accounts_def tables_ok_def users_ok_def events_ok_def families_ok_def
      refresh_ok_def challenges_ok_def secrets_ok_def replacements_exist_def one_unused_def disabled_quiet_def log_ok_def)
next
  case (step d d')
  have "tables_ok d" using step.IH by (simp add: account_inv_def)
  from moves_inv [OF account_step_moves [OF step.hyps(2) this] step.IH] show ?case .
qed

text \<open>Later states.\<close>

lemma steps_later:
  assumes "(account_step L)\<^sup>*\<^sup>* d d'" "account_inv d"
  shows "account_inv d' \<and> accounts_later d d'"
  using assms(1)
proof (induction rule: rtranclp_induct)
  case base
  show ?case using assms(2) by simp
next
  case (step y z)
  then have "tables_ok y" by (simp add: account_inv_def)
  note m = account_step_moves [OF step.hyps(2) this]
  have "accounts_later y z" using m move_later [OF _ \<open>tables_ok y\<close>] by (auto simp: moves_def)
  then show ?case using moves_inv [OF m] accounts_later_trans step.IH by blast
qed

end
