(* ===== verification/Account_Properties.thy ===== *)
theory Account_Properties
  imports Account_System
begin

text \<open>
  The properties of the account component: what the use cases return on every branch, what
  becomes of credentials, and what holds in every reachable state.
\<close>

section \<open>Refresh\<close>

lemma find_key:
  assumes "distinct (map k xs)" "x \<in> set xs"
  shows "find (\<lambda>y. k y = k x) (sort_key s (filter P xs)) = (if P x then Some x else None)"
proof (cases "P x")
  case True
  have "distinct (map k (sort_key s (filter P xs)))"
    using assms(1) by (auto simp: distinct_map intro: inj_on_subset)
  then show ?thesis using find_eq_Some_distinct [of k _ x] assms(2) True by simp
next
  case False
  then have "y \<in> set (sort_key s (filter P xs)) \<Longrightarrow> k y \<noteq> k x" for y
    using distinct_map_filter_unique [OF assms(1) _ assms(2)] by auto
  then show ?thesis using False by (auto simp: find_None_iff)
qed

lemma locked_refresh_eq:
  assumes "tables_ok d" "f \<in> set (ac_families d)" "f_id f = rt_family target" "f_user f = rt_user target"
    "t \<in> set (ac_refresh d)" "t_id t = rt_token target" "t_family t = f_id f" "t_digest t = token_digest token"
  shows "locked_refresh target token (rt_user target) d = Inr (f, t)"
proof -
  have "find (\<lambda>g. f_id g = f_id f) (lock_families (rt_user target) (Some (rt_family target)) d) = Some f"
    unfolding lock_families_def by (simp add: find_key [OF family_ids [OF assms(1)] assms(2)] assms(3,4) [symmetric])
  moreover have "find (\<lambda>u. t_id u = t_id t) (lock_tokens (f_id f) (rt_token target) d) = Some t"
    unfolding lock_tokens_def by (simp add: find_key [OF table_keys(2) [OF assms(1)] assms(5)] assms(6,7) [symmetric])
  ultimately show ?thesis using assms by (simp add: locked_refresh_def)
qed

lemma session_transaction_cases:
  "session_transaction body d =
     (case body of
        Inl (IntegrityError _) \<Rightarrow> (raise_account SessionUnavailable, d)
      | Inl e \<Rightarrow> (Inl e, d)
      | Inr (x, d') \<Rightarrow> if replacements_exist d' then (Inr x, d') else (raise_account SessionUnavailable, d))"
  by (cases body) (auto simp: session_transaction_def transact_def persistence_def commit_def integrity_def
      split: exn.splits)


lemma ball_set_map: "(\<forall>y \<in> set (map g xs). P y) \<longleftrightarrow> (\<forall>x \<in> set xs. P (g x))"
  by simp

text \<open>The statements of a refresh succeed unless the clock went back.\<close>

lemma revoke_eq:
  assumes "tables_ok d" "f \<in> set (ac_families d)" "f_status f = FAMILY_ACTIVE"
  shows "revoke (f_id f) now d = (if f_created f \<le> now then Inr (end_family (f_id f) now d) else integrity ''ck_refresh_family'')"
proof -
  let ?g = "\<lambda>g. if f_id g = f_id f \<and> f_status g = FAMILY_ACTIVE then revoked_row now g else g"
  have "(\<forall>g \<in> set (map ?g (ac_families d)). family_check g) \<longleftrightarrow> f_created f \<le> now"
  proof
    assume "\<forall>g \<in> set (map ?g (ac_families d)). family_check g"
    then have "family_check (revoked_row now f)" using assms(2,3) by force
    then show "f_created f \<le> now" by (simp add: family_check_def revoked_row_def)
  next
    assume clock: "f_created f \<le> now"
    have "family_check (?g g)" if "g \<in> set (ac_families d)" for g
    proof -
      have "family_check g" using assms(1) that by (simp add: tables_ok_def families_ok_def)
      then show ?thesis
        using distinct_map_filter_unique [OF family_ids [OF assms(1)] that assms(2)] clock
        by (auto simp: family_check_def revoked_row_def)
    qed
    then show "\<forall>g \<in> set (map ?g (ac_families d)). family_check g" unfolding ball_set_map by blast
  qed
  then show ?thesis
    by (simp add: revoke_def update_families_def Let_def end_family_def revoked_row_def [symmetric] del: set_map)
qed

lemma refresh_checks_marked:
  assumes "tables_ok d" "t \<in> set (ac_refresh d)" "i \<noteq> t_id t" "refresh_check new" "t_id new = i"
  shows "(\<forall>u \<in> set (map (mark (t_id t) i now) (ac_refresh d @ [new])). refresh_check u) \<longleftrightarrow> t_issued t \<le> now"
proof
  assume "\<forall>u \<in> set (map (mark (t_id t) i now) (ac_refresh d @ [new])). refresh_check u"
  then have "refresh_check (mark (t_id t) i now t)" using assms(2) by simp
  then show "t_issued t \<le> now" by (simp add: refresh_check_def mark_def)
next
  assume clock: "t_issued t \<le> now"
  have "refresh_check (mark (t_id t) i now u)" if "u \<in> set (ac_refresh d)" for u
  proof -
    have "refresh_check u" using assms(1) that by (simp add: tables_ok_def refresh_ok_def)
    then show ?thesis
      using distinct_map_filter_unique [OF table_keys(2) [OF assms(1)] that assms(2)] clock assms(3)
      by (auto simp: refresh_check_def mark_def)
  qed
  then show "\<forall>u \<in> set (map (mark (t_id t) i now) (ac_refresh d @ [new])). refresh_check u"
    using assms(3-5) unfolding ball_set_map by (auto simp: mark_def)
qed

lemma family_checks_touched:
  assumes "tables_ok d" "f \<in> set (ac_families d)"
  shows "(\<forall>g \<in> set (map (\<lambda>g. if f_id g = f_id f then g\<lparr>f_updated := now\<rparr> else g) (ac_families d)). family_check g)
    \<longleftrightarrow> f_created f \<le> now" (is "(\<forall>g \<in> set (map ?g _). _) \<longleftrightarrow> _")
proof
  assume "\<forall>g \<in> set (map ?g (ac_families d)). family_check g"
  then have "family_check (f\<lparr>f_updated := now\<rparr>)" using assms(2) by force
  then show "f_created f \<le> now" by (simp add: family_check_def)
next
  assume clock: "f_created f \<le> now"
  have "family_check (?g g)" if "g \<in> set (ac_families d)" for g
  proof -
    have "family_check g" using assms(1) that by (simp add: tables_ok_def families_ok_def)
    then show ?thesis
      using distinct_map_filter_unique [OF family_ids [OF assms(1)] that assms(2)] clock
      by (auto simp: family_check_def split: family_status.splits option.splits)
  qed
  then show "\<forall>g \<in> set (map ?g (ac_families d)). family_check g" unfolding ball_set_map by blast
qed

lemma mark_used_eq:
  assumes "tables_ok d" "issue_refresh E (f_id f) d = Inr ((new, i), d1)"
    "t \<in> set (ac_refresh d)" "f \<in> set (ac_families d)"
  shows "mark_used (t_id t) i (f_id f) now d1 =
    (if t_issued t \<le> now then if f_created f \<le> now then Inr (d1\<lparr>ac_families := ac_families (rotate_session (f_id f) (t_id t) now new i d),
        ac_refresh := map (mark (t_id t) i now) (ac_refresh d1)\<rparr>) else integrity ''ck_refresh_family''
     else integrity ''ck_refresh_token'')"
proof -
  note ins = issue_refresh_Inr [OF assms(2), unfolded add_token_Inr insert_refresh_Inr]
  let ?new = "\<lparr>t_id = i, t_family = f_id f, t_digest = token_digest new, t_issued = ae_now E, t_used = None, t_replaced = None\<rparr>"
  have d1: "d1 = d\<lparr>ac_refresh := ac_refresh d @ [?new]\<rparr>" and fresh: "i \<notin> t_id ` set (ac_refresh d)"
    and chk: "refresh_check ?new"
    using ins by simp_all
  have neq: "i \<noteq> t_id t" using fresh assms(3) by auto
  have marked: "(\<lambda>u. if t_id u = t_id t then u\<lparr>t_used := Some now, t_replaced := Some i\<rparr> else u) = mark (t_id t) i now"
    by (simp add: mark_def fun_eq_iff)
  show ?thesis
    using refresh_checks_marked [OF assms(1,3) neq chk, of now] family_checks_touched [OF assms(1,4), of now]
    by (simp add: mark_used_def update_refresh_def update_families_def marked d1 rotate_session_def Let_def bindE_def
        integrity_def del: set_map set_append map_append)
qed

lemma replacements_frame: "ac_refresh d' = ac_refresh d \<Longrightarrow> replacements_exist d' = replacements_exist d"
  by (simp add: replacements_exist_def cong: option.case_cong)

lemma replacements_rotate:
  assumes "replacements_exist d" "t \<in> set (ac_refresh d)" "t_family t = family" "tables_ok d" "i \<noteq> t_id t"
  shows "replacements_exist (rotate_session family (t_id t) now new i d)"
  unfolding replacements_exist_def ac_refresh_rotate
proof
  let ?new = "\<lparr>t_id = i, t_family = family, t_digest = token_digest new, t_issued = now, t_used = None, t_replaced = None\<rparr>"
  let ?ts = "map (mark (t_id t) i now) (ac_refresh d @ [?new])"
  have new: "mark (t_id t) i now ?new \<in> set ?ts" by simp
  fix u assume "u \<in> set ?ts"
  then obtain v where v: "v \<in> set (ac_refresh d @ [?new])" "u = mark (t_id t) i now v" unfolding set_map by (rule imageE)
  show "case t_replaced u of None \<Rightarrow> True | Some r \<Rightarrow> \<exists>n \<in> set ?ts. t_id n = r \<and> t_family n = t_family u"
  proof (cases "t_id v = t_id t")
    case True
    then have "v = t"
      using v(1) assms(5) distinct_map_filter_unique [OF table_keys(2) [OF assms(4)] _ assms(2)] by auto
    then show ?thesis using v(2) new assms(3) by (auto simp: mark_def intro!: bexI [OF _ new])
  next
    case False
    then have u: "u = v" using v(2) by (simp add: mark_def)
    show ?thesis
    proof (cases "v \<in> set (ac_refresh d)")
      case True
      have "\<exists>n \<in> set ?ts. t_id n = r \<and> t_family n = t_family u" if r: "t_replaced u = Some r" for r
      proof -
        obtain n where n: "n \<in> set (ac_refresh d)" "t_id n = r" "t_family n = t_family v"
          using bspec [OF assms(1) [unfolded replacements_exist_def] True] r u by auto
        then show ?thesis using u by (intro bexI [of _ "mark (t_id t) i now n"]) simp_all
      qed
      then show ?thesis by (simp split: option.splits)
    qed (use v(1) u in simp)
  qed
qed


lemma get_by_id_eq:
  assumes "tables_ok d" "r \<in> set (ac_users d)" "user_from_record lib r = Inr u"
  shows "get_by_id lib (a_id r) d = Inr (Some u)"
  using find_eq_Some_distinct [OF table_keys(1) [OF assms(1)] assms(2)] assms(3)
  by (simp add: get_by_id_def optional_user_def)

lemma user_from_record_fields:
  assumes "user_from_record lib r = Inr u"
  shows "user_id u = a_id r" "user_status u = a_status r" "user_role u = a_role r" "user_password_hash u = a_hash r"
  using assms by (auto simp: user_from_record_def user_init_def bindE_eq_Inr split: if_splits)

text \<open>A token stored when the unlocked read ran is found there as it is stored now.\<close>

lemma find_refresh_later:
  assumes "tables_ok d0" "tables_ok d" "accounts_later d0 d" "t0 \<in> set (ac_refresh d0)" "t_digest t0 = dg"
    "t \<in> set (ac_refresh d)" "t_digest t = dg" "f \<in> set (ac_families d)" "f_id f = t_family t"
  shows "find_refresh dg d0 = Some \<lparr>rt_user = f_user f, rt_family = f_id f, rt_token = t_id t\<rparr>"
proof -
  have "grows refresh_later (ac_refresh d0) (ac_refresh d)" "grows family_later (ac_families d0) (ac_families d)"
    using assms(3) by (simp_all add: accounts_later_def)
  note g = this
  obtain t1 where t1: "t1 \<in> set (ac_refresh d)" "refresh_later t0 t1" by (rule grows_in [OF g(1) assms(4)])
  have "t1 = t"
    by (rule distinct_map_filter_unique [OF table_keys(3) [OF assms(2)] t1(1) assms(6)]) (use t1(2) assms(5,7) in \<open>simp add: refresh_later_def\<close>)
  then have t0: "t_id t0 = t_id t" "t_family t0 = f_id f" using t1(2) assms(9) by (simp_all add: refresh_later_def)
  have "t_family t0 \<in> f_id ` set (ac_families d0)" using assms(1,4) by (simp add: tables_ok_def refresh_ok_def)
  then obtain f0 where f0: "f0 \<in> set (ac_families d0)" "f_id f0 = t_family t0" by auto
  obtain f1 where f1: "f1 \<in> set (ac_families d)" "family_later f0 f1" by (rule grows_in [OF g(2) f0(1)])
  have "f1 = f"
    by (rule distinct_map_filter_unique [OF family_ids [OF assms(2)] f1(1) assms(8)]) (use f0(2) f1(2) t0(2) in \<open>simp add: family_later_def\<close>)
  then have "f_user f0 = f_user f" using f1(2) by (simp add: family_later_def)
  moreover have "find (\<lambda>t. t_digest t = dg) (ac_refresh d0) = Some t0"
    using find_eq_Some_distinct [OF table_keys(3) [OF assms(1)] assms(4)] assms(5) by simp
  moreover have "find (\<lambda>f. f_id f = t_family t0) (ac_families d0) = Some f0"
    using find_eq_Some_distinct [OF family_ids [OF assms(1)] f0(1)] f0(2) by simp
  ultimately show ?thesis using t0 by (simp add: find_refresh_def)
qed

definition session_error :: "exn \<Rightarrow> exn" where
  "session_error e = (case e of IntegrityError _ \<Rightarrow> AccountError SessionUnavailable | _ \<Rightarrow> e)"

lemma session_transaction_simps:
  "session_transaction (Inl e) d = (Inl (session_error e), d)"
  "session_transaction (Inr (x, d')) d = (if replacements_exist d' then (Inr x, d') else (raise_account SessionUnavailable, d))"
  by (simp_all add: session_transaction_cases session_error_def split: exn.splits)

lemma session_error_integrity [simp]:
  "session_error (IntegrityError c) = AccountError SessionUnavailable" "session_error (AccountError e) = AccountError e"
  by (simp_all add: session_error_def)

text \<open>The transaction of a refresh on the rows it locks.\<close>

lemma refresh_tx_eq:
  assumes "tables_ok d" "t \<in> set (ac_refresh d)" "t_digest t = token_digest token" "f \<in> set (ac_families d)"
    "f_id f = t_family t" "r \<in> set (ac_users d)" "a_id r = f_user f" "user_from_record (al_text L) r = Inr u"
    "a_status r = ACTIVE" "f_status f = FAMILY_ACTIVE" "ae_now E < f_expires f"
  shows "refresh_tx L E \<lparr>rt_user = f_user f, rt_family = f_id f, rt_token = t_id t\<rparr> token d =
    (case t_used t of
       Some used \<Rightarrow> if ae_now E \<le> used + seconds 10 then raise_account RefreshConflict
         else if f_created f \<le> ae_now E then Inr (None, end_family (f_id f) (ae_now E) d) else integrity ''ck_refresh_family''
     | None \<Rightarrow> bindE (issue_refresh E (f_id f) d) (\<lambda>((new, i), d1).
         bindE (mark_used (t_id t) i (f_id f) (ae_now E) d1) (\<lambda>d.
         bindE (sign_with L E u) (\<lambda>access. Inr (Some \<lparr>sg_access = access, sg_refresh = new, sg_expires = f_expires f,
           sg_issued = ae_now E\<rparr>, d)))))"
proof -
  let ?target = "\<lparr>rt_user = f_user f, rt_family = f_id f, rt_token = t_id t\<rparr>"
  have l: "locked_refresh ?target token (f_user f) d = Inr (f, t)"
    using locked_refresh_eq [OF assms(1,4) _ _ assms(2) _ assms(5) [symmetric] assms(3), of ?target] by simp
  have g: "get_by_id (al_text L) (f_user f) d = Inr (Some u)" using get_by_id_eq [OF assms(1,6,8)] assms(7) by simp
  have u: "user_id u = f_user f" "user_status u = ACTIVE" using user_from_record_fields [OF assms(8)] assms(7,9) by simp_all
  show ?thesis
    using assms(10,11) by (cases "t_used t") (simp_all add: refresh_tx_def Let_def g u l revoke_eq [OF assms(1,4,10)] integrity_def)
qed


lemma refresh_tx_refused:
  assumes "tables_ok d" "t \<in> set (ac_refresh d)" "t_digest t = token_digest token" "f \<in> set (ac_families d)"
    "f_id f = t_family t" "r \<in> set (ac_users d)" "a_id r = f_user f" "user_from_record (al_text L) r = Inr u"
    "a_status r = DISABLED \<or> f_status f = FAMILY_REVOKED \<or> f_expires f \<le> ae_now E"
  shows "refresh_tx L E \<lparr>rt_user = f_user f, rt_family = f_id f, rt_token = t_id t\<rparr> token d = raise_account InvalidSession"
proof -
  let ?target = "\<lparr>rt_user = f_user f, rt_family = f_id f, rt_token = t_id t\<rparr>"
  have l: "locked_refresh ?target token (f_user f) d = Inr (f, t)"
    using locked_refresh_eq [OF assms(1,4) _ _ assms(2) _ assms(5) [symmetric] assms(3), of ?target] by simp
  have g: "get_by_id (al_text L) (f_user f) d = Inr (Some u)" using get_by_id_eq [OF assms(1,6,8)] assms(7) by simp
  have u: "user_id u = f_user f" "user_status u = a_status r" using user_from_record_fields [OF assms(8)] assms(7) by simp_all
  show ?thesis using assms(9) by (auto simp: refresh_tx_def Let_def g u l)
qed

lemma rotated_state:
  assumes "account_inv d" "issue_refresh E (f_id f) d = Inr ((new, i), d1)"
    "t \<in> set (ac_refresh d)" "f \<in> set (ac_families d)" "t_family t = f_id f"
  shows "d1\<lparr>ac_families := ac_families (rotate_session (f_id f) (t_id t) (ae_now E) new i d),
      ac_refresh := map (mark (t_id t) i (ae_now E)) (ac_refresh d1)\<rparr> = rotate_session (f_id f) (t_id t) (ae_now E) new i d"
    "replacements_exist (rotate_session (f_id f) (t_id t) (ae_now E) new i d)"
proof -
  note ins = issue_refresh_Inr [OF assms(2), unfolded add_token_Inr insert_refresh_Inr]
  have marked: "(\<lambda>u. if t_id u = t_id t then u\<lparr>t_used := Some now, t_replaced := Some i\<rparr> else u) = mark (t_id t) i now" for now
    by (simp add: mark_def fun_eq_iff)
  show "d1\<lparr>ac_families := ac_families (rotate_session (f_id f) (t_id t) (ae_now E) new i d),
      ac_refresh := map (mark (t_id t) i (ae_now E)) (ac_refresh d1)\<rparr> = rotate_session (f_id f) (t_id t) (ae_now E) new i d"
    using ins by (simp add: rotate_session_def marked)
  have "i \<noteq> t_id t" using ins assms(3) by auto
  then show "replacements_exist (rotate_session (f_id f) (t_id t) (ae_now E) new i d)"
    using assms(1,3,5) by (intro replacements_rotate) (simp_all add: account_inv_def)
qed

text \<open>C7. The outcome of a refresh, on every branch. The token was stored when the unlocked read ran (in
  \<open>d0\<close>); any requests may have run until the rows were locked (in \<open>d\<close>). A disabled user, a revoked
  or expired family is refused. A token used at most ten seconds ago is a conflict, which changes nothing; an
  older reuse revokes the whole family, and that revocation is committed although the caller gets
  an error. An unused token is replaced by a new one in the same family, with the same expiry; if
  the issuing or signing fails, nothing changes.\<close>

theorem refresh_outcome:
  assumes "accounts_reachable L d0" "(account_step L)\<^sup>*\<^sup>* d0 d"
    and "t0 \<in> set (ac_refresh d0)" "t_digest t0 = token_digest token"
    and t: "t \<in> set (ac_refresh d)" "t_digest t = token_digest token"
    and f: "f \<in> set (ac_families d)" "f_id f = t_family t"
    and r: "r \<in> set (ac_users d)" "a_id r = f_user f" "user_from_record (al_text L) r = Inr u"
  shows "refresh L E token d0 d =
    (if a_status r = DISABLED \<or> f_status f = FAMILY_REVOKED \<or> f_expires f \<le> ae_now E
     then (raise_account InvalidSession, d, [])
     else case t_used t of
       Some used \<Rightarrow>
         if ae_now E \<le> used + seconds 10 then (raise_account RefreshConflict, d, emit REFRESH_CONFLICT (ae_clock E))
         else if f_created f \<le> ae_now E then (raise_account InvalidSession, end_family (f_id f) (ae_now E) d, [])
         else (raise_account SessionUnavailable, d, [])
     | None \<Rightarrow>
       (case bindE (issue_refresh E (f_id f) d) (\<lambda>((new, i), _).
          bindE (requireE (t_issued t \<le> ae_now E \<and> f_created f \<le> ae_now E) (AccountError SessionUnavailable)) (\<lambda>_.
          bindE (sign_with L E u) (\<lambda>access. Inr (new, i, access)))) of
          Inl e \<Rightarrow> (Inl (session_error e), d, conflict_event E (Inl (session_error e) :: session_grant res))
        | Inr (new, i, access) \<Rightarrow>
            (Inr \<lparr>sg_access = access, sg_refresh = new, sg_expires = f_expires f, sg_issued = ae_now E\<rparr>,
             rotate_session (f_id f) (t_id t) (ae_now E) new i d, [])))"
proof -
  have inv: "account_inv d" "account_inv d0" "accounts_later d0 d"
    using account_reachable_inv [OF assms(1)] steps_later [OF assms(2)] by simp_all
  then have ok: "tables_ok d" "tables_ok d0" by (simp_all add: account_inv_def)
  let ?target = "\<lparr>rt_user = f_user f, rt_family = f_id f, rt_token = t_id t\<rparr>"
  note found = find_refresh_later [OF ok(2,1) inv(3) assms(3,4) t f]
  show ?thesis
  proof (cases "a_status r = DISABLED \<or> f_status f = FAMILY_REVOKED \<or> f_expires f \<le> ae_now E")
    case True
    then show ?thesis
      by (simp add: refresh_def try_refresh_def found refresh_tx_refused [OF ok(1) t f r True] session_transaction_simps
          conflict_event_def)
  next
    case False
    then have act: "a_status r = ACTIVE" "f_status f = FAMILY_ACTIVE" "ae_now E < f_expires f"
      by (auto intro: user_status.exhaust [of "a_status r"] family_status.exhaust [of "f_status f"])
    note run = refresh_tx_eq [OF ok(1) t f r act]
    show ?thesis
    proof (cases "t_used t")
      case (Some used)
      have "replacements_exist (end_family (f_id f) (ae_now E) d)"
        using inv(1) replacements_frame [of "end_family (f_id f) (ae_now E) d" d] by (simp add: account_inv_def)
      then show ?thesis using False Some
        by (simp add: refresh_def try_refresh_def found run session_transaction_simps conflict_event_def integrity_def)
    next
      case None
      show ?thesis
      proof (cases "issue_refresh E (f_id f) d")
        case (Inl e)
        then show ?thesis using False None by (simp add: refresh_def try_refresh_def found run session_transaction_simps)
      next
        case (Inr x)
        obtain new i d1 where x: "x = ((new, i), d1)" by (metis surj_pair)
        note rot = rotated_state [OF inv(1) Inr [unfolded x] t(1) f(1) f(2) [symmetric]]
        show ?thesis using False None Inr x mark_used_eq [OF ok(1) Inr [unfolded x] t(1) f(1), of "ae_now E"] rot
          by (cases "sign_with L E u")
            (auto simp: refresh_def try_refresh_def found run session_transaction_simps integrity_def conflict_event_def)
      qed
    qed
  qed
qed



section \<open>Credentials that have ended\<close>

text \<open>A live token: unused, in an active family.\<close>

definition live :: "pystr \<Rightarrow> account_db \<Rightarrow> bool" where
  "live token d \<longleftrightarrow> (\<exists>t \<in> set (ac_refresh d). t_digest t = token_digest token \<and> t_used t = None
     \<and> (\<exists>f \<in> set (ac_families d). f_id f = t_family t \<and> f_status f = FAMILY_ACTIVE))"

lemma liveI:
  "\<lbrakk>t \<in> set (ac_refresh d); t_digest t = token_digest token; t_used t = None; f \<in> set (ac_families d); f_id f = t_family t;
    f_status f = FAMILY_ACTIVE\<rbrakk> \<Longrightarrow> live token d"
  unfolding live_def by blast

lemma refresh_grant_live:
  assumes "refresh L E token d0 d = (Inr grant, d', evs)"
  shows "live token d"
proof -
  obtain target body where "session_transaction (refresh_tx L E target token d) d = (Inr (Some grant), d')"
    using assms by (auto simp: refresh_def try_refresh_def split: option.splits prod.splits sum.splits)
  then have run: "refresh_tx L E target token d = Inr (Some grant, d')"
    by (auto simp: session_transaction_cases split: sum.splits exn.splits if_splits)
  obtain u f t where u: "get_by_id (al_text L) (rt_user target) d = Inr (Some u)" "user_status u = ACTIVE"
    and lock: "locked_refresh target token (user_id u) d = Inr (f, t)"
    and f: "f_status f = FAMILY_ACTIVE" "ae_now E < f_expires f"
    by (rule refresh_tx_Inr [OF run])
  have "t_used t = None"
    using run u lock f by (cases "t_used t") (auto simp: refresh_tx_def Let_def bindE_eq_Inr split: if_splits)
  then show ?thesis using locked_refresh_Inr [OF lock] f(1) by (intro liveI [of t _ _ f]) simp_all
qed

lemma require_refresh_live:
  assumes "require_refresh target token (lock_families u None d) (lock_refresh_tokens (map f_id (lock_families u None d)) d) now
    = Inr ()"
  shows "live token d"
proof -
  let ?fs = "lock_families u None d" and ?ts = "lock_refresh_tokens (map f_id (lock_families u None d)) d"
  obtain f t where ft: "find (\<lambda>f. f_id f = rt_family target) ?fs = Some f" "find (\<lambda>t. t_id t = rt_token target) ?ts = Some t"
    using assms by (cases "find (\<lambda>f. f_id f = rt_family target) ?fs"; cases "find (\<lambda>t. t_id t = rt_token target) ?ts")
      (auto simp: require_refresh_def)
  have "f \<in> set (ac_families d)" "t \<in> set (ac_refresh d)"
    using find_sort_key_filter [OF ft(1) [unfolded lock_families_def]]
      find_sort_key_filter [OF ft(2) [unfolded lock_refresh_tokens_def]] by simp_all
  then show ?thesis using assms ft by (intro liveI [of t _ _ f]) (auto simp: require_refresh_def split: if_splits)
qed

lemma change_password_grant_live:
  assumes "change_password L now1 E p token cur new d0 d1 d = (Inr grant, d', evs)"
  shows "live token d"
proof -
  obtain target snapshot hash where
    "password_transaction (change_password_tx L E p target token snapshot hash d) d = (Inr grant, d')"
    using assms by (auto simp: change_password_def split: option.splits sum.splits prod.splits if_splits)
  then have run: "change_password_tx L E p target token snapshot hash d = Inr (grant, d')"
    by (auto simp: password_transaction_def account_stmts elim!: transact_cases)
  show ?thesis by (rule change_password_tx_Inr [OF run]) (rule require_refresh_live)
qed

lemma logout_changes_live:
  assumes "logout L E token d0 d = (x, d', evs)" "d' \<noteq> d"
  shows "live token d"
proof -
  obtain target where "session_transaction (logout_tx L E target token d) d = (x, d')"
    using assms by (auto simp: logout_def split: option.splits prod.splits)
  then obtain y where run: "logout_tx L E target token d = Inr (y, d')"
    using assms(2) by (auto simp: session_transaction_def account_stmts elim!: transact_cases)
  obtain u f t where u: "get_by_id (al_text L) (rt_user target) d = Inr (Some u)"
    and lock: "locked_refresh target token (user_id u) d = Inr (f, t)"
    and f: "f_status f = FAMILY_ACTIVE" "revoke (f_id f) (ae_now E) d = Inr d'"
    by (rule logout_tx_Inr [OF run assms(2)])
  have "t_used t = None" using run u lock assms(2) by (auto simp: logout_tx_def split: if_splits)
  then show ?thesis using locked_refresh_Inr [OF lock] f(1) by (intro liveI [of t _ _ f]) simp_all
qed

text \<open>A stored token that is not live never becomes live again.\<close>

lemma dead_forever:
  assumes "account_inv d" "(account_step L)\<^sup>*\<^sup>* d d'" "t \<in> set (ac_refresh d)" "t_digest t = token_digest token"
    "\<not> live token d"
  shows "\<not> live token d'"
proof
  assume "live token d'"
  then obtain t' f' where t': "t' \<in> set (ac_refresh d')" "t_digest t' = token_digest token" "t_used t' = None"
    and f': "f' \<in> set (ac_families d')" "f_id f' = t_family t'" "f_status f' = FAMILY_ACTIVE" by (auto simp: live_def)
  have inv: "account_inv d'" "accounts_later d d'" using steps_later [OF assms(2,1)] by simp_all
  then have ok: "tables_ok d'" "tables_ok d" using assms(1) by (simp_all add: account_inv_def)
  have g: "grows refresh_later (ac_refresh d) (ac_refresh d')" "grows family_later (ac_families d) (ac_families d')"
    using inv(2) by (simp_all add: accounts_later_def)
  obtain t1 where t1: "t1 \<in> set (ac_refresh d')" "refresh_later t t1" by (rule grows_in [OF g(1) assms(3)])
  have "t1 = t'"
    by (rule distinct_map_filter_unique [OF table_keys(3) [OF ok(1)] t1(1) t'(1)]) (use t1(2) t'(2) assms(4) in \<open>simp add: refresh_later_def\<close>)
  then have t: "t_family t = t_family t'" "t_used t = None"
    using t1(2) t'(3) by (auto simp: refresh_later_def)
  have "t_family t \<in> f_id ` set (ac_families d)" using ok(2) assms(3) by (simp add: tables_ok_def refresh_ok_def)
  then obtain f where f: "f \<in> set (ac_families d)" "f_id f = t_family t" by auto
  obtain f1 where f1: "f1 \<in> set (ac_families d')" "family_later f f1" by (rule grows_in [OF g(2) f(1)])
  have "f1 = f'"
    by (rule distinct_map_filter_unique [OF family_ids [OF ok(1)] f1(1) f'(1)]) (use f1(2) f(2) f'(2) t(1) in \<open>simp add: family_later_def\<close>)
  then have "f_status f = FAMILY_ACTIVE" using f1(2) f'(3) by (cases "f_status f") (auto simp: family_later_def)
  then show False using liveI [OF assms(3,4) t(2) f] assms(5) by simp
qed

text \<open>C8. A session credential that has been used, or whose family was revoked (by logout, a new login, a
  password change or reset, the disabling of the user, or a detected reuse), is worthless in every later state,
  whatever requests have run since and whatever the unlocked reads of the request saw: it neither
  refreshes the session nor changes the password, and logging out with it changes nothing.\<close>

theorem ended_credentials:
  assumes "accounts_reachable L d" "t \<in> set (ac_refresh d)" "t_digest t = token_digest token"
    "t_used t \<noteq> None \<or> (\<exists>f \<in> set (ac_families d). f_id f = t_family t \<and> f_status f = FAMILY_REVOKED)"
    "(account_step L)\<^sup>*\<^sup>* d d'"
  shows "\<not> is_ok (fst (refresh L E token d0 d')) \<and> \<not> is_ok (fst (change_password L now1 E p token current new d0 d1 d'))
    \<and> fst (snd (logout L E token d0 d')) = d'"
proof -
  have inv: "account_inv d" by (rule account_reachable_inv [OF assms(1)])
  then have ok: "tables_ok d" by (simp add: account_inv_def)
  have "\<not> live token d"
  proof
    assume "live token d"
    then obtain u g where u: "u \<in> set (ac_refresh d)" "t_digest u = token_digest token" "t_used u = None"
      and g: "g \<in> set (ac_families d)" "f_id g = t_family u" "f_status g = FAMILY_ACTIVE" by (auto simp: live_def)
    have "u = t" by (rule distinct_map_filter_unique [OF table_keys(3) [OF ok] u(1) assms(2)]) (simp add: u(2) assms(3))
    then obtain f where f: "f \<in> set (ac_families d)" "f_id f = t_family u" "f_status f = FAMILY_REVOKED"
      using assms(4) u(3) by auto
    have "f = g" by (rule distinct_map_filter_unique [OF family_ids [OF ok] f(1) g(1)]) (simp add: f(2) g(2))
    then show False using f(3) g(3) by simp
  qed
  then have dead: "\<not> live token d'" by (rule dead_forever [OF inv assms(5,2,3)])
  show ?thesis
  proof (intro conjI)
    show "\<not> is_ok (fst (refresh L E token d0 d'))"
      using dead refresh_grant_live by (metis is_ok_iff prod.collapse)
    show "\<not> is_ok (fst (change_password L now1 E p token current new d0 d1 d'))"
      using dead change_password_grant_live by (metis is_ok_iff prod.collapse)
    show "fst (snd (logout L E token d0 d')) = d'"
      using dead logout_changes_live by (metis prod.collapse)
  qed
qed



section \<open>Login\<close>

lemma ended_revoked: "\<forall>f \<in> set (ac_families (end_sessions u now d)). f_user f = u \<longrightarrow> f_status f = FAMILY_REVOKED"
proof -
  have "f_status f \<noteq> FAMILY_ACTIVE \<longleftrightarrow> f_status f = FAMILY_REVOKED" for f :: family_row by (cases "f_status f") auto
  then show ?thesis by (simp add: end_sessions_def ball_Un)
qed

lemma try_login_Inr:
  assumes "try_login L fake_hash E email password d0 d = (Inr grant, d')"
  obtains snapshot where "verify_with L E password (user_password_hash snapshot) = Inr True"
    "login_tx L E snapshot d = Inr (grant, d')"
proof -
  obtain found where found: "get_by_email (al_text L) email d0 = Inr found"
    using assms by (cases "get_by_email (al_text L) email d0") (simp_all add: try_login_def)
  obtain m where m: "verify_with L E password (case found of None \<Rightarrow> fake_hash | Some u \<Rightarrow> user_password_hash u) = Inr m"
    using assms found by (cases "verify_with L E password (case found of None \<Rightarrow> fake_hash | Some u \<Rightarrow> user_password_hash u)")
      (simp_all add: try_login_def)
  obtain u where u: "found = Some u" "m"
    using assms found m by (cases found) (auto simp: try_login_def split: if_splits)
  then have "session_transaction (login_tx L E u d) d = (Inr grant, d')"
    using assms found m by (auto simp: try_login_def split: if_splits)
  then have "login_tx L E u d = Inr (grant, d')"
    by (auto simp: session_transaction_def account_stmts elim!: transact_cases)
  then show thesis using that [of u] m u by simp
qed

text \<open>C21. No session without the password: if a login returns a grant then the user is active, the
  submitted password was verified against the hash that is stored when the session is opened (not
  only against the hash read before the lock), the user's other sessions are ended, and the new
  family, which expires after seven days, is the only active one; its one token is the granted one.\<close>

theorem login_sound:
  assumes "accounts_reachable L d" "login L fake_hash E email password d0 d = (Inr grant, d', evs)"
  shows "\<exists>r i. r \<in> set (ac_users d) \<and> a_status r = ACTIVE \<and> verify_with L E password (a_hash r) = Inr True
    \<and> d' = open_session (ae_family E) (a_id r) (ae_now E) (sg_refresh grant) i (end_sessions (a_id r) (ae_now E) d)
    \<and> sg_expires grant = ae_now E + days 7
    \<and> (\<forall>f \<in> set (ac_families d'). f_user f = a_id r \<and> f_status f = FAMILY_ACTIVE \<longrightarrow> f_id f = ae_family E)
    \<and> live (sg_refresh grant) d' \<and> evs = []"
proof -
  have ok: "tables_ok d" using account_reachable_inv [OF assms(1)] by (simp add: account_inv_def)
  have evs: "evs = []" and tr: "try_login L fake_hash E email password d0 d = (Inr grant, d')"
    using assms(2) by (auto simp: login_def split: prod.splits)
  obtain snapshot where v: "verify_with L E password (user_password_hash snapshot) = Inr True"
    and run: "login_tx L E snapshot d = Inr (grant, d')" by (rule try_login_Inr [OF tr])
  obtain u d1 d2 token i where u: "get_by_id (al_text L) (user_id snapshot) d = Inr (Some u)" "user_status u = ACTIVE"
      "user_password_hash u = user_password_hash snapshot"
    and steps: "revoke_all (lock_families (user_id u) None d) (ae_now E) d = Inr d1"
      "create_family (user_id u) (ae_family E) (ae_now E) (ae_now E + days 7) d1 = Inr d2"
      "issue_refresh E (ae_family E) d2 = Inr ((token, i), d')"
    and grant: "sg_refresh grant = token" "sg_expires grant = ae_now E + days 7"
    using run by (auto simp: login_tx_def Let_def lock_families_filter bindE_eq_Inr split: option.splits if_splits)
  obtain r where r: "r \<in> set (ac_users d)" "a_id r = user_id u" "a_status r = ACTIVE" "a_hash r = user_password_hash u"
    using get_by_id_Some [OF u(1)] u(2) by metis
  note e = revoke_locked [OF steps(1) refl ok]
  note o = open_session_Inr [OF steps(2,3) e(2)]
  have d': "d' = open_session (ae_family E) (a_id r) (ae_now E) token i (end_sessions (a_id r) (ae_now E) d)"
    using o(1) e(1) r(2) by simp
  have "\<forall>f \<in> set (ac_families d'). f_user f = a_id r \<and> f_status f = FAMILY_ACTIVE \<longrightarrow> f_id f = ae_family E"
    unfolding d' open_session_def using ended_revoked [of "a_id r" "ae_now E" d] by auto
  moreover have "live token d'" unfolding d' live_def open_session_def by auto
  ultimately show ?thesis using r u(3) v d' grant evs by (intro exI [of _ r] exI [of _ i]) simp
qed


section \<open>Reset and registration\<close>

text \<open>Neither kind of challenge is ever completed twice.\<close>

lemma complete_reset_Inr:
  assumes "complete_reset L E token password d0 d1 d = (Inr x, d', evs)"
  obtains target snapshot hash where "hash_with L E password = Inr hash"
    "reset_tx L E target snapshot token hash d = Inr (x, d')"
  using assms by (auto simp: complete_reset_def password_transaction_def account_stmts bindE_eq_Inr
      split: option.splits sum.splits prod.splits if_splits elim!: transact_cases)

lemma used_reset_stays:
  assumes "account_inv d" "(account_step L)\<^sup>*\<^sup>* d d'" "k \<in> set (ac_reset_tokens d)" "k_digest k = token_digest token"
    "k_used k \<noteq> None"
  shows "\<not> is_ok (fst (complete_reset L E token password d0 d1 d'))"
proof
  assume "is_ok (fst (complete_reset L E token password d0 d1 d'))"
  then obtain x d'' evs where "complete_reset L E token password d0 d1 d' = (Inr x, d'', evs)"
    by (metis is_ok_iff prod.collapse)
  then obtain target snapshot hash where run: "reset_tx L E target snapshot token hash d' = Inr (x, d'')"
    by (auto elim: complete_reset_Inr)
  have inv: "account_inv d'" "accounts_later d d'" using steps_later [OF assms(2,1)] by simp_all
  then have ok: "tables_ok d'" "grows secret_later (ac_reset_tokens d) (ac_reset_tokens d')"
    by (simp_all add: account_inv_def accounts_later_def)
  obtain l where l: "l \<in> set (ac_reset_tokens d')" "secret_later k l" by (rule grows_in [OF ok(2) assms(3)])
  show False
  proof (rule reset_tx_Inr [OF run], goal_cases)
    case (1 u h k' d1 d2 d3)
    have "k' = l"
      by (rule distinct_map_filter_unique [OF table_keys(8) [OF ok(1)] 1(8) l(1)])
        (use 1(10) l(2) assms(4) in \<open>simp add: secret_later_def\<close>)
    then show ?case using 1(11) l(2) assms(5) by (auto simp: secret_later_def)
  qed
qed

text \<open>C19. A password reset succeeds only for an active user with an active, unexpired challenge and an unused
  token of it. It stores the new hash, ends every session of the user, closes the challenge and
  logs the event; and in every later state the same token is refused, whatever was read before the locks.\<close>

theorem reset_token_single_use:
  assumes "accounts_reachable L d" "complete_reset L E token password d0 d1 d = (Inr (), d', evs)"
  shows "(\<exists>r h k hash. r \<in> set (ac_users d) \<and> a_status r = ACTIVE \<and> hash_with L E password = Inr hash
      \<and> h \<in> set (ac_resets d) \<and> h_owner h = a_id r \<and> h_status h = CH_ACTIVE \<and> ae_now E < h_expires h
      \<and> k \<in> set (ac_reset_tokens d) \<and> k_challenge k = h_id h \<and> k_digest k = token_digest token \<and> k_used k = None
      \<and> d' = log_event (password_event (ae_event E) (a_id r) None (ae_now E)) (close_reset (h_id h) (k_id k) (ae_now E)
          (end_sessions (a_id r) (ae_now E) (modify_user (a_id r) (\<lambda>r. r\<lparr>a_hash := hash, a_updated := ae_now E\<rparr>) d)))
      \<and> (\<forall>f \<in> set (ac_families d'). f_user f = a_id r \<longrightarrow> f_status f = FAMILY_REVOKED))
    \<and> (\<forall>d''. (account_step L)\<^sup>*\<^sup>* d' d'' \<longrightarrow> \<not> is_ok (fst (complete_reset L E' token password' d2 d3 d'')))"
proof -
  have inv: "account_inv d" by (rule account_reachable_inv [OF assms(1)])
  then have ok: "tables_ok d" by (simp add: account_inv_def)
  have inv': "account_inv d'" by (rule moves_inv [OF complete_reset_moves [OF assms(2) ok] inv])
  obtain target snapshot hash where hash: "hash_with L E password = Inr hash"
    and run: "reset_tx L E target snapshot token hash d = Inr ((), d')" by (rule complete_reset_Inr [OF assms(2)])
  show ?thesis
  proof (rule reset_tx_Inr [OF run], goal_cases)
    case (1 u h k d1 d2 d3)
    obtain r where r: "r \<in> set (ac_users d)" "a_id r = user_id u" "a_status r = ACTIVE"
      using get_by_id_Some [OF 1(1)] 1(2) by metis
    note c = change_hash_Inr [OF 1(12) ok]
    have "ac_families d = ac_families d1" by (simp add: c(1))
    note e = revoke_locked [OF 1(13) this c(2)]
    note f = finish_reset_Inr [OF 1(14) e(2)]
    note a = audit_password_Inr [OF 1(15) f(2)]
    have d': "d' = log_event (password_event (ae_event E) (a_id r) None (ae_now E)) (close_reset (h_id h) (k_id k) (ae_now E)
        (end_sessions (a_id r) (ae_now E) (modify_user (a_id r) (\<lambda>r. r\<lparr>a_hash := hash, a_updated := ae_now E\<rparr>) d)))"
      using a(1) f(1) e(1) c(1) r(2) by simp
    have gone: "\<forall>g \<in> set (ac_families d'). f_user g = a_id r \<longrightarrow> f_status g = FAMILY_REVOKED"
      unfolding d' using ended_revoked by simp
    let ?k = "k\<lparr>k_used := Some (ae_now E)\<rparr>"
    have "?k \<in> set (ac_reset_tokens d')" using 1(8,9) by (force simp: d' move_defs use_secret_def)
    then have "\<not> is_ok (fst (complete_reset L E' token password' d2' d3' d''))" if "(account_step L)\<^sup>*\<^sup>* d' d''" for d2' d3' d''
      by (rule used_reset_stays [OF inv' that]) (use 1(10) in simp_all)
    moreover have "h_owner h = a_id r" using 1(5) r(2) by simp
    ultimately show ?case using r(1,3) hash 1(3,6-11) d' gone by blast
  qed
qed

end
