(* ===== verification/Account_Guarantees.thy ===== *)
theory Account_Guarantees
  imports Account_Properties
begin

text \<open>
  Registration, the issuing of tokens, and what holds in every reachable state of the account
  component.
\<close>

section \<open>Registration\<close>

lemma complete_registration_Inr:
  assumes "complete_registration L domains E token name password d0 d = (Inr grant, d', evs)"
  obtains target hash where "hash_with L E password = Inr hash"
    "registration_tx L domains E target token name hash d = Inr (grant, d')"
  using assms by (auto simp: complete_registration_def registration_transaction_def account_stmts bindE_eq_Inr
      split: option.splits sum.splits prod.splits elim!: transact_cases)

lemma used_registration_stays:
  assumes "account_inv d" "(account_step L)\<^sup>*\<^sup>* d d'" "k \<in> set (ac_registration_tokens d)"
    "k_digest k = token_digest token" "k_used k \<noteq> None"
  shows "\<not> is_ok (fst (complete_registration L domains E token name password d0 d'))"
proof
  assume "is_ok (fst (complete_registration L domains E token name password d0 d'))"
  then obtain x d'' evs where "complete_registration L domains E token name password d0 d' = (Inr x, d'', evs)"
    by (metis is_ok_iff prod.collapse)
  then obtain target hash where run: "registration_tx L domains E target token name hash d' = Inr (x, d'')"
    by (rule complete_registration_Inr)
  have inv: "account_inv d'" "accounts_later d d'" using steps_later [OF assms(2,1)] by simp_all
  then have ok: "tables_ok d'" "grows secret_later (ac_registration_tokens d) (ac_registration_tokens d')"
    by (simp_all add: account_inv_def accounts_later_def)
  obtain l where l: "l \<in> set (ac_registration_tokens d')" "secret_later k l" by (rule grows_in [OF ok(2) assms(3)])
  show False
  proof (rule registration_tx_Inr [OF run], goal_cases)
    case (1 h email k' u d1 d2 d3 refresh i)
    have "k' = l"
      by (rule distinct_map_filter_unique [OF table_keys(9) [OF ok(1)] 1(7) l(1)])
        (use 1(9) l(2) assms(4) in \<open>simp add: secret_later_def\<close>)
    then show ?case using 1(10) l(2) assms(5) by (auto simp: secret_later_def)
  qed
qed

text \<open>C20. A registration succeeds only with an unused token of an active, unexpired challenge for an
  address of an allowed domain that has no user yet. It creates one active user of role \<open>USER\<close> with
  that address and the hash of the submitted password, one session whose token is the granted
  one, and closes the challenge; in every later state the same token is refused.\<close>

theorem registration_sound:
  assumes "accounts_reachable L d" "complete_registration L domains E token name password d0 d = (Inr grant, d', evs)"
  shows "(\<exists>h k hash i. hash_with L E password = Inr hash
      \<and> h \<in> set (ac_registrations d) \<and> h_status h = CH_ACTIVE \<and> ae_now E < h_expires h
      \<and> k \<in> set (ac_registration_tokens d) \<and> k_challenge k = h_id h \<and> k_digest k = token_digest token \<and> k_used k = None
      \<and> require_allowed_domain (h_owner h) domains = Inr () \<and> h_owner h \<notin> a_email ` set (ac_users d)
      \<and> d' = close_registration (h_id h) (k_id k) (ae_now E) (open_session (ae_family E) (ae_user E) (ae_now E)
          (sg_refresh grant) i (add_account (registered_row (ae_user E) (h_owner h) name hash USER (ae_created E) (ae_updated E)) d))
      \<and> live (sg_refresh grant) d')
    \<and> (\<forall>d''. (account_step L)\<^sup>*\<^sup>* d' d'' \<longrightarrow> \<not> is_ok (fst (complete_registration L domains' E' token name' password' d1 d'')))"
proof -
  have inv: "account_inv d" by (rule account_reachable_inv [OF assms(1)])
  then have ok: "tables_ok d" by (simp add: account_inv_def)
  have inv': "account_inv d'" by (rule moves_inv [OF complete_registration_moves [OF assms(2) ok] inv])
  then have ok': "tables_ok d'" by (simp add: account_inv_def)
  obtain target hash where hash: "hash_with L E password = Inr hash"
    and run: "registration_tx L domains E target token name hash d = Inr (grant, d')"
    by (rule complete_registration_Inr [OF assms(2)])
  show ?thesis
  proof (rule registration_tx_Inr [OF run], goal_cases)
    case (1 h email k u d1 d2 d3 refresh i)
    let ?row = "registered_row (ae_user E) (h_owner h) name hash USER (ae_created E) (ae_updated E)"
    note a = add_user_Inr [OF 1(12) ok]
    note s = open_session_Inr [OF 1(13,14) a(2)]
    note c = complete_challenge_Inr [OF 1(15) s(2)]
    have d1: "d1 = add_account ?row d"
      using a(1) 1(3,4) by (simp add: add_account_def registered_row_def registered_user_def)
    have d': "d' = close_registration (h_id h) (k_id k) (ae_now E) (open_session (ae_family E) (ae_user E) (ae_now E)
        (sg_refresh grant) i (add_account ?row d))"
      using c(1) s(1) d1 a(3) 1(16) by simp
    have "a_email ?row \<notin> a_email ` set (ac_users d)"
      using ok' by (simp add: d' tables_ok_def users_ok_append move_defs)
    then have fresh: "h_owner h \<notin> a_email ` set (ac_users d)" by (simp add: registered_row_def)
    have live: "live (sg_refresh grant) d'" unfolding d' live_def move_defs by auto
    let ?k = "k\<lparr>k_used := Some (ae_now E)\<rparr>"
    have "?k \<in> set (ac_registration_tokens d')" using 1(7,8) by (force simp: d' move_defs use_secret_def)
    then have "\<not> is_ok (fst (complete_registration L domains' E' token name' password' d0' d''))"
      if "(account_step L)\<^sup>*\<^sup>* d' d''" for d0' d''
      by (rule used_registration_stays [OF inv' that]) (use 1(9) in simp_all)
    moreover have "require_allowed_domain (h_owner h) domains = Inr ()" using 1(3,4,11) by simp
    ultimately show ?case using hash 1(1,5-10) d' fresh live by blast
  qed
qed


section \<open>Issuing tokens\<close>

lemma issue_refresh_find:
  assumes "\<And>n. n \<in> set ns \<Longrightarrow> byte_list (R n) \<and> length (R n) = 32 \<and> I n \<notin> t_id ` set (ac_refresh d)"
    "family \<in> f_id ` set (ac_families d)"
  shows "issue_token RefreshDigestConflict (add_token family now) (map (\<lambda>n. (R n, I n)) ns) d =
    (case find (\<lambda>n. token_digest (b64_encode (R n)) \<notin> t_digest ` set (ac_refresh d)) ns of
       None \<Rightarrow> raise_account OpaqueTokenCollision
     | Some n \<Rightarrow> Inr ((b64_encode (R n), I n), d\<lparr>ac_refresh := ac_refresh d @ [\<lparr>t_id = I n, t_family = family,
         t_digest = token_digest (b64_encode (R n)), t_issued = now, t_used = None, t_replaced = None\<rparr>]\<rparr>))"
  using assms(1)
proof (induction ns)
  case (Cons n ns)
  then have n: "generate_opaque_token (R n) = Inr (b64_encode (R n))" "I n \<notin> t_id ` set (ac_refresh d)"
    using generate_ok by auto
  show ?case
    using n Cons assms(2) by (simp add: add_token_def insert_refresh_def refresh_check_def integrity_def)
qed simp

text \<open>C38. Issuing a token ends: each of at most four attempts draws a new sample, and the first whose
  digest is not stored yet is stored under its digest; the three before it leave nothing behind. Only if all
  four digests are already stored the issuing fails, as a collision.\<close>

theorem token_issuance_ends:
  assumes "\<And>n. n < 4 \<Longrightarrow> byte_list (ae_random E n) \<and> length (ae_random E n) = 32 \<and> ae_row E n \<notin> t_id ` set (ac_refresh d)"
    "family \<in> f_id ` set (ac_families d)"
  shows "issue_refresh E family d =
    (case find (\<lambda>n. token_digest (b64_encode (ae_random E n)) \<notin> t_digest ` set (ac_refresh d)) [0..<4] of
       None \<Rightarrow> raise_account OpaqueTokenCollision
     | Some n \<Rightarrow> Inr ((b64_encode (ae_random E n), ae_row E n), d\<lparr>ac_refresh := ac_refresh d @ [\<lparr>t_id = ae_row E n,
         t_family = family, t_digest = token_digest (b64_encode (ae_random E n)), t_issued = ae_now E, t_used = None,
         t_replaced = None\<rparr>]\<rparr>))"
  unfolding issue_refresh_def attempts_def by (rule issue_refresh_find) (use assms in auto)


section \<open>Reachable states\<close>

text \<open>C10. Every account use case refines the abstract account machine: in a reachable state, whatever
  its unlocked reads saw, it leaves the tables alone or makes one of the moves of \<open>account_move\<close>, and
  commits tables that meet every database constraint.\<close>

theorem account_refinement:
  assumes "accounts_reachable L d" "account_step L d d'"
  shows "d' = d \<or> account_move d d' \<and> tables_ok d' \<and> replacements_exist d'"
  using account_step_moves [OF assms(2)] account_reachable_inv [OF assms(1)] by (simp add: moves_def account_inv_def)

text \<open>C9. In every reachable state: no two users share an identifier or an address; a user has at most one
  active session family and at most one active reset challenge, an address at most one active registration; a
  disabled user has neither; every family, active or not, has exactly one unused token, and every
  used token names a replacement in its own family.\<close>

theorem accounts_consistent:
  assumes "accounts_reachable L d"
  shows "distinct (map a_id (ac_users d)) \<and> distinct (map a_email (ac_users d))
    \<and> distinct (map f_user (filter (\<lambda>f. f_status f = FAMILY_ACTIVE) (ac_families d)))
    \<and> distinct (map h_owner (filter (\<lambda>h. h_status h = CH_ACTIVE) (ac_resets d)))
    \<and> distinct (map h_owner (filter (\<lambda>h. h_status h = CH_ACTIVE) (ac_registrations d)))
    \<and> (\<forall>r \<in> set (ac_users d). a_status r = DISABLED \<longrightarrow>
         (\<forall>f \<in> set (ac_families d). f_user f = a_id r \<longrightarrow> f_status f = FAMILY_REVOKED)
         \<and> (\<forall>h \<in> set (ac_resets d). h_owner h = a_id r \<longrightarrow> h_status h \<noteq> CH_ACTIVE))
    \<and> (\<forall>f \<in> set (ac_families d). \<exists>!t. t \<in> set (ac_refresh d) \<and> t_family t = f_id f \<and> t_used t = None)
    \<and> (\<forall>t \<in> set (ac_refresh d). t_used t \<noteq> None \<longrightarrow>
         (\<exists>n \<in> set (ac_refresh d). t_replaced t = Some (t_id n) \<and> t_family n = t_family t \<and> t_id n \<noteq> t_id t))"
proof -
  have inv: "tables_ok d" "replacements_exist d" "one_unused d" "disabled_quiet d"
    using account_reachable_inv [OF assms] by (simp_all add: account_inv_def)
  have unused: "\<exists>!t. t \<in> set (ac_refresh d) \<and> t_family t = f_id f \<and> t_used t = None" if "f \<in> set (ac_families d)" for f
  proof -
    have len: "length (unused (f_id f) (ac_refresh d)) = 1" using inv(3) that by (simp add: one_unused_def)
    then obtain t where "unused (f_id f) (ac_refresh d) = [t]" by (cases "unused (f_id f) (ac_refresh d)") auto
    then have "set (unused (f_id f) (ac_refresh d)) = {t}" by simp
    then have "(x \<in> set (ac_refresh d) \<and> t_family x = f_id f \<and> t_used x = None) = (x = t)" for x
      by (auto simp: unused_def set_eq_iff)
    then show ?thesis by simp
  qed
  have replaced: "\<exists>n \<in> set (ac_refresh d). t_replaced t = Some (t_id n) \<and> t_family n = t_family t \<and> t_id n \<noteq> t_id t"
    if t: "t \<in> set (ac_refresh d)" "t_used t \<noteq> None" for t
  proof -
    have "refresh_check t" using inv(1) t(1) by (simp add: tables_ok_def refresh_ok_def)
    then obtain i where i: "t_replaced t = Some i" "i \<noteq> t_id t" using t(2) by (auto simp: refresh_check_def split: option.splits)
    then show ?thesis using bspec [OF inv(2) [unfolded replacements_exist_def] t(1)] by auto
  qed
  show ?thesis
    using inv(1,4) unused replaced
    by (simp add: tables_ok_def users_ok_def families_ok_def challenges_ok_def disabled_quiet_def)
qed

lemma event_check_contract: "event_check e \<longleftrightarrow> validate_security_event_contract e = Inr ()"
  by (cases "ev_type e"; cases "ev_initiator e")
    (auto simp: event_check_def validate_security_event_contract_def Let_def)

lemma truthful_log_split: "truthful_log pre (xs @ e # ys) \<Longrightarrow> truthful (pre @ xs) e"
proof (induction xs arbitrary: pre)
  case (Cons x xs)
  then show ?case using Cons.IH [of "pre @ [x]"] by simp
qed simp

text \<open>C11. The security log is complete and truthful. In every reachable state the role and the status of
  each user are exactly what replaying the log gives, so no change went unlogged; every entry
  names the values it replaced; the initiator of every role change was allowed to make
  it under the role-change rule and is not its subject, only a \<open>SUPER_ADMIN\<close> disabled or enabled another user, and a
  password was changed only by its owner or by a reset token, for an active user.\<close>

theorem security_log_replays:
  assumes "accounts_reachable L d"
  shows "(\<forall>r \<in> set (ac_users d). a_role r = logged_role (a_id r) (ac_events d) \<and> a_status r = logged_status (a_id r) (ac_events d))
    \<and> (\<forall>before e after. ac_events d = before @ e # after \<longrightarrow> truthful before e \<and> validate_security_event_contract e = Inr ())"
proof -
  have inv: "tables_ok d" "log_ok d" using account_reachable_inv [OF assms] by (simp_all add: account_inv_def)
  have "truthful before e \<and> validate_security_event_contract e = Inr ()" if evs: "ac_events d = before @ e # after" for before e after
  proof -
    have "truthful_log [] (before @ e # after)" using inv(2) evs by (simp add: log_ok_def)
    from truthful_log_split [OF this] have "truthful before e" by simp
    moreover have "event_check e" using inv(1) evs by (simp add: tables_ok_def events_ok_def)
    ultimately show ?thesis by (simp add: event_check_contract)
  qed
  then show ?thesis using inv(2) by (simp add: log_ok_def)
qed

end
