(* ===== verification/Account_Samples.thy ===== *)
theory Account_Samples
  imports Account_Guarantees
begin

text \<open>
  A small run of the account component, from empty tables, and the properties at its states: the
  first administrator is created, signs in and out, and resets the password; a user registers.
\<close>

section \<open>Libraries and environments\<close>

definition sample_text :: text_lib where
  "sample_text = \<lparr>lib_nfc = (\<lambda>s. s), lib_casefold = (\<lambda>s. s),
     lib_validate = (\<lambda>s. Some (takeWhile (\<lambda>c. c \<noteq> 64) s, Some (tl (dropWhile (\<lambda>c. c \<noteq> 64) s))))\<rparr>"

definition sample_lib_with :: "(uuid \<Rightarrow> uuid \<Rightarrow> user_role \<Rightarrow> int \<Rightarrow> pystr res) \<Rightarrow> auth_lib" where
  "sample_lib_with sign = \<lparr>al_text = sample_text,
     al_argon = \<lparr>argon_hash = (\<lambda>salt p. salt # p), argon_verify = (\<lambda>h p. if tl h = p then Matches True else VerifyMismatchError)\<rparr>,
     al_sign = sign\<rparr>"

definition sample_lib :: auth_lib where
  "sample_lib = sample_lib_with (\<lambda>jti u r t. Inr [46])"

definition sample_env :: "int \<Rightarrow> uuid \<Rightarrow> auth_env" where
  "sample_env now e = \<lparr>ae_now = now, ae_clock = Aware now, ae_family = 1, ae_challenge = 2, ae_user = 3, ae_event = e,
     ae_created = now, ae_updated = now, ae_random = (\<lambda>n. replicate 32 n), ae_row = (\<lambda>n. of_nat (n + 10)), ae_jti = 302240678275694148452352, ae_salt = 7,
     ae_verify_slot = True, ae_hash_slot = True\<rparr>"

abbreviation sample_email :: pystr where "sample_email \<equiv> [97, 64, 98]"
abbreviation sample_name :: pystr where "sample_name \<equiv> [110]"
abbreviation sample_password :: pystr where
  "sample_password \<equiv> [97, 97, 97, 97, 97, 97, 97, 97, 97, 97, 97, 97, 97, 97, 97]"

definition sample_token :: pystr where
  "sample_token = b64_encode (replicate 32 0)"

lemma generate_sample_token: "generate_opaque_token (replicate 32 0) = Inr sample_token"
  unfolding sample_token_def by (rule generate_ok) (simp_all add: byte_list_def list_all_iff)

lemma attempts_sample: "attempts (sample_env now e) = (replicate 32 0, 10) # map (\<lambda>n. (replicate 32 n, of_nat (n + 10))) [1..<4]"
  by (simp add: attempts_def sample_env_def upt_rec)

lemma issue_sample:
  assumes "put sample_token 10 d = Inr d'"
  shows "issue_token c put (attempts (sample_env now e)) d = Inr ((sample_token, 10), d')"
  using assms by (simp add: attempts_sample generate_sample_token)

section \<open>States\<close>

definition admin_row :: user_row where
  "admin_row = \<lparr>a_id = 3, a_email = sample_email, a_name = sample_name, a_hash = 7 # sample_password, a_role = SUPER_ADMIN,
     a_status = ACTIVE, a_created = 100, a_updated = 100\<rparr>"

definition admin_state :: account_db where
  "admin_state = empty_accounts\<lparr>ac_users := [admin_row], ac_events := [bootstrap_event 20 3 100]\<rparr>"

definition admin_session :: family_row where
  "admin_session = \<lparr>f_id = 1, f_user = 3, f_status = FAMILY_ACTIVE, f_expires = 200 + days 7, f_revoked = None, f_created = 200,
     f_updated = 200\<rparr>"

definition admin_refresh :: refresh_row where
  "admin_refresh = \<lparr>t_id = 10, t_family = 1, t_digest = token_digest sample_token, t_issued = 200, t_used = None, t_replaced = None\<rparr>"

definition signed_in_state :: account_db where
  "signed_in_state = admin_state\<lparr>ac_families := [admin_session], ac_refresh := [admin_refresh]\<rparr>"

definition signed_out_state :: account_db where
  "signed_out_state = signed_in_state\<lparr>ac_families := [revoked_row 300 admin_session]\<rparr>"

lemma sample_user: "user_from_record sample_text admin_row = Inr \<lparr>user_id = 3, user_email = sample_email, user_name = sample_name,
    user_password_hash = 7 # sample_password, user_role = SUPER_ADMIN, user_status = ACTIVE, user_created_at = Aware 100,
    user_updated_at = Aware 100\<rparr>"
  by (simp add: user_from_record_def admin_row_def sample_text_def email_address_def normalize_email_def display_name_def
      user_init_def strip_ws_def is_space_def lower_ascii_def has_cc_def Let_def)


lemma admin_by_id: "ac_users d = [admin_row] \<Longrightarrow> get_by_id sample_text 3 d = Inr (Some \<lparr>user_id = 3, user_email = sample_email,
    user_name = sample_name, user_password_hash = 7 # sample_password, user_role = SUPER_ADMIN, user_status = ACTIVE,
    user_created_at = Aware 100, user_updated_at = Aware 100\<rparr>)"
  using sample_user by (simp add: get_by_id_def optional_user_def admin_row_def)

lemma admin_by_email: "ac_users d = [admin_row] \<Longrightarrow> get_by_email sample_text sample_email d = Inr (Some \<lparr>user_id = 3,
    user_email = sample_email, user_name = sample_name, user_password_hash = 7 # sample_password, user_role = SUPER_ADMIN,
    user_status = ACTIVE, user_created_at = Aware 100, user_updated_at = Aware 100\<rparr>)"
  using sample_user by (simp add: get_by_email_def optional_user_def admin_row_def)

lemma sample_select [simp]:
  "al_text sample_lib = sample_text" "al_text (sample_lib_with sign) = sample_text" "ae_now (sample_env now e) = now" "ae_family (sample_env now e) = 1"
  "ae_challenge (sample_env now e) = 2" "ae_user (sample_env now e) = 3" "ae_event (sample_env now e) = e"
  "ae_created (sample_env now e) = now" "ae_updated (sample_env now e) = now" "ae_clock (sample_env now e) = Aware now"
  by (simp_all add: sample_lib_def sample_lib_with_def sample_env_def)

lemma sample_verify: "verify_with (sample_lib_with sign) (sample_env now e) p (s # p) = Inr True"
  by (simp add: verify_with_def sample_lib_with_def sample_env_def password_defs)

lemma sample_hash: "hash_with sample_lib (sample_env now e) p = Inr (7 # p)"
  by (simp add: hash_with_def sample_lib_def sample_lib_with_def sample_env_def password_defs)

lemma sample_sign: "sign_with sample_lib (sample_env now e) u = Inr [46]"
  by (simp add: sign_with_def sample_lib_def sample_lib_with_def)

lemma sample_bootstrap:
  "bootstrap_super_admin sample_lib (sample_env 100 20) sample_email sample_name sample_password empty_accounts empty_accounts
     empty_accounts empty_accounts = (Inr CREATED, admin_state)"
proof -
  have e: "email_address sample_text sample_email = Inr sample_email"
    by (simp add: sample_text_def email_address_def normalize_email_def strip_ws_def is_space_def lower_ascii_def)
  have n: "display_name (lib_nfc sample_text) sample_name = Inr sample_name"
    by (simp add: sample_text_def display_name_def strip_ws_def is_space_def has_cc_def)
  have p: "plain_password (lib_nfc sample_text) sample_password = Inr sample_password"
    by (simp add: sample_text_def plain_password_def)
  have u: "add_user sample_text \<lparr>nu_email = sample_email, nu_name = sample_name, nu_hash = 7 # sample_password,
      nu_role = SUPER_ADMIN, nu_status = ACTIVE\<rparr> 3 100 100 empty_accounts
    = Inr (\<lparr>user_id = 3, user_email = sample_email, user_name = sample_name, user_password_hash = 7 # sample_password,
      user_role = SUPER_ADMIN, user_status = ACTIVE, user_created_at = Aware 100, user_updated_at = Aware 100\<rparr>,
      empty_accounts\<lparr>ac_users := [admin_row]\<rparr>)"
    using sample_user by (simp add: add_user_def insert_user_def user_check_def empty_accounts_def admin_row_def Let_def)
  have ev: "insert_event (bootstrap_event 20 3 100) (empty_accounts\<lparr>ac_users := [admin_row]\<rparr>) = Inr admin_state"
    by (simp add: insert_event_def event_check_def bootstrap_event_def empty_accounts_def admin_state_def admin_row_def Let_def)
  have v: "validate_security_event_contract (bootstrap_event 20 3 100) = Inr ()" "is_aware (ev_occurred_at (bootstrap_event 20 3 100))"
    by (simp_all add: bootstrap_event_def validate_security_event_contract_def)
  have "add_security_event (bootstrap_event 20 3 100) (empty_accounts\<lparr>ac_users := [admin_row]\<rparr>) = Inr admin_state"
    by (simp add: add_security_event_def ev security_event_init_def v)
  moreover have "replacements_exist admin_state" "get_by_email sample_text sample_email empty_accounts = Inr None"
    by (simp_all add: replacements_exist_def admin_state_def empty_accounts_def get_by_email_def optional_user_def)
  ultimately show ?thesis
    by (simp add: bootstrap_super_admin_def e n p v sample_hash new_user_init_def u create_with_security_event_def
        commit_def transact_def)
qed

lemma sample_login_with:
  assumes "sign 302240678275694148452352 3 SUPER_ADMIN (unix_seconds 200) = Inr access"
  shows "login (sample_lib_with sign) [7] (sample_env 200 21) sample_email sample_password admin_state admin_state =
     (Inr \<lparr>sg_access = access, sg_refresh = sample_token, sg_expires = 200 + days 7, sg_issued = 200\<rparr>, signed_in_state, [])"
proof -
  have sign: "sign_with (sample_lib_with sign) (sample_env 200 21) u = Inr access" if "user_id u = 3" "user_role u = SUPER_ADMIN" for u
    using assms that by (simp add: sign_with_def sample_lib_with_def sample_env_def)
  have us: "ac_users admin_state = [admin_row]" "ac_families admin_state = []" by (simp_all add: admin_state_def empty_accounts_def)
  have create: "create_family 3 1 200 (200 + days 7) admin_state = Inr (admin_state\<lparr>ac_families := [admin_session]\<rparr>)"
    by (simp add: create_family_def insert_family_def family_check_def admin_state_def empty_accounts_def admin_session_def
        admin_row_def days_def seconds_def)
  have issue: "issue_refresh (sample_env 200 21) 1 (admin_state\<lparr>ac_families := [admin_session]\<rparr>)
      = Inr ((sample_token, 10), signed_in_state)"
    unfolding issue_refresh_def
    by (rule issue_sample) (simp add: add_token_def insert_refresh_def refresh_check_def admin_state_def empty_accounts_def
        signed_in_state_def admin_session_def admin_refresh_def)
  have "login_tx (sample_lib_with sign) (sample_env 200 21) \<lparr>user_id = 3, user_email = sample_email, user_name = sample_name,
      user_password_hash = 7 # sample_password, user_role = SUPER_ADMIN, user_status = ACTIVE, user_created_at = Aware 100,
      user_updated_at = Aware 100\<rparr> admin_state
    = Inr (\<lparr>sg_access = access, sg_refresh = sample_token, sg_expires = 200 + days 7, sg_issued = 200\<rparr>, signed_in_state)"
    by (simp add: login_tx_def admin_by_id us lock_families_def revoke_all_def create issue sign Let_def)
  moreover have "replacements_exist signed_in_state"
    by (simp add: replacements_exist_def signed_in_state_def admin_refresh_def)
  ultimately show ?thesis
    by (simp add: login_def try_login_def admin_by_email us sample_verify session_transaction_simps)
qed

lemma sample_login:
  "login sample_lib [7] (sample_env 200 21) sample_email sample_password admin_state admin_state =
     (Inr \<lparr>sg_access = [46], sg_refresh = sample_token, sg_expires = 200 + days 7, sg_issued = 200\<rparr>, signed_in_state, [])"
  unfolding sample_lib_def by (rule sample_login_with) simp

lemma sample_found: "find_refresh (token_digest sample_token) signed_in_state = Some \<lparr>rt_user = 3, rt_family = 1, rt_token = 10\<rparr>"
  by (simp add: find_refresh_def signed_in_state_def admin_refresh_def admin_session_def)

lemma sample_logout:
  "logout sample_lib (sample_env 300 22) sample_token signed_in_state signed_in_state = (Inr (), signed_out_state, [])"
proof -
  have users: "ac_users signed_in_state = [admin_row]" by (simp add: signed_in_state_def admin_state_def)
  have lock: "locked_refresh \<lparr>rt_user = 3, rt_family = 1, rt_token = 10\<rparr> sample_token 3 signed_in_state
      = Inr (admin_session, admin_refresh)"
    by (simp add: locked_refresh_def lock_families_def lock_tokens_def signed_in_state_def admin_refresh_def admin_session_def)
  have "revoke 1 300 signed_in_state = Inr signed_out_state"
    by (simp add: revoke_def update_families_def signed_in_state_def signed_out_state_def admin_session_def revoked_row_def
        family_check_def days_def seconds_def)
  moreover have "replacements_exist signed_out_state"
    by (simp add: replacements_exist_def signed_out_state_def signed_in_state_def admin_refresh_def)
  ultimately show ?thesis
    by (simp add: logout_def sample_found logout_tx_def admin_by_id users lock session_transaction_simps)
      (simp add: admin_session_def admin_refresh_def days_def seconds_def session_transaction_simps)
qed

lemma admin_reachable: "accounts_reachable sample_lib admin_state"
  by (rule accounts_reachable.step [OF start step_bootstrap [OF sample_bootstrap]])

lemma signed_in_reachable: "accounts_reachable sample_lib signed_in_state"
  by (rule accounts_reachable.step [OF admin_reachable step_login [OF sample_login]])

lemma signed_out_reachable: "accounts_reachable sample_lib signed_out_state"
  by (rule accounts_reachable.step [OF signed_in_reachable step_logout [OF sample_logout]])


text \<open>A password reset.\<close>

abbreviation sample_send :: "mail \<Rightarrow> delivery_status res" where "sample_send m \<equiv> Inr SENT"

definition reset_challenge :: "uuid challenge_row" where
  "reset_challenge = new_challenge 2 3 400 (400 + seconds (30 * 60))"

definition reset_secret :: secret_row where
  "reset_secret = \<lparr>k_id = 10, k_challenge = 2, k_digest = token_digest sample_token, k_issued = 400, k_used = None\<rparr>"

definition reset_requested_state :: account_db where
  "reset_requested_state = admin_state\<lparr>ac_resets := [reset_challenge], ac_reset_tokens := [reset_secret]\<rparr>"

definition reset_state :: account_db where
  "reset_state = log_event (password_event 23 3 None 500) (close_reset 2 10 500 (end_sessions 3 500
     (modify_user 3 (\<lambda>r. r\<lparr>a_hash := 7 # 98 # sample_password, a_updated := 500\<rparr>) reset_requested_state)))"

lemma sample_request_reset:
  "request_password_reset sample_lib sample_send (sample_env 400 0) sample_email admin_state admin_state
     = (Inr (), reset_requested_state, [])"
proof -
  have us: "ac_users admin_state = [admin_row]" "ac_resets admin_state = []" by (simp_all add: admin_state_def empty_accounts_def)
  have create: "create_challenge 3 2 400 (400 + seconds (30 * 60)) admin_state
      = Inr (reset_challenge, admin_state\<lparr>ac_resets := [reset_challenge]\<rparr>)"
    by (simp add: create_challenge_def insert_reset_def challenge_unique_def challenge_check_def reset_challenge_def
        new_challenge_def admin_state_def empty_accounts_def admin_row_def seconds_def Let_def)
  have issue: "issue_reset (sample_env 400 0) (h_id reset_challenge) (admin_state\<lparr>ac_resets := [reset_challenge]\<rparr>)
      = Inr ((sample_token, 10), reset_requested_state)"
    unfolding issue_reset_def
    by (rule issue_sample) (simp add: add_reset_token_def insert_reset_token_def secret_unique_def secret_check_def
        reset_requested_state_def reset_secret_def reset_challenge_def new_challenge_def admin_state_def empty_accounts_def)
  have "request_reset_tx sample_lib (sample_env 400 0) 3 sample_email admin_state = Inr (Some sample_token, reset_requested_state)"
    using create issue by (simp add: request_reset_tx_def admin_by_id us lock_challenges_def Let_def)
  moreover have "replacements_exist reset_requested_state"
    by (simp add: replacements_exist_def reset_requested_state_def admin_state_def empty_accounts_def)
  ultimately show ?thesis
    by (simp add: request_password_reset_def admin_by_email us password_transaction_def commit_def persistence_def transact_def
        deliver_def)
qed

lemma sample_reset:
  "complete_reset sample_lib (sample_env 500 23) sample_token (98 # sample_password) reset_requested_state reset_requested_state
     reset_requested_state = (Inr (), reset_state, [])"
proof -
  let ?d = reset_requested_state and ?u = "\<lambda>r. r\<lparr>a_hash := 7 # 98 # sample_password, a_updated := 500\<rparr>"
  let ?snapshot = "\<lparr>user_id = 3, user_email = sample_email, user_name = sample_name, user_password_hash = 7 # sample_password,
    user_role = SUPER_ADMIN, user_status = ACTIVE, user_created_at = Aware 100, user_updated_at = Aware 100\<rparr>"
  have us: "ac_users ?d = [admin_row]" "ac_resets ?d = [reset_challenge]" "ac_reset_tokens ?d = [reset_secret]"
    "ac_families ?d = []" "ac_refresh ?d = []"
    by (simp_all add: reset_requested_state_def admin_state_def empty_accounts_def)
  have found: "find_reset (token_digest sample_token) ?d = Some \<lparr>st_user = 3, st_challenge = 2, st_token = 10\<rparr>"
    by (simp add: find_reset_def us reset_secret_def reset_challenge_def new_challenge_def)
  have change: "change_hash 3 (7 # 98 # sample_password) 500 ?d = Inr (modify_user 3 ?u ?d)"
    by (simp add: change_hash_def update_user_def us admin_row_def user_check_def modify_user_def)
  have finish: "finish_reset 2 10 500 (modify_user 3 ?u ?d) = Inr (close_reset 2 10 500 (modify_user 3 ?u ?d))"
    by (simp add: finish_reset_def use_reset_token_def update_resets_def use_secret_def modify_user_def close_reset_def us
        reset_secret_def reset_challenge_def new_challenge_def secret_check_def challenge_check_def seconds_def)
  have none: "end_sessions 3 500 d = d" if "ac_families d = []" for d using that by (simp add: end_sessions_def)
  have audit: "audit_password 23 3 None 500 (close_reset 2 10 500 (modify_user 3 ?u ?d)) = Inr reset_state"
    unfolding audit_password_def insert_event_Inr
    by (simp add: reset_state_def none us) (simp add: log_event_def password_event_def event_check_def modify_user_def us
        admin_row_def reset_requested_state_def admin_state_def bootstrap_event_def)
  have "reset_tx sample_lib (sample_env 500 23) \<lparr>st_user = 3, st_challenge = 2, st_token = 10\<rparr> ?snapshot sample_token
      (7 # 98 # sample_password) ?d = Inr ((), reset_state)"
    by (simp add: reset_tx_def admin_by_id us lock_challenges_def lock_reset_tokens_def lock_families_def reset_challenge_def
        new_challenge_def reset_secret_def seconds_def change revoke_all_def finish audit)
  moreover have "replacements_exist reset_state"
    by (simp add: replacements_exist_def reset_state_def us)
  ultimately show ?thesis
    by (simp add: complete_reset_def found admin_by_id us sample_hash password_transaction_def commit_def persistence_def transact_def)
qed

lemma reset_requested_reachable: "accounts_reachable sample_lib reset_requested_state"
  by (rule accounts_reachable.step [OF admin_reachable step_request_reset [OF sample_request_reset]])

text \<open>A registration.\<close>

abbreviation guest_email :: pystr where "guest_email \<equiv> [99, 64, 98]"

definition guest_challenge :: "pystr challenge_row" where
  "guest_challenge = new_challenge 2 guest_email 100 (100 + days 1)"

definition guest_secret :: secret_row where
  "guest_secret = \<lparr>k_id = 10, k_challenge = 2, k_digest = token_digest sample_token, k_issued = 100, k_used = None\<rparr>"

definition invited_state :: account_db where
  "invited_state = empty_accounts\<lparr>ac_registrations := [guest_challenge], ac_registration_tokens := [guest_secret]\<rparr>"

definition registered_state :: account_db where
  "registered_state = close_registration 2 10 150 (open_session 1 3 150 sample_token 10
     (add_account (registered_row 3 guest_email sample_name (7 # sample_password) USER 150 150) invited_state))"

lemma guest_address: "email_address sample_text guest_email = Inr guest_email" "require_allowed_domain guest_email [[98]] = Inr ()"
  by (simp_all add: sample_text_def email_address_def normalize_email_def strip_ws_def is_space_def lower_ascii_def
      require_allowed_domain_def email_domain_def)

lemma sample_request_registration:
  "request_registration sample_lib sample_send [[98]] (sample_env 100 0) guest_email empty_accounts = (Inr (), invited_state, [])"
proof -
  have create: "create_registration guest_email 2 100 (100 + days 1) empty_accounts
      = Inr (empty_accounts\<lparr>ac_registrations := [guest_challenge]\<rparr>)"
    by (simp add: create_registration_def insert_registration_def challenge_unique_def registration_check_def challenge_check_def
        guest_challenge_def new_challenge_def empty_accounts_def days_def seconds_def)
  have issue: "issue_registration (sample_env 100 0) 2 (empty_accounts\<lparr>ac_registrations := [guest_challenge]\<rparr>)
      = Inr ((sample_token, 10), invited_state)"
    unfolding issue_registration_def
    by (rule issue_sample) (simp add: add_registration_token_def insert_registration_token_def secret_unique_def secret_check_def
        invited_state_def guest_secret_def guest_challenge_def new_challenge_def empty_accounts_def)
  have "lock_active_challenge sample_text guest_email empty_accounts = Inr None" "\<not> user_exists guest_email empty_accounts"
    by (simp_all add: lock_active_challenge_def challenge_email_def user_exists_def empty_accounts_def)
  then have "request_registration_tx sample_lib (sample_env 100 0) guest_email empty_accounts = Inr (Some sample_token, invited_state)"
    by (simp add: request_registration_tx_def create issue)
  moreover have "replacements_exist invited_state" by (simp add: replacements_exist_def invited_state_def empty_accounts_def)
  ultimately show ?thesis
    by (simp add: request_registration_def guest_address registration_transaction_def commit_def registration_persistence_def
        transact_def deliver_def)
qed

lemma sample_registration:
  "complete_registration sample_lib [[98]] (sample_env 150 0) sample_token sample_name sample_password invited_state invited_state =
     (Inr \<lparr>sg_access = [46], sg_refresh = sample_token, sg_expires = 150 + days 7, sg_issued = 150\<rparr>, registered_state, [])"
proof -
  let ?row = "registered_row 3 guest_email sample_name (7 # sample_password) USER 150 150"
  let ?d1 = "add_account ?row invited_state"
  let ?u = "\<lparr>user_id = 3, user_email = guest_email, user_name = sample_name, user_password_hash = 7 # sample_password,
    user_role = USER, user_status = ACTIVE, user_created_at = Aware 150, user_updated_at = Aware 150\<rparr>"
  let ?f = "\<lparr>f_id = 1, f_user = 3, f_status = FAMILY_ACTIVE, f_expires = 150 + days 7, f_revoked = None, f_created = 150,
    f_updated = 150\<rparr>"
  have tabs: "ac_registrations invited_state = [guest_challenge]" "ac_registration_tokens invited_state = [guest_secret]"
    "ac_users invited_state = []" "ac_families invited_state = []" "ac_refresh invited_state = []"
    by (simp_all add: invited_state_def empty_accounts_def)
  have found: "find_registration sample_text (token_digest sample_token) invited_state
      = Inr (Some \<lparr>gt_challenge = 2, gt_token = 10, gt_email = guest_email\<rparr>)"
    by (simp add: find_registration_def tabs guest_secret_def guest_challenge_def new_challenge_def guest_address)
  have lock: "lock_challenge sample_text guest_email 2 invited_state = Inr (Some (guest_challenge, guest_email))"
    "lock_registration_token 2 10 invited_state = Some guest_secret"
    by (simp_all add: lock_challenge_def lock_registration_token_def challenge_email_def tabs guest_secret_def guest_challenge_def
        new_challenge_def guest_address)
  have add: "add_user sample_text (registered_user guest_email sample_name (7 # sample_password)) 3 150 150 invited_state
      = Inr (?u, ?d1)"
    using guest_address(1)
    by (simp add: add_user_def registered_user_def insert_user_def user_check_def tabs add_account_def registered_row_def
        user_from_record_def display_name_def user_init_def sample_text_def strip_ws_def is_space_def has_cc_def)
  have create: "create_family 3 1 150 (150 + days 7) ?d1 = Inr (?d1\<lparr>ac_families := [?f]\<rparr>)"
    by (simp add: create_family_def insert_family_def family_check_def add_account_def registered_row_def tabs days_def seconds_def)
  have issue: "issue_refresh (sample_env 150 0) 1 (?d1\<lparr>ac_families := [?f]\<rparr>)
      = Inr ((sample_token, 10), open_session 1 3 150 sample_token 10 ?d1)"
    unfolding issue_refresh_def
    by (rule issue_sample) (simp add: add_token_def insert_refresh_def refresh_check_def open_session_def tabs)
  have finish: "complete_challenge 2 10 150 (open_session 1 3 150 sample_token 10 ?d1) = Inr registered_state"
    by (simp add: complete_challenge_def use_registration_token_def update_registrations_def use_secret_def tabs
        registered_state_def close_registration_def guest_secret_def guest_challenge_def new_challenge_def secret_check_def
        registration_check_def challenge_check_def days_def seconds_def)
  have day: "\<not> days 1 \<le> 50" by (simp add: days_def seconds_def)
  have "registration_tx sample_lib [[98]] (sample_env 150 0) \<lparr>gt_challenge = 2, gt_token = 10, gt_email = guest_email\<rparr>
      sample_token sample_name (7 # sample_password) invited_state
    = Inr (\<lparr>sg_access = [46], sg_refresh = sample_token, sg_expires = 150 + days 7, sg_issued = 150\<rparr>, registered_state)"
    using lock add create issue finish guest_address(2) day
    by (simp add: registration_tx_def new_user_init_def registered_user_def guest_challenge_def guest_secret_def
        new_challenge_def sample_sign Let_def)
  moreover have "replacements_exist registered_state"
    by (simp add: replacements_exist_def registered_state_def open_session_def tabs)
  ultimately show ?thesis
    by (simp add: complete_registration_def found guest_address sample_hash registration_transaction_def commit_def
        registration_persistence_def transact_def)
qed

lemma invited_reachable: "accounts_reachable sample_lib invited_state"
  by (rule accounts_reachable.step [OF start step_request_registration [OF sample_request_registration]])


section \<open>The properties at these states\<close>

theorem refresh_outcome_witness:
  "refresh sample_lib (sample_env 400 0) sample_token signed_in_state signed_out_state
     = (raise_account InvalidSession, signed_out_state, [])"
proof -
  have "(account_step sample_lib)\<^sup>*\<^sup>* signed_in_state signed_out_state"
    by (rule r_into_rtranclp) (rule step_logout [OF sample_logout])
  from refresh_outcome [where E = "sample_env 400 0" and token = sample_token and t0 = admin_refresh and t = admin_refresh
      and f = "revoked_row 300 admin_session" and r = admin_row, OF signed_in_reachable this]
  show ?thesis using sample_user
    by (simp add: signed_in_state_def signed_out_state_def admin_state_def admin_refresh_def admin_session_def admin_row_def
        revoked_row_def)
qed

theorem ended_credentials_witness:
  "\<not> is_ok (fst (refresh sample_lib (sample_env 400 0) sample_token signed_in_state signed_out_state))
   \<and> fst (snd (logout sample_lib (sample_env 400 0) sample_token signed_in_state signed_out_state)) = signed_out_state"
proof -
  have "admin_refresh \<in> set (ac_refresh signed_out_state)" "t_digest admin_refresh = token_digest sample_token"
    "t_used admin_refresh \<noteq> None \<or> (\<exists>f \<in> set (ac_families signed_out_state). f_id f = t_family admin_refresh \<and> f_status f = FAMILY_REVOKED)"
    by (simp_all add: signed_in_state_def signed_out_state_def admin_refresh_def admin_session_def revoked_row_def)
  from ended_credentials [OF signed_out_reachable this rtranclp.rtrancl_refl] show ?thesis by simp
qed

theorem login_sound_witness:
  "live sample_token signed_in_state
   \<and> (\<exists>r \<in> set (ac_users admin_state). verify_with sample_lib (sample_env 200 21) sample_password (a_hash r) = Inr True)"
  using login_sound [OF admin_reachable sample_login] by auto

theorem reset_token_single_use_witness:
  "(\<exists>r \<in> set (ac_users reset_requested_state). a_status r = ACTIVE) \<and> (\<exists>k \<in> set (ac_reset_tokens reset_requested_state). k_used k = None)
   \<and> \<not> is_ok (fst (complete_reset sample_lib (sample_env 600 24) sample_token sample_password reset_state reset_state reset_state))"
  using reset_token_single_use [where E' = "sample_env 600 24" and password' = sample_password
      and ?d2.0 = reset_state and ?d3.0 = reset_state, OF reset_requested_reachable sample_reset] by auto

theorem registration_sound_witness:
  "live sample_token registered_state
   \<and> \<not> is_ok (fst (complete_registration sample_lib [[98]] (sample_env 160 0) sample_token sample_name sample_password
       registered_state registered_state))"
  using registration_sound [where E' = "sample_env 160 0" and domains' = "[[98]]" and name' = sample_name
      and password' = sample_password and ?d1.0 = registered_state, OF invited_reachable sample_registration] by auto

theorem token_issuance_ends_witness:
  "issue_refresh (sample_env 200 21) 1 (admin_state\<lparr>ac_families := [admin_session]\<rparr>)
     = Inr ((sample_token, 10), signed_in_state)"
proof -
  let ?d = "admin_state\<lparr>ac_families := [admin_session]\<rparr>"
  have random: "ae_random (sample_env 200 21) n = replicate 32 n" "ae_row (sample_env 200 21) n = of_nat (n + 10)" for n
    by (simp_all add: sample_env_def)
  have empty: "ac_refresh ?d = []" by (simp add: admin_state_def empty_accounts_def)
  have bytes: "byte_list (ae_random (sample_env 200 21) n) \<and> length (ae_random (sample_env 200 21) n) = 32
      \<and> ae_row (sample_env 200 21) n \<notin> t_id ` set (ac_refresh ?d)" if "n < 4" for n
    unfolding random empty using that by (simp add: byte_list_def list_all_iff)
  have "1 \<in> f_id ` set (ac_families ?d)" by (simp add: admin_session_def)
  from token_issuance_ends [OF bytes this] show ?thesis
    unfolding random empty
    by (simp add: upt_rec sample_token_def signed_in_state_def admin_refresh_def)
qed

theorem account_refinement_witness: "signed_in_state = admin_state \<or> account_move admin_state signed_in_state \<and> tables_ok signed_in_state"
  using account_refinement [OF admin_reachable step_login [OF sample_login]] by blast

theorem accounts_consistent_witness:
  "\<exists>!t. t \<in> set (ac_refresh signed_in_state) \<and> t_family t = f_id admin_session \<and> t_used t = None"
proof -
  have "admin_session \<in> set (ac_families signed_in_state)" by (simp add: signed_in_state_def)
  then show ?thesis using accounts_consistent [OF signed_in_reachable] by blast
qed

theorem security_log_replays_witness:
  "a_role admin_row = logged_role (a_id admin_row) (ac_events signed_in_state)
   \<and> validate_security_event_contract (bootstrap_event 20 3 100) = Inr ()"
proof -
  have "admin_row \<in> set (ac_users signed_in_state)" "ac_events signed_in_state = [] @ bootstrap_event 20 3 100 # []"
    by (simp_all add: signed_in_state_def admin_state_def)
  then show ?thesis using security_log_replays [OF signed_in_reachable] by blast
qed

end
