(* ===== verification/Access_Tokens.thy ===== *)
theory Access_Tokens
  imports Audit_Metadata Account_Samples "HOL-Library.Countable"
begin

text \<open>
  \<open>infrastructure/jwt.py\<close> (key files, issuing and verification of access tokens) and the per-request
  authentication of \<open>application/auth.py\<close>. The JWT package and the RSA keys are parameters.
\<close>

section \<open>Keys\<close>

type_synonym json_object = "(pystr \<times> jvalue) list"

record ('priv, 'pub) jwt_lib =
  jl_private_size :: "'priv \<Rightarrow> nat"
  jl_public :: "'priv \<Rightarrow> 'pub"
  jl_public_size :: "'pub \<Rightarrow> nat"
  jl_numbers :: "'pub \<Rightarrow> nat \<times> nat"
  jl_encode :: "'priv \<Rightarrow> json_object \<Rightarrow> json_object \<Rightarrow> pystr"
  jl_header :: "pystr \<Rightarrow> json_object option"
  jl_decode :: "'pub \<Rightarrow> pystr \<Rightarrow> json_object option"

record 'priv jwt_key_pair =
  kp_kid :: pystr
  kp_private :: 'priv

definition from_private_key :: "('priv, 'pub) jwt_lib \<Rightarrow> pystr \<Rightarrow> 'priv \<Rightarrow> 'priv jwt_key_pair res" where
  "from_private_key lib kid key =
     (if kid = [] \<or> \<not> isascii kid then Inl ValueError
      else if jl_private_size lib key < 2048 then Inl ValueError
      else Inr \<lparr>kp_kid = kid, kp_private = key\<rparr>)"

record ('priv, 'pub) jwt_codec =
  jc_active :: "'priv jwt_key_pair"
  jc_keys :: "(pystr \<times> 'pub) list"

definition codec_init :: "('priv, 'pub) jwt_lib \<Rightarrow> 'priv jwt_key_pair \<Rightarrow> (pystr \<times> 'pub) list \<Rightarrow> ('priv, 'pub) jwt_codec res" where
  "codec_init lib active keys =
     (if \<exists>(kid, key) \<in> set keys. jl_public_size lib key < 2048 then Inl ValueError
      else case map_of keys (kp_kid active) of
        None \<Rightarrow> Inl ValueError
      | Some registered \<Rightarrow>
          if jl_numbers lib registered \<noteq> jl_numbers lib (jl_public lib (kp_private active)) then Inl ValueError
          else Inr \<lparr>jc_active = active, jc_keys = keys\<rparr>)"

definition private_jwk_parameters :: "pystr list" where
  "private_jwk_parameters = map lit [''d'', ''p'', ''q'', ''dp'', ''dq'', ''qi'', ''oth'']"

text \<open>One entry of the key ring; \<open>from_jwk\<close> gives the RSA public key, or nothing where the package raises or
  finds another kind of key.\<close>

definition load_jwk :: "(json_object \<Rightarrow> 'pub option) \<Rightarrow> jvalue \<Rightarrow> (pystr \<times> 'pub) list \<Rightarrow> (pystr \<times> 'pub) list res" where
  "load_jwk from_jwk v keys =
     (case v of
        PObj jwk \<Rightarrow>
          (case map_of jwk (lit ''kid'') of
             Some (PStr kid) \<Rightarrow>
               if kid = [] \<or> \<not> isascii kid \<or> kid \<in> fst ` set keys
                 \<or> map_of jwk (lit ''kty'') \<noteq> Some (PStr (lit ''RSA''))
                 \<or> map_of jwk (lit ''alg'') \<noteq> Some (PStr (lit ''RS256''))
                 \<or> map_of jwk (lit ''use'') \<noteq> Some (PStr (lit ''sig''))
                 \<or> set private_jwk_parameters \<inter> fst ` set jwk \<noteq> {}
               then Inl (AccountError JwtKeyConfigurationError)
               else (case from_jwk jwk of
                       None \<Rightarrow> Inl (AccountError JwtKeyConfigurationError)
                     | Some key \<Rightarrow> Inr (keys @ [(kid, key)]))
           | _ \<Rightarrow> Inl (AccountError JwtKeyConfigurationError))
      | _ \<Rightarrow> Inl (AccountError JwtKeyConfigurationError))"

text \<open>\<open>json.loads\<close> of the key ring file gives nothing where the file cannot be read or parsed.\<close>

definition load_verification_keys :: "(json_object \<Rightarrow> 'pub option) \<Rightarrow> jvalue option \<Rightarrow> (pystr \<times> 'pub) list res" where
  "load_verification_keys from_jwk document =
     (case document of
        Some (PObj kvs) \<Rightarrow>
          (case map_of kvs (lit ''keys'') of
             Some (PArr vs) \<Rightarrow> foldE (load_jwk from_jwk) vs []
           | _ \<Rightarrow> Inl (AccountError JwtKeyConfigurationError))
      | _ \<Rightarrow> Inl (AccountError JwtKeyConfigurationError))"

text \<open>The \<open>except ValueError\<close> clause around the key pair and the codec.\<close>

definition key_configuration :: "'a res \<Rightarrow> 'a res" where
  "key_configuration r = (case r of Inl ValueError \<Rightarrow> Inl (AccountError JwtKeyConfigurationError) | _ \<Rightarrow> r)"

text \<open>The three settings; the files are given by what reading them yields.\<close>

definition build_access_jwt_codec ::
    "('priv, 'pub) jwt_lib \<Rightarrow> (json_object \<Rightarrow> 'pub option) \<Rightarrow> pystr option \<Rightarrow> 'priv option option \<Rightarrow> jvalue option option
       \<Rightarrow> ('priv, 'pub) jwt_codec res" where
  "build_access_jwt_codec lib from_jwk active_kid private_file jwks_file =
     (case (active_kid, private_file, jwks_file) of
        (Some kid, Some pem, Some document) \<Rightarrow>
          (case pem of
             None \<Rightarrow> Inl (AccountError JwtKeyConfigurationError)
           | Some key \<Rightarrow>
               bindE (load_verification_keys from_jwk document) (\<lambda>keys.
               key_configuration (bindE (from_private_key lib kid key) (\<lambda>active. codec_init lib active keys))))
      | _ \<Rightarrow> Inl (AccountError JwtKeyConfigurationError))"


section \<open>Issuing\<close>

record access_token_claims =
  at_user :: uuid
  at_role :: user_role
  at_issued :: int
  at_expires :: int
  at_jti :: uuid

definition role_value :: "user_role \<Rightarrow> pystr" where
  "role_value r = (case r of USER \<Rightarrow> lit ''USER'' | ADMIN \<Rightarrow> lit ''ADMIN'' | SUPER_ADMIN \<Rightarrow> lit ''SUPER_ADMIN'')"

definition user_role_of :: "pystr \<Rightarrow> user_role option" where
  "user_role_of s = find (\<lambda>r. role_value r = s) [USER, ADMIN, SUPER_ADMIN]"

definition claims_payload :: "access_token_claims \<Rightarrow> json_object" where
  "claims_payload c =
     [(lit ''iss'', PStr (lit ''mdm-api'')), (lit ''sub'', PStr (str_uuid (at_user c))), (lit ''aud'', PStr (lit ''mdm-api'')),
      (lit ''roles'', PArr [PStr (role_value (at_role c))]), (lit ''iat'', PInt (at_issued c)), (lit ''exp'', PInt (at_expires c)),
      (lit ''jti'', PStr (str_uuid (at_jti c)))]"

definition lifetime_seconds :: int where "lifetime_seconds = 900"

definition clock_skew_seconds :: int where "clock_skew_seconds = 30"

definition access_issue ::
    "('priv, 'pub) jwt_lib \<Rightarrow> ('priv, 'pub) jwt_codec \<Rightarrow> uuid \<Rightarrow> uuid \<Rightarrow> user_role \<Rightarrow> pyobj \<Rightarrow> pystr res" where
  "access_issue lib codec jti user role issued_at =
     (case issued_at of
        PyInt t \<Rightarrow>
          if uuid_version jti \<noteq> Some 4 then Inl ValueError
          else Inr (jl_encode lib (kp_private (jc_active codec))
                 (claims_payload \<lparr>at_user = user, at_role = role, at_issued = t, at_expires = t + lifetime_seconds, at_jti = jti\<rparr>)
                 [(lit ''kid'', PStr (kp_kid (jc_active codec))), (lit ''typ'', PStr (lit ''JWT''))])
      | _ \<Rightarrow> Inl ValueError)"


section \<open>Verification\<close>

definition claim_names :: "pystr list" where
  "claim_names = map lit [''iss'', ''sub'', ''aud'', ''roles'', ''iat'', ''exp'', ''jti'']"

definition header_names :: "pystr list" where
  "header_names = map lit [''alg'', ''kid'', ''typ'']"

definition validate_claims :: "json_object \<Rightarrow> int \<Rightarrow> access_token_claims res" where
  "validate_claims payload now =
     (if fst ` set payload \<noteq> set claim_names then raise_account InvalidAccessToken
      else if map_of payload (lit ''iss'') \<noteq> Some (PStr (lit ''mdm-api'')) \<or> map_of payload (lit ''aud'') \<noteq> Some (PStr (lit ''mdm-api''))
      then raise_account InvalidAccessToken
      else
        (case (map_of payload (lit ''roles''), map_of payload (lit ''iat''), map_of payload (lit ''exp'')) of
           (Some (PArr [PStr role]), Some (PInt issued), Some (PInt expires)) \<Rightarrow>
             if expires \<noteq> issued + lifetime_seconds then raise_account InvalidAccessToken
             else if now \<ge> expires + clock_skew_seconds then raise_account InvalidAccessToken
             else if issued > now + clock_skew_seconds then raise_account InvalidAccessToken
             else
               (case (map_of payload (lit ''sub''), map_of payload (lit ''jti''), user_role_of role) of
                  (Some (PStr sub), Some (PStr jti), Some r) \<Rightarrow>
                    (case (canonical_uuid sub, canonical_uuid jti) of
                       (Some u, Some j) \<Rightarrow>
                         if uuid_version j \<noteq> Some 4 then raise_account InvalidAccessToken
                         else Inr \<lparr>at_user = u, at_role = r, at_issued = issued, at_expires = expires, at_jti = j\<rparr>
                     | _ \<Rightarrow> raise_account InvalidAccessToken)
                | _ \<Rightarrow> raise_account InvalidAccessToken)
         | _ \<Rightarrow> raise_account InvalidAccessToken))"

definition access_verify :: "('priv, 'pub) jwt_lib \<Rightarrow> ('priv, 'pub) jwt_codec \<Rightarrow> pystr \<Rightarrow> int \<Rightarrow> access_token_claims res" where
  "access_verify lib codec token now =
     (case jl_header lib token of
        None \<Rightarrow> raise_account InvalidAccessToken
      | Some header \<Rightarrow>
          if fst ` set header \<noteq> set header_names then raise_account InvalidAccessToken
          else if map_of header (lit ''alg'') \<noteq> Some (PStr (lit ''RS256'')) \<or> map_of header (lit ''typ'') \<noteq> Some (PStr (lit ''JWT''))
          then raise_account InvalidAccessToken
          else
            (case map_of header (lit ''kid'') of
               Some (PStr kid) \<Rightarrow>
                 (case map_of (jc_keys codec) kid of
                    None \<Rightarrow> raise_account InvalidAccessToken
                  | Some key \<Rightarrow>
                      (case jl_decode lib key token of
                         None \<Rightarrow> raise_account InvalidAccessToken
                       | Some payload \<Rightarrow> validate_claims payload now))
             | _ \<Rightarrow> raise_account InvalidAccessToken))"


section \<open>Authentication of a request\<close>

definition reject_access :: "datetime \<Rightarrow> pystr option \<Rightarrow> human_principal res \<times> operational_event list" where
  "reject_access occurred request_id =
     (raise_account InvalidAccessToken,
      case operational_event_init \<lparr>oe_name = INVALID_ACCESS_TOKEN, oe_occurred = occurred, oe_request = request_id, oe_client = None\<rparr> of
        Inl _ \<Rightarrow> [] | Inr e \<Rightarrow> [e])"

text \<open>\<open>AuthenticateHumanPrincipal.execute\<close>; the verifier is \<open>access_verify\<close> of a codec, or the one that
  rejects every token where no key files are configured.\<close>

definition authenticate ::
    "(pystr \<Rightarrow> int \<Rightarrow> access_token_claims res) \<Rightarrow> datetime \<Rightarrow> pystr option \<Rightarrow> pystr option \<Rightarrow> human_principal res \<times> operational_event list" where
  "authenticate verifier occurred token request_id =
     (if \<not> is_aware occurred then (Inl ValueError, [])
      else case token of
        None \<Rightarrow> reject_access occurred request_id
      | Some t \<Rightarrow>
          if t = [] then reject_access occurred request_id
          else (case verifier t (unix_seconds (instant occurred)) of
                  Inl (AccountError InvalidAccessToken) \<Rightarrow> reject_access occurred request_id
                | Inl err \<Rightarrow> (Inl err, [])
                | Inr c \<Rightarrow> (Inr \<lparr>principal_user_id = at_user c, principal_role = at_role c\<rparr>, [])))"

definition rejecting_verifier :: "pystr \<Rightarrow> int \<Rightarrow> access_token_claims res" where
  "rejecting_verifier token now = raise_account InvalidAccessToken"


section \<open>Lemmas\<close>

lemma lit_inject [simp]: "lit s = lit t \<longleftrightarrow> s = t"
  unfolding lit_def by (rule inj_map_eq_map) (rule injI, simp add: of_char_eq_iff)

lemma user_role_of_Some: "user_role_of s = Some r \<longleftrightarrow> s = role_value r"
  by (cases r) (auto simp: user_role_of_def role_value_def)

lemma map_of_claims:
  "map_of (claims_payload c) (lit ''iss'') = Some (PStr (lit ''mdm-api''))"
  "map_of (claims_payload c) (lit ''sub'') = Some (PStr (str_uuid (at_user c)))"
  "map_of (claims_payload c) (lit ''aud'') = Some (PStr (lit ''mdm-api''))"
  "map_of (claims_payload c) (lit ''roles'') = Some (PArr [PStr (role_value (at_role c))])"
  "map_of (claims_payload c) (lit ''iat'') = Some (PInt (at_issued c))"
  "map_of (claims_payload c) (lit ''exp'') = Some (PInt (at_expires c))"
  "map_of (claims_payload c) (lit ''jti'') = Some (PStr (str_uuid (at_jti c)))"
  by (simp_all add: claims_payload_def)

lemma claims_keys: "fst ` set (claims_payload c) = set claim_names"
  by (simp add: claims_payload_def claim_names_def)

lemma same_claims:
  "map_of p = map_of (claims_payload c) \<longleftrightarrow> fst ` set p = set claim_names
     \<and> (\<forall>k \<in> set claim_names. map_of p k = map_of (claims_payload c) k)" (is "?l \<longleftrightarrow> ?r")
proof
  assume ?l
  then have "fst ` set p = fst ` set (claims_payload c)" by (metis dom_map_of_conv_image_fst)
  then show ?r using \<open>?l\<close> claims_keys by simp
next
  assume r: ?r
  have "map_of p k = map_of (claims_payload c) k" if "k \<notin> set claim_names" for k
  proof -
    have "map_of p k = None" using that r by (simp add: map_of_eq_None_iff)
    moreover have "map_of (claims_payload c) k = None" using that by (simp add: map_of_eq_None_iff claims_keys)
    ultimately show ?thesis by simp
  qed
  then show ?l using r by blast
qed

lemma validate_claims_iff:
  "validate_claims p now = Inr c \<longleftrightarrow> map_of p = map_of (claims_payload c) \<and> at_expires c = at_issued c + lifetime_seconds
     \<and> at_issued c \<le> now + clock_skew_seconds \<and> now < at_expires c + clock_skew_seconds \<and> uuid_version (at_jti c) = Some 4"
  (is "?l \<longleftrightarrow> ?r")
proof
  assume ?l
  then show ?r
    by (auto simp: validate_claims_def same_claims map_of_claims claim_names_def canonical_uuid_eq_Some user_role_of_Some
        split: if_splits option.splits jvalue.splits list.splits prod.splits)
next
  assume r: ?r
  then have "fst ` set p = set claim_names" "\<forall>k \<in> set claim_names. map_of p k = map_of (claims_payload c) k"
    unfolding same_claims by blast+
  then show ?l using r
    by (simp add: validate_claims_def map_of_claims claim_names_def user_role_of_Some [THEN iffD2])
qed

lemma validate_claims_error: "validate_claims p now = Inl e \<Longrightarrow> e = AccountError InvalidAccessToken"
  by (auto simp: validate_claims_def split: if_splits option.splits jvalue.splits list.splits prod.splits)

lemma access_verify_error: "access_verify lib codec token now = Inl e \<Longrightarrow> e = AccountError InvalidAccessToken"
  by (auto simp: access_verify_def dest: validate_claims_error split: if_splits option.splits jvalue.splits)

lemma access_verify_iff:
  "access_verify lib codec token now = Inr c \<longleftrightarrow>
     (\<exists>header kid key payload. jl_header lib token = Some header \<and> fst ` set header = set header_names
        \<and> map_of header (lit ''alg'') = Some (PStr (lit ''RS256'')) \<and> map_of header (lit ''typ'') = Some (PStr (lit ''JWT''))
        \<and> map_of header (lit ''kid'') = Some (PStr kid) \<and> map_of (jc_keys codec) kid = Some key
        \<and> jl_decode lib key token = Some payload \<and> map_of payload = map_of (claims_payload c)
        \<and> at_expires c = at_issued c + 900 \<and> at_issued c - 30 \<le> now \<and> now < at_expires c + 30 \<and> uuid_version (at_jti c) = Some 4)"
  by (auto simp: access_verify_def validate_claims_iff lifetime_seconds_def clock_skew_seconds_def
      split: option.splits jvalue.splits)

text \<open>C33. A token is accepted exactly if its header has the three fixed fields and names a key of the ring, its
  signature is valid under that key, its seven claims are those the service itself issues for
  the returned user, role and version 4 identifier, with a lifetime of 900 seconds, and the current
  time is within 30 seconds of that lifetime. Every other token is rejected, all for the one reason.\<close>

theorem access_token_exact:
  "(access_verify lib codec token now = Inr c \<longleftrightarrow>
     (\<exists>header kid key payload. jl_header lib token = Some header \<and> fst ` set header = set header_names
        \<and> map_of header (lit ''alg'') = Some (PStr (lit ''RS256'')) \<and> map_of header (lit ''typ'') = Some (PStr (lit ''JWT''))
        \<and> map_of header (lit ''kid'') = Some (PStr kid) \<and> map_of (jc_keys codec) kid = Some key
        \<and> jl_decode lib key token = Some payload \<and> map_of payload = map_of (claims_payload c)
        \<and> at_expires c = at_issued c + 900 \<and> at_issued c - 30 \<le> now \<and> now < at_expires c + 30 \<and> uuid_version (at_jti c) = Some 4))
   \<and> is_ok (access_verify lib codec token now) = (access_verify lib codec token now \<noteq> raise_account InvalidAccessToken)"
proof
  show "is_ok (access_verify lib codec token now) = (access_verify lib codec token now \<noteq> raise_account InvalidAccessToken)"
    by (cases "access_verify lib codec token now") (auto dest: access_verify_error)
qed (rule access_verify_iff)

text \<open>What the JWT package documents: an encoded token is not empty, carries its header fields and the
  algorithm, and decodes under the public key of its signing key to the encoded claims, provided
  issuer and audience are the expected ones and every required claim is present.\<close>

definition jwt_contract :: "('priv, 'pub) jwt_lib \<Rightarrow> bool" where
  "jwt_contract lib \<longleftrightarrow> (\<forall>priv payload kid.
     let token = jl_encode lib priv payload [(lit ''kid'', PStr kid), (lit ''typ'', PStr (lit ''JWT''))] in
     token \<noteq> []
     \<and> (\<exists>header. jl_header lib token = Some header \<and> map_of header =
          map_of [(lit ''alg'', PStr (lit ''RS256'')), (lit ''kid'', PStr kid), (lit ''typ'', PStr (lit ''JWT''))])
     \<and> (\<forall>pub. jl_numbers lib pub = jl_numbers lib (jl_public lib priv)
          \<and> map_of payload (lit ''iss'') = Some (PStr (lit ''mdm-api'')) \<and> map_of payload (lit ''aud'') = Some (PStr (lit ''mdm-api''))
          \<and> set claim_names \<subseteq> fst ` set payload
          \<longrightarrow> (\<exists>decoded. jl_decode lib pub token = Some decoded \<and> map_of decoded = map_of payload)))"

lemma codec_active:
  assumes "codec_init lib active keys = Inr codec"
  obtains key where "map_of (jc_keys codec) (kp_kid (jc_active codec)) = Some key"
    "jl_numbers lib key = jl_numbers lib (jl_public lib (kp_private (jc_active codec)))"
  using assms by (auto simp: codec_init_def split: if_splits option.splits)

text \<open>A built codec has a ring of distinct, public keys of at least 2048 bits, one of them its own.\<close>

lemma key_configuration_Inr [simp]: "key_configuration r = Inr x \<longleftrightarrow> r = Inr x"
  unfolding key_configuration_def by (cases r) (simp_all split: exn.split)

lemma load_jwk_distinct: "load_jwk from_jwk v keys = Inr keys' \<Longrightarrow> distinct (map fst keys) \<Longrightarrow> distinct (map fst keys')"
  by (auto simp: load_jwk_def split: jvalue.splits option.splits if_splits)

lemma built_codec:
  assumes "build_access_jwt_codec lib from_jwk kid pem document = Inr codec"
  obtains active keys where "codec_init lib active keys = Inr codec" "distinct (map fst (jc_keys codec))"
    "\<forall>(i, key) \<in> set (jc_keys codec). 2048 \<le> jl_public_size lib key" "2048 \<le> jl_private_size lib (kp_private (jc_active codec))"
proof -
  obtain active keys name key kvs vs where run: "foldE (load_jwk from_jwk) vs [] = Inr keys"
      "from_private_key lib name key = Inr active" "codec_init lib active keys = Inr codec"
    using assms by (auto simp: build_access_jwt_codec_def load_verification_keys_def bindE_eq_Inr
        split: option.splits jvalue.splits)
  have "distinct (map fst keys)"
    by (rule foldE_invariant [where P = "\<lambda>ks. distinct (map fst ks)", OF run(1)]) (auto dest: load_jwk_distinct)
  moreover have "jc_keys codec = keys" "jc_active codec = active" "\<forall>(i, key) \<in> set keys. 2048 \<le> jl_public_size lib key"
    using run(3) by (auto simp: codec_init_def split: if_splits option.splits)
  moreover have "2048 \<le> jl_private_size lib (kp_private active)"
    using run(2) by (auto simp: from_private_key_def split: if_splits)
  ultimately show ?thesis using that run(3) by simp
qed

lemma verify_issued:
  assumes "jwt_contract lib" "codec_init lib active keys = Inr codec" "access_issue lib codec jti user role (PyInt t) = Inr token"
  shows "token \<noteq> []" "access_verify lib codec token now =
    (if t \<le> now + 30 \<and> now < t + 930
     then Inr \<lparr>at_user = user, at_role = role, at_issued = t, at_expires = t + 900, at_jti = jti\<rparr>
     else raise_account InvalidAccessToken)"
proof -
  let ?c = "\<lparr>at_user = user, at_role = role, at_issued = t, at_expires = t + lifetime_seconds, at_jti = jti\<rparr>"
  obtain key where key: "map_of (jc_keys codec) (kp_kid (jc_active codec)) = Some key"
    "jl_numbers lib key = jl_numbers lib (jl_public lib (kp_private (jc_active codec)))" by (rule codec_active [OF assms(2)])
  have version: "uuid_version jti = Some 4" and token: "token = jl_encode lib (kp_private (jc_active codec)) (claims_payload ?c)
      [(lit ''kid'', PStr (kp_kid (jc_active codec))), (lit ''typ'', PStr (lit ''JWT''))]"
    using assms(3) by (auto simp: access_issue_def split: if_splits)
  note contract = assms(1) [unfolded jwt_contract_def Let_def, rule_format,
      of "kp_private (jc_active codec)" "claims_payload ?c" "kp_kid (jc_active codec)", folded token]
  show "token \<noteq> []" using contract by simp
  obtain header where header: "jl_header lib token = Some header" "map_of header = map_of [(lit ''alg'', PStr (lit ''RS256'')),
      (lit ''kid'', PStr (kp_kid (jc_active codec))), (lit ''typ'', PStr (lit ''JWT''))]" using contract by blast
  have names: "fst ` set header = set header_names"
    unfolding dom_map_of_conv_image_fst [symmetric] header(2) by (auto simp: header_names_def)
  obtain payload where payload: "jl_decode lib key token = Some payload" "map_of payload = map_of (claims_payload ?c)"
    using contract key(2) by (auto simp: map_of_claims claims_keys)
  have run: "access_verify lib codec token now = validate_claims payload now"
    by (simp add: access_verify_def header names key(1) payload(1))
  show "access_verify lib codec token now = (if t \<le> now + 30 \<and> now < t + 930
     then Inr \<lparr>at_user = user, at_role = role, at_issued = t, at_expires = t + 900, at_jti = jti\<rparr>
     else raise_account InvalidAccessToken)"
  proof (cases "t \<le> now + 30 \<and> now < t + 930")
    case True
    then have "validate_claims payload now = Inr ?c"
      by (simp add: validate_claims_iff payload(2) version lifetime_seconds_def clock_skew_seconds_def)
    with True run show ?thesis by (simp add: lifetime_seconds_def)
  next
    case False
    have "validate_claims payload now \<noteq> Inr c" for c
    proof
      assume "validate_claims payload now = Inr c"
      then have c: "map_of payload = map_of (claims_payload c)" "at_expires c = at_issued c + 900" "at_issued c \<le> now + 30"
        "now < at_expires c + 30" by (simp_all add: validate_claims_iff lifetime_seconds_def clock_skew_seconds_def)
      have "map_of (claims_payload ?c) (lit ''iat'') = map_of (claims_payload c) (lit ''iat'')" using payload(2) c(1) by simp
      then have "at_issued c = t" by (simp add: map_of_claims)
      with c(2-4) False show False by simp
    qed
    then obtain e where "validate_claims payload now = Inl e" by (cases "validate_claims payload now") auto
    with False run validate_claims_error show ?thesis by auto
  qed
qed


section \<open>The tokens of a session\<close>

lemma login_access:
  assumes "login L fake_hash E email password d0 d = (Inr grant, d', evs)"
  obtains u where "get_by_id (al_text L) (user_id u) d = Inr (Some u)" "user_status u = ACTIVE" "sign_with L E u = Inr (sg_access grant)"
proof -
  have "try_login L fake_hash E email password d0 d = (Inr grant, d')" using assms by (auto simp: login_def split: prod.splits)
  then obtain snapshot where run: "login_tx L E snapshot d = Inr (grant, d')" by (rule try_login_Inr)
  then obtain u where "get_by_id (al_text L) (user_id snapshot) d = Inr (Some u)" "user_status u = ACTIVE"
    "sign_with L E u = Inr (sg_access grant)"
    by (auto simp: login_tx_def Let_def bindE_eq_Inr split: option.splits if_splits)
  then show ?thesis using that get_by_id_Some by metis
qed

lemma refresh_access:
  assumes "refresh L E token d0 d = (Inr grant, d', evs)"
  obtains u where "get_by_id (al_text L) (user_id u) d = Inr (Some u)" "user_status u = ACTIVE" "sign_with L E u = Inr (sg_access grant)"
proof -
  have "\<exists>target. refresh_tx L E target token d = Inr (Some grant, d')"
    using assms by (auto simp: refresh_def try_refresh_def session_transaction_def account_stmts
        split: prod.splits option.splits sum.splits elim!: transact_cases)
  then obtain i u where "get_by_id (al_text L) i d = Inr (Some u)" "user_status u = ACTIVE" "sign_with L E u = Inr (sg_access grant)"
    by (auto simp: refresh_tx_def Let_def bindE_eq_Inr split: option.splits if_splits)
  then show ?thesis using that get_by_id_Some by metis
qed

lemma authenticate_verified:
  assumes "jwt_contract lib" "codec_init lib active keys = Inr codec" "access_issue lib codec jti user role (PyInt t) = Inr token"
  shows "authenticate (access_verify lib codec) (Aware now) (Some token) request_id =
    (if t \<le> unix_seconds now + 30 \<and> unix_seconds now < t + 930
     then (Inr \<lparr>principal_user_id = user, principal_role = role\<rparr>, []) else reject_access (Aware now) request_id)"
  using verify_issued [OF assms] by (simp add: authenticate_def)



text \<open>A package that meets the contract: tokens are numbers of their header and payload.\<close>

instance jvalue :: countable by countable_datatype

definition sample_jwt :: "(unit, unit) jwt_lib" where
  "sample_jwt = \<lparr>jl_private_size = (\<lambda>_. 2048), jl_public = (\<lambda>k. k), jl_public_size = (\<lambda>_. 2048), jl_numbers = (\<lambda>_. (3233, 17)),
     jl_encode = (\<lambda>_ payload header. [to_nat (payload, header)]),
     jl_header = (\<lambda>t. Some ((lit ''alg'', PStr (lit ''RS256'')) # snd (from_nat (hd t) :: json_object \<times> json_object))),
     jl_decode = (\<lambda>_ t. Some (fst (from_nat (hd t) :: json_object \<times> json_object)))\<rparr>"

definition sample_codec :: "(unit, unit) jwt_codec" where
  "sample_codec = \<lparr>jc_active = \<lparr>kp_kid = [107], kp_private = ()\<rparr>, jc_keys = [([107], ())]\<rparr>"

lemma sample_jwt_contract: "jwt_contract sample_jwt"
  by (simp add: jwt_contract_def sample_jwt_def Let_def)


end
