(* ===== verification/Account_Api.thy ===== *)
theory Account_Api
  imports Api_Errors Request_Protection Access_Tokens User_Management
begin

text \<open>
  The account endpoints: sessions (\<open>sessions.py\<close>, \<open>session_cookies.py\<close>,
  \<open>session_errors.py\<close>), registration (\<open>registrations.py\<close>), passwords
  (\<open>password_lifecycle.py\<close>), the route wrapper of \<open>request_protection.py\<close>, bearer authentication
  (\<open>auth.py\<close>) and user management (\<open>user_management.py\<close>).

  Bodies arrive parsed: Pydantic has applied the validators, which return normalized emails, names and
  passwords, and the endpoints build the domain values once more. A feature that is switched off has no
  use case object, which is the flag \<open>available\<close>. The instants \<open>d0\<close>, \<open>d1\<close>, \<open>d\<close> are the
  states that the reads outside of the transaction and the transaction itself see.
\<close>

section \<open>Session cookies\<close>

definition session_cookie :: "bool \<Rightarrow> string \<Rightarrow> bool \<Rightarrow> pystr \<Rightarrow> int \<Rightarrow> int option \<Rightarrow> cookie" where
  "session_cookie sec name http_only v max_age expires =
     \<lparr>ck_name = name, ck_value = v, ck_max_age = max_age, ck_expires = expires, ck_path = ''/'', ck_secure = sec,
      ck_httponly = http_only, ck_samesite = ''strict''\<rparr>"

text \<open>\<open>SessionCookies.issue\<close>; \<open>raw\<close> are the random bytes of the CSRF token.\<close>

definition issue_cookies ::
    "bool \<Rightarrow> nat list \<Rightarrow> pystr \<Rightarrow> int \<Rightarrow> int \<Rightarrow> 'b response \<Rightarrow> 'b response res" where
  "issue_cookies sec raw refresh_token expires_at now rs =
     (let max_age = max 0 ((expires_at - now) div 1000000) in
      bindE (generate_opaque_token raw) (\<lambda>csrf.
        Inr (set_header ''cache-control'' (lit ''no-store'') (rs\<lparr>rs_cookies := rs_cookies rs @
          [session_cookie sec ''mdm_refresh'' True refresh_token max_age (Some expires_at),
           session_cookie sec ''mdm_csrf'' False csrf max_age (Some expires_at)]\<rparr>))))"

text \<open>\<open>SessionCookies.clear\<close>: an empty value that expires at once.\<close>

definition cleared_cookies :: "bool \<Rightarrow> cookie list" where
  "cleared_cookies sec =
     [session_cookie sec ''mdm_refresh'' True [] 0 None, session_cookie sec ''mdm_csrf'' False [] 0 None]"

definition clear_cookies :: "bool \<Rightarrow> 'b response \<Rightarrow> 'b response" where
  "clear_cookies sec rs =
     set_header ''cache-control'' (lit ''no-store'') (rs\<lparr>rs_cookies := rs_cookies rs @ cleared_cookies sec\<rparr>)"

definition invalid_session_response :: "request \<Rightarrow> bool \<Rightarrow> 'b response" where
  "invalid_session_response r sec =
     clear_cookies sec (problem_response
       (problem_details ''/problems/invalid-session'' ''Invalid session'' 401
          (Detail ''There is no valid session. Log in again.'') ''INVALID_SESSION'' (Some (hr_path r)) None) [])"

text \<open>\<open>_refresh_cookie\<close>: the one value of \<open>mdm_refresh\<close> in all Cookie headers, if it is a token.\<close>

definition refresh_value :: "pystr \<Rightarrow> pystr option" where
  "refresh_value part =
     (let s = strip_ws part; name = takeWhile (\<lambda>c. c \<noteq> 61) s in
      if name = lit ''mdm_refresh'' then Some (drop (length name + 1) s) else None)"

definition refresh_cookie :: "request \<Rightarrow> pystr option" where
  "refresh_cookie r =
     (case List.map_filter refresh_value (concat (map (split_at 59) (getlist ''cookie'' r))) of
        [v] \<Rightarrow> (case opaque_token_init v of Inr t \<Rightarrow> Some t | Inl _ \<Rightarrow> None)
      | _ \<Rightarrow> None)"


section \<open>Problems\<close>

text \<open>The tables \<open>_PROBLEMS\<close> of the three modules: status and texts of a code.\<close>

definition session_problems :: "(string \<times> int \<times> string \<times> string) list" where
  "session_problems =
     [(''INVALID_CREDENTIALS'', 401, ''Login failed'', ''Check the email and the password.''),
      (''refresh_conflict'', 409, ''Session refresh conflict'',
       ''Another request has refreshed the session. Retry once after a second with the new cookie.''),
      (''AUTH_PASSWORD_HASH_UNAVAILABLE'', 503, ''Authentication suspended'',
       ''The password cannot be verified for now. Try again later.''),
      (''SERVICE_UNAVAILABLE'', 503, ''Service unavailable'', ''Sessions are not available for now. Try again later.'')]"

definition registration_problems :: "(string \<times> int \<times> string \<times> string) list" where
  "registration_problems =
     [(''INVALID_REGISTRATION_TOKEN'', 400, ''Invalid registration link'',
       ''The registration link is invalid or has expired. Apply again.''),
      (''EMAIL_DOMAIN_NOT_ALLOWED'', 422, ''Email domain not allowed'', ''Addresses of this domain cannot register.''),
      (''VALIDATION_ERROR'', 422, ''Invalid request'', ''One or more request fields are invalid.''),
      (''AUTH_PASSWORD_HASH_UNAVAILABLE'', 503, ''Authentication suspended'',
       ''The password cannot be processed for now. Try again later.''),
      (''SERVICE_UNAVAILABLE'', 503, ''Service unavailable'', ''Registration is not available for now. Try again later.'')]"

definition password_problems :: "(string \<times> int \<times> string \<times> string) list" where
  "password_problems =
     [(''INVALID_PASSWORD_RESET_TOKEN'', 400, ''Invalid reset link'',
       ''The password reset link is invalid or has expired. Apply again.''),
      (''INVALID_CURRENT_PASSWORD'', 400, ''Wrong current password'', ''Check the current password.''),
      (''INVALID_SESSION'', 401, ''Invalid session'', ''There is no valid session. Log in again.''),
      (''VALIDATION_ERROR'', 422, ''Invalid request'', ''One or more request fields are invalid.''),
      (''PASSWORD_POLICY_VIOLATION'', 422, ''Password policy'', ''The new password has to have 15 to 128 characters after NFC.''),
      (''AUTH_PASSWORD_HASH_UNAVAILABLE'', 503, ''Authentication suspended'',
       ''The password cannot be processed for now. Try again later.''),
      (''SERVICE_UNAVAILABLE'', 503, ''Service unavailable'', ''Passwords cannot be changed for now. Try again later.'')]"

text \<open>\<open>session_problem\<close>, \<open>registration_problem\<close> and \<open>password_problem\<close>, with the headers of \<open>_failure\<close>.\<close>

definition failure ::
    "(string \<times> int \<times> string \<times> string) list \<Rightarrow> string \<Rightarrow> request \<Rightarrow> (string \<times> pystr) list \<Rightarrow> 'b response" where
  "failure table code r headers =
     (case map_of table code of
        Some (status, title, det) \<Rightarrow>
          problem_response (problem_details (problem_type code) title status (Detail det) code (Some (hr_path r)) None) (no_store @ headers)
      | None \<Rightarrow> unexpected_error_handler r True)"

definition unavailable_response :: "request \<Rightarrow> 'b response" where
  "unavailable_response r = failure session_problems ''SERVICE_UNAVAILABLE'' r []"

text \<open>\<open>_error\<close> of \<open>sessions.py\<close>, for the exceptions its callers pass.\<close>

definition session_failure :: "request \<Rightarrow> bool \<Rightarrow> account_error \<Rightarrow> 'b response" where
  "session_failure r sec err =
     (if err = InvalidSession then invalid_session_response r sec
      else if err = InvalidCredentials then failure session_problems ''INVALID_CREDENTIALS'' r []
      else if err = RefreshConflict then failure session_problems ''refresh_conflict'' r [(''retry-after'', lit ''1'')]
      else if err = PasswordHashUnavailable then failure session_problems ''AUTH_PASSWORD_HASH_UNAVAILABLE'' r []
      else failure session_problems ''SERVICE_UNAVAILABLE'' r [])"


section \<open>Answers\<close>

record access_token_response =
  ar_access_token :: pystr
  ar_token_type :: string
  ar_expires_in :: int

datatype account_body = AccessTokenBody access_token_response | AcceptedBody | ProfileBody current_profile

type_synonym answer = "account_body response api \<times> account_db \<times> operational_event list"

text \<open>The \<open>except\<close> clauses around a use case: \<open>caught\<close> answers the exceptions that they name.\<close>

definition answer ::
    "(account_error \<Rightarrow> account_body response option) \<Rightarrow> ('a \<Rightarrow> account_body response res) \<Rightarrow> 'a outcome \<Rightarrow> answer" where
  "answer caught ok out =
     (case out of (r, d, events) \<Rightarrow>
        (case r of
           Inr x \<Rightarrow> raises (ok x)
         | Inl (AccountError err) \<Rightarrow>
             (case caught err of Some rs \<Rightarrow> Inr rs | None \<Rightarrow> Inl (Raised (AccountError err)))
         | Inl err \<Rightarrow> Inl (Raised err), d, events))"

text \<open>Values that are built in the same \<open>try\<close> block before the use case is called.\<close>

definition build :: "'a res \<Rightarrow> ('a \<Rightarrow> 'b outcome) \<Rightarrow> account_db \<Rightarrow> 'b outcome" where
  "build v k d = (case v of Inl err \<Rightarrow> (Inl err, d, []) | Inr x \<Rightarrow> k x)"

definition answering :: "'a api \<Rightarrow> account_db \<Rightarrow> ('a \<Rightarrow> answer) \<Rightarrow> answer" where
  "answering payload d k = (case payload of Inl err \<Rightarrow> (Inl err, d, []) | Inr x \<Rightarrow> k x)"

definition caught_as :: "account_error list \<Rightarrow> account_body response \<Rightarrow> account_error \<Rightarrow> account_body response option" where
  "caught_as errs rs err = (if err \<in> set errs then Some rs else None)"

text \<open>The first \<open>except\<close> clause that names the exception.\<close>

definition or_else ::
    "(account_error \<Rightarrow> 'a option) \<Rightarrow> (account_error \<Rightarrow> 'a option) \<Rightarrow> account_error \<Rightarrow> 'a option" where
  "or_else f g err = (case f err of None \<Rightarrow> g err | Some x \<Rightarrow> Some x)"

definition access_token_body :: "pystr \<Rightarrow> account_body" where
  "access_token_body token = AccessTokenBody \<lparr>ar_access_token = token, ar_token_type = ''Bearer'', ar_expires_in = 900\<rparr>"

definition grant_body :: "bool \<Rightarrow> nat list \<Rightarrow> int \<Rightarrow> session_grant \<Rightarrow> account_body response res" where
  "grant_body sec raw status g =
     issue_cookies sec raw (sg_refresh g) (sg_expires g) (sg_issued g)
       (json_response status [] (access_token_body (sg_access g)))"


section \<open>Sessions\<close>

definition login_route ::
    "auth_lib \<Rightarrow> pystr \<Rightarrow> bool \<Rightarrow> bool \<Rightarrow> auth_env \<Rightarrow> nat list \<Rightarrow> request \<Rightarrow> (pystr \<times> pystr) api \<Rightarrow> account_db \<Rightarrow> account_db \<Rightarrow> answer" where
  "login_route L fake_hash sec available E raw r payload d0 d =
     answering payload d (\<lambda>(email, password).
       if \<not> available then (Inr (unavailable_response r), d, [])
       else answer
         (\<lambda>err. if err \<in> {InvalidCredentials, PasswordHashUnavailable, SessionUnavailable, UserPersistenceError}
                then Some (session_failure r sec err) else None)
         (grant_body sec raw 200)
         (build (email_address (al_text L) email) (\<lambda>e.
          build (plain_password (lib_nfc (al_text L)) password) (\<lambda>p. login L fake_hash E e p d0 d) d) d))"

definition refresh_route ::
    "auth_lib \<Rightarrow> bool \<Rightarrow> bool \<Rightarrow> auth_env \<Rightarrow> nat list \<Rightarrow> request \<Rightarrow> account_db \<Rightarrow> account_db \<Rightarrow> answer" where
  "refresh_route L sec available E raw r d0 d =
     (if \<not> available then (Inr (unavailable_response r), d, [])
      else case refresh_cookie r of
        None \<Rightarrow> (Inr (invalid_session_response r sec), d, [])
      | Some token \<Rightarrow>
          answer
            (\<lambda>err. if err \<in> {InvalidSession, RefreshConflict, SessionUnavailable} then Some (session_failure r sec err) else None)
            (grant_body sec raw 200) (refresh L E token d0 d))"

definition logout_route ::
    "auth_lib \<Rightarrow> bool \<Rightarrow> bool \<Rightarrow> auth_env \<Rightarrow> request \<Rightarrow> account_db \<Rightarrow> account_db \<Rightarrow> answer" where
  "logout_route L sec available E r d0 d =
     (if \<not> available then (Inr (unavailable_response r), d, [])
      else answer
        (\<lambda>err. if err = SessionUnavailable then Some (session_failure r sec err) else None)
        (\<lambda>_. Inr (clear_cookies sec (empty_response 204)))
        (case refresh_cookie r of None \<Rightarrow> (Inr (), d, []) | Some token \<Rightarrow> logout L E token d0 d))"

definition me_route :: "auth_lib \<Rightarrow> bool \<Rightarrow> human_principal res \<Rightarrow> request \<Rightarrow> account_db \<Rightarrow> answer" where
  "me_route L sec who r d =
     answering (raises who) d (\<lambda>p.
       answer
         (\<lambda>err. if err \<in> {SessionUnavailable, UserPersistenceError} then Some (session_failure r sec err) else None)
         (\<lambda>c. Inr (json_response 200 no_store (ProfileBody c)))
         (get_current_profile (al_text L) p d, d, []))"


section \<open>Registration\<close>

definition request_registration_route ::
    "auth_lib \<Rightarrow> (mail \<Rightarrow> delivery_status res) \<Rightarrow> pystr list \<Rightarrow> bool \<Rightarrow> auth_env \<Rightarrow> request \<Rightarrow> pystr api \<Rightarrow> account_db \<Rightarrow> answer" where
  "request_registration_route L send allowed_domains available E r payload d =
     answering payload d (\<lambda>email.
       if \<not> available then (Inr (failure registration_problems ''SERVICE_UNAVAILABLE'' r []), d, [])
       else answer
         (or_else (caught_as [EmailDomainNotAllowed] (failure registration_problems ''EMAIL_DOMAIN_NOT_ALLOWED'' r []))
           (caught_as [RegistrationUnavailable, OpaqueTokenCollision] (failure registration_problems ''SERVICE_UNAVAILABLE'' r [])))
         (\<lambda>_. Inr (json_response 202 [] AcceptedBody))
         (build (email_address (al_text L) email) (\<lambda>e. request_registration L send allowed_domains E e d) d))"

definition complete_registration_route ::
    "auth_lib \<Rightarrow> pystr list \<Rightarrow> bool \<Rightarrow> bool \<Rightarrow> auth_env \<Rightarrow> nat list \<Rightarrow> request \<Rightarrow> (pystr \<times> pystr \<times> pystr) api
       \<Rightarrow> account_db \<Rightarrow> account_db \<Rightarrow> answer" where
  "complete_registration_route L allowed_domains sec available E raw r payload d0 d =
     answering payload d (\<lambda>(token, name, password).
       if \<not> available then (Inr (failure registration_problems ''SERVICE_UNAVAILABLE'' r []), d, [])
       else answer
         (or_else (caught_as [InvalidOpaqueToken, InvalidRegistrationToken] (failure registration_problems ''INVALID_REGISTRATION_TOKEN'' r []))
          (or_else (caught_as [EmailDomainNotAllowed] (failure registration_problems ''EMAIL_DOMAIN_NOT_ALLOWED'' r []))
           (or_else (caught_as [PasswordHashUnavailable] (failure registration_problems ''AUTH_PASSWORD_HASH_UNAVAILABLE'' r []))
            (caught_as [RegistrationUnavailable, OpaqueTokenCollision] (failure registration_problems ''SERVICE_UNAVAILABLE'' r [])))))
         (grant_body sec raw 201)
         (build (opaque_token_init token) (\<lambda>t.
          build (display_name (lib_nfc (al_text L)) name) (\<lambda>n.
          build (plain_password (lib_nfc (al_text L)) password) (\<lambda>p.
            complete_registration L allowed_domains E t n p d0 d) d) d) d))"


section \<open>Passwords\<close>

definition request_reset_route ::
    "auth_lib \<Rightarrow> (mail \<Rightarrow> delivery_status res) \<Rightarrow> bool \<Rightarrow> auth_env \<Rightarrow> request \<Rightarrow> pystr api \<Rightarrow> account_db \<Rightarrow> account_db \<Rightarrow> answer" where
  "request_reset_route L send available E r payload d0 d =
     answering payload d (\<lambda>email.
       if \<not> available then (Inr (failure password_problems ''SERVICE_UNAVAILABLE'' r []), d, [])
       else answer
         (caught_as [PasswordLifecycleUnavailable, OpaqueTokenCollision] (failure password_problems ''SERVICE_UNAVAILABLE'' r []))
         (\<lambda>_. Inr (json_response 202 [] AcceptedBody))
         (build (email_address (al_text L) email) (\<lambda>e. request_password_reset L send E e d0 d) d))"

text \<open>\<open>AuthInvariantError\<close> is a \<open>ValueError\<close>.\<close>

definition complete_reset_route ::
    "auth_lib \<Rightarrow> bool \<Rightarrow> bool \<Rightarrow> auth_env \<Rightarrow> request \<Rightarrow> (pystr \<times> pystr) api \<Rightarrow> account_db \<Rightarrow> account_db \<Rightarrow> account_db \<Rightarrow> answer" where
  "complete_reset_route L sec available E r payload d0 d1 d =
     answering payload d (\<lambda>(token, new_password).
       if \<not> available then (Inr (failure password_problems ''SERVICE_UNAVAILABLE'' r []), d, [])
       else case plain_password (lib_nfc (al_text L)) new_password of
         Inl _ \<Rightarrow> (Inr (failure password_problems ''VALIDATION_ERROR'' r []), d, [])
       | Inr password \<Rightarrow>
           answer
             (or_else (caught_as [InvalidOpaqueToken, InvalidPasswordResetToken] (failure password_problems ''INVALID_PASSWORD_RESET_TOKEN'' r []))
              (or_else (caught_as [PasswordHashUnavailable] (failure password_problems ''AUTH_PASSWORD_HASH_UNAVAILABLE'' r []))
               (caught_as [PasswordLifecycleUnavailable] (failure password_problems ''SERVICE_UNAVAILABLE'' r []))))
             (\<lambda>_. Inr (clear_cookies sec (empty_response 204)))
             (build (opaque_token_init token) (\<lambda>t. complete_reset L E t password d0 d1 d) d))"

definition change_password_route ::
    "auth_lib \<Rightarrow> int \<Rightarrow> bool \<Rightarrow> bool \<Rightarrow> auth_env \<Rightarrow> nat list \<Rightarrow> request \<Rightarrow> human_principal res \<Rightarrow> (pystr \<times> pystr) api
       \<Rightarrow> account_db \<Rightarrow> account_db \<Rightarrow> account_db \<Rightarrow> answer" where
  "change_password_route L now1 sec available E raw r who payload d0 d1 d =
     answering (raises who) d (\<lambda>principal.
     answering payload d (\<lambda>(current_password, new_password).
       if \<not> available then (Inr (failure password_problems ''SERVICE_UNAVAILABLE'' r []), d, [])
       else case refresh_cookie r of
         None \<Rightarrow> (Inr (invalid_session_response r sec), d, [])
       | Some token \<Rightarrow>
          (case plain_password (lib_nfc (al_text L)) new_password of
             Inl _ \<Rightarrow> (Inr (failure password_problems ''PASSWORD_POLICY_VIOLATION'' r []), d, [])
           | Inr password \<Rightarrow>
               answer
                 (or_else (caught_as [InvalidSession] (invalid_session_response r sec))
                  (or_else (caught_as [InvalidCurrentPassword] (failure password_problems ''INVALID_CURRENT_PASSWORD'' r []))
                   (or_else (caught_as [PasswordHashUnavailable] (failure password_problems ''AUTH_PASSWORD_HASH_UNAVAILABLE'' r []))
                    (caught_as [PasswordLifecycleUnavailable, OpaqueTokenCollision] (failure password_problems ''SERVICE_UNAVAILABLE'' r [])))))
                 (\<lambda>g. issue_cookies sec raw (pg_refresh g) (pg_expires g) (pg_issued g) (empty_response 204))
                 (build (plain_password (lib_nfc (al_text L)) current_password) (\<lambda>current.
                   change_password L now1 E principal token current password d0 d1 d) d))))"


section \<open>User management\<close>

definition change_role_route ::
    "text_lib \<Rightarrow> auth_env \<Rightarrow> human_principal res \<Rightarrow> (uuid \<times> user_role) api \<Rightarrow> account_db \<Rightarrow> answer" where
  "change_role_route lib E who payload d =
     answering (raises (bindE who (\<lambda>p. authorize p MANAGE_USER_ROLES))) d (\<lambda>p.
     answering payload d (\<lambda>(i, role).
       answer (\<lambda>_. None) (\<lambda>_. Inr (empty_response 204)) (change_role lib E p i role d)))"

definition change_status_route ::
    "text_lib \<Rightarrow> auth_env \<Rightarrow> human_principal res \<Rightarrow> (uuid \<times> user_status) api \<Rightarrow> account_db \<Rightarrow> answer" where
  "change_status_route lib E who payload d =
     answering (raises (bindE who (\<lambda>p. authorize p MANAGE_USER_STATUS))) d (\<lambda>p.
     answering payload d (\<lambda>(i, status).
       answer (\<lambda>_. None) (\<lambda>_. Inr (empty_response 204)) (change_status lib E p i status d)))"

text \<open>\<open>require_human_principal\<close>: \<open>credentials\<close> are the scheme and the parameter of the Authorization header, as
  the security scheme of the framework splits them. A scheme is a token of ASCII characters.\<close>

definition require_human_principal ::
    "(pystr \<Rightarrow> int \<Rightarrow> access_token_claims res) \<Rightarrow> datetime \<Rightarrow> pystr option \<Rightarrow> (pystr \<times> pystr) option
       \<Rightarrow> human_principal res \<times> operational_event list" where
  "require_human_principal verifier clock request_id credentials =
     authenticate verifier clock
       (case credentials of
          Some (scheme, token) \<Rightarrow> if lower_ascii scheme = lit ''bearer'' then Some token else None
        | None \<Rightarrow> None) request_id"


section \<open>Protected routes\<close>

definition protection_problem :: "request \<Rightarrow> string \<Rightarrow> int \<Rightarrow> (string \<times> pystr) list \<Rightarrow> 'b response" where
  "protection_problem r code status headers =
     problem_response
       (problem_details (problem_type code)
          (if code = ''ORIGIN_NOT_ALLOWED'' then ''Origin not allowed''
           else if code = ''CSRF_VALIDATION_FAILED'' then ''CSRF validation failed'' else ''Rate limit'') status
          (Detail (if code = ''ORIGIN_NOT_ALLOWED'' then ''One allowed origin is required.''
             else if code = ''CSRF_VALIDATION_FAILED'' then ''The CSRF cookie and the X-CSRF-Token header have to be the same valid token.''
             else ''Too many authentication requests. Try again after Retry-After.''))
          code (Some (hr_path r)) None) headers"

definition auth_request_of :: "auth_action \<Rightarrow> ip_value option \<Rightarrow> request \<Rightarrow> auth_request" where
  "auth_request_of action client r =
     \<lparr>rq_action = action, rq_origins = getlist ''origin'' r, rq_cookies = csrf_cookie_values (getlist ''cookie'' r),
      rq_headers = getlist ''x-csrf-token'' r, rq_client = client\<rparr>"

text \<open>\<open>protected\<close>: the check of origin, CSRF token and quota comes before the original handler.\<close>

definition protected_route ::
    "url_lib \<Rightarrow> auth_protection \<Rightarrow> auth_action \<Rightarrow> datetime \<Rightarrow> rat \<Rightarrow> ip_value option \<Rightarrow> request \<Rightarrow> (account_db \<Rightarrow> answer)
       \<Rightarrow> account_db \<Rightarrow> rate_windows \<Rightarrow> account_body response api \<times> account_db \<times> rate_windows \<times> operational_event list" where
  "protected_route U P action clock now client r original d ws =
     (case check_request U P clock now (auth_request_of action client r) ws of
        (Inr _, ws', events) \<Rightarrow> (case original d of (rs, d', events') \<Rightarrow> (rs, d', ws', events @ events'))
      | (Inl (AccountError OriginNotAllowed), ws', events) \<Rightarrow> (Inr (protection_problem r ''ORIGIN_NOT_ALLOWED'' 403 []), d, ws', events)
      | (Inl (AccountError CsrfValidationFailed), ws', events) \<Rightarrow> (Inr (protection_problem r ''CSRF_VALIDATION_FAILED'' 403 []), d, ws', events)
      | (Inl (AccountError (RateLimitExceeded n)), ws', events) \<Rightarrow>
          (Inr (protection_problem r ''RATE_LIMIT_EXCEEDED'' 429 [(''retry-after'', str_int n)]), d, ws', events)
      | (Inl err, ws', events) \<Rightarrow> (Inl (Raised err), d, ws', events))"

text \<open>\<open>no_store_send\<close> on what leaves the route, which includes the answers of registered handlers; the handler of
  all other exceptions runs outside of it and reads the mark in the scope.\<close>

definition no_store_send :: "'b response \<Rightarrow> 'b response" where
  "no_store_send rs = rs\<lparr>rs_headers := filter (\<lambda>h. fst h \<noteq> ''cache-control'') (rs_headers rs) @ no_store\<rparr>"

definition protected_response :: "request \<Rightarrow> 'b response api \<Rightarrow> 'b response" where
  "protected_response r outcome =
     (case outcome of
        Inr rs \<Rightarrow> no_store_send rs
      | Inl err \<Rightarrow> if registered err then no_store_send (handle_exception True r err) else handle_exception True r err)"

end
