(* ===== verification/Account_Http.thy ===== *)
theory Account_Http
  imports Account_Api Account_Guarantees Account_Samples
begin

text \<open>
  What the browser gets from the account endpoints: session cookies are set only for a session that the
  tables hold, deleted only when the session is over, and untouched by every other response; and no
  response of these routes may be cached.
\<close>

section \<open>Responses to exceptions\<close>

lemma exn_status_ge: "400 \<le> exn_status e"
proof -
  have "400 \<le> account_status x" for x by (cases x) simp_all
  then show ?thesis by (cases e) simp_all
qed

lemma handle_exception_answered: "\<exists>st \<ge> 400. answered r st (handle_exception b r e :: 'b response)"
proof (cases e)
  case (Raised x)
  then show ?thesis using answered_exn [of r x b] exn_status_ge [of x] by auto
next
  case (RequestValidationError errors)
  let ?st = "if \<not> has_header ''if-match'' r \<and> (hr_method r = ''PATCH''
      \<or> (\<exists>err \<in> set errors. er_type err = Missing \<and> er_loc err = [''header'', ''If-Match''])) then 428 else 422 :: int"
  have "answered r ?st (handle_exception b r e :: 'b response)"
    using answered_validation [of r errors] RequestValidationError by simp
  moreover have "400 \<le> ?st" by simp
  ultimately show ?thesis by blast
next
  case DimensionLifecycleUnavailable
  then show ?thesis using answered_lifecycle(1) [of r LifecycleUnavailable] by (intro exI [of _ 503]) simp
next
  case UserQueryUnavailable
  then show ?thesis using answered_lifecycle(2) [of r QueryUnavailable] by (intro exI [of _ 503]) simp
next
  case PreconditionRequired
  then show ?thesis using answered_handlers [of r] by (intro exI [of _ 428]) simp
next
  case InvalidIfMatch
  then show ?thesis using answered_handlers [of r] by (intro exI [of _ 400]) simp
qed (auto intro!: exI [of _ 503] simp: answered_handlers answered_families master_code_repository_unavailable_handler_def)

lemma unregistered_unexpected: "\<not> registered e \<Longrightarrow> handle_exception b r e = unexpected_error_handler r b"
proof -
  have "\<not> registered_account x \<Longrightarrow> account_exception b r x = (unexpected_error_handler r b :: 'b response)" for x
    by (cases x) simp_all
  then have "\<not> registered_exn x \<Longrightarrow> raised_exception b r x = (unexpected_error_handler r b :: 'b response)" for x
    by (cases x) simp_all
  then show "\<not> registered e \<Longrightarrow> handle_exception b r e = (unexpected_error_handler r b :: 'b response)"
    by (cases e) simp_all
qed


section \<open>The site\<close>

text \<open>The configuration of the account endpoints and their requests, by the action whose policy protects them.\<close>

record site =
  st_lib :: auth_lib
  st_fake_hash :: pystr
  st_send :: "mail \<Rightarrow> delivery_status res"
  st_domains :: "pystr list"
  st_secure :: bool
  st_available :: "auth_action \<Rightarrow> bool"

datatype account_call =
    LoginCall "(pystr \<times> pystr) api"
  | RefreshCall
  | LogoutCall
  | RegistrationCall "pystr api"
  | CompletionCall "(pystr \<times> pystr \<times> pystr) api"
  | ResetCall "pystr api"
  | ResetCompletionCall "(pystr \<times> pystr) api"
  | PasswordCall "human_principal res" "(pystr \<times> pystr) api"

fun call_action :: "account_call \<Rightarrow> auth_action" where
  "call_action (LoginCall _) = LOGIN"
| "call_action RefreshCall = REFRESH"
| "call_action LogoutCall = LOGOUT"
| "call_action (RegistrationCall _) = REGISTRATION_REQUEST"
| "call_action (CompletionCall _) = REGISTRATION_COMPLETE"
| "call_action (ResetCall _) = PASSWORD_RESET_REQUEST"
| "call_action (ResetCompletionCall _) = PASSWORD_RESET_COMPLETE"
| "call_action (PasswordCall _ _) = PASSWORD_CHANGE"

definition serve_call ::
    "site \<Rightarrow> int \<Rightarrow> auth_env \<Rightarrow> nat list \<Rightarrow> request \<Rightarrow> account_call \<Rightarrow> account_db \<Rightarrow> account_db \<Rightarrow> account_db \<Rightarrow> answer" where
  "serve_call S now1 E raw r call d0 d1 d =
     (let L = st_lib S; sec = st_secure S; on = st_available S (call_action call) in
      case call of
        LoginCall b \<Rightarrow> login_route L (st_fake_hash S) sec on E raw r b d0 d
      | RefreshCall \<Rightarrow> refresh_route L sec on E raw r d0 d
      | LogoutCall \<Rightarrow> logout_route L sec on E r d0 d
      | RegistrationCall b \<Rightarrow> request_registration_route L (st_send S) (st_domains S) on E r b d
      | CompletionCall b \<Rightarrow> complete_registration_route L (st_domains S) sec on E raw r b d0 d
      | ResetCall b \<Rightarrow> request_reset_route L (st_send S) on E r b d0 d
      | ResetCompletionCall b \<Rightarrow> complete_reset_route L sec on E r b d0 d1 d
      | PasswordCall who b \<Rightarrow> change_password_route L now1 sec on E raw r who b d0 d1 d)"

definition serve_protected ::
    "site \<Rightarrow> url_lib \<Rightarrow> auth_protection \<Rightarrow> datetime \<Rightarrow> rat \<Rightarrow> ip_value option \<Rightarrow> int \<Rightarrow> auth_env \<Rightarrow> nat list \<Rightarrow> request \<Rightarrow> account_call
       \<Rightarrow> account_db \<Rightarrow> account_db \<Rightarrow> account_db \<Rightarrow> rate_windows \<Rightarrow> account_body response \<times> account_db \<times> rate_windows" where
  "serve_protected S U P clock now client now1 E raw r call d0 d1 d ws =
     (case protected_route U P (call_action call) clock now client r (serve_call S now1 E raw r call d0 d1) d ws of
        (out, d', ws', events) \<Rightarrow> (protected_response r out, d', ws'))"


section \<open>Granted sessions are in the tables\<close>

definition session_open :: "pystr \<Rightarrow> int \<Rightarrow> account_db \<Rightarrow> bool" where
  "session_open token expires d \<longleftrightarrow>
     (\<exists>t \<in> set (ac_refresh d). t_digest t = token_digest token \<and> t_used t = None
       \<and> (\<exists>f \<in> set (ac_families d). f_id f = t_family t \<and> f_status f = FAMILY_ACTIVE \<and> f_expires f = expires))"

lemma open_session_opens: "session_open token (now + days 7) (open_session family u now token i d)"
  by (auto simp: session_open_def open_session_def)

lemma login_opens:
  assumes "login L fake_hash E email password d0 d = (Inr grant, d', evs)" "tables_ok d"
  shows "session_open (sg_refresh grant) (sg_expires grant) d'"
proof -
  have "try_login L fake_hash E email password d0 d = (Inr grant, d')"
    using assms(1) by (auto simp: login_def split: prod.splits)
  then obtain snapshot where run: "login_tx L E snapshot d = Inr (grant, d')" by (rule try_login_Inr)
  obtain u d1 d2 token i where u: "get_by_id (al_text L) (user_id snapshot) d = Inr (Some u)" "user_status u = ACTIVE"
      "user_password_hash u = user_password_hash snapshot"
    and steps: "revoke_all (lock_families (user_id u) None d) (ae_now E) d = Inr d1"
      "create_family (user_id u) (ae_family E) (ae_now E) (ae_now E + days 7) d1 = Inr d2"
      "issue_refresh E (ae_family E) d2 = Inr ((token, i), d')"
    and grant: "sg_refresh grant = token" "sg_expires grant = ae_now E + days 7"
    using run by (auto simp: login_tx_def Let_def lock_families_filter bindE_eq_Inr split: option.splits if_splits)
  note o = open_session_Inr [OF steps(2,3) revoke_locked(2) [OF steps(1) refl assms(2)]]
  show ?thesis unfolding o(1) grant by (rule open_session_opens)
qed

lemma registration_opens:
  assumes "complete_registration L domains E token name password d0 d = (Inr grant, d', evs)" "tables_ok d"
  shows "session_open (sg_refresh grant) (sg_expires grant) d'"
proof -
  obtain target hash where run: "registration_tx L domains E target token name hash d = Inr (grant, d')"
    by (rule complete_registration_Inr [OF assms(1)])
  show ?thesis
  proof (rule registration_tx_Inr [OF run], goal_cases)
    case (1 h email k u d1 d2 d3 refresh i)
    note s = open_session_Inr [OF 1(13,14) add_user_Inr(2) [OF 1(12) assms(2)]]
    note c = complete_challenge_Inr [OF 1(15) s(2)]
    have "session_open (sg_refresh grant) (sg_expires grant) d3"
      unfolding s(1) 1(16,17) by (rule open_session_opens)
    then show ?case by (simp add: c(1) session_open_def close_registration_def)
  qed
qed

lemma change_password_opens:
  assumes "change_password L now1 E p token cur new d0 d1 d = (Inr grant, d', evs)" "tables_ok d"
  shows "session_open (pg_refresh grant) (pg_expires grant) d'"
proof -
  obtain target snapshot hash where
    "password_transaction (change_password_tx L E p target token snapshot hash d) d = (Inr grant, d')"
    using assms(1) by (auto simp: change_password_def split: option.splits sum.splits prod.splits if_splits)
  then have run: "change_password_tx L E p target token snapshot hash d = Inr (grant, d')"
    by (auto simp: password_transaction_def account_stmts elim!: transact_cases)
  show ?thesis
  proof (rule change_password_tx_Inr [OF run], goal_cases)
    case (1 u d1 d2 d3 d4 d5 new i)
    note c = change_hash_Inr [OF 1(6) assms(2)]
    have "ac_families d = ac_families d1" by (simp add: c(1))
    note o = open_session_Inr [OF 1(8,9) revoke_locked(2) [OF 1(7) this c(2)]]
    note e = revoke_locked [OF 1(7) \<open>ac_families d = ac_families d1\<close> c(2)]
    have "ac_resets d = ac_resets d4" by (simp add: o(1) e(1) c(1))
    note h = revoke_challenges_locked [OF 1(10) this o(2)]
    note a = audit_password_Inr [OF 1(11) h(2)]
    have "session_open new (ae_now E + days 7) d4" unfolding o(1) by (rule open_session_opens)
    then show ?case by (simp add: a(1) h(1) 1(12) session_open_def move_defs)
  qed
qed

lemma refresh_opens:
  assumes "refresh L E token d0 d = (Inr grant, d', evs)" "tables_ok d"
  shows "session_open (sg_refresh grant) (sg_expires grant) d'"
proof -
  obtain target body where "session_transaction (refresh_tx L E target token d) d = (Inr (Some grant), d')"
    using assms by (auto simp: refresh_def try_refresh_def split: option.splits prod.splits sum.splits)
  then have run: "refresh_tx L E target token d = Inr (Some grant, d')"
    by (auto simp: session_transaction_cases split: sum.splits exn.splits if_splits)
  obtain u f t where u: "get_by_id (al_text L) (rt_user target) d = Inr (Some u)" "user_status u = ACTIVE"
    and lock: "locked_refresh target token (user_id u) d = Inr (f, t)"
    and f: "f_status f = FAMILY_ACTIVE" "ae_now E < f_expires f"
    by (rule refresh_tx_Inr [OF run])
  note l = locked_refresh_Inr [OF lock]
  obtain d1 new i where steps: "issue_refresh E (f_id f) d = Inr ((new, i), d1)" "mark_used (t_id t) i (f_id f) (ae_now E) d1 = Inr d'"
    and grant: "sg_refresh grant = new" "sg_expires grant = f_expires f"
    using run u lock f by (cases "t_used t") (auto simp: refresh_tx_def Let_def bindE_eq_Inr split: if_splits)
  note o = rotate_Inr [OF steps assms(2)]
  have "i \<noteq> t_id t" by (rule rotate_fresh [OF o(2) [unfolded o(1)] l(5)])
  then have "\<lparr>t_id = i, t_family = f_id f, t_digest = token_digest new, t_issued = ae_now E, t_used = None, t_replaced = None\<rparr>
      \<in> set (ac_refresh d')" (is "?t \<in> _")
    by (simp add: o(1) rotate_session_def)
  moreover have "f\<lparr>f_updated := ae_now E\<rparr> \<in> set (ac_families d')"
    using l(1) by (force simp: o(1) rotate_session_def)
  ultimately show ?thesis
    unfolding session_open_def grant by (intro bexI [of _ ?t] conjI bexI [of _ "f\<lparr>f_updated := ae_now E\<rparr>"]) (use f(1) in simp_all)
qed


section \<open>Cookies\<close>

definition issues_session :: "bool \<Rightarrow> account_db \<Rightarrow> 'b response \<Rightarrow> bool" where
  "issues_session sec d rs \<longleftrightarrow>
     (\<exists>token csrf age expires. session_open token expires d \<and> opaque_token_init csrf = Inr csrf \<and> 0 \<le> age
       \<and> rs_cookies rs = [session_cookie sec ''mdm_refresh'' True token age (Some expires),
                         session_cookie sec ''mdm_csrf'' False csrf age (Some expires)])"

text \<open>The status with which a call opens or ends a session.\<close>

fun opening_status :: "account_call \<Rightarrow> int option" where
  "opening_status (LoginCall _) = Some 200"
| "opening_status RefreshCall = Some 200"
| "opening_status (CompletionCall _) = Some 201"
| "opening_status (PasswordCall _ _) = Some 204"
| "opening_status _ = None"

fun ending_status :: "account_call \<Rightarrow> int option" where
  "ending_status RefreshCall = Some 401"
| "ending_status (PasswordCall _ _) = Some 401"
| "ending_status LogoutCall = Some 204"
| "ending_status (ResetCompletionCall _) = Some 204"
| "ending_status _ = None"

definition plain_response :: "'b response \<Rightarrow> bool" where
  "plain_response rs \<longleftrightarrow> rs_cookies rs = [] \<and> rs_status rs \<notin> {200, 201, 204}"

definition cookies_ok :: "bool \<Rightarrow> account_call \<Rightarrow> account_db \<Rightarrow> 'b response \<Rightarrow> bool" where
  "cookies_ok sec call d rs \<longleftrightarrow>
     (Some (rs_status rs) = opening_status call \<and> issues_session sec d rs)
     \<or> (Some (rs_status rs) = ending_status call \<and> rs_cookies rs = cleared_cookies sec)
     \<or> plain_response rs"

lemma failure_plain:
  assumes "\<forall>x \<in> set table. 400 \<le> fst (snd x)"
  shows "plain_response (failure table code r headers)"
proof (cases "map_of table code")
  case None
  then show ?thesis by (simp add: failure_def plain_response_def unexpected_error_handler_def problem_response_def problem_details_def)
next
  case (Some x)
  with map_of_SomeD [OF Some] assms show ?thesis
    by (cases x) (fastforce simp: failure_def plain_response_def problem_response_def problem_details_def)
qed

lemma failures_plain [simp]:
  "plain_response (failure session_problems code r hs)" "plain_response (failure registration_problems code r hs)"
  "plain_response (failure password_problems code r hs)" "plain_response (unavailable_response r)"
  by (simp_all add: failure_plain session_problems_def registration_problems_def password_problems_def unavailable_response_def)

lemma plain_ok: "plain_response rs \<Longrightarrow> cookies_ok sec call d rs"
  by (simp add: cookies_ok_def)

lemma invalid_session_ok: "call = RefreshCall \<or> (\<exists>who b. call = PasswordCall who b) \<Longrightarrow> cookies_ok sec call d (invalid_session_response r sec)"
  by (auto simp: cookies_ok_def invalid_session_response_def clear_cookies_def set_header_def problem_response_def problem_details_def)

lemma cleared_ok: "ending_status call = Some 204 \<Longrightarrow> cookies_ok sec call d (clear_cookies sec (empty_response 204))"
  by (simp add: cookies_ok_def clear_cookies_def set_header_def empty_response_def)

lemma session_failure_ok: "err \<noteq> InvalidSession \<or> call = RefreshCall \<Longrightarrow> cookies_ok sec call d (session_failure r sec err)"
  by (auto simp: session_failure_def intro: plain_ok invalid_session_ok)

lemma generated_token: "generate_opaque_token raw = Inr c \<Longrightarrow> opaque_token_init c = Inr c"
  by (auto simp: generate_opaque_token_def opaque_token_init_def Let_def split: if_splits)

lemma issued_ok:
  assumes "issue_cookies sec raw token expires now rs0 = Inr rs" "session_open token expires d"
    "rs_cookies rs0 = []" "opening_status call = Some (rs_status rs0)"
  shows "cookies_ok sec call d rs"
proof -
  obtain csrf where "generate_opaque_token raw = Inr csrf" using assms(1) by (auto simp: issue_cookies_def Let_def bindE_eq_Inr)
  note csrf = this generated_token [OF this]
  let ?age = "max 0 ((expires - now) div 1000000)"
  have "rs_status rs = rs_status rs0"
    "rs_cookies rs = [session_cookie sec ''mdm_refresh'' True token ?age (Some expires), session_cookie sec ''mdm_csrf'' False csrf ?age (Some expires)]"
    using assms(1,3) csrf by (auto simp: issue_cookies_def Let_def set_header_def)
  moreover have "0 \<le> ?age" by simp
  ultimately show ?thesis using assms(2,4) csrf(2) unfolding cookies_ok_def issues_session_def by metis
qed

lemma answer_Inr:
  assumes "answer caught ok out = (Inr rs, d', evs)"
    and "\<And>v. fst out = Inr v \<Longrightarrow> ok v = Inr rs \<Longrightarrow> fst (snd out) = d' \<Longrightarrow> Q"
    and "\<And>err. caught err = Some rs \<Longrightarrow> Q"
  shows Q
  using assms by (cases out) (auto simp: answer_def raises_eq split: sum.splits exn.splits option.splits)

lemma build_Inr: "fst (build v k d) = Inr x \<Longrightarrow> \<exists>y. v = Inr y \<and> fst (k y) = Inr x \<and> build v k d = k y"
  by (cases v) (simp_all add: build_def)

lemma answering_Inr: "answering p d k = (Inr rs, d', evs) \<longleftrightarrow> (\<exists>x. p = Inr x \<and> k x = (Inr rs, d', evs))"
  by (cases p) (simp_all add: answering_def)

lemma outcome_cases: "fst out = Inr v \<Longrightarrow> fst (snd out) = d' \<Longrightarrow> \<exists>evs. out = (Inr v, d', evs)"
  by (cases out) auto

lemma grant_ok:
  assumes "grant_body sec raw status g = Inr rs" "session_open (sg_refresh g) (sg_expires g) d" "opening_status call = Some status"
  shows "cookies_ok sec call d rs"
  using assms(1) [unfolded grant_body_def] assms(2) by (rule issued_ok) (simp_all add: json_response_def assms(3))

lemma caught_plain:
  "caught_as errs rs' err = Some rs \<Longrightarrow> plain_response rs' \<Longrightarrow> plain_response rs"
  "\<lbrakk>or_else f g err = Some rs; f err = Some rs \<Longrightarrow> plain_response rs; g err = Some rs \<Longrightarrow> plain_response rs\<rbrakk> \<Longrightarrow> plain_response rs"
  by (auto simp: caught_as_def or_else_def split: if_splits option.splits)

lemma login_cookies:
  assumes "login_route L fake_hash sec on E raw r b d0 d = (Inr rs, d', evs)" "tables_ok d"
  shows "cookies_ok sec (LoginCall b) d' rs"
proof (cases on)
  case False
  with assms(1) show ?thesis by (auto simp: login_route_def answering_Inr intro: plain_ok)
next
  case True
  with assms(1) obtain email password where run:
    "answer (\<lambda>err. if err \<in> {InvalidCredentials, PasswordHashUnavailable, SessionUnavailable, UserPersistenceError}
        then Some (session_failure r sec err) else None) (grant_body sec raw 200)
      (build (email_address (al_text L) email) (\<lambda>e.
       build (plain_password (lib_nfc (al_text L)) password) (\<lambda>p. login L fake_hash E e p d0 d) d) d) = (Inr rs, d', evs)"
    by (auto simp: login_route_def answering_Inr)
  then show ?thesis
  proof (rule answer_Inr, goal_cases)
    case (1 g)
    then obtain e p evs' where "login L fake_hash E e p d0 d = (Inr g, d', evs')"
      using outcome_cases by (fastforce dest!: build_Inr)
    from login_opens [OF this assms(2)] show ?case by (rule grant_ok [OF 1(2)]) simp
  next
    case (2 err)
    then show ?case by (auto intro!: session_failure_ok split: if_splits)
  qed
qed

lemma refresh_cookies:
  assumes "refresh_route L sec on E raw r d0 d = (Inr rs, d', evs)" "tables_ok d"
  shows "cookies_ok sec RefreshCall d' rs"
proof (cases "on \<and> refresh_cookie r \<noteq> None")
  case False
  with assms(1) show ?thesis by (auto simp: refresh_route_def intro: plain_ok invalid_session_ok split: if_splits option.splits)
next
  case True
  with assms(1) obtain token where run:
    "answer (\<lambda>err. if err \<in> {InvalidSession, RefreshConflict, SessionUnavailable} then Some (session_failure r sec err) else None)
      (grant_body sec raw 200) (refresh L E token d0 d) = (Inr rs, d', evs)"
    by (auto simp: refresh_route_def)
  then show ?thesis
  proof (rule answer_Inr, goal_cases)
    case (1 g)
    from outcome_cases [OF 1(1,3)] obtain evs' where "refresh L E token d0 d = (Inr g, d', evs')" by blast
    from refresh_opens [OF this assms(2)] show ?case by (rule grant_ok [OF 1(2)]) simp
  next
    case (2 err)
    then show ?case by (auto intro!: session_failure_ok split: if_splits)
  qed
qed

lemma logout_cookies:
  assumes "logout_route L sec on E r d0 d = (Inr rs, d', evs)"
  shows "cookies_ok sec LogoutCall d' rs"
proof (cases on)
  case False
  with assms show ?thesis by (auto simp: logout_route_def intro: plain_ok)
next
  case True
  with assms have "answer (\<lambda>err. if err = SessionUnavailable then Some (session_failure r sec err) else None)
      (\<lambda>_. Inr (clear_cookies sec (empty_response 204)))
      (case refresh_cookie r of None \<Rightarrow> (Inr (), d, []) | Some token \<Rightarrow> logout L E token d0 d) = (Inr rs, d', evs)"
    by (simp add: logout_route_def)
  then show ?thesis
    by (rule answer_Inr) (auto intro!: cleared_ok session_failure_ok split: if_splits)
qed

lemma registration_cookies:
  assumes "request_registration_route L send domains on E r b d = (Inr rs, d', evs)"
  shows "plain_response rs"
proof (cases on)
  case False
  with assms show ?thesis by (auto simp: request_registration_route_def answering_Inr)
next
  case True
  with assms obtain email where "answer
      (or_else (caught_as [EmailDomainNotAllowed] (failure registration_problems ''EMAIL_DOMAIN_NOT_ALLOWED'' r []))
        (caught_as [RegistrationUnavailable, OpaqueTokenCollision] (failure registration_problems ''SERVICE_UNAVAILABLE'' r [])))
      (\<lambda>_. Inr (json_response 202 [] AcceptedBody))
      (build (email_address (al_text L) email) (\<lambda>e. request_registration L send domains E e d) d) = (Inr rs, d', evs)"
    by (auto simp: request_registration_route_def answering_Inr)
  then show ?thesis
  proof (rule answer_Inr, goal_cases)
    case 1
    then show ?case by (auto simp: plain_response_def json_response_def)
  next
    case 2
    then show ?case by (elim caught_plain) simp_all
  qed
qed

lemma reset_cookies:
  assumes "request_reset_route L send on E r b d0 d = (Inr rs, d', evs)"
  shows "plain_response rs"
proof (cases on)
  case False
  with assms show ?thesis by (auto simp: request_reset_route_def answering_Inr)
next
  case True
  with assms obtain email where "answer
      (caught_as [PasswordLifecycleUnavailable, OpaqueTokenCollision] (failure password_problems ''SERVICE_UNAVAILABLE'' r []))
      (\<lambda>_. Inr (json_response 202 [] AcceptedBody))
      (build (email_address (al_text L) email) (\<lambda>e. request_password_reset L send E e d0 d) d) = (Inr rs, d', evs)"
    by (auto simp: request_reset_route_def answering_Inr)
  then show ?thesis
  proof (rule answer_Inr, goal_cases)
    case 1
    then show ?case by (auto simp: plain_response_def json_response_def)
  next
    case 2
    then show ?case by (rule caught_plain(1)) simp
  qed
qed

lemma completion_cookies:
  assumes "complete_registration_route L domains sec on E raw r b d0 d = (Inr rs, d', evs)" "tables_ok d"
  shows "cookies_ok sec (CompletionCall b) d' rs"
proof (cases on)
  case False
  with assms(1) show ?thesis by (auto simp: complete_registration_route_def answering_Inr intro: plain_ok)
next
  case True
  with assms(1) obtain token name password where run: "answer
      (or_else (caught_as [InvalidOpaqueToken, InvalidRegistrationToken] (failure registration_problems ''INVALID_REGISTRATION_TOKEN'' r []))
        (or_else (caught_as [EmailDomainNotAllowed] (failure registration_problems ''EMAIL_DOMAIN_NOT_ALLOWED'' r []))
         (or_else (caught_as [PasswordHashUnavailable] (failure registration_problems ''AUTH_PASSWORD_HASH_UNAVAILABLE'' r []))
          (caught_as [RegistrationUnavailable, OpaqueTokenCollision] (failure registration_problems ''SERVICE_UNAVAILABLE'' r [])))))
      (grant_body sec raw 201)
      (build (opaque_token_init token) (\<lambda>t.
          build (display_name (lib_nfc (al_text L)) name) (\<lambda>n.
          build (plain_password (lib_nfc (al_text L)) password) (\<lambda>p.
            complete_registration L domains E t n p d0 d) d) d) d) = (Inr rs, d', evs)"
    by (auto simp: complete_registration_route_def answering_Inr)
  then show ?thesis
  proof (rule answer_Inr, goal_cases)
    case (1 g)
    then obtain t n p evs' where "complete_registration L domains E t n p d0 d = (Inr g, d', evs')"
      using outcome_cases by (fastforce dest!: build_Inr)
    from registration_opens [OF this assms(2)] show ?case by (rule grant_ok [OF 1(2)]) simp
  next
    case (2 err)
    then have "plain_response rs" by (elim caught_plain) simp_all
    then show ?case by (rule plain_ok)
  qed
qed

lemma reset_completion_cookies:
  assumes "complete_reset_route L sec on E r b d0 d1 d = (Inr rs, d', evs)"
  shows "cookies_ok sec (ResetCompletionCall b) d' rs"
proof -
  obtain token new where b: "b = Inr (token, new)" using assms by (auto simp: complete_reset_route_def answering_Inr)
  show ?thesis
  proof (cases "on \<and> is_ok (plain_password (lib_nfc (al_text L)) new)")
    case False
    with assms b show ?thesis
      by (auto simp: complete_reset_route_def answering_Inr intro: plain_ok split: if_splits sum.splits)
  next
    case True
    then obtain password where "plain_password (lib_nfc (al_text L)) new = Inr password" by (auto simp: is_ok_iff)
    with assms b True have "answer
        (or_else (caught_as [InvalidOpaqueToken, InvalidPasswordResetToken] (failure password_problems ''INVALID_PASSWORD_RESET_TOKEN'' r []))
          (or_else (caught_as [PasswordHashUnavailable] (failure password_problems ''AUTH_PASSWORD_HASH_UNAVAILABLE'' r []))
           (caught_as [PasswordLifecycleUnavailable] (failure password_problems ''SERVICE_UNAVAILABLE'' r []))))
        (\<lambda>_. Inr (clear_cookies sec (empty_response 204)))
        (build (opaque_token_init token) (\<lambda>t. complete_reset L E t password d0 d1 d) d) = (Inr rs, d', evs)"
      by (simp add: complete_reset_route_def answering_def)
    then show ?thesis
    proof (rule answer_Inr, goal_cases)
      case 1
      then show ?case by (auto intro!: cleared_ok)
    next
      case (2 err)
      then have "plain_response rs" by (elim caught_plain) simp_all
      then show ?case by (rule plain_ok)
    qed
  qed
qed

lemma password_cookies:
  assumes "change_password_route L now1 sec on E raw r who b d0 d1 d = (Inr rs, d', evs)" "tables_ok d"
  shows "cookies_ok sec (PasswordCall who b) d' rs"
proof -
  obtain p cur new where b: "raises who = Inr p" "b = Inr (cur, new)"
    using assms by (auto simp: change_password_route_def answering_Inr)
  show ?thesis
  proof (cases "on \<and> refresh_cookie r \<noteq> None \<and> is_ok (plain_password (lib_nfc (al_text L)) new)")
    case False
    with assms b show ?thesis
      by (auto simp: change_password_route_def answering_def intro: plain_ok invalid_session_ok split: if_splits option.splits sum.splits)
  next
    case True
    then obtain password token where "plain_password (lib_nfc (al_text L)) new = Inr password" "refresh_cookie r = Some token"
      by (auto simp: is_ok_iff)
    with assms b True have "answer
        (or_else (caught_as [InvalidSession] (invalid_session_response r sec))
          (or_else (caught_as [InvalidCurrentPassword] (failure password_problems ''INVALID_CURRENT_PASSWORD'' r []))
           (or_else (caught_as [PasswordHashUnavailable] (failure password_problems ''AUTH_PASSWORD_HASH_UNAVAILABLE'' r []))
            (caught_as [PasswordLifecycleUnavailable, OpaqueTokenCollision] (failure password_problems ''SERVICE_UNAVAILABLE'' r [])))))
        (\<lambda>g. issue_cookies sec raw (pg_refresh g) (pg_expires g) (pg_issued g) (empty_response 204))
        (build (plain_password (lib_nfc (al_text L)) cur) (\<lambda>current. change_password L now1 E p token current password d0 d1 d) d)
          = (Inr rs, d', evs)"
      by (simp add: change_password_route_def answering_def)
    then show ?thesis
    proof (rule answer_Inr, goal_cases)
      case (1 g)
      then obtain current evs' where "change_password L now1 E p token current password d0 d1 d = (Inr g, d', evs')"
        using outcome_cases by (fastforce dest!: build_Inr)
      from change_password_opens [OF this assms(2)] show ?case
        by (rule issued_ok [OF 1(2)]) (simp_all add: empty_response_def)
    next
      case (2 err)
      show ?case
      proof (cases "err = InvalidSession")
        case True
        with 2 show ?thesis by (auto simp: or_else_def caught_as_def intro!: invalid_session_ok)
      next
        case False
        with 2 have "or_else (caught_as [InvalidCurrentPassword] (failure password_problems ''INVALID_CURRENT_PASSWORD'' r []))
           (or_else (caught_as [PasswordHashUnavailable] (failure password_problems ''AUTH_PASSWORD_HASH_UNAVAILABLE'' r []))
            (caught_as [PasswordLifecycleUnavailable, OpaqueTokenCollision] (failure password_problems ''SERVICE_UNAVAILABLE'' r []))) err = Some rs"
          by (simp add: or_else_def [of "caught_as [InvalidSession] _"] caught_as_def [of "[InvalidSession]"])
        then have "plain_response rs" by (elim caught_plain) simp_all
        then show ?thesis by (rule plain_ok)
      qed
    qed
  qed
qed

lemma serve_call_cookies:
  assumes "serve_call S now1 E raw r call d0 d1 d = (Inr rs, d', evs)" "tables_ok d"
  shows "cookies_ok (st_secure S) call d' rs"
  using assms
  by (cases call) (auto simp: serve_call_def Let_def intro: login_cookies refresh_cookies logout_cookies completion_cookies
      reset_completion_cookies password_cookies plain_ok [OF registration_cookies] plain_ok [OF reset_cookies])


section \<open>Protected responses\<close>

lemma no_store_send_simps [simp]:
  "rs_status (no_store_send rs) = rs_status rs" "rs_cookies (no_store_send rs) = rs_cookies rs"
  "filter (\<lambda>h. fst h = ''cache-control'') (rs_headers (no_store_send rs)) = no_store"
  by (simp_all add: no_store_send_def no_store_def)

lemma protected_response_no_store:
  "filter (\<lambda>h. fst h = ''cache-control'') (rs_headers (protected_response r out)) = no_store"
  by (auto simp: protected_response_def unregistered_unexpected unexpected_error_handler_def problem_response_def no_store_def
      split: sum.splits)

lemma protected_response_error: "plain_response (protected_response r (Inl e) :: 'b response)"
proof -
  obtain st where "400 \<le> st" "answered r st (handle_exception True r e :: 'b response)" using handle_exception_answered by blast
  then have "plain_response (handle_exception True r e :: 'b response)"
    by (auto simp: plain_response_def answered_def documented_problem_def)
  then show ?thesis by (simp add: protected_response_def plain_response_def)
qed

lemma protection_problem_plain: "status \<in> {403, 429} \<Longrightarrow> plain_response (no_store_send (protection_problem r code status hs))"
  by (auto simp: plain_response_def protection_problem_def problem_response_def problem_details_def)

lemma protected_response_Inr: "protected_response r (Inr rs) = no_store_send rs"
  by (simp add: protected_response_def)

lemma protected_refused:
  assumes "check_request U P clock now (auth_request_of action client r) ws = (Inl e, ws', evs)"
    "protected_route U P action clock now client r k d ws = (out, d', ws'', evs')"
  shows "d' = d \<and> plain_response (protected_response r out)"
proof (cases e)
  case (AccountError a)
  show ?thesis
    using assms unfolding protected_route_def AccountError
    by (cases a) (auto simp: protected_response_Inr intro!: protected_response_error protection_problem_plain)
qed (use assms in \<open>auto simp: protected_route_def intro!: protected_response_error\<close>)


text \<open>A login from an allowed origin: the site of the samples.\<close>

definition sample_site :: site where
  "sample_site = \<lparr>st_lib = sample_lib, st_fake_hash = [7], st_send = (\<lambda>_. Inr SENT), st_domains = [], st_secure = True,
     st_available = (\<lambda>_. True)\<rparr>"

definition sample_parser :: url_lib where
  "sample_parser = \<lparr>ul_split = (\<lambda>v. Some \<lparr>up_scheme = lit ''https'', up_netloc = lit ''a'', up_path = [], up_hostname = Some (lit ''a''), up_port = Some None\<rparr>),
     ul_ip = (\<lambda>h. None)\<rparr>"

definition sample_sign_in :: request where
  "sample_sign_in = \<lparr>hr_method = ''POST'', hr_path = lit ''/api/v1/auth/login'', hr_headers = [(''origin'', lit ''https://a'')]\<rparr>"

lemma sample_sign_in_passes:
  "check_request sample_parser \<lparr>ap_origins = [lit ''https://a:443''], ap_capacity = 10, ap_key = (\<lambda>_. [])\<rparr> (Aware 0) 0
     (auth_request_of LOGIN None sample_sign_in) [] = (Inr (), [], protection_event CLIENT_IP_UNRESOLVED (Aware 0) None)"
proof -
  have "canonical_origin sample_parser (lit ''https://a'') = Inr (lit ''https://a:443'')" by code_simp
  then show ?thesis
    by (simp add: check_request_def auth_request_of_def policy_for_def check_origin_def sample_sign_in_def getlist_def requireE_def)
qed

lemma sample_login_answer:
  "\<exists>rs. serve_call sample_site 0 (Account_Samples.sample_env 200 21) (replicate 32 0) sample_sign_in
       (LoginCall (Inr (sample_email, sample_password))) admin_state admin_state admin_state = (Inr rs, signed_in_state, [])
     \<and> rs_status rs = 200"
proof -
  have texts: "al_text sample_lib = sample_text" by (simp add: sample_lib_def sample_lib_with_def)
  have "email_address sample_text sample_email = Inr sample_email"
    by (simp add: email_address_def normalize_email_def sample_text_def strip_ws_def is_space_def lower_ascii_def Let_def)
  moreover have "plain_password (lib_nfc sample_text) sample_password = Inr sample_password"
    by (simp add: plain_password_def sample_text_def)
  ultimately show ?thesis
    by (simp add: generate_sample_token texts serve_call_def sample_site_def login_route_def answering_def build_def answer_def sample_login grant_body_def
        issue_cookies_def Let_def set_header_def json_response_def)
qed


end
