(* ===== verification/Keyset.thy ===== *)
theory Keyset
  imports Errors "HOL-Library.Multiset" "HOL-Library.Product_Lexorder" "HOL-Library.List_Lexorder"
begin

text \<open>
  Keyset pages: what a bounded query over sorted rows returns after a cursor, and that following the
  cursors visits every row once. A repository that answers with such pages interprets the locale.
\<close>

section \<open>Bounded merges\<close>

lemma take_insort: "take n (insort_key f x xs) = take n (insort_key f x (take n xs))"
proof (induction xs arbitrary: n)
  case (Cons y ys)
  then show ?case by (cases n) (simp_all add: take_Cons' min_def)
qed simp

lemma take_foldr_insort: "take n (foldr (insort_key f) xs zs) = take n (foldr (insort_key f) xs (take n zs))"
proof (induction xs)
  case (Cons x xs)
  have "take n (foldr (insort_key f) (x # xs) zs) = take n (insort_key f x (take n (foldr (insort_key f) xs (take n zs))))"
    using Cons by (simp add: take_insort [of n f x "foldr (insort_key f) xs zs"])
  then show ?case by (simp add: take_insort [symmetric])
qed simp

lemma sort_key_append: "sort_key f (xs @ ys) = foldr (insort_key f) xs (sort_key f ys)"
  by (simp add: sort_key_def)

lemma sort_take_sort: "sort_key f (take n (sort_key f xs)) = take n (sort_key f xs)"
proof -
  have "sorted (map f (take n (sort_key f xs)))" by (simp add: take_map [symmetric] sorted_wrt_take)
  then show ?thesis by (rule sort_key_id_if_sorted)
qed

lemma take_sort_right: "take n (sort_key f (xs @ take n (sort_key f ys))) = take n (sort_key f (xs @ ys))"
  by (simp only: sort_key_append sort_take_sort take_foldr_insort [of n f xs "sort_key f ys"])

lemma sort_key_swap:
  assumes "inj_on f (set xs \<union> set ys)"
  shows "sort_key f (xs @ ys) = sort_key f (ys @ xs)"
  by (rule sort_key_inj_key_eq) (use assms in auto)

lemma take_sort_left:
  assumes "inj_on f (set xs \<union> set ys)"
  shows "take n (sort_key f (take n (sort_key f xs) @ ys)) = take n (sort_key f (xs @ ys))"
proof -
  have "inj_on f (set (take n (sort_key f xs)) \<union> set ys)" by (rule inj_on_subset [OF assms]) (auto dest: in_set_takeD)
  then have "take n (sort_key f (take n (sort_key f xs) @ ys)) = take n (sort_key f (ys @ take n (sort_key f xs)))"
    by (simp add: sort_key_swap)
  also have "\<dots> = take n (sort_key f (xs @ ys))" using take_sort_right sort_key_swap [OF assms] by metis
  finally show ?thesis .
qed

text \<open>Truncating every branch of a union to the size of the page loses nothing.\<close>

lemma take_sort_concat:
  assumes "inj_on f (set (concat xss))"
  shows "take n (sort_key f (concat (map (\<lambda>xs. take n (sort_key f xs)) xss))) = take n (sort_key f (concat xss))"
  using assms
proof (induction xss)
  case (Cons xs xss)
  let ?C = "concat (map (\<lambda>xs. take n (sort_key f xs)) xss)"
  have sub: "set ?C \<subseteq> set (concat xss)" by (fastforce dest: in_set_takeD)
  have inj: "inj_on f (set xs \<union> set ?C)" by (rule inj_on_subset [OF Cons.prems]) (use sub in auto)
  have IH: "take n (sort_key f ?C) = take n (sort_key f (concat xss))"
    by (rule Cons.IH) (rule inj_on_subset [OF Cons.prems], auto)
  have "take n (sort_key f (take n (sort_key f xs) @ ?C)) = take n (sort_key f (xs @ take n (sort_key f ?C)))"
    by (simp only: take_sort_left [OF inj] take_sort_right)
  also have "\<dots> = take n (sort_key f (xs @ concat xss))" unfolding IH by (rule take_sort_right)
  finally show ?case by simp
qed simp


section \<open>Pages\<close>

definition keyset_rest :: "('r \<Rightarrow> 'k :: linorder) \<Rightarrow> ('c \<Rightarrow> 'k) \<Rightarrow> 'r list \<Rightarrow> 'c option \<Rightarrow> 'r list" where
  "keyset_rest key cursor_key rows a =
     filter (\<lambda>r. case a of None \<Rightarrow> True | Some c \<Rightarrow> cursor_key c < key r) (sort_key key rows)"

definition keyset_page :: "('r \<Rightarrow> 'k :: linorder) \<Rightarrow> ('c \<Rightarrow> 'k) \<Rightarrow> 'r list \<Rightarrow> 'c option \<Rightarrow> nat \<Rightarrow> 'r list \<times> bool" where
  "keyset_page key cursor_key rows a k =
     (take k (keyset_rest key cursor_key rows a), k < length (keyset_rest key cursor_key rows a))"

text \<open>A client that asks for the page after the last row of each page, until there is no more.\<close>

fun follow_keyset :: "('c option \<Rightarrow> ('r list \<times> bool) res) \<Rightarrow> ('r \<Rightarrow> 'c) \<Rightarrow> nat \<Rightarrow> 'c option \<Rightarrow> 'r list option" where
  "follow_keyset fetch cursor 0 a = None"
| "follow_keyset fetch cursor (Suc n) a =
     (case fetch a of
        Inl _ \<Rightarrow> None
      | Inr (items, more) \<Rightarrow>
          if more \<and> items \<noteq> [] then map_option ((@) items) (follow_keyset fetch cursor n (Some (cursor (last items))))
          else Some items)"

locale keyset =
  fixes key :: "'r \<Rightarrow> 'k :: linorder" and cursor :: "'r \<Rightarrow> 'c" and cursor_key :: "'c \<Rightarrow> 'k"
    and good :: "'d \<Rightarrow> bool" and rows :: "'d \<Rightarrow> 'r list"
    and fetch :: "'d \<Rightarrow> nat \<Rightarrow> 'c option \<Rightarrow> ('r list \<times> bool) res"
  assumes keys: "good d \<Longrightarrow> distinct (map key (rows d))"
    and cursor_key: "cursor_key (cursor r) = key r"
    and fetch: "\<lbrakk>good d; 1 \<le> k; k \<le> 100; a \<in> insert None (Some ` cursor ` set (rows d))\<rbrakk>
      \<Longrightarrow> fetch d k a = Inr (keyset_page key cursor_key (rows d) a k)"
begin

lemma strictly_sorted: "good d \<Longrightarrow> sorted_wrt (\<lambda>r s. key r < key s) (sort_key key (rows d))"
proof -
  assume "good d"
  then have "distinct (map key (sort_key key (rows d)))" using keys by (simp add: distinct_map)
  then have "sorted_wrt (<) (map key (sort_key key (rows d)))" using sorted_sort_key strict_sorted_iff by blast
  then show ?thesis by (simp add: sorted_wrt_map)
qed

lemma rest_after_last:
  assumes "good d" "sort_key key (rows d) = pre @ ys" "0 < k" "k < length ys"
  shows "keyset_rest key cursor_key (rows d) (Some (cursor (last (take k ys)))) = drop k ys"
proof -
  let ?x = "last (take k ys)"
  have ne: "take k ys \<noteq> []" using assms(3,4) by auto
  have split: "sort_key key (rows d) = (pre @ butlast (take k ys)) @ ?x # drop k ys"
    using append_butlast_last_id [OF ne] append_take_drop_id [of k ys] assms(2) by (metis append.assoc append_Cons append_Nil)
  have "sorted_wrt (\<lambda>r s. key r < key s) ((pre @ butlast (take k ys)) @ ?x # drop k ys)"
    using strictly_sorted [OF assms(1)] split by simp
  then have "\<And>r. r \<in> set (pre @ butlast (take k ys)) \<Longrightarrow> \<not> key ?x < key r" "\<And>r. r \<in> set (drop k ys) \<Longrightarrow> key ?x < key r"
    by (fastforce simp: sorted_wrt_append)+
  then show ?thesis by (simp add: keyset_rest_def cursor_key split)
qed

lemma pages_from:
  assumes "good d" "1 \<le> k" "k \<le> 100" "a \<in> insert None (Some ` cursor ` set (rows d))"
    "sort_key key (rows d) = pre @ keyset_rest key cursor_key (rows d) a" "length (keyset_rest key cursor_key (rows d) a) < n"
  shows "follow_keyset (fetch d k) cursor n a = Some (keyset_rest key cursor_key (rows d) a)"
  using assms(4-)
proof (induction n arbitrary: a pre)
  case (Suc n)
  let ?ys = "keyset_rest key cursor_key (rows d) a"
  note page = fetch [OF assms(1-3) Suc.prems(1)]
  show ?case
  proof (cases "k < length ?ys")
    case True
    have ne: "take k ?ys \<noteq> []" using True assms(2) by auto
    let ?c = "cursor (last (take k ?ys))"
    have "last (take k ?ys) \<in> set ?ys" using ne last_in_set in_set_takeD by metis
    then have "last (take k ?ys) \<in> set (rows d)" by (simp add: keyset_rest_def)
    then have c: "Some ?c \<in> insert None (Some ` cursor ` set (rows d))" by blast
    have rest: "keyset_rest key cursor_key (rows d) (Some ?c) = drop k ?ys"
      by (rule rest_after_last [OF assms(1) Suc.prems(2)]) (use assms(2) True in auto)
    have "follow_keyset (fetch d k) cursor n (Some ?c) = Some (drop k ?ys)"
      using Suc.IH [OF c, of "pre @ take k ?ys"] Suc.prems(2,3) True assms(2) unfolding rest by simp
    then show ?thesis using True ne by (simp add: page keyset_page_def)
  qed (simp add: page keyset_page_def)
qed simp

lemma pages_complete:
  assumes "good d" "1 \<le> k" "k \<le> 100" "length (rows d) < n"
  shows "follow_keyset (fetch d k) cursor n None = Some (sort_key key (rows d))"
  using pages_from [OF assms(1-3), of None "[]" n] assms(4) by (simp add: keyset_rest_def)

end

end
