(* ===== verification/User_Queries.thy ===== *)
theory User_Queries
  imports Accounts Keyset
begin

text \<open>
  \<open>application/admin_users.py\<close> and \<open>infrastructure/repositories/admin_users.py\<close>: the administrator's pages of
  users. An \<open>ADMIN\<close> sees users of role \<open>USER\<close> only; the restriction is part of every statement.
\<close>

section \<open>Repository\<close>

record user_summary =
  us_id :: uuid
  us_email :: pystr
  us_name :: pystr
  us_role :: user_role
  us_status :: user_status
  us_created :: int
  us_updated :: int

record user_filters =
  uf_email :: "pystr option"
  uf_role :: "user_role option"
  uf_status :: "user_status option"

text \<open>A cursor: creation time and identifier.\<close>

type_synonym user_cursor = "int \<times> uuid"

definition user_summary_of :: "user_row \<Rightarrow> user_summary" where
  "user_summary_of r = \<lparr>us_id = a_id r, us_email = a_email r, us_name = a_name r, us_role = a_role r, us_status = a_status r,
     us_created = a_created r, us_updated = a_updated r\<rparr>"

definition visible_users :: "user_role option \<Rightarrow> account_db \<Rightarrow> user_row list" where
  "visible_users visible d = filter (\<lambda>r. case visible of None \<Rightarrow> True | Some role \<Rightarrow> a_role r = role) (ac_users d)"

definition repo_list_users ::
    "user_role option \<Rightarrow> user_filters \<Rightarrow> user_cursor option \<Rightarrow> nat \<Rightarrow> account_db \<Rightarrow> user_summary list \<times> bool" where
  "repo_list_users visible filters after limit d =
     (let selected = filter (\<lambda>r. (case uf_email filters of None \<Rightarrow> True | Some e \<Rightarrow> a_email r = e)
            \<and> (case uf_role filters of None \<Rightarrow> True | Some x \<Rightarrow> a_role r = x)
            \<and> (case uf_status filters of None \<Rightarrow> True | Some x \<Rightarrow> a_status r = x)
            \<and> (case after of None \<Rightarrow> True | Some c \<Rightarrow> (a_created r, a_id r) < c)) (visible_users visible d);
          rows = take (limit + 1) (rev (sort_key (\<lambda>r. (a_created r, a_id r)) selected)) in
      (map user_summary_of (take limit rows), length rows > limit))"

definition repo_get_user :: "uuid \<Rightarrow> user_role option \<Rightarrow> account_db \<Rightarrow> user_summary option" where
  "repo_get_user user visible d = map_option user_summary_of (find (\<lambda>r. a_id r = user) (visible_users visible d))"


section \<open>Queries\<close>

definition visible_role :: "human_principal \<Rightarrow> user_role option res" where
  "visible_role p = bindE (authorize p READ_USERS) (\<lambda>_. Inr (if principal_role p = ADMIN then Some USER else None))"

definition list_users ::
    "human_principal \<Rightarrow> user_filters \<Rightarrow> user_cursor option \<Rightarrow> pyobj \<Rightarrow> account_db \<Rightarrow> (user_summary list \<times> bool) res" where
  "list_users p filters after limit d =
     bindE (visible_role p) (\<lambda>visible.
     case limit of
       PyInt n \<Rightarrow>
         if 1 \<le> n \<and> n \<le> 100 then Inr (repo_list_users visible filters after (nat n) d)
         else Inl (AccountError (UserQueryValidationError ''query.limit''))
     | _ \<Rightarrow> Inl (AccountError (UserQueryValidationError ''query.limit'')))"

definition get_user :: "human_principal \<Rightarrow> uuid \<Rightarrow> account_db \<Rightarrow> user_summary res" where
  "get_user p user d =
     bindE (visible_role p) (\<lambda>visible.
     case repo_get_user user visible d of None \<Rightarrow> Inl (AccountError UserNotFound) | Some u \<Rightarrow> Inr u)"


section \<open>Pages\<close>

text \<open>Newest first: the order of the keys.\<close>

definition user_key :: "user_summary \<Rightarrow> int \<times> int" where
  "user_key u = (- us_created u, - uint (us_id u))"

definition user_cursor_of :: "user_summary \<Rightarrow> user_cursor" where
  "user_cursor_of u = (us_created u, us_id u)"

definition cursor_key_of :: "user_cursor \<Rightarrow> int \<times> int" where
  "cursor_key_of c = (- fst c, - uint (snd c))"

text \<open>The users a principal may see, of the requested kind.\<close>

definition may_see :: "user_role \<Rightarrow> user_role \<Rightarrow> bool" where
  "may_see viewer role \<longleftrightarrow> viewer = SUPER_ADMIN \<or> viewer = ADMIN \<and> role = USER"

definition matching_users :: "user_role \<Rightarrow> user_filters \<Rightarrow> account_db \<Rightarrow> user_summary list" where
  "matching_users viewer filters d = map user_summary_of (filter (\<lambda>r. may_see viewer (a_role r)
     \<and> (case uf_email filters of None \<Rightarrow> True | Some e \<Rightarrow> a_email r = e)
     \<and> (case uf_role filters of None \<Rightarrow> True | Some x \<Rightarrow> a_role r = x)
     \<and> (case uf_status filters of None \<Rightarrow> True | Some x \<Rightarrow> a_status r = x)) (ac_users d))"

lemma optional_match: "(case x of None \<Rightarrow> True | Some e \<Rightarrow> y = e) \<longleftrightarrow> x = None \<or> x = Some y"
  by (cases x) auto

lemma newest_first:
  fixes rows :: "user_row list"
  assumes "distinct (map a_id rows)"
  shows "map user_summary_of (rev (sort_key (\<lambda>r. (a_created r, a_id r)) rows)) = sort_key user_key (map user_summary_of rows)"
proof (rule sym, rule sort_key_inj_key_eq)
  show "mset (map user_summary_of rows) = mset (map user_summary_of (rev (sort_key (\<lambda>r. (a_created r, a_id r)) rows)))" by simp
  have inj: "x = y" if "x \<in> set rows" "y \<in> set rows" "user_key (user_summary_of x) = user_key (user_summary_of y)" for x y
    using assms that by (auto simp: distinct_map inj_on_def user_key_def user_summary_of_def simp flip: word_uint_eq_iff)
  then show "inj_on user_key (set (map user_summary_of rows))" by (auto intro!: inj_onI dest: inj)
  have "sorted_wrt (\<lambda>r s. (a_created s, a_id s) \<le> (a_created r, a_id r)) (rev (sort_key (\<lambda>r. (a_created r, a_id r)) rows))"
    unfolding sorted_wrt_rev using sorted_sort_key [of "\<lambda>r. (a_created r, a_id r)" rows] by (simp add: sorted_map)
  then show "sorted (map user_key (map user_summary_of (rev (sort_key (\<lambda>r. (a_created r, a_id r)) rows))))"
    by (simp add: sorted_map sorted_wrt_map)
      (erule sorted_wrt_mono_rel [rotated], auto simp: user_key_def user_summary_of_def word_le_def word_less_def less_eq_prod_def less_prod_def)
qed

lemma repo_list_users_page:
  assumes "distinct (map a_id (ac_users d))" "visible_role p = Inr visible"
  shows "repo_list_users visible filters after k d = keyset_page user_key cursor_key_of (matching_users (principal_role p) filters d) after k"
proof -
  let ?match = "\<lambda>r. may_see (principal_role p) (a_role r)
     \<and> (case uf_email filters of None \<Rightarrow> True | Some e \<Rightarrow> a_email r = e)
     \<and> (case uf_role filters of None \<Rightarrow> True | Some x \<Rightarrow> a_role r = x)
     \<and> (case uf_status filters of None \<Rightarrow> True | Some x \<Rightarrow> a_status r = x)"
  let ?after = "\<lambda>r. case after of None \<Rightarrow> True | Some c \<Rightarrow> (a_created r, a_id r) < c"
  let ?sel = "filter ?after (filter ?match (ac_users d))"
  have visible: "visible = (if principal_role p = ADMIN then Some USER else None)" "principal_role p \<noteq> USER"
    using assms(2) by (auto simp: visible_role_def authorize_def bindE_eq_Inr USER_ACTIONS_def split: if_splits user_role.splits)
  have sel: "filter (\<lambda>r. (case uf_email filters of None \<Rightarrow> True | Some e \<Rightarrow> a_email r = e)
      \<and> (case uf_role filters of None \<Rightarrow> True | Some x \<Rightarrow> a_role r = x) \<and> (case uf_status filters of None \<Rightarrow> True | Some x \<Rightarrow> a_status r = x)
      \<and> ?after r) (visible_users visible d) = ?sel"
    unfolding visible_users_def filter_filter visible(1)
    by (rule filter_cong) (use visible(2) in \<open>auto simp: may_see_def intro: user_role.exhaust [of "principal_role p"]\<close>)
  have rest: "map user_summary_of (rev (sort_key (\<lambda>r. (a_created r, a_id r)) ?sel))
      = keyset_rest user_key cursor_key_of (matching_users (principal_role p) filters d) after"
  proof -
    have "map user_summary_of (rev (sort_key (\<lambda>r. (a_created r, a_id r)) ?sel)) = sort_key user_key (map user_summary_of ?sel)"
      by (rule newest_first) (intro distinct_map_filter assms(1))
    also have "map user_summary_of ?sel = filter (\<lambda>u. case after of None \<Rightarrow> True | Some c \<Rightarrow> cursor_key_of c < user_key u)
        (matching_users (principal_role p) filters d)"
      unfolding matching_users_def filter_map
      by (rule arg_cong [where f = "map user_summary_of"], rule filter_cong)
        (auto simp: cursor_key_of_def user_key_def user_summary_of_def less_prod_def word_less_def word_le_def split: option.split)
    finally show ?thesis by (simp add: keyset_rest_def filter_sort)
  qed
  show ?thesis
    unfolding repo_list_users_def Let_def sel keyset_page_def rest [symmetric] by (simp add: take_map min_def)
qed

text \<open>A query is in order if its principal may read users and the users have distinct identifiers.\<close>

definition user_query_ok :: "human_principal \<times> user_filters \<times> account_db \<Rightarrow> bool" where
  "user_query_ok = (\<lambda>(p, filters, d). is_ok (authorize p READ_USERS) \<and> distinct (map a_id (ac_users d)))"

lemma distinct_user_keys: "distinct (map a_id rows) \<Longrightarrow> distinct (map user_key (map user_summary_of rows))"
  by (induction rows) (auto simp: user_key_def user_summary_of_def simp flip: word_uint_eq_iff)

interpretation user_pages: keyset user_key user_cursor_of cursor_key_of user_query_ok
  "\<lambda>(p, filters, d). matching_users (principal_role p) filters d" "\<lambda>(p, filters, d) k a. list_users p filters a (PyInt (int k)) d"
proof unfold_locales
  fix q :: "human_principal \<times> user_filters \<times> account_db"
  assume q: "user_query_ok q"
  obtain p filters d where q': "q = (p, filters, d)" by (cases q) auto
  have ids: "distinct (map a_id (ac_users d))" "is_ok (authorize p READ_USERS)" using q by (simp_all add: user_query_ok_def q')
  show "distinct (map user_key (case q of (p, filters, d) \<Rightarrow> matching_users (principal_role p) filters d))"
    unfolding q' prod.case matching_users_def by (rule distinct_user_keys) (rule distinct_map_filter [OF ids(1)])
  fix k :: nat and a :: "user_cursor option"
  assume k: "1 \<le> k" "k \<le> 100"
  obtain visible where visible: "visible_role p = Inr visible" using ids(2) by (auto simp: visible_role_def is_ok_iff)
  show "(case q of (p, filters, d) \<Rightarrow> \<lambda>k a. list_users p filters a (PyInt (int k)) d) k a
      = Inr (keyset_page user_key cursor_key_of (case q of (p, filters, d) \<Rightarrow> matching_users (principal_role p) filters d) a k)"
    using k repo_list_users_page [OF ids(1) visible] by (simp add: q' list_users_def visible)
qed (simp add: user_key_def user_cursor_of_def cursor_key_of_def)

text \<open>C32. An administrator who follows the cursors of the user list, with pages of any admissible size,
  gets every user of the requested kind the role may see, once each, newest first, and no other:
  a \<open>SUPER_ADMIN\<close> sees all users, an \<open>ADMIN\<close> only those of role \<open>USER\<close>, and the same holds for reading
  one user; a \<open>USER\<close> is refused.\<close>

theorem user_pages_complete:
  assumes "distinct (map a_id (ac_users d))" "principal_role p \<noteq> USER" "1 \<le> k" "k \<le> 100" "length (ac_users d) < n"
  shows "\<exists>us. follow_keyset (\<lambda>a. list_users p filters a (PyInt (int k)) d) user_cursor_of n None = Some us
    \<and> sorted_wrt (\<lambda>u v. us_created v < us_created u \<or> us_created v = us_created u \<and> us_id v < us_id u) us
    \<and> set us = {user_summary_of r | r. r \<in> set (ac_users d) \<and> (principal_role p = SUPER_ADMIN \<or> a_role r = USER)
        \<and> uf_email filters \<in> {None, Some (a_email r)} \<and> uf_role filters \<in> {None, Some (a_role r)}
        \<and> uf_status filters \<in> {None, Some (a_status r)}}
    \<and> (\<forall>r \<in> set (ac_users d). get_user p (a_id r) d =
        (if principal_role p = SUPER_ADMIN \<or> a_role r = USER then Inr (user_summary_of r) else Inl (AccountError UserNotFound)))"
proof -
  let ?q = "(p, filters, d)" and ?us = "sort_key user_key (matching_users (principal_role p) filters d)"
  have role: "principal_role p = ADMIN \<or> principal_role p = SUPER_ADMIN" using assms(2) by (cases "principal_role p") auto
  have auth: "authorize p READ_USERS = Inr p" using role by (auto simp: authorize_def ADMIN_ACTIONS_def)
  have ok: "user_query_ok ?q" using assms(1) auth by (simp add: user_query_ok_def)
  have len: "length (matching_users (principal_role p) filters d) < n"
    using assms(5) by (simp add: matching_users_def) (meson le_less_trans length_filter_le)
  have pages: "follow_keyset (\<lambda>a. list_users p filters a (PyInt (int k)) d) user_cursor_of n None = Some ?us"
    using user_pages.pages_complete [OF ok assms(3,4), of n] len by simp
  have order: "sorted_wrt (\<lambda>u v. us_created v < us_created u \<or> us_created v = us_created u \<and> us_id v < us_id u) ?us"
    using user_pages.strictly_sorted [OF ok]
    by (auto simp: user_key_def less_prod_def word_less_def elim!: sorted_wrt_mono_rel [rotated])
  have "set ?us = {user_summary_of r | r. r \<in> set (ac_users d) \<and> (principal_role p = SUPER_ADMIN \<or> a_role r = USER)
        \<and> uf_email filters \<in> {None, Some (a_email r)} \<and> uf_role filters \<in> {None, Some (a_role r)}
        \<and> uf_status filters \<in> {None, Some (a_status r)}}"
  proof -
    have "may_see (principal_role p) x \<longleftrightarrow> principal_role p = SUPER_ADMIN \<or> x = USER" for x using role by (auto simp: may_see_def)
    then show ?thesis by (simp add: matching_users_def optional_match) blast
  qed
  moreover have "get_user p (a_id r) d =
      (if principal_role p = SUPER_ADMIN \<or> a_role r = USER then Inr (user_summary_of r) else Inl (AccountError UserNotFound))"
    if r: "r \<in> set (ac_users d)" for r
  proof -
    have vis: "visible_role p = Inr (if principal_role p = ADMIN then Some USER else None)" using auth by (simp add: visible_role_def)
    have uniq: "s = r" if "s \<in> set (ac_users d)" "a_id s = a_id r" for s
      by (rule distinct_map_filter_unique [OF assms(1) that(1) r]) (simp add: that(2))
    show ?thesis
    proof (cases "find (\<lambda>s. a_id s = a_id r) (visible_users (if principal_role p = ADMIN then Some USER else None) d)")
      case None
      then have "r \<notin> set (visible_users (if principal_role p = ADMIN then Some USER else None) d)" by (auto simp: find_None_iff)
      then have "\<not> (principal_role p = SUPER_ADMIN \<or> a_role r = USER)"
        using r role by (auto simp: visible_users_def split: if_splits)
      with None vis show ?thesis by (simp add: get_user_def repo_get_user_def)
    next
      case (Some s)
      then have "s \<in> set (visible_users (if principal_role p = ADMIN then Some USER else None) d)" "a_id s = a_id r"
        by (auto simp: find_Some_iff)
      then have "s = r" "principal_role p = SUPER_ADMIN \<or> a_role r = USER"
        using uniq role by (auto simp: visible_users_def split: if_splits)
      with Some vis show ?thesis by (simp add: get_user_def repo_get_user_def)
    qed
  qed
  ultimately show ?thesis using pages order by blast
qed

definition listed_user :: "uuid \<Rightarrow> user_role \<Rightarrow> user_row" where
  "listed_user i role = \<lparr>a_id = i, a_email = [97, 64, 98], a_name = [110], a_hash = [104], a_role = role, a_status = ACTIVE,
     a_created = 100, a_updated = 100\<rparr>"

definition listed_users :: account_db where
  "listed_users = \<lparr>ac_users = [listed_user 1 ADMIN, listed_user 2 USER], ac_events = [], ac_families = [], ac_refresh = [],
     ac_registrations = [], ac_registration_tokens = [], ac_resets = [], ac_reset_tokens = []\<rparr>"

theorem user_pages_complete_witness:
  "\<exists>us. follow_keyset (\<lambda>a. list_users \<lparr>principal_user_id = 1, principal_role = ADMIN\<rparr> \<lparr>uf_email = None, uf_role = None, uf_status = None\<rparr>
       a (PyInt (int 1)) listed_users) user_cursor_of 3 None = Some us
     \<and> set us = {user_summary_of (listed_user 2 USER)}
     \<and> get_user \<lparr>principal_user_id = 1, principal_role = ADMIN\<rparr> 1 listed_users = Inl (AccountError UserNotFound)"
proof -
  let ?p = "\<lparr>principal_user_id = 1, principal_role = ADMIN\<rparr>" and ?f = "\<lparr>uf_email = None, uf_role = None, uf_status = None\<rparr>"
  have rows: "ac_users listed_users = [listed_user 1 ADMIN, listed_user 2 USER]" by (simp add: listed_users_def)
  have ids: "distinct (map a_id (ac_users listed_users))" by (simp add: rows listed_user_def)
  have set: "{user_summary_of r | r. r \<in> set (ac_users listed_users) \<and> a_role r = USER} = {user_summary_of (listed_user 2 USER)}"
    unfolding rows by (auto simp: listed_user_def)
  from user_pages_complete [OF ids, of ?p 1 3 ?f] set show ?thesis unfolding rows by (auto simp: listed_user_def)
qed

end
