(* ===== verification/Audit_Logs.thy ===== *)
theory Audit_Logs
  imports Store Keyset
begin

text \<open>
  \<open>application/audit_logs.py\<close> and \<open>infrastructure/repositories/audit_logs.py\<close>: bounded keyset reads over the nine
  log tables, one at a time or, for one change set, as a union. The identifiers of log rows are
  assigned by the tables: \<open>ids s n\<close> is that of row \<open>n\<close> of source \<open>s\<close>.
\<close>

section \<open>Rows and queries\<close>

datatype audit_source = DimensionSource slot | MasterCodeSource

definition source_kind :: "audit_source \<Rightarrow> pystr" where
  "source_kind s = (case s of DimensionSource _ \<Rightarrow> lit ''DIMENSION'' | MasterCodeSource \<Rightarrow> lit ''MASTER_CODE'')"

fun source_value :: "audit_source \<Rightarrow> pystr" where
  "source_value (DimensionSource Company) = lit ''COMPANY''"
| "source_value (DimensionSource Model) = lit ''MODEL''"
| "source_value (DimensionSource Brand) = lit ''BRAND''"
| "source_value (DimensionSource Country) = lit ''COUNTRY''"
| "source_value (DimensionSource Category) = lit ''CATEGORY''"
| "source_value (DimensionSource Year) = lit ''YEAR''"
| "source_value (DimensionSource Network) = lit ''NETWORK''"
| "source_value (DimensionSource Memory) = lit ''MEMORY''"
| "source_value MasterCodeSource = lit ''MASTER_CODE''"

definition AUDIT_SOURCES :: "audit_source list" where
  "AUDIT_SOURCES = map DimensionSource [Company, Model, Brand, Country, Category, Year, Network, Memory] @ [MasterCodeSource]"

datatype log_change =
    DimensionChange dimension_operation log_field "json option" "json option"
  | MasterCodeChange master_code_operation "mc_log_state option" mc_log_state

record log_row =
  lr_id :: uuid
  lr_source :: audit_source
  lr_change_set :: uuid
  lr_changed_at :: int
  lr_actor :: audit_actor
  lr_reason :: "pystr option"
  lr_entity :: uuid
  lr_version :: int
  lr_change :: log_change

type_synonym log_ids = "audit_source \<Rightarrow> nat \<Rightarrow> uuid"

definition dim_log_view :: "uuid \<Rightarrow> slot \<Rightarrow> dim_log \<Rightarrow> log_row" where
  "dim_log_view i s l = \<lparr>lr_id = i, lr_source = DimensionSource s, lr_change_set = dl_change_set l, lr_changed_at = dl_changed_at l,
     lr_actor = dl_actor l, lr_reason = dl_reason l, lr_entity = dl_dimension l, lr_version = dl_version l,
     lr_change = DimensionChange (dl_operation l) (dl_field l) (dl_old l) (dl_new l)\<rparr>"

definition mc_log_view :: "uuid \<Rightarrow> mc_log \<Rightarrow> log_row" where
  "mc_log_view i l = \<lparr>lr_id = i, lr_source = MasterCodeSource, lr_change_set = ml_change_set l, lr_changed_at = ml_changed_at l,
     lr_actor = ml_actor l, lr_reason = ml_reason l, lr_entity = ml_master_code l, lr_version = ml_version l,
     lr_change = MasterCodeChange (ml_operation l) (ml_old l) (ml_new l)\<rparr>"

definition source_rows :: "log_ids \<Rightarrow> db \<Rightarrow> audit_source \<Rightarrow> log_row list" where
  "source_rows ids d s =
     (case s of
        DimensionSource slot \<Rightarrow> map (\<lambda>(n, l). dim_log_view (ids s n) slot l) (enumerate 0 (dim_logs d slot))
      | MasterCodeSource \<Rightarrow> map (\<lambda>(n, l). mc_log_view (ids s n) l) (enumerate 0 (mc_logs d)))"

fun dim_operation_text :: "dimension_operation \<Rightarrow> pystr" where
  "dim_operation_text DIM_CREATE = lit ''CREATE''"
| "dim_operation_text DIM_UPDATE = lit ''UPDATE''"
| "dim_operation_text DIM_DELETE = lit ''DELETE''"
| "dim_operation_text DIM_RESTORE = lit ''RESTORE''"

fun mc_operation_text :: "master_code_operation \<Rightarrow> pystr" where
  "mc_operation_text MC_CREATE = lit ''CREATE''"
| "mc_operation_text MC_REFERENCE_UPDATE = lit ''REFERENCE_UPDATE''"
| "mc_operation_text MC_RECOMPOSE = lit ''RECOMPOSE''"
| "mc_operation_text MC_DELETE = lit ''DELETE''"
| "mc_operation_text MC_RESTORE = lit ''RESTORE''"

definition change_operation_text :: "log_change \<Rightarrow> pystr" where
  "change_operation_text c = (case c of DimensionChange p _ _ _ \<Rightarrow> dim_operation_text p | MasterCodeChange p _ _ \<Rightarrow> mc_operation_text p)"

record audit_log_filters =
  al_entity :: "uuid option"
  al_from :: "datetime option"
  al_before :: "datetime option"
  al_actor_id :: "pystr option"
  al_actor_kind :: "actor_kind option"
  al_actor_role :: "user_role option"
  al_operation :: "(dimension_operation + master_code_operation) option"
  al_field :: "log_field option"

definition no_filters :: audit_log_filters where
  "no_filters = \<lparr>al_entity = None, al_from = None, al_before = None, al_actor_id = None, al_actor_kind = None, al_actor_role = None,
     al_operation = None, al_field = None\<rparr>"

text \<open>\<open>astimezone(UTC)\<close> of an instant: an \<open>OverflowError\<close> outside of the years 1 to 9999.\<close>

definition utc_range :: "int \<Rightarrow> bool" where
  "utc_range t \<longleftrightarrow> - 62135596800000000 \<le> t \<and> t < 253402300800000000"

definition check_instant :: "string \<Rightarrow> datetime option \<Rightarrow> unit res" where
  "check_instant field t =
     (case t of
        None \<Rightarrow> Inr ()
      | Some v \<Rightarrow>
          if \<not> is_aware v then Inl (DimensionValidationError field TimezoneRequired)
          else if \<not> utc_range (instant v) then Inl (DimensionValidationError field UtcRange)
          else Inr ())"

definition audit_log_filters_init :: "audit_log_filters \<Rightarrow> audit_log_filters res" where
  "audit_log_filters_init f =
     (if (case al_actor_id f of None \<Rightarrow> False | Some a \<Rightarrow> 0 \<in> set a) then Inl (DimensionValidationError ''query.actor_id'' NulCharacter)
      else
        bindE (check_instant ''query.changed_from'' (al_from f)) (\<lambda>_.
        bindE (check_instant ''query.changed_before'' (al_before f)) (\<lambda>_.
        if (case (al_from f, al_before f) of (Some a, Some b) \<Rightarrow> instant a \<ge> instant b | _ \<Rightarrow> False)
        then Inl (DimensionValidationError ''query.changed_before'' RangeOrder)
        else Inr f)))"

record audit_log_query =
  aq_source :: "audit_source option"
  aq_change_set :: "uuid option"
  aq_filters :: audit_log_filters

definition audit_log_query_init :: "audit_log_query \<Rightarrow> audit_log_query res" where
  "audit_log_query_init q =
     (if aq_source q = None \<and> (aq_change_set q = None \<or> aq_filters q \<noteq> no_filters) then Inl ValueError else Inr q)"

record audit_log_cursor =
  cu_changed_at :: int
  cu_source :: audit_source
  cu_id :: uuid


section \<open>Statements\<close>

definition matches_filters :: "audit_log_query \<Rightarrow> log_row \<Rightarrow> bool" where
  "matches_filters q r \<longleftrightarrow>
     (let f = aq_filters q in
      (case aq_change_set q of None \<Rightarrow> True | Some c \<Rightarrow> lr_change_set r = c)
      \<and> (case al_entity f of None \<Rightarrow> True | Some e \<Rightarrow> lr_entity r = e)
      \<and> (case al_from f of None \<Rightarrow> True | Some t \<Rightarrow> instant t \<le> lr_changed_at r)
      \<and> (case al_before f of None \<Rightarrow> True | Some t \<Rightarrow> lr_changed_at r < instant t)
      \<and> (case al_actor_id f of None \<Rightarrow> True | Some a \<Rightarrow> actor_id (lr_actor r) = a)
      \<and> (case al_actor_kind f of None \<Rightarrow> True | Some k \<Rightarrow> actor_kind (lr_actor r) = k)
      \<and> (case al_actor_role f of None \<Rightarrow> True | Some x \<Rightarrow> actor_role (lr_actor r) = Some x)
      \<and> (case al_operation f of None \<Rightarrow> True
         | Some p \<Rightarrow> change_operation_text (lr_change r) = (case p of Inl x \<Rightarrow> dim_operation_text x | Inr x \<Rightarrow> mc_operation_text x))
      \<and> (case al_field f of None \<Rightarrow> True
         | Some x \<Rightarrow> (case lr_change r of DimensionChange _ y _ _ \<Rightarrow> y = x | MasterCodeChange _ _ _ \<Rightarrow> False)))"

definition source_key :: "audit_source \<Rightarrow> pystr \<times> pystr" where
  "source_key s = (source_kind s, source_value s)"

definition after_cursor_in :: "audit_source \<Rightarrow> audit_log_cursor option \<Rightarrow> log_row \<Rightarrow> bool" where
  "after_cursor_in s after r =
     (case after of
        None \<Rightarrow> True
      | Some c \<Rightarrow>
          if source_key s = source_key (cu_source c) then (lr_changed_at r, lr_id r) < (cu_changed_at c, cu_id c)
          else if source_key s > source_key (cu_source c) then lr_changed_at r \<le> cu_changed_at c
          else lr_changed_at r < cu_changed_at c)"

text \<open>The MasterCode log has no field column.\<close>

definition source_statement ::
    "log_ids \<Rightarrow> db \<Rightarrow> audit_log_query \<Rightarrow> audit_log_cursor option \<Rightarrow> nat \<Rightarrow> audit_source \<Rightarrow> log_row list res" where
  "source_statement ids d q after limit s =
     (if s = MasterCodeSource \<and> al_field (aq_filters q) \<noteq> None then Inl AttributeError
      else Inr (take (limit + 1) (rev (sort_key (\<lambda>r. (lr_changed_at r, lr_id r))
             (filter (\<lambda>r. matches_filters q r \<and> after_cursor_in s after r) (source_rows ids d s))))))"

text \<open>The order of the union: newest first, then by kind and type, then by descending identifier.\<close>

definition log_order_key :: "log_row \<Rightarrow> int \<times> (pystr \<times> pystr) \<times> int" where
  "log_order_key r = (- lr_changed_at r, source_key (lr_source r), - uint (lr_id r))"

definition audit_log_statement ::
    "log_ids \<Rightarrow> db \<Rightarrow> audit_log_query \<Rightarrow> audit_log_cursor option \<Rightarrow> nat \<Rightarrow> log_row list res" where
  "audit_log_statement ids d q after limit =
     (case aq_source q of
        Some s \<Rightarrow> source_statement ids d q after limit s
      | None \<Rightarrow>
          bindE (mapE (source_statement ids d q after limit) AUDIT_SOURCES) (\<lambda>branches.
            Inr (take (limit + 1) (sort_key log_order_key (concat branches)))))"


section \<open>Pages of entries\<close>

datatype log_value = LogText pystr | LogInt int | LogBool bool | LogMemory int memory_unit int

definition log_value_of :: "json option \<Rightarrow> log_value option res" where
  "log_value_of v =
     (case v of
        None \<Rightarrow> Inr None
      | Some (JText s) \<Rightarrow> Inr (Some (LogText s))
      | Some (JInt n) \<Rightarrow> Inr (Some (LogInt n))
      | Some (JBool b) \<Rightarrow> Inr (Some (LogBool b))
      | Some (JMemory a u c) \<Rightarrow> (case unit_of_text u of None \<Rightarrow> Inl ValueError | Some m \<Rightarrow> Inr (Some (LogMemory a m c))))"

datatype entry_change =
    DimensionEntry dimension_operation log_field "log_value option" "log_value option"
  | MasterCodeEntry master_code_operation "mc_log_state option" mc_log_state

definition log_entry :: "log_row \<Rightarrow> (log_row \<times> entry_change) res" where
  "log_entry r =
     (case lr_change r of
        MasterCodeChange p old new \<Rightarrow> Inr (r, MasterCodeEntry p old new)
      | DimensionChange p f old new \<Rightarrow>
          bindE (log_value_of old) (\<lambda>x. bindE (log_value_of new) (\<lambda>y. Inr (r, DimensionEntry p f x y))))"

definition repo_list_logs ::
    "log_ids \<Rightarrow> audit_log_query \<Rightarrow> audit_log_cursor option \<Rightarrow> nat \<Rightarrow> db \<Rightarrow> ((log_row \<times> entry_change) list \<times> bool) res" where
  "repo_list_logs ids q after limit d =
     bindE (audit_log_statement ids d q after limit) (\<lambda>rows.
     bindE (mapE log_entry (take limit rows)) (\<lambda>entries. Inr (entries, length rows > limit)))"

definition list_audit_logs ::
    "log_ids \<Rightarrow> human_principal \<Rightarrow> audit_log_query \<Rightarrow> audit_log_cursor option \<Rightarrow> pyobj \<Rightarrow> db \<Rightarrow> ((log_row \<times> entry_change) list \<times> bool) res" where
  "list_audit_logs ids p q after limit d =
     bindE (authorize p READ_AUDIT_LOG) (\<lambda>_.
     case limit of
       PyInt n \<Rightarrow>
         if \<not> (1 \<le> n \<and> n \<le> 100) then Inl (DimensionValidationError ''query.limit'' PageSize)
         else if (case (after, aq_source q) of (Some c, Some s) \<Rightarrow> cu_source c \<noteq> s | _ \<Rightarrow> False)
         then Inl (DimensionValidationError ''query.cursor'' CursorMismatch)
         else repo_list_logs ids q after (nat n) d
     | _ \<Rightarrow> Inl (DimensionValidationError ''query.limit'' PageSize))"


section \<open>The union as one sorted log\<close>

definition query_sources :: "audit_log_query \<Rightarrow> audit_source list" where
  "query_sources q = (case aq_source q of Some s \<Rightarrow> [s] | None \<Rightarrow> AUDIT_SOURCES)"

definition matching_logs :: "log_ids \<Rightarrow> audit_log_query \<Rightarrow> db \<Rightarrow> log_row list" where
  "matching_logs ids q d = filter (matches_filters q) (concat (map (source_rows ids d) (query_sources q)))"

definition log_cursor :: "log_row \<Rightarrow> audit_log_cursor" where
  "log_cursor r = \<lparr>cu_changed_at = lr_changed_at r, cu_source = lr_source r, cu_id = lr_id r\<rparr>"

definition log_cursor_key :: "audit_log_cursor \<Rightarrow> int \<times> (pystr \<times> pystr) \<times> int" where
  "log_cursor_key c = (- cu_changed_at c, source_key (cu_source c), - uint (cu_id c))"

lemma source_key_inject: "source_key s = source_key t \<longleftrightarrow> s = t"
proof -
  have "inj_on source_key (set AUDIT_SOURCES)"
    by (simp add: AUDIT_SOURCES_def source_key_def source_kind_def lit_def)
  moreover have "x \<in> set AUDIT_SOURCES" for x
  proof (cases x)
    case (DimensionSource slot)
    then show ?thesis by (cases slot) (simp_all add: AUDIT_SOURCES_def)
  qed (simp add: AUDIT_SOURCES_def)
  ultimately show ?thesis by (meson inj_onD)
qed

lemma lr_source_rows: "r \<in> set (source_rows ids d s) \<Longrightarrow> lr_source r = s"
  by (cases s) (auto simp: source_rows_def dim_log_view_def mc_log_view_def)

lemma map_enumerate_fst: "map (\<lambda>x. g (fst x)) (enumerate n xs) = map g [n..<n + length xs]"
proof -
  have "map (\<lambda>x. g (fst x)) (enumerate n xs) = map g (map fst (enumerate n xs))" by (simp only: map_map comp_def)
  also have "\<dots> = map g [n..<n + length xs]" by (simp only: map_fst_enumerate)
  finally show ?thesis .
qed

lemma distinct_log_ids:
  assumes "inj_on (ids s) {..<length (source_rows ids d s)}"
  shows "distinct (map lr_id (source_rows ids d s))"
proof -
  have "map lr_id (source_rows ids d s) = map (ids s) [0..<length (source_rows ids d s)]"
    by (cases s) (simp_all add: source_rows_def dim_log_view_def mc_log_view_def comp_def case_prod_beta map_enumerate_fst)
  then show ?thesis using assms by (simp add: distinct_map atLeast0LessThan)
qed

lemma newest_log_first:
  assumes "distinct (map lr_id rows)" "\<forall>r \<in> set rows. lr_source r = s"
  shows "rev (sort_key (\<lambda>r. (lr_changed_at r, lr_id r)) rows) = sort_key log_order_key rows"
proof (rule sym, rule sort_key_inj_key_eq)
  show "inj_on log_order_key (set rows)"
    using assms(1) by (auto simp: inj_on_def distinct_map log_order_key_def simp flip: word_uint_eq_iff)
  have "sorted_wrt (\<lambda>r t. (lr_changed_at t, lr_id t) \<le> (lr_changed_at r, lr_id r)) (rev (sort_key (\<lambda>r. (lr_changed_at r, lr_id r)) rows))"
    unfolding sorted_wrt_rev using sorted_sort_key [of "\<lambda>r. (lr_changed_at r, lr_id r)" rows] by (simp add: sorted_map)
  then show "sorted (map log_order_key (rev (sort_key (\<lambda>r. (lr_changed_at r, lr_id r)) rows)))"
    unfolding sorted_map
    by (rule sorted_wrt_mono_rel [rotated])
      (auto simp: log_order_key_def assms(2) less_eq_prod_def less_prod_def word_le_def word_less_def)
qed simp

lemma after_cursor_key:
  "lr_source r = s \<Longrightarrow> after_cursor_in s after r \<longleftrightarrow> (case after of None \<Rightarrow> True | Some c \<Rightarrow> log_cursor_key c < log_order_key r)"
proof (cases after)
  case (Some c)
  assume "lr_source r = s"
  then show ?thesis
    by (cases "source_key s" "source_key (cu_source c)" rule: linorder_cases)
      (auto simp: Some after_cursor_in_def log_cursor_key_def log_order_key_def word_less_def)
qed (simp add: after_cursor_in_def)


lemma log_keys_distinct:
  assumes "\<And>s. inj_on (ids s) {..<length (source_rows ids d s)}" "distinct ss"
  shows "distinct (map log_order_key (concat (map (source_rows ids d) ss)))"
  using assms(2)
proof (induction ss)
  case (Cons s ss)
  have "distinct (map log_order_key (source_rows ids d s))"
    using distinct_log_ids [where ids = ids and s = s and d = d, OF assms(1)] by (auto simp: distinct_map inj_on_def log_order_key_def simp flip: word_uint_eq_iff)
  moreover have "log_order_key r \<noteq> log_order_key t" if "r \<in> set (source_rows ids d s)" "t \<in> set (concat (map (source_rows ids d) ss))" for r t
  proof -
    have "lr_source r = s" "lr_source t \<in> set ss" using that lr_source_rows by fastforce+
    then show ?thesis using Cons.prems by (auto simp: log_order_key_def source_key_inject)
  qed
  ultimately show ?case using Cons by (auto simp del: set_concat) (metis imageE)
qed simp

definition log_query_ok :: "log_ids \<times> audit_log_query \<times> db \<Rightarrow> bool" where
  "log_query_ok = (\<lambda>(ids, q, d). (\<forall>s. inj_on (ids s) {..<length (source_rows ids d s)}) \<and> (MasterCodeSource \<in> set (query_sources q) \<longrightarrow> al_field (aq_filters q) = None))"

lemma source_statement_eq:
  assumes "inj_on (ids s) {..<length (source_rows ids d s)}" "s = MasterCodeSource \<Longrightarrow> al_field (aq_filters q) = None"
  shows "source_statement ids d q after limit s = Inr (take (limit + 1) (sort_key log_order_key
    (filter (\<lambda>r. matches_filters q r \<and> (case after of None \<Rightarrow> True | Some c \<Rightarrow> log_cursor_key c < log_order_key r)) (source_rows ids d s))))"
proof -
  have sel: "filter (\<lambda>r. matches_filters q r \<and> after_cursor_in s after r) (source_rows ids d s)
      = filter (\<lambda>r. matches_filters q r \<and> (case after of None \<Rightarrow> True | Some c \<Rightarrow> log_cursor_key c < log_order_key r)) (source_rows ids d s)"
    by (rule filter_cong) (use lr_source_rows after_cursor_key in blast)+
  have "rev (sort_key (\<lambda>r. (lr_changed_at r, lr_id r)) (filter P (source_rows ids d s))) = sort_key log_order_key (filter P (source_rows ids d s))" for P
    by (rule newest_log_first [where s = s]) (use distinct_map_filter [OF distinct_log_ids [where ids = ids and s = s, OF assms(1)]] lr_source_rows in auto)
  then show ?thesis using assms(2) by (auto simp: source_statement_def sel)
qed

lemma audit_log_statement_eq:
  assumes "log_query_ok (ids, q, d)"
  shows "audit_log_statement ids d q after limit
    = Inr (take (limit + 1) (keyset_rest log_order_key log_cursor_key (matching_logs ids q d) after))"
proof -
  let ?P = "\<lambda>r. matches_filters q r \<and> (case after of None \<Rightarrow> True | Some c \<Rightarrow> log_cursor_key c < log_order_key r)"
  have ok: "\<And>s. inj_on (ids s) {..<length (source_rows ids d s)}" "\<And>s. s \<in> set (query_sources q) \<Longrightarrow> s = MasterCodeSource \<Longrightarrow> al_field (aq_filters q) = None"
    using assms by (auto simp: log_query_ok_def)
  have rest: "keyset_rest log_order_key log_cursor_key (matching_logs ids q d) after
      = sort_key log_order_key (filter ?P (concat (map (source_rows ids d) (query_sources q))))"
    by (simp add: keyset_rest_def matching_logs_def filter_sort conj_commute)
  show ?thesis
  proof (cases "aq_source q")
    case (Some s)
    with source_statement_eq [where ids = ids and s = s, OF ok(1)] ok(2) show ?thesis
      by (simp add: audit_log_statement_def rest query_sources_def)
  next
    case None
    let ?xss = "map (\<lambda>s. filter ?P (source_rows ids d s)) AUDIT_SOURCES"
    have sources: "query_sources q = AUDIT_SOURCES" "distinct AUDIT_SOURCES" using None by (simp_all add: query_sources_def AUDIT_SOURCES_def)
    have "mapE (source_statement ids d q after limit) AUDIT_SOURCES = Inr (map (\<lambda>xs. take (limit + 1) (sort_key log_order_key xs)) ?xss)"
    proof -
      have "source_statement ids d q after limit s = Inr (take (limit + 1) (sort_key log_order_key (filter ?P (source_rows ids d s))))"
        if "s \<in> set AUDIT_SOURCES" for s
        by (rule source_statement_eq [OF ok(1)]) (rule ok(2) [unfolded sources(1), OF that])
      from mapE_Inr_all [OF this] show ?thesis by (simp add: comp_def)
    qed
    moreover have "concat ?xss = filter ?P (concat (map (source_rows ids d) AUDIT_SOURCES))"
      by (simp add: filter_concat comp_def)
    moreover have "inj_on log_order_key (set (concat ?xss))"
      unfolding calculation(2)
      by (rule inj_on_subset [of _ "set (concat (map (source_rows ids d) AUDIT_SOURCES))"])
        (use log_keys_distinct [where ids = ids and d = d, OF ok(1) sources(2)] in \<open>auto simp: distinct_map\<close>)
    ultimately show ?thesis using None take_sort_concat [of log_order_key ?xss "limit + 1"]
      by (simp add: audit_log_statement_def rest sources)
  qed
qed


section \<open>Pages\<close>

text \<open>One page of rows, before they become entries.\<close>

definition log_page :: "log_ids \<times> audit_log_query \<times> db \<Rightarrow> nat \<Rightarrow> audit_log_cursor option \<Rightarrow> (log_row list \<times> bool) res" where
  "log_page = (\<lambda>(ids, q, d) k a. bindE (audit_log_statement ids d q a k) (\<lambda>rows. Inr (take k rows, length rows > k)))"

lemma log_page_eq:
  "log_query_ok x \<Longrightarrow> log_page x k a = Inr (keyset_page log_order_key log_cursor_key (case x of (ids, q, d) \<Rightarrow> matching_logs ids q d) a k)"
  by (cases x) (simp add: log_page_def audit_log_statement_eq keyset_page_def min_def)

interpretation log_pages: keyset log_order_key log_cursor log_cursor_key log_query_ok "\<lambda>(ids, q, d). matching_logs ids q d" log_page
proof unfold_locales
  fix x :: "log_ids \<times> audit_log_query \<times> db"
  assume x: "log_query_ok x"
  obtain ids q d where x': "x = (ids, q, d)" by (cases x) auto
  have ids: "inj_on (ids s) {..<length (source_rows ids d s)}" for s using x by (simp add: x' log_query_ok_def)
  have "distinct (query_sources q)" by (auto simp: query_sources_def AUDIT_SOURCES_def split: option.split)
  from log_keys_distinct [where ids = ids and d = d, OF ids this]
  show "distinct (map log_order_key (case x of (ids, q, d) \<Rightarrow> matching_logs ids q d))"
    by (simp add: x' matching_logs_def distinct_map_filter)
qed (simp_all add: log_page_eq log_cursor_key_def log_cursor_def log_order_key_def)

text \<open>C24. The bounded statements of the audit repository, in which every one of up to nine log tables is cut to
  the size of a page before their union is sorted, return exactly the page of the reference
  definition: all matching log rows of the selected tables in one order (newest first, then by
  table, then by descending identifier), from the cursor on. A reader who follows the cursors gets each
  matching row once and then the end.\<close>

theorem audit_pages_reference:
  assumes "principal_role p \<noteq> USER" "1 \<le> k" "k \<le> 100" "\<And>s. inj_on (ids s) {..<length (source_rows ids d s)}"
    "MasterCodeSource \<in> set (query_sources q) \<Longrightarrow> al_field (aq_filters q) = None"
    "case after of None \<Rightarrow> True | Some c \<Rightarrow> cu_source c \<in> set (query_sources q)"
    "length (matching_logs ids q d) < n"
  shows "list_audit_logs ids p q after (PyInt (int k)) d =
      (case keyset_page log_order_key log_cursor_key (matching_logs ids q d) after k of
         (rows, further) \<Rightarrow> bindE (mapE log_entry rows) (\<lambda>entries. Inr (entries, further)))
    \<and> follow_keyset (log_page (ids, q, d) k) log_cursor n None = Some (sort_key log_order_key (matching_logs ids q d))
    \<and> distinct (map log_order_key (matching_logs ids q d))"
proof -
  have ok: "log_query_ok (ids, q, d)" using assms(4,5) by (simp add: log_query_ok_def)
  have auth: "authorize p READ_AUDIT_LOG = Inr p" using assms(1) by (cases "principal_role p") (auto simp: authorize_def ADMIN_ACTIONS_def)
  have "\<not> (case (after, aq_source q) of (Some c, Some s) \<Rightarrow> cu_source c \<noteq> s | _ \<Rightarrow> False)"
    using assms(6) by (auto simp: query_sources_def split: option.splits)
  then have "list_audit_logs ids p q after (PyInt (int k)) d = repo_list_logs ids q after k d"
    using assms(2,3) by (simp add: list_audit_logs_def auth)
  also have "\<dots> = (case keyset_page log_order_key log_cursor_key (matching_logs ids q d) after k of
      (rows, further) \<Rightarrow> bindE (mapE log_entry rows) (\<lambda>entries. Inr (entries, further)))"
    by (simp add: repo_list_logs_def audit_log_statement_eq [OF ok] keyset_page_def min_def)
  finally show ?thesis using log_pages.pages_complete [OF ok assms(2,3), of n] log_pages.keys [OF ok] assms(7) by simp
qed

definition logged_state :: db where
  "logged_state = \<lparr>dim_rows = (\<lambda>_. []), mc_rows = [], dim_logs = (\<lambda>s. if s = Brand then [\<lparr>dl_dimension = 1, dl_change_set = 5, dl_version = 1,
       dl_operation = DIM_CREATE, dl_field = CODE_FIELD, dl_old = None, dl_new = Some (JText [66]), dl_reason = None,
       dl_actor = \<lparr>actor_kind = HUMAN, actor_id = [49], actor_role = Some ADMIN\<rparr>, dl_changed_at = 100\<rparr>] else []),
     mc_logs = [\<lparr>ml_master_code = 2, ml_change_set = 5, ml_version = 1, ml_operation = MC_CREATE, ml_old = None,
       ml_new = \<lparr>ls_refs = (\<lambda>_. None), ls_code = [66], ls_deleted = False\<rparr>, ml_reason = None,
       ml_actor = \<lparr>actor_kind = HUMAN, actor_id = [49], actor_role = Some ADMIN\<rparr>, ml_changed_at = 100\<rparr>]\<rparr>"

theorem audit_pages_reference_witness:
  "let p = \<lparr>principal_user_id = 1, principal_role = ADMIN\<rparr>; ids = (\<lambda>s n. of_nat n);
       q = \<lparr>aq_source = None, aq_change_set = Some 5, aq_filters = no_filters\<rparr> in
     follow_keyset (log_page (ids, q, logged_state) 1) log_cursor 3 None = Some (sort_key log_order_key (matching_logs ids q logged_state))
     \<and> map lr_entity (matching_logs ids q logged_state) = [1, 2]"
proof -
  let ?p = "\<lparr>principal_user_id = 1, principal_role = ADMIN\<rparr>" and ?ids = "\<lambda>s n. of_nat n :: uuid"
  let ?q = "\<lparr>aq_source = None, aq_change_set = Some 5, aq_filters = no_filters\<rparr>"
  have rows: "map lr_entity (matching_logs ?ids ?q logged_state) = [1, 2]"
    by (simp add: matching_logs_def query_sources_def AUDIT_SOURCES_def source_rows_def logged_state_def matches_filters_def
        no_filters_def dim_log_view_def mc_log_view_def)
  have "length (matching_logs ?ids ?q logged_state) = length (map lr_entity (matching_logs ?ids ?q logged_state))" by simp
  then have len: "length (matching_logs ?ids ?q logged_state) < 3" unfolding rows by simp
  have single: "length (source_rows ?ids logged_state s) \<le> 1" for s by (cases s) (simp_all add: source_rows_def logged_state_def)
  have ids: "inj_on (?ids s) {..<length (source_rows ?ids logged_state s)}" for s
  proof (rule inj_onI)
    fix m n :: nat assume "m \<in> {..<length (source_rows ?ids logged_state s)}" "n \<in> {..<length (source_rows ?ids logged_state s)}"
    then show "m = n" using single [of s] by simp
  qed
  from audit_pages_reference [where p = ?p and k = 1 and ids = ?ids and q = ?q and after = None and d = logged_state and n = 3, OF _ _ _ ids]
  have "follow_keyset (log_page (?ids, ?q, logged_state) 1) log_cursor 3 None = Some (sort_key log_order_key (matching_logs ?ids ?q logged_state))"
    using len by (simp add: no_filters_def)
  then show ?thesis using rows by simp
qed

end
