(* ===== verification/Query_Api.thy ===== *)
theory Query_Api
  imports Dimension_Api User_Queries Audit_Logs Access_Tokens
begin

text \<open>
  The administrator lists: \<open>admin_users.py\<close> and \<open>audit_logs.py\<close>. Their cursors are bound to the
  query: they carry a digest of the path, the filters and the range of visible users, and the decoder
  encodes what it has read again and compares the texts.
\<close>

section \<open>JSON texts\<close>

text \<open>\<open>json.dumps\<close> of a text: everything outside of the printable ASCII range is escaped.\<close>

definition hex4 :: "nat \<Rightarrow> pystr" where
  "hex4 n = [92, 117] @ map hex_digit (digits_n 16 4 n)"

definition escape_char :: "nat \<Rightarrow> pystr" where
  "escape_char c =
     (if c = 34 \<or> c = 92 then [92, c]
      else if c = 8 then [92, 98] else if c = 9 then [92, 116] else if c = 10 then [92, 110]
      else if c = 12 then [92, 102] else if c = 13 then [92, 114]
      else if 32 \<le> c \<and> c < 127 then [c]
      else if c < 65536 then hex4 c
      else hex4 (55296 + (c - 65536) div 1024) @ hex4 (56320 + (c - 65536) mod 1024))"

definition dumps_string :: "pystr \<Rightarrow> pystr" where
  "dumps_string s = quoted (concat (map escape_char s))"

definition dumps_option :: "('a \<Rightarrow> pystr) \<Rightarrow> 'a option \<Rightarrow> pystr" where
  "dumps_option f v = (case v of None \<Rightarrow> lit ''null'' | Some x \<Rightarrow> dumps_string (f x))"

definition dumps_object :: "(string \<times> pystr) list \<Rightarrow> pystr" where
  "dumps_object ms = [123] @ joined 44 (map (\<lambda>(k, v). quoted (lit k) @ [58] @ v) ms) @ [125]"


section \<open>Cursors bound to a query\<close>

text \<open>The common part of the two decoders: what was read has to encode to the text it was read from.\<close>

definition decode_bound :: "(pystr \<Rightarrow> 'c option) \<Rightarrow> ('c \<Rightarrow> pystr) \<Rightarrow> pystr \<Rightarrow> 'c option" where
  "decode_bound read_cursor encode encoded =
     (case read_cursor encoded of
        None \<Rightarrow> None
      | Some c \<Rightarrow> if encode c \<noteq> encoded then None else Some c)"

locale bound_codec =
  fixes encode :: "'c \<Rightarrow> pystr" and read_cursor :: "pystr \<Rightarrow> 'c option" and good :: "'c \<Rightarrow> bool"
  assumes read_encoded: "good c \<Longrightarrow> read_cursor (encode c) = Some c"
begin

lemma decode_exact:
  assumes "good c"
  shows "decode_bound read_cursor encode x = Some c \<longleftrightarrow> x = encode c"
proof
  assume dec: "decode_bound read_cursor encode x = Some c"
  show "x = encode c"
  proof (cases "encode c = x")
    case False
    with dec show ?thesis by (auto simp: decode_bound_def split: option.splits if_splits)
  qed simp
next
  assume "x = encode c"
  with read_encoded [OF assms] show "decode_bound read_cursor encode x = Some c" by (simp only: decode_bound_def option.case simp_thms if_False)
qed

lemma encode_inject: "\<lbrakk>good c; good c'; encode c = encode c'\<rbrakk> \<Longrightarrow> c = c'"
  by (metis read_encoded option.inject)

end


section \<open>Users\<close>

definition status_value :: "user_status \<Rightarrow> pystr" where
  "status_value s = (case s of ACTIVE \<Rightarrow> lit ''ACTIVE'' | DISABLED \<Rightarrow> lit ''DISABLED'')"

definition user_fingerprint :: "user_filters \<Rightarrow> user_role option \<Rightarrow> pystr" where
  "user_fingerprint filters visible =
     hexdigest (sha256 (dumps_object
       [(''email'', dumps_option id (uf_email filters)), (''path'', dumps_string (lit ''/api/v1/admin/users'')),
        (''role'', dumps_option role_value (uf_role filters)), (''status'', dumps_option status_value (uf_status filters)),
        (''visible_role'', dumps_option role_value visible)]))"

definition encode_user_cursor :: "user_filters \<Rightarrow> user_role option \<Rightarrow> user_cursor \<Rightarrow> pystr" where
  "encode_user_cursor filters visible c =
     b64_encode (json_object
       [(lit ''v'', PInt 1), (lit ''q'', PStr (user_fingerprint filters visible)), (lit ''t'', PStr (isoformat (fst c))),
        (lit ''i'', PStr (str_uuid (snd c)))])"

definition read_user_cursor :: "decoders \<Rightarrow> user_filters \<Rightarrow> user_role option \<Rightarrow> pystr \<Rightarrow> user_cursor option" where
  "read_user_cursor D filters visible encoded =
     (case decode_object D encoded of
        Some (PObj ms) \<Rightarrow>
          if \<not> has_keys [''v'', ''q'', ''t'', ''i''] ms \<or> member ''v'' ms \<noteq> Some (PInt 1)
             \<or> member ''q'' ms \<noteq> Some (PStr (user_fingerprint filters visible)) then None
          else (case (member ''t'' ms, member ''i'' ms) of
             (Some (PStr t), Some (PStr i)) \<Rightarrow>
               (case (fromisoformat D t, uuid_text D i) of
                  (Some time, Some u) \<Rightarrow> Some (bound_time D time, u)
                | _ \<Rightarrow> None)
           | _ \<Rightarrow> None)
      | _ \<Rightarrow> None)"

definition decode_user_cursor ::
    "decoders \<Rightarrow> user_filters \<Rightarrow> user_role option \<Rightarrow> pystr option \<Rightarrow> user_cursor option res" where
  "decode_user_cursor D filters visible cursor =
     (case cursor of
        None \<Rightarrow> Inr None
      | Some encoded \<Rightarrow>
          (case decode_bound (read_user_cursor D filters visible) (encode_user_cursor filters visible) encoded of
             None \<Rightarrow> Inl (AccountError (UserQueryValidationError ''query.cursor''))
           | Some c \<Rightarrow> Inr (Some c)))"

text \<open>\<open>AdminUserResponse\<close> has the fields of the summary. The parameters: filters, cursor and limit.\<close>

definition list_users_route ::
    "decoders \<Rightarrow> human_principal res \<Rightarrow> (user_filters \<times> pystr option \<times> int) api \<Rightarrow> account_db \<Rightarrow> user_summary page_response response api" where
  "list_users_route D who params d =
     bindE (raises (require_authorized_principal who READ_USERS)) (\<lambda>p.
     bindE params (\<lambda>(filters, cursor, limit).
     bindE (raises (visible_role p)) (\<lambda>visible.
     bindE (raises (decode_user_cursor D filters visible cursor)) (\<lambda>after.
     bindE (raises (list_users p filters after (PyInt limit) d)) (\<lambda>(items, has_more).
       Inr (json_response 200 []
         \<lparr>pr_items = items,
          pr_next_cursor =
            (if has_more \<and> items \<noteq> []
             then Some (encode_user_cursor filters visible (us_created (last items), us_id (last items))) else None)\<rparr>))))))"

definition get_user_route :: "human_principal res \<Rightarrow> uuid api \<Rightarrow> account_db \<Rightarrow> user_summary response api" where
  "get_user_route who user d =
     bindE (raises (require_authorized_principal who READ_USERS)) (\<lambda>p.
     bindE user (\<lambda>i.
     bindE (raises (get_user p i d)) (\<lambda>u. Inr (json_response 200 [] u))))"


section \<open>Audit logs\<close>

definition kind_value :: "actor_kind \<Rightarrow> pystr" where
  "kind_value k = (case k of HUMAN \<Rightarrow> lit ''HUMAN'' | SYSTEM \<Rightarrow> lit ''SYSTEM'')"

definition field_value :: "log_field \<Rightarrow> pystr" where
  "field_value f = (case f of CODE_FIELD \<Rightarrow> lit ''CODE'' | VALUE_FIELD \<Rightarrow> lit ''VALUE'' | DELETED_FIELD \<Rightarrow> lit ''DELETED'')"

text \<open>\<open>asdict(query)\<close> with sorted keys.\<close>

definition log_fingerprint :: "audit_log_query \<Rightarrow> pystr \<Rightarrow> pystr" where
  "log_fingerprint q path =
     (let f = aq_filters q in
      hexdigest (sha256 (dumps_object
        [(''path'', dumps_string path),
         (''query'', dumps_object
           [(''change_set_id'', dumps_option str_uuid (aq_change_set q)),
            (''filters'', dumps_object
              [(''actor_id'', dumps_option id (al_actor_id f)),
               (''actor_kind'', dumps_option kind_value (al_actor_kind f)),
               (''actor_role'', dumps_option role_value (al_actor_role f)),
               (''changed_before'', dumps_option (isoformat \<circ> instant) (al_before f)),
               (''changed_from'', dumps_option (isoformat \<circ> instant) (al_from f)),
               (''entity_id'', dumps_option str_uuid (al_entity f)),
               (''field_name'', dumps_option field_value (al_field f)),
               (''operation'', dumps_option (case_sum dim_operation_text mc_operation_text) (al_operation f))]),
            (''source'', dumps_option source_value (aq_source q))])])))"

definition encode_log_cursor :: "audit_log_query \<Rightarrow> pystr \<Rightarrow> audit_log_cursor \<Rightarrow> pystr" where
  "encode_log_cursor q path c =
     b64_encode (json_object
       [(lit ''v'', PInt 1), (lit ''q'', PStr (log_fingerprint q path)), (lit ''t'', PStr (isoformat (cu_changed_at c))),
        (lit ''k'', PStr (source_kind (cu_source c))), (lit ''s'', PStr (source_value (cu_source c))),
        (lit ''i'', PStr (str_uuid (cu_id c)))])"

text \<open>\<open>AuditSource(text)\<close>, and \<open>_timestamp\<close>: a date with a time and an offset, in the range of UTC.\<close>

definition audit_source_of :: "pystr \<Rightarrow> audit_source option" where
  "audit_source_of v = find (\<lambda>s. source_value s = v) AUDIT_SOURCES"

definition timestamp :: "decoders \<Rightarrow> pystr \<Rightarrow> int option" where
  "timestamp D v =
     (if \<not> (84 \<in> set v \<or> 116 \<in> set v \<or> 32 \<in> set v) then None
      else case fromisoformat D v of
        Some (Aware t) \<Rightarrow> if utc_range t then Some t else None
      | _ \<Rightarrow> None)"

definition read_log_cursor :: "decoders \<Rightarrow> audit_log_query \<Rightarrow> pystr \<Rightarrow> pystr \<Rightarrow> audit_log_cursor option" where
  "read_log_cursor D q path encoded =
     (case decode_object D encoded of
        Some (PObj ms) \<Rightarrow>
          if \<not> has_keys [''v'', ''q'', ''t'', ''k'', ''s'', ''i''] ms \<or> member ''v'' ms \<noteq> Some (PInt 1)
             \<or> member ''q'' ms \<noteq> Some (PStr (log_fingerprint q path)) then None
          else (case (member ''t'' ms, member ''s'' ms, member ''i'' ms) of
             (Some (PStr t), Some (PStr s), Some (PStr i)) \<Rightarrow>
               (case audit_source_of s of
                  None \<Rightarrow> None
                | Some source \<Rightarrow>
                    if member ''k'' ms \<noteq> Some (PStr (source_kind source)) \<or> (aq_source q \<noteq> None \<and> aq_source q \<noteq> Some source) then None
                    else (case (timestamp D t, uuid_text D i) of
                       (Some time, Some u) \<Rightarrow> Some \<lparr>cu_changed_at = time, cu_source = source, cu_id = u\<rparr>
                     | _ \<Rightarrow> None))
           | _ \<Rightarrow> None)
      | _ \<Rightarrow> None)"

definition decode_log_cursor ::
    "decoders \<Rightarrow> audit_log_query \<Rightarrow> pystr \<Rightarrow> pystr option \<Rightarrow> audit_log_cursor option res" where
  "decode_log_cursor D q path cursor =
     (case cursor of
        None \<Rightarrow> Inr None
      | Some encoded \<Rightarrow>
          (case decode_bound (read_log_cursor D q path) (encode_log_cursor q path) encoded of
             None \<Rightarrow> Inl (DimensionValidationError ''query.cursor'' CursorUnbound)
           | Some c \<Rightarrow> Inr (Some c)))"

definition log_page_response ::
    "(log_row \<times> entry_change) list \<times> bool \<Rightarrow> audit_log_query \<Rightarrow> pystr \<Rightarrow> (log_row \<times> entry_change) page_response" where
  "log_page_response page q path =
     \<lparr>pr_items = fst page,
      pr_next_cursor =
        (if snd page \<and> fst page \<noteq> []
         then (let l = fst (last (fst page)) in
           Some (encode_log_cursor q path \<lparr>cu_changed_at = lr_changed_at l, cu_source = lr_source l, cu_id = lr_id l\<rparr>))
         else None)\<rparr>"

text \<open>The three routes: the logs of a Dimension type, of MasterCodes, and of one change set. \<open>filters\<close> are the
  values of the query parameters.\<close>

definition log_route ::
    "log_ids \<Rightarrow> decoders \<Rightarrow> human_principal res \<Rightarrow> request \<Rightarrow> (audit_log_query res \<times> pystr option \<times> int) api \<Rightarrow> db
       \<Rightarrow> (log_row \<times> entry_change) page_response response api" where
  "log_route ids D who r params d =
     bindE (raises (require_authorized_principal who READ_AUDIT_LOG)) (\<lambda>p.
     bindE params (\<lambda>(query, cursor, limit).
     bindE (raises query) (\<lambda>q.
     bindE (raises (decode_log_cursor D q (hr_path r) cursor)) (\<lambda>after.
     bindE (raises (list_audit_logs ids p q after (PyInt limit) d)) (\<lambda>page.
       Inr (json_response 200 [] (log_page_response page q (hr_path r))))))))"

type_synonym log_params = "uuid option \<times> audit_log_filters \<times> pystr option \<times> int"

definition list_dimension_logs ::
    "slot \<Rightarrow> log_ids \<Rightarrow> decoders \<Rightarrow> human_principal res \<Rightarrow> request \<Rightarrow> log_params api \<Rightarrow> db
       \<Rightarrow> (log_row \<times> entry_change) page_response response api" where
  "list_dimension_logs s ids D who r params d =
     log_route ids D who r (bindE params (\<lambda>(change_set, filters, cursor, limit).
       Inr (bindE (audit_log_filters_init filters) (\<lambda>f.
              audit_log_query_init \<lparr>aq_source = Some (DimensionSource s), aq_change_set = change_set, aq_filters = f\<rparr>),
            cursor, limit))) d"

definition list_master_code_logs ::
    "log_ids \<Rightarrow> decoders \<Rightarrow> human_principal res \<Rightarrow> request \<Rightarrow> log_params api \<Rightarrow> db
       \<Rightarrow> (log_row \<times> entry_change) page_response response api" where
  "list_master_code_logs ids D who r params d =
     log_route ids D who r (bindE params (\<lambda>(change_set, filters, cursor, limit).
       Inr (bindE (audit_log_filters_init (filters\<lparr>al_field := None\<rparr>)) (\<lambda>f.
              audit_log_query_init \<lparr>aq_source = Some MasterCodeSource, aq_change_set = change_set, aq_filters = f\<rparr>),
            cursor, limit))) d"

definition list_change_set_logs ::
    "log_ids \<Rightarrow> decoders \<Rightarrow> human_principal res \<Rightarrow> request \<Rightarrow> (uuid \<times> pystr option \<times> int) api \<Rightarrow> db
       \<Rightarrow> (log_row \<times> entry_change) page_response response api" where
  "list_change_set_logs ids D who r params d =
     log_route ids D who r (bindE params (\<lambda>(change_set, cursor, limit).
       Inr (audit_log_query_init \<lparr>aq_source = None, aq_change_set = Some change_set, aq_filters = no_filters\<rparr>, cursor, limit))) d"


section \<open>Bound cursors are exact\<close>

lemma fingerprint_plain: "list_all plain_char (user_fingerprint filters visible)" "list_all plain_char (log_fingerprint q path)"
  using set_hexdigest by (fastforce simp: user_fingerprint_def log_fingerprint_def Let_def list_all_iff plain_char_def)+

lemma source_plain: "list_all plain_char (source_kind s)" "list_all plain_char (source_value s)"
proof -
  show "list_all plain_char (source_kind s)" by (cases s) (simp_all add: source_kind_def lit_def plain_char_def)
  show "list_all plain_char (source_value s)"
    by (cases s rule: source_value.cases) (simp_all add: lit_def plain_char_def)
qed

lemma audit_source_of_value [simp]: "audit_source_of (source_value s) = Some s"
  by (cases s rule: source_value.cases) (simp_all add: audit_source_of_def AUDIT_SOURCES_def lit_def)

interpretation user_codec: bound_codec "encode_user_cursor filters visible" "read_user_cursor D filters visible" "\<lambda>c. datetime_range (fst c)"
proof
  fix c :: user_cursor
  assume r: "datetime_range (fst c)"
  let ?ms = "[(lit ''v'', PInt 1), (lit ''q'', PStr (user_fingerprint filters visible)), (lit ''t'', PStr (isoformat (fst c))),
    (lit ''i'', PStr (str_uuid (snd c)))]"
  have "decode_object D (encode_user_cursor filters visible c) = Some (PObj ?ms)"
    unfolding encode_user_cursor_def
    by (rule decode_object_printed)
       (use isoformat_plain [of "fst c"] uuid_plain [of "snd c"] fingerprint_plain(1) [of filters visible] in \<open>auto simp: lit_def plain_char_def\<close>)
  then show "read_user_cursor D filters visible (encode_user_cursor filters visible c) = Some c"
    by (simp add: read_user_cursor_def has_keys_def member_def lit_def fromisoformat_def isoformat_round_trip [OF r] bound_time_def
        insert_commute)
qed

definition log_cursor_ok :: "audit_log_query \<Rightarrow> audit_log_cursor \<Rightarrow> bool" where
  "log_cursor_ok q c \<longleftrightarrow> datetime_range (cu_changed_at c) \<and> (aq_source q = None \<or> aq_source q = Some (cu_source c))"

lemma isoformat_has_T: "84 \<in> set (isoformat t)"
  unfolding isoformat_def by (cases "date_of (t div 86400000000 + EPOCH_DAY)") (simp add: Let_def lit_def)

lemma range_utc: "datetime_range t \<Longrightarrow> utc_range t"
  by (simp add: datetime_range_def utc_range_def)

interpretation log_codec: bound_codec "encode_log_cursor q path" "read_log_cursor D q path" "log_cursor_ok q"
proof
  fix c
  assume ok: "log_cursor_ok q c"
  then have r: "datetime_range (cu_changed_at c)" by (simp add: log_cursor_ok_def)
  let ?ms = "[(lit ''v'', PInt 1), (lit ''q'', PStr (log_fingerprint q path)), (lit ''t'', PStr (isoformat (cu_changed_at c))),
    (lit ''k'', PStr (source_kind (cu_source c))), (lit ''s'', PStr (source_value (cu_source c))), (lit ''i'', PStr (str_uuid (cu_id c)))]"
  have "decode_object D (encode_log_cursor q path c) = Some (PObj ?ms)"
    unfolding encode_log_cursor_def
    by (rule decode_object_printed)
       (use isoformat_plain [of "cu_changed_at c"] uuid_plain [of "cu_id c"] fingerprint_plain(2) [of q path] source_plain [of "cu_source c"]
        in \<open>auto simp: lit_def plain_char_def\<close>)
  moreover have "timestamp D (isoformat (cu_changed_at c)) = Some (cu_changed_at c)"
    by (simp add: timestamp_def isoformat_has_T fromisoformat_def isoformat_round_trip [OF r] range_utc [OF r])
  ultimately show "read_log_cursor D q path (encode_log_cursor q path c) = Some c"
    using ok by (auto simp: read_log_cursor_def has_keys_def member_def lit_def log_cursor_ok_def insert_commute)
qed

text \<open>C37. The cursors of the administrator lists are exact: a text is accepted as the position \<open>c\<close> of a list if and
  only if it is the very text that the service hands out for \<open>c\<close> in this list, for the same filters and, in the
  list of users, the same range of visible users; so no other text continues a list, and different
  positions have different texts.\<close>

theorem bound_cursors_exact:
  assumes "datetime_range (fst c)" "log_cursor_ok q l"
  shows "(decode_user_cursor D filters visible (Some x) = Inr (Some c) \<longleftrightarrow> x = encode_user_cursor filters visible c)
    \<and> (decode_log_cursor D q path (Some x) = Inr (Some l) \<longleftrightarrow> x = encode_log_cursor q path l)"
  using user_codec.decode_exact [OF assms(1), of D filters visible x] log_codec.decode_exact [OF assms(2), of D path x]
  by (auto simp: decode_user_cursor_def decode_log_cursor_def split: option.splits)

theorem bound_cursors_exact_witness:
  "decode_user_cursor strict_decoders \<lparr>uf_email = None, uf_role = None, uf_status = None\<rparr> None
       (Some (encode_user_cursor \<lparr>uf_email = None, uf_role = None, uf_status = None\<rparr> None (0, 7))) = Inr (Some (0, 7))
   \<and> decode_log_cursor strict_decoders \<lparr>aq_source = None, aq_change_set = Some 1, aq_filters = no_filters\<rparr> (lit ''/logs'')
       (Some (encode_log_cursor \<lparr>aq_source = None, aq_change_set = Some 1, aq_filters = no_filters\<rparr> (lit ''/logs'')
          \<lparr>cu_changed_at = 0, cu_source = MasterCodeSource, cu_id = 7\<rparr>))
       = Inr (Some \<lparr>cu_changed_at = 0, cu_source = MasterCodeSource, cu_id = 7\<rparr>)"
proof -
  have "datetime_range (fst (0, 7 :: uuid))" by (simp add: datetime_range_def)
  moreover have "log_cursor_ok \<lparr>aq_source = None, aq_change_set = Some 1, aq_filters = no_filters\<rparr>
      \<lparr>cu_changed_at = 0, cu_source = MasterCodeSource, cu_id = 7\<rparr>"
    by (simp add: log_cursor_ok_def datetime_range_def)
  ultimately show ?thesis using bound_cursors_exact by blast
qed

end
