(* ===== verification/Operations.thy ===== *)
theory Operations
  imports Account_Http "HOL-Library.Sublist"
begin

text \<open>
  Operational events and mail: the bounded queue between the request handlers and the thread that
  writes the log (\<open>operational_events.py\<close>), the mails that carry tokens (\<open>email_delivery.py\<close>) and the health
  endpoints (\<open>health.py\<close>).

  The queue is a state machine: the event loop starts it, hands events over and closes it, and the
  worker thread takes and writes them, in any interleaving. Its promise is best effort: what is written is a
  subsequence of what was emitted, in that order.
\<close>

section \<open>The event queue\<close>

datatype 'e worker = NotStarted | Waiting | Writing 'e | Stopped

text \<open>\<open>Queue\<close> of the standard library: at most \<open>maxsize\<close> items; after \<open>shutdown()\<close> a \<open>put\<close> raises \<open>ShutDown\<close> and so
  does a \<open>get\<close> on the empty queue; \<open>shutdown(immediate=True)\<close> also discards the items. \<open>q_written\<close> are the events handed
  to the writing sink.\<close>

record 'e event_queue =
  q_capacity :: nat
  q_items :: "'e list"
  q_shutdown :: bool
  q_accepting :: bool
  q_closed :: bool
  q_worker :: "'e worker"
  q_written :: "'e list"

definition queue_init :: "int \<Rightarrow> 'e event_queue res" where
  "queue_init capacity =
     (if capacity < 1 then Inl ValueError
      else Inr \<lparr>q_capacity = nat capacity, q_items = [], q_shutdown = False, q_accepting = False, q_closed = False,
        q_worker = NotStarted, q_written = []\<rparr>)"

text \<open>\<open>start\<close>; nothing where it raises \<open>RuntimeError\<close> (closed, or the thread was started before).\<close>

definition queue_start :: "'e event_queue \<Rightarrow> 'e event_queue option" where
  "queue_start q =
     (if q_closed q then None
      else case q_worker q of
        NotStarted \<Rightarrow> Some (q\<lparr>q_worker := Waiting, q_accepting := True\<rparr>)
      | _ \<Rightarrow> None)"

definition queue_emit :: "'e \<Rightarrow> 'e event_queue \<Rightarrow> 'e event_queue" where
  "queue_emit e q =
     (if \<not> q_accepting q then q
      else if q_shutdown q \<or> q_capacity q \<le> length (q_items q) then q
      else q\<lparr>q_items := q_items q @ [e]\<rparr>)"

text \<open>The two halves of \<open>aclose\<close>, before and after the bounded wait for the worker. A grace period that is not
  finite is \<open>None\<close>.\<close>

definition closed_queue :: "'e event_queue \<Rightarrow> 'e event_queue" where
  "closed_queue q = q\<lparr>q_accepting := False, q_closed := True, q_shutdown := True\<rparr>"

definition queue_close :: "rat option \<Rightarrow> 'e event_queue \<Rightarrow> 'e event_queue res" where
  "queue_close grace q =
     (case grace of
        None \<Rightarrow> Inl ValueError
      | Some g \<Rightarrow> if g < 0 then Inl ValueError else Inr (closed_queue q))"

definition queue_discard :: "'e event_queue \<Rightarrow> 'e event_queue" where
  "queue_discard q = q\<lparr>q_shutdown := True, q_items := []\<rparr>"

text \<open>One turn of \<open>_write_events\<close>: the \<open>get\<close>, which waits while the queue is empty and open, and the call of the sink.\<close>

definition worker_get :: "'e event_queue \<Rightarrow> 'e event_queue option" where
  "worker_get q =
     (case (q_worker q, q_items q) of
        (Waiting, e # es) \<Rightarrow> Some (q\<lparr>q_worker := Writing e, q_items := es\<rparr>)
      | (Waiting, []) \<Rightarrow> if q_shutdown q then Some (q\<lparr>q_worker := Stopped\<rparr>) else None
      | _ \<Rightarrow> None)"

definition worker_write :: "'e event_queue \<Rightarrow> 'e event_queue option" where
  "worker_write q =
     (case q_worker q of
        Writing e \<Rightarrow> Some (q\<lparr>q_worker := Waiting, q_written := q_written q @ [e]\<rparr>)
      | _ \<Rightarrow> None)"

text \<open>The second argument is what has been emitted so far, dropped events included.\<close>

inductive queue_run :: "int \<Rightarrow> 'e list \<Rightarrow> 'e event_queue \<Rightarrow> bool" for capacity where
  init: "queue_init capacity = Inr q \<Longrightarrow> queue_run capacity [] q"
| start: "\<lbrakk>queue_run capacity es q; queue_start q = Some q'\<rbrakk> \<Longrightarrow> queue_run capacity es q'"
| emit: "queue_run capacity es q \<Longrightarrow> queue_run capacity (es @ [e]) (queue_emit e q)"
| close: "\<lbrakk>queue_run capacity es q; queue_close grace q = Inr q'\<rbrakk> \<Longrightarrow> queue_run capacity es q'"
| discard: "\<lbrakk>queue_run capacity es q; q_closed q\<rbrakk> \<Longrightarrow> queue_run capacity es (queue_discard q)"
| worker_gets: "\<lbrakk>queue_run capacity es q; worker_get q = Some q'\<rbrakk> \<Longrightarrow> queue_run capacity es q'"
| worker_writes: "\<lbrakk>queue_run capacity es q; worker_write q = Some q'\<rbrakk> \<Longrightarrow> queue_run capacity es q'"

definition in_flight :: "'e event_queue \<Rightarrow> 'e list" where
  "in_flight q = (case q_worker q of Writing e \<Rightarrow> [e] | _ \<Rightarrow> [])"

definition queue_ok :: "int \<Rightarrow> 'e list \<Rightarrow> 'e event_queue \<Rightarrow> bool" where
  "queue_ok capacity es q \<longleftrightarrow>
     1 \<le> capacity \<and> q_capacity q = nat capacity \<and> length (q_items q) \<le> nat capacity
     \<and> subseq (q_written q @ in_flight q @ q_items q) es \<and> q_shutdown q = q_closed q
     \<and> (q_accepting q \<longleftrightarrow> q_worker q \<noteq> NotStarted \<and> \<not> q_closed q)
     \<and> (q_worker q = Stopped \<longrightarrow> q_closed q \<and> q_items q = [])"

lemma subseq_discard:
  assumes "subseq (xs @ ys @ zs) es"
  shows "subseq (xs @ ys) es"
proof (rule subseq_order.trans [OF _ assms])
  show "subseq (xs @ ys) (xs @ ys @ zs)" by (metis append_assoc list_emb_prefix subseq_order.refl prefixI prefix_imp_subseq)
qed

lemma queue_run_ok: "queue_run capacity es q \<Longrightarrow> queue_ok capacity es q"
proof (induction rule: queue_run.induct)
  case (init q)
  then show ?case by (auto simp: queue_init_def queue_ok_def in_flight_def split: if_splits)
next
  case (start es q q')
  then show ?case by (auto simp: queue_start_def queue_ok_def in_flight_def split: if_splits worker.splits)
next
  case (emit es q e)
  then have sub: "subseq (q_written q @ in_flight q @ q_items q) es" by (simp add: queue_ok_def)
  then have "subseq ((q_written q @ in_flight q @ q_items q) @ [e]) (es @ [e])"
    by (rule list_emb_append_mono) simp
  moreover have "subseq (q_written q @ in_flight q @ q_items q) (es @ [e])"
    using list_emb_append_mono [OF sub, of "[]" "[e]"] by simp
  ultimately show ?case using emit.IH by (auto simp: queue_emit_def queue_ok_def in_flight_def)
next
  case (close es q grace q')
  then have "q' = closed_queue q" by (auto simp: queue_close_def split: option.splits if_splits)
  then show ?case using close.IH by (auto simp: closed_queue_def queue_ok_def in_flight_def)
next
  case (discard es q)
  then show ?case using subseq_discard by (auto simp: queue_discard_def queue_ok_def in_flight_def)
next
  case (worker_gets es q q')
  then show ?case by (auto simp: worker_get_def queue_ok_def in_flight_def split: worker.splits list.splits if_splits)
next
  case (worker_writes es q q')
  then show ?case by (auto simp: worker_write_def queue_ok_def in_flight_def split: worker.splits)
qed

text \<open>\<open>_write_events\<close> after the queue was closed, with fuel for its turns.\<close>

fun drain :: "nat \<Rightarrow> 'e event_queue \<Rightarrow> 'e event_queue option" where
  "drain 0 q = None"
| "drain (Suc n) q =
     (case q_worker q of
        Stopped \<Rightarrow> Some q
      | Writing _ \<Rightarrow> Option.bind (worker_write q) (drain n)
      | _ \<Rightarrow> Option.bind (worker_get q) (drain n))"

lemma drain_next: "q_worker q = Waiting \<Longrightarrow> q_items q = e # es \<Longrightarrow>
    drain (Suc (Suc n)) q = drain n (q\<lparr>q_items := es, q_written := q_written q @ [e]\<rparr>)"
  by (cases q) (simp add: worker_get_def worker_write_def)

lemma drain_write: "q_worker q = Writing e \<Longrightarrow>
    drain (Suc n) q = drain n (q\<lparr>q_worker := Waiting, q_written := q_written q @ [e]\<rparr>)"
  by (simp add: worker_write_def)

lemma drain_stopped: "q_worker q = Stopped \<Longrightarrow> drain (Suc n) q = Some q"
  by simp

lemma drain_waiting:
  assumes "q_shutdown q" "q_worker q = Waiting" "2 * length (q_items q) + 1 < n"
  shows "\<exists>q'. drain n q = Some q' \<and> q_worker q' = Stopped \<and> q_items q' = [] \<and> q_written q' = q_written q @ q_items q"
  using assms
proof (induction "q_items q" arbitrary: q n)
  case Nil
  then obtain m where n: "n = Suc (Suc m)" by (cases n; cases "n - 1") auto
  show ?case using Nil.prems Nil.hyps [symmetric] by (simp add: n worker_get_def)
next
  case (Cons e es)
  from Cons.hyps(2) have items: "q_items q = e # es" by simp
  with Cons.prems(3) obtain m where n: "n = Suc (Suc m)" by (cases n; cases "n - 1") auto
  let ?q = "q\<lparr>q_items := es, q_written := q_written q @ [e]\<rparr>"
  have "\<exists>q'. drain m ?q = Some q' \<and> q_worker q' = Stopped \<and> q_items q' = [] \<and> q_written q' = q_written ?q @ q_items ?q"
    by (rule Cons.hyps(1)) (use Cons.prems items n in simp_all)
  then show ?case by (simp add: n drain_next [OF Cons.prems(2) items] items del: drain.simps)
qed

lemma drain_closed:
  assumes "queue_ok capacity es q" "q_worker q \<noteq> NotStarted"
  shows "\<exists>q'. drain (Suc (2 * length (q_items q) + 3)) (closed_queue q) = Some q' \<and> q_worker q' = Stopped \<and> q_items q' = []
      \<and> q_written q' = q_written q @ in_flight q @ q_items q"
proof (cases "q_worker q")
  case Waiting
  then show ?thesis using drain_waiting [of "closed_queue q" "Suc (2 * length (q_items q) + 3)"]
    by (simp add: closed_queue_def in_flight_def del: drain.simps)
next
  case (Writing x)
  let ?q = "(closed_queue q)\<lparr>q_worker := Waiting, q_written := q_written q @ [x]\<rparr>"
  have "drain (Suc (2 * length (q_items q) + 3)) (closed_queue q) = drain (2 * length (q_items q) + 3) ?q"
    using Writing by (subst drain_write [where e = x]) (simp_all add: closed_queue_def del: drain.simps)
  then show ?thesis using drain_waiting [of ?q "2 * length (q_items q) + 3"] Writing
    by (simp add: closed_queue_def in_flight_def del: drain.simps)
next
  case Stopped
  then have "drain (Suc (2 * length (q_items q) + 3)) (closed_queue q) = Some (closed_queue q)"
    by (intro drain_stopped) (simp add: closed_queue_def)
  then show ?thesis using assms(1) Stopped by (simp add: closed_queue_def in_flight_def queue_ok_def del: drain.simps)
qed (use assms(2) in simp)


definition sample_queue :: "nat event_queue" where
  "sample_queue = \<lparr>q_capacity = 1, q_items = [8], q_shutdown = False, q_accepting = True, q_closed = False,
     q_worker = Writing 7, q_written = []\<rparr>"

text \<open>Three events against a queue for one: the thread takes the first, the second waits, the third is dropped.\<close>

lemma sample_queue_run: "queue_run 1 [7, 8, 9] sample_queue"
proof -
  let ?new = "\<lparr>q_capacity = 1, q_items = [], q_shutdown = False, q_accepting = False, q_closed = False, q_worker = NotStarted, q_written = []\<rparr> :: nat event_queue"
  have "queue_run 1 [] ?new" by (rule queue_run.init) (simp add: queue_init_def)
  then have "queue_run 1 [] (?new\<lparr>q_worker := Waiting, q_accepting := True\<rparr>)"
    by (rule queue_run.start) (simp add: queue_start_def)
  from queue_run.emit [OF this, of 7] have "queue_run 1 [7] (?new\<lparr>q_worker := Waiting, q_accepting := True, q_items := [7]\<rparr>)"
    by (simp add: queue_emit_def)
  then have "queue_run 1 [7] (?new\<lparr>q_worker := Writing 7, q_accepting := True\<rparr>)"
    by (rule queue_run.worker_gets) (simp add: worker_get_def)
  from queue_run.emit [OF this, of 8] have "queue_run 1 [7, 8] sample_queue"
    by (simp add: queue_emit_def sample_queue_def)
  from queue_run.emit [OF this, of 9] show ?thesis
    by (simp add: queue_emit_def sample_queue_def)
qed


section \<open>Mail\<close>

text \<open>The standard library and the package \<open>idna\<close>: \<open>urlsplit\<close> with the parts that must be absent, \<open>ip_address\<close> with \<open>str\<close> of its
  result, marked for IPv6, and \<open>idna.encode\<close>; \<open>None\<close> where they raise.\<close>

record full_url = url_parts +
  fu_username :: "pystr option"
  fu_password :: "pystr option"
  fu_query :: pystr
  fu_fragment :: pystr

record mail_lib =
  ma_split :: "pystr \<Rightarrow> full_url option"
  ma_ip :: "pystr \<Rightarrow> (bool \<times> pystr) option"
  ma_idna :: "pystr \<Rightarrow> pystr option"

text \<open>The characters \<open>str.strip\<close> removes.\<close>

definition py_space :: "nat \<Rightarrow> bool" where
  "py_space c \<longleftrightarrow> (9 \<le> c \<and> c \<le> 13) \<or> (28 \<le> c \<and> c \<le> 32) \<or> (8192 \<le> c \<and> c \<le> 8202)
     \<or> c \<in> {133, 160, 5760, 8232, 8233, 8239, 8287, 12288}"

definition ascii_lower :: "nat \<Rightarrow> nat" where
  "ascii_lower c = (if 65 \<le> c \<and> c \<le> 90 then c + 32 else c)"

definition host_char :: "nat \<Rightarrow> bool" where
  "host_char c \<longleftrightarrow> (48 \<le> c \<and> c \<le> 57) \<or> (65 \<le> c \<and> c \<le> 90) \<or> (97 \<le> c \<and> c \<le> 122) \<or> c = 45"

definition host_label :: "pystr \<Rightarrow> bool" where
  "host_label l \<longleftrightarrow> l \<noteq> [] \<and> length l \<le> 63 \<and> hd l \<noteq> 45 \<and> last l \<noteq> 45 \<and> list_all host_char l"

definition normalize_network_host :: "mail_lib \<Rightarrow> pystr \<Rightarrow> pystr res" where
  "normalize_network_host M v =
     (if v = [] \<or> py_space (hd v) \<or> py_space (last v) \<or> 37 \<in> set v then Inl ValueError
      else case ma_ip M v of
        Some (_, address) \<Rightarrow> Inr address
      | None \<Rightarrow>
          (case ma_idna M v of
             None \<Rightarrow> Inl ValueError
           | Some encoded \<Rightarrow>
               let lowered = map ascii_lower encoded;
                   host = (if lowered \<noteq> [] \<and> last lowered = 46 then butlast lowered else lowered) in
               if host = [] \<or> length host > 253 \<or> \<not> list_all host_label (split_at 46 host) then Inl ValueError
               else Inr host))"

definition format_url_host :: "mail_lib \<Rightarrow> pystr \<Rightarrow> pystr res" where
  "format_url_host M v =
     bindE (normalize_network_host M v) (\<lambda>normalized.
       case ma_ip M normalized of
         Some (True, _) \<Rightarrow> Inr (lit ''['' @ normalized @ lit '']'')
       | _ \<Rightarrow> Inr normalized)"

text \<open>\<open>None\<close>: \<open>EmailDeliveryConfigurationError\<close>.\<close>

definition validate_public_app_origin :: "mail_lib \<Rightarrow> pystr \<Rightarrow> pystr option" where
  "validate_public_app_origin M v =
     (case ma_split M v of
        None \<Rightarrow> None
      | Some parsed \<Rightarrow>
          (case up_port parsed of
             None \<Rightarrow> None
           | Some port \<Rightarrow>
               (case up_hostname parsed of
                  None \<Rightarrow> None
                | Some name \<Rightarrow>
                    if up_scheme parsed \<noteq> lit ''https'' \<or> fu_username parsed \<noteq> None \<or> fu_password parsed \<noteq> None
                      \<or> up_path parsed \<notin> {[], lit ''/''} \<or> fu_query parsed \<noteq> [] \<or> fu_fragment parsed \<noteq> []
                    then None
                    else case format_url_host M name of
                      Inl _ \<Rightarrow> None
                    | Inr host \<Rightarrow>
                        Some (lit ''https://''
                          @ (case port of None \<Rightarrow> host | Some p \<Rightarrow> if p = 443 then host else host @ lit '':'' @ str_int p)))))"

record rendered_email =
  re_recipient :: pystr
  re_subject :: string
  re_url :: pystr
  re_body :: pystr

text \<open>The Korean texts are given in English; \<open>re_url\<close> is the link inside the body.\<close>

definition render :: "pystr \<Rightarrow> mail \<Rightarrow> rendered_email" where
  "render origin m =
     (let (subject, route, introduction) =
        (case ml_kind m of
           REGISTRATION_MAIL \<Rightarrow> (''Confirm your registration'', ''/auth/registration'', ''Open the link below to finish your registration.'')
         | PASSWORD_RESET_MAIL \<Rightarrow> (''Reset your password'', ''/auth/password-reset'', ''Open the link below to reset your password.''));
        url = origin @ lit route @ lit ''#token='' @ ml_token m in
      \<lparr>re_recipient = ml_recipient m, re_subject = subject, re_url = url,
       re_body = lit introduction @ [10, 10] @ url @ [10]\<rparr>)"

text \<open>What the command of \<open>aiosmtplib\<close> reports: the refused recipients, or the exception it raises.\<close>

datatype smtp_report = SmtpErrors "pystr list" | SmtpTimeout | SmtpFailure | SmtpOther exn

definition smtp_send :: "(rendered_email \<Rightarrow> smtp_report) \<Rightarrow> pystr \<Rightarrow> mail \<Rightarrow> delivery_status res" where
  "smtp_send command origin m =
     (case command (render origin m) of
        SmtpErrors errors \<Rightarrow> Inr (if errors = [] then SENT else REJECTED)
      | SmtpTimeout \<Rightarrow> Inr TIMED_OUT
      | SmtpFailure \<Rightarrow> Inr REJECTED
      | SmtpOther err \<Rightarrow> Inl err)"

text \<open>The token is in the fragment of the link, which a browser does not send: before the first \<open>#\<close> the link is the validated
  origin and the route.\<close>

lemma format_url_host_no_hash:
  assumes "format_url_host M v = Inr host" "\<And>w b a. ma_ip M w = Some (b, a) \<Longrightarrow> 35 \<notin> set a"
  shows "35 \<notin> set host"
proof -
  have parts: "\<Union> (set ` set (split_at 46 h)) \<union> {46} \<supseteq> set h" for h
    by (induction h) (auto split: list.splits, blast)
  have "host_label l \<Longrightarrow> 35 \<notin> set l" for l by (auto simp: host_label_def host_char_def list_all_iff)
  then have labels: "list_all host_label (split_at 46 h) \<Longrightarrow> 35 \<notin> set h" for h
    using parts [of h] by (fastforce simp: list_all_iff)
  obtain n where n: "normalize_network_host M v = Inr n" and host: "host = n \<or> host = lit ''['' @ n @ lit '']''"
    using assms(1) by (auto simp: format_url_host_def bindE_def split: sum.splits option.splits bool.splits)
  have "35 \<notin> set n"
    using n labels assms(2) by (auto simp: normalize_network_host_def Let_def split: if_splits option.splits)
  then show ?thesis using host by (auto simp: lit_def)
qed

lemma mail_link_fragment:
  assumes "validate_public_app_origin M base = Some origin" "\<And>w b a. ma_ip M w = Some (b, a) \<Longrightarrow> 35 \<notin> set a"
  shows "\<exists>route. takeWhile (\<lambda>c. c \<noteq> 35) (re_url (render origin m)) = origin @ route
    \<and> dropWhile (\<lambda>c. c \<noteq> 35) (re_url (render origin m)) = lit ''#token='' @ ml_token m"
proof -
  have digits: "35 \<notin> set (str_int p)" for p
    using str_int_chars [of p] by auto
  have "35 \<notin> set origin"
    using assms(1) format_url_host_no_hash [of M] assms(2) digits
    by (auto simp: validate_public_app_origin_def lit_def split: option.splits if_splits sum.splits)
  then show ?thesis
    by (intro exI [of _ "case ml_kind m of REGISTRATION_MAIL \<Rightarrow> lit ''/auth/registration'' | PASSWORD_RESET_MAIL \<Rightarrow> lit ''/auth/password-reset''"])
      (auto simp: render_def lit_def takeWhile_append dropWhile_append split: mail_kind.splits)
qed

section \<open>Health\<close>

text \<open>Status and message of \<open>HealthResponse\<close>. The probe of the database answers or not.\<close>

definition get_liveness :: "(string \<times> string) response" where
  "get_liveness = json_response 200 [] (''ok'', ''The service is running.'')"

definition get_readiness :: "bool \<Rightarrow> (string \<times> string) response api" where
  "get_readiness reachable =
     (if reachable then Inr (json_response 200 [] (''ok'', ''The service is ready to process requests.'')) else Inl ReadinessUnavailable)"

end
