(* ===== verification/Spec2Isabelle.thy ===== *)
theory Spec2Isabelle
  imports Master_Code_Api Change_Request_Api Account_Http Query_Api Operations
begin

text \<open>
  Verification of the MDM API, a master data management service (Python, FastAPI, SQLAlchemy,
  PostgreSQL). The service keeps eight tables of Dimensions (company, brand, model, category,
  year, memory, network, country) and the MasterCodes composed of one Dimension, or none, per
  slot. Users propose MasterCode changes as change requests; administrators review them or
  change Dimensions and MasterCodes directly. Every change is versioned and written to an
  append-only log by database triggers. Users register by mail, sign in with a password, keep a
  session by rotating refresh tokens, and are managed by administrators; changes of roles, status and
  passwords are written to a security log.

  \<^bold>\<open>Parts and theories\<close> (paths below \<open>src/src/mdm/\<close> unless they start with \<open>alembic/\<close>)

  \<^item> \<open>Prelude\<close>, \<open>Errors\<close>: results with exceptions as values (\<open>'a res\<close>), Python values of unchecked
    type, time stamps, the exceptions of all parts. \<open>Text\<close>, \<open>Sha256\<close>: code points, JSON text, UUID
    text, SHA-256 on 32-bit words.
  \<^item> \<open>Normalization\<close>, \<open>Dimensions\<close>, \<open>Lifecycle\<close>, \<open>Dimension_Laws\<close>: \<open>domain/dimensions.py\<close>. \<open>Lifecycle\<close>
    states the contract of deletable, versioned state as a locale; Dimensions and MasterCodes
    interpret it.
  \<^item> \<open>Slots\<close>, \<open>MasterCodes\<close>, \<open>MasterCode_Laws\<close>: \<open>domain/master_codes.py\<close>.
  \<^item> \<open>Auth\<close>, \<open>Audit_Metadata\<close>: \<open>domain/auth.py\<close>, \<open>application/authorization.py\<close>, \<open>domain/audit.py\<close>,
    \<open>application/audit.py\<close>, \<open>infrastructure/uuid7.py\<close>.
  \<^item> \<open>Store\<close>, \<open>Store_Laws\<close>, \<open>Write_Laws\<close>, \<open>Coherence\<close>, \<open>Context_Laws\<close>: the tables of
    \<open>infrastructure/models.py\<close> with the constraints and triggers of \<open>alembic/versions\<close>, as functions
    on one database record. The invariant of the tables is split: \<open>enforced\<close> is what the database
    itself keeps under every write, \<open>coherent\<close> (stored codes are composed of the current Dimension
    codes, active MasterCodes have active Dimensions) is what the application has to keep.
  \<^item> \<open>Dimension_Repo\<close>, \<open>Dimension_UseCases\<close>, \<open>Dimension_Repo_Laws\<close>, \<open>Dimension_Repo_Ops\<close>,
    \<open>Dimension_Lifecycle_Laws\<close>, \<open>Dimension_Service\<close>, \<open>Dimension_Properties\<close>: the four Dimension
    repositories of \<open>infrastructure/repositories\<close>, \<open>dimension_lifecycle.py\<close> and the use cases over
    them. The repository interface is a locale, interpreted for every slot.
  \<^item> \<open>MasterCode_Repo\<close>, \<open>MasterCode_UseCases\<close>, \<open>MasterCode_Repo_Laws\<close>, \<open>MasterCode_References\<close>,
    \<open>MasterCode_Creation\<close>, \<open>MasterCode_Properties\<close>, \<open>MasterCode_Changes\<close>:
    \<open>infrastructure/repositories/master_codes.py\<close>, \<open>application/master_codes.py\<close> and
    \<open>application/master_code_lifecycle.py\<close>.
  \<^item> \<open>Change_Requests\<close>, \<open>Change_Request_Repo\<close>: \<open>domain/change_requests.py\<close>,
    \<open>application/change_requests.py\<close>, \<open>infrastructure/repositories/change_requests.py\<close> and
    \<open>alembic/versions/20260915_0013\<close>. \<open>Change_Request_Laws\<close>, \<open>_Approval\<close>, \<open>_Rows\<close>, \<open>_Review\<close>,
    \<open>_Outcome\<close>: what locking, applying and recording do. \<open>Change_Request_Refinement\<close>: an approval
    refines the direct operation.
  \<^item> \<open>Credentials\<close>, \<open>Passwords\<close>: \<open>domain/credentials.py\<close> (base64url tokens of 256 bits and their digests) and
    \<open>infrastructure/passwords.py\<close>. \<open>Accounts\<close>: the account tables of \<open>infrastructure/models.py\<close> and
    \<open>alembic/versions\<close> 0001, 0015, 0017, 0018 with their constraints, and the user repository.
  \<^item> \<open>Sessions\<close>, \<open>Password_Lifecycle\<close>, \<open>Registrations\<close>, \<open>User_Management\<close>: \<open>application/sessions.py\<close>,
    \<open>password_lifecycle.py\<close>, \<open>registrations.py\<close>, \<open>user_management.py\<close>, \<open>bootstrap.py\<close>, \<open>tokens.py\<close>, with the
    repositories of the same names. A use case returns its result, the tables and the operational
    events it emits.
  \<^item> \<open>Account_Moves\<close>: the abstract account machine, thirteen moves on the tables (open, rotate and end a
    session, open and close a challenge, add and modify a user). \<open>Account_Laws\<close>, \<open>Account_Refinement\<close>: every use case
    makes one of them or none. \<open>Account_Invariants\<close>, \<open>Account_System\<close>: what the moves keep, the reachable states and
    what grows monotonically. \<open>Account_Properties\<close>, \<open>Account_Guarantees\<close>, \<open>Account_Samples\<close>: the
    properties of the use cases and of the reachable states, and a run from empty tables at which they are applied.
  \<^item> \<open>Access_Tokens\<close>: \<open>infrastructure/jwt.py\<close> and the authentication of a request in \<open>application/auth.py\<close>.
    \<open>Rate_Limits\<close>, \<open>Request_Protection\<close>: \<open>infrastructure/rate_limits.py\<close>, \<open>application/request_protection.py\<close>,
    \<open>origins.py\<close>, \<open>browser_policy.py\<close>, \<open>infrastructure/request_protection.py\<close>, \<open>auth_protection.py\<close>.
  \<^item> \<open>Keyset\<close>: pages after a cursor, with their contract as a locale. \<open>User_Queries\<close>
    (\<open>application/admin_users.py\<close> and its repository) and \<open>Audit_Logs\<close> (\<open>application/audit_logs.py\<close> and its
    repository) interpret it.
  \<^item> \<open>History\<close>: every write only appends to the logs, under the change set and the actor of its request.
    \<open>System\<close>, \<open>System_Requests\<close>: the service as a step relation, its reachable states, and the
    properties that hold in all of them.
  \<^item> \<open>Http\<close>, \<open>Api_Errors\<close>: requests, responses, the precondition header (\<open>api/preconditions.py\<close>) and the exception
    handlers with their registration (\<open>api/errors.py\<close>). \<open>Calendar\<close>, \<open>Cursor\<close>: ISO 8601 texts of instants and the
    base64url texts of cursors. \<open>Dimension_Api\<close>, \<open>Dimension_Http\<close>: \<open>api/dimensions.py\<close>,
    \<open>string_dimensions.py\<close>, \<open>numeric_dimensions.py\<close>, \<open>memory_dimensions.py\<close>, \<open>dimension_lifecycle.py\<close>.
    \<open>Master_Code_Api\<close>, \<open>Change_Request_Api\<close>: \<open>api/master_codes.py\<close>, \<open>master_code_lifecycle.py\<close>,
    \<open>change_requests.py\<close>. \<open>Account_Api\<close>, \<open>Account_Http\<close>: \<open>api/sessions.py\<close>, \<open>session_cookies.py\<close>, \<open>session_errors.py\<close>,
    \<open>registrations.py\<close>, \<open>password_lifecycle.py\<close>, \<open>user_management.py\<close>, \<open>auth.py\<close> and the protected route of
    \<open>api/request_protection.py\<close>, composed into a site whose clients call it one request after the other. \<open>Query_Api\<close>:
    \<open>api/admin_users.py\<close>, \<open>api/audit_logs.py\<close>; the texts of their cursors share the locale \<open>bound_codec\<close>.
  \<^item> \<open>Operations\<close>: the event queue and its writing thread (\<open>infrastructure/operational_events.py\<close>), mails
    (\<open>infrastructure/email_delivery.py\<close>, \<open>network_values.py\<close>) and the health endpoints.

  \<^bold>\<open>How code becomes definitions.\<close> A use case is a function from its arguments, the values the
  environment supplies (new identifiers, clock readings, the next change-set id: the records \<open>env\<close>,
  \<open>mc_env\<close>, \<open>review_env\<close> and the argument \<open>cs\<close>) and the database to a result or an exception; a
  transaction that raises leaves the database as it was. An operation that reads without locks
  and then locks takes two databases: \<open>d0\<close>, seen by the first read, and \<open>d\<close>, seen under the locks, so
  that whatever other transactions did in between is any difference of the two. Strings are
  lists of code points; the Korean messages of exceptions are constructors. NFC normalization,
  case folding, the address and URL parsers, the password hasher and the JWT package are
  parameters, as the code is not part of the repository; what a property needs of them is a
  hypothesis (\<open>jwt_contract\<close>). An endpoint takes the principal and the payload as the framework parsed them, each of
  which may be an exception, and returns a response or an exception, which \<open>handle_exception\<close> turns into the response of the
  registered handler. Readings of the monotonic clock are rational numbers.

  \<^bold>\<open>What is shown.\<close> For the domain: exact acceptance of codes and values, bounds, unambiguous
  composition, what an ETag identifies, every branch of the state transitions. For the data
  operations: the outcome of each request on every branch, that reads before locks are harmless
  (\<open>master_code_changes_serializable\<close>), that an ETag admits one change, that cursors visit each
  active row once. For change requests: an approval is the direct operation plus its record, a
  request is reviewed at most once. For the whole service, by rule induction over its steps: the
  stored data is consistent, the logs are complete, append-only and attributed, and every
  approved request has its log row. For accounts: the outcome of a refresh on every branch, what a successful
  login, reset and registration requires and stores, that ended credentials stay ended whatever
  happens later, that a user has at most one session and a disabled one none, and that replaying
  the security log gives the current roles and states. An access token speaks for its user for its lifetime only;
  the quota in front of the credential routes admits thirty requests per window and client; the bounded
  audit and user queries return the pages of one sorted list. For the HTTP layer: which precondition headers and
  cursor texts are accepted, that following the cursors of a list visits every active row once, that an update succeeds for
  the current version only and answers with the next one, that a submitted request is found by its location, that every exception
  gets a documented response, and that the cookies a client holds are those of an open session or none. For
  the event queue: order and bound in every interleaving, and what is written when it is closed. Every loop is
  structural recursion over the slots, the locked rows, the digits, the bytes or the four attempts of issuing a token; only the
  writing thread, which waits for events, has fuel, and two turns per queued event and four more are shown to be
  enough once the queue is closed.

  \<^bold>\<open>Not modelled.\<close> What the framework does in front of the endpoints (routing, the parsing of bodies and query parameters by
  Pydantic, the resolution of the client address) and the generated documentation (\<open>api/openapi.py\<close> and the response
  tables of the routes); settings, the command line, the key files and the database connection, which call libraries and keep no
  state; index definitions of the tables. The database is assumed reachable: the unavailability errors of the
  repositories occur only where a constraint is violated.
\<close>

end
